(* ===== verification/Prelude.thy ===== *)
theory Prelude
  imports Complex_Main "HOL-Library.Word" "HOL-Library.AList"
begin

text \<open>
  What every component theory shares: results of code that may throw, optional values, the
  JavaScript string and map operations the sources use, and the lemmas about them that the
  component proofs apply automatically.

  A thrown \<open>Error\<close> is the left value of a sum and carries the message; \<open>res_bind\<close> is the
  sequencing of two statements of which the first may throw.  A property that may be
  \<open>undefined\<close> or \<open>null\<close> is an \<open>option\<close>, and \<open>a ?? b\<close> is \<open>coalesce\<close> or \<open>or_else\<close>.
  A string is a list of bytes, its UTF-8 text.
\<close>

named_theorems res_simps \<open>characteristic equations and inversions of results\<close>

section \<open>Results\<close>

type_synonym js_error = string

definition res_bind :: "'e + 'a \<Rightarrow> ('a \<Rightarrow> 'e + 'b) \<Rightarrow> 'e + 'b" where
  "res_bind m f = (case m of Inl e \<Rightarrow> Inl e | Inr x \<Rightarrow> f x)"

lemma res_bind_simps [simp, res_simps]:
  "res_bind (Inl e) f = Inl e"
  "res_bind (Inr x) f = f x"
  by (simp_all add: res_bind_def)

lemma res_bind_Inr_iff [res_simps]:
  "res_bind m f = Inr y \<longleftrightarrow> (\<exists>x. m = Inr x \<and> f x = Inr y)"
  by (cases m) auto

lemma res_bind_Inl_iff:
  "res_bind m f = Inl e \<longleftrightarrow> m = Inl e \<or> (\<exists>x. m = Inr x \<and> f x = Inl e)"
  by (cases m) auto

lemma res_if_Inr [res_simps]: "(if b then Inl e else m) = Inr y \<longleftrightarrow> \<not> b \<and> m = Inr y"
  by simp

lemma res_bind_assoc: "res_bind (res_bind m f) g = res_bind m (\<lambda>x. res_bind (f x) g)"
  by (cases m) simp_all

lemma res_bind_cong [fundef_cong]:
  "m = m' \<Longrightarrow> (\<And>x. m' = Inr x \<Longrightarrow> f x = f' x) \<Longrightarrow> res_bind m f = res_bind m' f'"
  by (cases m') auto

text \<open>A guard that throws: \<open>if (!b) throw new Error(e)\<close>.\<close>

definition ensure :: "bool \<Rightarrow> 'e \<Rightarrow> 'e + unit" where
  "ensure b e = (if b then Inr () else Inl e)"

lemma ensure_Inr_iff [simp, res_simps]: "ensure b e = Inr u \<longleftrightarrow> b"
  by (simp add: ensure_def)

lemma ensure_True [simp, res_simps]: "ensure True e = Inr ()"
  by (simp add: ensure_def)

lemma ensure_False [simp, res_simps]: "ensure False e = Inl e"
  by (simp add: ensure_def)

text \<open>A loop that maps a function which may throw: it stops at the first error.\<close>

fun res_map :: "('a \<Rightarrow> 'e + 'b) \<Rightarrow> 'a list \<Rightarrow> 'e + 'b list" where
  "res_map f [] = Inr []"
| "res_map f (x # xs) = res_bind (f x) (\<lambda>y. res_bind (res_map f xs) (\<lambda>ys. Inr (y # ys)))"

lemma res_map_Inr_list_all2:
  "res_map f xs = Inr ys \<longleftrightarrow> list_all2 (\<lambda>x y. f x = Inr y) xs ys"
  by (induction xs arbitrary: ys) (auto simp: res_simps list_all2_Cons1)

lemma res_map_length: "res_map f xs = Inr ys \<Longrightarrow> length ys = length xs"
  by (auto simp: res_map_Inr_list_all2 dest: list_all2_lengthD)

lemma res_map_Inr_map: "(\<And>x. x \<in> set xs \<Longrightarrow> f x = Inr (g x)) \<Longrightarrow> res_map f xs = Inr (map g xs)"
  by (induction xs) simp_all

lemma res_map_nth: "res_map f xs = Inr ys \<Longrightarrow> i < length xs \<Longrightarrow> f (xs ! i) = Inr (ys ! i)"
  by (auto simp: res_map_Inr_list_all2 dest: list_all2_nthD)

lemma res_map_ex_Inr: "(\<And>x. x \<in> set xs \<Longrightarrow> \<exists>y. f x = Inr y) \<Longrightarrow> \<exists>ys. res_map f xs = Inr ys"
  by (induction xs) (auto simp: res_simps)

section \<open>Optional values\<close>

definition coalesce :: "'a option \<Rightarrow> 'a \<Rightarrow> 'a" where
  "coalesce x d = (case x of None \<Rightarrow> d | Some v \<Rightarrow> v)"

definition or_else :: "'a option \<Rightarrow> 'a option \<Rightarrow> 'a option" where
  "or_else x y = (case x of None \<Rightarrow> y | Some v \<Rightarrow> Some v)"

lemma coalesce_simps [simp]: "coalesce None d = d" "coalesce (Some v) d = v"
  by (simp_all add: coalesce_def)

lemma or_else_simps [simp]: "or_else None y = y" "or_else (Some v) y = Some v" "or_else x None = x"
  by (simp_all add: or_else_def split: option.split)

text \<open>\<open>x !== undefined && p x\<close> and \<open>x === undefined || p x\<close>.\<close>

definition some_and :: "('a \<Rightarrow> bool) \<Rightarrow> 'a option \<Rightarrow> bool" where
  "some_and p x = (case x of None \<Rightarrow> False | Some v \<Rightarrow> p v)"

definition none_or :: "('a \<Rightarrow> bool) \<Rightarrow> 'a option \<Rightarrow> bool" where
  "none_or p x = (case x of None \<Rightarrow> True | Some v \<Rightarrow> p v)"

lemma some_and_simps [simp]: "some_and p None = False" "some_and p (Some v) = p v"
  by (simp_all add: some_and_def)

lemma none_or_simps [simp]: "none_or p None = True" "none_or p (Some v) = p v"
  by (simp_all add: none_or_def)

section \<open>Strings\<close>

definition is_digit :: "char \<Rightarrow> bool" where
  "is_digit c \<longleftrightarrow> 48 \<le> (of_char c :: nat) \<and> (of_char c :: nat) \<le> 57"

definition is_lower_az :: "char \<Rightarrow> bool" where
  "is_lower_az c \<longleftrightarrow> 97 \<le> (of_char c :: nat) \<and> (of_char c :: nat) \<le> 122"

definition is_upper_az :: "char \<Rightarrow> bool" where
  "is_upper_az c \<longleftrightarrow> 65 \<le> (of_char c :: nat) \<and> (of_char c :: nat) \<le> 90"

definition digit_val :: "char \<Rightarrow> nat" where
  "digit_val c = of_char c - 48"

definition digit_char :: "nat \<Rightarrow> char" where
  "digit_char d = char_of (48 + d)"

text \<open>\<open>toLowerCase\<close> on the ASCII range.\<close>

definition to_lower :: "char \<Rightarrow> char" where
  "to_lower c = (if is_upper_az c then char_of ((of_char c :: nat) + 32) else c)"

definition starts_with :: "string \<Rightarrow> string \<Rightarrow> bool" where
  "starts_with s p \<longleftrightarrow> take (length p) s = p"

definition ends_with :: "string \<Rightarrow> string \<Rightarrow> bool" where
  "ends_with s p \<longleftrightarrow> length p \<le> length s \<and> drop (length s - length p) s = p"

fun includes_str :: "string \<Rightarrow> string \<Rightarrow> bool" where
  "includes_str [] p \<longleftrightarrow> p = []"
| "includes_str (c # s) p \<longleftrightarrow> starts_with (c # s) p \<or> includes_str s p"

text \<open>The decimal text of a non-negative integer, and \<open>BigInt(text)\<close> on decimal text.\<close>

fun show_nat :: "nat \<Rightarrow> string" where
  "show_nat n = (if n < 10 then [digit_char n] else show_nat (n div 10) @ [digit_char (n mod 10)])"

declare show_nat.simps [simp del]

definition show_int :: "int \<Rightarrow> string" where
  "show_int n = (if n < 0 then ''-'' @ show_nat (nat (- n)) else show_nat (nat n))"

definition read_nat :: "string \<Rightarrow> nat" where
  "read_nat s = foldl (\<lambda>a c. 10 * a + digit_val c) 0 s"

lemma of_char_digit_char: "d < 10 \<Longrightarrow> (of_char (digit_char d) :: nat) = 48 + d"
  by (simp add: digit_char_def of_char_of)

lemma digit_val_digit_char: "d < 10 \<Longrightarrow> digit_val (digit_char d) = d"
  by (simp add: digit_val_def of_char_digit_char)

lemma is_digit_digit_char: "d < 10 \<Longrightarrow> is_digit (digit_char d)"
  by (simp add: is_digit_def of_char_digit_char)

lemma read_show_nat: "read_nat (show_nat n) = n"
proof (induction n rule: show_nat.induct)
  case (1 n)
  show ?case
  proof (cases "n < 10")
    case True
    then show ?thesis by (simp add: show_nat.simps [of n] read_nat_def digit_val_digit_char)
  next
    case False
    with "1.IH" have "foldl (\<lambda>a c. 10 * a + digit_val c) 0 (show_nat (n div 10)) = n div 10"
      by (simp add: read_nat_def)
    with False show ?thesis
      by (simp add: show_nat.simps [of n] read_nat_def digit_val_digit_char)
  qed
qed

lemma show_nat_inject [simp]: "show_nat m = show_nat n \<longleftrightarrow> m = n"
  by (metis read_show_nat)

lemma show_nat_digits: "\<forall>c \<in> set (show_nat n). is_digit c"
proof (induction n rule: show_nat.induct)
  case (1 n)
  then show ?case by (auto simp: show_nat.simps [of n] is_digit_digit_char)
qed

lemma show_nat_not_Nil [simp]: "show_nat n \<noteq> []"
  by (subst show_nat.simps) simp

section \<open>Lists and maps\<close>

lemma sorted_wrt_less_distinct: "sorted_wrt (<) (map f xs) \<Longrightarrow> distinct (xs :: 'a list)"
  for f :: "'a \<Rightarrow> 'b :: linorder"
  by (induction xs) auto

text \<open>
  A JavaScript \<open>Map\<close> keeps its keys in the order of their first insertion: \<open>AList.update\<close>
  replaces the value of a present key in place and appends an absent one.
\<close>

lemma map_of_alist_update [simp]: "map_of (AList.update k v al) = (map_of al)(k \<mapsto> v)"
  by (rule update_conv')

lemma alist_update_keys_present:
  "k \<in> fst ` set al \<Longrightarrow> map fst (AList.update k v al) = map fst al"
  by (induction al) auto

section \<open>Listings\<close>

text \<open>\<open>xs.filter(P).sort((a, b) => f(a) - f(b)).slice(0, n)\<close>: at most \<open>n\<close> of the wanted elements, in order, and
  what is left out is no smaller than what is returned.\<close>

lemma limited_listing:
  fixes f :: "'a \<Rightarrow> 'b::linorder"
  assumes "rows = take n (sort_key f (filter P xs))"
  shows "length rows \<le> n" and "sorted (map f rows)"
    and "distinct (map g xs) \<Longrightarrow> distinct (map g rows)"
    and "r \<in> set rows \<Longrightarrow> r \<in> set xs \<and> P r"
    and "r \<in> set xs \<Longrightarrow> P r \<Longrightarrow> r \<notin> set rows \<Longrightarrow> length rows = n \<and> (\<forall>r'\<in>set rows. f r' \<le> f r)"
proof -
  let ?all = "sort_key f (filter P xs)"
  show "length rows \<le> n" by (simp add: assms)
  show "sorted (map f rows)" unfolding assms take_map [symmetric] by (rule sorted_wrt_take) simp
  show "r \<in> set rows \<Longrightarrow> r \<in> set xs \<and> P r" by (auto simp: assms dest: in_set_takeD)
  show "distinct (map g rows)" if "distinct (map g xs)"
  proof -
    from that have "distinct (map g ?all)" by (auto simp: distinct_map intro: inj_on_subset)
    then show ?thesis unfolding assms take_map [symmetric] by (rule distinct_take)
  qed
  assume r: "r \<in> set xs" "P r" "r \<notin> set rows"
  then have "r \<in> set (take n ?all @ drop n ?all)" by simp
  with r(3) have drop: "r \<in> set (drop n ?all)" unfolding assms set_append by blast
  then have "n < length ?all" by (cases "length ?all \<le> n") auto
  moreover have "sorted (map f (take n ?all) @ map f (drop n ?all))"
    by (metis append_take_drop_id map_append sorted_sort_key)
  ultimately show "length rows = n \<and> (\<forall>r'\<in>set rows. f r' \<le> f r)"
    using drop unfolding assms sorted_append by auto
qed

end
