(* ===== verification/Bytes.thy ===== *)
theory Bytes
  imports Prelude
begin

text \<open>
  \<open>packages/proof-core/src/bytes.ts\<close> and \<open>constants.ts\<close>: the fixed-width integer encodings,
  the hexadecimal text of 32-byte values, and the domain separators of the proof hashes.

  A byte is an \<open>8 word\<close> and a \<open>Uint8Array\<close> a list of them.  SHA-256 is a library function: it is
  the parameter \<open>sha\<close> of what uses it, and \<open>sha256_ok\<close> is what is relied on, its 32-byte output.
\<close>

unbundle bit_operations_syntax

type_synonym byte = "8 word"
type_synonym bytes = "byte list"
type_synonym hash_fn = "bytes \<Rightarrow> bytes"

definition sha256_ok :: "hash_fn \<Rightarrow> bool" where
  "sha256_ok sha \<longleftrightarrow> (\<forall>x. length (sha x) = 32)"

section \<open>Constants\<close>

definition U64_MAX :: int where "U64_MAX = 18446744073709551615"
definition U32_MAX :: int where "U32_MAX = 4294967295"
definition U16_MAX :: int where "U16_MAX = 65535"
definition U8_MAX :: int where "U8_MAX = 255"

definition LEAF_HASH_DOMAIN_SEPARATOR :: byte where "LEAF_HASH_DOMAIN_SEPARATOR = 0x00"
definition INTERNAL_NODE_DOMAIN_SEPARATOR :: byte where "INTERNAL_NODE_DOMAIN_SEPARATOR = 0x01"

section \<open>Integers to bytes\<close>

definition u8Byte :: "int \<Rightarrow> js_error + bytes" where
  "u8Byte n = (if n < 0 \<or> n > U8_MAX then Inl (''u8 value is outside range: '' @ show_int n) else Inr [word_of_int n])"

text \<open>
  \<open>(n >> k) & 0xff\<close> on a JavaScript number: the operand is first taken modulo \<open>2 ^ 32\<close> as a signed
  32-bit value and shifted arithmetically.
\<close>

definition js_shr_byte :: "int \<Rightarrow> nat \<Rightarrow> byte" where
  "js_shr_byte n k = ucast (signed_drop_bit k (word_of_int n :: 32 word) AND 0xff)"

definition u16LittleEndianBytes :: "int \<Rightarrow> js_error + bytes" where
  "u16LittleEndianBytes n =
     (if n < 0 \<or> n > U16_MAX then Inl (''u16 value is outside range: '' @ show_int n)
      else Inr [js_shr_byte n 0, js_shr_byte n 8])"

definition u32LittleEndianBytes :: "int \<Rightarrow> js_error + bytes" where
  "u32LittleEndianBytes n =
     (if n < 0 \<or> n > U32_MAX then Inl (''u32 value is outside range: '' @ show_int n)
      else Inr [js_shr_byte n 0, js_shr_byte n 8, js_shr_byte n 16, js_shr_byte n 24])"

text \<open>\<open>Number((value >> BigInt(k)) & 0xffn)\<close> on an unbounded integer.\<close>

definition big_shr_byte :: "int \<Rightarrow> nat \<Rightarrow> byte" where
  "big_shr_byte v k = word_of_int (drop_bit k v AND 0xff)"

definition u64LittleEndianBytes :: "int \<Rightarrow> js_error + bytes" where
  "u64LittleEndianBytes v =
     (if v < 0 \<or> v > U64_MAX then Inl (''u64 value is outside range: '' @ show_int v)
      else Inr (map (\<lambda>i. big_shr_byte v (i * 8)) [0..<8]))"

definition u64BigEndianBytes :: "int \<Rightarrow> js_error + bytes" where
  "u64BigEndianBytes v =
     (if v < 0 \<or> v > U64_MAX then Inl (''u64 value is outside range: '' @ show_int v)
      else Inr (map (\<lambda>i. big_shr_byte v ((7 - i) * 8)) [0..<8]))"

definition bytesToBigEndianU64 :: "bytes \<Rightarrow> js_error + int" where
  "bytesToBigEndianU64 bs =
     (if length bs \<noteq> 8 then Inl ''u64 byte prefix must be 8 bytes''
      else Inr (foldl (\<lambda>value b. push_bit 8 value OR uint b) 0 bs))"

section \<open>Hexadecimal text\<close>

definition hex_char :: "nat \<Rightarrow> char" where
  "hex_char d = char_of (if d < 10 then 48 + d else 87 + d)"

definition is_hex :: "char \<Rightarrow> bool" where
  "is_hex c \<longleftrightarrow> is_digit c \<or> (97 \<le> (of_char c :: nat) \<and> (of_char c :: nat) \<le> 102)
     \<or> (65 \<le> (of_char c :: nat) \<and> (of_char c :: nat) \<le> 70)"

definition is_lower_hex :: "char \<Rightarrow> bool" where
  "is_lower_hex c \<longleftrightarrow> is_digit c \<or> (97 \<le> (of_char c :: nat) \<and> (of_char c :: nat) \<le> 102)"

definition hex_val :: "char \<Rightarrow> nat" where
  "hex_val c = (if is_digit c then of_char c - 48
     else if 97 \<le> (of_char c :: nat) then of_char c - 87 else of_char c - 55)"

text \<open>\<open>byte.toString(16).padStart(2, "0")\<close>.\<close>

definition hex2 :: "byte \<Rightarrow> string" where
  "hex2 b = [hex_char (unat b div 16), hex_char (unat b mod 16)]"

definition bytesToHex :: "bytes \<Rightarrow> string" where
  "bytesToHex bs = concat (map hex2 bs)"

definition bytesToPrefixedHex :: "bytes \<Rightarrow> string" where
  "bytesToPrefixedHex bs = ''0x'' @ bytesToHex bs"

text \<open>
  \<open>Number.parseInt(s, 16)\<close>: leading white space and one sign are skipped, then a \<open>0x\<close> prefix, and
  the longest prefix of hexadecimal digits is read; \<open>None\<close> is NaN.  A NaN stored in a \<open>Uint8Array\<close>
  becomes 0 and any other number is stored modulo 256.
\<close>

definition is_js_space :: "char \<Rightarrow> bool" where
  "is_js_space c \<longleftrightarrow> (of_char c :: nat) \<in> {9, 10, 11, 12, 13, 32}"

definition parse_hex_digits :: "string \<Rightarrow> int option" where
  "parse_hex_digits s =
     (let s1 = (if starts_with s ''0x'' \<or> starts_with s ''0X'' then drop 2 s else s);
          ds = takeWhile is_hex s1
      in if ds = [] then None else Some (foldl (\<lambda>a c. 16 * a + int (hex_val c)) 0 ds))"

definition parseInt16 :: "string \<Rightarrow> int option" where
  "parseInt16 s =
     (case dropWhile is_js_space s of
        [] \<Rightarrow> None
      | c # r \<Rightarrow> if c = CHR ''-'' then map_option uminus (parse_hex_digits r)
                 else if c = CHR ''+'' then parse_hex_digits r
                 else parse_hex_digits (c # r))"

definition store_u8 :: "int option \<Rightarrow> byte" where
  "store_u8 x = (case x of None \<Rightarrow> 0 | Some n \<Rightarrow> word_of_int n)"

definition substr :: "string \<Rightarrow> nat \<Rightarrow> nat \<Rightarrow> string" where
  "substr s a b = take (b - a) (drop a s)"

definition hexToBytes :: "string \<Rightarrow> bytes" where
  "hexToBytes value = map (\<lambda>i. store_u8 (parseInt16 (substr value (2 + i * 2) (4 + i * 2)))) [0..<32]"

definition sha256Hex :: "hash_fn \<Rightarrow> bytes \<Rightarrow> string" where
  "sha256Hex sha bs = bytesToPrefixedHex (sha bs)"

text \<open>\<open>expectPrefixedHex32\<close> of \<open>schema.ts\<close> on a string: the pattern \<open>^0x[0-9a-f]{64}$\<close>.\<close>

definition is_prefixed_hex32 :: "string \<Rightarrow> bool" where
  "is_prefixed_hex32 s \<longleftrightarrow> starts_with s ''0x'' \<and> length s = 66 \<and> list_all is_lower_hex (drop 2 s)"

section \<open>Reference encodings\<close>

text \<open>The little-endian bytes of a number as one formula, and the number of a little-endian byte list.\<close>

definition le_bytes :: "nat \<Rightarrow> int \<Rightarrow> bytes" where
  "le_bytes k n = map (\<lambda>i. word_of_int (n div 2 ^ (i * 8))) [0..<k]"

definition le_int :: "bytes \<Rightarrow> int" where
  "le_int bs = foldr (\<lambda>b a. uint b + 256 * a) bs 0"

section \<open>Integer encodings\<close>

lemma bit_byte_mask: "bit (0xff :: int) i \<longleftrightarrow> i < 8"
proof -
  have "(0xff :: int) = mask 8" by (simp add: mask_eq_exp_minus_1)
  then show ?thesis by (simp only: bit_mask_iff possible_bit_int) simp
qed

lemma bit_byte_mask_word: "bit (0xff :: 32 word) i \<longleftrightarrow> i < 8"
proof -
  have "(0xff :: 32 word) = mask 8" by (simp add: mask_eq_exp_minus_1)
  then show ?thesis by (simp only: bit_mask_iff) (auto simp: possible_bit_def)
qed

lemma bit_js_shr_byte: "k \<le> 24 \<Longrightarrow> bit (js_shr_byte n k) i \<longleftrightarrow> i < 8 \<and> bit n (k + i)"
  by (auto simp: js_shr_byte_def bit_simps min_def bit_byte_mask_word bit_byte_mask)

lemma js_shr_byte_eq: "k \<le> 24 \<Longrightarrow> js_shr_byte n k = word_of_int (n div 2 ^ k)"
  by (rule bit_eqI) (simp add: bit_js_shr_byte bit_simps flip: drop_bit_eq_div)

lemma big_shr_byte_eq: "big_shr_byte v k = word_of_int (v div 2 ^ k)"
  by (rule bit_eqI) (auto simp: big_shr_byte_def bit_simps bit_byte_mask simp flip: drop_bit_eq_div)

lemma le_bytes_Suc: "le_bytes (Suc k) n = word_of_int n # le_bytes k (n div 256)"
proof -
  have "n div 2 ^ (Suc i * 8) = n div 256 div 2 ^ (i * 8)" for i
    by (simp add: power_add zdiv_zmult2_eq)
  then show ?thesis by (simp add: le_bytes_def upt_conv_Cons map_Suc_upt[symmetric] o_def del: upt_Suc)
qed

lemma le_int_le_bytes: "le_int (le_bytes k n) = n mod 256 ^ k"
proof (induction k arbitrary: n)
  case 0 then show ?case by (simp add: le_bytes_def le_int_def)
next
  case (Suc k)
  then show ?case
    by (simp add: le_bytes_Suc le_int_def uint_word_of_int mod_mult2_eq zmod_zmult2_eq)
qed

lemma u16_le [simp]: "u16LittleEndianBytes n = (if n < 0 \<or> n > U16_MAX then Inl (''u16 value is outside range: '' @ show_int n) else Inr (le_bytes 2 n))"
  by (simp add: u16LittleEndianBytes_def le_bytes_def js_shr_byte_eq upt_rec numeral_2_eq_2)

lemma u32_le [simp]: "u32LittleEndianBytes n = (if n < 0 \<or> n > U32_MAX then Inl (''u32 value is outside range: '' @ show_int n) else Inr (le_bytes 4 n))"
  by (simp add: u32LittleEndianBytes_def le_bytes_def js_shr_byte_eq upt_rec)

lemma u64_le [simp]: "u64LittleEndianBytes n = (if n < 0 \<or> n > U64_MAX then Inl (''u64 value is outside range: '' @ show_int n) else Inr (le_bytes 8 n))"
  by (simp add: u64LittleEndianBytes_def le_bytes_def big_shr_byte_eq)

lemma u64_be [simp]: "u64BigEndianBytes n = (if n < 0 \<or> n > U64_MAX then Inl (''u64 value is outside range: '' @ show_int n) else Inr (rev (le_bytes 8 n)))"
  by (simp add: u64BigEndianBytes_def le_bytes_def big_shr_byte_eq rev_map upt_rec)

lemma le_bytes_length [simp]: "length (le_bytes k n) = k"
  by (simp add: le_bytes_def)

lemma or_byte_add: "0 \<le> a \<Longrightarrow> push_bit 8 a OR uint (b :: byte) = 256 * a + uint b"
proof -
  have "push_bit 8 a AND uint b = 0"
    by (rule bit_eqI) (auto simp: bit_simps dest: bit_imp_le_length)
  then have "push_bit 8 a OR uint b = push_bit 8 a + uint b"
    by (simp add: plus_and_or [of "push_bit 8 a" "uint b", symmetric])
  then show ?thesis by (simp add: push_bit_eq_mult)
qed

lemma be_fold: "0 \<le> a \<Longrightarrow> foldl (\<lambda>value b. push_bit 8 value OR uint b) a bs = a * 256 ^ length bs + le_int (rev bs)"
proof (induction bs arbitrary: a)
  case (Cons b bs)
  have *: "le_int (xs @ [b]) = le_int xs + 256 ^ length xs * uint b" for xs
    by (induction xs) (simp_all add: le_int_def algebra_simps)
  have "0 \<le> 256 * a + uint b" using Cons.prems by simp
  then show ?case by (simp add: or_byte_add Cons * algebra_simps)
qed (simp add: le_int_def)

lemma u64BigEndianBytes_roundtrip: "0 \<le> v \<Longrightarrow> v \<le> U64_MAX \<Longrightarrow> res_bind (u64BigEndianBytes v) bytesToBigEndianU64 = Inr v"
  by (simp add: u64_be bytesToBigEndianU64_def be_fold le_int_le_bytes U64_MAX_def)

section \<open>Hexadecimal round trips\<close>

lemma byte_unat_less: "unat (b :: byte) < 256"
  using unsigned_less [of b, where 'a = nat] by simp

lemma of_char_hex_char: "d < 16 \<Longrightarrow> (of_char (hex_char d) :: nat) = (if d < 10 then 48 + d else 87 + d)"
  by (simp add: hex_char_def of_char_of)

lemma is_lower_hex_hex_char: "d < 16 \<Longrightarrow> is_lower_hex (hex_char d)"
  by (auto simp: is_lower_hex_def is_digit_def of_char_hex_char)

lemma is_hex_lower: "is_lower_hex c \<Longrightarrow> is_hex c"
  by (auto simp: is_lower_hex_def is_hex_def)

lemma hex_val_hex_char: "d < 16 \<Longrightarrow> hex_val (hex_char d) = d"
  by (auto simp: hex_val_def is_digit_def of_char_hex_char)

lemma hex_val_less: "is_hex c \<Longrightarrow> hex_val c < 16"
  by (auto simp: hex_val_def is_digit_def is_hex_def)

lemma hex_char_hex_val: "is_lower_hex c \<Longrightarrow> hex_char (hex_val c) = c"
  by (rule of_char_eqI [where 'a = nat])
     (auto simp: hex_val_def is_digit_def is_lower_hex_def hex_char_def of_char_of)

lemma parseInt16_pair:
  assumes "is_hex c" and "is_hex d"
  shows "parseInt16 [c, d] = Some (16 * int (hex_val c) + int (hex_val d))"
proof -
  have "c \<noteq> CHR ''-''" "c \<noteq> CHR ''+''" "d \<noteq> CHR ''x''" "d \<noteq> CHR ''X''" "\<not> is_js_space c"
    using assms by (auto simp: is_hex_def is_digit_def is_js_space_def)
  with assms show ?thesis
    by (simp add: parseInt16_def parse_hex_digits_def starts_with_def)
qed

lemma parseInt16_hex2: "parseInt16 (hex2 b) = Some (uint b)"
proof -
  have "unat b div 16 < 16" using byte_unat_less [of b] by simp
  then have "parseInt16 (hex2 b) = Some (16 * int (unat b div 16) + int (unat b mod 16))"
    unfolding hex2_def
    by (subst parseInt16_pair) (simp_all add: is_hex_lower is_lower_hex_hex_char hex_val_hex_char)
  also have "16 * int (unat b div 16) + int (unat b mod 16) = uint b"
    by (metis mult_div_mod_eq of_nat_add of_nat_mult of_nat_numeral uint_nat)
  finally show ?thesis .
qed

lemma length_hex2 [simp]: "length (hex2 b) = 2"
  by (simp add: hex2_def)

lemma length_bytesToHex [simp]: "length (bytesToHex bs) = 2 * length bs"
  by (induction bs) (simp_all add: bytesToHex_def)

lemma substr_bytesToHex:
  "i < length bs \<Longrightarrow> substr (bytesToHex bs) (2 * i) (2 * i + 2) = hex2 (bs ! i)"
proof (induction bs arbitrary: i)
  case (Cons b bs)
  then show ?case
    by (cases i) (auto simp: bytesToHex_def substr_def)
qed simp

lemma hexToBytes_bytesToPrefixedHex:
  assumes "length bs = 32"
  shows "hexToBytes (bytesToPrefixedHex bs) = bs"
proof -
  have "substr (bytesToPrefixedHex bs) (2 + i * 2) (4 + i * 2) = hex2 (bs ! i)" if "i < 32" for i
    using substr_bytesToHex [of i bs] that assms
    by (simp add: substr_def bytesToPrefixedHex_def mult.commute)
  then show ?thesis
    using assms by (auto simp: hexToBytes_def parseInt16_hex2 store_u8_def intro!: nth_equalityI)
qed

lemma is_prefixed_hex32_bytesToPrefixedHex [simp]:
  "length bs = 32 \<Longrightarrow> is_prefixed_hex32 (bytesToPrefixedHex bs)"
proof -
  have "list_all is_lower_hex (bytesToHex bs)"
  proof (induction bs)
    case (Cons b bs)
    have "unat b div 16 < 16" using byte_unat_less [of b] by simp
    with Cons show ?case by (simp add: bytesToHex_def hex2_def is_lower_hex_hex_char)
  qed (simp add: bytesToHex_def)
  then show "length bs = 32 \<Longrightarrow> ?thesis"
    by (simp add: is_prefixed_hex32_def bytesToPrefixedHex_def starts_with_def)
qed

lemma hexToBytes_length [simp]: "length (hexToBytes s) = 32"
  by (simp add: hexToBytes_def)

lemma hex2_word:
  assumes "is_lower_hex c" "is_lower_hex d"
  shows "hex2 (word_of_int (16 * int (hex_val c) + int (hex_val d))) = [c, d]"
proof -
  have lt: "hex_val c < 16" "hex_val d < 16"
    using assms by (auto intro: hex_val_less is_hex_lower)
  have "16 * int (hex_val c) + int (hex_val d) = int (16 * hex_val c + hex_val d)" by simp
  then have "(word_of_int (16 * int (hex_val c) + int (hex_val d)) :: byte)
      = word_of_nat (16 * hex_val c + hex_val d)" by (metis of_int_of_nat_eq)
  moreover have "unat (word_of_nat (16 * hex_val c + hex_val d) :: byte) = 16 * hex_val c + hex_val d"
    using lt by (subst unat_of_nat) simp
  ultimately have "unat (word_of_int (16 * int (hex_val c) + int (hex_val d)) :: byte)
      = 16 * hex_val c + hex_val d" by (simp only:)
  with lt show ?thesis by (simp only: hex2_def) (simp add: assms hex_char_hex_val)
qed

lemma concat_pairs:
  "length s = 2 * n \<Longrightarrow> concat (map (\<lambda>i. [s ! (2 * i), s ! (2 * i + 1)]) [0..<n]) = s"
proof (induction n arbitrary: s)
  case (Suc n)
  then obtain a b t where s: "s = a # b # t" and t: "length t = 2 * n"
    by (auto simp: length_Suc_conv)
  have "concat (map (\<lambda>i. [t ! (2 * i), t ! (2 * i + 1)]) [0..<n]) = t"
    by (rule Suc.IH [OF t])
  then show ?case
    by (simp add: s upt_conv_Cons map_Suc_upt [symmetric] o_def del: upt_Suc)
qed simp

lemma take2_drop: "k + 1 < length t \<Longrightarrow> take 2 (drop k t) = [t ! k, t ! (k + 1)]"
proof (induction k arbitrary: t)
  case 0
  then show ?case by (cases t rule: list.exhaust; cases "tl t"; auto)
next
  case (Suc k)
  then show ?case by (cases t) auto
qed

lemma bytesToPrefixedHex_hexToBytes:
  assumes "is_prefixed_hex32 s"
  shows "bytesToPrefixedHex (hexToBytes s) = s"
proof -
  define t where "t = drop 2 s"
  have "take 2 s = ''0x''" and t: "length t = 64" "list_all is_lower_hex t"
    using assms by (simp_all add: is_prefixed_hex32_def starts_with_def t_def numeral_2_eq_2)
  then have s: "s = ''0x'' @ t"
    unfolding t_def by (metis append_take_drop_id)
  have "hex2 (store_u8 (parseInt16 (substr s (2 + i * 2) (4 + i * 2)))) = [t ! (2 * i), t ! (2 * i + 1)]"
    if "i < 32" for i
  proof -
    have "substr s (2 + i * 2) (4 + i * 2) = take 2 (drop (2 * i) t)"
      by (simp add: s substr_def mult.commute)
    also have "\<dots> = [t ! (2 * i), t ! (2 * i + 1)]"
      using t that by (intro take2_drop) simp
    finally have "substr s (2 + i * 2) (4 + i * 2) = [t ! (2 * i), t ! (2 * i + 1)]" .
    moreover have "is_lower_hex (t ! (2 * i))" "is_lower_hex (t ! (2 * i + 1))"
      using t that by (simp_all add: list_all_length)
    ultimately show ?thesis by (simp add: parseInt16_pair is_hex_lower store_u8_def hex2_word [simplified])
  qed
  then have "bytesToHex (hexToBytes s) = concat (map (\<lambda>i. [t ! (2 * i), t ! (2 * i + 1)]) [0..<32])"
    by (auto simp: bytesToHex_def hexToBytes_def o_def intro!: arg_cong [where f = concat])
  with t concat_pairs [of t 32] show ?thesis by (simp add: bytesToPrefixedHex_def s)
qed

lemma hexToBytes_inject:
  "is_prefixed_hex32 a \<Longrightarrow> is_prefixed_hex32 b \<Longrightarrow> hexToBytes a = hexToBytes b \<longleftrightarrow> a = b"
  by (metis bytesToPrefixedHex_hexToBytes)

section \<open>A concrete 32-byte function\<close>

text \<open>
  A function with SHA-256's output length that evaluates, for the concrete instances of theorems
  about an arbitrary \<open>sha\<close>.
\<close>

definition checksum32 :: hash_fn where
  "checksum32 x = map (\<lambda>i. word_of_nat ((7 * i + foldl (\<lambda>a b. (3 * a + unat b + 1) mod 251) (i mod 3) x) mod 256)) [0..<32]"

lemma sha256_ok_checksum32: "sha256_ok checksum32"
  by (simp add: sha256_ok_def checksum32_def)

end
