(* ===== verification/Schema.thy ===== *)
theory Schema
  imports Bytes
begin

text \<open>
  \<open>packages/proof-core/src/schema.ts\<close>: the checks that turn an \<open>unknown\<close> JSON value into typed
  data, each of which throws on the first violation.

  A JSON value is a \<open>js_value\<close>: an object is the list of its own properties in insertion order,
  a finite number is a rational (every double is one) and \<open>JNonFinite\<close> is NaN or an infinity.
  Reading an absent property gives \<open>JUndef\<close>.
\<close>

datatype js_value =
    JUndef
  | JNull
  | JBool bool
  | JNum rat
  | JNonFinite
  | JStr string
  | JArr "js_value list"
  | JObj "(string \<times> js_value) list"

type_synonym json_record = "(string \<times> js_value) list"

abbreviation jint :: "int \<Rightarrow> js_value" where
  "jint n \<equiv> JNum (of_int n)"

definition get_field :: "json_record \<Rightarrow> string \<Rightarrow> js_value" where
  "get_field fs k = (case map_of fs k of None \<Rightarrow> JUndef | Some v \<Rightarrow> v)"

section \<open>Checks\<close>

definition expectRecord :: "string \<Rightarrow> js_value \<Rightarrow> js_error + json_record" where
  "expectRecord name v = (case v of JObj fs \<Rightarrow> Inr fs | _ \<Rightarrow> Inl (name @ '' must be an object''))"

definition expectKeys :: "string \<Rightarrow> json_record \<Rightarrow> string list \<Rightarrow> js_error + unit" where
  "expectKeys name fs keys =
     (case filter (\<lambda>k. k \<notin> set keys) (map fst fs) of
        k # _ \<Rightarrow> Inl (name @ '' contains unexpected field: '' @ k)
      | [] \<Rightarrow>
        (case filter (\<lambda>k. k \<notin> set (map fst fs)) keys of
           k # _ \<Rightarrow> Inl (name @ '' is missing field: '' @ k)
         | [] \<Rightarrow> Inr ()))"

definition expectString :: "string \<Rightarrow> js_value \<Rightarrow> js_error + string" where
  "expectString name v = (case v of JStr s \<Rightarrow> Inr s | _ \<Rightarrow> Inl (name @ '' must be a string''))"

definition expectBoolean :: "string \<Rightarrow> js_value \<Rightarrow> js_error + bool" where
  "expectBoolean name v = (case v of JBool b \<Rightarrow> Inr b | _ \<Rightarrow> Inl (name @ '' must be a boolean''))"

definition expectArray :: "string \<Rightarrow> js_value \<Rightarrow> js_error + js_value list" where
  "expectArray name v = (case v of JArr xs \<Rightarrow> Inr xs | _ \<Rightarrow> Inl (name @ '' must be an array''))"

text \<open>\<open>expectLiteral\<close> at a string and at an integer.\<close>

definition expectLiteralStr :: "string \<Rightarrow> js_value \<Rightarrow> string \<Rightarrow> js_error + string" where
  "expectLiteralStr name v expected =
     (if v \<noteq> JStr expected then Inl (name @ '' must be '' @ expected) else Inr expected)"

definition expectLiteralInt :: "string \<Rightarrow> js_value \<Rightarrow> int \<Rightarrow> js_error + int" where
  "expectLiteralInt name v expected =
     (if v \<noteq> jint expected then Inl (name @ '' must be '' @ show_int expected) else Inr expected)"

text \<open>\<open>Number.isSafeInteger\<close>: an integer of magnitude at most \<open>2 ^ 53 - 1\<close>.\<close>

definition MAX_SAFE_INTEGER :: int where "MAX_SAFE_INTEGER = 9007199254740991"

definition isSafeInteger :: "rat \<Rightarrow> bool" where
  "isSafeInteger q \<longleftrightarrow> of_int \<lfloor>q\<rfloor> = q \<and> - MAX_SAFE_INTEGER \<le> \<lfloor>q\<rfloor> \<and> \<lfloor>q\<rfloor> \<le> MAX_SAFE_INTEGER"

definition expectNonNegativeSafeInteger :: "string \<Rightarrow> js_value \<Rightarrow> js_error + int" where
  "expectNonNegativeSafeInteger name v =
     (case v of
        JNum q \<Rightarrow> if \<not> isSafeInteger q \<or> q < 0
                  then Inl (name @ '' must be a non-negative safe integer'') else Inr \<lfloor>q\<rfloor>
      | _ \<Rightarrow> Inl (name @ '' must be a non-negative safe integer''))"

definition expectPositiveSafeInteger :: "string \<Rightarrow> js_value \<Rightarrow> js_error + int" where
  "expectPositiveSafeInteger name v =
     res_bind (expectNonNegativeSafeInteger name v) (\<lambda>parsed.
       if parsed = 0 then Inl (name @ '' must be greater than zero'') else Inr parsed)"

definition expectPrefixedHex32 :: "string \<Rightarrow> js_value \<Rightarrow> js_error + string" where
  "expectPrefixedHex32 name v =
     (case v of
        JStr s \<Rightarrow> if \<not> is_prefixed_hex32 s
                  then Inl (name @ '' must be a lowercase 0x-prefixed 32-byte hex string'') else Inr s
      | _ \<Rightarrow> Inl (name @ '' must be a lowercase 0x-prefixed 32-byte hex string''))"

text \<open>\<open>assertMatches\<close> at a type whose values \<open>shw\<close> turns into the text of the message.\<close>

definition assertMatches :: "('a \<Rightarrow> string) \<Rightarrow> string \<Rightarrow> 'a \<Rightarrow> 'a \<Rightarrow> js_error + unit" where
  "assertMatches shw name act expected =
     (if act \<noteq> expected
      then Inl (name @ '' '' @ shw act @ '' does not match '' @ shw expected) else Inr ())"

section \<open>What a passed check establishes\<close>

lemma expectRecord_Inr [res_simps]: "expectRecord name v = Inr fs \<longleftrightarrow> v = JObj fs"
  by (auto simp: expectRecord_def split: js_value.splits)

lemma expectKeys_Inr [res_simps]:
  "expectKeys name fs keys = Inr u \<longleftrightarrow> set (map fst fs) = set keys"
proof -
  have "filter (\<lambda>k. k \<notin> B) xs = [] \<longleftrightarrow> set xs \<subseteq> B" for B :: "string set" and xs
    by (auto simp: filter_empty_conv)
  then show ?thesis by (auto simp: expectKeys_def split: list.split)
qed

lemma expectString_Inr [res_simps]: "expectString name v = Inr s \<longleftrightarrow> v = JStr s"
  by (auto simp: expectString_def split: js_value.splits)

lemma expectBoolean_Inr [res_simps]: "expectBoolean name v = Inr b \<longleftrightarrow> v = JBool b"
  by (auto simp: expectBoolean_def split: js_value.splits)

lemma expectArray_Inr [res_simps]: "expectArray name v = Inr xs \<longleftrightarrow> v = JArr xs"
  by (auto simp: expectArray_def split: js_value.splits)

lemma expectLiteralStr_Inr [res_simps]:
  "expectLiteralStr name v e = Inr x \<longleftrightarrow> v = JStr e \<and> x = e"
  by (auto simp: expectLiteralStr_def)

lemma expectLiteralInt_Inr [res_simps]:
  "expectLiteralInt name v e = Inr x \<longleftrightarrow> v = jint e \<and> x = e"
  by (auto simp: expectLiteralInt_def)

lemma expectNonNegativeSafeInteger_Inr [res_simps]:
  "expectNonNegativeSafeInteger name v = Inr n \<longleftrightarrow> v = jint n \<and> 0 \<le> n \<and> n \<le> MAX_SAFE_INTEGER"
  by (auto simp: expectNonNegativeSafeInteger_def isSafeInteger_def MAX_SAFE_INTEGER_def
      split: js_value.splits)

lemma expectPositiveSafeInteger_Inr [res_simps]:
  "expectPositiveSafeInteger name v = Inr n \<longleftrightarrow> v = jint n \<and> 0 < n \<and> n \<le> MAX_SAFE_INTEGER"
  by (auto simp: expectPositiveSafeInteger_def res_simps intro!: exI [of _ n])

lemma expectPrefixedHex32_Inr [res_simps]:
  "expectPrefixedHex32 name v = Inr s \<longleftrightarrow> v = JStr s \<and> is_prefixed_hex32 s"
  by (auto simp: expectPrefixedHex32_def split: js_value.splits)

lemma assertMatches_Inr [res_simps]: "assertMatches shw name a e = Inr u \<longleftrightarrow> a = e"
  by (auto simp: assertMatches_def)

end
