(* ===== verification/Merkle.thy ===== *)
theory Merkle
  imports Schema "HOL-Library.Sublist"
begin

text \<open>
  \<open>packages/proof-core/src/merkle.ts\<close> and \<open>leaf-hash.ts\<close>: the Merkle tree over leaf hashes whose
  odd tail is promoted to the next level without hashing, its root, the inclusion proof of a leaf
  and the replay of a proof.

  Hashes travel as prefixed hexadecimal text, as in the code; SHA-256 is the parameter \<open>sha\<close>.
\<close>

record proof_step =
  sibling_on_left :: bool
  sibling_hash :: string

section \<open>Operations\<close>

definition hashLeafBytes :: "hash_fn \<Rightarrow> bytes \<Rightarrow> string" where
  "hashLeafBytes sha leafBytes = sha256Hex sha (LEAF_HASH_DOMAIN_SEPARATOR # leafBytes)"

text \<open>The 65-byte input of one replay step.\<close>

definition node_input :: "bool \<Rightarrow> bytes \<Rightarrow> bytes \<Rightarrow> bytes" where
  "node_input on_left sibling current =
     INTERNAL_NODE_DOMAIN_SEPARATOR # (if on_left then sibling @ current else current @ sibling)"

fun replay_loop :: "hash_fn \<Rightarrow> bytes \<Rightarrow> proof_step list \<Rightarrow> js_error + bytes" where
  "replay_loop sha current [] = Inr current"
| "replay_loop sha current (st # rest) =
     res_bind (expectPrefixedHex32 ''sibling_hash'' (JStr (sibling_hash st))) (\<lambda>h.
       replay_loop sha (sha (node_input (sibling_on_left st) (hexToBytes h) current)) rest)"

definition replayProof :: "hash_fn \<Rightarrow> string \<Rightarrow> proof_step list \<Rightarrow> js_error + string" where
  "replayProof sha leafHashValue steps =
     res_bind (expectPrefixedHex32 ''leaf_hash'' (JStr leafHashValue)) (\<lambda>h.
       res_bind (replay_loop sha (hexToBytes h) steps) (\<lambda>current.
         Inr (bytesToPrefixedHex current)))"

definition internalHash :: "hash_fn \<Rightarrow> string \<Rightarrow> string \<Rightarrow> string" where
  "internalHash sha left right =
     bytesToPrefixedHex (sha (INTERNAL_NODE_DOMAIN_SEPARATOR # hexToBytes left @ hexToBytes right))"

fun next_level :: "hash_fn \<Rightarrow> string list \<Rightarrow> string list" where
  "next_level sha [] = []"
| "next_level sha [tail] = [tail]"
| "next_level sha (left # right # rest) = internalHash sha left right # next_level sha rest"

lemma next_level_Nil_iff [simp]: "next_level sha hs = [] \<longleftrightarrow> hs = []"
  by (cases "(sha, hs)" rule: next_level.cases) simp_all

lemma length_next_level [simp]: "length (next_level sha hs) = (length hs + 1) div 2"
  by (induction sha hs rule: next_level.induct) simp_all

function merkle_loop :: "hash_fn \<Rightarrow> string list list \<Rightarrow> string list \<Rightarrow> string list list" where
  "merkle_loop sha levels current =
     (if length current > 1
      then merkle_loop sha (levels @ [next_level sha current]) (next_level sha current)
      else levels)"
  by pat_completeness auto
termination by (relation "measure (\<lambda>(_, _, current). length current)") auto

declare merkle_loop.simps [simp del]

definition merkleLevelsFromLeafHashes :: "hash_fn \<Rightarrow> string list \<Rightarrow> js_error + string list list" where
  "merkleLevelsFromLeafHashes sha leafHashes =
     (if leafHashes = [] then Inl ''empty Merkle tree''
      else Inr (merkle_loop sha [leafHashes] leafHashes))"

definition merkleRootFromLeafHashes :: "hash_fn \<Rightarrow> string list \<Rightarrow> js_error + string" where
  "merkleRootFromLeafHashes sha leafHashes =
     res_bind (merkleLevelsFromLeafHashes sha leafHashes) (\<lambda>levels.
       if levels = [] then Inl ''unexpected empty root level''
       else (case last levels of [] \<Rightarrow> Inl ''unexpected empty root level'' | r # _ \<Rightarrow> Inr r))"

fun proof_steps_loop :: "string list list \<Rightarrow> nat \<Rightarrow> proof_step list" where
  "proof_steps_loop (current # upper # levels) index =
     (let siblingIndex = (if index mod 2 = 0 then index + 1 else index - 1)
      in (if siblingIndex < length current
          then [\<lparr>sibling_on_left = siblingIndex < index, sibling_hash = current ! siblingIndex\<rparr>]
          else [])
         @ proof_steps_loop (upper # levels) (index div 2))"
| "proof_steps_loop _ index = []"

definition proofStepsFromLevels :: "string list list \<Rightarrow> int \<Rightarrow> js_error + proof_step list" where
  "proofStepsFromLevels levels leafIndex =
     (case levels of
        [] \<Rightarrow> Inl ''levels array is empty''
      | leafLevel # _ \<Rightarrow>
        if leafIndex < 0 \<or> leafIndex \<ge> int (length leafLevel)
        then Inl (''leafIndex '' @ show_int leafIndex @ '' is out of range for tree with ''
                  @ show_nat (length leafLevel) @ '' leaves'')
        else Inr (proof_steps_loop levels (nat leafIndex)))"

section \<open>Levels\<close>

text \<open>The levels as one recursion: what the accumulating loop computes.\<close>

function levels_of :: "hash_fn \<Rightarrow> string list \<Rightarrow> string list list" where
  "levels_of sha hs = hs # (if length hs > 1 then levels_of sha (next_level sha hs) else [])"
  by pat_completeness auto
termination by (relation "measure (\<lambda>(_, hs). length hs)") auto

declare levels_of.simps [simp del]

lemma merkle_loop_levels: "merkle_loop sha (ls @ [hs]) hs = ls @ levels_of sha hs"
proof (induction sha hs arbitrary: ls rule: levels_of.induct)
  case (1 sha hs)
  show ?case
  proof (cases "length hs > 1")
    case True
    then have "merkle_loop sha (ls @ [hs]) hs = merkle_loop sha ((ls @ [hs]) @ [next_level sha hs]) (next_level sha hs)"
      by (subst merkle_loop.simps) simp
    also have "\<dots> = (ls @ [hs]) @ levels_of sha (next_level sha hs)"
      by (rule "1.IH" [OF True])
    finally show ?thesis using True by (simp add: levels_of.simps [of sha hs])
  next
    case False
    then show ?thesis by (simp add: merkle_loop.simps [of sha _ hs] levels_of.simps [of sha hs])
  qed
qed

lemma merkleLevels_eq [simp]:
  "merkleLevelsFromLeafHashes sha hs = (if hs = [] then Inl ''empty Merkle tree'' else Inr (levels_of sha hs))"
  using merkle_loop_levels [of sha "[]" hs] by (simp add: merkleLevelsFromLeafHashes_def)

lemma levels_of_single [simp]: "levels_of sha [a] = [[a]]"
  by (subst levels_of.simps) simp

lemma levels_of_not_Nil [simp]: "levels_of sha hs \<noteq> []"
  by (subst levels_of.simps) simp

lemma last_levels_of: "hs \<noteq> [] \<Longrightarrow> length (last (levels_of sha hs)) = 1"
proof (induction sha hs rule: levels_of.induct)
  case (1 sha hs)
  show ?case
  proof (cases "length hs > 1")
    case True
    then have "hs \<noteq> []" by auto
    with True "1.IH" show ?thesis by (simp add: levels_of.simps [of sha hs])
  next
    case False
    with 1 show ?thesis by (cases hs) (simp_all add: levels_of.simps [of sha hs])
  qed
qed

section \<open>Completeness\<close>

text \<open>A list of well-formed 32-byte texts, which every level of a tree is.\<close>

definition hex32_list :: "string list \<Rightarrow> bool" where
  "hex32_list hs \<longleftrightarrow> (\<forall>h \<in> set hs. is_prefixed_hex32 h)"

lemma internalHash_hex32 [simp]: "sha256_ok sha \<Longrightarrow> is_prefixed_hex32 (internalHash sha l r)"
  by (simp add: internalHash_def sha256_ok_def)

lemma hashLeafBytes_hex32 [simp]: "sha256_ok sha \<Longrightarrow> is_prefixed_hex32 (hashLeafBytes sha b)"
  by (simp add: hashLeafBytes_def sha256Hex_def sha256_ok_def)

lemma next_level_hex32: "sha256_ok sha \<Longrightarrow> hex32_list hs \<Longrightarrow> hex32_list (next_level sha hs)"
  by (induction sha hs rule: next_level.induct) (auto simp: hex32_list_def)

lemma next_level_nth:
  "i < length hs \<Longrightarrow> next_level sha hs ! (i div 2) =
     (if i mod 2 = 0
      then if i + 1 < length hs then internalHash sha (hs ! i) (hs ! (i + 1)) else hs ! i
      else internalHash sha (hs ! (i - 1)) (hs ! i))"
proof (induction sha hs arbitrary: i rule: next_level.induct)
  case (3 sha l r rest)
  show ?case
  proof (cases "i < 2")
    case True
    then have "i = 0 \<or> i = 1" by auto
    then show ?thesis by auto
  next
    case False
    then obtain j where j: "i = Suc (Suc j)" by (metis add_2_eq_Suc le_Suc_ex not_less)
    have "j mod 2 \<noteq> 0 \<Longrightarrow> \<exists>k. j = Suc k" by (cases j) auto
    with "3.IH" [of j] "3.prems" show ?thesis by (auto simp: j)
  qed
qed auto

lemma replay_loop_step:
  "is_prefixed_hex32 (sibling_hash st) \<Longrightarrow>
   replay_loop sha c (st # rest) =
     replay_loop sha (sha (node_input (sibling_on_left st) (hexToBytes (sibling_hash st)) c)) rest"
  by (simp add: expectPrefixedHex32_def)

lemma hexToBytes_internalHash:
  "sha256_ok sha \<Longrightarrow> hexToBytes (internalHash sha l r) =
     sha (INTERNAL_NODE_DOMAIN_SEPARATOR # hexToBytes l @ hexToBytes r)"
  by (simp add: internalHash_def hexToBytes_bytesToPrefixedHex sha256_ok_def)

text \<open>One level of a proof followed by the replay of the rest.\<close>

lemma proof_steps_levels_of:
  assumes "sha256_ok sha" and "hex32_list hs" and "i < length hs"
  shows "replay_loop sha (hexToBytes (hs ! i)) (proof_steps_loop (levels_of sha hs) i)
       = Inr (hexToBytes (hd (last (levels_of sha hs))))"
  using assms
proof (induction sha hs arbitrary: i rule: levels_of.induct)
  case (1 sha hs)
  show ?case
  proof (cases "length hs > 1")
    case False
    with "1.prems" show ?thesis by (cases hs) (simp_all add: levels_of.simps [of sha hs])
  next
    case True
    let ?nx = "next_level sha hs"
    have lv: "levels_of sha hs = hs # levels_of sha ?nx"
      using True by (simp add: levels_of.simps [of sha hs])
    obtain ls where up: "levels_of sha ?nx = ?nx # ls"
      by (metis levels_of.simps)
    have IH: "replay_loop sha (hexToBytes (?nx ! (i div 2))) (proof_steps_loop (levels_of sha ?nx) (i div 2))
        = Inr (hexToBytes (hd (last (levels_of sha ?nx))))"
      using "1.IH" [OF True, of "i div 2"] "1.prems" by (simp add: next_level_hex32)
    have h: "j < length hs \<Longrightarrow> is_prefixed_hex32 (hs ! j)" for j
      using "1.prems" by (simp add: hex32_list_def)
    show ?thesis
      using IH h [of "i - 1"] h [of "Suc i"] "1.prems"(1,3) next_level_nth [OF "1.prems"(3), of sha]
      by (cases "i mod 2 = 0"; cases "i + 1 < length hs")
        (auto simp: lv up node_input_def hexToBytes_internalHash replay_loop_step Let_def
          simp del: replay_loop.simps(2))
  qed
qed

lemma levels_of_hex32: "sha256_ok sha \<Longrightarrow> hex32_list hs \<Longrightarrow> l \<in> set (levels_of sha hs) \<Longrightarrow> hex32_list l"
proof (induction sha hs rule: levels_of.induct)
  case (1 sha hs)
  then show ?case
    by (cases "length hs > 1") (auto simp: levels_of.simps [of sha hs] next_level_hex32)
qed

lemma merkleRoot_eq:
  "hs \<noteq> [] \<Longrightarrow> merkleRootFromLeafHashes sha hs = Inr (hd (last (levels_of sha hs)))"
  using last_levels_of [of hs sha] by (auto simp: merkleRootFromLeafHashes_def split: list.split)

lemma merkleRoot_hex32:
  "sha256_ok sha \<Longrightarrow> hex32_list hs \<Longrightarrow> hs \<noteq> [] \<Longrightarrow> is_prefixed_hex32 (hd (last (levels_of sha hs)))"
  using levels_of_hex32 [of sha hs "last (levels_of sha hs)"] last_levels_of [of hs sha]
    last_in_set [of "levels_of sha hs"]
  by (cases "last (levels_of sha hs)") (auto simp: hex32_list_def)

lemma proofStepsFromLevels_eq:
  "i < length hs \<Longrightarrow> proofStepsFromLevels (levels_of sha hs) (int i) = Inr (proof_steps_loop (levels_of sha hs) i)"
  by (cases "levels_of sha hs") (auto simp: proofStepsFromLevels_def levels_of.simps [of sha hs])

lemma replay_of_proof:
  assumes "sha256_ok sha" and "hex32_list hs" and "i < length hs"
  shows "\<exists>levels steps rt. merkleLevelsFromLeafHashes sha hs = Inr levels
     \<and> proofStepsFromLevels levels (int i) = Inr steps
     \<and> merkleRootFromLeafHashes sha hs = Inr rt
     \<and> replayProof sha (hs ! i) steps = Inr rt"
proof -
  have "hs \<noteq> []" and "is_prefixed_hex32 (hs ! i)" using assms by (auto simp: hex32_list_def)
  then show ?thesis
    using assms proof_steps_levels_of [OF assms]
    by (simp add: proofStepsFromLevels_eq merkleRoot_eq replayProof_def expectPrefixedHex32_def
        bytesToPrefixedHex_hexToBytes merkleRoot_hex32)
qed

section \<open>Proof length\<close>

text \<open>The number of levels above the leaves: \<open>ceil (log 2 n)\<close>.\<close>

lemma levels_bound: "hs \<noteq> [] \<Longrightarrow> length hs \<le> 2 ^ k \<Longrightarrow> length (levels_of sha hs) \<le> Suc k"
proof (induction sha hs arbitrary: k rule: levels_of.induct)
  case (1 sha hs)
  show ?case
  proof (cases "length hs > 1")
    case True
    with "1.prems" obtain k' where k: "k = Suc k'" by (cases k) auto
    with "1.IH" [OF True, of k'] "1.prems" True show ?thesis
      by (simp add: levels_of.simps [of sha hs])
  next
    case False
    then show ?thesis by (simp add: levels_of.simps [of sha hs])
  qed
qed

lemma proof_steps_length: "length (proof_steps_loop ls i) \<le> length ls - 1"
  by (induction ls i rule: proof_steps_loop.induct) (auto simp: Let_def Suc_diff_le)

lemma proof_steps_bound:
  "hs \<noteq> [] \<Longrightarrow> length hs \<le> 2 ^ k \<Longrightarrow> length (proof_steps_loop (levels_of sha hs) i) \<le> k"
  using levels_bound [of hs k sha] proof_steps_length [of "levels_of sha hs" i] by linarith

section \<open>Binding\<close>

text \<open>
  A proof of a leaf preimage as one hash computation over bytes, and the list of the inputs it
  gives to the hash function, the first of which is the leaf's.
\<close>

fun fold_steps :: "hash_fn \<Rightarrow> bytes \<Rightarrow> proof_step list \<Rightarrow> bytes" where
  "fold_steps sha c [] = c"
| "fold_steps sha c (st # rest) =
     fold_steps sha (sha (node_input (sibling_on_left st) (hexToBytes (sibling_hash st)) c)) rest"

fun step_inputs :: "hash_fn \<Rightarrow> bytes \<Rightarrow> proof_step list \<Rightarrow> bytes list" where
  "step_inputs sha c [] = []"
| "step_inputs sha c (st # rest) =
     (let x = node_input (sibling_on_left st) (hexToBytes (sibling_hash st)) c
      in x # step_inputs sha (sha x) rest)"

definition hashed_inputs :: "hash_fn \<Rightarrow> bytes \<Rightarrow> proof_step list \<Rightarrow> bytes list" where
  "hashed_inputs sha leafBytes steps =
     (let x = LEAF_HASH_DOMAIN_SEPARATOR # leafBytes in x # step_inputs sha (sha x) steps)"

definition collision :: "hash_fn \<Rightarrow> bytes list \<Rightarrow> bytes list \<Rightarrow> bool" where
  "collision sha xs ys \<longleftrightarrow> (\<exists>x \<in> set xs. \<exists>y \<in> set ys. x \<noteq> y \<and> sha x = sha y)"

definition wf_steps :: "proof_step list \<Rightarrow> bool" where
  "wf_steps steps \<longleftrightarrow> (\<forall>st \<in> set steps. is_prefixed_hex32 (sibling_hash st))"

lemma replay_loop_fold:
  "replay_loop sha c steps = Inr r \<longleftrightarrow> wf_steps steps \<and> r = fold_steps sha c steps"
  by (induction steps arbitrary: c) (auto simp: wf_steps_def res_simps)

lemma fold_steps_snoc:
  "fold_steps sha c (steps @ [st]) =
     sha (node_input (sibling_on_left st) (hexToBytes (sibling_hash st)) (fold_steps sha c steps))"
  by (induction steps arbitrary: c) simp_all

lemma step_inputs_snoc:
  "step_inputs sha c (steps @ [st]) = step_inputs sha c steps
     @ [node_input (sibling_on_left st) (hexToBytes (sibling_hash st)) (fold_steps sha c steps)]"
  by (induction steps arbitrary: c) (simp_all add: Let_def)

lemma fold_steps_length: "sha256_ok sha \<Longrightarrow> length c = 32 \<Longrightarrow> length (fold_steps sha c steps) = 32"
  by (induction steps arbitrary: c) (simp_all add: sha256_ok_def)

lemma node_input_inject:
  assumes "length s1 = 32" "length s2 = 32" "length c1 = 32" "length c2 = 32"
  shows "node_input l s1 c1 = node_input l s2 c2 \<longleftrightarrow> s1 = s2 \<and> c1 = c2"
  using assms by (auto simp: node_input_def)

lemma collision_hashed_snoc:
  "collision sha (hashed_inputs sha b1 p1) (hashed_inputs sha b2 p2) \<Longrightarrow>
   collision sha (hashed_inputs sha b1 (p1 @ [s1])) (hashed_inputs sha b2 (p2 @ [s2]))"
  by (auto simp: collision_def hashed_inputs_def Let_def step_inputs_snoc)

lemma fold_binding:
  assumes sha: "sha256_ok sha" and "wf_steps p1" and "wf_steps p2"
    and "suffix (map sibling_on_left p1) (map sibling_on_left p2)"
    and "fold_steps sha (sha (LEAF_HASH_DOMAIN_SEPARATOR # b1)) p1
       = fold_steps sha (sha (LEAF_HASH_DOMAIN_SEPARATOR # b2)) p2"
  shows "(b1 = b2 \<and> p1 = p2) \<or> collision sha (hashed_inputs sha b1 p1) (hashed_inputs sha b2 p2)"
  using assms(2-)
proof (induction p1 arbitrary: p2 rule: rev_induct)
  case Nil
  show ?case
  proof (cases p2 rule: rev_cases)
    case Nil
    with Nil.prems show ?thesis by (auto simp: collision_def hashed_inputs_def)
  next
    case (snoc q st)
    let ?y = "node_input (sibling_on_left st) (hexToBytes (sibling_hash st))
      (fold_steps sha (sha (LEAF_HASH_DOMAIN_SEPARATOR # b2)) q)"
    have "LEAF_HASH_DOMAIN_SEPARATOR # b1 \<noteq> ?y"
      by (simp add: node_input_def LEAF_HASH_DOMAIN_SEPARATOR_def INTERNAL_NODE_DOMAIN_SEPARATOR_def)
    with Nil.prems show ?thesis
      by (auto simp: snoc fold_steps_snoc step_inputs_snoc collision_def hashed_inputs_def Let_def)
  qed
next
  case (snoc st q1)
  from snoc.prems(3) obtain q2 st2 where p2: "p2 = q2 @ [st2]"
    and dirs: "suffix (map sibling_on_left q1) (map sibling_on_left q2)"
      "sibling_on_left st = sibling_on_left st2"
    by (cases p2 rule: rev_cases) (auto simp: suffix_def)
  let ?c1 = "fold_steps sha (sha (LEAF_HASH_DOMAIN_SEPARATOR # b1)) q1"
  let ?c2 = "fold_steps sha (sha (LEAF_HASH_DOMAIN_SEPARATOR # b2)) q2"
  let ?x = "node_input (sibling_on_left st) (hexToBytes (sibling_hash st)) ?c1"
  let ?y = "node_input (sibling_on_left st) (hexToBytes (sibling_hash st2)) ?c2"
  have len: "length ?c1 = 32" "length ?c2 = 32"
    using sha by (simp_all add: fold_steps_length sha256_ok_def)
  have hash: "sha ?x = sha ?y"
    using snoc.prems(4) dirs by (simp add: p2 fold_steps_snoc)
  show ?case
  proof (cases "?x = ?y")
    case False
    with hash dirs show ?thesis
      by (auto simp: p2 collision_def hashed_inputs_def Let_def step_inputs_snoc)
  next
    case True
    have wf: "wf_steps q1" "wf_steps q2" "is_prefixed_hex32 (sibling_hash st)"
      "is_prefixed_hex32 (sibling_hash st2)"
      using snoc.prems by (auto simp: wf_steps_def p2)
    from True len have "hexToBytes (sibling_hash st) = hexToBytes (sibling_hash st2)" "?c1 = ?c2"
      by (simp_all add: node_input_inject)
    then have "st = st2" using wf dirs by (simp add: hexToBytes_inject)
    with snoc.IH [OF wf(1,2) dirs(1) \<open>?c1 = ?c2\<close>] show ?thesis
      by (auto simp: p2 intro: collision_hashed_snoc)
  qed
qed

lemma replay_binding:
  assumes sha: "sha256_ok sha"
    and r1: "replayProof sha (hashLeafBytes sha b1) p1 = Inr rt"
    and r2: "replayProof sha (hashLeafBytes sha b2) p2 = Inr rt"
    and dirs: "suffix (map sibling_on_left p1) (map sibling_on_left p2)"
  shows "(b1 = b2 \<and> p1 = p2) \<or> collision sha (hashed_inputs sha b1 p1) (hashed_inputs sha b2 p2)"
proof -
  have leaf: "hexToBytes (hashLeafBytes sha b) = sha (LEAF_HASH_DOMAIN_SEPARATOR # b)" for b
    using sha by (simp add: hashLeafBytes_def sha256Hex_def hexToBytes_bytesToPrefixedHex sha256_ok_def)
  have len: "length (fold_steps sha (sha x) p) = 32" for x p
    using sha by (simp add: fold_steps_length sha256_ok_def)
  have "bytesToPrefixedHex (fold_steps sha (sha (LEAF_HASH_DOMAIN_SEPARATOR # b1)) p1)
      = bytesToPrefixedHex (fold_steps sha (sha (LEAF_HASH_DOMAIN_SEPARATOR # b2)) p2)"
    and "wf_steps p1" "wf_steps p2"
    using r1 r2 by (auto simp: replayProof_def res_simps leaf replay_loop_fold)
  with len have "fold_steps sha (sha (LEAF_HASH_DOMAIN_SEPARATOR # b1)) p1
      = fold_steps sha (sha (LEAF_HASH_DOMAIN_SEPARATOR # b2)) p2"
    by (metis hexToBytes_bytesToPrefixedHex)
  with \<open>wf_steps p1\<close> \<open>wf_steps p2\<close> dirs sha show ?thesis by (intro fold_binding)
qed

section \<open>Properties\<close>

text \<open>Every leaf of a tree has a proof: for a non-empty list of well-formed leaf hashes and an
  index in range, building the levels, extracting the proof and computing the root all succeed,
  and replaying the proof from the leaf hash gives that root.\<close>

theorem merkle_proof_complete:
  assumes "sha256_ok sha" and "hex32_list hs" and "i < length hs"
  shows "\<exists>levels steps rt. merkleLevelsFromLeafHashes sha hs = Inr levels
     \<and> proofStepsFromLevels levels (int i) = Inr steps
     \<and> merkleRootFromLeafHashes sha hs = Inr rt
     \<and> replayProof sha (hs ! i) steps = Inr rt"
  using replay_of_proof [OF assms] .

definition three_leaves :: "string list" where
  "three_leaves = map (\<lambda>b. bytesToPrefixedHex (replicate 32 b)) [1, 2, 3]"

lemma three_leaves_hex32: "hex32_list three_leaves"
  by (simp add: three_leaves_def hex32_list_def)

theorem merkle_proof_complete_witness:
  "\<exists>levels steps rt. merkleLevelsFromLeafHashes checksum32 three_leaves = Inr levels
     \<and> proofStepsFromLevels levels (int 2) = Inr steps
     \<and> merkleRootFromLeafHashes checksum32 three_leaves = Inr rt
     \<and> replayProof checksum32 (three_leaves ! 2) steps = Inr rt"
  by (rule merkle_proof_complete [OF sha256_ok_checksum32 three_leaves_hex32])
     (simp add: three_leaves_def)

text \<open>A root binds its leaves: if two leaf preimages replay to one root with proofs of which the
  directions of one end with the directions of the other, the preimages and the proofs are equal
  or two of the inputs hashed along the two proofs collide.  In particular an inner node cannot be
  passed off as a leaf, because the domain separators differ.\<close>

theorem merkle_proof_binding:
  assumes "sha256_ok sha"
    and "replayProof sha (hashLeafBytes sha b1) p1 = Inr rt"
    and "replayProof sha (hashLeafBytes sha b2) p2 = Inr rt"
    and "suffix (map sibling_on_left p1) (map sibling_on_left p2)"
  shows "(b1 = b2 \<and> p1 = p2) \<or> collision sha (hashed_inputs sha b1 p1) (hashed_inputs sha b2 p2)"
  using replay_binding [OF assms] .

theorem merkle_proof_binding_witness:
  "([1] = ([1] :: bytes) \<and> ([] :: proof_step list) = [])
     \<or> collision checksum32 (hashed_inputs checksum32 [1] []) (hashed_inputs checksum32 [1] [])"
  by (rule merkle_proof_binding [OF sha256_ok_checksum32,
        where rt = "hashLeafBytes checksum32 [1]"])
     (simp_all add: replayProof_def expectPrefixedHex32_def sha256_ok_checksum32
       bytesToPrefixedHex_hexToBytes)

text \<open>A proof is logarithmic: a tree of at most \<open>2 ^ k\<close> leaves has at most \<open>k + 1\<close> levels, the
  last of one node, and each of its proofs has at most \<open>k\<close> steps.\<close>

theorem merkle_proof_length:
  assumes "hs \<noteq> []" and "length hs \<le> 2 ^ k"
    and "merkleLevelsFromLeafHashes sha hs = Inr levels"
  shows "length levels \<le> Suc k \<and> length (last levels) = 1
     \<and> (proofStepsFromLevels levels (int i) = Inr steps \<longrightarrow> length steps \<le> k)"
proof -
  have lv: "levels = levels_of sha hs" using assms by simp
  have "length steps \<le> k" if "proofStepsFromLevels levels (int i) = Inr steps"
  proof -
    from that have "steps = proof_steps_loop levels i"
      by (auto simp: proofStepsFromLevels_def split: list.splits if_splits)
    then show ?thesis using proof_steps_bound [OF assms(1,2)] by (simp add: lv)
  qed
  then show ?thesis using levels_bound [OF assms(1,2)] last_levels_of [OF assms(1)] by (simp add: lv)
qed

theorem merkle_proof_length_witness:
  "\<exists>levels. merkleLevelsFromLeafHashes checksum32 three_leaves = Inr levels \<and> length levels \<le> 3"
proof -
  have ne: "three_leaves \<noteq> []" "length three_leaves \<le> 2 ^ 2" by (simp_all add: three_leaves_def)
  then obtain levels where lv: "merkleLevelsFromLeafHashes checksum32 three_leaves = Inr levels" by simp
  with merkle_proof_length [OF ne lv] show ?thesis by auto
qed

end
