(* ===== verification/H3.thy ===== *)
theory H3
  imports Schema
begin

text \<open>
  \<open>packages/proof-core/src/h3.ts\<close>: the check that a decimal text is the index of an H3 cell of
  an expected resolution, and the bit layout it enforces, stated as an encoding of the base cell
  and of one digit per resolution.

  The resolutions the callers pass are validated integers, so \<open>expectedResolution\<close> is an \<open>int\<close>.
\<close>

section \<open>Operations\<close>

definition H3_MAX_RESOLUTION :: nat where "H3_MAX_RESOLUTION = 15"
definition H3_MODE_CELL :: int where "H3_MODE_CELL = 1"
definition H3_PENTAGON_BASE_CELLS :: "int list" where
  "H3_PENTAGON_BASE_CELLS = [4, 14, 24, 38, 49, 58, 63, 72, 83, 97, 107, 117]"

record parsed_h3_index =
  decimal :: string
  h3_value :: int

text \<open>The pattern \<open>^(0|[1-9][0-9]*)$\<close>.\<close>

definition is_canonical_decimal :: "string \<Rightarrow> bool" where
  "is_canonical_decimal s \<longleftrightarrow> s \<noteq> [] \<and> list_all is_digit s \<and> (hd s = CHR ''0'' \<longrightarrow> s = ''0'')"

definition h3_digit :: "int \<Rightarrow> nat \<Rightarrow> int" where
  "h3_digit h3Index digit = drop_bit ((H3_MAX_RESOLUTION - digit) * 3) h3Index AND 0x7"

text \<open>The digit loop; it returns the leading non-zero digit.\<close>

fun h3_digit_loop :: "int \<Rightarrow> int \<Rightarrow> string \<Rightarrow> nat list \<Rightarrow> int \<Rightarrow> js_error + int" where
  "h3_digit_loop h3Index res rawValue [] lead = Inr lead"
| "h3_digit_loop h3Index res rawValue (digit # digits) lead =
     (let digitValue = h3_digit h3Index digit
      in if int digit \<le> res \<and> digitValue = 7
         then Inl (''h3_index active digit must be 0..6: '' @ rawValue)
         else let lead' = (if int digit \<le> res \<and> lead = 0 \<and> digitValue \<noteq> 0 then digitValue else lead)
              in if int digit > res \<and> digitValue \<noteq> 7
                 then Inl (''h3_index unused digit must be 7: '' @ rawValue)
                 else h3_digit_loop h3Index res rawValue digits lead')"

definition validateH3CellLayout :: "int \<Rightarrow> int \<Rightarrow> string \<Rightarrow> js_error + unit" where
  "validateH3CellLayout h3Index expectedResolution rawValue =
     (if drop_bit 63 h3Index AND 1 \<noteq> 0
      then Inl (''h3_index reserved bit must be zero: '' @ rawValue)
      else if drop_bit 59 h3Index AND 0xf \<noteq> H3_MODE_CELL
      then Inl (''h3_index mode must be an H3 cell: '' @ rawValue)
      else if drop_bit 56 h3Index AND 0x7 \<noteq> 0
      then Inl (''h3_index reserved bits must be zero: '' @ rawValue)
      else if drop_bit 52 h3Index AND 0xf \<noteq> expectedResolution
      then Inl (''h3_index resolution must be '' @ show_int expectedResolution @ '': '' @ rawValue)
      else let baseCell = drop_bit 45 h3Index AND 0x7f
      in if baseCell > 121
      then Inl (''h3_index base cell is outside the H3 range: '' @ rawValue)
      else res_bind (h3_digit_loop h3Index expectedResolution rawValue [1..<Suc H3_MAX_RESOLUTION] 0)
        (\<lambda>leadingNonZeroDigit.
          if baseCell \<in> set H3_PENTAGON_BASE_CELLS \<and> leadingNonZeroDigit = 1
          then Inl (''h3_index uses the deleted pentagon subsequence: '' @ rawValue)
          else Inr ()))"

definition parseH3Index :: "string \<Rightarrow> int \<Rightarrow> js_error + parsed_h3_index" where
  "parseH3Index value expectedResolution =
     (if expectedResolution < 0 \<or> expectedResolution > 15
      then Inl (''expected resolution must be between 0 and 15: '' @ show_int expectedResolution)
      else if \<not> is_canonical_decimal value
      then Inl (''h3_index must be a canonical decimal u64 string: '' @ value)
      else let parsed = int (read_nat value)
      in if parsed > U64_MAX
      then Inl (''h3_index is outside the u64 range: '' @ value)
      else res_bind (validateH3CellLayout parsed expectedResolution value) (\<lambda>_.
        Inr \<lparr>decimal = value, h3_value = parsed\<rparr>))"

section \<open>Reference: the cells of a resolution\<close>

text \<open>
  A cell of resolution \<open>r\<close> is a base cell and \<open>r\<close> digits below 7; at a pentagon the first non-zero
  digit is not 1.  Its index has mode 1, its resolution, its base cell and 15 digits of 3 bits, the
  unused ones 7.
\<close>

definition leading_digit :: "int list \<Rightarrow> int" where
  "leading_digit ds = (case dropWhile (\<lambda>d. d = 0) ds of [] \<Rightarrow> 0 | d # _ \<Rightarrow> d)"

definition h3_cell :: "int \<Rightarrow> int \<Rightarrow> int list \<Rightarrow> bool" where
  "h3_cell res base ds \<longleftrightarrow> int (length ds) = res \<and> res \<le> 15 \<and> 0 \<le> base \<and> base \<le> 121
     \<and> (\<forall>d \<in> set ds. 0 \<le> d \<and> d < 7)
     \<and> \<not> (base \<in> set H3_PENTAGON_BASE_CELLS \<and> leading_digit ds = 1)"

definition horner8 :: "int list \<Rightarrow> int" where
  "horner8 ds = foldl (\<lambda>a d. 8 * a + d) 0 ds"

definition h3_encode :: "int \<Rightarrow> int \<Rightarrow> int list \<Rightarrow> int" where
  "h3_encode res base ds =
     2 ^ 59 + res * 2 ^ 52 + base * 2 ^ 45 + horner8 (ds @ replicate (15 - length ds) 7)"

section \<open>Bit fields and digits\<close>

lemma and_mask_int:
  "(v :: int) AND 0x7 = v mod 8" "v AND 0xf = v mod 16" "v AND 0x7f = v mod 128"
proof -
  have "v AND mask n = v mod 2 ^ n" for n by (simp flip: take_bit_eq_mask take_bit_eq_mod)
  from this [of 3] this [of 4] this [of 7]
  show "v AND 0x7 = v mod 8" "v AND 0xf = v mod 16" "v AND 0x7f = v mod 128"
    by (simp_all add: mask_eq_exp_minus_1)
qed

lemma h3_digit_eq: "h3_digit v d = v div 8 ^ (15 - d) mod 8"
  by (simp add: h3_digit_def H3_MAX_RESOLUTION_def and_mask_int drop_bit_eq_div power_mult mult.commute)

lemma horner8_Nil [simp]: "horner8 [] = 0"
  by (simp add: horner8_def)

lemma horner8_snoc [simp]: "horner8 (ds @ [d]) = 8 * horner8 ds + d"
  by (simp add: horner8_def)

definition octal :: "int list \<Rightarrow> bool" where
  "octal ds \<longleftrightarrow> (\<forall>d \<in> set ds. 0 \<le> d \<and> d < 8)"

lemma octal_simps [simp]: "octal []" "octal (xs @ ys) \<longleftrightarrow> octal xs \<and> octal ys"
    "octal (d # ds) \<longleftrightarrow> 0 \<le> d \<and> d < 8 \<and> octal ds" "octal (replicate n 7)"
  by (auto simp: octal_def)

lemma horner8_bounds: "octal ds \<Longrightarrow> 0 \<le> horner8 ds \<and> horner8 ds < 8 ^ length ds"
  by (induction ds rule: rev_induct) auto

lemma horner8_digit:
  "octal ds \<Longrightarrow> i < length ds \<Longrightarrow>
   (x * 8 ^ length ds + horner8 ds) div 8 ^ (length ds - Suc i) mod 8 = ds ! i"
proof (induction ds arbitrary: i rule: rev_induct)
  case (snoc d ds)
  define w where "w = x * 8 ^ length ds + horner8 ds"
  have v: "x * 8 ^ length (ds @ [d]) + horner8 (ds @ [d]) = 8 * w + d"
    by (simp add: w_def algebra_simps)
  have d: "0 \<le> d" "d < 8" using snoc.prems by auto
  show ?case
  proof (cases "i = length ds")
    case True
    with d show ?thesis unfolding v by simp
  next
    case False
    with snoc.prems have i: "i < length ds" by simp
    then obtain k where k: "length ds - i = Suc k" and k': "length ds - Suc i = k"
      by (metis Suc_diff_Suc)
    have "(8 * w + d) div 8 ^ Suc k = (8 * w + d) div 8 div 8 ^ k"
      by (simp add: zdiv_zmult2_eq)
    also have "(8 * w + d) div 8 = w" using d by simp
    finally show ?thesis using snoc.IH [OF _ i] snoc.prems k k' i unfolding v
      by (simp add: nth_append w_def del: power_Suc)
  qed
qed simp

lemma mod_horner8:
  "(v :: int) mod 8 ^ n = horner8 (map (\<lambda>i. v div 8 ^ (n - i) mod 8) [1..<Suc n])"
proof (induction n arbitrary: v)
  case (Suc n)
  have "map (\<lambda>i. v div 8 ^ (Suc n - i) mod 8) [1..<Suc n]
      = map (\<lambda>i. v div 8 div 8 ^ (n - i) mod 8) [1..<Suc n]"
    by (auto simp: Suc_diff_le zdiv_zmult2_eq)
  moreover have "map (\<lambda>i. v div 8 ^ (Suc n - i) mod 8) [1..<Suc (Suc n)]
      = map (\<lambda>i. v div 8 ^ (Suc n - i) mod 8) [1..<Suc n] @ [v mod 8]"
    by (subst upt_Suc) simp
  moreover have "v mod 8 ^ Suc n = 8 * (v div 8 mod 8 ^ n) + v mod 8"
    by (simp add: zmod_zmult2_eq)
  ultimately show ?case using Suc.IH [of "v div 8"] by (simp only: horner8_snoc)
qed simp

section \<open>The digit loop\<close>

definition loop_ok :: "int \<Rightarrow> int \<Rightarrow> nat list \<Rightarrow> bool" where
  "loop_ok v res digits \<longleftrightarrow>
     (\<forall>d \<in> set digits. if int d \<le> res then h3_digit v d \<noteq> 7 else h3_digit v d = 7)"

lemma h3_digit_loop_Inr:
  "h3_digit_loop v res raw digits lead = Inr l \<longleftrightarrow> loop_ok v res digits
     \<and> l = (if lead \<noteq> 0 then lead
            else leading_digit (map (h3_digit v) (filter (\<lambda>d. int d \<le> res) digits)))"
proof (induction digits arbitrary: lead)
  case Nil
  then show ?case by (auto simp: loop_ok_def leading_digit_def)
next
  case (Cons d ds)
  show ?case
    by (cases "int d \<le> res"; cases "h3_digit v d = 7"; cases "h3_digit v d = 0")
      (auto simp: Cons.IH loop_ok_def Let_def leading_digit_def)
qed

lemma filter_upto: "r \<le> 15 \<Longrightarrow> filter (\<lambda>d. int d \<le> int r) [1..<16] = [1..<Suc r]"
proof -
  assume r: "r \<le> 15"
  have "[1..<16] = [1..<Suc r] @ [Suc r..<16]"
    using r upt_add_eq_append [of 1 "Suc r" "15 - r"] by simp
  moreover have "filter (\<lambda>d. int d \<le> int r) [1..<Suc r] = [1..<Suc r]"
    by (rule filter_True) auto
  moreover have "filter (\<lambda>d. int d \<le> int r) [Suc r..<16] = []"
    by (rule filter_False) auto
  ultimately show ?thesis by (simp only: filter_append append_Nil2)
qed

text \<open>The five fields above the digits.\<close>

lemma fields_iff:
  fixes q :: int
  assumes "0 \<le> q" and "q < 2 ^ 19"
  shows "q div 2 ^ 18 mod 2 = 0 \<and> q div 2 ^ 14 mod 16 = 1 \<and> q div 2 ^ 11 mod 8 = 0
       \<and> q div 2 ^ 7 mod 16 = res \<and> q mod 128 = base
     \<longleftrightarrow> q = 2 ^ 14 + res * 2 ^ 7 + base \<and> 0 \<le> res \<and> res < 16 \<and> 0 \<le> base \<and> base < 128"
proof -
  define a b c d where "a = q div 128" and "b = a div 16" and "c = b div 8" and "d = c div 16"
  have nest: "q div 2 ^ 7 = a" "q div 2 ^ 11 = b" "q div 2 ^ 14 = c" "q div 2 ^ 18 = d"
    unfolding a_def b_def c_def d_def by (simp_all flip: zdiv_zmult2_eq)
  have eqs: "q = 128 * a + q mod 128" "a = 16 * b + a mod 16" "b = 8 * c + b mod 8" "c = 16 * d + c mod 16"
    unfolding a_def b_def c_def d_def by simp_all
  have bounds: "0 \<le> q mod 128" "q mod 128 < 128" "0 \<le> a mod 16" "a mod 16 < 16"
    "0 \<le> b mod 8" "b mod 8 < 8" "0 \<le> c mod 16" "c mod 16 < 16" by simp_all
  have "q < 524288" "0 \<le> q" using assms by simp_all
  then have "0 \<le> d" "d < 2" using eqs bounds by linarith+
  then have d: "d mod 2 = d" by simp
  show ?thesis unfolding nest d
  proof (intro iffI; (elim conjE)?)
    assume "d = 0" "c mod 16 = 1" "b mod 8 = 0" "a mod 16 = res" "q mod 128 = base"
    moreover from this have "0 \<le> res" "res < 16" "0 \<le> base" "base < 128" using bounds by auto
    ultimately show "q = 2 ^ 14 + res * 2 ^ 7 + base \<and> 0 \<le> res \<and> res < 16 \<and> 0 \<le> base \<and> base < 128"
      using eqs by simp
  next
    assume q: "q = 2 ^ 14 + res * 2 ^ 7 + base" "0 \<le> res" "res < 16" "0 \<le> base" "base < 128"
    then have "q = (128 + res) * 128 + base" by simp
    then have "q mod 128 = base mod 128" "q div 128 = 128 + res + base div 128"
      by (simp_all only: mod_mult_self3 div_mult_self3 zero_neq_numeral not_False_eq_True)
    with q have a: "a = 128 + res" "q mod 128 = base" by (simp_all add: a_def)
    from a have "a = 8 * 16 + res" by simp
    then have "a mod 16 = res mod 16" "a div 16 = 8 + res div 16"
      by (simp_all only: mod_mult_self3 div_mult_self3 zero_neq_numeral not_False_eq_True)
    moreover have "res mod 16 = res" "res div 16 = 0" using q by simp_all
    ultimately have b: "b = 8" "a mod 16 = res" unfolding b_def by linarith+
    have c: "c = 1" "b mod 8 = 0" by (simp_all add: c_def b)
    show "d = 0 \<and> c mod 16 = 1 \<and> b mod 8 = 0 \<and> a mod 16 = res \<and> q mod 128 = base"
      using b(2) c a(2) by (simp add: d_def)
  qed
qed

section \<open>The accepted indexes are the cells\<close>

lemma validate_shape:
  fixes x y z w b :: int and L :: "'e + int"
  shows "(if x \<noteq> 0 then Inl e1 else if y \<noteq> m then Inl e2 else if z \<noteq> 0 then Inl e3
      else if w \<noteq> r then Inl e4 else if b > 121 then Inl e5
      else res_bind L (\<lambda>l. if b \<in> P \<and> l = 1 then Inl e6 else Inr ())) = Inr ()
    \<longleftrightarrow> (x = 0 \<and> y = m \<and> z = 0 \<and> w = r \<and> b = b) \<and> b \<le> 121
      \<and> (\<exists>l. L = Inr l \<and> \<not> (b \<in> P \<and> l = 1))"
  by (auto simp: res_simps)

lemma validate_fields:
  assumes "0 \<le> v" and "v \<le> U64_MAX" and "0 \<le> r" and "r \<le> 15"
  shows "validateH3CellLayout v r raw = Inr () \<longleftrightarrow>
     (\<exists>base. v div 2 ^ 45 = 2 ^ 14 + r * 2 ^ 7 + base \<and> 0 \<le> base \<and> base \<le> 121
       \<and> loop_ok v r [1..<16]
       \<and> \<not> (base \<in> set H3_PENTAGON_BASE_CELLS
            \<and> leading_digit (map (h3_digit v) [1..<Suc (nat r)]) = 1))"
proof -
  define q where "q = v div 2 ^ 45"
  have q: "0 \<le> q" "q < 2 ^ 19" using assms by (simp_all add: q_def U64_MAX_def)
  have f: "drop_bit 63 v AND 1 = q div 2 ^ 18 mod 2" "drop_bit 59 v AND 0xf = q div 2 ^ 14 mod 16"
    "drop_bit 56 v AND 0x7 = q div 2 ^ 11 mod 8" "drop_bit 52 v AND 0xf = q div 2 ^ 7 mod 16"
    "drop_bit 45 v AND 0x7f = q mod 128"
    by (simp_all add: q_def and_mask_int drop_bit_eq_div and_one_eq flip: zdiv_zmult2_eq)
  have flt: "filter (\<lambda>d. int d \<le> r) [1..<16] = [1..<Suc (nat r)]"
    using filter_upto [of "nat r"] assms by simp
  have up: "[1..<Suc H3_MAX_RESOLUTION] = [1..<16]" by (simp add: H3_MAX_RESOLUTION_def)
  have "validateH3CellLayout v r raw = Inr () \<longleftrightarrow>
     (q div 2 ^ 18 mod 2 = 0 \<and> q div 2 ^ 14 mod 16 = 1 \<and> q div 2 ^ 11 mod 8 = 0
       \<and> q div 2 ^ 7 mod 16 = r \<and> q mod 128 = q mod 128) \<and> q mod 128 \<le> 121
       \<and> loop_ok v r [1..<16] \<and> \<not> (q mod 128 \<in> set H3_PENTAGON_BASE_CELLS
            \<and> leading_digit (map (h3_digit v) [1..<Suc (nat r)]) = 1)"
    unfolding validateH3CellLayout_def f up Let_def H3_MODE_CELL_def
    by (simp only: validate_shape h3_digit_loop_Inr flt) simp
  also have "\<dots> \<longleftrightarrow> (\<exists>base. v div 2 ^ 45 = 2 ^ 14 + r * 2 ^ 7 + base \<and> 0 \<le> base \<and> base \<le> 121
       \<and> loop_ok v r [1..<16] \<and> \<not> (base \<in> set H3_PENTAGON_BASE_CELLS
            \<and> leading_digit (map (h3_digit v) [1..<Suc (nat r)]) = 1))"
    (is "?F \<and> ?R (q mod 128) \<longleftrightarrow> (\<exists>base. ?E base \<and> 0 \<le> base \<and> ?R base)")
  proof -
    have 1: "?F \<longleftrightarrow> ?E (q mod 128)"
      using fields_iff [OF q, of r "q mod 128"] assms by (simp add: q_def)
    have 2: "q mod 128 = base" if "?E base" "0 \<le> base" "base \<le> 121" for base
      using fields_iff [OF q, of r base] assms that by (simp add: q_def)
    show ?thesis unfolding 1 using 2 by (metis pos_mod_sign zero_less_numeral)
  qed
  finally show ?thesis .
qed

lemma h3_digits_of:
  assumes "octal ds" and "length ds = 15" and "0 \<le> v" and "v mod 2 ^ 45 = horner8 ds"
  shows "map (h3_digit v) [1..<16] = ds"
proof (rule nth_equalityI)
  fix i assume "i < length (map (h3_digit v) [1..<16])"
  then have i: "i < 15" by simp
  have v: "v = v div 2 ^ 45 * 8 ^ length ds + horner8 ds"
    using assms div_mult_mod_eq [of v "2 ^ 45"] by simp
  have "(v div 2 ^ 45 * 8 ^ length ds + horner8 ds) div 8 ^ (length ds - Suc i) mod 8 = ds ! i"
    using assms i by (intro horner8_digit) simp_all
  then show "map (h3_digit v) [1..<16] ! i = ds ! i"
    using i assms(2) v by (simp add: h3_digit_eq del: upt_Suc)
qed (use assms in simp)

lemma validate_iff_cell:
  assumes "0 \<le> v" and "v \<le> U64_MAX" and "0 \<le> r" and "r \<le> 15"
  shows "validateH3CellLayout v r raw = Inr () \<longleftrightarrow> (\<exists>base ds. h3_cell r base ds \<and> v = h3_encode r base ds)"
proof
  let ?ds = "map (h3_digit v) [1..<Suc (nat r)]"
  assume "validateH3CellLayout v r raw = Inr ()"
  then obtain base where q: "v div 2 ^ 45 = 2 ^ 14 + r * 2 ^ 7 + base" and b: "0 \<le> base" "base \<le> 121"
    and loop: "loop_ok v r [1..<16]"
    and pent: "\<not> (base \<in> set H3_PENTAGON_BASE_CELLS \<and> leading_digit ?ds = 1)"
    using validate_fields [OF assms] by blast
  have split: "[1..<16] = [1..<Suc (nat r)] @ [Suc (nat r)..<16]"
    using assms upt_add_eq_append [of 1 "Suc (nat r)" "15 - nat r"] by (simp del: upt_rec_numeral)
  have dig: "\<forall>x \<in> set ?ds. 0 \<le> x \<and> x < 7"
  proof
    fix x assume "x \<in> set ?ds"
    then obtain d where d: "x = h3_digit v d" "d \<in> set [1..<Suc (nat r)]" by (metis imageE set_map)
    then have "int d \<le> r" "d \<in> set [1..<16]" using assms unfolding split by auto
    then have "x \<noteq> 7" using loop d(1) unfolding loop_ok_def by metis
    moreover have "0 \<le> x" "x < 8" by (simp_all add: d(1) h3_digit_eq)
    ultimately show "0 \<le> x \<and> x < 7" by linarith
  qed
  have "\<forall>d \<in> set [Suc (nat r)..<16]. h3_digit v d = 7"
  proof
    fix d assume "d \<in> set [Suc (nat r)..<16]"
    then have "\<not> int d \<le> r" "d \<in> set [1..<16]" using assms unfolding split by auto
    then show "h3_digit v d = 7" using loop unfolding loop_ok_def by metis
  qed
  then have "map (h3_digit v) [Suc (nat r)..<16] = replicate (15 - nat r) 7"
    by (intro replicate_eqI) (auto simp del: upt_rec_numeral)
  moreover have "v mod 2 ^ 45 = horner8 (map (h3_digit v) [1..<16])"
  proof -
    have "h3_digit v = (\<lambda>i. v div 8 ^ (15 - i) mod 8)" by (simp add: fun_eq_iff h3_digit_eq)
    moreover have "(8 :: int) ^ 15 = 2 ^ 45" "[1..<16] = [1..<Suc 15]" by simp_all
    ultimately show ?thesis using mod_horner8 [of v 15] by (simp only:)
  qed
  ultimately have "horner8 (?ds @ replicate (15 - nat r) 7) = v mod 2 ^ 45"
    unfolding split map_append by (simp only:)
  then have "v = h3_encode r base ?ds"
    using q div_mult_mod_eq [of v "2 ^ 45"] by (simp add: h3_encode_def algebra_simps del: upt_Suc)
  moreover have "h3_cell r base ?ds"
    using b dig pent assms by (simp add: h3_cell_def del: upt_Suc)
  ultimately show "\<exists>base ds. h3_cell r base ds \<and> v = h3_encode r base ds" by blast
next
  assume "\<exists>base ds. h3_cell r base ds \<and> v = h3_encode r base ds"
  then obtain base ds where c: "h3_cell r base ds" and v: "v = h3_encode r base ds" by blast
  let ?full = "ds @ replicate (15 - length ds) 7"
  have len: "length ds = nat r" "length ?full = 15" using c assms by (auto simp: h3_cell_def)
  have oct: "octal ?full" using c by (auto simp: h3_cell_def octal_def)
  have h: "0 \<le> horner8 ?full" "horner8 ?full < 2 ^ 45"
    using horner8_bounds [OF oct] len by simp_all
  have v': "v = (2 ^ 14 + r * 2 ^ 7 + base) * 2 ^ 45 + horner8 ?full"
    by (simp add: v h3_encode_def algebra_simps)
  have q: "v div 2 ^ 45 = 2 ^ 14 + r * 2 ^ 7 + base" and m: "v mod 2 ^ 45 = horner8 ?full"
    using h by (simp_all only: v' div_mult_self3 mod_mult_self3) simp_all
  have digits: "map (h3_digit v) [1..<16] = ?full"
    by (rule h3_digits_of [OF oct len(2) assms(1) m])
  have nth: "h3_digit v d = ?full ! (d - 1)" if "d \<in> set [1..<16]" for d
  proof -
    have "d - 1 < 15" "[1..<16] ! (d - 1) = d" using that by (auto simp del: upt_rec_numeral)
    then show ?thesis using digits by (metis length_upt nth_map diff_Suc_1 numeral_One length_map len(2))
  qed
  have "loop_ok v r [1..<16]"
    unfolding loop_ok_def
  proof
    fix d assume d: "d \<in> set [1..<16]"
    then have "1 \<le> d" "d < 16" by (simp_all del: upt_rec_numeral)
    moreover from this have "ds ! (d - 1) < 7" if "int d \<le> r"
      using c len that by (simp add: h3_cell_def)
    ultimately show "if int d \<le> r then h3_digit v d \<noteq> 7 else h3_digit v d = 7"
      using nth [OF d] len by (auto simp: nth_append)
  qed
  moreover have "map (h3_digit v) [1..<Suc (nat r)] = ds"
  proof -
    have "take (nat r) [1..<16] = [1..<Suc (nat r)]" using assms by (simp add: take_upt del: upt_rec_numeral)
    then have "map (h3_digit v) [1..<Suc (nat r)] = take (nat r) ?full"
      by (metis digits take_map)
    then show ?thesis using len by simp
  qed
  ultimately show "validateH3CellLayout v r raw = Inr ()"
    using c q validate_fields [OF assms, of raw] by (auto simp: h3_cell_def)
qed

section \<open>Decimal text\<close>

lemma digit_char_val: "is_digit c \<Longrightarrow> digit_char (digit_val c) = c"
  by (rule of_char_eqI [where 'a = nat])
    (auto simp: is_digit_def digit_val_def digit_char_def of_char_of)

lemma digit_val_less: "is_digit c \<Longrightarrow> digit_val c < 10"
  by (auto simp: is_digit_def digit_val_def)

lemma read_nat_snoc [simp]: "read_nat (s @ [c]) = 10 * read_nat s + digit_val c"
  by (simp add: read_nat_def)

lemma read_nat_pos: "s \<noteq> [] \<Longrightarrow> list_all is_digit s \<Longrightarrow> hd s \<noteq> CHR ''0'' \<Longrightarrow> 0 < read_nat s"
proof (induction s rule: rev_induct)
  case (snoc c s)
  show ?case
  proof (cases "s = []")
    case True
    have "digit_char 0 = CHR ''0''"
      by (rule of_char_eqI [where 'a = nat]) (simp add: of_char_digit_char)
    moreover have "digit_char (digit_val c) = c" "c \<noteq> CHR ''0''"
      using digit_char_val [of c] snoc.prems True by simp_all
    ultimately have "digit_val c \<noteq> 0" by metis
    with True show ?thesis by (simp add: read_nat_def)
  next
    case False
    with snoc show ?thesis by simp
  qed
qed simp

lemma show_read_nat: "is_canonical_decimal s \<Longrightarrow> show_nat (read_nat s) = s"
proof (induction s rule: rev_induct)
  case (snoc c s)
  then have c: "is_digit c" by (simp add: is_canonical_decimal_def)
  show ?case
  proof (cases "s = []")
    case True
    with c show ?thesis
      using digit_val_less [of c] by (simp add: read_nat_def show_nat.simps [of "digit_val c"] digit_char_val)
  next
    case False
    with snoc.prems have s: "is_canonical_decimal s" "hd s \<noteq> CHR ''0''"
      by (auto simp: is_canonical_decimal_def)
    with False have "0 < read_nat s" by (intro read_nat_pos) (auto simp: is_canonical_decimal_def)
    with s snoc.IH c digit_val_less [OF c] show ?thesis
      by (simp add: show_nat.simps [of "10 * read_nat s + digit_val c"] digit_char_val)
  qed
qed (simp add: is_canonical_decimal_def)

lemma show_nat_canonical: "is_canonical_decimal (show_nat n)"
proof (induction n rule: show_nat.induct)
  case (1 n)
  show ?case
  proof (cases "n < 10")
    case True
    then show ?thesis by (simp add: show_nat.simps [of n] is_canonical_decimal_def is_digit_digit_char)
  next
    case False
    let ?m = "n div 10"
    from 1 False have IH: "is_canonical_decimal (show_nat ?m)" by simp
    have "show_nat ?m \<noteq> ''0''"
    proof
      assume "show_nat ?m = ''0''"
      then have "?m = read_nat ''0''" by (metis read_show_nat)
      with False show False by (simp add: read_nat_def digit_val_def)
    qed
    with IH have "hd (show_nat ?m) \<noteq> CHR ''0''" by (auto simp: is_canonical_decimal_def)
    with IH False show ?thesis
      by (simp add: show_nat.simps [of n] is_canonical_decimal_def is_digit_digit_char)
  qed
qed

lemma h3_encode_bounds: "h3_cell r base ds \<Longrightarrow> 0 \<le> h3_encode r base ds \<and> h3_encode r base ds \<le> U64_MAX"
proof -
  assume c: "h3_cell r base ds"
  let ?full = "ds @ replicate (15 - length ds) 7"
  have "octal ?full" using c by (auto simp: h3_cell_def octal_def)
  moreover have "length ?full = 15" using c by (auto simp: h3_cell_def)
  ultimately have "0 \<le> horner8 ?full" "horner8 ?full < 2 ^ 45" using horner8_bounds [of ?full] by simp_all
  moreover have "0 \<le> base" "base \<le> 121" "0 \<le> r" "r \<le> 15" using c by (auto simp: h3_cell_def)
  ultimately show ?thesis by (simp add: h3_encode_def U64_MAX_def)
qed

lemma parseH3Index_iff:
  "parseH3Index s r = Inr p \<longleftrightarrow>
   (\<exists>base ds. h3_cell r base ds \<and> s = show_int (h3_encode r base ds)
      \<and> p = \<lparr>decimal = s, h3_value = h3_encode r base ds\<rparr>)"
proof
  assume "parseH3Index s r = Inr p"
  then have r: "0 \<le> r" "r \<le> 15" and s: "is_canonical_decimal s" "int (read_nat s) \<le> U64_MAX"
    and v: "validateH3CellLayout (int (read_nat s)) r s = Inr ()"
    and p: "p = \<lparr>decimal = s, h3_value = int (read_nat s)\<rparr>"
    by (auto simp: parseH3Index_def Let_def res_simps split: if_splits)
  from v r s obtain base ds where "h3_cell r base ds" "int (read_nat s) = h3_encode r base ds"
    by (auto simp: validate_iff_cell)
  moreover from this(2) have "s = show_int (h3_encode r base ds)"
    using show_read_nat [OF s(1)] by (simp add: show_int_def flip: \<open>int (read_nat s) = _\<close>)
  ultimately show "\<exists>base ds. h3_cell r base ds \<and> s = show_int (h3_encode r base ds)
      \<and> p = \<lparr>decimal = s, h3_value = h3_encode r base ds\<rparr>"
    using p by auto
next
  assume "\<exists>base ds. h3_cell r base ds \<and> s = show_int (h3_encode r base ds)
      \<and> p = \<lparr>decimal = s, h3_value = h3_encode r base ds\<rparr>"
  then obtain base ds where c: "h3_cell r base ds" and s: "s = show_int (h3_encode r base ds)"
    and p: "p = \<lparr>decimal = s, h3_value = h3_encode r base ds\<rparr>" by blast
  have b: "0 \<le> h3_encode r base ds" "h3_encode r base ds \<le> U64_MAX" using h3_encode_bounds [OF c] by auto
  have r: "0 \<le> r" "r \<le> 15" using c by (auto simp: h3_cell_def)
  have "is_canonical_decimal s" "int (read_nat s) = h3_encode r base ds"
    using b by (simp_all add: s show_int_def show_nat_canonical read_show_nat)
  moreover have "validateH3CellLayout (h3_encode r base ds) r s = Inr ()"
    using validate_iff_cell [OF b r] c by blast
  ultimately show "parseH3Index s r = Inr p"
    using r b by (simp add: parseH3Index_def p)
qed

section \<open>Properties\<close>

text \<open>C35. The H3 parser accepts exactly the decimal texts of the cells of the expected resolution: a
  text parses if and only if it is the canonical decimal form of the 64-bit index of a base cell
  and digits below 7 (a pentagon's first non-zero digit not 1), and the value parsed is that index.\<close>

theorem h3_parse_exact:
  "parseH3Index s r = Inr p \<longleftrightarrow>
   (\<exists>base ds. h3_cell r base ds \<and> s = show_int (h3_encode r base ds)
      \<and> p = \<lparr>decimal = s, h3_value = h3_encode r base ds\<rparr>)"
  using parseH3Index_iff .

end
