(* ===== verification/AffectedCells.thy ===== *)
theory AffectedCells
  imports Merkle H3
begin

text \<open>
  \<open>packages/proof-core/src/affected-cell-leaf.ts\<close> and \<open>affected-cells.ts\<close>: the leaf of an affected
  cell and its 59-byte encoding, the parser of an affected-cells file, the leaves, the root and the
  inclusion proofs of a parsed file, and the two forms of a proof step.

  The enumerations are the texts the file carries, checked where the code checks them.
  \<open>BigInt(h3_index)\<close> is \<open>read_nat\<close>: the parser accepts only decimal text.
\<close>

section \<open>The leaf\<close>

record affected_cell_leaf =
  leaf_event_uid :: string
  leaf_event_revision :: int
  leaf_h3_index :: int
  leaf_geo_resolution :: int
  leaf_cell_metric :: string
  leaf_intensity_value :: int
  leaf_intensity_scale :: string
  leaf_cell_band :: int
  leaf_cells_generation_method :: string
  leaf_oracle_version :: int

definition CELL_METRIC_INT :: "string \<Rightarrow> int option" where
  "CELL_METRIC_INT = map_of [(''USGS_MMI'', 1)]"

definition INTENSITY_SCALE_INT :: "string \<Rightarrow> int option" where
  "INTENSITY_SCALE_INT = map_of [(''MMI_X100'', 1)]"

definition CELLS_GENERATION_METHOD_INT :: "string \<Rightarrow> int option" where
  "CELLS_GENERATION_METHOD_INT = map_of
     [(''shakemap_gridxml_h3_grid_point_p90_v1'', 1),
      (''shakemap_hdf_h3_area_weighted_p90_v1'', 2),
      (''shakemap_gridxml_h3_center_bilinear_v1'', 3)]"

definition lookup_enum :: "string \<Rightarrow> (string \<Rightarrow> int option) \<Rightarrow> string \<Rightarrow> js_error + int" where
  "lookup_enum name table v = (case table v of None \<Rightarrow> Inl (''Unknown '' @ name @ '': '' @ v) | Some n \<Rightarrow> Inr n)"

definition serializeAffectedCellLeaf :: "affected_cell_leaf \<Rightarrow> js_error + bytes" where
  "serializeAffectedCellLeaf leaf =
     res_bind (expectPrefixedHex32 ''event_uid'' (JStr (leaf_event_uid leaf))) (\<lambda>_.
     res_bind (lookup_enum ''cell_metric'' CELL_METRIC_INT (leaf_cell_metric leaf)) (\<lambda>cellMetricInt.
     res_bind (lookup_enum ''intensity_scale'' INTENSITY_SCALE_INT (leaf_intensity_scale leaf)) (\<lambda>intensityScaleInt.
     res_bind (lookup_enum ''cells_generation_method'' CELLS_GENERATION_METHOD_INT
         (leaf_cells_generation_method leaf)) (\<lambda>cellsGenerationMethodInt.
     let eventUidBytes = hexToBytes (leaf_event_uid leaf) in
     res_bind (u32LittleEndianBytes (leaf_event_revision leaf)) (\<lambda>eventRevisionBytes.
     res_bind (u64LittleEndianBytes (leaf_h3_index leaf)) (\<lambda>h3IndexBytes.
     res_bind (u8Byte (leaf_geo_resolution leaf)) (\<lambda>geoResolutionBytes.
     res_bind (u8Byte cellMetricInt) (\<lambda>cellMetricBytes.
     res_bind (u16LittleEndianBytes (leaf_intensity_value leaf)) (\<lambda>intensityValueBytes.
     res_bind (u8Byte intensityScaleInt) (\<lambda>intensityScaleBytes.
     res_bind (u8Byte (leaf_cell_band leaf)) (\<lambda>cellBandBytes.
     res_bind (u8Byte cellsGenerationMethodInt) (\<lambda>cellsGenerationMethodBytes.
     res_bind (u64LittleEndianBytes (leaf_oracle_version leaf)) (\<lambda>oracleVersionBytes.
       Inr (concat [eventUidBytes, eventRevisionBytes, h3IndexBytes, geoResolutionBytes,
         cellMetricBytes, intensityValueBytes, intensityScaleBytes, cellBandBytes,
         cellsGenerationMethodBytes, oracleVersionBytes]))))))))))))))"

definition affectedCellLeafHash :: "hash_fn \<Rightarrow> affected_cell_leaf \<Rightarrow> js_error + string" where
  "affectedCellLeafHash sha leaf =
     res_bind (serializeAffectedCellLeaf leaf) (\<lambda>bs. Inr (hashLeafBytes sha bs))"

section \<open>The file\<close>

record affected_cell_entry =
  h3_index :: string
  intensity_value :: int
  cell_band :: int

record affected_cells_input =
  event_uid :: string
  event_revision :: int
  oracle_version :: int
  geo_resolution :: int
  cells_generation_method :: string
  cell_metric :: string
  cell_aggregation :: string
  intensity_scale :: string
  affected_cells :: "affected_cell_entry list"

datatype proof_direction = LEFT | RIGHT

record directional_step =
  direction :: proof_direction
  dir_sibling_hash :: string

definition KNOWN_CELLS_GENERATION_METHODS :: "string list" where
  "KNOWN_CELLS_GENERATION_METHODS =
     [''shakemap_gridxml_h3_grid_point_p90_v1'', ''shakemap_hdf_h3_area_weighted_p90_v1'',
      ''shakemap_gridxml_h3_center_bilinear_v1'']"

definition KNOWN_CELL_METRICS :: "string list" where "KNOWN_CELL_METRICS = [''USGS_MMI'']"
definition KNOWN_INTENSITY_SCALES :: "string list" where "KNOWN_INTENSITY_SCALES = [''MMI_X100'']"
definition KNOWN_CELL_AGGREGATIONS :: "string list" where
  "KNOWN_CELL_AGGREGATIONS = [''GRID_POINT_P90'', ''H3_CENTER_BILINEAR'']"

definition REQUIRED_TOP_LEVEL_KEYS :: "string list" where
  "REQUIRED_TOP_LEVEL_KEYS =
     [''event_uid'', ''event_revision'', ''oracle_version'', ''geo_resolution'',
      ''cells_generation_method'', ''cell_metric'', ''cell_aggregation'', ''intensity_scale'',
      ''affected_cells'']"

definition REQUIRED_CELL_KEYS :: "string list" where
  "REQUIRED_CELL_KEYS = [''h3_index'', ''intensity_value'', ''cell_band'']"

definition validateH3IndexString :: "string \<Rightarrow> string \<Rightarrow> js_error + unit" where
  "validateH3IndexString name value =
     (if value \<noteq> ''0'' \<and> starts_with value ''0''
      then Inl (name @ '' h3_index has leading zero: '' @ value)
      else if \<not> (value \<noteq> [] \<and> list_all is_digit value)
      then Inl (name @ '' h3_index is not a valid decimal integer: '' @ value)
      else Inr ())"

definition cell_key :: "affected_cell_entry \<Rightarrow> int" where
  "cell_key c = int (read_nat (h3_index c))"

definition sortCellsByH3Index :: "affected_cell_entry list \<Rightarrow> affected_cell_entry list" where
  "sortCellsByH3Index cells = sort_key cell_key cells"

text \<open>The callback of \<open>rawCells.map\<close>.\<close>

definition parse_cell :: "nat \<Rightarrow> js_value \<Rightarrow> js_error + affected_cell_entry" where
  "parse_cell idx rawCell =
     (let name = ''affected_cells['' @ show_nat idx @ '']'' in
     res_bind (expectRecord name rawCell) (\<lambda>cellRec.
     res_bind (expectKeys name cellRec REQUIRED_CELL_KEYS) (\<lambda>_.
     res_bind (expectString (name @ ''.h3_index'') (get_field cellRec ''h3_index'')) (\<lambda>h3.
     res_bind (validateH3IndexString name h3) (\<lambda>_.
     res_bind (expectNonNegativeSafeInteger (name @ ''.intensity_value'')
         (get_field cellRec ''intensity_value'')) (\<lambda>iv.
     if iv > 0xffff
     then Inl (name @ ''.intensity_value must be a u16 (0..65535), got '' @ show_int iv)
     else
     res_bind (expectNonNegativeSafeInteger (name @ ''.cell_band'') (get_field cellRec ''cell_band'')) (\<lambda>cb.
     if cb < 1 \<or> cb > 3
     then Inl (name @ ''.cell_band must be in range 1..3, got '' @ show_int cb)
     else Inr \<lparr>h3_index = h3, intensity_value = iv, cell_band = cb\<rparr>)))))))"

fun check_ascending :: "nat \<Rightarrow> affected_cell_entry list \<Rightarrow> js_error + unit" where
  "check_ascending i (prev # cur # rest) =
     (if cell_key cur \<le> cell_key prev
      then if cell_key cur = cell_key prev
           then Inl (''affected_cells contains duplicate h3_index: '' @ h3_index cur)
           else Inl (''affected_cells is not sorted by numeric h3_index (index ''
                     @ show_nat (i - 1) @ '' >= index '' @ show_nat i @ '')'')
      else check_ascending (i + 1) (cur # rest))"
| "check_ascending i _ = Inr ()"

definition known :: "string \<Rightarrow> string list \<Rightarrow> string \<Rightarrow> js_error + unit" where
  "known name vals v = (if v \<notin> set vals then Inl (''Unknown '' @ name @ '': '' @ v) else Inr ())"

definition parseAffectedCellsFile :: "js_value \<Rightarrow> js_error + affected_cells_input" where
  "parseAffectedCellsFile value =
     res_bind (expectRecord ''affected_cells_file'' value) (\<lambda>rec.
     res_bind (expectKeys ''affected_cells_file'' rec REQUIRED_TOP_LEVEL_KEYS) (\<lambda>_.
     res_bind (expectPrefixedHex32 ''event_uid'' (get_field rec ''event_uid'')) (\<lambda>uid.
     res_bind (expectPositiveSafeInteger ''event_revision'' (get_field rec ''event_revision'')) (\<lambda>rev.
     res_bind (expectPositiveSafeInteger ''oracle_version'' (get_field rec ''oracle_version'')) (\<lambda>ov.
     res_bind (expectNonNegativeSafeInteger ''geo_resolution'' (get_field rec ''geo_resolution'')) (\<lambda>geo.
     if geo \<noteq> 7 then Inl (''geo_resolution must be 7, got '' @ show_int geo) else
     res_bind (expectString ''cells_generation_method'' (get_field rec ''cells_generation_method'')) (\<lambda>gm.
     res_bind (known ''cells_generation_method'' KNOWN_CELLS_GENERATION_METHODS gm) (\<lambda>_.
     res_bind (expectString ''cell_metric'' (get_field rec ''cell_metric'')) (\<lambda>cm.
     res_bind (known ''cell_metric'' KNOWN_CELL_METRICS cm) (\<lambda>_.
     res_bind (expectString ''cell_aggregation'' (get_field rec ''cell_aggregation'')) (\<lambda>ca.
     res_bind (known ''cell_aggregation'' KNOWN_CELL_AGGREGATIONS ca) (\<lambda>_.
     res_bind (expectString ''intensity_scale'' (get_field rec ''intensity_scale'')) (\<lambda>isc.
     res_bind (known ''intensity_scale'' KNOWN_INTENSITY_SCALES isc) (\<lambda>_.
     res_bind (expectArray ''affected_cells'' (get_field rec ''affected_cells'')) (\<lambda>rawCells.
     if rawCells = [] then Inl ''affected_cells must have at least 1 item'' else
     res_bind (res_map (\<lambda>(i, c). parse_cell i c) (List.enumerate 0 rawCells)) (\<lambda>cells.
     res_bind (check_ascending 1 cells) (\<lambda>_.
     if length (remdups (map cell_key cells)) \<noteq> length (map cell_key cells)
     then Inl ''affected_cells contains duplicate h3_index values''
     else Inr \<lparr>event_uid = uid, event_revision = rev, oracle_version = ov, geo_resolution = geo,
            cells_generation_method = gm, cell_metric = cm, cell_aggregation = ca,
            intensity_scale = isc, affected_cells = cells\<rparr>)))))))))))))))))"

section \<open>Leaves, root and proofs\<close>

fun check_distinct :: "affected_cell_entry list \<Rightarrow> js_error + unit" where
  "check_distinct (prev # cur # rest) =
     (if h3_index cur = h3_index prev
      then Inl (''Duplicate h3_index detected in leaves: '' @ h3_index cur)
      else check_distinct (cur # rest))"
| "check_distinct _ = Inr ()"

definition leaf_of_cell :: "affected_cells_input \<Rightarrow> affected_cell_entry \<Rightarrow> affected_cell_leaf" where
  "leaf_of_cell inp cell =
     \<lparr>leaf_event_uid = event_uid inp, leaf_event_revision = event_revision inp,
      leaf_h3_index = cell_key cell, leaf_geo_resolution = geo_resolution inp,
      leaf_cell_metric = cell_metric inp, leaf_intensity_value = intensity_value cell,
      leaf_intensity_scale = intensity_scale inp, leaf_cell_band = cell_band cell,
      leaf_cells_generation_method = cells_generation_method inp,
      leaf_oracle_version = oracle_version inp\<rparr>"

definition affectedCellLeavesFromInput :: "affected_cells_input \<Rightarrow> js_error + affected_cell_leaf list" where
  "affectedCellLeavesFromInput inp =
     (let sorted = sortCellsByH3Index (affected_cells inp) in
      res_bind (check_distinct sorted) (\<lambda>_. Inr (map (leaf_of_cell inp) sorted)))"

definition affectedCellsLeafHashes :: "hash_fn \<Rightarrow> affected_cells_input \<Rightarrow> js_error + (string \<times> string) list" where
  "affectedCellsLeafHashes sha inp =
     res_bind (affectedCellLeavesFromInput inp) (\<lambda>leaves.
       res_map (\<lambda>(leaf, cell). res_bind (affectedCellLeafHash sha leaf) (\<lambda>h. Inr (h3_index cell, h)))
         (zip leaves (sortCellsByH3Index (affected_cells inp))))"

definition affectedCellsRoot :: "hash_fn \<Rightarrow> affected_cells_input \<Rightarrow> js_error + string" where
  "affectedCellsRoot sha inp =
     res_bind (affectedCellsLeafHashes sha inp) (\<lambda>hashes. merkleRootFromLeafHashes sha (map snd hashes))"

fun find_index :: "('a \<Rightarrow> bool) \<Rightarrow> 'a list \<Rightarrow> nat option" where
  "find_index p [] = None"
| "find_index p (x # xs) = (if p x then Some 0 else map_option Suc (find_index p xs))"

definition affectedCellProofSteps :: "hash_fn \<Rightarrow> affected_cells_input \<Rightarrow> string \<Rightarrow> js_error + proof_step list" where
  "affectedCellProofSteps sha inp h3Index =
     (case find_index (\<lambda>c. h3_index c = h3Index) (sortCellsByH3Index (affected_cells inp)) of
        None \<Rightarrow> Inl (''h3_index '' @ h3Index @ '' not found in affected_cells'')
      | Some leafIndex \<Rightarrow>
        res_bind (affectedCellsLeafHashes sha inp) (\<lambda>hashes.
        res_bind (merkleLevelsFromLeafHashes sha (map snd hashes)) (\<lambda>levels.
          proofStepsFromLevels levels (int leafIndex))))"

definition proofStepToDirectional :: "proof_step \<Rightarrow> directional_step" where
  "proofStepToDirectional st =
     \<lparr>direction = (if sibling_on_left st then LEFT else RIGHT), dir_sibling_hash = sibling_hash st\<rparr>"

definition directionalToProofStep :: "directional_step \<Rightarrow> proof_step" where
  "directionalToProofStep st =
     \<lparr>sibling_on_left = (direction st = LEFT), sibling_hash = dir_sibling_hash st\<rparr>"

section \<open>The leaf encoding\<close>

text \<open>The leaves the encoder accepts and the encoding as one concatenation.\<close>

definition leaf_valid :: "affected_cell_leaf \<Rightarrow> bool" where
  "leaf_valid l \<longleftrightarrow> is_prefixed_hex32 (leaf_event_uid l)
     \<and> CELL_METRIC_INT (leaf_cell_metric l) \<noteq> None
     \<and> INTENSITY_SCALE_INT (leaf_intensity_scale l) \<noteq> None
     \<and> CELLS_GENERATION_METHOD_INT (leaf_cells_generation_method l) \<noteq> None
     \<and> 0 \<le> leaf_event_revision l \<and> leaf_event_revision l \<le> U32_MAX
     \<and> 0 \<le> leaf_h3_index l \<and> leaf_h3_index l \<le> U64_MAX
     \<and> 0 \<le> leaf_geo_resolution l \<and> leaf_geo_resolution l \<le> U8_MAX
     \<and> 0 \<le> leaf_intensity_value l \<and> leaf_intensity_value l \<le> U16_MAX
     \<and> 0 \<le> leaf_cell_band l \<and> leaf_cell_band l \<le> U8_MAX
     \<and> 0 \<le> leaf_oracle_version l \<and> leaf_oracle_version l \<le> U64_MAX"

definition leaf_bytes :: "affected_cell_leaf \<Rightarrow> bytes" where
  "leaf_bytes l = hexToBytes (leaf_event_uid l) @ le_bytes 4 (leaf_event_revision l)
     @ le_bytes 8 (leaf_h3_index l) @ [word_of_int (leaf_geo_resolution l)]
     @ [word_of_int (the (CELL_METRIC_INT (leaf_cell_metric l)))]
     @ le_bytes 2 (leaf_intensity_value l)
     @ [word_of_int (the (INTENSITY_SCALE_INT (leaf_intensity_scale l)))]
     @ [word_of_int (leaf_cell_band l)]
     @ [word_of_int (the (CELLS_GENERATION_METHOD_INT (leaf_cells_generation_method l)))]
     @ le_bytes 8 (leaf_oracle_version l)"

lemma lookup_enum_Inr [res_simps]: "lookup_enum name t v = Inr n \<longleftrightarrow> t v = Some n"
  by (auto simp: lookup_enum_def split: option.split)

lemma u8Byte_Inr [res_simps]: "u8Byte n = Inr bs \<longleftrightarrow> 0 \<le> n \<and> n \<le> U8_MAX \<and> bs = [word_of_int n]"
  by (auto simp: u8Byte_def)

lemma enum_tables:
  "CELL_METRIC_INT v = Some n \<longleftrightarrow> v = ''USGS_MMI'' \<and> n = 1"
  "INTENSITY_SCALE_INT v = Some n \<longleftrightarrow> v = ''MMI_X100'' \<and> n = 1"
  by (auto simp: CELL_METRIC_INT_def INTENSITY_SCALE_INT_def)

lemma enum_values [simp]:
  "CELL_METRIC_INT ''USGS_MMI'' = Some 1" "INTENSITY_SCALE_INT ''MMI_X100'' = Some 1"
  by (simp_all add: enum_tables)

lemma method_table_bounds: "CELLS_GENERATION_METHOD_INT v = Some n \<Longrightarrow> 0 \<le> n \<and> n \<le> U8_MAX"
  by (auto simp: CELLS_GENERATION_METHOD_INT_def U8_MAX_def split: if_splits)

lemma method_table_inject:
  "CELLS_GENERATION_METHOD_INT v = Some n \<Longrightarrow> CELLS_GENERATION_METHOD_INT w = Some n \<Longrightarrow> v = w"
  by (auto simp: CELLS_GENERATION_METHOD_INT_def split: if_splits)

lemma serialize_Inr:
  "serializeAffectedCellLeaf l = Inr bs \<longleftrightarrow> leaf_valid l \<and> bs = leaf_bytes l"
  by (auto simp: serializeAffectedCellLeaf_def leaf_valid_def leaf_bytes_def Let_def res_simps
      enum_tables U8_MAX_def split: if_splits dest: method_table_bounds [unfolded U8_MAX_def])

lemma leaf_bytes_length: "length (leaf_bytes l) = 59"
  by (simp add: leaf_bytes_def)

lemma le_bytes_inject:
  "0 \<le> a \<Longrightarrow> a < 256 ^ k \<Longrightarrow> 0 \<le> b \<Longrightarrow> b < 256 ^ k \<Longrightarrow> le_bytes k a = le_bytes k b \<longleftrightarrow> a = b"
  by (metis le_int_le_bytes mod_pos_pos_trivial)

lemma byte_inject:
  "0 \<le> a \<Longrightarrow> a \<le> U8_MAX \<Longrightarrow> 0 \<le> b \<Longrightarrow> b \<le> U8_MAX \<Longrightarrow> (word_of_int a :: byte) = word_of_int b \<longleftrightarrow> a = b"
  using le_bytes_inject [of a 1 b] by (simp add: le_bytes_def U8_MAX_def)

lemma leaf_bytes_inject:
  assumes "leaf_valid l1" and "leaf_valid l2" and "leaf_bytes l1 = leaf_bytes l2"
  shows "l1 = l2"
proof -
  have eqs: "hexToBytes (leaf_event_uid l1) = hexToBytes (leaf_event_uid l2)"
    "le_bytes 4 (leaf_event_revision l1) = le_bytes 4 (leaf_event_revision l2)"
    "le_bytes 8 (leaf_h3_index l1) = le_bytes 8 (leaf_h3_index l2)"
    "(word_of_int (leaf_geo_resolution l1) :: byte) = word_of_int (leaf_geo_resolution l2)"
    "le_bytes 2 (leaf_intensity_value l1) = le_bytes 2 (leaf_intensity_value l2)"
    "(word_of_int (leaf_cell_band l1) :: byte) = word_of_int (leaf_cell_band l2)"
    "(word_of_int (the (CELLS_GENERATION_METHOD_INT (leaf_cells_generation_method l1))) :: byte)
      = word_of_int (the (CELLS_GENERATION_METHOD_INT (leaf_cells_generation_method l2)))"
    "le_bytes 8 (leaf_oracle_version l1) = le_bytes 8 (leaf_oracle_version l2)"
    using assms(3) by (simp_all add: leaf_bytes_def)
  then have "leaf_event_uid l1 = leaf_event_uid l2"
    "leaf_event_revision l1 = leaf_event_revision l2" "leaf_h3_index l1 = leaf_h3_index l2"
    "leaf_geo_resolution l1 = leaf_geo_resolution l2"
    "leaf_intensity_value l1 = leaf_intensity_value l2" "leaf_cell_band l1 = leaf_cell_band l2"
    "leaf_oracle_version l1 = leaf_oracle_version l2"
    using assms(1,2) unfolding leaf_valid_def
    by (simp_all add: hexToBytes_inject le_bytes_inject byte_inject U32_MAX_def U64_MAX_def U16_MAX_def)
  moreover have "leaf_cell_metric l1 = leaf_cell_metric l2" "leaf_intensity_scale l1 = leaf_intensity_scale l2"
    using assms(1,2) unfolding leaf_valid_def by (auto simp: enum_tables)
  moreover obtain n1 n2 where n: "CELLS_GENERATION_METHOD_INT (leaf_cells_generation_method l1) = Some n1"
    "CELLS_GENERATION_METHOD_INT (leaf_cells_generation_method l2) = Some n2"
    using assms(1,2) unfolding leaf_valid_def by blast
  with eqs(7) method_table_bounds [OF n(1)] method_table_bounds [OF n(2)] have "n1 = n2"
    by (simp add: byte_inject)
  with n have "leaf_cells_generation_method l1 = leaf_cells_generation_method l2"
    using method_table_inject by simp
  ultimately show ?thesis by simp
qed

section \<open>The accepted files\<close>

text \<open>What a JSON value must be to denote an input, whatever the order of its fields.\<close>

definition denotes_cell :: "js_value \<Rightarrow> affected_cell_entry \<Rightarrow> bool" where
  "denotes_cell v c \<longleftrightarrow> (\<exists>fs. v = JObj fs \<and> set (map fst fs) = set REQUIRED_CELL_KEYS
     \<and> get_field fs ''h3_index'' = JStr (h3_index c)
     \<and> get_field fs ''intensity_value'' = jint (intensity_value c)
     \<and> get_field fs ''cell_band'' = jint (cell_band c))"

definition denotes_file :: "js_value \<Rightarrow> affected_cells_input \<Rightarrow> bool" where
  "denotes_file v inp \<longleftrightarrow> (\<exists>fs cs. v = JObj fs \<and> set (map fst fs) = set REQUIRED_TOP_LEVEL_KEYS
     \<and> get_field fs ''event_uid'' = JStr (event_uid inp)
     \<and> get_field fs ''event_revision'' = jint (event_revision inp)
     \<and> get_field fs ''oracle_version'' = jint (oracle_version inp)
     \<and> get_field fs ''geo_resolution'' = jint (geo_resolution inp)
     \<and> get_field fs ''cells_generation_method'' = JStr (cells_generation_method inp)
     \<and> get_field fs ''cell_metric'' = JStr (cell_metric inp)
     \<and> get_field fs ''cell_aggregation'' = JStr (cell_aggregation inp)
     \<and> get_field fs ''intensity_scale'' = JStr (intensity_scale inp)
     \<and> get_field fs ''affected_cells'' = JArr cs \<and> list_all2 denotes_cell cs (affected_cells inp))"

definition wf_cell :: "affected_cell_entry \<Rightarrow> bool" where
  "wf_cell c \<longleftrightarrow> is_canonical_decimal (h3_index c) \<and> 0 \<le> intensity_value c
     \<and> intensity_value c \<le> 0xffff \<and> 1 \<le> cell_band c \<and> cell_band c \<le> 3"

definition wf_input :: "affected_cells_input \<Rightarrow> bool" where
  "wf_input inp \<longleftrightarrow> is_prefixed_hex32 (event_uid inp)
     \<and> 0 < event_revision inp \<and> event_revision inp \<le> MAX_SAFE_INTEGER
     \<and> 0 < oracle_version inp \<and> oracle_version inp \<le> MAX_SAFE_INTEGER
     \<and> geo_resolution inp = 7
     \<and> cells_generation_method inp \<in> set KNOWN_CELLS_GENERATION_METHODS
     \<and> cell_metric inp \<in> set KNOWN_CELL_METRICS
     \<and> cell_aggregation inp \<in> set KNOWN_CELL_AGGREGATIONS
     \<and> intensity_scale inp \<in> set KNOWN_INTENSITY_SCALES
     \<and> affected_cells inp \<noteq> [] \<and> list_all wf_cell (affected_cells inp)
     \<and> sorted_wrt (<) (map cell_key (affected_cells inp))"

lemma validateH3IndexString_Inr [res_simps]:
  "validateH3IndexString name s = Inr u \<longleftrightarrow> is_canonical_decimal s"
  by (cases s) (auto simp: validateH3IndexString_def is_canonical_decimal_def starts_with_def)

lemma known_Inr [res_simps]: "known name vals v = Inr u \<longleftrightarrow> v \<in> set vals"
  by (auto simp: known_def)

lemma check_ascending_Inr [res_simps]:
  "check_ascending i cs = Inr u \<longleftrightarrow> sorted_wrt (<) (map cell_key cs)"
  by (induction i cs rule: check_ascending.induct) (auto simp: sorted_wrt2 sorted_wrt1 simp del: sorted_wrt.simps(2))

lemma parse_cell_Inr: "parse_cell i v = Inr c \<longleftrightarrow> denotes_cell v c \<and> wf_cell c"
  by (cases c) (auto simp: parse_cell_def Let_def res_simps denotes_cell_def wf_cell_def MAX_SAFE_INTEGER_def)

lemma parse_cells_Inr:
  "res_map (\<lambda>(i, c). parse_cell i c) (List.enumerate n raw) = Inr cs
   \<longleftrightarrow> list_all2 denotes_cell raw cs \<and> list_all wf_cell cs"
  by (induction raw arbitrary: n cs) (auto simp: res_simps parse_cell_Inr list_all2_Cons1)

lemma no_duplicates: "sorted_wrt (<) (map cell_key cs) \<Longrightarrow> length (remdups (map cell_key cs)) = length cs"
  by (simp add: strict_sorted_iff distinct_remdups_id)

lemma parseAffectedCellsFile_Inr:
  "parseAffectedCellsFile v = Inr inp \<longleftrightarrow> denotes_file v inp \<and> wf_input inp"
proof
  assume "parseAffectedCellsFile v = Inr inp"
  then show "denotes_file v inp \<and> wf_input inp"
    unfolding parseAffectedCellsFile_def res_simps parse_cells_Inr
    by (elim exE conjE) (auto simp: denotes_file_def wf_input_def)
next
  assume "denotes_file v inp \<and> wf_input inp"
  then show "parseAffectedCellsFile v = Inr inp"
    unfolding parseAffectedCellsFile_def res_simps parse_cells_Inr denotes_file_def wf_input_def
    apply (elim exE conjE)
    apply (simp add: MAX_SAFE_INTEGER_def)
    apply (rule conjI)
     apply (metis list_all2_Nil)
    apply (rule exI [of _ "affected_cells inp"])
    apply (simp add: no_duplicates)
    done
qed

section \<open>Hashes of an accepted file\<close>

text \<open>The inputs whose leaves fit the encoding.\<close>

definition encodable :: "affected_cells_input \<Rightarrow> bool" where
  "encodable inp \<longleftrightarrow> event_revision inp \<le> U32_MAX
     \<and> list_all (\<lambda>c. cell_key c \<le> U64_MAX) (affected_cells inp)"

definition cell_hash :: "hash_fn \<Rightarrow> affected_cells_input \<Rightarrow> affected_cell_entry \<Rightarrow> string" where
  "cell_hash sha inp c = hashLeafBytes sha (leaf_bytes (leaf_of_cell inp c))"

lemma sortCells_id: "wf_input inp \<Longrightarrow> sortCellsByH3Index (affected_cells inp) = affected_cells inp"
  by (simp add: sortCellsByH3Index_def wf_input_def sorted_sort_id strict_sorted_imp_sorted
      sort_key_id_if_sorted)

lemma check_distinct_Inr: "sorted_wrt (<) (map cell_key cs) \<Longrightarrow> check_distinct cs = Inr ()"
  by (induction cs rule: check_distinct.induct) (auto simp: cell_key_def)

lemma leaf_valid_cell:
  assumes "wf_input inp" and "c \<in> set (affected_cells inp)"
  shows "leaf_valid (leaf_of_cell inp c) \<longleftrightarrow> event_revision inp \<le> U32_MAX \<and> cell_key c \<le> U64_MAX"
proof -
  have "wf_cell c" using assms by (auto simp: wf_input_def list_all_iff)
  moreover have "CELLS_GENERATION_METHOD_INT (cells_generation_method inp) \<noteq> None"
    "cell_metric inp = ''USGS_MMI''" "intensity_scale inp = ''MMI_X100''"
    using assms(1)
    by (auto simp: wf_input_def KNOWN_CELLS_GENERATION_METHODS_def CELLS_GENERATION_METHOD_INT_def
        KNOWN_CELL_METRICS_def KNOWN_INTENSITY_SCALES_def)
  ultimately show ?thesis using assms(1)
    by (simp add: leaf_valid_def leaf_of_cell_def wf_input_def wf_cell_def cell_key_def U8_MAX_def
        U16_MAX_def U64_MAX_def MAX_SAFE_INTEGER_def)
qed

lemma leafHash_cell:
  assumes "wf_input inp" and "c \<in> set (affected_cells inp)"
  shows "affectedCellLeafHash sha (leaf_of_cell inp c) = Inr h \<longleftrightarrow>
    event_revision inp \<le> U32_MAX \<and> cell_key c \<le> U64_MAX \<and> h = cell_hash sha inp c"
  using leaf_valid_cell [OF assms]
  by (auto simp: affectedCellLeafHash_def res_simps serialize_Inr cell_hash_def)

lemma leafHashes_Inr:
  assumes "wf_input inp"
  shows "affectedCellsLeafHashes sha inp = Inr hs \<longleftrightarrow>
    encodable inp \<and> hs = map (\<lambda>c. (h3_index c, cell_hash sha inp c)) (affected_cells inp)"
proof -
  let ?f = "\<lambda>(leaf, cell). res_bind (affectedCellLeafHash sha leaf) (\<lambda>h. Inr (h3_index cell, h))"
  have "res_map ?f (zip (map (leaf_of_cell inp) cs) cs) = Inr hs \<longleftrightarrow>
      (\<forall>c \<in> set cs. event_revision inp \<le> U32_MAX \<and> cell_key c \<le> U64_MAX)
      \<and> hs = map (\<lambda>c. (h3_index c, cell_hash sha inp c)) cs"
    if "set cs \<subseteq> set (affected_cells inp)" for cs
    using that
    by (induction cs arbitrary: hs) (auto simp: res_simps leafHash_cell [OF assms])
  from this [of "affected_cells inp"] assms show ?thesis
    by (auto simp: affectedCellsLeafHashes_def affectedCellLeavesFromInput_def Let_def sortCells_id
        wf_input_def check_distinct_Inr encodable_def list_all_iff neq_Nil_conv)
qed

section \<open>Root and proofs of an accepted file\<close>

lemma cell_hash_hex32: "sha256_ok sha \<Longrightarrow> hex32_list (map (cell_hash sha inp) cs)"
  by (simp add: hex32_list_def cell_hash_def)

lemma affectedCellsRoot_Inr:
  assumes "wf_input inp"
  shows "affectedCellsRoot sha inp = Inr r \<longleftrightarrow> encodable inp
    \<and> merkleRootFromLeafHashes sha (map (cell_hash sha inp) (affected_cells inp)) = Inr r"
  by (auto simp: affectedCellsRoot_def res_simps leafHashes_Inr [OF assms] o_def)

lemma find_index_nth:
  "distinct (map f xs) \<Longrightarrow> i < length xs \<Longrightarrow> find_index (\<lambda>x. f x = f (xs ! i)) xs = Some i"
proof (induction xs arbitrary: i)
  case (Cons x xs)
  show ?case
  proof (cases i)
    case (Suc j)
    with Cons.prems have "xs ! j \<in> set xs" "f x \<notin> f ` set xs" by simp_all
    then have "f x \<noteq> f (xs ! j)" by (metis imageI)
    with Suc Cons show ?thesis by simp
  qed simp
qed simp

lemma distinct_h3_index: "wf_input inp \<Longrightarrow> distinct (map h3_index (affected_cells inp))"
proof -
  assume "wf_input inp"
  then have "distinct (map cell_key (affected_cells inp))" by (simp add: wf_input_def strict_sorted_iff)
  then show ?thesis by (auto simp: distinct_map inj_on_def cell_key_def)
qed

lemma affectedCellProofSteps_Inr:
  assumes "wf_input inp" and "i < length (affected_cells inp)"
  shows "affectedCellProofSteps sha inp (h3_index (affected_cells inp ! i)) = Inr steps \<longleftrightarrow>
    encodable inp \<and>
    steps = proof_steps_loop (levels_of sha (map (cell_hash sha inp) (affected_cells inp))) i"
proof -
  let ?hs = "map (cell_hash sha inp) (affected_cells inp)"
  have ne: "affected_cells inp \<noteq> []" using assms by (auto simp: wf_input_def)
  have "find_index (\<lambda>c. h3_index c = h3_index (affected_cells inp ! i)) (affected_cells inp) = Some i"
    by (rule find_index_nth [OF distinct_h3_index [OF assms(1)] assms(2)])
  moreover have "i < length ?hs" using assms by simp
  ultimately show ?thesis
    using ne by (auto simp: affectedCellProofSteps_def sortCells_id [OF assms(1)] res_simps
        leafHashes_Inr [OF assms(1)] o_def proofStepsFromLevels_eq)
qed

lemma cell_proof_replays:
  assumes "sha256_ok sha" and "wf_input inp" and "encodable inp" and "i < length (affected_cells inp)"
  shows "\<exists>steps rt. affectedCellProofSteps sha inp (h3_index (affected_cells inp ! i)) = Inr steps
    \<and> affectedCellsRoot sha inp = Inr rt
    \<and> replayProof sha (cell_hash sha inp (affected_cells inp ! i)) steps = Inr rt"
proof -
  let ?hs = "map (cell_hash sha inp) (affected_cells inp)"
  have i: "i < length ?hs" and ne: "?hs \<noteq> []" using assms by auto
  obtain steps rt where "proofStepsFromLevels (levels_of sha ?hs) (int i) = Inr steps"
      "merkleRootFromLeafHashes sha ?hs = Inr rt" "replayProof sha (?hs ! i) steps = Inr rt"
    using replay_of_proof [OF assms(1) cell_hash_hex32 i] ne assms(1) by auto
  with i assms show ?thesis
    by (auto simp: affectedCellProofSteps_Inr affectedCellsRoot_Inr proofStepsFromLevels_eq)
qed

lemma cell_proof_sound:
  assumes sha: "sha256_ok sha" and wf: "wf_input inp" and i: "i < length (affected_cells inp)"
    and honest: "affectedCellProofSteps sha inp (h3_index (affected_cells inp ! i)) = Inr q"
    and rt: "affectedCellsRoot sha inp = Inr rt"
    and leaf: "affectedCellLeafHash sha l = Inr h"
    and replay: "replayProof sha h p = Inr rt"
    and dirs: "suffix (map sibling_on_left q) (map sibling_on_left p)"
  shows "(l = leaf_of_cell inp (affected_cells inp ! i) \<and> p = q)
    \<or> collision sha (hashed_inputs sha (leaf_bytes (leaf_of_cell inp (affected_cells inp ! i))) q)
        (hashed_inputs sha (leaf_bytes l) p)"
proof -
  let ?c = "leaf_of_cell inp (affected_cells inp ! i)"
  have enc: "encodable inp" using honest wf i by (simp add: affectedCellProofSteps_Inr)
  have l: "leaf_valid l" "h = hashLeafBytes sha (leaf_bytes l)"
    using leaf by (auto simp: affectedCellLeafHash_def res_simps serialize_Inr)
  have c: "leaf_valid ?c"
    using enc i wf leaf_valid_cell [OF wf, of "affected_cells inp ! i"]
    by (simp add: encodable_def list_all_length)
  have "replayProof sha (hashLeafBytes sha (leaf_bytes ?c)) q = Inr rt"
    using cell_proof_replays [OF sha wf enc i] honest rt by (auto simp: cell_hash_def)
  from replay_binding [OF sha this replay [unfolded l] dirs] show ?thesis
    using leaf_bytes_inject [OF c l(1)] by auto
qed

section \<open>Directions\<close>

lemma directional_inverse:
  "directionalToProofStep (proofStepToDirectional st) = st"
  "proofStepToDirectional (directionalToProofStep d) = d"
  by (cases d; cases "direction d"; simp add: directionalToProofStep_def proofStepToDirectional_def)+

section \<open>Properties\<close>

text \<open>A file of two cells, as JSON and parsed.\<close>

definition sample_uid :: string where "sample_uid = bytesToPrefixedHex (replicate 32 0xab)"

definition sample_input :: affected_cells_input where
  "sample_input =
     \<lparr>event_uid = sample_uid, event_revision = 1, oracle_version = 2, geo_resolution = 7,
      cells_generation_method = ''shakemap_gridxml_h3_grid_point_p90_v1'', cell_metric = ''USGS_MMI'',
      cell_aggregation = ''GRID_POINT_P90'', intensity_scale = ''MMI_X100'',
      affected_cells = [\<lparr>h3_index = ''7'', intensity_value = 650, cell_band = 1\<rparr>,
                        \<lparr>h3_index = ''12'', intensity_value = 700, cell_band = 2\<rparr>]\<rparr>"

lemma sample_wf: "wf_input sample_input"
  by (simp add: wf_input_def sample_input_def sample_uid_def MAX_SAFE_INTEGER_def
      KNOWN_CELLS_GENERATION_METHODS_def KNOWN_CELL_METRICS_def KNOWN_CELL_AGGREGATIONS_def
      KNOWN_INTENSITY_SCALES_def wf_cell_def is_canonical_decimal_def is_digit_def cell_key_def
      read_nat_def digit_val_def)

lemma sample_encodable: "encodable sample_input"
  by (simp add: encodable_def sample_input_def U32_MAX_def U64_MAX_def cell_key_def read_nat_def digit_val_def)

text \<open>The leaf encoding is exact: encoding succeeds precisely on the leaves whose fields fit their
  widths and whose enumerations are known, it gives 59 bytes, and two leaves with the same bytes
  are equal.\<close>

theorem leaf_encoding_exact:
  "((\<exists>bs. serializeAffectedCellLeaf l = Inr bs) \<longleftrightarrow> leaf_valid l)
   \<and> (\<forall>bs. serializeAffectedCellLeaf l = Inr bs \<longrightarrow>
        length bs = 59 \<and> (\<forall>l'. serializeAffectedCellLeaf l' = Inr bs \<longrightarrow> l' = l))"
  by (auto simp: serialize_Inr leaf_bytes_length dest: leaf_bytes_inject)

theorem leaf_encoding_exact_witness:
  "\<exists>bs. serializeAffectedCellLeaf (leaf_of_cell sample_input (hd (affected_cells sample_input))) = Inr bs
     \<and> length bs = 59"
proof -
  let ?l = "leaf_of_cell sample_input (hd (affected_cells sample_input))"
  have "leaf_valid ?l"
    using leaf_valid_cell [OF sample_wf, of "hd (affected_cells sample_input)"]
    by (simp add: sample_input_def U32_MAX_def U64_MAX_def cell_key_def read_nat_def digit_val_def)
  then show ?thesis using leaf_encoding_exact [of ?l] by blast
qed

text \<open>C34. The file parser accepts exactly the well-formed files: a JSON value parses to an input if
  and only if it is an object of exactly the nine fields denoting that input, and the input has
  resolution 7, known enumerations, at least one cell, 16-bit intensities, bands 1 to 3 and
  strictly ascending numeric indexes.\<close>

theorem affected_cells_parse_exact:
  "parseAffectedCellsFile v = Inr inp \<longleftrightarrow> denotes_file v inp \<and> wf_input inp"
  using parseAffectedCellsFile_Inr .

text \<open>Hashing a parsed file succeeds exactly when its revision fits 32 bits and every index fits
  64 bits; the hashes are then those of the cells in file order and the root is the Merkle root
  over them.\<close>

theorem affected_cells_root_defined:
  assumes "parseAffectedCellsFile v = Inr inp"
  shows "((\<exists>rt. affectedCellsRoot sha inp = Inr rt) \<longleftrightarrow> encodable inp)
    \<and> (encodable inp \<longrightarrow>
        affectedCellsLeafHashes sha inp =
          Inr (map (\<lambda>c. (h3_index c, cell_hash sha inp c)) (affected_cells inp))
        \<and> affectedCellsRoot sha inp =
          merkleRootFromLeafHashes sha (map (cell_hash sha inp) (affected_cells inp)))"
proof -
  have wf: "wf_input inp" using assms by (simp add: parseAffectedCellsFile_Inr)
  then have ne: "affected_cells inp \<noteq> []" by (simp add: wf_input_def)
  have "affectedCellsLeafHashes sha inp =
      Inr (map (\<lambda>c. (h3_index c, cell_hash sha inp c)) (affected_cells inp))" if "encodable inp"
    using that by (simp add: leafHashes_Inr [OF wf])
  then show ?thesis
    using ne affectedCellsRoot_Inr [OF wf] by (auto simp: merkleRoot_eq affectedCellsRoot_def o_def)
qed

definition sample_json :: js_value where
  "sample_json = JObj
     [(''event_uid'', JStr sample_uid), (''event_revision'', JNum 1), (''oracle_version'', JNum 2),
      (''geo_resolution'', JNum 7),
      (''cells_generation_method'', JStr ''shakemap_gridxml_h3_grid_point_p90_v1''),
      (''cell_metric'', JStr ''USGS_MMI''), (''cell_aggregation'', JStr ''GRID_POINT_P90''),
      (''intensity_scale'', JStr ''MMI_X100''),
      (''affected_cells'', JArr
        [JObj [(''h3_index'', JStr ''7''), (''intensity_value'', JNum 650), (''cell_band'', JNum 1)],
         JObj [(''h3_index'', JStr ''12''), (''intensity_value'', JNum 700), (''cell_band'', JNum 2)]])]"

lemma sample_parse: "parseAffectedCellsFile sample_json = Inr sample_input"
proof -
  have "denotes_file sample_json sample_input"
    by (simp add: denotes_file_def sample_json_def sample_input_def get_field_def denotes_cell_def
        REQUIRED_TOP_LEVEL_KEYS_def REQUIRED_CELL_KEYS_def insert_commute)
  with sample_wf show ?thesis by (simp add: parseAffectedCellsFile_Inr)
qed

theorem affected_cells_root_defined_witness: "\<exists>rt. affectedCellsRoot checksum32 sample_input = Inr rt"
  using affected_cells_root_defined [OF sample_parse] sample_encodable by blast

text \<open>Every cell of an accepted file is provable: its proof can be built, the root exists, and
  replaying the proof from the cell's leaf hash gives the root.\<close>

theorem affected_cell_proof_complete:
  assumes "sha256_ok sha" and "parseAffectedCellsFile v = Inr inp" and "encodable inp"
    and "c \<in> set (affected_cells inp)"
  shows "\<exists>h steps rt. affectedCellLeafHash sha (leaf_of_cell inp c) = Inr h
    \<and> affectedCellProofSteps sha inp (h3_index c) = Inr steps
    \<and> affectedCellsRoot sha inp = Inr rt \<and> replayProof sha h steps = Inr rt"
proof -
  have wf: "wf_input inp" using assms(2) by (simp add: parseAffectedCellsFile_Inr)
  obtain i where i: "i < length (affected_cells inp)" "c = affected_cells inp ! i"
    using assms(4) by (auto simp: in_set_conv_nth)
  have "affectedCellLeafHash sha (leaf_of_cell inp c) = Inr (cell_hash sha inp c)"
    using assms(3,4) by (simp add: leafHash_cell [OF wf] encodable_def list_all_iff)
  with cell_proof_replays [OF assms(1) wf assms(3) i(1)] i(2) show ?thesis by blast
qed

theorem affected_cell_proof_complete_witness:
  "\<exists>h steps rt. affectedCellLeafHash checksum32 (leaf_of_cell sample_input (hd (affected_cells sample_input))) = Inr h
    \<and> affectedCellProofSteps checksum32 sample_input (h3_index (hd (affected_cells sample_input))) = Inr steps
    \<and> affectedCellsRoot checksum32 sample_input = Inr rt \<and> replayProof checksum32 h steps = Inr rt"
  by (rule affected_cell_proof_complete [OF sha256_ok_checksum32 sample_parse sample_encodable])
     (simp add: sample_input_def)

text \<open>C33. No other leaf is provable in a cell's place: a leaf whose hash replays to the root of a
  parsed file along a proof that ends with the directions of cell \<open>i\<close>'s proof is the leaf of cell
  \<open>i\<close>, with its index, intensity and band, and the proof is cell \<open>i\<close>'s, unless two of the inputs
  hashed along the two proofs collide.\<close>

theorem affected_cell_proof_sound:
  assumes "sha256_ok sha" and "parseAffectedCellsFile v = Inr inp" and "i < length (affected_cells inp)"
    and "affectedCellProofSteps sha inp (h3_index (affected_cells inp ! i)) = Inr q"
    and "affectedCellsRoot sha inp = Inr rt"
    and "affectedCellLeafHash sha l = Inr h"
    and "replayProof sha h p = Inr rt"
    and "suffix (map sibling_on_left q) (map sibling_on_left p)"
  shows "(l = leaf_of_cell inp (affected_cells inp ! i) \<and> p = q)
    \<or> collision sha (hashed_inputs sha (leaf_bytes (leaf_of_cell inp (affected_cells inp ! i))) q)
        (hashed_inputs sha (leaf_bytes l) p)"
  using cell_proof_sound [OF assms(1) _ assms(3-)] assms(2) by (simp add: parseAffectedCellsFile_Inr)

theorem affected_cell_proof_sound_witness:
  "\<exists>q rt. affectedCellProofSteps checksum32 sample_input (h3_index (affected_cells sample_input ! 1)) = Inr q
    \<and> replayProof checksum32 (cell_hash checksum32 sample_input (affected_cells sample_input ! 1)) q = Inr rt
    \<and> ((leaf_of_cell sample_input (affected_cells sample_input ! 1)
          = leaf_of_cell sample_input (affected_cells sample_input ! 1) \<and> q = q)
       \<or> collision checksum32
           (hashed_inputs checksum32 (leaf_bytes (leaf_of_cell sample_input (affected_cells sample_input ! 1))) q)
           (hashed_inputs checksum32 (leaf_bytes (leaf_of_cell sample_input (affected_cells sample_input ! 1))) q))"
proof -
  let ?l = "leaf_of_cell sample_input (affected_cells sample_input ! 1)"
  have i: "1 < length (affected_cells sample_input)" by (simp add: sample_input_def)
  then have c: "affected_cells sample_input ! 1 \<in> set (affected_cells sample_input)" by simp
  obtain q rt where q: "affectedCellProofSteps checksum32 sample_input (h3_index (affected_cells sample_input ! 1)) = Inr q"
      "affectedCellsRoot checksum32 sample_input = Inr rt"
      "replayProof checksum32 (cell_hash checksum32 sample_input (affected_cells sample_input ! 1)) q = Inr rt"
    using cell_proof_replays [OF sha256_ok_checksum32 sample_wf sample_encodable i] by blast
  moreover have leaf: "affectedCellLeafHash checksum32 ?l
      = Inr (cell_hash checksum32 sample_input (affected_cells sample_input ! 1))"
    using sample_encodable i c by (simp add: leafHash_cell [OF sample_wf] encodable_def list_all_length)
  moreover note affected_cell_proof_sound [OF sha256_ok_checksum32 sample_parse i q(1,2) leaf q(3)]
  ultimately show ?thesis by blast
qed

text \<open>The two forms of a proof step are inverse to each other.\<close>

theorem proof_direction_roundtrip:
  "directionalToProofStep (proofStepToDirectional st) = st
   \<and> proofStepToDirectional (directionalToProofStep d) = d"
  using directional_inverse by blast

end
