(* ===== verification/ProofManifest.thy ===== *)
theory ProofManifest
  imports AffectedCells "HOL-Library.Multiset"
begin

text \<open>
  \<open>packages/proof-core/src/shard.ts\<close> and \<open>manifest.ts\<close>: the shard of a cell, the proof entries of
  a file, their grouping into shards and the manifest published with them.

  The canonical JSON bytes of a shard are built as \<open>JSON.stringify\<close> and \<open>TextEncoder\<close> build them
  for objects of strings and booleans.
\<close>

record proof_entry =
  pe_h3_index :: string
  pe_leaf_hash :: string
  pe_proof :: "proof_step list"

record proof_shard_group =
  sg_shard_id :: int
  sg_proof_count :: nat
  sg_sha256 :: string
  sg_byte_size :: nat
  sg_proofs :: "proof_entry list"

record manifest_shard =
  ms_shard_id :: int
  ms_proof_count :: nat
  ms_sha256 :: string
  ms_byte_size :: nat

record proof_manifest =
  pm_merkle_root :: string
  pm_shard_count :: int
  pm_total_proof_count :: nat
  pm_shards :: "manifest_shard list"

section \<open>Canonical bytes\<close>

definition hex4 :: "nat \<Rightarrow> string" where
  "hex4 n = [hex_char (n div 4096), hex_char (n div 256 mod 16), hex_char (n div 16 mod 16), hex_char (n mod 16)]"

definition json_escape :: "char \<Rightarrow> string" where
  "json_escape c =
     (let n = (of_char c :: nat) in
      if n = 34 \<or> n = 92 then [char_of (92 :: nat), c]
      else if n = 8 then [char_of (92 :: nat), CHR ''b'']
      else if n = 9 then [char_of (92 :: nat), CHR ''t'']
      else if n = 10 then [char_of (92 :: nat), CHR ''n'']
      else if n = 12 then [char_of (92 :: nat), CHR ''f'']
      else if n = 13 then [char_of (92 :: nat), CHR ''r'']
      else if n < 32 then [char_of (92 :: nat), CHR ''u''] @ hex4 n
      else [c])"

definition json_string :: "string \<Rightarrow> string" where
  "json_string s = [char_of (34 :: nat)] @ concat (map json_escape s) @ [char_of (34 :: nat)]"

fun join_comma :: "string list \<Rightarrow> string" where
  "join_comma [] = []"
| "join_comma [x] = x"
| "join_comma (x # y # ys) = x @ '','' @ join_comma (y # ys)"

definition json_field :: "string \<Rightarrow> string \<Rightarrow> string" where
  "json_field k v = json_string k @ '':'' @ v"

definition json_step :: "proof_step \<Rightarrow> string" where
  "json_step st = ''{'' @ json_field ''sibling_on_left'' (if sibling_on_left st then ''true'' else ''false'')
     @ '','' @ json_field ''sibling_hash'' (json_string (sibling_hash st)) @ ''}''"

definition json_entry :: "proof_entry \<Rightarrow> string" where
  "json_entry e = ''{'' @ json_field ''h3_index'' (json_string (pe_h3_index e))
     @ '','' @ json_field ''leaf_hash'' (json_string (pe_leaf_hash e))
     @ '','' @ json_field ''proof'' (''['' @ join_comma (map json_step (pe_proof e)) @ '']'') @ ''}''"

definition proofEntriesCanonicalBytes :: "proof_entry list \<Rightarrow> bytes" where
  "proofEntriesCanonicalBytes entries =
     map of_char (''['' @ join_comma (map json_entry entries) @ '']'')"

section \<open>Operations\<close>

definition proofShardId :: "hash_fn \<Rightarrow> int \<Rightarrow> int \<Rightarrow> js_error + int" where
  "proofShardId sha h3Index shardCount =
     (if shardCount \<le> 0 then Inl ''shard_count must be greater than zero''
      else res_bind (u64BigEndianBytes h3Index) (\<lambda>bs.
           res_bind (bytesToBigEndianU64 (take 8 (sha bs))) (\<lambda>pre.
             Inr (pre mod shardCount))))"

definition buildProofEntries :: "hash_fn \<Rightarrow> affected_cells_input \<Rightarrow> js_error + proof_entry list" where
  "buildProofEntries sha inp =
     res_bind (affectedCellsLeafHashes sha inp) (\<lambda>hashes.
     res_bind (merkleLevelsFromLeafHashes sha (map snd hashes)) (\<lambda>levels.
       res_map (\<lambda>(i, h3, leaf_hash).
           res_bind (proofStepsFromLevels levels (int i)) (\<lambda>steps.
             Inr \<lparr>pe_h3_index = h3, pe_leaf_hash = leaf_hash, pe_proof = steps\<rparr>))
         (List.enumerate 0 hashes)))"

definition entry_key :: "proof_entry \<Rightarrow> int" where
  "entry_key e = int (read_nat (pe_h3_index e))"

type_synonym shard_map = "(int \<times> proof_entry list) list"

fun group_loop :: "hash_fn \<Rightarrow> int \<Rightarrow> proof_entry list \<Rightarrow> shard_map \<Rightarrow> js_error + shard_map" where
  "group_loop sha shardCount [] m = Inr m"
| "group_loop sha shardCount (e # es) m =
     res_bind (proofShardId sha (entry_key e) shardCount) (\<lambda>shardId.
       group_loop sha shardCount es
         (case map_of m shardId of
            Some existing \<Rightarrow> AList.update shardId (existing @ [e]) m
          | None \<Rightarrow> AList.update shardId [e] m))"

definition group_of :: "hash_fn \<Rightarrow> shard_map \<Rightarrow> int \<Rightarrow> js_error + proof_shard_group" where
  "group_of sha m shardId =
     (case map_of m shardId of
        None \<Rightarrow> Inl (''Unexpected undefined shard for id '' @ show_int shardId)
      | Some unsorted \<Rightarrow>
        (let ps = sort_key entry_key unsorted; bs = proofEntriesCanonicalBytes ps in
         Inr \<lparr>sg_shard_id = shardId, sg_proof_count = length ps, sg_sha256 = sha256Hex sha bs,
              sg_byte_size = length bs, sg_proofs = ps\<rparr>))"

definition buildProofShardGroups :: "hash_fn \<Rightarrow> affected_cells_input \<Rightarrow> int \<Rightarrow> js_error + proof_shard_group list" where
  "buildProofShardGroups sha inp shardCount =
     (if shardCount \<le> 0 then Inl ''shardCount must be a positive integer''
      else res_bind (buildProofEntries sha inp) (\<lambda>entries.
           res_bind (group_loop sha shardCount entries []) (\<lambda>m.
             res_map (group_of sha m) (sort (map fst m)))))"

definition manifest_shard_of :: "proof_shard_group \<Rightarrow> manifest_shard" where
  "manifest_shard_of g = \<lparr>ms_shard_id = sg_shard_id g, ms_proof_count = sg_proof_count g,
     ms_sha256 = sg_sha256 g, ms_byte_size = sg_byte_size g\<rparr>"

definition buildProofManifest :: "hash_fn \<Rightarrow> affected_cells_input \<Rightarrow> int \<Rightarrow> js_error + proof_manifest" where
  "buildProofManifest sha inp shardCount =
     res_bind (affectedCellsRoot sha inp) (\<lambda>merkle_root.
     res_bind (buildProofShardGroups sha inp shardCount) (\<lambda>groups.
       Inr \<lparr>pm_merkle_root = merkle_root, pm_shard_count = shardCount,
            pm_total_proof_count = foldl (\<lambda>s g. s + sg_proof_count g) 0 groups,
            pm_shards = map manifest_shard_of groups\<rparr>))"

section \<open>Shards\<close>

lemma be_u64_total:
  "length bs = 8 \<Longrightarrow> \<exists>v. bytesToBigEndianU64 bs = Inr v \<and> 0 \<le> v"
proof -
  have "0 \<le> foldl (\<lambda>value b. push_bit 8 value OR uint (b :: byte)) a bs" if "0 \<le> a" for a :: int
    using that by (induction bs arbitrary: a) (simp_all add: or_nonnegative_int_iff)
  from this [of 0] show "length bs = 8 \<Longrightarrow> ?thesis" by (simp add: bytesToBigEndianU64_def)
qed

lemma proofShardId_total:
  assumes "sha256_ok sha" and "0 \<le> h" and "h \<le> U64_MAX" and "0 < n"
  obtains i where "proofShardId sha h n = Inr i" and "0 \<le> i" and "i < n"
proof -
  have "length (take 8 (sha (rev (le_bytes 8 h)))) = 8"
    using assms(1) by (simp add: sha256_ok_def)
  then obtain v where "bytesToBigEndianU64 (take 8 (sha (rev (le_bytes 8 h)))) = Inr v"
    using be_u64_total by blast
  with assms have "proofShardId sha h n = Inr (v mod n)" by (simp add: proofShardId_def)
  with assms show ?thesis by (intro that [of "v mod n"]) simp_all
qed

lemma proofShardId_range: "proofShardId sha h n = Inr i \<Longrightarrow> 0 \<le> i \<and> i < n"
  by (auto simp: proofShardId_def res_simps split: if_splits)

definition in_shard :: "hash_fn \<Rightarrow> int \<Rightarrow> int \<Rightarrow> proof_entry \<Rightarrow> bool" where
  "in_shard sha n i e \<longleftrightarrow> proofShardId sha (entry_key e) n = Inr i"

lemma group_loop_map:
  "group_loop sha n es m = Inr m' \<Longrightarrow>
   map_of m' i = (if filter (in_shard sha n i) es = [] then map_of m i
     else Some (coalesce (map_of m i) [] @ filter (in_shard sha n i) es))"
proof (induction sha n es m rule: group_loop.induct)
  case (2 sha n e es m)
  then obtain j where j: "proofShardId sha (entry_key e) n = Inr j" by (auto simp: res_simps)
  then have e: "in_shard sha n k e \<longleftrightarrow> k = j" for k by (auto simp: in_shard_def)
  from 2 j show ?case
    by (cases "map_of m j"; cases "i = j") (auto simp: e split: if_splits)
qed simp

lemma group_loop_distinct:
  "group_loop sha n es m = Inr m' \<Longrightarrow> distinct (map fst m) \<Longrightarrow> distinct (map fst m')"
proof (induction sha n es m rule: group_loop.induct)
  case (2 sha n e es m)
  then show ?case by (auto simp: res_simps distinct_update split: option.splits)
qed simp

lemma group_loop_total:
  "(\<And>e. e \<in> set es \<Longrightarrow> \<exists>i. proofShardId sha (entry_key e) n = Inr i) \<Longrightarrow> \<exists>m'. group_loop sha n es m = Inr m'"
  by (induction sha n es m rule: group_loop.induct) (fastforce simp: res_simps)+

text \<open>What the groups of a list of entries must be.\<close>

definition group_spec :: "hash_fn \<Rightarrow> int \<Rightarrow> proof_entry list \<Rightarrow> proof_shard_group \<Rightarrow> bool" where
  "group_spec sha n entries g \<longleftrightarrow>
     0 \<le> sg_shard_id g \<and> sg_shard_id g < n \<and> sg_proofs g \<noteq> []
     \<and> sg_proofs g = filter (in_shard sha n (sg_shard_id g)) entries
     \<and> sg_proof_count g = length (sg_proofs g)
     \<and> sg_sha256 g = sha256Hex sha (proofEntriesCanonicalBytes (sg_proofs g))
     \<and> sg_byte_size g = length (proofEntriesCanonicalBytes (sg_proofs g))"

lemma filter_nonempty_range:
  "filter (in_shard sha n i) es \<noteq> [] \<Longrightarrow> 0 \<le> i \<and> i < n"
  by (auto simp: filter_empty_conv in_shard_def dest: proofShardId_range)

lemma group_of_spec:
  assumes "group_loop sha n es [] = Inr m" and "sorted (map entry_key es)" and "i \<in> fst ` set m"
  shows "\<exists>g. group_of sha m i = Inr g \<and> sg_shard_id g = i \<and> group_spec sha n es g"
proof -
  let ?ps = "filter (in_shard sha n i) es"
  obtain ps where ps: "map_of m i = Some ps" using assms(3) by (metis map_of_eq_None_iff option.exhaust)
  with group_loop_map [OF assms(1), of i] have "?ps \<noteq> []" "ps = ?ps" by (auto split: if_splits)
  moreover have "sort_key entry_key ?ps = ?ps"
    using assms(2) by (intro sort_key_id_if_sorted) (simp add: sorted_filter)
  ultimately show ?thesis
    using filter_nonempty_range [of sha n i es] ps by (simp add: group_of_def group_spec_def Let_def)
qed

lemma shard_ids:
  "group_loop sha n es [] = Inr m \<Longrightarrow> i \<in> fst ` set m \<longleftrightarrow> (\<exists>e \<in> set es. in_shard sha n i e)"
  using group_loop_map [of sha n es "[]" m i] map_of_eq_None_iff [of m i]
  by (auto simp: filter_empty_conv split: if_splits)

section \<open>The groups partition the entries\<close>

lemma mset_concat_filter:
  fixes es :: "'b list"
  assumes "distinct ids" and "\<And>e. e \<in> set es \<Longrightarrow> \<exists>!i. i \<in> set ids \<and> P i e"
  shows "mset (concat (map (\<lambda>i. filter (P i) es) ids)) = mset es"
proof (rule multiset_eqI)
  fix e :: 'b
  have cat: "count (mset (concat (map f ids))) e = (\<Sum>i \<in> set ids. count (mset (f i)) e)" for f
    using assms(1) by (induction ids) simp_all
  show "count (mset (concat (map (\<lambda>i. filter (P i) es) ids))) e = count (mset es) e"
  proof (cases "e \<in> set es")
    case True
    from assms(2) [OF True] obtain j where j: "j \<in> set ids" "P j e" "\<And>i. i \<in> set ids \<Longrightarrow> P i e \<Longrightarrow> i = j"
      by (elim ex1E) blast
    have "(\<Sum>i \<in> set ids. count (mset (filter (P i) es)) e)
        = (\<Sum>i \<in> set ids. if i = j then count (mset es) e else 0)"
    proof (intro sum.cong refl)
      fix i assume i: "i \<in> set ids"
      have "P i e \<longleftrightarrow> i = j" using j(2) j(3) [OF i] by blast
      moreover have "count (mset (filter (P i) es)) e = (if P i e then count (mset es) e else 0)" by simp
      ultimately show "count (mset (filter (P i) es)) e = (if i = j then count (mset es) e else 0)"
        by (simp only:)
    qed
    also have "\<dots> = count (mset es) e" using j(1) by (simp only: sum.delta finite_set if_True)
    finally show ?thesis unfolding cat .
  next
    case False
    then have 0: "count (mset es) e = 0" by (simp add: count_mset_0_iff)
    show ?thesis unfolding cat 0 using False by (intro sum.neutral) simp
  qed
qed

text \<open>The entries as one list.\<close>

definition entry_at :: "hash_fn \<Rightarrow> affected_cells_input \<Rightarrow> nat \<Rightarrow> proof_entry" where
  "entry_at sha inp i =
     \<lparr>pe_h3_index = h3_index (affected_cells inp ! i),
      pe_leaf_hash = cell_hash sha inp (affected_cells inp ! i),
      pe_proof = proof_steps_loop (levels_of sha (map (cell_hash sha inp) (affected_cells inp))) i\<rparr>"

lemma buildProofEntries_Inr:
  assumes "wf_input inp"
  shows "buildProofEntries sha inp = Inr es \<longleftrightarrow>
    encodable inp \<and> es = map (entry_at sha inp) [0..<length (affected_cells inp)]"
proof -
  let ?cs = "affected_cells inp"
  let ?lv = "levels_of sha (map (cell_hash sha inp) ?cs)"
  let ?f = "\<lambda>(i, h3, leaf_hash). res_bind (proofStepsFromLevels ?lv (int i)) (\<lambda>steps.
             Inr \<lparr>pe_h3_index = h3, pe_leaf_hash = leaf_hash, pe_proof = steps\<rparr>)"
  have ne: "?cs \<noteq> []" using assms by (simp add: wf_input_def)
  have enum: "List.enumerate 0 (map (\<lambda>c. (h3_index c, cell_hash sha inp c)) ?cs)
      = map (\<lambda>i. (i, h3_index (?cs ! i), cell_hash sha inp (?cs ! i))) [0..<length ?cs]"
    by (rule nth_equalityI) (simp_all add: nth_enumerate_eq)
  have "res_map ?f (map (\<lambda>i. (i, h3_index (?cs ! i), cell_hash sha inp (?cs ! i))) [0..<length ?cs])
      = Inr (map (entry_at sha inp) [0..<length ?cs])"
    by (subst res_map_Inr_map [where g = "\<lambda>(i, _). entry_at sha inp i"])
      (auto simp: proofStepsFromLevels_eq entry_at_def)
  with ne show ?thesis
    by (auto simp: buildProofEntries_def res_simps leafHashes_Inr [OF assms] enum o_def)
qed

lemma entry_key_at: "entry_key (entry_at sha inp i) = cell_key (affected_cells inp ! i)"
  by (simp add: entry_key_def entry_at_def cell_key_def)

lemma entries_sorted:
  "wf_input inp \<Longrightarrow> sorted (map entry_key (map (entry_at sha inp) [0..<length (affected_cells inp)]))"
proof -
  assume "wf_input inp"
  moreover have "map (\<lambda>i. cell_key (affected_cells inp ! i)) [0..<length (affected_cells inp)]
      = map cell_key (affected_cells inp)"
    by (rule nth_equalityI) simp_all
  ultimately show ?thesis
    by (simp add: o_def entry_key_at wf_input_def strict_sorted_imp_sorted)
qed

lemma entries_in_range:
  assumes "wf_input inp" and "encodable inp" and "e \<in> set (map (entry_at sha inp) [0..<length (affected_cells inp)])"
  shows "0 \<le> entry_key e \<and> entry_key e \<le> U64_MAX"
  using assms by (auto simp: entry_key_at encodable_def list_all_length cell_key_def)

lemma buildProofShardGroups_ok:
  assumes sha: "sha256_ok sha" and wf: "wf_input inp" and enc: "encodable inp" and n: "0 < n"
  defines "es \<equiv> map (entry_at sha inp) [0..<length (affected_cells inp)]"
  shows "\<exists>gs. buildProofShardGroups sha inp n = Inr gs \<and> sorted_wrt (<) (map sg_shard_id gs)
    \<and> list_all (group_spec sha n es) gs \<and> mset (concat (map sg_proofs gs)) = mset es"
proof -
  have shard: "\<exists>i. proofShardId sha (entry_key e) n = Inr i" if "e \<in> set es" for e
    using entries_in_range [OF wf enc] that proofShardId_total [OF sha _ _ n] unfolding es_def by metis
  then obtain m where m: "group_loop sha n es [] = Inr m" using group_loop_total by metis
  let ?ids = "sort (map fst m)"
  have ids: "distinct ?ids" "set ?ids = fst ` set m"
    using group_loop_distinct [OF m] by simp_all
  have "sorted (map entry_key es)" using entries_sorted [OF wf] by (simp add: es_def)
  note g = group_of_spec [OF m this]
  obtain gs where gs: "res_map (group_of sha m) ?ids = Inr gs"
    using res_map_ex_Inr [of ?ids "group_of sha m"] g ids by metis
  have all2: "list_all2 (\<lambda>i g. sg_shard_id g = i \<and> group_spec sha n es g) ?ids gs"
  proof (rule list_all2_all_nthI)
    fix k assume "k < length ?ids"
    with ids(2) have "?ids ! k \<in> fst ` set m" by (metis nth_mem)
    from g [OF this] res_map_nth [OF gs \<open>k < length ?ids\<close>]
    show "sg_shard_id (gs ! k) = ?ids ! k \<and> group_spec sha n es (gs ! k)" by auto
  qed (simp add: res_map_length [OF gs])
  then have eq: "map sg_shard_id gs = ?ids" and spec: "list_all (group_spec sha n es) gs"
    by (auto simp: list_all2_conv_all_nth list_all_length intro!: nth_equalityI)
  have "map sg_proofs gs = map (\<lambda>i. filter (in_shard sha n i) es) (map sg_shard_id gs)"
    using spec by (auto simp: list_all_iff group_spec_def)
  moreover have "mset (concat (map (\<lambda>i. filter (in_shard sha n i) es) ?ids)) = mset es"
  proof (rule mset_concat_filter [OF ids(1)])
    fix e assume e: "e \<in> set es"
    with shard obtain i where "in_shard sha n i e" by (auto simp: in_shard_def)
    with e ids shard_ids [OF m] show "\<exists>!i. i \<in> set ?ids \<and> in_shard sha n i e"
      by (auto simp: in_shard_def)
  qed
  ultimately have "mset (concat (map sg_proofs gs)) = mset es" by (simp add: eq)
  moreover have "sorted_wrt (<) (map sg_shard_id gs)" using ids by (simp add: eq strict_sorted_iff)
  moreover have "buildProofEntries sha inp = Inr es"
    using wf enc by (simp add: buildProofEntries_Inr es_def)
  ultimately show ?thesis
    using m gs spec n by (simp add: buildProofShardGroups_def)
qed

section \<open>The manifest\<close>

lemma foldl_count: "foldl (\<lambda>s g. s + f g) a gs = a + sum_list (map f gs)" for a :: nat
  by (induction gs arbitrary: a) simp_all

lemma entry_replays:
  assumes "sha256_ok sha" and "wf_input inp" and "encodable inp" and "affectedCellsRoot sha inp = Inr rt"
    and "e \<in> set (map (entry_at sha inp) [0..<length (affected_cells inp)])"
  shows "replayProof sha (pe_leaf_hash e) (pe_proof e) = Inr rt"
proof -
  obtain i where i: "i < length (affected_cells inp)" "e = entry_at sha inp i" using assms(5) by auto
  obtain steps where "affectedCellProofSteps sha inp (h3_index (affected_cells inp ! i)) = Inr steps"
      "replayProof sha (cell_hash sha inp (affected_cells inp ! i)) steps = Inr rt"
    using cell_proof_replays [OF assms(1-3) i(1)] assms(4) by auto
  then show ?thesis by (simp add: affectedCellProofSteps_Inr [OF assms(2) i(1)] entry_at_def i(2))
qed

lemma buildProofManifest_ok:
  assumes sha: "sha256_ok sha" and wf: "wf_input inp" and enc: "encodable inp" and n: "0 < n"
  shows "\<exists>m gs. buildProofManifest sha inp n = Inr m \<and> buildProofShardGroups sha inp n = Inr gs
    \<and> affectedCellsRoot sha inp = Inr (pm_merkle_root m)
    \<and> pm_total_proof_count m = length (affected_cells inp)
    \<and> pm_shards m = map manifest_shard_of gs
    \<and> (\<forall>g \<in> set gs. \<forall>e \<in> set (sg_proofs g).
         replayProof sha (pe_leaf_hash e) (pe_proof e) = Inr (pm_merkle_root m))"
proof -
  let ?es = "map (entry_at sha inp) [0..<length (affected_cells inp)]"
  obtain gs where gs: "buildProofShardGroups sha inp n = Inr gs" "list_all (group_spec sha n ?es) gs"
    and part: "mset (concat (map sg_proofs gs)) = mset ?es"
    using buildProofShardGroups_ok [OF assms] by blast
  obtain rt where rt: "affectedCellsRoot sha inp = Inr rt"
    using wf enc by (auto simp: affectedCellsRoot_Inr merkleRoot_eq wf_input_def)
  have counts: "map sg_proof_count gs = map (\<lambda>g. length (sg_proofs g)) gs"
    using gs(2) by (auto simp: list_all_iff group_spec_def)
  have "sum_list (map sg_proof_count gs) = length (concat (map sg_proofs gs))"
    unfolding counts by (simp add: length_concat o_def)
  also have "\<dots> = length (affected_cells inp)"
    using part by (metis length_map length_upt minus_nat.diff_0 size_mset)
  finally have total: "foldl (\<lambda>s g. s + sg_proof_count g) 0 gs = length (affected_cells inp)"
    by (simp add: foldl_count)
  have "replayProof sha (pe_leaf_hash e) (pe_proof e) = Inr rt" if "g \<in> set gs" "e \<in> set (sg_proofs g)" for g e
  proof -
    have "e \<in> set ?es" using gs(2) that by (auto simp: list_all_iff group_spec_def)
    then show ?thesis using entry_replays [OF sha wf enc rt] by blast
  qed
  with gs rt total show ?thesis by (simp add: buildProofManifest_def)
qed

section \<open>Properties\<close>

text \<open>Grouping never loses, duplicates or misplaces a proof: for a parsed and encodable file and a
  positive shard count the groups exist, their ids ascend strictly below the count, each group
  holds, in index order, exactly the entries whose shard it is, with its own count, size and
  digest, and the groups together are the entries of the file.\<close>

theorem shard_groups_partition:
  assumes "sha256_ok sha" and "parseAffectedCellsFile v = Inr inp" and "encodable inp" and "0 < n"
  shows "\<exists>es gs. buildProofEntries sha inp = Inr es \<and> buildProofShardGroups sha inp n = Inr gs
    \<and> sorted_wrt (<) (map sg_shard_id gs) \<and> list_all (group_spec sha n es) gs
    \<and> mset (concat (map sg_proofs gs)) = mset es"
proof -
  have wf: "wf_input inp" using assms(2) by (simp add: parseAffectedCellsFile_Inr)
  show ?thesis
    using buildProofShardGroups_ok [OF assms(1) wf assms(3,4)] assms(3) by (simp add: buildProofEntries_Inr [OF wf])
qed

theorem shard_groups_partition_witness:
  "\<exists>es gs. buildProofEntries checksum32 sample_input = Inr es \<and> buildProofShardGroups checksum32 sample_input 4 = Inr gs
    \<and> sorted_wrt (<) (map sg_shard_id gs) \<and> list_all (group_spec checksum32 4 es) gs
    \<and> mset (concat (map sg_proofs gs)) = mset es"
  by (rule shard_groups_partition [OF sha256_ok_checksum32 sample_parse sample_encodable]) simp

text \<open>The published manifest is complete and correct: it exists for a parsed and encodable file,
  its total is the number of cells, its shards describe the groups, and every proof of every group
  replays from its leaf hash to the manifest's Merkle root.\<close>

theorem manifest_proofs_replay:
  assumes "sha256_ok sha" and "parseAffectedCellsFile v = Inr inp" and "encodable inp" and "0 < n"
  shows "\<exists>m gs. buildProofManifest sha inp n = Inr m \<and> buildProofShardGroups sha inp n = Inr gs
    \<and> affectedCellsRoot sha inp = Inr (pm_merkle_root m)
    \<and> pm_total_proof_count m = length (affected_cells inp)
    \<and> pm_shards m = map manifest_shard_of gs
    \<and> (\<forall>g \<in> set gs. \<forall>e \<in> set (sg_proofs g).
         replayProof sha (pe_leaf_hash e) (pe_proof e) = Inr (pm_merkle_root m))"
  using buildProofManifest_ok [OF assms(1) _ assms(3,4)] assms(2) by (simp add: parseAffectedCellsFile_Inr)

theorem manifest_proofs_replay_witness:
  "\<exists>m gs. buildProofManifest checksum32 sample_input 4 = Inr m
    \<and> buildProofShardGroups checksum32 sample_input 4 = Inr gs
    \<and> affectedCellsRoot checksum32 sample_input = Inr (pm_merkle_root m)
    \<and> pm_total_proof_count m = length (affected_cells sample_input)
    \<and> pm_shards m = map manifest_shard_of gs
    \<and> (\<forall>g \<in> set gs. \<forall>e \<in> set (sg_proofs g).
         replayProof checksum32 (pe_leaf_hash e) (pe_proof e) = Inr (pm_merkle_root m))"
  by (rule manifest_proofs_replay [OF sha256_ok_checksum32 sample_parse sample_encodable]) simp

end
