(* ===== verification/OraclePayload.thy ===== *)
theory OraclePayload
  imports AffectedCells
begin

text \<open>
  \<open>nautilus/verifiers/earthquake/shared/src/index.ts\<close>: the contract between the watcher, the
  enclave and the relayer.  The request sent to the enclave, the oracle payload and its BCS bytes,
  the recomputation of the affected-cells root, and the validation of what the relayer submits.

  The validators work on \<open>unknown\<close> JSON and are predicates on \<open>js_value\<close>; an affected-cells artifact
  is the record \<open>affected_cells_input\<close>, which has its fields.  A \<open>ValidationResult\<close> is a sum whose left
  value is the error code and message.
\<close>

section \<open>Constants\<close>

definition PAYLOAD_FIELD_ORDER :: "string list" where
  "PAYLOAD_FIELD_ORDER =
     [''intent'', ''oracle_version'', ''event_uid'', ''event_revision'', ''source_event_id'', ''title'',
      ''region'', ''occurred_at_ms'', ''hazard_type'', ''status'', ''severity_band'',
      ''affected_cells_root'', ''affected_cell_count'', ''evidence_manifest_uri'',
      ''evidence_manifest_hash'', ''verified_at_ms'', ''freshness_deadline_ms'']"

definition WORKER_TO_TEE_KEYS :: "string list" where
  "WORKER_TO_TEE_KEYS =
     [''source_event_id'', ''event_revision'', ''hazard_type'', ''primary_source'', ''geo_resolution'']"

definition EARTHQUAKE :: int where "EARTHQUAKE = 1"
definition SONARI_EARTHQUAKE_ORACLE :: int where "SONARI_EARTHQUAKE_ORACLE = 1"
definition FINALIZED_STATUS :: int where "FINALIZED_STATUS = 3"
definition USGS_SOURCE :: int where "USGS_SOURCE = 1"
definition DEFAULT_oracle_version :: int where "DEFAULT_oracle_version = 1"
definition DEFAULT_geo_resolution :: int where "DEFAULT_geo_resolution = 7"
definition EARTHQUAKE_VERIFIER_CONFIG_KEY :: int where "EARTHQUAKE_VERIFIER_CONFIG_KEY = 1"
definition FRESHNESS_WINDOW_MS :: int where "FRESHNESS_WINDOW_MS = 21600000"
definition ONE_MILLION :: int where "ONE_MILLION = 1000000"

record oracle_payload =
  p_intent :: int
  p_oracle_version :: int
  p_event_uid :: string
  p_event_revision :: int
  p_source_event_id :: string
  p_title :: string
  p_region :: string
  p_occurred_at_ms :: int
  p_hazard_type :: int
  p_status :: int
  p_severity_band :: int
  p_affected_cells_root :: string
  p_affected_cell_count :: int
  p_evidence_manifest_uri :: string
  p_evidence_manifest_hash :: string
  p_verified_at_ms :: int
  p_freshness_deadline_ms :: int

record worker_to_tee_request =
  w_source_event_id :: string
  w_event_revision :: int
  w_hazard_type :: int
  w_primary_source :: int
  w_geo_resolution :: int

record relayer_submit_input =
  rsi_payload :: json_record
  rsi_payload_bcs_hex :: string
  rsi_signature :: string
  rsi_public_key :: string
  rsi_raw_data_manifest :: "js_value option"
  rsi_affected_cells :: "js_value option"
  rsi_evidence_manifest :: "js_value option"
  rsi_affected_cells_ref :: "js_value option"
  rsi_evidence_manifest_ref :: "js_value option"
  rsi_expected_hashes :: "js_value option"
  rsi_verifier_config_key :: int
  rsi_verifier_config_version :: int
  rsi_enclave_instance_public_key :: string

type_synonym validation_error = "string \<times> string"

section \<open>Value checks\<close>

definition isRecord :: "js_value \<Rightarrow> bool" where
  "isRecord v = (case v of JObj _ \<Rightarrow> True | _ \<Rightarrow> False)"

text \<open>A property of a value that is an object; the code reads it after \<open>isRecord\<close>.\<close>

definition field_of :: "js_value \<Rightarrow> string \<Rightarrow> js_value" where
  "field_of v k = (case v of JObj fs \<Rightarrow> get_field fs k | _ \<Rightarrow> JUndef)"

definition isNonEmptyString :: "js_value \<Rightarrow> bool" where
  "isNonEmptyString v = (case v of JStr s \<Rightarrow> s \<noteq> [] | _ \<Rightarrow> False)"

definition isUtf8BytesInRange :: "js_value \<Rightarrow> nat \<Rightarrow> nat \<Rightarrow> bool" where
  "isUtf8BytesInRange v lo hi = (case v of JStr s \<Rightarrow> lo \<le> length s \<and> length s \<le> hi | _ \<Rightarrow> False)"

definition isSafeIntegerInRange :: "js_value \<Rightarrow> int \<Rightarrow> int \<Rightarrow> bool" where
  "isSafeIntegerInRange v lo hi =
     (case v of JNum q \<Rightarrow> isSafeInteger q \<and> of_int lo \<le> q \<and> q \<le> of_int hi | _ \<Rightarrow> False)"

definition isSafeNonNegativeInteger :: "js_value \<Rightarrow> bool" where
  "isSafeNonNegativeInteger v = (case v of JNum q \<Rightarrow> isSafeInteger q \<and> 0 \<le> q | _ \<Rightarrow> False)"

definition hash32_text :: "string \<Rightarrow> bool" where
  "hash32_text s \<longleftrightarrow> starts_with s ''0x'' \<and> length s = 66 \<and> list_all is_hex (drop 2 s)"

definition isHash32 :: "js_value \<Rightarrow> bool" where
  "isHash32 v = (case v of JStr s \<Rightarrow> hash32_text s | _ \<Rightarrow> False)"

definition isWalrusUriForBlobId :: "js_value \<Rightarrow> js_value \<Rightarrow> bool" where
  "isWalrusUriForBlobId uri blobId =
     (case (uri, blobId) of (JStr u, JStr b) \<Rightarrow> u = ''walrus://blob/'' @ b | _ \<Rightarrow> False)"

definition isPayloadArtifactUri :: "js_value \<Rightarrow> bool" where
  "isPayloadArtifactUri v =
     (case v of JStr s \<Rightarrow> starts_with s ''walrus://blob/'' \<or> starts_with s ''ipfs://sonari/examples/''
      | _ \<Rightarrow> False)"

definition strip0x :: "string \<Rightarrow> string" where
  "strip0x s = (if starts_with s ''0x'' then drop 2 s else s)"

definition isHexBytes :: "js_value \<Rightarrow> nat option \<Rightarrow> bool" where
  "isHexBytes v expectedBytes =
     (case v of
        JStr s \<Rightarrow>
          (let normalized = strip0x s in
           normalized \<noteq> [] \<and> list_all is_hex normalized \<and> length normalized mod 2 = 0
           \<and> none_or (\<lambda>n. length normalized = n * 2) expectedBytes)
      | _ \<Rightarrow> False)"

definition normalizeHexBytes :: "string \<Rightarrow> string" where
  "normalizeHexBytes s = map to_lower (strip0x s)"

definition is_blob_char :: "char \<Rightarrow> bool" where
  "is_blob_char c \<longleftrightarrow> is_digit c \<or> is_lower_az c \<or> is_upper_az c \<or> c = CHR ''_'' \<or> c = CHR ''-''"

definition isWalrusBlobId :: "js_value \<Rightarrow> bool" where
  "isWalrusBlobId v =
     (case v of JStr s \<Rightarrow> 8 \<le> length s \<and> length s \<le> 256 \<and> list_all is_blob_char s | _ \<Rightarrow> False)"

section \<open>BCS encoding\<close>

text \<open>\<open>Uint8Array.of\<close> and the \<open>DataView\<close> setters store an integer modulo the width.\<close>

definition bcs_u8 :: "int \<Rightarrow> bytes" where "bcs_u8 n = [word_of_int n]"
definition bcs_u16 :: "int \<Rightarrow> bytes" where "bcs_u16 n = le_bytes 2 n"
definition bcs_u32 :: "int \<Rightarrow> bytes" where "bcs_u32 n = le_bytes 4 n"
definition bcs_u64 :: "int \<Rightarrow> bytes" where "bcs_u64 n = le_bytes 8 n"

function uleb128 :: "nat \<Rightarrow> bytes" where
  "uleb128 n =
     (let remaining = n div 128 in
      if remaining > 0 then (word_of_nat (n mod 128) OR 0x80) # uleb128 remaining
      else [word_of_nat (n mod 128)])"
  by pat_completeness auto
termination by (relation "measure id") auto

declare uleb128.simps [simp del]

definition utf8Vector :: "string \<Rightarrow> bytes" where
  "utf8Vector s = uleb128 (length s) @ map of_char s"

definition hexBytes32 :: "string \<Rightarrow> js_error + bytes" where
  "hexBytes32 s =
     (let normalized = normalizeHexBytes s in
      if length normalized \<noteq> 64 then Inl ''expected 32-byte hex value''
      else Inr (map (\<lambda>i. store_u8 (parseInt16 (substr normalized (i * 2) (i * 2 + 2)))) [0..<32]))"

definition encodeEarthquakeOraclePayloadBcsBytes :: "oracle_payload \<Rightarrow> js_error + bytes" where
  "encodeEarthquakeOraclePayloadBcsBytes p =
     res_bind (hexBytes32 (p_event_uid p)) (\<lambda>event_uid.
     res_bind (hexBytes32 (p_affected_cells_root p)) (\<lambda>affected_cells_root.
     res_bind (hexBytes32 (p_evidence_manifest_hash p)) (\<lambda>evidence_manifest_hash.
       Inr (concat
         [bcs_u8 (p_intent p), bcs_u64 (p_oracle_version p), event_uid, bcs_u32 (p_event_revision p),
          utf8Vector (p_source_event_id p), utf8Vector (p_title p), utf8Vector (p_region p),
          bcs_u64 (p_occurred_at_ms p), bcs_u8 (p_hazard_type p), bcs_u8 (p_status p),
          bcs_u8 (p_severity_band p), affected_cells_root, bcs_u64 (p_affected_cell_count p),
          utf8Vector (p_evidence_manifest_uri p), evidence_manifest_hash,
          bcs_u64 (p_verified_at_ms p), bcs_u64 (p_freshness_deadline_ms p)]))))"

definition encodeEarthquakeOraclePayloadBcsHex :: "oracle_payload \<Rightarrow> js_error + string" where
  "encodeEarthquakeOraclePayloadBcsHex p =
     res_bind (encodeEarthquakeOraclePayloadBcsBytes p) (\<lambda>bs. Inr (bytesToPrefixedHex bs))"

section \<open>The affected-cells root over bytes\<close>

definition cellsGenerationMethodId :: "string \<Rightarrow> int option" where
  "cellsGenerationMethodId v =
     (if v = ''shakemap_gridxml_h3_grid_point_p90_v1'' then Some 1
      else if v = ''shakemap_hdf_h3_area_weighted_p90_v1'' then Some 2
      else if v = ''shakemap_gridxml_h3_center_bilinear_v1'' then Some 3 else None)"

definition parseCanonicalU64Decimal :: "string \<Rightarrow> int option" where
  "parseCanonicalU64Decimal s =
     (if \<not> is_canonical_decimal s then None
      else if int (read_nat s) \<le> U64_MAX then Some (int (read_nat s)) else None)"

text \<open>The loop over the cells: \<open>Inr None\<close> is the early \<open>return null\<close>.\<close>

fun root_leaves :: "hash_fn \<Rightarrow> affected_cells_input \<Rightarrow> int \<Rightarrow> int option \<Rightarrow> affected_cell_entry list
    \<Rightarrow> js_error + bytes list option" where
  "root_leaves sha affected method previousH3 [] = Inr (Some [])"
| "root_leaves sha affected method previousH3 (cell # cells) =
     (case parseCanonicalU64Decimal (h3_index cell) of
        None \<Rightarrow> Inr None
      | Some h3 \<Rightarrow>
        if some_and (\<lambda>p. h3 \<le> p) previousH3 then Inr None
        else res_bind (hexBytes32 (event_uid affected)) (\<lambda>uid.
          let leaf = sha (concat
            [bcs_u8 0, uid, bcs_u32 (event_revision affected), bcs_u64 h3,
             bcs_u8 (geo_resolution affected), bcs_u8 1, bcs_u16 (intensity_value cell), bcs_u8 1,
             bcs_u8 (cell_band cell), bcs_u8 method, bcs_u64 (oracle_version affected)])
          in res_bind (root_leaves sha affected method (Some h3) cells) (\<lambda>r.
               Inr (map_option (\<lambda>ls. leaf # ls) r))))"

fun byte_level :: "hash_fn \<Rightarrow> bytes list \<Rightarrow> bytes list" where
  "byte_level sha (left # right # rest) = sha (concat [bcs_u8 1, left, right]) # byte_level sha rest"
| "byte_level sha [left] = [left]"
| "byte_level sha [] = []"

lemma length_byte_level: "length (byte_level sha ls) = (length ls + 1) div 2"
  by (induction sha ls rule: byte_level.induct) simp_all

function byte_root :: "hash_fn \<Rightarrow> bytes list \<Rightarrow> bytes option" where
  "byte_root sha level =
     (if length level > 1 then byte_root sha (byte_level sha level)
      else (case level of [] \<Rightarrow> None | r # _ \<Rightarrow> Some r))"
  by pat_completeness auto
termination by (relation "measure (\<lambda>(_, l). length l)") (auto simp: length_byte_level)

declare byte_root.simps [simp del]

definition computeAffectedCellsRootHex :: "hash_fn \<Rightarrow> affected_cells_input \<Rightarrow> js_error + string option" where
  "computeAffectedCellsRootHex sha affected =
     (case cellsGenerationMethodId (cells_generation_method affected) of
        None \<Rightarrow> Inr None
      | Some method \<Rightarrow>
        res_bind (root_leaves sha affected method None (affected_cells affected)) (\<lambda>r.
          case r of
            None \<Rightarrow> Inr None
          | Some leafHashes \<Rightarrow>
              if leafHashes = [] then Inr None
              else Inr (map_option bytesToPrefixedHex (byte_root sha leafHashes))))"

section \<open>Validators\<close>

definition hasCurrentPayloadShape :: "json_record \<Rightarrow> bool" where
  "hasCurrentPayloadShape payload \<longleftrightarrow>
     length (map fst payload) = length PAYLOAD_FIELD_ORDER
     \<and> list_all (\<lambda>i. map fst payload ! i = PAYLOAD_FIELD_ORDER ! i) [0..<length PAYLOAD_FIELD_ORDER]"

definition js_int :: "js_value \<Rightarrow> int" where
  "js_int v = (case v of JNum q \<Rightarrow> \<lfloor>q\<rfloor> | _ \<Rightarrow> 0)"

definition js_str :: "js_value \<Rightarrow> string" where
  "js_str v = (case v of JStr s \<Rightarrow> s | _ \<Rightarrow> [])"

definition hasValidFinalizedPayload :: "json_record \<Rightarrow> bool" where
  "hasValidFinalizedPayload payload \<longleftrightarrow>
     (let f = get_field payload in
      hasCurrentPayloadShape payload
      \<and> f ''intent'' = jint SONARI_EARTHQUAKE_ORACLE
      \<and> f ''oracle_version'' = jint DEFAULT_oracle_version
      \<and> f ''hazard_type'' = jint EARTHQUAKE
      \<and> f ''status'' = jint FINALIZED_STATUS
      \<and> isHash32 (f ''event_uid'') \<and> isHash32 (f ''affected_cells_root'')
      \<and> isHash32 (f ''evidence_manifest_hash'')
      \<and> isSafeIntegerInRange (f ''event_revision'') 1 U32_MAX
      \<and> isUtf8BytesInRange (f ''source_event_id'') 1 96
      \<and> isUtf8BytesInRange (f ''title'') 1 160
      \<and> isUtf8BytesInRange (f ''region'') 1 160
      \<and> isSafeNonNegativeInteger (f ''occurred_at_ms'')
      \<and> isSafeIntegerInRange (f ''severity_band'') 1 3
      \<and> isSafeIntegerInRange (f ''affected_cell_count'') 1 ONE_MILLION
      \<and> isUtf8BytesInRange (f ''evidence_manifest_uri'') 1 512
      \<and> isPayloadArtifactUri (f ''evidence_manifest_uri'')
      \<and> isSafeNonNegativeInteger (f ''verified_at_ms'')
      \<and> isSafeNonNegativeInteger (f ''freshness_deadline_ms'')
      \<and> js_int (f ''freshness_deadline_ms'') = js_int (f ''verified_at_ms'') + FRESHNESS_WINDOW_MS)"

definition hasValidStoredSourceRef :: "js_value \<Rightarrow> bool" where
  "hasValidStoredSourceRef v \<longleftrightarrow> isRecord v
     \<and> isWalrusBlobId (field_of v ''walrus_blob_id'')
     \<and> isWalrusUriForBlobId (field_of v ''uri'') (field_of v ''walrus_blob_id'')
     \<and> isHash32 (field_of v ''source_hash'')
     \<and> isSafeIntegerInRange (field_of v ''size_bytes'') 1 MAX_SAFE_INTEGER"

text \<open>\<open>Array.isArray(v) && lo <= v.length <= hi && v.every(p)\<close>.\<close>

definition array_all :: "nat \<Rightarrow> nat \<Rightarrow> (js_value \<Rightarrow> bool) \<Rightarrow> js_value \<Rightarrow> bool" where
  "array_all lo hi p v =
     (case v of JArr xs \<Rightarrow> lo \<le> length xs \<and> length xs \<le> hi \<and> list_all p xs | _ \<Rightarrow> False)"

definition valid_artifact_cell :: "js_value \<Rightarrow> bool" where
  "valid_artifact_cell cell \<longleftrightarrow> isRecord cell
     \<and> isUtf8BytesInRange (field_of cell ''h3_index'') 1 32
     \<and> isSafeIntegerInRange (field_of cell ''intensity_value'') 0 20000
     \<and> isSafeIntegerInRange (field_of cell ''cell_band'') 1 3"

definition hasValidAffectedCellsArtifact :: "js_value \<Rightarrow> bool" where
  "hasValidAffectedCellsArtifact v \<longleftrightarrow> isRecord v
     \<and> isHash32 (field_of v ''event_uid'')
     \<and> isSafeIntegerInRange (field_of v ''event_revision'') 1 U32_MAX
     \<and> field_of v ''oracle_version'' = jint DEFAULT_oracle_version
     \<and> field_of v ''geo_resolution'' = jint DEFAULT_geo_resolution
     \<and> isUtf8BytesInRange (field_of v ''cells_generation_method'') 1 96
     \<and> isUtf8BytesInRange (field_of v ''cell_metric'') 1 64
     \<and> isUtf8BytesInRange (field_of v ''cell_aggregation'') 1 64
     \<and> isUtf8BytesInRange (field_of v ''intensity_scale'') 1 64
     \<and> array_all 1 1000000 valid_artifact_cell (field_of v ''affected_cells'')"

definition hasValidEvidenceSource :: "js_value \<Rightarrow> bool" where
  "hasValidEvidenceSource v \<longleftrightarrow> isRecord v
     \<and> isUtf8BytesInRange (field_of v ''source'') 1 64
     \<and> isUtf8BytesInRange (field_of v ''product'') 1 96
     \<and> isUtf8BytesInRange (field_of v ''source_uri'') 1 2048
     \<and> isUtf8BytesInRange (field_of v ''artifact_uri'') 1 512
     \<and> isHash32 (field_of v ''content_hash'')
     \<and> isSafeIntegerInRange (field_of v ''size_bytes'') 1 MAX_SAFE_INTEGER
     \<and> isSafeNonNegativeInteger (field_of v ''source_updated_at_ms'')"

definition hasValidEarthquakeEvidence :: "js_value \<Rightarrow> bool" where
  "hasValidEarthquakeEvidence v \<longleftrightarrow> isRecord v
     \<and> isUtf8BytesInRange (field_of v ''title'') 1 160
     \<and> isUtf8BytesInRange (field_of v ''region'') 1 160
     \<and> isSafeNonNegativeInteger (field_of v ''occurred_at_ms'')
     \<and> isSafeIntegerInRange (field_of v ''magnitude_x100'') 1 2000
     \<and> isSafeNonNegativeInteger (field_of v ''source_updated_at_ms'')"

definition hasValidEvidenceAffectedCells :: "js_value \<Rightarrow> bool" where
  "hasValidEvidenceAffectedCells v \<longleftrightarrow> isRecord v
     \<and> (case field_of v ''uri'' of JStr s \<Rightarrow> starts_with s ''walrus://blob/'' | _ \<Rightarrow> False)
     \<and> isHash32 (field_of v ''hash'') \<and> isHash32 (field_of v ''root'')
     \<and> isSafeIntegerInRange (field_of v ''count'') 1 ONE_MILLION
     \<and> isSafeIntegerInRange (field_of v ''total_cell_count'') 1 ONE_MILLION
     \<and> isSafeIntegerInRange (field_of v ''land_cell_count'') 1 ONE_MILLION
     \<and> isSafeNonNegativeInteger (field_of v ''water_cell_count'')
     \<and> field_of v ''land_cell_count'' = field_of v ''count''
     \<and> js_int (field_of v ''land_cell_count'') + js_int (field_of v ''water_cell_count'')
         = js_int (field_of v ''total_cell_count'')
     \<and> js_int (field_of v ''land_cell_count'') \<le> js_int (field_of v ''total_cell_count'')
     \<and> isSafeIntegerInRange (field_of v ''land_allowlist_version'') 0 MAX_SAFE_INTEGER
     \<and> isHash32 (field_of v ''land_allowlist_root'')
     \<and> (field_of v ''land_allowlist_source_hash'' = JUndef
        \<or> isHash32 (field_of v ''land_allowlist_source_hash''))
     \<and> isUtf8BytesInRange (field_of v ''land_classifier'') 1 128
     \<and> field_of v ''geo_resolution'' = jint DEFAULT_geo_resolution"

definition hasValidEvidenceManifest :: "js_value \<Rightarrow> bool" where
  "hasValidEvidenceManifest v \<longleftrightarrow> isRecord v
     \<and> field_of v ''schema_version'' = jint 1
     \<and> field_of v ''oracle_version'' = jint DEFAULT_oracle_version
     \<and> isHash32 (field_of v ''event_uid'')
     \<and> isSafeIntegerInRange (field_of v ''event_revision'') 1 U32_MAX
     \<and> field_of v ''hazard_type'' = JStr ''EARTHQUAKE''
     \<and> isUtf8BytesInRange (field_of v ''source_event_id'') 1 96
     \<and> hasValidEarthquakeEvidence (field_of v ''earthquake'')
     \<and> hasValidEvidenceAffectedCells (field_of v ''affected_cells'')
     \<and> array_all 1 16 hasValidEvidenceSource (field_of v ''sources'')"

definition hasValidRawDataEntry :: "js_value \<Rightarrow> bool" where
  "hasValidRawDataEntry v \<longleftrightarrow> isRecord v
     \<and> isUtf8BytesInRange (field_of v ''name'') 1 64
     \<and> isUtf8BytesInRange (field_of v ''event_id'') 1 96
     \<and> isUtf8BytesInRange (field_of v ''product'') 1 96
     \<and> isUtf8BytesInRange (field_of v ''source_uri'') 1 2048
     \<and> isHash32 (field_of v ''source_hash'') \<and> isHash32 (field_of v ''content_hash'')
     \<and> isSafeIntegerInRange (field_of v ''size_bytes'') 1 MAX_SAFE_INTEGER
     \<and> isWalrusBlobId (field_of v ''walrus_blob_id'')
     \<and> field_of v ''source_hash'' = field_of v ''content_hash''
     \<and> isWalrusUriForBlobId (field_of v ''uri'') (field_of v ''walrus_blob_id'')"

definition hasValidRawDataManifest :: "js_value \<Rightarrow> bool" where
  "hasValidRawDataManifest v \<longleftrightarrow> isRecord v
     \<and> field_of v ''oracle_version'' = jint DEFAULT_oracle_version
     \<and> array_all 1 16 hasValidRawDataEntry (field_of v ''entries'')"

definition firstUnexpectedKey :: "json_record \<Rightarrow> string list \<Rightarrow> string option" where
  "firstUnexpectedKey fs allowedKeys = find (\<lambda>k. k \<notin> set allowedKeys) (map fst fs)"

definition validateWorkerToTeeRequest :: "js_value \<Rightarrow> validation_error + worker_to_tee_request" where
  "validateWorkerToTeeRequest v =
     (case v of
        JObj fs \<Rightarrow>
        (case firstUnexpectedKey fs WORKER_TO_TEE_KEYS of
           Some k \<Rightarrow> Inl (''INVALID_WORKER_TEE_REQUEST'', ''Unexpected Worker to TEE field: '' @ k)
         | None \<Rightarrow>
           let f = get_field fs in
           if f ''hazard_type'' \<noteq> jint EARTHQUAKE
              \<or> f ''primary_source'' \<noteq> jint USGS_SOURCE
              \<or> f ''geo_resolution'' \<noteq> jint DEFAULT_geo_resolution
              \<or> \<not> isSafeIntegerInRange (f ''event_revision'') 1 U32_MAX
              \<or> \<not> isNonEmptyString (f ''source_event_id'')
           then Inl (''INVALID_WORKER_TEE_REQUEST'',
                     ''Worker to TEE request does not match the MVP oracle input contract'')
           else Inr \<lparr>w_source_event_id = js_str (f ''source_event_id''),
                  w_event_revision = js_int (f ''event_revision''),
                  w_hazard_type = js_int (f ''hazard_type''),
                  w_primary_source = js_int (f ''primary_source''),
                  w_geo_resolution = js_int (f ''geo_resolution'')\<rparr>)
      | _ \<Rightarrow> Inl (''INVALID_WORKER_TEE_REQUEST'', ''Worker to TEE request must be an object''))"

definition validateEarthquakeVerifierRequest :: "js_value \<Rightarrow> validation_error + worker_to_tee_request" where
  "validateEarthquakeVerifierRequest v = validateWorkerToTeeRequest v"

text \<open>The cast of a validated payload object.\<close>

definition payload_of_json :: "json_record \<Rightarrow> oracle_payload" where
  "payload_of_json fs =
     (let i = (\<lambda>k. js_int (get_field fs k)); t = (\<lambda>k. js_str (get_field fs k)) in
      \<lparr>p_intent = i ''intent'', p_oracle_version = i ''oracle_version'', p_event_uid = t ''event_uid'',
       p_event_revision = i ''event_revision'', p_source_event_id = t ''source_event_id'',
       p_title = t ''title'', p_region = t ''region'', p_occurred_at_ms = i ''occurred_at_ms'',
       p_hazard_type = i ''hazard_type'', p_status = i ''status'', p_severity_band = i ''severity_band'',
       p_affected_cells_root = t ''affected_cells_root'',
       p_affected_cell_count = i ''affected_cell_count'',
       p_evidence_manifest_uri = t ''evidence_manifest_uri'',
       p_evidence_manifest_hash = t ''evidence_manifest_hash'',
       p_verified_at_ms = i ''verified_at_ms'', p_freshness_deadline_ms = i ''freshness_deadline_ms''\<rparr>)"

definition opt_field :: "js_value \<Rightarrow> js_value option" where
  "opt_field v = (if v = JUndef then None else Some v)"

definition relayer_reject :: "string \<Rightarrow> validation_error + 'a" where
  "relayer_reject message = Inl (''RELAYER_REQUIRES_FINALIZED_PAYLOAD'', message)"

text \<open>The value an accepted input is returned as.\<close>

definition submit_value :: "js_value \<Rightarrow> json_record \<Rightarrow> relayer_submit_input" where
  "submit_value v payload =
     (let f = field_of v in
      \<lparr>rsi_payload = payload, rsi_payload_bcs_hex = js_str (f ''payload_bcs_hex''),
       rsi_signature = js_str (f ''signature''), rsi_public_key = js_str (f ''public_key''),
       rsi_raw_data_manifest = opt_field (f ''raw_data_manifest''),
       rsi_affected_cells = opt_field (f ''affected_cells''),
       rsi_evidence_manifest = opt_field (f ''evidence_manifest''),
       rsi_affected_cells_ref = opt_field (f ''affected_cells_ref''),
       rsi_evidence_manifest_ref = opt_field (f ''evidence_manifest_ref''),
       rsi_expected_hashes =
         (if isRecord (f ''expected_hashes'') then Some (f ''expected_hashes'') else None),
       rsi_verifier_config_key = js_int (f ''verifier_config_key''),
       rsi_verifier_config_version = js_int (f ''verifier_config_version''),
       rsi_enclave_instance_public_key = js_str (f ''enclave_instance_public_key'')\<rparr>)"

text \<open>The code throws only where \<open>hexBytes32\<close> throws; that is the outer left value.\<close>

definition validateRelayerSubmitInput :: "js_value \<Rightarrow> js_error + (validation_error + relayer_submit_input)" where
  "validateRelayerSubmitInput v =
     (if \<not> isRecord v then Inr (relayer_reject ''Relayer input must be an object'') else
      let f = field_of v in
      if f ''status'' \<noteq> JStr ''finalized''
      then Inr (relayer_reject ''Relayer accepts only finalized TEE results'')
      else (case f ''payload'' of
        JObj payload \<Rightarrow>
          if get_field payload ''status'' \<noteq> jint FINALIZED_STATUS
          then Inr (relayer_reject ''Relayer payload must use onchain status FINALIZED'')
          else if \<not> hasValidFinalizedPayload payload
          then Inr (relayer_reject ''Relayer payload metadata is malformed'')
          else if \<not> isHexBytes (f ''payload_bcs_hex'') None \<or> \<not> isHexBytes (f ''signature'') (Some 64)
                  \<or> \<not> isHexBytes (f ''public_key'') (Some 32)
          then Inr (relayer_reject ''Relayer input requires BCS payload bytes, signature, and public key'')
          else res_bind (encodeEarthquakeOraclePayloadBcsHex (payload_of_json payload)) (\<lambda>encoded.
          if normalizeHexBytes (js_str (f ''payload_bcs_hex'')) \<noteq> normalizeHexBytes encoded
          then Inr (relayer_reject ''Relayer payload_bcs_hex does not match payload'')
          else if f ''verifier_config_key'' \<noteq> jint EARTHQUAKE_VERIFIER_CONFIG_KEY
                  \<or> \<not> isSafeIntegerInRange (f ''verifier_config_version'') 1 MAX_SAFE_INTEGER
                  \<or> \<not> isHexBytes (f ''enclave_instance_public_key'') (Some 32)
                  \<or> normalizeHexBytes (js_str (f ''enclave_instance_public_key''))
                       \<noteq> normalizeHexBytes (js_str (f ''public_key''))
          then Inr (relayer_reject
                 ''Relayer input requires Earthquake Oracle v1 enclave tracking metadata'')
          else if f ''raw_data_manifest'' \<noteq> JUndef \<and> \<not> hasValidRawDataManifest (f ''raw_data_manifest'')
          then Inr (relayer_reject ''Relayer input raw_data_manifest is malformed'')
          else if f ''affected_cells'' \<noteq> JUndef \<and> \<not> hasValidAffectedCellsArtifact (f ''affected_cells'')
          then Inr (relayer_reject ''Relayer input affected_cells is malformed'')
          else if f ''evidence_manifest'' \<noteq> JUndef \<and> \<not> hasValidEvidenceManifest (f ''evidence_manifest'')
          then Inr (relayer_reject ''Relayer input evidence_manifest is malformed'')
          else if f ''affected_cells_ref'' \<noteq> JUndef \<and> \<not> hasValidStoredSourceRef (f ''affected_cells_ref'')
          then Inr (relayer_reject ''Relayer input affected_cells_ref is malformed'')
          else if f ''evidence_manifest_ref'' \<noteq> JUndef
                  \<and> \<not> hasValidStoredSourceRef (f ''evidence_manifest_ref'')
          then Inr (relayer_reject ''Relayer input evidence_manifest_ref is malformed'')
          else Inr (Inr (submit_value v payload)))
      | _ \<Rightarrow> Inr (relayer_reject ''Relayer payload must use onchain status FINALIZED'')))"

section \<open>Hexadecimal texts of 32 bytes\<close>

lemma to_lower_hex: "is_hex c \<Longrightarrow> is_lower_hex (to_lower c)"
  by (auto simp: to_lower_def is_hex_def is_lower_hex_def is_upper_az_def is_digit_def of_char_of)

lemma to_lower_id: "is_lower_hex c \<Longrightarrow> to_lower c = c"
  by (auto simp: to_lower_def is_lower_hex_def is_upper_az_def is_digit_def)

lemma normalize_hash32: "hash32_text s \<Longrightarrow> is_prefixed_hex32 (''0x'' @ normalizeHexBytes s)"
  by (auto simp: hash32_text_def is_prefixed_hex32_def starts_with_def normalizeHexBytes_def strip0x_def
      list_all_iff to_lower_hex)

lemma normalize_lower: "is_prefixed_hex32 s \<Longrightarrow> ''0x'' @ normalizeHexBytes s = s"
proof -
  assume s: "is_prefixed_hex32 s"
  then have "map to_lower (drop 2 s) = drop 2 s"
    by (auto simp: is_prefixed_hex32_def list_all_iff to_lower_id intro!: map_idI)
  moreover have "take 2 s = ''0x''" using s by (simp add: is_prefixed_hex32_def starts_with_def numeral_2_eq_2)
  ultimately show ?thesis
    using s append_take_drop_id [of 2 s] by (simp add: normalizeHexBytes_def strip0x_def is_prefixed_hex32_def)
qed

lemma hexBytes32_eq:
  "length (normalizeHexBytes s) = 64 \<Longrightarrow> hexBytes32 s = Inr (hexToBytes (''0x'' @ normalizeHexBytes s))"
  by (simp add: hexBytes32_def Let_def hexToBytes_def substr_def)

lemma hexBytes32_lower: "is_prefixed_hex32 s \<Longrightarrow> hexBytes32 s = Inr (hexToBytes s)"
proof -
  assume s: "is_prefixed_hex32 s"
  then have "length (normalizeHexBytes s) = 64"
    by (simp add: normalizeHexBytes_def strip0x_def is_prefixed_hex32_def)
  from hexBytes32_eq [OF this] show ?thesis by (simp only: normalize_lower [OF s])
qed

section \<open>The two root computations\<close>

lemma byte_level_next_level:
  "sha256_ok sha \<Longrightarrow> byte_level sha (map hexToBytes hs) = map hexToBytes (next_level sha hs)"
  by (induction sha hs rule: next_level.induct)
    (simp_all add: hexToBytes_internalHash bcs_u8_def INTERNAL_NODE_DOMAIN_SEPARATOR_def)

lemma byte_root_levels:
  "sha256_ok sha \<Longrightarrow> hs \<noteq> [] \<Longrightarrow> byte_root sha (map hexToBytes hs) = Some (hexToBytes (hd (last (levels_of sha hs))))"
proof (induction sha hs rule: levels_of.induct)
  case (1 sha hs)
  show ?case
  proof (cases "length hs > 1")
    case True
    with 1 show ?thesis
      by (simp add: byte_root.simps [of sha "map hexToBytes hs"] byte_level_next_level levels_of.simps [of sha hs])
  next
    case False
    with "1.prems" obtain a where "hs = [a]" by (cases hs) auto
    then show ?thesis by (simp add: byte_root.simps [of sha "[hexToBytes a]"])
  qed
qed

lemma method_id: "cellsGenerationMethodId v = CELLS_GENERATION_METHOD_INT v"
  by (simp add: cellsGenerationMethodId_def CELLS_GENERATION_METHOD_INT_def)

lemma root_leaves_eq:
  assumes wf: "wf_input inp" and m: "CELLS_GENERATION_METHOD_INT (cells_generation_method inp) = Some m"
    and "list_all wf_cell cells" and "sorted_wrt (<) (map cell_key cells)"
    and "none_or (\<lambda>p. \<forall>c \<in> set cells. p < cell_key c) prev"
  shows "root_leaves sha inp m prev cells = Inr
    (if list_all (\<lambda>c. cell_key c \<le> U64_MAX) cells
     then Some (map (\<lambda>c. sha (LEAF_HASH_DOMAIN_SEPARATOR # leaf_bytes (leaf_of_cell inp c))) cells) else None)"
  using assms(3-)
proof (induction cells arbitrary: prev)
  case (Cons c cells)
  have uid: "hexBytes32 (event_uid inp) = Inr (hexToBytes (event_uid inp))"
    using wf by (simp add: wf_input_def hexBytes32_lower)
  have cm: "cell_metric inp = ''USGS_MMI''" "intensity_scale inp = ''MMI_X100''"
    using wf by (auto simp: wf_input_def KNOWN_CELL_METRICS_def KNOWN_INTENSITY_SCALES_def)
  have key: "parseCanonicalU64Decimal (h3_index c) = (if cell_key c \<le> U64_MAX then Some (cell_key c) else None)"
    using Cons.prems by (simp add: parseCanonicalU64Decimal_def wf_cell_def cell_key_def)
  have "\<not> some_and (\<lambda>p. cell_key c \<le> p) prev" using Cons.prems by (cases prev) auto
  moreover have "root_leaves sha inp m (Some (cell_key c)) cells = Inr
    (if list_all (\<lambda>c. cell_key c \<le> U64_MAX) cells
     then Some (map (\<lambda>c. sha (LEAF_HASH_DOMAIN_SEPARATOR # leaf_bytes (leaf_of_cell inp c))) cells) else None)"
    using Cons.prems by (intro Cons.IH) auto
  ultimately show ?case
    by (simp add: key uid Let_def leaf_bytes_def leaf_of_cell_def cm m bcs_u8_def bcs_u16_def bcs_u32_def
        bcs_u64_def LEAF_HASH_DOMAIN_SEPARATOR_def)
qed simp

lemma root_agreement:
  assumes sha: "sha256_ok sha" and wf: "wf_input inp" and rev: "event_revision inp \<le> U32_MAX"
  shows "computeAffectedCellsRootHex sha inp =
    Inr (case affectedCellsRoot sha inp of Inr r \<Rightarrow> Some r | Inl _ \<Rightarrow> None)"
proof -
  let ?hs = "map (cell_hash sha inp) (affected_cells inp)"
  obtain m where m: "CELLS_GENERATION_METHOD_INT (cells_generation_method inp) = Some m"
    using wf by (auto simp: wf_input_def KNOWN_CELLS_GENERATION_METHODS_def CELLS_GENERATION_METHOD_INT_def)
  have leaf: "sha (LEAF_HASH_DOMAIN_SEPARATOR # leaf_bytes (leaf_of_cell inp c)) = hexToBytes (cell_hash sha inp c)" for c
    using sha by (simp add: cell_hash_def hashLeafBytes_def sha256Hex_def hexToBytes_bytesToPrefixedHex sha256_ok_def)
  have "root_leaves sha inp m None (affected_cells inp) = Inr
      (if encodable inp then Some (map hexToBytes ?hs) else None)"
    using wf rev by (subst root_leaves_eq [OF wf m])
      (auto simp: wf_input_def encodable_def leaf o_def)
  moreover have ne: "affected_cells inp \<noteq> []" using wf by (simp add: wf_input_def)
  moreover have "byte_root sha (map hexToBytes ?hs) = Some (hexToBytes (hd (last (levels_of sha ?hs))))"
    using ne by (intro byte_root_levels [OF sha]) simp
  moreover have "bytesToPrefixedHex (hexToBytes (hd (last (levels_of sha ?hs)))) = hd (last (levels_of sha ?hs))"
    using merkleRoot_hex32 [OF sha cell_hash_hex32 [OF sha]] ne
    by (intro bytesToPrefixedHex_hexToBytes) simp
  moreover have "affectedCellsRoot sha inp = Inr (hd (last (levels_of sha ?hs)))" if "encodable inp"
    using that ne by (simp add: affectedCellsRoot_Inr [OF wf] merkleRoot_eq)
  moreover have "\<exists>e. affectedCellsRoot sha inp = Inl e" if "\<not> encodable inp"
    using that affectedCellsRoot_Inr [OF wf] by (cases "affectedCellsRoot sha inp") auto
  ultimately show ?thesis
    by (cases "encodable inp") (auto simp: computeAffectedCellsRootHex_def method_id m o_def)
qed

section \<open>The payload encoding is injective\<close>

lemma byte_of_nat_inject: "a < 256 \<Longrightarrow> b < 256 \<Longrightarrow> (word_of_nat a :: byte) = word_of_nat b \<longleftrightarrow> a = b"
  by (simp add: word_of_nat_eq_iff take_bit_nat_eq_self)

lemma uleb_low: "r < 128 \<Longrightarrow> (word_of_nat r OR 0x80 :: byte) = word_of_nat (r + 128)"
proof -
  assume r: "r < 128"
  have "(word_of_nat r :: byte) AND 0x80 = 0"
  proof (rule bit_eqI)
    fix i assume "possible_bit TYPE(byte) i"
    have "(0x80 :: byte) = push_bit 7 1" by simp
    then have "bit (0x80 :: byte) i \<longleftrightarrow> i = 7"
      by (simp only: bit_push_bit_iff bit_1_iff) (auto simp: possible_bit_def)
    moreover have "\<not> bit (word_of_nat r :: byte) 7"
      using r by (simp add: bit_simps) (simp add: bit_iff_odd)
    ultimately show "bit (word_of_nat r AND 0x80 :: byte) i \<longleftrightarrow> bit (0 :: byte) i"
      by (auto simp: bit_simps)
  qed
  then have "(word_of_nat r OR 0x80 :: byte) = word_of_nat r + 0x80"
    by (simp add: disjunctive_add_eq_or)
  then show ?thesis by simp
qed

lemma uleb128_step:
  "uleb128 n = (if n < 128 then [word_of_nat n] else word_of_nat (n mod 128 + 128) # uleb128 (n div 128))"
  by (subst uleb128.simps) (simp add: Let_def uleb_low div_greater_zero_iff not_less)

lemma uleb128_prefix_free: "uleb128 m @ x = uleb128 n @ y \<Longrightarrow> m = n \<and> x = y"
proof (induction m arbitrary: n rule: less_induct)
  case (less m)
  have eq: "(if m < 128 then [word_of_nat m] else word_of_nat (m mod 128 + 128) # uleb128 (m div 128)) @ x
      = (if n < 128 then [word_of_nat n] else word_of_nat (n mod 128 + 128) # uleb128 (n div 128)) @ y"
    using less.prems by (simp only: uleb128_step [symmetric])
  show ?case
  proof (cases "m < 128"; cases "n < 128")
    assume "\<not> m < 128" "\<not> n < 128"
    with eq have *: "(word_of_nat (m mod 128 + 128) :: byte) = word_of_nat (n mod 128 + 128)"
      "uleb128 (m div 128) @ x = uleb128 (n div 128) @ y" by simp_all
    have "m mod 128 < 128" "n mod 128 < 128" by simp_all
    then have "m mod 128 + 128 < 256" "n mod 128 + 128 < 256" by linarith+
    with *(1) have "m mod 128 = n mod 128" by (simp only: byte_of_nat_inject)
    moreover have "m div 128 = n div 128 \<and> x = y"
      using \<open>\<not> m < 128\<close> by (intro less.IH *) simp
    ultimately show ?thesis by (metis div_mod_decomp)
  next
    assume "m < 128" "\<not> n < 128"
    have "n mod 128 < 128" by simp
    then have "n mod 128 + 128 < 256" by linarith
    with eq \<open>m < 128\<close> \<open>\<not> n < 128\<close> byte_of_nat_inject [of m "n mod 128 + 128"] show ?thesis by simp
  next
    assume "\<not> m < 128" "n < 128"
    have "m mod 128 < 128" by simp
    then have "m mod 128 + 128 < 256" by linarith
    with eq \<open>\<not> m < 128\<close> \<open>n < 128\<close> byte_of_nat_inject [of "m mod 128 + 128" n] show ?thesis by simp
  next
    assume "m < 128" "n < 128"
    with eq byte_of_nat_inject [of m n] show ?thesis by simp
  qed
qed

lemma byte_of_char_inject: "(of_char c :: byte) = of_char d \<Longrightarrow> c = d"
  using byte_of_nat_inject [of "of_char c" "of_char d"] by (simp add: of_nat_of_char)

lemma utf8Vector_prefix_free: "utf8Vector s @ x = utf8Vector t @ y \<Longrightarrow> s = t \<and> x = y"
proof -
  assume "utf8Vector s @ x = utf8Vector t @ y"
  then have "length s = length t \<and> (map of_char s :: bytes) @ x = map of_char t @ y"
    by (intro uleb128_prefix_free) (simp add: utf8Vector_def)
  then have "(map of_char s :: bytes) = map of_char t \<and> x = y"
    by (metis append_eq_append_conv length_map)
  then have "(map of_char s :: bytes) = map of_char t" and "x = y" by blast+
  moreover from this(1) have "s = t"
    by (rule list.inj_map_strong [rotated]) (rule byte_of_char_inject)
  ultimately show ?thesis by simp
qed

text \<open>The payloads whose fields fit their widths.\<close>

definition payload_fits :: "oracle_payload \<Rightarrow> bool" where
  "payload_fits p \<longleftrightarrow> hash32_text (p_event_uid p) \<and> hash32_text (p_affected_cells_root p)
     \<and> hash32_text (p_evidence_manifest_hash p)
     \<and> 0 \<le> p_intent p \<and> p_intent p \<le> U8_MAX \<and> 0 \<le> p_oracle_version p \<and> p_oracle_version p \<le> U64_MAX
     \<and> 0 \<le> p_event_revision p \<and> p_event_revision p \<le> U32_MAX
     \<and> 0 \<le> p_occurred_at_ms p \<and> p_occurred_at_ms p \<le> U64_MAX
     \<and> 0 \<le> p_hazard_type p \<and> p_hazard_type p \<le> U8_MAX \<and> 0 \<le> p_status p \<and> p_status p \<le> U8_MAX
     \<and> 0 \<le> p_severity_band p \<and> p_severity_band p \<le> U8_MAX
     \<and> 0 \<le> p_affected_cell_count p \<and> p_affected_cell_count p \<le> U64_MAX
     \<and> 0 \<le> p_verified_at_ms p \<and> p_verified_at_ms p \<le> U64_MAX
     \<and> 0 \<le> p_freshness_deadline_ms p \<and> p_freshness_deadline_ms p \<le> U64_MAX"

text \<open>Hexadecimal text is case-insensitive, so equality of payloads is up to the case of the hashes.\<close>

definition lower_hashes :: "oracle_payload \<Rightarrow> oracle_payload" where
  "lower_hashes p = p\<lparr>p_event_uid := normalizeHexBytes (p_event_uid p),
     p_affected_cells_root := normalizeHexBytes (p_affected_cells_root p),
     p_evidence_manifest_hash := normalizeHexBytes (p_evidence_manifest_hash p)\<rparr>"

lemma hexBytes32_hash: "hash32_text s \<Longrightarrow> hexBytes32 s = Inr (hexToBytes (''0x'' @ normalizeHexBytes s))"
  using normalize_hash32 [of s] by (intro hexBytes32_eq) (simp add: is_prefixed_hex32_def)

lemma hash_bytes_inject:
  "hash32_text s \<Longrightarrow> hash32_text t \<Longrightarrow>
   hexToBytes (''0x'' @ normalizeHexBytes s) = hexToBytes (''0x'' @ normalizeHexBytes t)
     \<longleftrightarrow> normalizeHexBytes s = normalizeHexBytes t"
  using hexToBytes_inject [OF normalize_hash32 normalize_hash32, of s t] by simp

lemma utf8Vector_append [simp]: "utf8Vector s @ x = utf8Vector t @ y \<longleftrightarrow> s = t \<and> x = y"
  using utf8Vector_prefix_free by blast

definition payload_bytes :: "oracle_payload \<Rightarrow> bytes" where
  "payload_bytes p =
     [word_of_int (p_intent p)] @ le_bytes 8 (p_oracle_version p)
     @ hexToBytes (''0x'' @ normalizeHexBytes (p_event_uid p)) @ le_bytes 4 (p_event_revision p)
     @ utf8Vector (p_source_event_id p) @ utf8Vector (p_title p) @ utf8Vector (p_region p)
     @ le_bytes 8 (p_occurred_at_ms p)
     @ [word_of_int (p_hazard_type p)] @ [word_of_int (p_status p)] @ [word_of_int (p_severity_band p)]
     @ hexToBytes (''0x'' @ normalizeHexBytes (p_affected_cells_root p)) @ le_bytes 8 (p_affected_cell_count p)
     @ utf8Vector (p_evidence_manifest_uri p)
     @ hexToBytes (''0x'' @ normalizeHexBytes (p_evidence_manifest_hash p))
     @ le_bytes 8 (p_verified_at_ms p) @ le_bytes 8 (p_freshness_deadline_ms p)"

lemma encode_payload_eq: "payload_fits p \<Longrightarrow> encodeEarthquakeOraclePayloadBcsBytes p = Inr (payload_bytes p)"
  by (simp add: encodeEarthquakeOraclePayloadBcsBytes_def payload_fits_def payload_bytes_def hexBytes32_hash
      bcs_u8_def bcs_u32_def bcs_u64_def)

lemma payload_bytes_inject:
  assumes "payload_fits p" and "payload_fits q" and "payload_bytes p = payload_bytes q"
  shows "lower_hashes p = lower_hashes q"
proof -
  have eqs: "(word_of_int (p_intent p) :: byte) = word_of_int (p_intent q)"
    "le_bytes 8 (p_oracle_version p) = le_bytes 8 (p_oracle_version q)"
    "hexToBytes (''0x'' @ normalizeHexBytes (p_event_uid p)) = hexToBytes (''0x'' @ normalizeHexBytes (p_event_uid q))"
    "le_bytes 4 (p_event_revision p) = le_bytes 4 (p_event_revision q)"
    "p_source_event_id p = p_source_event_id q" "p_title p = p_title q" "p_region p = p_region q"
    "le_bytes 8 (p_occurred_at_ms p) = le_bytes 8 (p_occurred_at_ms q)"
    "(word_of_int (p_hazard_type p) :: byte) = word_of_int (p_hazard_type q)"
    "(word_of_int (p_status p) :: byte) = word_of_int (p_status q)"
    "(word_of_int (p_severity_band p) :: byte) = word_of_int (p_severity_band q)"
    "hexToBytes (''0x'' @ normalizeHexBytes (p_affected_cells_root p))
      = hexToBytes (''0x'' @ normalizeHexBytes (p_affected_cells_root q))"
    "le_bytes 8 (p_affected_cell_count p) = le_bytes 8 (p_affected_cell_count q)"
    "p_evidence_manifest_uri p = p_evidence_manifest_uri q"
    "hexToBytes (''0x'' @ normalizeHexBytes (p_evidence_manifest_hash p))
      = hexToBytes (''0x'' @ normalizeHexBytes (p_evidence_manifest_hash q))"
    "le_bytes 8 (p_verified_at_ms p) = le_bytes 8 (p_verified_at_ms q)"
    "le_bytes 8 (p_freshness_deadline_ms p) = le_bytes 8 (p_freshness_deadline_ms q)"
    using assms(3) by (simp_all add: payload_bytes_def)
  then have "p_intent p = p_intent q" "p_oracle_version p = p_oracle_version q"
    "normalizeHexBytes (p_event_uid p) = normalizeHexBytes (p_event_uid q)"
    "p_event_revision p = p_event_revision q" "p_occurred_at_ms p = p_occurred_at_ms q"
    "p_hazard_type p = p_hazard_type q" "p_status p = p_status q" "p_severity_band p = p_severity_band q"
    "normalizeHexBytes (p_affected_cells_root p) = normalizeHexBytes (p_affected_cells_root q)"
    "p_affected_cell_count p = p_affected_cell_count q"
    "normalizeHexBytes (p_evidence_manifest_hash p) = normalizeHexBytes (p_evidence_manifest_hash q)"
    "p_verified_at_ms p = p_verified_at_ms q" "p_freshness_deadline_ms p = p_freshness_deadline_ms q"
    using assms(1,2) unfolding payload_fits_def
    by (simp_all only: byte_inject hash_bytes_inject)
      (simp_all add: le_bytes_inject U64_MAX_def U32_MAX_def)
  with eqs(5,6,7,14) show ?thesis by (simp add: lower_hashes_def)
qed

section \<open>Accepted inputs\<close>

lemma js_str_JStr [simp]: "js_str (JStr s) = s"
  by (simp add: js_str_def)

lemma js_int_JNum [simp]: "js_int (JNum q) = \<lfloor>q\<rfloor>"
  by (simp add: js_int_def)

lemma isHash32_str: "isHash32 v \<Longrightarrow> hash32_text (js_str v)"
  by (auto simp: isHash32_def js_str_def split: js_value.splits)

lemma isSafeIntegerInRange_int: "isSafeIntegerInRange v lo hi \<Longrightarrow> lo \<le> js_int v \<and> js_int v \<le> hi"
  by (auto simp: isSafeIntegerInRange_def js_int_def le_floor_iff floor_le_iff split: js_value.splits)

lemma isSafeNonNegativeInteger_int:
  "isSafeNonNegativeInteger v \<Longrightarrow> 0 \<le> js_int v \<and> js_int v \<le> MAX_SAFE_INTEGER"
  by (auto simp: isSafeNonNegativeInteger_def isSafeInteger_def js_int_def split: js_value.splits)

lemma valid_payload_fits:
  assumes "hasValidFinalizedPayload fs"
  shows "payload_fits (payload_of_json fs)"
proof -
  let ?f = "get_field fs"
  have "isHash32 (?f ''event_uid'')" "isHash32 (?f ''affected_cells_root'')"
    "isHash32 (?f ''evidence_manifest_hash'')" "isSafeIntegerInRange (?f ''event_revision'') 1 U32_MAX"
    "isSafeNonNegativeInteger (?f ''occurred_at_ms'')" "isSafeIntegerInRange (?f ''severity_band'') 1 3"
    "isSafeIntegerInRange (?f ''affected_cell_count'') 1 ONE_MILLION"
    "isSafeNonNegativeInteger (?f ''verified_at_ms'')" "isSafeNonNegativeInteger (?f ''freshness_deadline_ms'')"
    and eqs: "?f ''intent'' = jint 1" "?f ''oracle_version'' = jint 1" "?f ''hazard_type'' = jint 1"
    "?f ''status'' = jint 3"
    using assms unfolding hasValidFinalizedPayload_def Let_def SONARI_EARTHQUAKE_ORACLE_def
      DEFAULT_oracle_version_def EARTHQUAKE_def FINALIZED_STATUS_def by blast+
  note this(1-3) [THEN isHash32_str] this(4,6,7) [THEN isSafeIntegerInRange_int]
    this(5,8,9) [THEN isSafeNonNegativeInteger_int]
  then show ?thesis
    by (simp add: payload_fits_def payload_of_json_def Let_def eqs js_int_def [of "JNum q" for q] U8_MAX_def
        U32_MAX_def U64_MAX_def MAX_SAFE_INTEGER_def ONE_MILLION_def)
qed

lemma normalize_prefixed: "normalizeHexBytes (bytesToPrefixedHex bs) = bytesToHex bs"
proof -
  have "list_all is_lower_hex (bytesToHex bs)"
  proof (induction bs)
    case (Cons b bs)
    have "unat b div 16 < 16" using byte_unat_less [of b] by simp
    with Cons show ?case by (simp add: bytesToHex_def hex2_def is_lower_hex_hex_char)
  qed (simp add: bytesToHex_def)
  then show ?thesis
    by (auto simp: normalizeHexBytes_def strip0x_def bytesToPrefixedHex_def starts_with_def list_all_iff
        to_lower_id intro!: map_idI)
qed

lemma bytesToHex_inject [simp]: "bytesToHex a = bytesToHex b \<longleftrightarrow> a = b"
proof (induction a arbitrary: b)
  case Nil
  then show ?case by (cases b) (auto simp: bytesToHex_def hex2_def)
next
  case (Cons x a)
  have "hex2 x = hex2 y \<longleftrightarrow> x = y" for x y
    by (metis parseInt16_hex2 option.inject word_uint_eqI)
  with Cons show ?case by (cases b) (auto simp: bytesToHex_def hex2_def)
qed

text \<open>What acceptance of a relayer input establishes.\<close>

definition relayer_accepts :: "js_value \<Rightarrow> relayer_submit_input \<Rightarrow> bool" where
  "relayer_accepts v r \<longleftrightarrow>
     field_of v ''status'' = JStr ''finalized'' \<and> field_of v ''payload'' = JObj (rsi_payload r)
     \<and> hasValidFinalizedPayload (rsi_payload r)
     \<and> field_of v ''payload_bcs_hex'' = JStr (rsi_payload_bcs_hex r)
     \<and> field_of v ''signature'' = JStr (rsi_signature r) \<and> length (strip0x (rsi_signature r)) = 128
     \<and> field_of v ''public_key'' = JStr (rsi_public_key r) \<and> length (strip0x (rsi_public_key r)) = 64
     \<and> (\<exists>bs. encodeEarthquakeOraclePayloadBcsBytes (payload_of_json (rsi_payload r)) = Inr bs
           \<and> normalizeHexBytes (rsi_payload_bcs_hex r) = bytesToHex bs)
     \<and> rsi_verifier_config_key r = EARTHQUAKE_VERIFIER_CONFIG_KEY \<and> 1 \<le> rsi_verifier_config_version r
     \<and> normalizeHexBytes (rsi_enclave_instance_public_key r) = normalizeHexBytes (rsi_public_key r)
     \<and> none_or hasValidEvidenceManifest (rsi_evidence_manifest r)
     \<and> none_or hasValidAffectedCellsArtifact (rsi_affected_cells r)"

lemma isHexBytes_str: "isHexBytes v n \<longleftrightarrow> (\<exists>s. v = JStr s \<and> strip0x s \<noteq> [] \<and> list_all is_hex (strip0x s)
    \<and> length (strip0x s) mod 2 = 0 \<and> none_or (\<lambda>n. length (strip0x s) = n * 2) n)"
  by (auto simp: isHexBytes_def Let_def split: js_value.splits)

lemma validateRelayer_total: "\<exists>r. validateRelayerSubmitInput v = Inr r"
proof (cases "field_of v ''payload''")
  case (JObj payload)
  then show ?thesis
  proof (cases "hasValidFinalizedPayload payload")
    case True
    from encode_payload_eq [OF valid_payload_fits [OF True]] JObj show ?thesis
      by (simp add: validateRelayerSubmitInput_def Let_def encodeEarthquakeOraclePayloadBcsHex_def)
  qed (simp add: validateRelayerSubmitInput_def Let_def)
qed (simp_all add: validateRelayerSubmitInput_def Let_def)

lemma reject_if:
  "(if c then Inr (relayer_reject m) else x) = Inr (Inr r) \<longleftrightarrow> \<not> c \<and> x = Inr (Inr r)"
  by (simp add: relayer_reject_def)

lemma validateRelayer_accepts:
  assumes "validateRelayerSubmitInput v = Inr (Inr r)"
  shows "relayer_accepts v r"
proof (cases "field_of v ''payload''")
  case (JObj payload)
  let ?f = "field_of v"
  have valid: "hasValidFinalizedPayload payload"
    using assms JObj unfolding validateRelayerSubmitInput_def Let_def reject_if by (simp add: reject_if)
  note enc = encode_payload_eq [OF valid_payload_fits [OF valid]]
  have hex: "encodeEarthquakeOraclePayloadBcsHex (payload_of_json payload)
      = Inr (bytesToPrefixedHex (payload_bytes (payload_of_json payload)))"
    by (simp add: encodeEarthquakeOraclePayloadBcsHex_def enc)
  note acc = assms [unfolded validateRelayerSubmitInput_def Let_def reject_if JObj js_value.case
      hex res_bind_simps normalize_prefixed, simplified reject_if]
  from acc have
    st: "?f ''status'' = JStr ''finalized''"
    and bcs: "isHexBytes (?f ''payload_bcs_hex'') None" "isHexBytes (?f ''signature'') (Some 64)"
      "isHexBytes (?f ''public_key'') (Some 32)" "isHexBytes (?f ''enclave_instance_public_key'') (Some 32)"
    and norm: "normalizeHexBytes (js_str (?f ''payload_bcs_hex'')) = bytesToHex (payload_bytes (payload_of_json payload))"
    and cfg: "?f ''verifier_config_key'' = jint EARTHQUAKE_VERIFIER_CONFIG_KEY"
      "isSafeIntegerInRange (?f ''verifier_config_version'') 1 MAX_SAFE_INTEGER"
    and key: "normalizeHexBytes (js_str (?f ''enclave_instance_public_key'')) = normalizeHexBytes (js_str (?f ''public_key''))"
    and opt: "?f ''affected_cells'' \<noteq> JUndef \<longrightarrow> hasValidAffectedCellsArtifact (?f ''affected_cells'')"
      "?f ''evidence_manifest'' \<noteq> JUndef \<longrightarrow> hasValidEvidenceManifest (?f ''evidence_manifest'')"
    by blast+
  from acc have "submit_value v payload = r" by blast
  then have r: "r = submit_value v payload" ..
  obtain b where b: "?f ''payload_bcs_hex'' = JStr b" using bcs(1) isHexBytes_str by blast
  obtain sg where sg: "?f ''signature'' = JStr sg" "length (strip0x sg) = 128"
    using bcs(2) isHexBytes_str [of "?f ''signature''" "Some 64"] by auto
  obtain pk where pk: "?f ''public_key'' = JStr pk" "length (strip0x pk) = 64"
    using bcs(3) isHexBytes_str [of "?f ''public_key''" "Some 32"] by auto
  have ver: "1 \<le> js_int (?f ''verifier_config_version'')" using isSafeIntegerInRange_int [OF cfg(2)] by simp
  have opts: "none_or hasValidEvidenceManifest (opt_field (?f ''evidence_manifest''))"
    "none_or hasValidAffectedCellsArtifact (opt_field (?f ''affected_cells''))"
    using opt by (simp_all add: opt_field_def)
  have key': "js_int (?f ''verifier_config_key'') = EARTHQUAKE_VERIFIER_CONFIG_KEY" using cfg(1) by simp
  show ?thesis
    unfolding relayer_accepts_def r submit_value_def Let_def relayer_submit_input.simps
    by (intro conjI exI [of _ "payload_bytes (payload_of_json payload)"])
      (simp_all only: st JObj valid b sg pk js_str_JStr enc norm [unfolded b js_str_JStr] key' ver key opts
        key [unfolded pk js_str_JStr])
qed (use assms in \<open>simp_all add: validateRelayerSubmitInput_def Let_def relayer_reject_def split: if_splits\<close>)

section \<open>Properties\<close>

text \<open>The verifier and the proof library compute one root: for every parsed file whose revision
  fits 32 bits, the byte-level root computation of the oracle contract returns the root of the
  proof library, and null exactly when the proof library throws.\<close>

theorem affected_cells_roots_agree:
  assumes "sha256_ok sha" and "parseAffectedCellsFile v = Inr inp" and "event_revision inp \<le> U32_MAX"
  shows "computeAffectedCellsRootHex sha inp =
    Inr (case affectedCellsRoot sha inp of Inr r \<Rightarrow> Some r | Inl _ \<Rightarrow> None)"
  using root_agreement [OF assms(1) _ assms(3)] assms(2) by (simp add: parseAffectedCellsFile_Inr)

theorem affected_cells_roots_agree_witness:
  "computeAffectedCellsRootHex checksum32 sample_input =
    Inr (case affectedCellsRoot checksum32 sample_input of Inr r \<Rightarrow> Some r | Inl _ \<Rightarrow> None)"
  by (rule affected_cells_roots_agree [OF sha256_ok_checksum32 sample_parse])
     (simp add: sample_input_def U32_MAX_def)

text \<open>C37. The BCS bytes bind the payload: every payload whose fields fit their widths encodes, and two
  such payloads with the same bytes agree in every field, the hashes up to the case of their
  hexadecimal text.\<close>

theorem payload_encoding_binding:
  assumes "payload_fits p" and "payload_fits q"
  shows "\<exists>bs bs'. encodeEarthquakeOraclePayloadBcsBytes p = Inr bs
    \<and> encodeEarthquakeOraclePayloadBcsBytes q = Inr bs' \<and> (bs = bs' \<longrightarrow> lower_hashes p = lower_hashes q)"
  using payload_bytes_inject [OF assms] by (simp add: encode_payload_eq assms)

definition sample_payload :: oracle_payload where
  "sample_payload =
     \<lparr>p_intent = 1, p_oracle_version = 1, p_event_uid = sample_uid, p_event_revision = 1,
      p_source_event_id = ''us7000abcd'', p_title = ''M 6.8'', p_region = ''Japan'',
      p_occurred_at_ms = 1700000000000, p_hazard_type = 1, p_status = 3, p_severity_band = 2,
      p_affected_cells_root = sample_uid, p_affected_cell_count = 2,
      p_evidence_manifest_uri = ''walrus://blob/abcdefgh'', p_evidence_manifest_hash = sample_uid,
      p_verified_at_ms = 1700000100000, p_freshness_deadline_ms = 1700021700000\<rparr>"

lemma hash32_lower: "is_prefixed_hex32 s \<Longrightarrow> hash32_text s"
  by (auto simp: is_prefixed_hex32_def hash32_text_def list_all_iff is_hex_lower)

lemma sample_payload_fits: "payload_fits sample_payload"
  by (simp add: payload_fits_def sample_payload_def hash32_lower sample_uid_def U8_MAX_def U32_MAX_def U64_MAX_def)

theorem payload_encoding_binding_witness:
  "\<exists>bs bs'. encodeEarthquakeOraclePayloadBcsBytes sample_payload = Inr bs
    \<and> encodeEarthquakeOraclePayloadBcsBytes (sample_payload\<lparr>p_severity_band := 3\<rparr>) = Inr bs'
    \<and> (bs = bs' \<longrightarrow> lower_hashes sample_payload = lower_hashes (sample_payload\<lparr>p_severity_band := 3\<rparr>))"
proof -
  have "payload_fits (sample_payload\<lparr>p_severity_band := 3\<rparr>)"
    using sample_payload_fits by (simp add: payload_fits_def U8_MAX_def)
  then show ?thesis by (rule payload_encoding_binding [OF sample_payload_fits])
qed


text \<open>What was signed is what is submitted: two accepted inputs with the same BCS text carry the
  same payload, up to the case of its hashes.\<close>

theorem relayer_bytes_determine_payload:
  assumes "validateRelayerSubmitInput v = Inr (Inr r)" and "validateRelayerSubmitInput v' = Inr (Inr r')"
    and "normalizeHexBytes (rsi_payload_bcs_hex r) = normalizeHexBytes (rsi_payload_bcs_hex r')"
  shows "lower_hashes (payload_of_json (rsi_payload r)) = lower_hashes (payload_of_json (rsi_payload r'))"
proof -
  have acc: "relayer_accepts v r" "relayer_accepts v' r'" using assms(1,2) validateRelayer_accepts by blast+
  then have fits: "payload_fits (payload_of_json (rsi_payload r))" "payload_fits (payload_of_json (rsi_payload r'))"
    by (auto simp: relayer_accepts_def intro: valid_payload_fits)
  with acc assms(3) have "payload_bytes (payload_of_json (rsi_payload r)) = payload_bytes (payload_of_json (rsi_payload r'))"
    by (auto simp: relayer_accepts_def encode_payload_eq)
  with payload_bytes_inject [OF fits] show ?thesis .
qed

definition sample_payload_json :: json_record where
  "sample_payload_json =
     [(''intent'', JNum 1), (''oracle_version'', JNum 1), (''event_uid'', JStr sample_uid),
      (''event_revision'', JNum 1), (''source_event_id'', JStr ''us7000abcd''), (''title'', JStr ''M 6.8''),
      (''region'', JStr ''Japan''), (''occurred_at_ms'', JNum 1700000000000), (''hazard_type'', JNum 1),
      (''status'', JNum 3), (''severity_band'', JNum 2), (''affected_cells_root'', JStr sample_uid),
      (''affected_cell_count'', JNum 2), (''evidence_manifest_uri'', JStr ''walrus://blob/abcdefgh''),
      (''evidence_manifest_hash'', JStr sample_uid), (''verified_at_ms'', JNum 1700000100000),
      (''freshness_deadline_ms'', JNum 1700021700000)]"

definition sample_submit :: js_value where
  "sample_submit = JObj
     [(''status'', JStr ''finalized''), (''payload'', JObj sample_payload_json),
      (''payload_bcs_hex'', JStr (bytesToPrefixedHex (payload_bytes sample_payload))),
      (''signature'', JStr (bytesToPrefixedHex (replicate 64 1))),
      (''public_key'', JStr (bytesToPrefixedHex (replicate 32 2))),
      (''verifier_config_key'', JNum 1), (''verifier_config_version'', JNum 1),
      (''enclave_instance_public_key'', JStr (bytesToPrefixedHex (replicate 32 2)))]"

lemma sample_payload_of_json: "payload_of_json sample_payload_json = sample_payload"
  by (simp add: payload_of_json_def sample_payload_json_def sample_payload_def get_field_def Let_def)

lemma hash32_sample_uid: "isHash32 (JStr sample_uid)"
  by (simp add: isHash32_def hash32_lower sample_uid_def)

lemma sample_payload_valid: "hasValidFinalizedPayload sample_payload_json"
  unfolding hasValidFinalizedPayload_def Let_def
proof (intro conjI)
  show "hasCurrentPayloadShape sample_payload_json"
    by (simp add: hasCurrentPayloadShape_def sample_payload_json_def PAYLOAD_FIELD_ORDER_def)
qed (simp_all add: sample_payload_json_def get_field_def hash32_sample_uid SONARI_EARTHQUAKE_ORACLE_def
    DEFAULT_oracle_version_def EARTHQUAKE_def FINALIZED_STATUS_def isSafeIntegerInRange_def isSafeInteger_def
    isUtf8BytesInRange_def isSafeNonNegativeInteger_def isPayloadArtifactUri_def starts_with_def
    MAX_SAFE_INTEGER_def U32_MAX_def ONE_MILLION_def FRESHNESS_WINDOW_MS_def)

lemma bytesToPrefixedHex_hexbytes:
  "bs \<noteq> [] \<Longrightarrow> none_or (\<lambda>n. length bs = n) n \<Longrightarrow> isHexBytes (JStr (bytesToPrefixedHex bs)) n"
proof -
  assume "bs \<noteq> []" "none_or (\<lambda>n. length bs = n) n"
  have "list_all is_hex (bytesToHex bs)"
  proof (induction bs)
    case (Cons b bs)
    have "unat b div 16 < 16" using byte_unat_less [of b] by simp
    with Cons show ?case by (simp add: bytesToHex_def hex2_def is_lower_hex_hex_char is_hex_lower)
  qed (simp add: bytesToHex_def)
  moreover have "bytesToHex bs \<noteq> []" using \<open>bs \<noteq> []\<close> by (cases bs) (simp_all add: bytesToHex_def hex2_def)
  moreover have "strip0x (bytesToPrefixedHex bs) = bytesToHex bs"
    by (simp add: strip0x_def bytesToPrefixedHex_def starts_with_def)
  ultimately show ?thesis
    using \<open>none_or _ n\<close> by (cases n) (simp_all add: isHexBytes_str)
qed

lemma payload_bytes_not_Nil: "payload_bytes p \<noteq> []"
  by (simp add: payload_bytes_def)

lemma sample_submit_accepted: "\<exists>r. validateRelayerSubmitInput sample_submit = Inr (Inr r)"
proof -
  have "isHexBytes (JStr (bytesToPrefixedHex (payload_bytes sample_payload))) None"
    "isHexBytes (JStr (bytesToPrefixedHex (replicate 64 1))) (Some 64)"
    "isHexBytes (JStr (bytesToPrefixedHex (replicate 32 2))) (Some 32)"
    by (rule bytesToPrefixedHex_hexbytes; simp add: payload_bytes_not_Nil)+
  moreover have "encodeEarthquakeOraclePayloadBcsHex sample_payload
      = Inr (bytesToPrefixedHex (payload_bytes sample_payload))"
    by (simp add: encodeEarthquakeOraclePayloadBcsHex_def encode_payload_eq sample_payload_fits)
  moreover have "get_field sample_payload_json ''status'' = jint FINALIZED_STATUS"
    by (simp add: sample_payload_json_def get_field_def FINALIZED_STATUS_def)
  moreover have "isSafeIntegerInRange (JNum 1) 1 MAX_SAFE_INTEGER"
    by (simp add: isSafeIntegerInRange_def isSafeInteger_def MAX_SAFE_INTEGER_def)
  ultimately show ?thesis
    by (simp add: validateRelayerSubmitInput_def sample_submit_def Let_def isRecord_def field_of_def
        get_field_def [of "a # l" for a l] sample_payload_valid sample_payload_of_json
        EARTHQUAKE_VERIFIER_CONFIG_KEY_def)
qed


theorem relayer_bytes_determine_payload_witness:
  "\<exists>r. validateRelayerSubmitInput sample_submit = Inr (Inr r)
     \<and> lower_hashes (payload_of_json (rsi_payload r)) = lower_hashes (payload_of_json (rsi_payload r))"
proof -
  obtain r where r: "validateRelayerSubmitInput sample_submit = Inr (Inr r)"
    using sample_submit_accepted by blast
  from relayer_bytes_determine_payload [OF r r] r show ?thesis by blast
qed

end
