(* ===== verification/EventRow.thy ===== *)
theory EventRow
  imports OraclePayload
begin

text \<open>
  The state of one earthquake event in the watcher: the row of
  \<open>nautilus/verifiers/earthquake/watcher/src/state.ts\<close> and the functions of that file which read or
  change a single row, with \<open>constants.ts\<close>, \<open>screening.ts\<close>, \<open>event_uid.ts\<close>, \<open>source_event_id.ts\<close> and
  the candidate type of \<open>usgs.ts\<close>.

  A field of the row is named \<open>er_<field>\<close>; the \<open>affected_cells_proof_registration_\<close> prefix of the
  source is \<open>er_proof_registration_\<close>.  A time is an integer number of milliseconds.  A column that
  holds the JSON text of a value holds the value itself here.  An error code is its text.
\<close>

section \<open>Constants and enumerations\<close>

definition HOUR_MS :: int where "HOUR_MS = 60 * 60 * 1000"
definition FINALIZATION_WINDOW_MS :: int where "FINALIZATION_WINDOW_MS = 72 * HOUR_MS"
definition PROCESSING_STALE_AFTER_MS :: int where "PROCESSING_STALE_AFTER_MS = 15 * 60 * 1000"
definition FAILED_RETRY_BACKOFF_MS :: int where "FAILED_RETRY_BACKOFF_MS = 10 * 60 * 1000"
definition DEFAULT_DUE_LIMIT :: nat where "DEFAULT_DUE_LIMIT = 25"

datatype offchain_status =
    New | Queued | Processing | PendingSource | PendingMmi | IgnoredSmall
  | Finalized | Submitted | Failed | Rejected

datatype runner_phase =
    PhQueued | PhStartingInstance | PhWaitingForInstance | PhHealthChecking | PhGettingAttestation
  | PhRegisteringEnclave | PhDispatchingCommand | PhPollingCommand | PhReadingResult
  | PhApplyingResult | PhArchivingSources | PhRegisteringAffectedCellsProof | PhStoppingInstance
  | PhComplete

text \<open>\<open>SourceArchiveStatus\<close> and \<open>AffectedCellsProofRegistrationStatus\<close>.\<close>

datatype stage_status = Skipped | Success | ConfigurationFailed | RetryableFailed | IntegrityFailed

datatype floor_census_status = FcSkipped | FcProcessing | FcSucceeded | FcFailed

datatype relayer_mode = Preview | DryRun | Submit
datatype relayer_status = RelSucceeded | RelFailed

datatype usgs_alert_level = Green | Yellow | Orange | Red

type_synonym error_code = string

definition DUE_STATUSES :: "offchain_status set" where
  "DUE_STATUSES = {New, PendingSource, PendingMmi, Failed}"

definition TERMINAL_STATUSES :: "offchain_status set" where
  "TERMINAL_STATUSES = {Finalized, Submitted, Rejected, IgnoredSmall}"

definition RESULT_TERMINAL_STATUSES :: "offchain_status set" where
  "RESULT_TERMINAL_STATUSES = {Finalized, Submitted, Rejected}"

definition RUNNER_WORKFLOW_LOCK_SOURCE_EVENT_ID :: string where
  "RUNNER_WORKFLOW_LOCK_SOURCE_EVENT_ID = ''__sonari_runner_workflow_lock__''"

section \<open>The row\<close>

record event_row =
  er_source_event_id :: string
  er_requested_source_event_id :: "string option"
  er_event_uid :: "string option"
  er_planned_event_revision :: "int option"
  er_status :: offchain_status
  er_retry_count :: int
  er_next_retry_at_ms :: "int option"
  er_finalization_deadline_at_ms :: int
  er_latest_revision :: int
  er_last_seen_at_ms :: int
  er_source_updated_at_ms :: "int option"
  er_error_code :: "error_code option"
  er_relayer_mode :: "relayer_mode option"
  er_relayer_status :: "relayer_status option"
  er_relayer_request_json :: "js_value option"
  er_relayer_digest :: "string option"
  er_relayer_object_id :: "string option"
  er_relayer_error_code :: "error_code option"
  er_relayer_error_message :: "string option"
  er_relayer_updated_at_ms :: "int option"
  er_relayer_submitted_at_ms :: "int option"
  er_source_archive_status :: "stage_status option"
  er_source_archive_error_code :: "error_code option"
  er_source_archive_attempt :: "int option"
  er_source_artifact_s3_keys_json :: "js_value option"
  er_walrus_archive_updated_at_ms :: "int option"
  er_proof_registration_status :: "stage_status option"
  er_proof_registration_error_code :: "error_code option"
  er_proof_registration_attempt :: "int option"
  er_proof_registration_next_retry_at_ms :: "int option"
  er_proof_registration_error_message :: "string option"
  er_proof_registration_updated_at_ms :: "int option"
  er_floor_census_status :: "floor_census_status option"
  er_floor_census_attempt :: "int option"
  er_floor_census_retry_count :: int
  er_floor_census_digest :: "string option"
  er_floor_census_counts_json :: "js_value option"
  er_floor_census_error_message :: "string option"
  er_floor_census_updated_at_ms :: "int option"
  er_runner_job_id :: "string option"
  er_runner_queued_at_ms :: "int option"
  er_runner_attempt :: "int option"
  er_runner_id :: "string option"
  er_runner_started_at_ms :: "int option"
  er_runner_stopped_at_ms :: "int option"
  er_runner_timeout_at_ms :: "int option"
  er_runner_error_message :: "string option"
  er_runner_stop_error :: "string option"
  er_runner_phase :: "runner_phase option"
  er_runner_instance_id :: "string option"
  er_runner_command_id :: "string option"
  er_runner_result_s3_key :: "string option"
  er_runner_last_poll_at_ms :: "int option"
  er_tee_result_json :: "js_value option"
  er_payload_bcs_hex :: "string option"
  er_signature :: "string option"
  er_public_key :: "string option"
  er_finalized_at_ms :: "int option"
  er_created_at_ms :: int
  er_updated_at_ms :: int

record usgs_candidate =
  cand_source_event_id :: string
  cand_requested_source_event_id :: "string option"
  cand_occurred_at_ms :: int
  cand_source_updated_at_ms :: int
  cand_magnitude :: "rat option"
  cand_summary_mmi :: "rat option"
  cand_alert :: "usgs_alert_level option"
  cand_tsunami :: bool

record source_archive_update =
  sau_status :: stage_status
  sau_artifact_s3_keys :: "string list"
  sau_error_code :: "error_code option"
  sau_retryable_next_retry_at_ms :: "int option"
  sau_message :: "string option"

record proof_registration_update =
  pru_status :: stage_status
  pru_error_code :: "error_code option"
  pru_retryable_next_retry_at_ms :: "int option"
  pru_message :: "string option"

record floor_census_update =
  fcu_status :: floor_census_status
  fcu_digest :: "string option"
  fcu_counts :: "(int \<times> int \<times> int) option"
  fcu_message :: "string option"

record workflow_progress_update =
  wpu_source_event_id :: string
  wpu_attempt :: int
  wpu_phase :: runner_phase
  wpu_now_ms :: int
  wpu_instance_id :: "string option"
  wpu_command_id :: "string option"
  wpu_result_s3_key :: "string option"
  wpu_last_poll_at_ms :: "int option"
  wpu_allow_non_processing :: bool

text \<open>\<open>TeeCoreResult\<close>: a finalized result is the object the enclave returned.\<close>

datatype tee_core_result =
    TeePendingSource string error_code
  | TeePendingMmi string error_code
  | TeeRejected string error_code
  | TeeFinalized js_value

section \<open>Screening and identity\<close>

definition WATCHER_MIN_MAGNITUDE :: rat where "WATCHER_MIN_MAGNITUDE = 11 / 2"
definition WATCHER_MIN_SUMMARY_MMI :: rat where "WATCHER_MIN_SUMMARY_MMI = 6"
definition WATCHER_ALERT_LEVELS :: "usgs_alert_level list" where
  "WATCHER_ALERT_LEVELS = [Yellow, Orange, Red]"

definition runnerEligible :: "usgs_candidate \<Rightarrow> bool" where
  "runnerEligible c \<longleftrightarrow>
     some_and (\<lambda>m. m \<ge> WATCHER_MIN_MAGNITUDE) (cand_magnitude c)
     \<or> some_and (\<lambda>m. m \<ge> WATCHER_MIN_SUMMARY_MMI) (cand_summary_mmi c)
     \<or> some_and (\<lambda>a. a \<in> set WATCHER_ALERT_LEVELS) (cand_alert c)
     \<or> cand_tsunami c"

definition screenUsgsCandidate :: "usgs_candidate \<Rightarrow> offchain_status \<times> error_code option" where
  "screenUsgsCandidate c =
     (if runnerEligible c then (New, None) else (IgnoredSmall, Some ''WATCHER_BELOW_AUTO_THRESHOLD''))"

definition EVENT_UID_PREFIX :: string where "EVENT_UID_PREFIX = ''sonari:event_uid:v1''"

definition assertUtf8U32Length :: "string \<Rightarrow> string \<Rightarrow> js_error + unit" where
  "assertUtf8U32Length inp field =
     (if length inp = 0 then Inl (field @ '' must be non-empty'')
      else if int (length inp) > U32_MAX then Inl (field @ '' length exceeds u32'') else Inr ())"

definition assertUnixMs :: "int \<Rightarrow> string \<Rightarrow> js_error + unit" where
  "assertUnixMs n field =
     (if n > MAX_SAFE_INTEGER \<or> n < 0 then Inl (field @ '' must be a non-negative safe integer'') else Inr ())"

definition computeEventUid :: "hash_fn \<Rightarrow> int \<Rightarrow> string \<Rightarrow> string \<Rightarrow> int \<Rightarrow> js_error + string" where
  "computeEventUid sha hazard_type primary_source source_event_id occurred_at_ms =
     (if hazard_type < 0 \<or> hazard_type > 255 then Inl ''hazard_type must be a u8'' else
      res_bind (assertUtf8U32Length primary_source ''primary_source'') (\<lambda>_.
      res_bind (assertUtf8U32Length source_event_id ''source_event_id'') (\<lambda>_.
      res_bind (assertUnixMs occurred_at_ms ''occurred_at_ms'') (\<lambda>_.
        Inr (bytesToPrefixedHex (sha (concat
          [map of_char EVENT_UID_PREFIX, [word_of_int hazard_type],
           le_bytes 4 (int (length primary_source)), map of_char primary_source,
           le_bytes 4 (int (length source_event_id)), map of_char source_event_id,
           le_bytes 8 occurred_at_ms])))))))"

definition candidateEventUid :: "hash_fn \<Rightarrow> usgs_candidate \<Rightarrow> js_error + string" where
  "candidateEventUid sha c =
     computeEventUid sha EARTHQUAKE ''USGS'' (cand_source_event_id c) (cand_occurred_at_ms c)"

text \<open>The pattern \<open>^[a-z0-9][a-z0-9_-]{5,64}$\<close> and no double underscore.\<close>

definition isValidUsgsSourceEventId :: "string \<Rightarrow> bool" where
  "isValidUsgsSourceEventId s \<longleftrightarrow>
     6 \<le> length s \<and> length s \<le> 65
     \<and> (is_lower_az (hd s) \<or> is_digit (hd s))
     \<and> list_all (\<lambda>c. is_lower_az c \<or> is_digit c \<or> c = CHR ''_'' \<or> c = CHR ''-'') (tl s)
     \<and> \<not> includes_str s ''__''"

section \<open>Functions of one row\<close>

definition nextScreeningStatus :: "offchain_status option \<Rightarrow> offchain_status \<Rightarrow> offchain_status" where
  "nextScreeningStatus existingStatus screeningStatus =
     (case existingStatus of
        None \<Rightarrow> screeningStatus
      | Some e \<Rightarrow>
        if e = IgnoredSmall then screeningStatus
        else if e = New \<and> screeningStatus = IgnoredSmall then New
        else if e \<in> TERMINAL_STATUSES \<or> e \<noteq> New then e
        else screeningStatus)"

text \<open>\<open>baseRow\<close> before the patch is spread over it.\<close>

definition baseRow :: "string \<Rightarrow> int \<Rightarrow> event_row" where
  "baseRow sourceEventId nowMs =
    \<lparr>er_source_event_id = sourceEventId,
     er_requested_source_event_id = None,
     er_event_uid = None,
     er_planned_event_revision = None,
     er_status = New,
     er_retry_count = 0,
     er_next_retry_at_ms = None,
     er_finalization_deadline_at_ms = nowMs + FINALIZATION_WINDOW_MS,
     er_latest_revision = 0,
     er_last_seen_at_ms = nowMs,
     er_source_updated_at_ms = None,
     er_error_code = None,
     er_relayer_mode = None,
     er_relayer_status = None,
     er_relayer_request_json = None,
     er_relayer_digest = None,
     er_relayer_object_id = None,
     er_relayer_error_code = None,
     er_relayer_error_message = None,
     er_relayer_updated_at_ms = None,
     er_relayer_submitted_at_ms = None,
     er_source_archive_status = None,
     er_source_archive_error_code = None,
     er_source_archive_attempt = None,
     er_source_artifact_s3_keys_json = None,
     er_walrus_archive_updated_at_ms = None,
     er_proof_registration_status = None,
     er_proof_registration_error_code = None,
     er_proof_registration_attempt = None,
     er_proof_registration_next_retry_at_ms = None,
     er_proof_registration_error_message = None,
     er_proof_registration_updated_at_ms = None,
     er_floor_census_status = None,
     er_floor_census_attempt = None,
     er_floor_census_retry_count = 0,
     er_floor_census_digest = None,
     er_floor_census_counts_json = None,
     er_floor_census_error_message = None,
     er_floor_census_updated_at_ms = None,
     er_runner_job_id = None,
     er_runner_queued_at_ms = None,
     er_runner_attempt = None,
     er_runner_id = None,
     er_runner_started_at_ms = None,
     er_runner_stopped_at_ms = None,
     er_runner_timeout_at_ms = None,
     er_runner_error_message = None,
     er_runner_stop_error = None,
     er_runner_phase = None,
     er_runner_instance_id = None,
     er_runner_command_id = None,
     er_runner_result_s3_key = None,
     er_runner_last_poll_at_ms = None,
     er_tee_result_json = None,
     er_payload_bcs_hex = None,
     er_signature = None,
     er_public_key = None,
     er_finalized_at_ms = None,
     er_created_at_ms = nowMs,
     er_updated_at_ms = nowMs\<rparr>"

definition isActiveRunnerWorkflow :: "event_row \<Rightarrow> int option \<Rightarrow> bool" where
  "isActiveRunnerWorkflow row staleBeforeMs \<longleftrightarrow>
     (if some_and (\<lambda>t. er_updated_at_ms row \<le> t) staleBeforeMs then False
      else if er_status row = Processing then True
      else (er_runner_phase row = Some PhComplete \<or> er_runner_phase row = Some PhStoppingInstance)
           \<and> er_runner_attempt row \<noteq> None \<and> er_runner_started_at_ms row \<noteq> None
           \<and> er_runner_stopped_at_ms row = None)"

definition mergePreservingResult :: "event_row option \<Rightarrow> event_row \<Rightarrow> int \<Rightarrow> event_row" where
  "mergePreservingResult existing next nowMs =
     (case existing of
        None \<Rightarrow> next
      | Some ex \<Rightarrow> ex\<lparr>
          er_requested_source_event_id :=
            or_else (er_requested_source_event_id next) (er_requested_source_event_id ex),
          er_event_uid := er_event_uid next,
          er_status := er_status next,
          er_next_retry_at_ms := er_next_retry_at_ms next,
          er_finalization_deadline_at_ms := er_finalization_deadline_at_ms next,
          er_latest_revision := er_latest_revision next,
          er_last_seen_at_ms := er_last_seen_at_ms next,
          er_source_updated_at_ms :=
            (if er_status ex \<in> RESULT_TERMINAL_STATUSES then er_source_updated_at_ms ex
             else er_source_updated_at_ms next),
          er_error_code :=
            (if er_status ex = IgnoredSmall \<and> er_status next = New then None
             else if er_status next = IgnoredSmall then er_error_code next else er_error_code ex),
          er_updated_at_ms :=
            (if isActiveRunnerWorkflow ex None then er_updated_at_ms ex else nowMs)\<rparr>)"

definition resetTerminalResultForManualRerun :: "event_row \<Rightarrow> int \<Rightarrow> event_row" where
  "resetTerminalResultForManualRerun row nowMs = row
    \<lparr>er_planned_event_revision := None,
     er_status := New,
     er_retry_count := 0,
     er_next_retry_at_ms := None,
     er_error_code := None,
     er_relayer_mode := None,
     er_relayer_status := None,
     er_relayer_request_json := None,
     er_relayer_digest := None,
     er_relayer_object_id := None,
     er_relayer_error_code := None,
     er_relayer_error_message := None,
     er_relayer_updated_at_ms := None,
     er_relayer_submitted_at_ms := None,
     er_source_archive_status := None,
     er_source_archive_error_code := None,
     er_source_archive_attempt := None,
     er_source_artifact_s3_keys_json := None,
     er_walrus_archive_updated_at_ms := None,
     er_proof_registration_status := None,
     er_proof_registration_error_code := None,
     er_proof_registration_attempt := None,
     er_proof_registration_next_retry_at_ms := None,
     er_proof_registration_error_message := None,
     er_proof_registration_updated_at_ms := None,
     er_floor_census_status := None,
     er_floor_census_attempt := None,
     er_floor_census_retry_count := 0,
     er_floor_census_digest := None,
     er_floor_census_counts_json := None,
     er_floor_census_error_message := None,
     er_floor_census_updated_at_ms := None,
     er_runner_job_id := None,
     er_runner_queued_at_ms := None,
     er_runner_attempt := None,
     er_runner_id := None,
     er_runner_started_at_ms := None,
     er_runner_stopped_at_ms := None,
     er_runner_timeout_at_ms := None,
     er_runner_error_message := None,
     er_runner_stop_error := None,
     er_runner_phase := None,
     er_runner_instance_id := None,
     er_runner_command_id := None,
     er_runner_result_s3_key := None,
     er_runner_last_poll_at_ms := None,
     er_tee_result_json := None,
     er_payload_bcs_hex := None,
     er_signature := None,
     er_public_key := None,
     er_finalized_at_ms := None,
     er_updated_at_ms := nowMs\<rparr>"

definition isReadyForRetryOrDeadline :: "event_row \<Rightarrow> int \<Rightarrow> bool" where
  "isReadyForRetryOrDeadline row nowMs \<longleftrightarrow>
     (if (er_status row = PendingSource \<or> er_status row = PendingMmi)
         \<and> er_finalization_deadline_at_ms row \<le> nowMs
      then True else none_or (\<lambda>t. t \<le> nowMs) (er_next_retry_at_ms row))"

definition isDueAffectedCellsProofRegistration :: "event_row \<Rightarrow> int \<Rightarrow> bool" where
  "isDueAffectedCellsProofRegistration row nowMs \<longleftrightarrow>
     er_proof_registration_status row = Some RetryableFailed
     \<and> some_and (\<lambda>t. t \<le> nowMs) (er_proof_registration_next_retry_at_ms row)
     \<and> er_source_archive_status row = Some Success
     \<and> er_runner_result_s3_key row \<noteq> None \<and> er_runner_attempt row \<noteq> None"

definition isDuplicateOrStaleMoveRejection :: "error_code \<Rightarrow> string \<Rightarrow> bool" where
  "isDuplicateOrStaleMoveRejection errorCode message \<longleftrightarrow>
     errorCode = ''MOVE_REJECTED''
     \<and> (let normalized = map to_lower message in
        includes_str normalized ''eduplicatedisasterevent''
        \<or> includes_str normalized ''estaledisastereventrevision''
        \<or> includes_str normalized ''duplicatedisasterevent''
        \<or> includes_str normalized ''staledisastereventrevision'')"

text \<open>\<open>JSON.stringify\<close> drops the properties that are \<open>undefined\<close>.\<close>

definition json_obj :: "(string \<times> js_value) list \<Rightarrow> js_value" where
  "json_obj fs = JObj (filter (\<lambda>(_, v). v \<noteq> JUndef) fs)"

definition compactTeeResultForState :: "tee_core_result \<Rightarrow> js_value" where
  "compactTeeResultForState result =
     (case result of
        TeeFinalized v \<Rightarrow>
          (let payload = field_of v ''payload'' in
           json_obj
             [(''status'', field_of v ''status''),
              (''source_event_id'', field_of payload ''source_event_id''),
              (''payload'', json_obj
                 [(''event_uid'', field_of payload ''event_uid''),
                  (''event_revision'', field_of payload ''event_revision''),
                  (''evidence_manifest_uri'', field_of payload ''evidence_manifest_uri''),
                  (''evidence_manifest_hash'', field_of payload ''evidence_manifest_hash''),
                  (''verified_at_ms'', field_of payload ''verified_at_ms'')]),
              (''payload_bcs_hex'', field_of v ''payload_bcs_hex''),
              (''signature'', field_of v ''signature''),
              (''public_key'', field_of v ''public_key''),
              (''verifier_config_key'', field_of v ''verifier_config_key''),
              (''verifier_config_version'', field_of v ''verifier_config_version''),
              (''enclave_instance_public_key'', field_of v ''enclave_instance_public_key'')])
      | TeePendingSource sid e \<Rightarrow>
          json_obj [(''status'', JStr ''pending_source''), (''source_event_id'', JStr sid), (''error_code'', JStr e)]
      | TeePendingMmi sid e \<Rightarrow>
          json_obj [(''status'', JStr ''pending_mmi''), (''source_event_id'', JStr sid), (''error_code'', JStr e)]
      | TeeRejected sid e \<Rightarrow>
          json_obj [(''status'', JStr ''rejected''), (''source_event_id'', JStr sid), (''error_code'', JStr e)])"

text \<open>Event uid, revision and source update time of a validated finalized result.\<close>

definition finalizedPayloadMetadata :: "js_value \<Rightarrow> js_error + string \<times> int \<times> int" where
  "finalizedPayloadMetadata result =
     res_bind (validateRelayerSubmitInput result) (\<lambda>validation.
       case validation of
         Inl (_, message) \<Rightarrow> Inl (''invalid finalized TEE result metadata: '' @ message)
       | Inr value \<Rightarrow>
         Inr (js_str (get_field (rsi_payload value) ''event_uid''),
              js_int (get_field (rsi_payload value) ''event_revision''),
              (case rsi_evidence_manifest value of
                 None \<Rightarrow> js_int (get_field (rsi_payload value) ''verified_at_ms'')
               | Some m \<Rightarrow> js_int (field_of (field_of m ''earthquake'') ''source_updated_at_ms''))))"

text \<open>The columns a new finalized result clears.\<close>

definition clear_followups :: "event_row \<Rightarrow> event_row" where
  "clear_followups row = row
    \<lparr>er_source_archive_status := None,
     er_source_archive_error_code := None,
     er_source_archive_attempt := None,
     er_source_artifact_s3_keys_json := None,
     er_walrus_archive_updated_at_ms := None,
     er_proof_registration_status := None,
     er_proof_registration_error_code := None,
     er_proof_registration_attempt := None,
     er_proof_registration_next_retry_at_ms := None,
     er_proof_registration_error_message := None,
     er_proof_registration_updated_at_ms := None,
     er_floor_census_status := None,
     er_floor_census_attempt := None,
     er_floor_census_retry_count := 0,
     er_floor_census_digest := None,
     er_floor_census_counts_json := None,
     er_floor_census_error_message := None,
     er_floor_census_updated_at_ms := None\<rparr>"

definition applyPendingOrRejected ::
    "event_row \<Rightarrow> tee_core_result \<Rightarrow> error_code \<Rightarrow> offchain_status \<Rightarrow> int \<Rightarrow> int option \<Rightarrow> event_row" where
  "applyPendingOrRejected row result e st nowMs pendingNextRetryAtMs =
     (let row1 = row\<lparr>er_tee_result_json := Some (compactTeeResultForState result),
            er_updated_at_ms := nowMs, er_error_code := Some e, er_runner_phase := Some PhComplete\<rparr>
      in if st = Rejected then row1\<lparr>er_status := Rejected, er_next_retry_at_ms := None\<rparr>
         else row1\<lparr>er_status := st, er_retry_count := er_retry_count row1 + 1,
                er_next_retry_at_ms := Some (coalesce pendingNextRetryAtMs (nowMs + FAILED_RETRY_BACKOFF_MS))\<rparr>)"

definition finalized_row :: "event_row \<Rightarrow> js_value \<Rightarrow> string \<times> int \<times> int \<Rightarrow> int \<Rightarrow> event_row" where
  "finalized_row row v metadata nowMs =
     clear_followups (row\<lparr>
       er_tee_result_json := Some (compactTeeResultForState (TeeFinalized v)),
       er_updated_at_ms := nowMs, er_error_code := None, er_runner_phase := Some PhComplete,
       er_status := Finalized, er_next_retry_at_ms := None, er_event_uid := Some (fst metadata),
       er_latest_revision := fst (snd metadata),
       er_source_updated_at_ms := Some (snd (snd metadata)),
       er_payload_bcs_hex := Some (js_str (field_of v ''payload_bcs_hex'')),
       er_signature := Some (js_str (field_of v ''signature'')),
       er_public_key := Some (js_str (field_of v ''public_key'')),
       er_finalized_at_ms := Some nowMs\<rparr>)"

definition applyResultToRow :: "event_row \<Rightarrow> tee_core_result \<Rightarrow> int \<Rightarrow> int option \<Rightarrow> js_error + event_row" where
  "applyResultToRow row result nowMs pendingNextRetryAtMs =
     (case result of
        TeeFinalized v \<Rightarrow>
          res_bind (finalizedPayloadMetadata v) (\<lambda>metadata. Inr (finalized_row row v metadata nowMs))
      | TeeRejected _ e \<Rightarrow> Inr (applyPendingOrRejected row result e Rejected nowMs pendingNextRetryAtMs)
      | TeePendingSource _ e \<Rightarrow> Inr (applyPendingOrRejected row result e PendingSource nowMs pendingNextRetryAtMs)
      | TeePendingMmi _ e \<Rightarrow> Inr (applyPendingOrRejected row result e PendingMmi nowMs pendingNextRetryAtMs))"

definition applySourceArchiveResultToRow ::
    "event_row \<Rightarrow> source_archive_update \<Rightarrow> int \<Rightarrow> int option \<Rightarrow> event_row" where
  "applySourceArchiveResultToRow row inp nowMs expectedAttempt =
     (let row1 = row\<lparr>er_source_archive_status := Some (sau_status inp),
            er_source_archive_error_code := sau_error_code inp,
            er_source_archive_attempt := or_else expectedAttempt (er_runner_attempt row),
            er_source_artifact_s3_keys_json := Some (JArr (map JStr (sau_artifact_s3_keys inp))),
            er_walrus_archive_updated_at_ms := Some nowMs, er_updated_at_ms := nowMs\<rparr>
      in case sau_status inp of
           RetryableFailed \<Rightarrow> row1\<lparr>er_status := Failed, er_retry_count := er_retry_count row1 + 1,
             er_error_code := Some ''SOURCE_ARCHIVE_RETRYABLE_FAILED'',
             er_runner_error_message := sau_message inp,
             er_next_retry_at_ms :=
               Some (coalesce (sau_retryable_next_retry_at_ms inp) (nowMs + FAILED_RETRY_BACKOFF_MS))\<rparr>
         | ConfigurationFailed \<Rightarrow> row1\<lparr>er_status := Rejected,
             er_error_code := Some ''SOURCE_ARCHIVE_CONFIGURATION_FAILED'',
             er_runner_error_message := sau_message inp, er_next_retry_at_ms := None\<rparr>
         | IntegrityFailed \<Rightarrow> row1\<lparr>er_status := Rejected,
             er_error_code := Some ''SOURCE_ARCHIVE_INTEGRITY_FAILED'',
             er_runner_error_message := sau_message inp, er_next_retry_at_ms := None\<rparr>
         | _ \<Rightarrow> row1)"

definition applyAffectedCellsProofRegistrationResultToRow ::
    "event_row \<Rightarrow> proof_registration_update \<Rightarrow> int \<Rightarrow> int option \<Rightarrow> event_row" where
  "applyAffectedCellsProofRegistrationResultToRow row inp nowMs expectedAttempt =
     (let row1 = row\<lparr>er_proof_registration_status := Some (pru_status inp),
            er_proof_registration_error_code := pru_error_code inp,
            er_proof_registration_attempt := or_else expectedAttempt (er_runner_attempt row),
            er_proof_registration_updated_at_ms := Some nowMs, er_updated_at_ms := nowMs\<rparr>
      in if pru_status inp = RetryableFailed
         then row1\<lparr>er_proof_registration_next_retry_at_ms :=
                  Some (coalesce (pru_retryable_next_retry_at_ms inp) (nowMs + FAILED_RETRY_BACKOFF_MS)),
                er_proof_registration_error_message := pru_message inp\<rparr>
         else row1\<lparr>er_proof_registration_next_retry_at_ms := None,
                er_proof_registration_error_message := pru_message inp\<rparr>)"

definition applyFloorCensusResultToRow ::
    "event_row \<Rightarrow> floor_census_update \<Rightarrow> int \<Rightarrow> int option \<Rightarrow> event_row" where
  "applyFloorCensusResultToRow row inp nowMs expectedAttempt =
     (let row1 = row\<lparr>er_floor_census_status := Some (fcu_status inp),
            er_floor_census_attempt := or_else expectedAttempt (er_runner_attempt row),
            er_floor_census_digest := fcu_digest inp,
            er_floor_census_counts_json :=
              map_option (\<lambda>(a, b, c). JArr [JStr (show_int a), JStr (show_int b), JStr (show_int c)])
                (fcu_counts inp),
            er_floor_census_error_message := fcu_message inp,
            er_floor_census_updated_at_ms := Some nowMs\<rparr>;
          row2 = (if fcu_status inp = FcFailed
                  then row1\<lparr>er_floor_census_retry_count := er_floor_census_retry_count row1 + 1\<rparr> else row1)
      in row2\<lparr>er_updated_at_ms := nowMs\<rparr>)"

definition applyRunnerWorkflowProgress :: "event_row \<Rightarrow> workflow_progress_update \<Rightarrow> event_row" where
  "applyRunnerWorkflowProgress row inp =
     row\<lparr>er_runner_phase := Some (wpu_phase inp), er_updated_at_ms := wpu_now_ms inp,
       er_runner_instance_id := or_else (wpu_instance_id inp) (er_runner_instance_id row),
       er_runner_command_id := or_else (wpu_command_id inp) (er_runner_command_id row),
       er_runner_result_s3_key := or_else (wpu_result_s3_key inp) (er_runner_result_s3_key row),
       er_runner_last_poll_at_ms := or_else (wpu_last_poll_at_ms inp) (er_runner_last_poll_at_ms row)\<rparr>"

section \<open>Row transitions of the repository operations\<close>

text \<open>
  The assignments each repository operation makes to the row once its guards have passed; both
  repositories make the same ones.
\<close>

definition start_row :: "string \<Rightarrow> int \<Rightarrow> int \<Rightarrow> int \<Rightarrow> event_row \<Rightarrow> event_row" where
  "start_row executionName attempt plannedEventRevision nowMs row = row\<lparr>
     er_status := Processing, er_planned_event_revision := Some plannedEventRevision,
     er_runner_job_id := Some executionName, er_runner_queued_at_ms := None,
     er_runner_attempt := Some attempt, er_runner_id := None,
     er_runner_phase := Some PhStartingInstance, er_runner_started_at_ms := Some nowMs,
     er_runner_stopped_at_ms := None, er_runner_timeout_at_ms := Some (nowMs + FAILED_RETRY_BACKOFF_MS),
     er_runner_error_message := None, er_runner_stop_error := None, er_runner_instance_id := None,
     er_runner_command_id := None, er_runner_result_s3_key := None, er_runner_last_poll_at_ms := None,
     er_tee_result_json := None, er_error_code := None, er_updated_at_ms := nowMs\<rparr>"

definition stopped_workflow_row :: "int \<Rightarrow> event_row \<Rightarrow> event_row" where
  "stopped_workflow_row nowMs row = row\<lparr>er_runner_stopped_at_ms := Some nowMs,
     er_runner_stop_error := None, er_runner_phase := Some PhComplete, er_updated_at_ms := nowMs\<rparr>"

definition failed_row :: "error_code \<Rightarrow> int \<Rightarrow> int \<Rightarrow> string option \<Rightarrow> event_row \<Rightarrow> event_row" where
  "failed_row errorCode nowMs nextRetryAtMs runnerErrorMessage row = row\<lparr>
     er_status := Failed, er_retry_count := er_retry_count row + 1,
     er_next_retry_at_ms := Some nextRetryAtMs, er_error_code := Some errorCode,
     er_runner_error_message := runnerErrorMessage, er_updated_at_ms := nowMs\<rparr>"

record relayer_success =
  rs_mode :: relayer_mode
  rs_request :: js_value
  rs_digest :: "string option"
  rs_object_id :: "string option"

definition relayer_succeeded_row :: "relayer_success \<Rightarrow> int \<Rightarrow> event_row \<Rightarrow> event_row" where
  "relayer_succeeded_row success nowMs row =
     (let row1 = (if rs_mode success = Submit
                  then row\<lparr>er_status := Submitted, er_relayer_submitted_at_ms := Some nowMs\<rparr> else row)
      in row1\<lparr>er_relayer_mode := Some (rs_mode success), er_relayer_status := Some RelSucceeded,
           er_relayer_request_json := Some (rs_request success), er_relayer_digest := rs_digest success,
           er_relayer_object_id := rs_object_id success, er_relayer_error_code := None,
           er_relayer_error_message := None, er_relayer_updated_at_ms := Some nowMs,
           er_updated_at_ms := nowMs\<rparr>)"

definition relayer_failed_row :: "relayer_mode \<Rightarrow> error_code \<Rightarrow> string \<Rightarrow> int \<Rightarrow> event_row \<Rightarrow> event_row" where
  "relayer_failed_row mode errorCode message nowMs row =
     (let row1 = row\<lparr>er_relayer_mode := Some mode, er_relayer_status := Some RelFailed,
            er_relayer_error_code := Some errorCode, er_relayer_error_message := Some message,
            er_relayer_updated_at_ms := Some nowMs\<rparr>;
          row2 = (if isDuplicateOrStaleMoveRejection errorCode message
                  then row1\<lparr>er_status := Rejected, er_next_retry_at_ms := None,
                         er_error_code := Some errorCode\<rparr> else row1)
      in row2\<lparr>er_updated_at_ms := nowMs\<rparr>)"

definition census_processing_row :: "int \<Rightarrow> int option \<Rightarrow> event_row \<Rightarrow> event_row" where
  "census_processing_row nowMs expectedAttempt row = row\<lparr>
     er_floor_census_status := Some FcProcessing,
     er_floor_census_attempt := or_else expectedAttempt (er_runner_attempt row),
     er_floor_census_updated_at_ms := Some nowMs, er_updated_at_ms := nowMs\<rparr>"

definition enqueue_row :: "int \<Rightarrow> string \<Rightarrow> int \<Rightarrow> int \<Rightarrow> event_row \<Rightarrow> event_row" where
  "enqueue_row attempt runnerJobId plannedEventRevision nowMs row = row\<lparr>
     er_status := Queued, er_planned_event_revision := Some plannedEventRevision,
     er_runner_job_id := Some runnerJobId, er_runner_queued_at_ms := Some nowMs,
     er_runner_attempt := Some attempt, er_runner_phase := Some PhQueued,
     er_next_retry_at_ms := None, er_error_code := None, er_updated_at_ms := nowMs\<rparr>"

definition enqueue_failed_row :: "int \<Rightarrow> int \<Rightarrow> string \<Rightarrow> event_row \<Rightarrow> event_row" where
  "enqueue_failed_row nowMs nextRetryAtMs message row = row\<lparr>
     er_status := New, er_next_retry_at_ms := Some nextRetryAtMs,
     er_runner_error_message := Some message, er_updated_at_ms := nowMs\<rparr>"

definition claimed_row :: "int \<Rightarrow> int \<Rightarrow> event_row \<Rightarrow> event_row" where
  "claimed_row nowMs timeoutAtMs row = row\<lparr>
     er_status := Processing, er_runner_timeout_at_ms := Some timeoutAtMs, er_updated_at_ms := nowMs\<rparr>"

definition runner_started_row :: "string \<Rightarrow> int \<Rightarrow> int \<Rightarrow> event_row \<Rightarrow> event_row" where
  "runner_started_row runnerId nowMs timeoutAtMs row = row\<lparr>
     er_runner_id := Some runnerId, er_runner_started_at_ms := Some nowMs,
     er_runner_timeout_at_ms := Some timeoutAtMs, er_updated_at_ms := nowMs\<rparr>"

definition runner_stopped_row :: "int \<Rightarrow> event_row \<Rightarrow> event_row" where
  "runner_stopped_row nowMs row = row\<lparr>
     er_runner_stopped_at_ms := Some nowMs, er_runner_stop_error := None, er_updated_at_ms := nowMs\<rparr>"

definition runner_stop_failed_row :: "string \<Rightarrow> int \<Rightarrow> event_row \<Rightarrow> event_row" where
  "runner_stop_failed_row message nowMs row = row\<lparr>
     er_runner_stop_error := Some message, er_updated_at_ms := nowMs\<rparr>"

definition deferred_row :: "int \<Rightarrow> int \<Rightarrow> event_row \<Rightarrow> event_row" where
  "deferred_row nextRetryAtMs nowMs row = row\<lparr>
     er_next_retry_at_ms := Some nextRetryAtMs, er_updated_at_ms := nowMs\<rparr>"

definition rejected_row :: "error_code \<Rightarrow> int \<Rightarrow> event_row \<Rightarrow> event_row" where
  "rejected_row errorCode nowMs row = row\<lparr>
     er_status := Rejected, er_error_code := Some errorCode, er_next_retry_at_ms := None,
     er_updated_at_ms := nowMs\<rparr>"

definition proof_lease_row :: "int \<Rightarrow> event_row \<Rightarrow> event_row" where
  "proof_lease_row nowMs row = row\<lparr>
     er_proof_registration_next_retry_at_ms := Some (nowMs + PROCESSING_STALE_AFTER_MS),
     er_proof_registration_updated_at_ms := Some nowMs, er_updated_at_ms := nowMs\<rparr>"

definition clear_backoff_row :: "int \<Rightarrow> event_row \<Rightarrow> event_row" where
  "clear_backoff_row nowMs row = row\<lparr>er_next_retry_at_ms := None, er_updated_at_ms := nowMs\<rparr>"

named_theorems row_defs \<open>the row transitions\<close>

lemmas row_transition_defs [row_defs] =
  start_row_def stopped_workflow_row_def failed_row_def relayer_succeeded_row_def
  relayer_failed_row_def census_processing_row_def enqueue_row_def enqueue_failed_row_def
  claimed_row_def runner_started_row_def runner_stopped_row_def runner_stop_failed_row_def
  deferred_row_def rejected_row_def proof_lease_row_def clear_backoff_row_def
  applySourceArchiveResultToRow_def applyAffectedCellsProofRegistrationResultToRow_def
  applyFloorCensusResultToRow_def applyRunnerWorkflowProgress_def applyPendingOrRejected_def
  resetTerminalResultForManualRerun_def clear_followups_def

section \<open>The row invariant\<close>

text \<open>
  What every row satisfies: retries are counted, a queued or processing row carries the attempt
  that follows its retries, a proof registration has a retry time exactly while it is retryable,
  and a row screened out carries the screening's error code.
\<close>

definition row_inv :: "event_row \<Rightarrow> bool" where
  "row_inv r \<longleftrightarrow> 0 \<le> er_retry_count r \<and> 0 \<le> er_floor_census_retry_count r
     \<and> (er_status r \<in> {Queued, Processing} \<longrightarrow> er_runner_attempt r = Some (er_retry_count r + 1))
     \<and> ((er_proof_registration_next_retry_at_ms r \<noteq> None) =
         (er_proof_registration_status r = Some RetryableFailed))
     \<and> (er_status r = IgnoredSmall \<longrightarrow> er_error_code r = Some ''WATCHER_BELOW_AUTO_THRESHOLD'')"

lemma row_inv_transitions:
  assumes "row_inv r"
  shows "a = er_retry_count r + 1 \<Longrightarrow> row_inv (start_row x a rv t r)"
    and "row_inv (stopped_workflow_row t r)"
    and "row_inv (failed_row e t n m r)"
    and "row_inv (relayer_succeeded_row s t r)"
    and "row_inv (relayer_failed_row md e msg t r)"
    and "row_inv (census_processing_row t ea r)"
    and "a = er_retry_count r + 1 \<Longrightarrow> row_inv (enqueue_row a j rv t r)"
    and "row_inv (enqueue_failed_row t n msg r)"
    and "er_status r = Queued \<Longrightarrow> row_inv (claimed_row t n r)"
    and "row_inv (runner_started_row i t n r)"
    and "row_inv (runner_stopped_row t r)"
    and "row_inv (runner_stop_failed_row msg t r)"
    and "row_inv (deferred_row n t r)"
    and "row_inv (rejected_row e t r)"
    and "er_proof_registration_status r = Some RetryableFailed \<Longrightarrow> row_inv (proof_lease_row t r)"
    and "row_inv (clear_backoff_row t r)"
    and "row_inv (applySourceArchiveResultToRow r sau t ea)"
    and "row_inv (applyAffectedCellsProofRegistrationResultToRow r pru t ea)"
    and "row_inv (applyFloorCensusResultToRow r fcu t ea)"
    and "row_inv (applyRunnerWorkflowProgress r wpu)"
    and "row_inv (resetTerminalResultForManualRerun r t)"
  using assms by (simp_all add: row_inv_def row_defs Let_def split: stage_status.split)

lemma finalized_row_inv: "row_inv r \<Longrightarrow> row_inv (finalized_row r v m t)"
  by (simp add: row_inv_def finalized_row_def clear_followups_def)

lemma pending_row_inv:
  "row_inv r \<Longrightarrow> st \<in> {PendingSource, PendingMmi, Rejected} \<Longrightarrow> row_inv (applyPendingOrRejected r res e st t n)"
  by (auto simp: row_inv_def applyPendingOrRejected_def Let_def)

lemma applyResult_cases:
  assumes "applyResultToRow r res t n = Inr r'"
  obtains (finalized) v m where "res = TeeFinalized v" "finalizedPayloadMetadata v = Inr m" "r' = finalized_row r v m t"
    | (other) e st where "st \<in> {PendingSource, PendingMmi, Rejected}" "r' = applyPendingOrRejected r res e st t n"
  using assms
proof (cases res)
  case (TeeFinalized v)
  with assms obtain m where "finalizedPayloadMetadata v = Inr m" "r' = finalized_row r v m t"
    by (auto simp: applyResultToRow_def res_bind_Inr_iff simp del: split_paired_Ex)
  with TeeFinalized that(1) show ?thesis by blast
qed (auto simp: applyResultToRow_def intro: that(2))

lemma applyResult_inv: "row_inv r \<Longrightarrow> applyResultToRow r res t n = Inr r' \<Longrightarrow> row_inv r'"
  by (erule applyResult_cases) (simp_all add: finalized_row_inv pending_row_inv)

lemma base_inv: "row_inv (baseRow sid t)"
  by (simp add: row_inv_def baseRow_def)

section \<open>Identity\<close>

text \<open>The hashed text of an event's identity.\<close>

definition uid_input :: "int \<Rightarrow> string \<Rightarrow> string \<Rightarrow> int \<Rightarrow> bytes" where
  "uid_input hazard_type primary_source source_event_id occurred_at_ms = concat
     [map of_char EVENT_UID_PREFIX, [word_of_int hazard_type],
      le_bytes 4 (int (length primary_source)), map of_char primary_source,
      le_bytes 4 (int (length source_event_id)), map of_char source_event_id, le_bytes 8 occurred_at_ms]"

lemma computeEventUid_Inr:
  "computeEventUid sha hz src sid t = Inr u \<longleftrightarrow> 0 \<le> hz \<and> hz \<le> 255
     \<and> src \<noteq> [] \<and> int (length src) \<le> U32_MAX \<and> sid \<noteq> [] \<and> int (length sid) \<le> U32_MAX
     \<and> 0 \<le> t \<and> t \<le> MAX_SAFE_INTEGER \<and> u = bytesToPrefixedHex (sha (uid_input hz src sid t))"
  by (auto simp: computeEventUid_def uid_input_def assertUtf8U32Length_def assertUnixMs_def res_simps)

lemma bytes_of_string_inject: "(map of_char s :: bytes) = map of_char t \<Longrightarrow> s = t"
  by (erule list.inj_map_strong [rotated]) (erule byte_of_char_inject)

lemma length_prefixed_inject:
  assumes "le_bytes 4 (int (length s)) @ map of_char s @ x = le_bytes 4 (int (length t)) @ map of_char t @ (y :: bytes)"
    and "int (length s) \<le> U32_MAX" and "int (length t) \<le> U32_MAX"
  shows "s = t \<and> x = y"
proof -
  have "le_bytes 4 (int (length s)) = le_bytes 4 (int (length t))" "map of_char s @ x = map of_char t @ y"
    using assms(1) by simp_all
  moreover from this(1) have len: "length s = length t"
    using assms(2,3) by (simp add: le_bytes_inject U32_MAX_def)
  ultimately have "(map of_char s :: bytes) = map of_char t \<and> x = y"
    by (metis append_eq_append_conv length_map)
  then show ?thesis using bytes_of_string_inject by blast
qed

lemma uid_input_inject:
  assumes "uid_input hz src sid t = uid_input hz' src' sid' t'"
    and "int (length src) \<le> U32_MAX" "int (length sid) \<le> U32_MAX" "0 \<le> t" "t \<le> MAX_SAFE_INTEGER"
    and "int (length src') \<le> U32_MAX" "int (length sid') \<le> U32_MAX" "0 \<le> t'" "t' \<le> MAX_SAFE_INTEGER"
  shows "src = src' \<and> sid = sid' \<and> t = t'"
proof -
  have *: "le_bytes 4 (int (length src)) @ map of_char src @ le_bytes 4 (int (length sid)) @ map of_char sid @ le_bytes 8 t
      = le_bytes 4 (int (length src')) @ map of_char src' @ le_bytes 4 (int (length sid')) @ map of_char sid' @ le_bytes 8 t'"
    using assms(1) by (simp add: uid_input_def)
  from length_prefixed_inject [OF * assms(2,6)]
  have "src = src'" and 2: "le_bytes 4 (int (length sid)) @ map of_char sid @ le_bytes 8 t
      = le_bytes 4 (int (length sid')) @ map of_char sid' @ le_bytes 8 t'" by blast+
  from length_prefixed_inject [OF 2 assms(3,7)] have "sid = sid'" "le_bytes 8 t = le_bytes 8 t'" by blast+
  with assms \<open>src = src'\<close> show ?thesis by (simp add: le_bytes_inject MAX_SAFE_INTEGER_def)
qed

section \<open>Properties\<close>

text \<open>C39. The event uid identifies the event: two candidates that get the same uid have the same
  source event id and the same time, or their identity texts collide under the hash function.\<close>

theorem event_uid_binding:
  assumes "sha256_ok sha" and "candidateEventUid sha c = Inr u" and "candidateEventUid sha c' = Inr u"
  shows "(cand_source_event_id c = cand_source_event_id c' \<and> cand_occurred_at_ms c = cand_occurred_at_ms c')
    \<or> collision sha [uid_input EARTHQUAKE ''USGS'' (cand_source_event_id c) (cand_occurred_at_ms c)]
        [uid_input EARTHQUAKE ''USGS'' (cand_source_event_id c') (cand_occurred_at_ms c')]"
proof -
  let ?x = "uid_input EARTHQUAKE ''USGS'' (cand_source_event_id c) (cand_occurred_at_ms c)"
  let ?y = "uid_input EARTHQUAKE ''USGS'' (cand_source_event_id c') (cand_occurred_at_ms c')"
  have ranges: "int (length (cand_source_event_id c)) \<le> U32_MAX" "0 \<le> cand_occurred_at_ms c"
    "cand_occurred_at_ms c \<le> MAX_SAFE_INTEGER" "int (length (cand_source_event_id c')) \<le> U32_MAX"
    "0 \<le> cand_occurred_at_ms c'" "cand_occurred_at_ms c' \<le> MAX_SAFE_INTEGER"
    and src: "int (length ''USGS'') \<le> U32_MAX"
    and "bytesToPrefixedHex (sha ?x) = bytesToPrefixedHex (sha ?y)"
    using assms(2,3) by (auto simp: candidateEventUid_def computeEventUid_Inr U32_MAX_def)
  then have "sha ?x = sha ?y"
    using assms(1) by (metis hexToBytes_bytesToPrefixedHex sha256_ok_def)
  moreover have "?x = ?y \<Longrightarrow> cand_source_event_id c = cand_source_event_id c' \<and> cand_occurred_at_ms c = cand_occurred_at_ms c'"
    using uid_input_inject [OF _ src ranges(1-3) src ranges(4-6)] by blast
  ultimately show ?thesis by (auto simp: collision_def)
qed

definition sample_candidate :: usgs_candidate where
  "sample_candidate = \<lparr>cand_source_event_id = ''us7000abcd'', cand_requested_source_event_id = None,
     cand_occurred_at_ms = 1700000000000, cand_source_updated_at_ms = 1700000050000,
     cand_magnitude = Some 7, cand_summary_mmi = None, cand_alert = None, cand_tsunami = False\<rparr>"

theorem event_uid_binding_witness:
  "\<exists>u. candidateEventUid checksum32 sample_candidate = Inr u
     \<and> ((cand_source_event_id sample_candidate = cand_source_event_id sample_candidate
         \<and> cand_occurred_at_ms sample_candidate = cand_occurred_at_ms sample_candidate)
       \<or> collision checksum32
           [uid_input EARTHQUAKE ''USGS'' (cand_source_event_id sample_candidate) (cand_occurred_at_ms sample_candidate)]
           [uid_input EARTHQUAKE ''USGS'' (cand_source_event_id sample_candidate) (cand_occurred_at_ms sample_candidate)])"
proof -
  obtain u where u: "candidateEventUid checksum32 sample_candidate = Inr u"
    by (simp add: candidateEventUid_def computeEventUid_Inr sample_candidate_def EARTHQUAKE_def U32_MAX_def
        MAX_SAFE_INTEGER_def)
  from event_uid_binding [OF sha256_ok_checksum32 u u] u show ?thesis by blast
qed

text \<open>An event never shares its key with the runner lock: a source event id the watcher accepts is
  not the key under which the lock is stored, and has at most the 96 bytes the payload allows.\<close>

theorem valid_id_not_lock_key:
  assumes "isValidUsgsSourceEventId s"
  shows "s \<noteq> RUNNER_WORKFLOW_LOCK_SOURCE_EVENT_ID \<and> isUtf8BytesInRange (JStr s) 1 96"
proof -
  have "includes_str RUNNER_WORKFLOW_LOCK_SOURCE_EVENT_ID ''__''"
    by (simp add: RUNNER_WORKFLOW_LOCK_SOURCE_EVENT_ID_def starts_with_def)
  with assms show ?thesis by (auto simp: isValidUsgsSourceEventId_def isUtf8BytesInRange_def)
qed

theorem valid_id_not_lock_key_witness:
  "''us7000abcd'' \<noteq> RUNNER_WORKFLOW_LOCK_SOURCE_EVENT_ID \<and> isUtf8BytesInRange (JStr ''us7000abcd'') 1 96"
  by (rule valid_id_not_lock_key)
     (simp add: isValidUsgsSourceEventId_def is_lower_az_def is_digit_def starts_with_def)

end
