(* ===== verification/Effects.thy ===== *)
theory Effects
  imports Prelude
begin

text \<open>
  Asynchronous methods over a state.  A call reads the state and returns, or throws an error whose
  message is kept, and the state it leaves behind; what was written before an error stays written.
  \<open>io_bind\<close> is \<open>await\<close> and the statements after it, \<open>io_catch\<close> is \<open>try\<close> with its handler.

  \<open>triple\<close> is a Hoare triple whose postcondition speaks of the result, returned or thrown, and of the
  state after; \<open>keeps\<close> is the triple with one condition before and after, whatever the result.  Their
  rules follow the structure of the code.
\<close>

type_synonym ('s, 'a) io = "'s \<Rightarrow> (js_error + 'a) \<times> 's"

definition io_return :: "'a \<Rightarrow> ('s, 'a) io" where
  "io_return x = (\<lambda>st. (Inr x, st))"

definition io_throw :: "js_error \<Rightarrow> ('s, 'a) io" where
  "io_throw e = (\<lambda>st. (Inl e, st))"

definition io_bind :: "('s, 'a) io \<Rightarrow> ('a \<Rightarrow> ('s, 'b) io) \<Rightarrow> ('s, 'b) io" where
  "io_bind m f = (\<lambda>st. case m st of (Inl e, st1) \<Rightarrow> (Inl e, st1) | (Inr x, st1) \<Rightarrow> f x st1)"

definition io_catch :: "('s, 'a) io \<Rightarrow> (js_error \<Rightarrow> ('s, 'a) io) \<Rightarrow> ('s, 'a) io" where
  "io_catch m h = (\<lambda>st. case m st of (Inl e, st1) \<Rightarrow> h e st1 | (Inr x, st1) \<Rightarrow> (Inr x, st1))"

text \<open>A synchronous read, a synchronous update that returns a value, and one that may throw.\<close>

definition io_read :: "('s \<Rightarrow> 'a) \<Rightarrow> ('s, 'a) io" where
  "io_read f = (\<lambda>st. (Inr (f st), st))"

definition io_pure :: "('s \<Rightarrow> 'a \<times> 's) \<Rightarrow> ('s, 'a) io" where
  "io_pure f = (\<lambda>st. (Inr (fst (f st)), snd (f st)))"

definition io_write :: "('s \<Rightarrow> 's) \<Rightarrow> ('s, unit) io" where
  "io_write f = (\<lambda>st. (Inr (), f st))"

definition io_try :: "('s \<Rightarrow> js_error + 'a \<times> 's) \<Rightarrow> ('s, 'a) io" where
  "io_try f = (\<lambda>st. case f st of Inl e \<Rightarrow> (Inl e, st) | Inr (x, st1) \<Rightarrow> (Inr x, st1))"

definition io_lift :: "js_error + 'a \<Rightarrow> ('s, 'a) io" where
  "io_lift r = (\<lambda>st. (r, st))"

lemmas io_prims = io_return_def io_throw_def io_read_def io_pure_def io_write_def io_lift_def

lemma io_bind_cases:
  assumes "io_bind m f st = (r, st')"
  obtains (threw) e where "m st = (Inl e, st')" "r = Inl e"
    | (returned) x st1 where "m st = (Inr x, st1)" "f x st1 = (r, st')"
  using assms by (auto simp: io_bind_def split: prod.splits sum.splits)

lemma io_catch_cases:
  assumes "io_catch m h st = (r, st')"
  obtains (threw) e st1 where "m st = (Inl e, st1)" "h e st1 = (r, st')"
    | (returned) x where "m st = (Inr x, st')" "r = Inr x"
  using assms by (auto simp: io_catch_def split: prod.splits sum.splits)

lemma io_bind_Inr [simp]: "m st = (Inr x, st1) \<Longrightarrow> io_bind m f st = f x st1"
  by (simp add: io_bind_def)

lemma io_bind_Inl [simp]: "m st = (Inl e, st1) \<Longrightarrow> io_bind m f st = (Inl e, st1)"
  by (simp add: io_bind_def)

lemma io_bind_return [simp]: "io_bind (io_return x) f = f x"
  by (simp add: io_bind_def io_return_def)

lemma io_bind_assoc: "io_bind (io_bind m f) g = io_bind m (\<lambda>x. io_bind (f x) g)"
  by (rule ext) (simp add: io_bind_def split: prod.split sum.split)

section \<open>Conditions kept by a call\<close>

definition keeps :: "('s \<Rightarrow> bool) \<Rightarrow> ('s, 'a) io \<Rightarrow> bool" where
  "keeps P m \<longleftrightarrow> (\<forall>st. P st \<longrightarrow> P (snd (m st)))"

named_theorems keeps_intros \<open>rules for what a call keeps\<close>

lemma keepsI: "(\<And>st r st'. P st \<Longrightarrow> m st = (r, st') \<Longrightarrow> P st') \<Longrightarrow> keeps P m"
  by (metis keeps_def prod.collapse)

lemma keepsD: "keeps P m \<Longrightarrow> m st = (r, st') \<Longrightarrow> P st \<Longrightarrow> P st'"
  by (metis keeps_def snd_conv)

lemma keeps_prims [keeps_intros]:
  "keeps P (io_return x)" "keeps P (io_throw e)" "keeps P (io_read f)" "keeps P (io_lift r)"
  by (simp_all add: keeps_def io_prims)

lemma keeps_bind [keeps_intros]: "keeps P m \<Longrightarrow> (\<And>x. keeps P (f x)) \<Longrightarrow> keeps P (io_bind m f)"
  by (rule keepsI) (erule io_bind_cases, auto dest: keepsD)

lemma keeps_catch [keeps_intros]: "keeps P m \<Longrightarrow> (\<And>e. keeps P (h e)) \<Longrightarrow> keeps P (io_catch m h)"
  by (rule keepsI) (erule io_catch_cases, auto dest: keepsD)

lemma keeps_if [keeps_intros]: "(b \<Longrightarrow> keeps P m) \<Longrightarrow> (\<not> b \<Longrightarrow> keeps P n) \<Longrightarrow> keeps P (if b then m else n)"
  by simp

lemma keeps_option [keeps_intros]:
  "(x = None \<Longrightarrow> keeps P m) \<Longrightarrow> (\<And>v. x = Some v \<Longrightarrow> keeps P (f v)) \<Longrightarrow> keeps P (case x of None \<Rightarrow> m | Some v \<Rightarrow> f v)"
  by (cases x) auto

lemma keeps_sum [keeps_intros]:
  "(\<And>e. x = Inl e \<Longrightarrow> keeps P (g e)) \<Longrightarrow> (\<And>v. x = Inr v \<Longrightarrow> keeps P (f v)) \<Longrightarrow> keeps P (case x of Inl e \<Rightarrow> g e | Inr v \<Rightarrow> f v)"
  by (cases x) auto

lemma keeps_prod [keeps_intros]:
  "(\<And>a b. x = (a, b) \<Longrightarrow> keeps P (f a b)) \<Longrightarrow> keeps P (case x of (a, b) \<Rightarrow> f a b)"
  by (cases x) auto

lemma keeps_let [keeps_intros]: "keeps P (f v) \<Longrightarrow> keeps P (let x = v in f x)"
  by simp

section \<open>Hoare triples\<close>

definition triple :: "('s \<Rightarrow> bool) \<Rightarrow> ('s, 'a) io \<Rightarrow> (js_error + 'a \<Rightarrow> 's \<Rightarrow> bool) \<Rightarrow> bool" where
  "triple P m Q \<longleftrightarrow> (\<forall>st. P st \<longrightarrow> Q (fst (m st)) (snd (m st)))"

named_theorems triple_intros \<open>rules of the triples\<close>

lemma tripleI: "(\<And>st r st'. P st \<Longrightarrow> m st = (r, st') \<Longrightarrow> Q r st') \<Longrightarrow> triple P m Q"
  by (metis triple_def prod.collapse)

lemma tripleD: "triple P m Q \<Longrightarrow> m st = (r, st') \<Longrightarrow> P st \<Longrightarrow> Q r st'"
  by (metis triple_def fst_conv snd_conv)

lemma triple_weaken:
  "triple P m Q \<Longrightarrow> (\<And>st. P' st \<Longrightarrow> P st) \<Longrightarrow> (\<And>r st. Q r st \<Longrightarrow> Q' r st) \<Longrightarrow> triple P' m Q'"
  by (auto simp: triple_def)

lemma triple_keeps: "keeps P m \<Longrightarrow> triple P m (\<lambda>_. P)"
  by (simp add: triple_def keeps_def)

lemma triple_return [triple_intros]: "(\<And>st. P st \<Longrightarrow> Q (Inr x) st) \<Longrightarrow> triple P (io_return x) Q"
  by (simp add: triple_def io_prims)

lemma triple_throw [triple_intros]: "(\<And>st. P st \<Longrightarrow> Q (Inl e) st) \<Longrightarrow> triple P (io_throw e) Q"
  by (simp add: triple_def io_prims)

lemma triple_bind:
  assumes "triple P m (\<lambda>r st. case r of Inl e \<Rightarrow> Q (Inl e) st | Inr x \<Rightarrow> R x st)"
    and "\<And>x. triple (R x) (f x) Q"
  shows "triple P (io_bind m f) Q"
proof (rule tripleI)
  fix st r st' assume "P st" "io_bind m f st = (r, st')"
  from this(2) show "Q r st'"
    by (cases rule: io_bind_cases)
      (use tripleD [OF assms(1) _ \<open>P st\<close>] tripleD [OF assms(2)] in fastforce)+
qed

lemma triple_if [triple_intros]:
  "(b \<Longrightarrow> triple P m Q) \<Longrightarrow> (\<not> b \<Longrightarrow> triple P n Q) \<Longrightarrow> triple P (if b then m else n) Q"
  by simp

lemma triple_option [triple_intros]:
  "(x = None \<Longrightarrow> triple P m Q) \<Longrightarrow> (\<And>v. x = Some v \<Longrightarrow> triple P (f v) Q) \<Longrightarrow>
     triple P (case x of None \<Rightarrow> m | Some v \<Rightarrow> f v) Q"
  by (cases x) auto

lemma triple_sum [triple_intros]:
  "(\<And>e. x = Inl e \<Longrightarrow> triple P (g e) Q) \<Longrightarrow> (\<And>v. x = Inr v \<Longrightarrow> triple P (f v) Q) \<Longrightarrow>
     triple P (case x of Inl e \<Rightarrow> g e | Inr v \<Rightarrow> f v) Q"
  by (cases x) auto

lemma triple_prod [triple_intros]:
  "(\<And>a b. x = (a, b) \<Longrightarrow> triple P (f a b) Q) \<Longrightarrow> triple P (case x of (a, b) \<Rightarrow> f a b) Q"
  by (cases x) auto

lemma triple_let [triple_intros]: "triple P (f v) Q \<Longrightarrow> triple P (let x = v in f x) Q"
  by simp

lemma triple_and: "triple P m Q \<Longrightarrow> triple P m Q' \<Longrightarrow> triple P m (\<lambda>r st. Q r st \<and> Q' r st)"
  by (simp add: triple_def)

lemma triple_pre: "(\<And>st. P st \<Longrightarrow> triple (\<lambda>st'. st' = st) m Q) \<Longrightarrow> triple P m Q"
  by (simp add: triple_def)

text \<open>A condition on the returned value alone.\<close>

definition rets :: "('s, 'a) io \<Rightarrow> ('a \<Rightarrow> bool) \<Rightarrow> bool" where
  "rets m V \<longleftrightarrow> triple (\<lambda>_. True) m (\<lambda>r _. case r of Inl _ \<Rightarrow> True | Inr v \<Rightarrow> V v)"

lemma rets_any [triple_intros]: "rets m (\<lambda>_. True)"
  by (auto simp: rets_def triple_def split: sum.split)

lemma rets_return [triple_intros]: "V x \<Longrightarrow> rets (io_return x) V"
  by (simp add: rets_def triple_return)

lemma rets_bind: "rets m W \<Longrightarrow> (\<And>x. W x \<Longrightarrow> rets (f x) V) \<Longrightarrow> rets (io_bind m f) V"
  unfolding rets_def
  by (rule triple_bind [where R = "\<lambda>x _. W x"]) (auto simp: triple_def split: sum.splits)

lemma retsD: "rets m V \<Longrightarrow> m st = (Inr v, st') \<Longrightarrow> V v"
  unfolding rets_def by (drule (1) tripleD) simp_all

lemmas rets_bind_any = rets_bind [OF rets_any]

end
