(* ===== verification/RepoInterface.thy ===== *)
theory RepoInterface
  imports EventRow Effects
begin

text \<open>
  The \<open>StateRepository\<close> interface of \<open>watcher/src/state.ts\<close>: a record of the methods over the
  repository's state, the contract every implementation keeps, and the histories of calls.

  The contract is the locale \<open>state_repository\<close>: what the scheduler relies on, and what makes the
  runner workflow exclusive.  It allows a method to throw after it has written, as a call to a
  remote store may.
\<close>

section \<open>Rows of the lock and of the queue\<close>

record runner_lock =
  lock_owner :: string
  lock_runner_job_id :: string
  lock_runner_attempt :: int
  lock_acquired_at_ms :: int
  lock_expires_at_ms :: int

record workflow_start =
  ws_source_event_id :: string
  ws_execution_name :: string
  ws_attempt :: int
  ws_event_revision :: int

record runner_queue_job =
  rqj_runner_job_id :: string
  rqj_source_event_id :: string
  rqj_attempt :: int
  rqj_event_revision :: int
  rqj_enqueued_at_ms :: int

section \<open>The interface\<close>

record 's repository =
  rp_upsertCandidate ::
    "usgs_candidate \<Rightarrow> int \<Rightarrow> bool \<Rightarrow> ('s, unit) io"
  rp_upsertManualEvent ::
    "string \<Rightarrow> int \<Rightarrow> string option \<Rightarrow> ('s, unit) io"
  rp_get :: "string \<Rightarrow> ('s, event_row option) io"
  rp_listDue :: "int \<Rightarrow> nat \<Rightarrow> ('s, event_row list) io"
  rp_listDueAffectedCellsProofRegistrations :: "int \<Rightarrow> nat \<Rightarrow> ('s, event_row list) io"
  rp_claimAffectedCellsProofRegistrationRetry ::
    "string \<Rightarrow> int \<Rightarrow> int \<Rightarrow> ('s, (int \<times> string) option) io"
  rp_hasActiveRunnerWorkflow :: "int option \<Rightarrow> ('s, bool) io"
  rp_tryStartRunnerWorkflowExclusively ::
    "string \<Rightarrow> string \<Rightarrow> int \<Rightarrow> int option \<Rightarrow> int option \<Rightarrow> ('s, workflow_start option) io"
  rp_markWorkflowStarted ::
    "string \<Rightarrow> string \<Rightarrow> int \<Rightarrow> int option \<Rightarrow> int option \<Rightarrow> ('s, workflow_start option) io"
  rp_markWorkflowStopped ::
    "string \<Rightarrow> int \<Rightarrow> int \<Rightarrow> ('s, bool) io"
  rp_updateRunnerWorkflowProgress :: "workflow_progress_update \<Rightarrow> ('s, bool) io"
  rp_markFailed ::
    "string \<Rightarrow> error_code \<Rightarrow> int \<Rightarrow> int \<Rightarrow> string option \<Rightarrow> int option \<Rightarrow> ('s, bool) io"
  rp_applyRunnerResult ::
    "string \<Rightarrow> tee_core_result \<Rightarrow> int \<Rightarrow> int option \<Rightarrow> int option \<Rightarrow> ('s, bool) io"
  rp_markRelayerSucceeded ::
    "string \<Rightarrow> relayer_success \<Rightarrow> int \<Rightarrow> int option \<Rightarrow> ('s, bool) io"
  rp_markRelayerFailed ::
    "string \<Rightarrow> relayer_mode \<Rightarrow> error_code \<Rightarrow> string \<Rightarrow> int \<Rightarrow> int option \<Rightarrow> ('s, bool) io"
  rp_markSourceArchiveResult ::
    "string \<Rightarrow> source_archive_update \<Rightarrow> int \<Rightarrow> int option \<Rightarrow> ('s, bool) io"
  rp_markAffectedCellsProofRegistrationResult ::
    "string \<Rightarrow> proof_registration_update \<Rightarrow> int \<Rightarrow> int option \<Rightarrow> ('s, bool) io"
  rp_markFloorCensusProcessing ::
    "string \<Rightarrow> int \<Rightarrow> int option \<Rightarrow> ('s, bool) io"
  rp_markFloorCensusResult ::
    "string \<Rightarrow> floor_census_update \<Rightarrow> int \<Rightarrow> int option \<Rightarrow> ('s, bool) io"
  rp_enqueueRunnerJob ::
    "string \<Rightarrow> int \<Rightarrow> string \<Rightarrow> int \<Rightarrow> int option \<Rightarrow> ('s, runner_queue_job option) io"
  rp_markQueueEnqueueFailed ::
    "string \<Rightarrow> string \<Rightarrow> int \<Rightarrow> int \<Rightarrow> string \<Rightarrow> ('s, unit) io"
  rp_claimQueuedForProcessing ::
    "runner_queue_job \<Rightarrow> int \<Rightarrow> int \<Rightarrow> ('s, bool) io"
  rp_recordRunnerStarted ::
    "string \<Rightarrow> string \<Rightarrow> string \<Rightarrow> int \<Rightarrow> int \<Rightarrow> ('s, unit) io"
  rp_recordRunnerStopped ::
    "string \<Rightarrow> string \<Rightarrow> int \<Rightarrow> ('s, unit) io"
  rp_recordRunnerStopFailed ::
    "string \<Rightarrow> string \<Rightarrow> string \<Rightarrow> int \<Rightarrow> ('s, unit) io"
  rp_deferUntil :: "string \<Rightarrow> int \<Rightarrow> int \<Rightarrow> ('s, unit) io"
  rp_markRejected ::
    "string \<Rightarrow> error_code \<Rightarrow> int \<Rightarrow> ('s, unit) io"
  rp_recoverStaleProcessing ::
    "int \<Rightarrow> int \<Rightarrow> int \<Rightarrow> ('s, nat) io"
  rp_recoverStaleQueued :: "int \<Rightarrow> int \<Rightarrow> int \<Rightarrow> ('s, nat) io"

text \<open>The lock after a successful start.\<close>

definition started_lock :: "string \<Rightarrow> string \<Rightarrow> int \<Rightarrow> int \<Rightarrow> runner_lock" where
  "started_lock sid executionName attempt nowMs =
     \<lparr>lock_owner = sid, lock_runner_job_id = executionName, lock_runner_attempt = attempt,
      lock_acquired_at_ms = nowMs, lock_expires_at_ms = nowMs + FAILED_RETRY_BACKOFF_MS\<rparr>"

definition lock_free :: "int \<Rightarrow> runner_lock option \<Rightarrow> bool" where
  "lock_free nowMs l \<longleftrightarrow> none_or (\<lambda>l. lock_expires_at_ms l \<le> nowMs) l"

definition lock_held_by :: "string \<Rightarrow> int \<Rightarrow> runner_lock option \<Rightarrow> bool" where
  "lock_held_by sid attempt l \<longleftrightarrow> some_and (\<lambda>l. lock_owner l = sid \<and> lock_runner_attempt l = attempt) l"

text \<open>When a row may be started.\<close>

definition startable :: "event_row \<Rightarrow> int \<Rightarrow> int option \<Rightarrow> bool" where
  "startable row nowMs expectedRetryCount \<longleftrightarrow>
     er_status row \<in> DUE_STATUSES \<and> isReadyForRetryOrDeadline row nowMs
     \<and> none_or (\<lambda>n. er_retry_count row = n) expectedRetryCount"

definition is_due :: "int \<Rightarrow> event_row \<Rightarrow> bool" where
  "is_due nowMs row \<longleftrightarrow> er_status row \<in> DUE_STATUSES \<and> isReadyForRetryOrDeadline row nowMs"

section \<open>Histories of calls\<close>

text \<open>
  A call of a method is one step.  Steps that concern the runner lock are labelled: a start that
  returned a workflow, a start that threw and may have taken the lock, a stop.
\<close>

datatype repo_event =
    EvStarted string int int
  | EvStartThrew string int
  | EvStop string int
  | EvOther

inductive repo_step :: "'s repository \<Rightarrow> 's \<Rightarrow> repo_event \<Rightarrow> 's \<Rightarrow> bool" for rp where
  step_upsertCandidate: "rp_upsertCandidate rp c t b st = (r, st') \<Longrightarrow> repo_step rp st EvOther st'"
| step_upsertManualEvent: "rp_upsertManualEvent rp k t q st = (r, st') \<Longrightarrow> repo_step rp st EvOther st'"
| step_get: "rp_get rp k st = (r, st') \<Longrightarrow> repo_step rp st EvOther st'"
| step_listDue: "rp_listDue rp t mx st = (r, st') \<Longrightarrow> repo_step rp st EvOther st'"
| step_listDueAffectedCellsProofRegistrations: "rp_listDueAffectedCellsProofRegistrations rp t mx st = (r, st') \<Longrightarrow> repo_step rp st EvOther st'"
| step_claimAffectedCellsProofRegistrationRetry: "rp_claimAffectedCellsProofRegistrationRetry rp k x t st = (r, st') \<Longrightarrow> repo_step rp st EvOther st'"
| step_hasActiveRunnerWorkflow: "rp_hasActiveRunnerWorkflow rp so st = (r, st') \<Longrightarrow> repo_step rp st EvOther st'"
| step_started: "rp_tryStartRunnerWorkflowExclusively rp k nm t ex rv st = (Inr (Some w), st') \<Longrightarrow> repo_step rp st (EvStarted k (ws_attempt w) t) st'"
| step_not_started: "rp_tryStartRunnerWorkflowExclusively rp k nm t ex rv st = (Inr None, st') \<Longrightarrow> repo_step rp st EvOther st'"
| step_start_threw: "rp_tryStartRunnerWorkflowExclusively rp k nm t ex rv st = (Inl e, st') \<Longrightarrow> repo_step rp st (EvStartThrew k t) st'"
| step_markWorkflowStarted: "rp_markWorkflowStarted rp k nm t ex rv st = (r, st') \<Longrightarrow> repo_step rp st EvOther st'"
| step_markWorkflowStopped: "rp_markWorkflowStopped rp k a t st = (r, st') \<Longrightarrow> repo_step rp st (EvStop k a) st'"
| step_updateRunnerWorkflowProgress: "rp_updateRunnerWorkflowProgress rp wu st = (r, st') \<Longrightarrow> repo_step rp st EvOther st'"
| step_markFailed: "rp_markFailed rp k e t n mo ao st = (r, st') \<Longrightarrow> repo_step rp st EvOther st'"
| step_applyRunnerResult: "rp_applyRunnerResult rp k tr t no ao st = (r, st') \<Longrightarrow> repo_step rp st EvOther st'"
| step_markRelayerSucceeded: "rp_markRelayerSucceeded rp k su t ao st = (r, st') \<Longrightarrow> repo_step rp st EvOther st'"
| step_markRelayerFailed: "rp_markRelayerFailed rp k md e m t ao st = (r, st') \<Longrightarrow> repo_step rp st EvOther st'"
| step_markSourceArchiveResult: "rp_markSourceArchiveResult rp k sau t ao st = (r, st') \<Longrightarrow> repo_step rp st EvOther st'"
| step_markAffectedCellsProofRegistrationResult: "rp_markAffectedCellsProofRegistrationResult rp k pru t ao st = (r, st') \<Longrightarrow> repo_step rp st EvOther st'"
| step_markFloorCensusProcessing: "rp_markFloorCensusProcessing rp k t ao st = (r, st') \<Longrightarrow> repo_step rp st EvOther st'"
| step_markFloorCensusResult: "rp_markFloorCensusResult rp k fcu t ao st = (r, st') \<Longrightarrow> repo_step rp st EvOther st'"
| step_enqueueRunnerJob: "rp_enqueueRunnerJob rp k a j t rv st = (r, st') \<Longrightarrow> repo_step rp st EvOther st'"
| step_markQueueEnqueueFailed: "rp_markQueueEnqueueFailed rp k j t n m st = (r, st') \<Longrightarrow> repo_step rp st EvOther st'"
| step_claimQueuedForProcessing: "rp_claimQueuedForProcessing rp qj t n st = (r, st') \<Longrightarrow> repo_step rp st EvOther st'"
| step_recordRunnerStarted: "rp_recordRunnerStarted rp k j i t n st = (r, st') \<Longrightarrow> repo_step rp st EvOther st'"
| step_recordRunnerStopped: "rp_recordRunnerStopped rp k j t st = (r, st') \<Longrightarrow> repo_step rp st EvOther st'"
| step_recordRunnerStopFailed: "rp_recordRunnerStopFailed rp k j m t st = (r, st') \<Longrightarrow> repo_step rp st EvOther st'"
| step_deferUntil: "rp_deferUntil rp k n t st = (r, st') \<Longrightarrow> repo_step rp st EvOther st'"
| step_markRejected: "rp_markRejected rp k e t st = (r, st') \<Longrightarrow> repo_step rp st EvOther st'"
| step_recoverStaleProcessing: "rp_recoverStaleProcessing rp sb t n st = (r, st') \<Longrightarrow> repo_step rp st EvOther st'"
| step_recoverStaleQueued: "rp_recoverStaleQueued rp sb t n st = (r, st') \<Longrightarrow> repo_step rp st EvOther st'"

inductive repo_run :: "'s repository \<Rightarrow> 's \<Rightarrow> repo_event list \<Rightarrow> 's \<Rightarrow> bool" for rp where
  run_nil: "repo_run rp st [] st"
| run_cons: "repo_step rp st ev st1 \<Longrightarrow> repo_run rp st1 evs st' \<Longrightarrow> repo_run rp st (ev # evs) st'"

inductive_cases repo_run_ConsE: "repo_run rp st (ev # evs) st'"
inductive_cases repo_run_NilE: "repo_run rp st [] st'"
inductive_cases repo_step_StartedE: "repo_step rp st (EvStarted k a t) st'"
inductive_cases repo_step_ThrewE: "repo_step rp st (EvStartThrew k t) st'"
inductive_cases repo_step_StopE: "repo_step rp st (EvStop k a) st'"
inductive_cases repo_step_OtherE: "repo_step rp st EvOther st'"

inductive_simps repo_run_Nil [simp]: "repo_run rp st [] st'"
inductive_simps repo_run_Cons: "repo_run rp st (ev # evs) st'"

section \<open>The contract\<close>

locale state_repository =
  fixes rp :: "'s repository"
    and inv :: "'s \<Rightarrow> bool"
    and row_of :: "string \<Rightarrow> 's \<Rightarrow> event_row option"
    and lock_of :: "'s \<Rightarrow> runner_lock option"
  assumes row_ok: "inv st \<Longrightarrow> row_of k st = Some r \<Longrightarrow> er_source_event_id r = k \<and> row_inv r"
    and keeps_upsertCandidate: "keeps (\<lambda>st. inv st \<and> lock_of st = l) (rp_upsertCandidate rp c t b)"
    and keeps_upsertManualEvent: "keeps (\<lambda>st. inv st \<and> lock_of st = l) (rp_upsertManualEvent rp k t q)"
    and keeps_get: "keeps (\<lambda>st. inv st \<and> lock_of st = l) (rp_get rp k)"
    and keeps_listDue: "keeps (\<lambda>st. inv st \<and> lock_of st = l) (rp_listDue rp t mx)"
    and keeps_listDueAffectedCellsProofRegistrations: "keeps (\<lambda>st. inv st \<and> lock_of st = l) (rp_listDueAffectedCellsProofRegistrations rp t mx)"
    and keeps_claimAffectedCellsProofRegistrationRetry: "keeps (\<lambda>st. inv st \<and> lock_of st = l) (rp_claimAffectedCellsProofRegistrationRetry rp k x t)"
    and keeps_hasActiveRunnerWorkflow: "keeps (\<lambda>st. inv st \<and> lock_of st = l) (rp_hasActiveRunnerWorkflow rp so)"
    and keeps_markWorkflowStarted: "keeps (\<lambda>st. inv st \<and> lock_of st = l) (rp_markWorkflowStarted rp k nm t ex rv)"
    and keeps_updateRunnerWorkflowProgress: "keeps (\<lambda>st. inv st \<and> lock_of st = l) (rp_updateRunnerWorkflowProgress rp wu)"
    and keeps_markFailed: "keeps (\<lambda>st. inv st \<and> lock_of st = l) (rp_markFailed rp k e t n mo ao)"
    and keeps_applyRunnerResult: "keeps (\<lambda>st. inv st \<and> lock_of st = l) (rp_applyRunnerResult rp k tr t no ao)"
    and keeps_markRelayerSucceeded: "keeps (\<lambda>st. inv st \<and> lock_of st = l) (rp_markRelayerSucceeded rp k su t ao)"
    and keeps_markRelayerFailed: "keeps (\<lambda>st. inv st \<and> lock_of st = l) (rp_markRelayerFailed rp k md e m t ao)"
    and keeps_markSourceArchiveResult: "keeps (\<lambda>st. inv st \<and> lock_of st = l) (rp_markSourceArchiveResult rp k sau t ao)"
    and keeps_markAffectedCellsProofRegistrationResult: "keeps (\<lambda>st. inv st \<and> lock_of st = l) (rp_markAffectedCellsProofRegistrationResult rp k pru t ao)"
    and keeps_markFloorCensusProcessing: "keeps (\<lambda>st. inv st \<and> lock_of st = l) (rp_markFloorCensusProcessing rp k t ao)"
    and keeps_markFloorCensusResult: "keeps (\<lambda>st. inv st \<and> lock_of st = l) (rp_markFloorCensusResult rp k fcu t ao)"
    and keeps_enqueueRunnerJob: "keeps (\<lambda>st. inv st \<and> lock_of st = l) (rp_enqueueRunnerJob rp k a j t rv)"
    and keeps_markQueueEnqueueFailed: "keeps (\<lambda>st. inv st \<and> lock_of st = l) (rp_markQueueEnqueueFailed rp k j t n m)"
    and keeps_claimQueuedForProcessing: "keeps (\<lambda>st. inv st \<and> lock_of st = l) (rp_claimQueuedForProcessing rp qj t n)"
    and keeps_recordRunnerStarted: "keeps (\<lambda>st. inv st \<and> lock_of st = l) (rp_recordRunnerStarted rp k j i t n)"
    and keeps_recordRunnerStopped: "keeps (\<lambda>st. inv st \<and> lock_of st = l) (rp_recordRunnerStopped rp k j t)"
    and keeps_recordRunnerStopFailed: "keeps (\<lambda>st. inv st \<and> lock_of st = l) (rp_recordRunnerStopFailed rp k j m t)"
    and keeps_deferUntil: "keeps (\<lambda>st. inv st \<and> lock_of st = l) (rp_deferUntil rp k n t)"
    and keeps_markRejected: "keeps (\<lambda>st. inv st \<and> lock_of st = l) (rp_markRejected rp k e t)"
    and keeps_recoverStaleProcessing: "keeps (\<lambda>st. inv st \<and> lock_of st = l) (rp_recoverStaleProcessing rp sb t n)"
    and keeps_recoverStaleQueued: "keeps (\<lambda>st. inv st \<and> lock_of st = l) (rp_recoverStaleQueued rp sb t n)"
    and started: "inv st \<Longrightarrow> rp_tryStartRunnerWorkflowExclusively rp k nm t ex rv st = (Inr (Some w), st') \<Longrightarrow>
          inv st' \<and> lock_free t (lock_of st)
          \<and> (\<exists>r rv'. row_of k st = Some r \<and> startable r t ex \<and> ws_attempt w = er_retry_count r + 1
               \<and> row_of k st' = Some (start_row nm (ws_attempt w) rv' t r))
          \<and> (\<forall>k'. k' \<noteq> k \<longrightarrow> row_of k' st' = row_of k' st)
          \<and> lock_of st' = Some (started_lock k nm (ws_attempt w) t)"
    and not_started: "inv st \<Longrightarrow> rp_tryStartRunnerWorkflowExclusively rp k nm t ex rv st = (Inr None, st') \<Longrightarrow>
          inv st' \<and> lock_of st' = lock_of st"
    and start_threw: "inv st \<Longrightarrow> rp_tryStartRunnerWorkflowExclusively rp k nm t ex rv st = (Inl e, st') \<Longrightarrow>
          inv st' \<and> (lock_of st' = lock_of st \<or> lock_free t (lock_of st))"
    and stopped: "inv st \<Longrightarrow> rp_markWorkflowStopped rp k a t st = (r', st') \<Longrightarrow>
          inv st' \<and> (lock_of st' = lock_of st \<or> lock_held_by k a (lock_of st) \<and> lock_of st' = None)"
    and active: "inv st \<Longrightarrow> rp_hasActiveRunnerWorkflow rp so st = (Inr b, st') \<Longrightarrow>
          row_of k st = Some r \<Longrightarrow> isActiveRunnerWorkflow r so \<Longrightarrow> b"
    and active_rows: "inv st \<Longrightarrow> rp_hasActiveRunnerWorkflow rp so st = (rb, st') \<Longrightarrow> row_of k st' = row_of k st"
    and due: "inv st \<Longrightarrow> rp_listDue rp t mx st = (Inr rows, st') \<Longrightarrow>
          length rows \<le> mx \<and> list_all (is_due t) rows"
begin

lemmas keeps_ops [keeps_intros] =
  keeps_upsertCandidate
  keeps_upsertManualEvent
  keeps_get
  keeps_listDue
  keeps_listDueAffectedCellsProofRegistrations
  keeps_claimAffectedCellsProofRegistrationRetry
  keeps_hasActiveRunnerWorkflow
  keeps_markWorkflowStarted
  keeps_updateRunnerWorkflowProgress
  keeps_markFailed
  keeps_applyRunnerResult
  keeps_markRelayerSucceeded
  keeps_markRelayerFailed
  keeps_markSourceArchiveResult
  keeps_markAffectedCellsProofRegistrationResult
  keeps_markFloorCensusProcessing
  keeps_markFloorCensusResult
  keeps_enqueueRunnerJob
  keeps_markQueueEnqueueFailed
  keeps_claimQueuedForProcessing
  keeps_recordRunnerStarted
  keeps_recordRunnerStopped
  keeps_recordRunnerStopFailed
  keeps_deferUntil
  keeps_markRejected
  keeps_recoverStaleProcessing
  keeps_recoverStaleQueued

lemma kept:
  assumes "m st = (r, st')" and "\<And>l. keeps (\<lambda>st. inv st \<and> lock_of st = l) m" and "inv st"
  shows "inv st' \<and> lock_of st' = lock_of st"
  using keepsD [OF assms(2) assms(1)] assms(3) by blast

lemma other_step:
  assumes "repo_step rp st EvOther st'" and "inv st"
  shows "inv st' \<and> lock_of st' = lock_of st"
  using assms(1)
  by (rule repo_step_OtherE) (erule kept, rule keeps_ops, rule assms(2) | rule not_started [OF assms(2)], assumption)+

lemma step_inv:
  assumes "repo_step rp st ev st'" and "inv st"
  shows "inv st'"
proof (cases ev)
  case EvOther
  with assms other_step show ?thesis by blast
qed (use assms in \<open>auto elim!: repo_step_StartedE repo_step_ThrewE repo_step_StopE dest: started start_threw stopped\<close>)

lemma keeps_inv [keeps_intros]:
  assumes "\<And>l. keeps (\<lambda>st. inv st \<and> lock_of st = l) m"
  shows "keeps inv m"
  using assms by (auto simp: keeps_def)

text \<open>The lock of a running workflow outlives everything but its own stop and its expiry.\<close>

definition holds :: "string \<Rightarrow> int \<Rightarrow> int \<Rightarrow> 's \<Rightarrow> bool" where
  "holds k a t st \<longleftrightarrow> inv st \<and> lock_held_by k a (lock_of st)
     \<and> some_and (\<lambda>l. lock_expires_at_ms l = t + FAILED_RETRY_BACKOFF_MS) (lock_of st)"

lemma holds_not_free: "holds k a t st \<Longrightarrow> t' < t + FAILED_RETRY_BACKOFF_MS \<Longrightarrow> \<not> lock_free t' (lock_of st)"
  by (cases "lock_of st") (auto simp: holds_def lock_free_def)

lemma holds_same: "holds k a t st \<Longrightarrow> inv st' \<Longrightarrow> lock_of st' = lock_of st \<Longrightarrow> holds k a t st'"
  by (simp add: holds_def)

lemma holds_step:
  assumes step: "repo_step rp st ev st'" and h: "holds k a t st" and nostop: "ev \<noteq> EvStop k a"
    and early: "\<And>k' a' t'. ev = EvStarted k' a' t' \<or> ev = EvStartThrew k' t' \<Longrightarrow> t' < t + FAILED_RETRY_BACKOFF_MS"
  shows "holds k a t st' \<and> (\<forall>k' a' t'. ev \<noteq> EvStarted k' a' t')"
proof (cases ev)
  from h have inv: "inv st" by (simp add: holds_def)
  {
    case (EvStarted k' a' t')
    with step inv have "lock_free t' (lock_of st)"
      by (auto elim!: repo_step_StartedE dest: started)
    with holds_not_free [OF h] early EvStarted show ?thesis by blast
  next
    case (EvStartThrew k' t')
    with step inv have "inv st'" "lock_of st' = lock_of st \<or> lock_free t' (lock_of st)"
      by (auto elim!: repo_step_ThrewE dest: start_threw)
    with holds_not_free [OF h] early holds_same [OF h] EvStartThrew show ?thesis by blast
  next
    case (EvStop k' a')
    with step inv have "inv st'" "lock_of st' = lock_of st \<or> lock_held_by k' a' (lock_of st)"
      by (auto elim!: repo_step_StopE dest: stopped)
    moreover have "\<not> lock_held_by k' a' (lock_of st)"
      using h nostop EvStop by (cases "lock_of st") (auto simp: holds_def lock_held_by_def)
    ultimately show ?thesis using holds_same [OF h] EvStop by blast
  next
    case EvOther
    with step inv other_step holds_same [OF h] show ?thesis by blast
  }
qed

lemma run_inv: "repo_run rp st evs st' \<Longrightarrow> inv st \<Longrightarrow> inv st'"
  by (induction rule: repo_run.induct) (auto dest: step_inv)

lemma exclusive:
  assumes "repo_run rp st evs st'" and "holds k a t st" and "EvStop k a \<notin> set evs"
    and "\<forall>ev\<in>set evs. \<forall>k' a' t'. ev = EvStarted k' a' t' \<or> ev = EvStartThrew k' t' \<longrightarrow> t' < t + FAILED_RETRY_BACKOFF_MS"
  shows "holds k a t st' \<and> (\<forall>k' a' t'. EvStarted k' a' t' \<notin> set evs)"
  using assms
proof (induction rule: repo_run.induct)
  case (run_cons st ev st1 evs st')
  have "holds k a t st1 \<and> (\<forall>k' a' t'. ev \<noteq> EvStarted k' a' t')"
    by (rule holds_step [OF run_cons(1,4)]) (use run_cons(5,6) in auto)
  with run_cons show ?case by auto
qed simp

lemma holds_after_start:
  assumes "repo_step rp st (EvStarted k a t) st'" and "inv st"
  shows "holds k a t st'"
  using assms(1)
proof (rule repo_step_StartedE)
  fix nm ex rv w
  assume a: "a = ws_attempt w"
    and "rp_tryStartRunnerWorkflowExclusively rp k nm t ex rv st = (Inr (Some w), st')"
  from started [OF assms(2) this(2)] a show ?thesis
    by (simp add: holds_def lock_held_by_def started_lock_def)
qed

text \<open>A started workflow is seen as active until its row has not changed for the stale period.\<close>

lemma start_row_active: "s < t \<Longrightarrow> isActiveRunnerWorkflow (start_row nm a rv t r) (Some s)"
  by (simp add: isActiveRunnerWorkflow_def start_row_def)

lemma active_after_start:
  assumes "inv st" and "rp_tryStartRunnerWorkflowExclusively rp k nm t ex rv st = (Inr (Some w), st1)"
    and "rp_hasActiveRunnerWorkflow rp (Some s) st1 = (Inr b, st2)" and "s < t"
  shows "b"
proof -
  from started [OF assms(1,2)] obtain r rv' where "inv st1"
    "row_of k st1 = Some (start_row nm (ws_attempt w) rv' t r)" by blast
  with active assms(3) start_row_active [OF assms(4)] show ?thesis by blast
qed

end

end
