(* ===== verification/MemRepo.thy ===== *)
theory MemRepo
  imports RepoInterface
begin

text \<open>
  \<open>InMemoryStateRepository\<close> of \<open>nautilus/verifiers/earthquake/watcher/src/state.ts\<close>: the rows by
  source event id, in insertion order, and the runner workflow lock.

  An operation takes the state and returns its result with the new state; the two operations that
  may throw return a sum, and the state is unchanged when they do.  Rows are returned by value, as
  \<open>structuredClone\<close> does.
\<close>

section \<open>State\<close>

record mem_repo =
  mr_rows :: "(string \<times> event_row) list"
  mr_lock :: "runner_lock option"

definition mem_get :: "string \<Rightarrow> mem_repo \<Rightarrow> event_row option" where
  "mem_get sid st = map_of (mr_rows st) sid"

definition set_row :: "string \<Rightarrow> event_row \<Rightarrow> mem_repo \<Rightarrow> mem_repo" where
  "set_row sid row st = st\<lparr>mr_rows := AList.update sid row (mr_rows st)\<rparr>"

text \<open>Read a row, return false unless it exists and passes the guard, and assign to it.\<close>

definition modify :: "string \<Rightarrow> (event_row \<Rightarrow> bool) \<Rightarrow> (event_row \<Rightarrow> event_row) \<Rightarrow> mem_repo \<Rightarrow> bool \<times> mem_repo" where
  "modify sid guard f st =
     (case mem_get sid st of
        None \<Rightarrow> (False, st)
      | Some row \<Rightarrow> if guard row then (True, set_row sid (f row) st) else (False, st))"

text \<open>The two fences: \<open>expectedAttempt\<close> absent, or matched by the row's attempt.\<close>

definition fence_attempt :: "int option \<Rightarrow> event_row \<Rightarrow> bool" where
  "fence_attempt expectedAttempt row \<longleftrightarrow> none_or (\<lambda>a. er_runner_attempt row = Some a) expectedAttempt"

definition fence_processing :: "int option \<Rightarrow> event_row \<Rightarrow> bool" where
  "fence_processing expectedAttempt row \<longleftrightarrow>
     none_or (\<lambda>a. er_status row = Processing \<and> er_runner_attempt row = Some a) expectedAttempt"

section \<open>Candidates\<close>

text \<open>The row built from the candidate before it is merged with the existing one.\<close>

definition candidate_row ::
    "usgs_candidate \<Rightarrow> int \<Rightarrow> event_row option \<Rightarrow> offchain_status \<Rightarrow> string \<Rightarrow> event_row" where
  "candidate_row c nowMs existing st uid = (baseRow (cand_source_event_id c) nowMs)\<lparr>
     er_requested_source_event_id := cand_requested_source_event_id c,
     er_event_uid := Some uid,
     er_status := st,
     er_retry_count := coalesce (map_option er_retry_count existing) 0,
     er_next_retry_at_ms :=
       (if st = New then None else coalesce (map_option er_next_retry_at_ms existing) None),
     er_finalization_deadline_at_ms :=
       coalesce (map_option er_finalization_deadline_at_ms existing)
         (cand_occurred_at_ms c + FINALIZATION_WINDOW_MS),
     er_latest_revision := coalesce (map_option er_latest_revision existing) 0,
     er_last_seen_at_ms := nowMs,
     er_source_updated_at_ms := Some (cand_source_updated_at_ms c),
     er_error_code :=
       (if st = IgnoredSmall then Some ''WATCHER_BELOW_AUTO_THRESHOLD''
        else coalesce (map_option er_error_code existing) None),
     er_created_at_ms := coalesce (map_option er_created_at_ms existing) nowMs\<rparr>"

definition screening_of :: "usgs_candidate \<Rightarrow> bool \<Rightarrow> offchain_status" where
  "screening_of c bypassScreening = (if bypassScreening then New else fst (screenUsgsCandidate c))"

definition upserted_row :: "hash_fn \<Rightarrow> usgs_candidate \<Rightarrow> int \<Rightarrow> bool \<Rightarrow> event_row option \<Rightarrow> js_error + event_row" where
  "upserted_row sha c nowMs bypassScreening existing =
     (let st = nextScreeningStatus (map_option er_status existing) (screening_of c bypassScreening) in
      res_bind (case map_option er_event_uid existing of
                  Some (Some uid) \<Rightarrow> Inr uid | _ \<Rightarrow> candidateEventUid sha c) (\<lambda>uid.
        Inr (mergePreservingResult existing (candidate_row c nowMs existing st uid) nowMs)))"

definition mem_upsertCandidate :: "hash_fn \<Rightarrow> usgs_candidate \<Rightarrow> int \<Rightarrow> bool \<Rightarrow> mem_repo \<Rightarrow> js_error + mem_repo" where
  "mem_upsertCandidate sha c nowMs bypassScreening st =
     res_bind (upserted_row sha c nowMs bypassScreening (mem_get (cand_source_event_id c) st)) (\<lambda>row.
       Inr (set_row (cand_source_event_id c) row st))"

definition manual_candidate :: "string \<Rightarrow> string option \<Rightarrow> int \<Rightarrow> usgs_candidate" where
  "manual_candidate sourceEventId requestedSourceEventId nowMs =
     \<lparr>cand_source_event_id = sourceEventId, cand_requested_source_event_id = requestedSourceEventId,
      cand_occurred_at_ms = nowMs, cand_source_updated_at_ms = nowMs, cand_magnitude = None,
      cand_summary_mmi = None, cand_alert = None, cand_tsunami = False\<rparr>"

definition mem_upsertManualEvent :: "hash_fn \<Rightarrow> string \<Rightarrow> int \<Rightarrow> string option \<Rightarrow> mem_repo \<Rightarrow> js_error + mem_repo" where
  "mem_upsertManualEvent sha sourceEventId nowMs requested st =
     res_bind (mem_upsertCandidate sha (manual_candidate sourceEventId requested nowMs) nowMs True st) (\<lambda>st1.
       Inr (case mem_get sourceEventId st1 of
              None \<Rightarrow> st1
            | Some row \<Rightarrow>
              if er_status row \<in> RESULT_TERMINAL_STATUSES
              then set_row sourceEventId (resetTerminalResultForManualRerun row nowMs) st1
              else if er_status row \<in> DUE_STATUSES
              then set_row sourceEventId (clear_backoff_row nowMs row) st1
              else st1))"

section \<open>Listings\<close>

definition mem_values :: "mem_repo \<Rightarrow> event_row list" where
  "mem_values st = map snd (mr_rows st)"

definition mem_listDue :: "int \<Rightarrow> nat \<Rightarrow> mem_repo \<Rightarrow> event_row list" where
  "mem_listDue nowMs limit st =
     take limit (sort_key er_updated_at_ms (filter (is_due nowMs) (mem_values st)))"

definition proof_retry_key :: "event_row \<Rightarrow> int" where
  "proof_retry_key row = coalesce (er_proof_registration_next_retry_at_ms row) (er_updated_at_ms row)"

definition mem_listDueAffectedCellsProofRegistrations :: "int \<Rightarrow> nat \<Rightarrow> mem_repo \<Rightarrow> event_row list" where
  "mem_listDueAffectedCellsProofRegistrations nowMs limit st =
     take limit (sort_key proof_retry_key
       (filter (\<lambda>row. isDueAffectedCellsProofRegistration row nowMs) (mem_values st)))"

definition mem_claimAffectedCellsProofRegistrationRetry ::
    "string \<Rightarrow> int \<Rightarrow> int \<Rightarrow> mem_repo \<Rightarrow> (int \<times> string) option \<times> mem_repo" where
  "mem_claimAffectedCellsProofRegistrationRetry sid expectedNextRetryAtMs nowMs st =
     (case mem_get sid st of
        None \<Rightarrow> (None, st)
      | Some row \<Rightarrow>
        if \<not> isDueAffectedCellsProofRegistration row nowMs
           \<or> er_proof_registration_next_retry_at_ms row \<noteq> Some expectedNextRetryAtMs
        then (None, st)
        else (case (er_runner_attempt row, er_runner_result_s3_key row) of
                (Some a, Some k) \<Rightarrow> (Some (a, k), set_row sid (proof_lease_row nowMs row) st)
              | _ \<Rightarrow> (None, st)))"

definition mem_hasActiveRunnerWorkflow :: "int option \<Rightarrow> mem_repo \<Rightarrow> bool" where
  "mem_hasActiveRunnerWorkflow staleBeforeMs st =
     list_ex (\<lambda>row. isActiveRunnerWorkflow row staleBeforeMs) (mem_values st)"

section \<open>Workflow start and stop\<close>

definition mem_markWorkflowStarted ::
    "string \<Rightarrow> string \<Rightarrow> int \<Rightarrow> int option \<Rightarrow> int option \<Rightarrow> mem_repo \<Rightarrow> workflow_start option \<times> mem_repo" where
  "mem_markWorkflowStarted sid executionName nowMs expectedRetryCount eventRevision st =
     (case mem_get sid st of
        None \<Rightarrow> (None, st)
      | Some row \<Rightarrow>
        if er_status row \<notin> DUE_STATUSES \<or> \<not> isReadyForRetryOrDeadline row nowMs
           \<or> some_and (\<lambda>n. er_retry_count row \<noteq> n) expectedRetryCount
        then (None, st)
        else let attempt = er_retry_count row + 1;
                 rv = coalesce (or_else eventRevision (er_planned_event_revision row)) 1
             in (Some \<lparr>ws_source_event_id = sid, ws_execution_name = executionName, ws_attempt = attempt,
                       ws_event_revision = rv\<rparr>,
                 set_row sid (start_row executionName attempt rv nowMs row) st))"

definition mem_tryStartRunnerWorkflowExclusively ::
    "string \<Rightarrow> string \<Rightarrow> int \<Rightarrow> int option \<Rightarrow> int option \<Rightarrow> mem_repo \<Rightarrow> workflow_start option \<times> mem_repo" where
  "mem_tryStartRunnerWorkflowExclusively sid executionName nowMs expectedRetryCount eventRevision st =
     (if some_and (\<lambda>l. lock_expires_at_ms l > nowMs) (mr_lock st) then (None, st)
      else case mem_markWorkflowStarted sid executionName nowMs expectedRetryCount eventRevision st of
             (None, st1) \<Rightarrow> (None, st1)
           | (Some started, st1) \<Rightarrow>
               (Some started,
                st1\<lparr>mr_lock := Some (started_lock sid executionName (ws_attempt started) nowMs)\<rparr>))"

definition mem_releaseRunnerWorkflowLock :: "string \<Rightarrow> int \<Rightarrow> mem_repo \<Rightarrow> mem_repo" where
  "mem_releaseRunnerWorkflowLock sid attempt st =
     (if some_and (\<lambda>l. lock_owner l = sid \<and> lock_runner_attempt l = attempt) (mr_lock st)
      then st\<lparr>mr_lock := None\<rparr> else st)"

definition mem_markWorkflowStopped :: "string \<Rightarrow> int \<Rightarrow> int \<Rightarrow> mem_repo \<Rightarrow> bool \<times> mem_repo" where
  "mem_markWorkflowStopped sid attempt nowMs st =
     (case modify sid (\<lambda>row. er_runner_attempt row = Some attempt) (stopped_workflow_row nowMs) st of
        (False, st1) \<Rightarrow> (False, st1)
      | (True, st1) \<Rightarrow> (True, mem_releaseRunnerWorkflowLock sid attempt st1))"

definition mem_updateRunnerWorkflowProgress :: "workflow_progress_update \<Rightarrow> mem_repo \<Rightarrow> bool \<times> mem_repo" where
  "mem_updateRunnerWorkflowProgress inp st =
     modify (wpu_source_event_id inp)
       (\<lambda>row. er_runner_attempt row = Some (wpu_attempt inp)
          \<and> (wpu_allow_non_processing inp \<or> er_status row = Processing))
       (\<lambda>row. applyRunnerWorkflowProgress row inp) st"

section \<open>Results\<close>

definition mem_markFailed ::
    "string \<Rightarrow> error_code \<Rightarrow> int \<Rightarrow> int \<Rightarrow> string option \<Rightarrow> int option \<Rightarrow> mem_repo \<Rightarrow> bool \<times> mem_repo" where
  "mem_markFailed sid errorCode nowMs nextRetryAtMs runnerErrorMessage expectedAttempt st =
     modify sid (fence_processing expectedAttempt) (failed_row errorCode nowMs nextRetryAtMs runnerErrorMessage) st"

definition mem_applyRunnerResult ::
    "string \<Rightarrow> tee_core_result \<Rightarrow> int \<Rightarrow> int option \<Rightarrow> int option \<Rightarrow> mem_repo \<Rightarrow> js_error + bool \<times> mem_repo" where
  "mem_applyRunnerResult sid result nowMs pendingNextRetryAtMs expectedAttempt st =
     (case mem_get sid st of
        None \<Rightarrow> Inr (False, st)
      | Some row \<Rightarrow>
        if \<not> fence_processing expectedAttempt row then Inr (False, st)
        else res_bind (applyResultToRow row result nowMs pendingNextRetryAtMs) (\<lambda>row'.
               Inr (True, set_row sid row' st)))"

definition mem_markRelayerSucceeded :: "string \<Rightarrow> relayer_success \<Rightarrow> int \<Rightarrow> int option \<Rightarrow> mem_repo \<Rightarrow> bool \<times> mem_repo" where
  "mem_markRelayerSucceeded sid success nowMs expectedAttempt st =
     modify sid (fence_attempt expectedAttempt) (relayer_succeeded_row success nowMs) st"

definition mem_markRelayerFailed ::
    "string \<Rightarrow> relayer_mode \<Rightarrow> error_code \<Rightarrow> string \<Rightarrow> int \<Rightarrow> int option \<Rightarrow> mem_repo \<Rightarrow> bool \<times> mem_repo" where
  "mem_markRelayerFailed sid mode errorCode message nowMs expectedAttempt st =
     modify sid (fence_attempt expectedAttempt) (relayer_failed_row mode errorCode message nowMs) st"

definition mem_markSourceArchiveResult ::
    "string \<Rightarrow> source_archive_update \<Rightarrow> int \<Rightarrow> int option \<Rightarrow> mem_repo \<Rightarrow> bool \<times> mem_repo" where
  "mem_markSourceArchiveResult sid inp nowMs expectedAttempt st =
     modify sid (fence_attempt expectedAttempt)
       (\<lambda>row. applySourceArchiveResultToRow row inp nowMs expectedAttempt) st"

definition mem_markAffectedCellsProofRegistrationResult ::
    "string \<Rightarrow> proof_registration_update \<Rightarrow> int \<Rightarrow> int option \<Rightarrow> mem_repo \<Rightarrow> bool \<times> mem_repo" where
  "mem_markAffectedCellsProofRegistrationResult sid inp nowMs expectedAttempt st =
     modify sid (fence_attempt expectedAttempt)
       (\<lambda>row. applyAffectedCellsProofRegistrationResultToRow row inp nowMs expectedAttempt) st"

definition mem_markFloorCensusProcessing :: "string \<Rightarrow> int \<Rightarrow> int option \<Rightarrow> mem_repo \<Rightarrow> bool \<times> mem_repo" where
  "mem_markFloorCensusProcessing sid nowMs expectedAttempt st =
     modify sid (\<lambda>row. er_floor_census_status row \<noteq> Some FcSucceeded \<and> fence_attempt expectedAttempt row)
       (census_processing_row nowMs expectedAttempt) st"

definition mem_markFloorCensusResult ::
    "string \<Rightarrow> floor_census_update \<Rightarrow> int \<Rightarrow> int option \<Rightarrow> mem_repo \<Rightarrow> bool \<times> mem_repo" where
  "mem_markFloorCensusResult sid inp nowMs expectedAttempt st =
     modify sid (fence_attempt expectedAttempt)
       (\<lambda>row. applyFloorCensusResultToRow row inp nowMs expectedAttempt) st"

section \<open>The queue helpers\<close>

definition mem_enqueueRunnerJob ::
    "string \<Rightarrow> int \<Rightarrow> string \<Rightarrow> int \<Rightarrow> int option \<Rightarrow> mem_repo \<Rightarrow> runner_queue_job option \<times> mem_repo" where
  "mem_enqueueRunnerJob sid attempt runnerJobId nowMs eventRevision st =
     (case mem_get sid st of
        None \<Rightarrow> (None, st)
      | Some row \<Rightarrow>
        if er_status row \<notin> DUE_STATUSES \<or> er_retry_count row \<noteq> attempt - 1 then (None, st)
        else let rv = coalesce (or_else eventRevision (er_planned_event_revision row)) 1
             in (Some \<lparr>rqj_runner_job_id = runnerJobId, rqj_source_event_id = sid, rqj_attempt = attempt,
                       rqj_event_revision = rv, rqj_enqueued_at_ms = nowMs\<rparr>,
                 set_row sid (enqueue_row attempt runnerJobId rv nowMs row) st))"

definition mem_markQueueEnqueueFailed :: "string \<Rightarrow> string \<Rightarrow> int \<Rightarrow> int \<Rightarrow> string \<Rightarrow> mem_repo \<Rightarrow> mem_repo" where
  "mem_markQueueEnqueueFailed sid runnerJobId nowMs nextRetryAtMs message st =
     snd (modify sid (\<lambda>row. er_runner_job_id row = Some runnerJobId)
       (enqueue_failed_row nowMs nextRetryAtMs message) st)"

definition mem_claimQueuedForProcessing :: "runner_queue_job \<Rightarrow> int \<Rightarrow> int \<Rightarrow> mem_repo \<Rightarrow> bool \<times> mem_repo" where
  "mem_claimQueuedForProcessing job nowMs timeoutAtMs st =
     modify (rqj_source_event_id job)
       (\<lambda>row. er_status row = Queued \<and> er_runner_job_id row = Some (rqj_runner_job_id job)
          \<and> er_runner_attempt row = Some (rqj_attempt job))
       (claimed_row nowMs timeoutAtMs) st"

definition mem_recordRunnerStarted :: "string \<Rightarrow> string \<Rightarrow> string \<Rightarrow> int \<Rightarrow> int \<Rightarrow> mem_repo \<Rightarrow> mem_repo" where
  "mem_recordRunnerStarted sid runnerJobId runnerId nowMs timeoutAtMs st =
     snd (modify sid (\<lambda>row. er_runner_job_id row = Some runnerJobId)
       (runner_started_row runnerId nowMs timeoutAtMs) st)"

definition mem_recordRunnerStopped :: "string \<Rightarrow> string \<Rightarrow> int \<Rightarrow> mem_repo \<Rightarrow> mem_repo" where
  "mem_recordRunnerStopped sid runnerJobId nowMs st =
     snd (modify sid (\<lambda>row. er_runner_job_id row = Some runnerJobId) (runner_stopped_row nowMs) st)"

definition mem_recordRunnerStopFailed :: "string \<Rightarrow> string \<Rightarrow> string \<Rightarrow> int \<Rightarrow> mem_repo \<Rightarrow> mem_repo" where
  "mem_recordRunnerStopFailed sid runnerJobId message nowMs st =
     snd (modify sid (\<lambda>row. er_runner_job_id row = Some runnerJobId) (runner_stop_failed_row message nowMs) st)"

definition mem_deferUntil :: "string \<Rightarrow> int \<Rightarrow> int \<Rightarrow> mem_repo \<Rightarrow> mem_repo" where
  "mem_deferUntil sid nextRetryAtMs nowMs st = snd (modify sid (\<lambda>_. True) (deferred_row nextRetryAtMs nowMs) st)"

definition mem_markRejected :: "string \<Rightarrow> error_code \<Rightarrow> int \<Rightarrow> mem_repo \<Rightarrow> mem_repo" where
  "mem_markRejected sid errorCode nowMs st = snd (modify sid (\<lambda>_. True) (rejected_row errorCode nowMs) st)"

section \<open>Recovery\<close>

text \<open>
  The loops iterate over the live map; their bodies assign to rows and add none, so iterating over
  the keys and reading each row when it is reached is the same.
\<close>

definition recover_processing_step :: "int \<Rightarrow> int \<Rightarrow> int \<Rightarrow> nat \<times> mem_repo \<Rightarrow> string \<Rightarrow> nat \<times> mem_repo" where
  "recover_processing_step staleBeforeMs nowMs nextRetryAtMs acc sid =
     (case acc of (recovered, st) \<Rightarrow>
        case mem_get sid st of
          None \<Rightarrow> acc
        | Some row \<Rightarrow>
          if er_status row = Processing \<and> er_updated_at_ms row \<le> staleBeforeMs
          then (case mem_markFailed (er_source_event_id row) ''AWS_RUNNER_TIMEOUT'' nowMs nextRetryAtMs None None st of
                  (did, st1) \<Rightarrow> (if did then recovered + 1 else recovered, st1))
          else acc)"

definition mem_recoverStaleProcessing :: "int \<Rightarrow> int \<Rightarrow> int \<Rightarrow> mem_repo \<Rightarrow> nat \<times> mem_repo" where
  "mem_recoverStaleProcessing staleBeforeMs nowMs nextRetryAtMs st =
     foldl (recover_processing_step staleBeforeMs nowMs nextRetryAtMs) (0, st) (map fst (mr_rows st))"

definition recover_queued_step :: "int \<Rightarrow> int \<Rightarrow> int \<Rightarrow> nat \<times> mem_repo \<Rightarrow> string \<Rightarrow> nat \<times> mem_repo" where
  "recover_queued_step staleBeforeMs nowMs nextRetryAtMs acc sid =
     (case acc of (recovered, st) \<Rightarrow>
        case mem_get sid st of
          None \<Rightarrow> acc
        | Some row \<Rightarrow>
          if er_status row = Queued \<and> some_and (\<lambda>t. t \<le> staleBeforeMs) (er_runner_queued_at_ms row)
          then (recovered + 1,
                mem_markQueueEnqueueFailed (er_source_event_id row) (coalesce (er_runner_job_id row) '''')
                  nowMs nextRetryAtMs ''queued runner job was not processed before stale timeout'' st)
          else acc)"

definition mem_recoverStaleQueued :: "int \<Rightarrow> int \<Rightarrow> int \<Rightarrow> mem_repo \<Rightarrow> nat \<times> mem_repo" where
  "mem_recoverStaleQueued staleBeforeMs nowMs nextRetryAtMs st =
     foldl (recover_queued_step staleBeforeMs nowMs nextRetryAtMs) (0, st) (map fst (mr_rows st))"

section \<open>Reading after writing\<close>

lemma mem_get_set_row [simp]: "mem_get k (set_row sid row st) = (if k = sid then Some row else mem_get k st)"
  by (simp add: mem_get_def set_row_def)

lemma mr_lock_set_row [simp]: "mr_lock (set_row sid row st) = mr_lock st"
  by (simp add: set_row_def)

lemma mem_get_lock_update [simp]: "mem_get k (st\<lparr>mr_lock := l\<rparr>) = mem_get k st"
  by (simp add: mem_get_def)

lemma mr_lock_modify [simp]: "mr_lock (snd (modify sid g f st)) = mr_lock st"
  by (simp add: modify_def split: option.split)

lemma modify_cases:
  "modify sid g f st = (b, st') \<Longrightarrow>
     (\<not> b \<and> st' = st \<and> (\<forall>row. mem_get sid st = Some row \<longrightarrow> \<not> g row))
     \<or> (b \<and> (\<exists>row. mem_get sid st = Some row \<and> g row \<and> st' = set_row sid (f row) st))"
  by (auto simp: modify_def split: option.splits if_splits)

section \<open>The repository invariant\<close>

definition mem_inv :: "mem_repo \<Rightarrow> bool" where
  "mem_inv st \<longleftrightarrow> distinct (map fst (mr_rows st))
     \<and> (\<forall>k r. mem_get k st = Some r \<longrightarrow> er_source_event_id r = k \<and> row_inv r)
     \<and> none_or (\<lambda>l. lock_expires_at_ms l = lock_acquired_at_ms l + FAILED_RETRY_BACKOFF_MS) (mr_lock st)"

definition empty_repo :: mem_repo where
  "empty_repo = \<lparr>mr_rows = [], mr_lock = None\<rparr>"

lemma empty_repo_inv: "mem_inv empty_repo"
  by (simp add: mem_inv_def empty_repo_def mem_get_def)

lemma set_row_inv:
  "mem_inv st \<Longrightarrow> er_source_event_id row = sid \<Longrightarrow> row_inv row \<Longrightarrow> mem_inv (set_row sid row st)"
  by (auto simp: mem_inv_def) (simp add: set_row_def distinct_update)

lemma mem_inv_get: "mem_inv st \<Longrightarrow> mem_get k st = Some r \<Longrightarrow> er_source_event_id r = k \<and> row_inv r"
  by (simp add: mem_inv_def)

lemma modify_inv:
  assumes "mem_inv st"
    and "\<And>row. mem_get sid st = Some row \<Longrightarrow> g row \<Longrightarrow> row_inv row \<Longrightarrow>
           row_inv (f row) \<and> er_source_event_id (f row) = er_source_event_id row"
  shows "mem_inv (snd (modify sid g f st))"
  using assms mem_inv_get [OF assms(1), of sid]
  by (auto simp: modify_def split: option.split intro!: set_row_inv)

lemma row_ids [simp]:
  "er_source_event_id (start_row x a rv t r) = er_source_event_id r"
  "er_source_event_id (stopped_workflow_row t r) = er_source_event_id r"
  "er_source_event_id (failed_row e t n m r) = er_source_event_id r"
  "er_source_event_id (relayer_succeeded_row s t r) = er_source_event_id r"
  "er_source_event_id (relayer_failed_row md e msg t r) = er_source_event_id r"
  "er_source_event_id (census_processing_row t ea r) = er_source_event_id r"
  "er_source_event_id (enqueue_row a j rv t r) = er_source_event_id r"
  "er_source_event_id (enqueue_failed_row t n msg r) = er_source_event_id r"
  "er_source_event_id (claimed_row t n r) = er_source_event_id r"
  "er_source_event_id (runner_started_row i t n r) = er_source_event_id r"
  "er_source_event_id (runner_stopped_row t r) = er_source_event_id r"
  "er_source_event_id (runner_stop_failed_row msg t r) = er_source_event_id r"
  "er_source_event_id (deferred_row n t r) = er_source_event_id r"
  "er_source_event_id (rejected_row e t r) = er_source_event_id r"
  "er_source_event_id (proof_lease_row t r) = er_source_event_id r"
  "er_source_event_id (clear_backoff_row t r) = er_source_event_id r"
  "er_source_event_id (applySourceArchiveResultToRow r sau t ea) = er_source_event_id r"
  "er_source_event_id (applyAffectedCellsProofRegistrationResultToRow r pru t ea) = er_source_event_id r"
  "er_source_event_id (applyFloorCensusResultToRow r fcu t ea) = er_source_event_id r"
  "er_source_event_id (applyRunnerWorkflowProgress r wpu) = er_source_event_id r"
  "er_source_event_id (resetTerminalResultForManualRerun r t) = er_source_event_id r"
  "er_source_event_id (finalized_row r v mt t) = er_source_event_id r"
  "er_source_event_id (applyPendingOrRejected r res e os t pn) = er_source_event_id r"
  by (simp_all add: row_defs finalized_row_def Let_def split: stage_status.split)

lemma applyResult_id: "applyResultToRow r res t n = Inr r' \<Longrightarrow> er_source_event_id r' = er_source_event_id r"
  by (erule applyResult_cases) simp_all

section \<open>Candidates keep the invariant and the results\<close>

lemma nextScreening_keeps:
  "st \<notin> {New, IgnoredSmall} \<Longrightarrow> nextScreeningStatus (Some st) s = st"
  by (auto simp: nextScreeningStatus_def)

lemma screening_status: "screening_of c b \<in> {New, IgnoredSmall}"
  by (simp add: screening_of_def screenUsgsCandidate_def)

lemma upserted_cases:
  assumes "upserted_row sha c t b existing = Inr r"
  obtains uid where "r = mergePreservingResult existing
      (candidate_row c t existing (nextScreeningStatus (map_option er_status existing) (screening_of c b)) uid) t"
    and "\<And>ex u. existing = Some ex \<Longrightarrow> er_event_uid ex = Some u \<Longrightarrow> uid = u"
proof -
  obtain uid where u: "(case map_option er_event_uid existing of Some (Some uid) \<Rightarrow> Inr uid
        | _ \<Rightarrow> candidateEventUid sha c) = Inr uid"
    and r: "r = mergePreservingResult existing
      (candidate_row c t existing (nextScreeningStatus (map_option er_status existing) (screening_of c b)) uid) t"
    using assms by (auto simp: upserted_row_def res_bind_Inr_iff Let_def)
  show thesis by (rule that [OF r]) (use u in auto)
qed

lemma upserted_new:
  assumes "upserted_row sha c t b None = Inr r"
  shows "row_inv r \<and> er_source_event_id r = cand_source_event_id c \<and> er_status r \<in> {New, IgnoredSmall}"
proof -
  obtain uid where r: "r = candidate_row c t None (screening_of c b) uid"
    using upserted_cases [OF assms] by (auto simp: mergePreservingResult_def nextScreeningStatus_def)
  show ?thesis
    using screening_status [of c b] by (auto simp: r candidate_row_def baseRow_def row_inv_def)
qed

text \<open>What a candidate leaves of an existing row.\<close>

definition keeps_result :: "event_row \<Rightarrow> event_row \<Rightarrow> bool" where
  "keeps_result ex r \<longleftrightarrow> er_retry_count r = er_retry_count ex
     \<and> er_runner_attempt r = er_runner_attempt ex \<and> er_source_event_id r = er_source_event_id ex
     \<and> er_floor_census_retry_count r = er_floor_census_retry_count ex
     \<and> er_proof_registration_status r = er_proof_registration_status ex
     \<and> er_proof_registration_next_retry_at_ms r = er_proof_registration_next_retry_at_ms ex
     \<and> er_tee_result_json r = er_tee_result_json ex \<and> er_payload_bcs_hex r = er_payload_bcs_hex ex
     \<and> er_signature r = er_signature ex \<and> er_latest_revision r = er_latest_revision ex
     \<and> er_finalized_at_ms r = er_finalized_at_ms ex
     \<and> (er_event_uid ex \<noteq> None \<longrightarrow> er_event_uid r = er_event_uid ex)"

lemma upserted_existing:
  assumes "upserted_row sha c t b (Some ex) = Inr r"
  shows "keeps_result ex r"
    and "er_status r = nextScreeningStatus (Some (er_status ex)) (screening_of c b)"
    and "er_next_retry_at_ms r = (if er_status r = New then None else er_next_retry_at_ms ex)"
    and "er_error_code r = (if er_status ex = IgnoredSmall \<and> er_status r = New then None
          else if er_status r = IgnoredSmall then Some ''WATCHER_BELOW_AUTO_THRESHOLD'' else er_error_code ex)"
proof -
  obtain uid where r: "r = mergePreservingResult (Some ex)
      (candidate_row c t (Some ex) (nextScreeningStatus (Some (er_status ex)) (screening_of c b)) uid) t"
    and uid: "\<And>u. er_event_uid ex = Some u \<Longrightarrow> uid = u"
    using upserted_cases [OF assms] by (metis option.map(2))
  show "keeps_result ex r"
    using uid by (auto simp: r keeps_result_def mergePreservingResult_def candidate_row_def)
  show "er_status r = nextScreeningStatus (Some (er_status ex)) (screening_of c b)"
    "er_next_retry_at_ms r = (if er_status r = New then None else er_next_retry_at_ms ex)"
    "er_error_code r = (if er_status ex = IgnoredSmall \<and> er_status r = New then None
          else if er_status r = IgnoredSmall then Some ''WATCHER_BELOW_AUTO_THRESHOLD'' else er_error_code ex)"
    by (auto simp: r mergePreservingResult_def candidate_row_def)
qed

lemma nextScreening_cases:
  "nextScreeningStatus (Some st) s = st \<or> (st \<in> {New, IgnoredSmall} \<and> nextScreeningStatus (Some st) s = s)"
  by (cases st) (auto simp: nextScreeningStatus_def)

lemma upserted_inv:
  assumes "upserted_row sha c t b (Some ex) = Inr r" and "row_inv ex"
  shows "row_inv r"
proof -
  have "er_status r = er_status ex \<or> er_status r \<in> {New, IgnoredSmall}"
    using nextScreening_cases screening_status upserted_existing(2) [OF assms(1)] by metis
  with upserted_existing(1,4) [OF assms(1)] assms(2) show ?thesis
    by (auto simp: row_inv_def keeps_result_def)
qed

lemma upserted_id: "upserted_row sha c t b (Some ex) = Inr r \<Longrightarrow> er_source_event_id r = er_source_event_id ex"
  using upserted_existing(1) by (simp add: keeps_result_def)

lemma upsertCandidate_inv:
  assumes "mem_inv st" and "mem_upsertCandidate sha c t b st = Inr st'"
  shows "mem_inv st' \<and> mr_lock st' = mr_lock st"
proof -
  obtain r where r: "upserted_row sha c t b (mem_get (cand_source_event_id c) st) = Inr r"
    and st': "st' = set_row (cand_source_event_id c) r st"
    using assms(2) by (auto simp: mem_upsertCandidate_def res_simps)
  have "row_inv r \<and> er_source_event_id r = cand_source_event_id c"
  proof (cases "mem_get (cand_source_event_id c) st")
    case None
    with r upserted_new show ?thesis by metis
  next
    case (Some ex)
    with assms(1) have "row_inv ex" "er_source_event_id ex = cand_source_event_id c"
      by (simp_all add: mem_inv_def)
    with r Some upserted_inv upserted_id show ?thesis by metis
  qed
  with assms(1) st' set_row_inv show ?thesis by simp
qed

lemma upsertManual_inv:
  assumes "mem_inv st" and "mem_upsertManualEvent sha sid t q st = Inr st'"
  shows "mem_inv st' \<and> mr_lock st' = mr_lock st"
proof -
  obtain st1 where st1: "mem_upsertCandidate sha (manual_candidate sid q t) t True st = Inr st1"
    and st': "st' = (case mem_get sid st1 of
              None \<Rightarrow> st1
            | Some row \<Rightarrow>
              if er_status row \<in> RESULT_TERMINAL_STATUSES
              then set_row sid (resetTerminalResultForManualRerun row t) st1
              else if er_status row \<in> DUE_STATUSES
              then set_row sid (clear_backoff_row t row) st1
              else st1)"
    using assms(2) by (auto simp: mem_upsertManualEvent_def res_simps)
  from upsertCandidate_inv [OF assms(1) st1] have inv: "mem_inv st1" "mr_lock st1 = mr_lock st" by auto
  then show ?thesis
    using mem_inv_get [OF inv(1), of sid]
    by (auto simp: st' row_inv_transitions split: option.split intro!: set_row_inv)
qed

section \<open>The repository\<close>

text \<open>\<open>class InMemoryStateRepository implements StateRepository\<close>.\<close>

definition mem_repository :: "hash_fn \<Rightarrow> mem_repo repository" where
  "mem_repository sha =
    \<lparr>rp_upsertCandidate = (\<lambda>c t b. io_try (\<lambda>st. map_sum id (Pair ()) (mem_upsertCandidate sha c t b st))),
     rp_upsertManualEvent = (\<lambda>k t q. io_try (\<lambda>st. map_sum id (Pair ()) (mem_upsertManualEvent sha k t q st))),
     rp_get = (\<lambda>k. io_read (mem_get k)),
     rp_listDue = (\<lambda>t n. io_read (mem_listDue t n)),
     rp_listDueAffectedCellsProofRegistrations =
       (\<lambda>t n. io_read (mem_listDueAffectedCellsProofRegistrations t n)),
     rp_claimAffectedCellsProofRegistrationRetry =
       (\<lambda>k x t. io_pure (mem_claimAffectedCellsProofRegistrationRetry k x t)),
     rp_hasActiveRunnerWorkflow = (\<lambda>s. io_read (mem_hasActiveRunnerWorkflow s)),
     rp_tryStartRunnerWorkflowExclusively =
       (\<lambda>k nm t ex rv. io_pure (mem_tryStartRunnerWorkflowExclusively k nm t ex rv)),
     rp_markWorkflowStarted = (\<lambda>k nm t ex rv. io_pure (mem_markWorkflowStarted k nm t ex rv)),
     rp_markWorkflowStopped = (\<lambda>k a t. io_pure (mem_markWorkflowStopped k a t)),
     rp_updateRunnerWorkflowProgress = (\<lambda>w. io_pure (mem_updateRunnerWorkflowProgress w)),
     rp_markFailed = (\<lambda>k e t n m a. io_pure (mem_markFailed k e t n m a)),
     rp_applyRunnerResult = (\<lambda>k r t n a. io_try (mem_applyRunnerResult k r t n a)),
     rp_markRelayerSucceeded = (\<lambda>k s t a. io_pure (mem_markRelayerSucceeded k s t a)),
     rp_markRelayerFailed = (\<lambda>k md e m t a. io_pure (mem_markRelayerFailed k md e m t a)),
     rp_markSourceArchiveResult = (\<lambda>k u t a. io_pure (mem_markSourceArchiveResult k u t a)),
     rp_markAffectedCellsProofRegistrationResult =
       (\<lambda>k u t a. io_pure (mem_markAffectedCellsProofRegistrationResult k u t a)),
     rp_markFloorCensusProcessing = (\<lambda>k t a. io_pure (mem_markFloorCensusProcessing k t a)),
     rp_markFloorCensusResult = (\<lambda>k u t a. io_pure (mem_markFloorCensusResult k u t a)),
     rp_enqueueRunnerJob = (\<lambda>k a j t rv. io_pure (mem_enqueueRunnerJob k a j t rv)),
     rp_markQueueEnqueueFailed = (\<lambda>k j t n m. io_write (mem_markQueueEnqueueFailed k j t n m)),
     rp_claimQueuedForProcessing = (\<lambda>j t n. io_pure (mem_claimQueuedForProcessing j t n)),
     rp_recordRunnerStarted = (\<lambda>k j i t n. io_write (mem_recordRunnerStarted k j i t n)),
     rp_recordRunnerStopped = (\<lambda>k j t. io_write (mem_recordRunnerStopped k j t)),
     rp_recordRunnerStopFailed = (\<lambda>k j m t. io_write (mem_recordRunnerStopFailed k j m t)),
     rp_deferUntil = (\<lambda>k n t. io_write (mem_deferUntil k n t)),
     rp_markRejected = (\<lambda>k e t. io_write (mem_markRejected k e t)),
     rp_recoverStaleProcessing = (\<lambda>s t n. io_pure (mem_recoverStaleProcessing s t n)),
     rp_recoverStaleQueued = (\<lambda>s t n. io_pure (mem_recoverStaleQueued s t n))\<rparr>"

section \<open>Every operation keeps the invariant and, but for start and stop, the lock\<close>

text \<open>The invariant with the value of the lock.\<close>

definition mem_ok :: "runner_lock option \<Rightarrow> mem_repo \<Rightarrow> bool" where
  "mem_ok l st \<longleftrightarrow> mem_inv st \<and> mr_lock st = l"

lemma modify_ok:
  assumes "mem_ok l st"
    and "\<And>row. g row \<Longrightarrow> row_inv row \<Longrightarrow>
           row_inv (f row) \<and> er_source_event_id (f row) = er_source_event_id row"
  shows "mem_ok l (snd (modify sid g f st))"
  using assms modify_inv [of st sid g f] by (simp add: mem_ok_def)

lemma set_row_ok:
  "mem_ok l st \<Longrightarrow> er_source_event_id row = sid \<Longrightarrow> row_inv row \<Longrightarrow> mem_ok l (set_row sid row st)"
  by (simp add: mem_ok_def set_row_inv)

lemma mem_ok_get: "mem_ok l st \<Longrightarrow> mem_get k st = Some r \<Longrightarrow> er_source_event_id r = k \<and> row_inv r"
  unfolding mem_ok_def using mem_inv_get by blast

lemma keeps_modify: "(\<And>st. mem_ok l st \<Longrightarrow> mem_ok l (snd (f st))) \<Longrightarrow> keeps (mem_ok l) (io_pure f)"
  "(\<And>st. mem_ok l st \<Longrightarrow> mem_ok l (g st)) \<Longrightarrow> keeps (mem_ok l) (io_write g)"
  by (simp_all add: keeps_def io_prims)

lemma keeps_io_try:
  assumes "\<And>st x st'. mem_ok l st \<Longrightarrow> f st = Inr (x, st') \<Longrightarrow> mem_ok l st'"
  shows "keeps (mem_ok l) (io_try f)"
  using assms by (auto simp: keeps_def io_try_def split: sum.split)

lemma mem_claim_ok:
  "mem_ok l st \<Longrightarrow> mem_ok l (snd (mem_claimAffectedCellsProofRegistrationRetry k x t st))"
  by (auto simp: mem_claimAffectedCellsProofRegistrationRetry_def isDueAffectedCellsProofRegistration_def
      row_inv_transitions split: option.split dest: mem_ok_get intro!: set_row_ok)

lemma mem_start_ok: "mem_ok l st \<Longrightarrow> mem_ok l (snd (mem_markWorkflowStarted k nm t ex rv st))"
  by (auto simp: mem_markWorkflowStarted_def Let_def row_inv_transitions split: option.split
      dest: mem_ok_get intro!: set_row_ok)

lemma mem_enqueue_ok: "mem_ok l st \<Longrightarrow> mem_ok l (snd (mem_enqueueRunnerJob k a j t rv st))"
  by (auto simp: mem_enqueueRunnerJob_def Let_def row_inv_transitions split: option.split
      dest: mem_ok_get intro!: set_row_ok)

lemma mem_result_ok:
  "mem_ok l st \<Longrightarrow> mem_applyRunnerResult k r t n a st = Inr (b, st') \<Longrightarrow> mem_ok l st'"
  by (auto simp: mem_applyRunnerResult_def res_simps applyResult_id split: option.splits if_splits
      dest: mem_ok_get applyResult_inv intro!: set_row_ok)

lemma mem_failed_ok: "mem_ok l st \<Longrightarrow> mem_ok l (snd (mem_markFailed k e t n m a st))"
  by (auto simp: mem_markFailed_def row_inv_transitions intro!: modify_ok)

lemma mem_enqueue_failed_ok: "mem_ok l st \<Longrightarrow> mem_ok l (mem_markQueueEnqueueFailed k j t n m st)"
  by (auto simp: mem_markQueueEnqueueFailed_def row_inv_transitions intro!: modify_ok)

lemma foldl_inv: "P a \<Longrightarrow> (\<And>x y. P x \<Longrightarrow> P (f x y)) \<Longrightarrow> P (foldl f a ys)"
  by (induction ys arbitrary: a) auto

lemma recover_step_ok:
  assumes "mem_ok l (snd acc)"
  shows "mem_ok l (snd (recover_processing_step s t n acc k))" "mem_ok l (snd (recover_queued_step s t n acc k))"
proof -
  obtain i st where acc: "acc = (i, st)" by fastforce
  with assms have st: "mem_ok l st" by simp
  show "mem_ok l (snd (recover_processing_step s t n acc k))"
    using mem_failed_ok [OF st] st
    by (auto simp: acc recover_processing_step_def split: option.split prod.split dest: sym)
      (metis snd_conv)
  show "mem_ok l (snd (recover_queued_step s t n acc k))"
    using mem_enqueue_failed_ok [OF st] st by (simp add: acc recover_queued_step_def split: option.split)
qed

lemma mem_recover_ok:
  assumes "mem_ok l st"
  shows "mem_ok l (snd (mem_recoverStaleProcessing s t n st))"
    and "mem_ok l (snd (mem_recoverStaleQueued s t n st))"
  unfolding mem_recoverStaleProcessing_def mem_recoverStaleQueued_def
  by (rule foldl_inv [where P = "\<lambda>x. mem_ok l (snd x)"], simp add: assms, rule recover_step_ok, assumption)+

lemmas mem_op_defs =
  mem_updateRunnerWorkflowProgress_def mem_markFailed_def mem_markRelayerSucceeded_def
  mem_markRelayerFailed_def mem_markSourceArchiveResult_def
  mem_markAffectedCellsProofRegistrationResult_def mem_markFloorCensusProcessing_def
  mem_markFloorCensusResult_def mem_markQueueEnqueueFailed_def mem_claimQueuedForProcessing_def
  mem_recordRunnerStarted_def mem_recordRunnerStopped_def mem_recordRunnerStopFailed_def
  mem_deferUntil_def mem_markRejected_def

lemma mem_modify_ok:
  assumes "mem_ok l st"
  shows "mem_ok l (snd (mem_updateRunnerWorkflowProgress w st))"
    and "mem_ok l (snd (mem_markRelayerSucceeded k su t a st))"
    and "mem_ok l (snd (mem_markRelayerFailed k md e m t a st))"
    and "mem_ok l (snd (mem_markSourceArchiveResult k sau t a st))"
    and "mem_ok l (snd (mem_markAffectedCellsProofRegistrationResult k pru t a st))"
    and "mem_ok l (snd (mem_markFloorCensusProcessing k t a st))"
    and "mem_ok l (snd (mem_markFloorCensusResult k fcu t a st))"
    and "mem_ok l (snd (mem_claimQueuedForProcessing qj t n st))"
    and "mem_ok l (mem_recordRunnerStarted k j i t n st)"
    and "mem_ok l (mem_recordRunnerStopped k j t st)"
    and "mem_ok l (mem_recordRunnerStopFailed k j m t st)"
    and "mem_ok l (mem_deferUntil k n t st)"
    and "mem_ok l (mem_markRejected k e t st)"
  using assms by (auto simp: mem_op_defs row_inv_transitions intro!: modify_ok)

lemma mem_upsert_ok:
  assumes "mem_ok l st"
  shows "mem_upsertCandidate sha c t b st = Inr st' \<Longrightarrow> mem_ok l st'"
    and "mem_upsertManualEvent sha k t q st = Inr st' \<Longrightarrow> mem_ok l st'"
  using assms upsertCandidate_inv [of st] upsertManual_inv [of st] unfolding mem_ok_def by blast+

lemma mem_started:
  assumes "mem_inv st"
    and "mem_tryStartRunnerWorkflowExclusively k nm t ex rv st = (Some w, st')"
  shows "mem_inv st' \<and> lock_free t (mr_lock st)
    \<and> (\<exists>r rv'. mem_get k st = Some r \<and> startable r t ex \<and> ws_attempt w = er_retry_count r + 1
         \<and> mem_get k st' = Some (start_row nm (ws_attempt w) rv' t r))
    \<and> (\<forall>k'. k' \<noteq> k \<longrightarrow> mem_get k' st' = mem_get k' st)
    \<and> mr_lock st' = Some (started_lock k nm (ws_attempt w) t)"
proof -
  from assms(2) obtain r where r: "mem_get k st = Some r" "startable r t ex" "lock_free t (mr_lock st)"
    and w: "ws_attempt w = er_retry_count r + 1"
    and st': "st' = (set_row k (start_row nm (ws_attempt w) (ws_event_revision w) t r) st)
      \<lparr>mr_lock := Some (started_lock k nm (ws_attempt w) t)\<rparr>"
    by (auto simp: mem_tryStartRunnerWorkflowExclusively_def mem_markWorkflowStarted_def startable_def
        lock_free_def none_or_def some_and_def Let_def split: if_splits option.splits)
  have "mem_inv (set_row k (start_row nm (ws_attempt w) (ws_event_revision w) t r) st)"
    using mem_inv_get [OF assms(1) r(1)] w by (auto intro!: set_row_inv assms(1) row_inv_transitions)
  then have "mem_inv st'"
    by (simp add: st' mem_inv_def started_lock_def)
  with r w show ?thesis by (auto simp: st')
qed

lemma mem_not_started:
  "mem_tryStartRunnerWorkflowExclusively k nm t ex rv st = (None, st') \<Longrightarrow> st' = st"
  by (auto simp: mem_tryStartRunnerWorkflowExclusively_def mem_markWorkflowStarted_def Let_def
      split: if_splits option.splits prod.splits)

lemma mem_stopped:
  assumes "mem_inv st" and "mem_markWorkflowStopped k a t st = (b, st')"
  shows "mem_inv st' \<and> (mr_lock st' = mr_lock st \<or> lock_held_by k a (mr_lock st) \<and> mr_lock st' = None)"
proof -
  obtain b1 st1 where m: "modify k (\<lambda>row. er_runner_attempt row = Some a) (stopped_workflow_row t) st = (b1, st1)"
    by fastforce
  have inv: "mem_inv st1"
    using modify_inv [OF assms(1), of k "\<lambda>row. er_runner_attempt row = Some a" "stopped_workflow_row t"] m
    by (simp add: row_inv_transitions)
  have lock: "mr_lock st1 = mr_lock st"
    using mr_lock_modify [of k "\<lambda>row. er_runner_attempt row = Some a" "stopped_workflow_row t" st] m by simp
  have "mem_inv (mem_releaseRunnerWorkflowLock k a st1)"
    using inv by (simp add: mem_releaseRunnerWorkflowLock_def mem_inv_def)
  moreover have "st' = st1 \<or> st' = mem_releaseRunnerWorkflowLock k a st1"
    using assms(2) m by (auto simp: mem_markWorkflowStopped_def split: bool.splits)
  ultimately show ?thesis
    using inv lock by (auto simp: mem_releaseRunnerWorkflowLock_def lock_held_by_def split: if_splits)
qed

lemma io_pure_run: "io_pure f st = (Inr x, st') \<longleftrightarrow> f st = (x, st')" "io_pure f st \<noteq> (Inl e, st')"
  by (auto simp: io_pure_def intro: prod_eqI)

lemma mem_active:
  "mem_get k st = Some r \<Longrightarrow> isActiveRunnerWorkflow r so \<Longrightarrow> mem_hasActiveRunnerWorkflow so st"
  by (force simp: mem_hasActiveRunnerWorkflow_def mem_values_def mem_get_def list_ex_iff dest: map_of_SomeD)

lemma mem_listDue_ok: "length (mem_listDue t n st) \<le> n \<and> list_all (is_due t) (mem_listDue t n st)"
  by (auto simp: mem_listDue_def list_all_iff dest: in_set_takeD)

lemma keeps_mem_try:
  "(\<And>st st'. mem_ok l st \<Longrightarrow> f st = Inr st' \<Longrightarrow> mem_ok l st') \<Longrightarrow>
     keeps (mem_ok l) (io_try (\<lambda>st. map_sum id (Pair ()) (f st)))"
  by (rule keeps_io_try) (auto simp: map_sum_def split: sum.splits)

lemma mem_ok_eq: "(\<lambda>st. mem_inv st \<and> mr_lock st = l) = mem_ok l"
  by (simp add: mem_ok_def fun_eq_iff)

lemma mem_keeps:
  "keeps (mem_ok l) (io_try (\<lambda>st. map_sum id (Pair ()) (mem_upsertCandidate sha c t b st)))"
  "keeps (mem_ok l) (io_try (\<lambda>st. map_sum id (Pair ()) (mem_upsertManualEvent sha k t q st)))"
  "keeps (mem_ok l) (io_try (mem_applyRunnerResult k tr t no a))"
  by (rule keeps_mem_try, erule (1) mem_upsert_ok)+ (rule keeps_io_try, erule (1) mem_result_ok)

lemmas mem_keeps_simps = mem_keeps keeps_prims
  mem_claim_ok [THEN keeps_modify(1)] mem_start_ok [THEN keeps_modify(1)]
  mem_enqueue_ok [THEN keeps_modify(1)] mem_failed_ok [THEN keeps_modify(1)]
  mem_enqueue_failed_ok [THEN keeps_modify(2)]
  mem_modify_ok(1-8) [THEN keeps_modify(1)] mem_modify_ok(9-13) [THEN keeps_modify(2)]
  mem_recover_ok [THEN keeps_modify(1)]

text \<open>Every law of the contract.\<close>

interpretation mem: state_repository "mem_repository sha" mem_inv mem_get mr_lock
proof
  fix st k r assume "mem_inv st" "mem_get k st = Some r"
  then show "er_source_event_id r = k \<and> row_inv r" by (rule mem_inv_get)
next
  fix st st' k nm t ex rv w
  assume "mem_inv st"
    and "rp_tryStartRunnerWorkflowExclusively (mem_repository sha) k nm t ex rv st = (Inr (Some w), st')"
  then show "mem_inv st' \<and> lock_free t (mr_lock st)
      \<and> (\<exists>r rv'. mem_get k st = Some r \<and> startable r t ex \<and> ws_attempt w = er_retry_count r + 1
           \<and> mem_get k st' = Some (start_row nm (ws_attempt w) rv' t r))
      \<and> (\<forall>k'. k' \<noteq> k \<longrightarrow> mem_get k' st' = mem_get k' st)
      \<and> mr_lock st' = Some (started_lock k nm (ws_attempt w) t)"
    by (intro mem_started) (simp_all add: mem_repository_def io_pure_run)
next
  fix st st' k nm t ex rv
  assume "mem_inv st"
    and "rp_tryStartRunnerWorkflowExclusively (mem_repository sha) k nm t ex rv st = (Inr None, st')"
  then show "mem_inv st' \<and> mr_lock st' = mr_lock st"
    using mem_not_started by (simp add: mem_repository_def io_pure_run) blast
next
  fix st st' k nm t ex rv and e :: js_error
  assume "rp_tryStartRunnerWorkflowExclusively (mem_repository sha) k nm t ex rv st = (Inl e, st')"
  then show "mem_inv st' \<and> (mr_lock st' = mr_lock st \<or> lock_free t (mr_lock st))"
    by (simp add: mem_repository_def io_pure_run)
next
  fix st st' k a t and r' :: "js_error + bool"
  assume "mem_inv st" and "rp_markWorkflowStopped (mem_repository sha) k a t st = (r', st')"
  then show "mem_inv st' \<and> (mr_lock st' = mr_lock st \<or> lock_held_by k a (mr_lock st) \<and> mr_lock st' = None)"
    using mem_stopped [of st k a t "fst (mem_markWorkflowStopped k a t st)" st']
    by (auto simp: mem_repository_def io_pure_def)
next
  fix st st' so b k r
  assume "rp_hasActiveRunnerWorkflow (mem_repository sha) so st = (Inr b, st')"
    and "mem_get k st = Some r" "isActiveRunnerWorkflow r so"
  then show b by (auto simp: mem_repository_def io_read_def intro: mem_active)
next
  fix st st' so k and rb :: "js_error + bool"
  assume "rp_hasActiveRunnerWorkflow (mem_repository sha) so st = (rb, st')"
  then show "mem_get k st' = mem_get k st" by (simp add: mem_repository_def io_read_def)
next
  fix st st' t mx rows
  assume "rp_listDue (mem_repository sha) t mx st = (Inr rows, st')"
  then show "length rows \<le> mx \<and> list_all (is_due t) rows"
    using mem_listDue_ok [of t mx st] by (auto simp: mem_repository_def io_read_def)
qed (simp_all add: mem_ok_eq mem_repository_def mem_keeps_simps)

section \<open>Recovery of stale workflows\<close>

definition is_stale :: "int \<Rightarrow> event_row \<Rightarrow> bool" where
  "is_stale s r \<longleftrightarrow> er_status r = Processing \<and> er_updated_at_ms r \<le> s"

lemma recover_processing_step_eq:
  assumes "mem_inv st"
  shows "recover_processing_step s t n (c, st) k =
    (case mem_get k st of
       Some r \<Rightarrow> if is_stale s r then (Suc c, set_row k (failed_row ''AWS_RUNNER_TIMEOUT'' t n None r) st) else (c, st)
     | None \<Rightarrow> (c, st))"
  using mem_inv_get [OF assms, of k]
  by (auto simp: recover_processing_step_def is_stale_def mem_markFailed_def modify_def fence_processing_def
      split: option.split)

lemma recover_processing_step_inv:
  assumes "mem_inv st"
  shows "mem_inv (snd (recover_processing_step s t n (c, st) k))"
  using recover_step_ok(1) [of "mr_lock st" "(c, st)"] assms by (simp add: mem_ok_def)

lemma recover_processing_fold:
  assumes "distinct ks" and "mem_inv st"
    and "foldl (recover_processing_step s t n) (c, st) ks = (c', st')"
  shows "c' = c + length (filter (\<lambda>k. some_and (is_stale s) (mem_get k st)) ks)
    \<and> (\<forall>k. mem_get k st' = (if k \<in> set ks
         then map_option (\<lambda>r. if is_stale s r then failed_row ''AWS_RUNNER_TIMEOUT'' t n None r else r) (mem_get k st)
         else mem_get k st))"
  using assms
proof (induction ks arbitrary: c st)
  case (Cons k ks)
  obtain c1 st1 where step: "recover_processing_step s t n (c, st) k = (c1, st1)" by fastforce
  have inv1: "mem_inv st1"
    using recover_processing_step_inv [OF Cons.prems(2), of s t n c k] step by simp
  from Cons.IH [of st1 c1] Cons.prems inv1 step
  have IH: "c' = c1 + length (filter (\<lambda>k. some_and (is_stale s) (mem_get k st1)) ks)"
    "\<And>k'. mem_get k' st' = (if k' \<in> set ks
         then map_option (\<lambda>r. if is_stale s r then failed_row ''AWS_RUNNER_TIMEOUT'' t n None r else r) (mem_get k' st1)
         else mem_get k' st1)" by auto
  have st1: "c1 = (if some_and (is_stale s) (mem_get k st) then Suc c else c)"
    "\<And>k'. mem_get k' st1 = (if k' = k
         then map_option (\<lambda>r. if is_stale s r then failed_row ''AWS_RUNNER_TIMEOUT'' t n None r else r) (mem_get k st)
         else mem_get k' st)"
    using step unfolding recover_processing_step_eq [OF Cons.prems(2)]
    by (auto split: option.splits if_splits)
  have "filter (\<lambda>k. some_and (is_stale s) (mem_get k st1)) ks = filter (\<lambda>k. some_and (is_stale s) (mem_get k st)) ks"
    using Cons.prems(1) st1(2) by (intro filter_cong) auto
  with IH st1 Cons.prems(1) show ?case by auto
qed simp

lemma mem_get_values:
  "mem_inv st \<Longrightarrow> length (filter (\<lambda>k. some_and p (mem_get k st)) (map fst (mr_rows st)))
     = length (filter p (mem_values st))"
proof -
  assume "mem_inv st"
  then have "\<And>x. x \<in> set (mr_rows st) \<Longrightarrow> mem_get (fst x) st = Some (snd x)"
    by (auto simp: mem_inv_def mem_get_def intro: map_of_is_SomeI)
  then show ?thesis
    by (simp add: mem_values_def filter_map comp_def cong: filter_cong)
qed

lemma mem_rows_own_id:
  assumes "mem_inv st" and "x \<in> set (mr_rows st)"
  shows "mem_get (fst x) st = Some (snd x) \<and> er_source_event_id (snd x) = fst x"
proof -
  have "mem_get (fst x) st = Some (snd x)" using assms by (simp add: mem_inv_def mem_get_def map_of_is_SomeI)
  with mem_inv_get [OF assms(1)] show ?thesis by blast
qed

lemma mem_values_iff:
  assumes "mem_inv st"
  shows "r \<in> set (mem_values st) \<longleftrightarrow> mem_get (er_source_event_id r) st = Some r"
proof
  assume "r \<in> set (mem_values st)"
  with mem_rows_own_id [OF assms] show "mem_get (er_source_event_id r) st = Some r" by (auto simp: mem_values_def)
next
  assume "mem_get (er_source_event_id r) st = Some r"
  then show "r \<in> set (mem_values st)"
    by (auto simp: mem_values_def mem_get_def dest!: map_of_SomeD intro: rev_image_eqI)
qed

lemma mem_values_distinct:
  assumes "mem_inv st"
  shows "distinct (map er_source_event_id (mem_values st))"
proof -
  have "map er_source_event_id (mem_values st) = map fst (mr_rows st)"
    using mem_rows_own_id [OF assms] by (simp add: mem_values_def)
  with assms show ?thesis by (simp add: mem_inv_def)
qed

end
