(* ===== verification/MemRepoProps.thy ===== *)
theory MemRepoProps
  imports MemRepo
begin

text \<open>
  What the in-memory repository guarantees: exclusive workflows and fenced writes over any history of
  calls, exact recovery, complete and ordered listings, results that outlive new candidates, and the
  way a failed workflow returns to be started again.
\<close>

section \<open>A concrete repository\<close>

text \<open>One event, ready to be started.\<close>

definition sample_repo :: mem_repo where
  "sample_repo = \<lparr>mr_rows = [(''us7000abcd'', baseRow ''us7000abcd'' 1000)], mr_lock = None\<rparr>"

lemma sample_repo_inv: "mem_inv sample_repo"
  using base_inv by (simp add: mem_inv_def sample_repo_def mem_get_def) (simp add: baseRow_def)

definition sample_started :: "workflow_start option \<times> mem_repo" where
  "sample_started = mem_tryStartRunnerWorkflowExclusively ''us7000abcd'' ''run'' 2000 None None sample_repo"

lemma sample_started_eq:
  "sample_started = (Some \<lparr>ws_source_event_id = ''us7000abcd'', ws_execution_name = ''run'', ws_attempt = 1,
       ws_event_revision = 1\<rparr>,
     \<lparr>mr_rows = [(''us7000abcd'', start_row ''run'' 1 1 2000 (baseRow ''us7000abcd'' 1000))],
      mr_lock = Some (started_lock ''us7000abcd'' ''run'' 1 2000)\<rparr>)"
  by (simp add: sample_started_def sample_repo_def mem_tryStartRunnerWorkflowExclusively_def
      mem_markWorkflowStarted_def mem_get_def set_row_def DUE_STATUSES_def isReadyForRetryOrDeadline_def baseRow_def)

lemma sample_started_inv: "mem_inv (snd sample_started)"
  using mem_started [OF sample_repo_inv, of "''us7000abcd''" "''run''" 2000 None None] sample_started_eq
  by (simp add: sample_started_def)

lemma sample_start_step:
  "repo_step (mem_repository sha) sample_repo (EvStarted ''us7000abcd'' 1 2000) (snd sample_started)"
proof -
  have "rp_tryStartRunnerWorkflowExclusively (mem_repository sha) ''us7000abcd'' ''run'' 2000 None None sample_repo
    = (Inr (Some (the (fst sample_started))), snd sample_started)"
    using sample_started_eq by (simp add: mem_repository_def io_pure_def sample_started_def)
  from repo_step.step_started [OF this] show ?thesis by (simp add: sample_started_eq)
qed

section \<open>Properties\<close>

text \<open>A stale workflow is failed and nothing else changes: recovery counts the processing rows that
  have not changed since the stale time, turns each of them into a failed row with one more retry, the
  timeout error and the given retry time, and leaves every other row as it is.\<close>

theorem mem_recovery_exact:
  assumes "mem_inv st" and "mem_recoverStaleProcessing s t n st = (c, st')"
  shows "c = length (filter (is_stale s) (mem_values st))
    \<and> (\<forall>k. mem_get k st' =
         map_option (\<lambda>r. if is_stale s r then failed_row ''AWS_RUNNER_TIMEOUT'' t n None r else r) (mem_get k st))"
proof -
  have d: "distinct (map fst (mr_rows st))" using assms(1) by (simp add: mem_inv_def)
  from recover_processing_fold [OF d assms(1) assms(2) [unfolded mem_recoverStaleProcessing_def]]
  have "c = length (filter (\<lambda>k. some_and (is_stale s) (mem_get k st)) (map fst (mr_rows st)))"
    and "\<And>k. mem_get k st' = (if k \<in> set (map fst (mr_rows st))
         then map_option (\<lambda>r. if is_stale s r then failed_row ''AWS_RUNNER_TIMEOUT'' t n None r else r) (mem_get k st)
         else mem_get k st)" by auto
  moreover have "k \<notin> set (map fst (mr_rows st)) \<Longrightarrow> mem_get k st = None" for k
    by (auto simp: mem_get_def map_of_eq_None_iff)
  ultimately show ?thesis using mem_get_values [OF assms(1), of "is_stale s"] by (auto split: if_splits)
qed

theorem mem_recovery_exact_witness:
  "\<exists>c st'. mem_recoverStaleProcessing 3000 9000 10000 (snd sample_started) = (c, st')
     \<and> c = length (filter (is_stale 3000) (mem_values (snd sample_started)))
     \<and> (\<forall>k. mem_get k st' = map_option
          (\<lambda>r. if is_stale 3000 r then failed_row ''AWS_RUNNER_TIMEOUT'' 9000 10000 None r else r)
          (mem_get k (snd sample_started)))"
proof -
  obtain c st' where "mem_recoverStaleProcessing 3000 9000 10000 (snd sample_started) = (c, st')" by fastforce
  with mem_recovery_exact [OF sample_started_inv this] show ?thesis by blast
qed

text \<open>At most one runner workflow at a time: once a start has returned a workflow, no call of any kind
  lets another start return one, until the workflow's own stop is called or a start is attempted ten
  minutes or more after it.\<close>

theorem mem_runner_exclusive:
  assumes "mem_inv st" and "repo_step (mem_repository sha) st (EvStarted k a t) st1"
    and "repo_run (mem_repository sha) st1 evs st2" and "EvStop k a \<notin> set evs"
    and "\<forall>ev\<in>set evs. \<forall>k' a' t'. ev = EvStarted k' a' t' \<or> ev = EvStartThrew k' t' \<longrightarrow> t' < t + FAILED_RETRY_BACKOFF_MS"
  shows "\<forall>k' a' t'. EvStarted k' a' t' \<notin> set evs"
  using mem.exclusive [OF assms(3) mem.holds_after_start [OF assms(2,1)] assms(4,5)] by blast

theorem mem_runner_exclusive_witness:
  "\<exists>st1 st2. repo_step (mem_repository checksum32) sample_repo (EvStarted ''us7000abcd'' 1 2000) st1
     \<and> repo_run (mem_repository checksum32) st1 [EvOther] st2
     \<and> (\<forall>k' a' t'. EvStarted k' a' t' \<notin> set [EvOther])"
proof -
  have "rp_get (mem_repository checksum32) ''us7000abcd'' (snd sample_started)
      = (Inr (mem_get ''us7000abcd'' (snd sample_started)), snd sample_started)"
    by (simp add: mem_repository_def io_read_def)
  then have run: "repo_run (mem_repository checksum32) (snd sample_started) [EvOther] (snd sample_started)"
    by (rule run_cons [OF repo_step.step_get run_nil])
  from mem_runner_exclusive [OF sample_repo_inv sample_start_step run] sample_start_step run
  show ?thesis by fastforce
qed

text \<open>Every history of calls keeps the rows well formed: each row is stored once, under its own id,
  its retries are not negative, a queued or processing row carries the attempt that follows its retries,
  and a proof registration has a retry time exactly while it is retryable.\<close>

theorem mem_reachable_rows:
  assumes "repo_run (mem_repository sha) empty_repo evs st" and "mem_get k st = Some r"
  shows "distinct (map fst (mr_rows st)) \<and> er_source_event_id r = k \<and> 0 \<le> er_retry_count r
    \<and> (er_status r \<in> {Queued, Processing} \<longrightarrow> er_runner_attempt r = Some (er_retry_count r + 1))
    \<and> ((er_proof_registration_next_retry_at_ms r \<noteq> None) =
        (er_proof_registration_status r = Some RetryableFailed))"
proof -
  have "mem_inv st" using mem.run_inv [OF assms(1) empty_repo_inv] .
  then show ?thesis using mem_inv_get [OF _ assms(2)] by (simp add: mem_inv_def row_inv_def)
qed

text \<open>A runner of an earlier attempt cannot write: with an expected attempt that is not the row's, every
  fenced operation returns false and changes nothing.\<close>

theorem mem_fencing:
  assumes "mem_get k st = Some r" and "er_runner_attempt r \<noteq> Some a"
  shows "mem_markFailed k e t n m (Some a) st = (False, st)
    \<and> mem_applyRunnerResult k res t no (Some a) st = Inr (False, st)
    \<and> mem_markRelayerSucceeded k su t (Some a) st = (False, st)
    \<and> mem_markRelayerFailed k md e msg t (Some a) st = (False, st)
    \<and> mem_markSourceArchiveResult k sau t (Some a) st = (False, st)
    \<and> mem_markAffectedCellsProofRegistrationResult k pru t (Some a) st = (False, st)
    \<and> mem_markFloorCensusProcessing k t (Some a) st = (False, st)
    \<and> mem_markFloorCensusResult k fcu t (Some a) st = (False, st)
    \<and> mem_markWorkflowStopped k a t st = (False, st)
    \<and> mem_updateRunnerWorkflowProgress (w\<lparr>wpu_source_event_id := k, wpu_attempt := a\<rparr>) st = (False, st)"
  using assms
  by (simp add: mem_op_defs mem_applyRunnerResult_def mem_markWorkflowStopped_def modify_def
      fence_attempt_def fence_processing_def)

theorem mem_reachable_rows_witness:
  "\<exists>st r. repo_run (mem_repository checksum32) empty_repo [EvOther] st
     \<and> mem_get ''us7000abcd'' st = Some r \<and> distinct (map fst (mr_rows st))
     \<and> er_source_event_id r = ''us7000abcd''"
proof -
  obtain st where up: "mem_upsertCandidate checksum32 sample_candidate 5 False empty_repo = Inr st"
    and get: "mem_get ''us7000abcd'' st \<noteq> None"
    by (simp add: mem_upsertCandidate_def upserted_row_def candidateEventUid_def computeEventUid_Inr empty_repo_def
        mem_get_def sample_candidate_def EARTHQUAKE_def U32_MAX_def MAX_SAFE_INTEGER_def computeEventUid_def
        assertUtf8U32Length_def assertUnixMs_def set_row_def)
  then obtain r where r: "mem_get ''us7000abcd'' st = Some r" by blast
  have "rp_upsertCandidate (mem_repository checksum32) sample_candidate 5 False empty_repo = (Inr (), st)"
    using up by (simp add: mem_repository_def io_try_def)
  then have run: "repo_run (mem_repository checksum32) empty_repo [EvOther] st"
    by (rule run_cons [OF repo_step.step_upsertCandidate run_nil])
  from mem_reachable_rows [OF run r] run r show ?thesis by blast
qed

theorem mem_fencing_witness:
  "mem_markFailed ''us7000abcd'' ''X'' 3000 4000 None (Some 2) (snd sample_started) = (False, snd sample_started)
   \<and> er_runner_attempt (the (mem_get ''us7000abcd'' (snd sample_started))) = Some 1"
proof -
  have get: "mem_get ''us7000abcd'' (snd sample_started) = Some (start_row ''run'' 1 1 2000 (baseRow ''us7000abcd'' 1000))"
    by (simp add: sample_started_eq mem_get_def)
  then have "er_runner_attempt (start_row ''run'' 1 1 2000 (baseRow ''us7000abcd'' 1000)) \<noteq> Some 2"
    by (simp add: start_row_def)
  from mem_fencing [OF get this] get show ?thesis by (simp add: start_row_def)
qed

text \<open>The due listing is exact: it returns rows that are due, each at most once, oldest update first,
  at most the limit of them, and a due row it leaves out is only left out because the limit was reached by
  rows that were updated no later.\<close>

theorem mem_listDue_exact:
  assumes "mem_inv st" and "rows = mem_listDue t n st"
  shows "length rows \<le> n \<and> distinct (map er_source_event_id rows)
    \<and> sorted (map er_updated_at_ms rows)
    \<and> (\<forall>r\<in>set rows. is_due t r \<and> mem_get (er_source_event_id r) st = Some r)
    \<and> (\<forall>k r. mem_get k st = Some r \<longrightarrow> is_due t r \<longrightarrow> r \<notin> set rows \<longrightarrow>
         length rows = n \<and> (\<forall>r'\<in>set rows. er_updated_at_ms r' \<le> er_updated_at_ms r))"
proof -
  note ls = limited_listing [OF assms(2) [unfolded mem_listDue_def]]
  have vals: "r \<in> set (mem_values st) \<longleftrightarrow> mem_get (er_source_event_id r) st = Some r" for r
    by (rule mem_values_iff [OF assms(1)])
  have full: "length rows = n \<and> (\<forall>r'\<in>set rows. er_updated_at_ms r' \<le> er_updated_at_ms r)"
    if "mem_get k st = Some r" "is_due t r" "r \<notin> set rows" for k r
  proof (rule ls(5) [OF _ that(2,3)])
    show "r \<in> set (mem_values st)" using vals mem_inv_get [OF assms(1) that(1)] that(1) by simp
  qed
  have "distinct (map er_source_event_id rows)" by (rule ls(3) [OF mem_values_distinct [OF assms(1)]])
  then show ?thesis using ls(1,2) by (intro conjI allI impI) (use ls(4) vals full in blast)+
qed

theorem mem_listDue_exact_witness:
  "distinct (map er_source_event_id (mem_listDue 5000 1 sample_repo))
   \<and> length (mem_listDue 5000 1 sample_repo) = 1"
  using mem_listDue_exact [OF sample_repo_inv refl, of 5000 1]
  by (simp add: mem_listDue_def sample_repo_def mem_values_def is_due_def DUE_STATUSES_def baseRow_def
      isReadyForRetryOrDeadline_def)

text \<open>A failed workflow comes back: when a start returned attempt \<open>a\<close> and the workflow is then failed and
  stopped with that attempt, both are accepted, the lock is released, the row is no longer active, and
  from the retry time on a new start is accepted and carries attempt \<open>a + 1\<close>.\<close>

theorem mem_failed_start_retries:
  assumes "mem_inv st" and "mem_tryStartRunnerWorkflowExclusively k nm t ex rv st = (Some w, st1)"
    and "n \<le> t'"
  shows "\<exists>st2 st3 w' st4. mem_markFailed k e t n msg (Some (ws_attempt w)) st1 = (True, st2)
    \<and> mem_markWorkflowStopped k (ws_attempt w) t st2 = (True, st3)
    \<and> mr_lock st3 = None
    \<and> (\<forall>r so. mem_get k st3 = Some r \<longrightarrow> \<not> isActiveRunnerWorkflow r so)
    \<and> mem_tryStartRunnerWorkflowExclusively k nm' t' None rv' st3 = (Some w', st4)
    \<and> ws_attempt w' = ws_attempt w + 1"
proof -
  from mem_started [OF assms(1,2)] obtain r rv0 where
    r: "mem_get k st1 = Some (start_row nm (ws_attempt w) rv0 t r)" "ws_attempt w = er_retry_count r + 1"
    and lock: "mr_lock st1 = Some (started_lock k nm (ws_attempt w) t)" by blast
  let ?f = "failed_row e t n msg (start_row nm (ws_attempt w) rv0 t r)"
  let ?st3 = "(set_row k (stopped_workflow_row t ?f) (set_row k ?f st1))\<lparr>mr_lock := None\<rparr>"
  have failed: "mem_markFailed k e t n msg (Some (ws_attempt w)) st1 = (True, set_row k ?f st1)"
    using r by (simp add: mem_markFailed_def modify_def fence_processing_def start_row_def)
  have stop: "mem_markWorkflowStopped k (ws_attempt w) t (set_row k ?f st1) = (True, ?st3)"
    using lock by (simp add: mem_markWorkflowStopped_def modify_def failed_row_def start_row_def
        mem_releaseRunnerWorkflowLock_def started_lock_def)
  have get: "mem_get k ?st3 = Some (stopped_workflow_row t ?f)" by simp
  have idle: "\<not> isActiveRunnerWorkflow (stopped_workflow_row t ?f) so" for so
    by (simp add: isActiveRunnerWorkflow_def stopped_workflow_row_def failed_row_def)
  obtain w' st4 where "mem_tryStartRunnerWorkflowExclusively k nm' t' None rv' ?st3 = (Some w', st4)"
    and "ws_attempt w' = er_retry_count ?f + 1"
    using assms(3) get
    by (simp add: mem_tryStartRunnerWorkflowExclusively_def mem_markWorkflowStarted_def Let_def
        isReadyForRetryOrDeadline_def stopped_workflow_row_def failed_row_def DUE_STATUSES_def)
  moreover have "er_retry_count ?f + 1 = ws_attempt w + 1"
    using r(2) by (simp add: failed_row_def start_row_def)
  ultimately show ?thesis using failed stop get idle by fastforce
qed

theorem mem_failed_start_retries_witness:
  "\<exists>st2 st3 w' st4. mem_markFailed ''us7000abcd'' ''X'' 2000 5000 None (Some 1) (snd sample_started) = (True, st2)
    \<and> mem_markWorkflowStopped ''us7000abcd'' 1 2000 st2 = (True, st3)
    \<and> mem_tryStartRunnerWorkflowExclusively ''us7000abcd'' ''again'' 5000 None None st3 = (Some w', st4)
    \<and> ws_attempt w' = 2"
proof -
  have "mem_tryStartRunnerWorkflowExclusively ''us7000abcd'' ''run'' 2000 None None sample_repo
    = (Some (the (fst sample_started)), snd sample_started)"
    using sample_started_eq by (simp add: sample_started_def)
  from mem_failed_start_retries [OF sample_repo_inv this order_refl, where n = 5000] show ?thesis
    by (simp add: sample_started_eq) blast
qed

text \<open>A new report of an event never undoes its results: the retry count, the attempt, the result, the
  signed payload, the revision and the event uid are kept, the status changes only if the event is new or
  was screened out, and no other event is touched.\<close>

theorem mem_candidate_keeps_results:
  assumes "mem_upsertCandidate sha c t b st = Inr st'" and "mem_get (cand_source_event_id c) st = Some ex"
  shows "\<exists>r. mem_get (cand_source_event_id c) st' = Some r \<and> keeps_result ex r
    \<and> (er_status ex \<notin> {New, IgnoredSmall} \<longrightarrow>
         er_status r = er_status ex \<and> er_error_code r = er_error_code ex
         \<and> er_next_retry_at_ms r = er_next_retry_at_ms ex)
    \<and> (\<forall>k. k \<noteq> cand_source_event_id c \<longrightarrow> mem_get k st' = mem_get k st)
    \<and> mr_lock st' = mr_lock st"
proof -
  obtain r where r: "upserted_row sha c t b (Some ex) = Inr r" and st': "st' = set_row (cand_source_event_id c) r st"
    using assms by (auto simp: mem_upsertCandidate_def res_simps)
  show ?thesis
    using upserted_existing [OF r] nextScreening_keeps [of "er_status ex"] by (auto simp: st')
qed

theorem mem_candidate_keeps_results_witness:
  "\<exists>st' r. mem_upsertCandidate checksum32 sample_candidate 9000 False (snd sample_started) = Inr st'
     \<and> mem_get ''us7000abcd'' st' = Some r \<and> er_status r = Processing \<and> er_runner_attempt r = Some 1"
proof -
  let ?ex = "start_row ''run'' 1 1 2000 (baseRow ''us7000abcd'' 1000)"
  have get: "mem_get (cand_source_event_id sample_candidate) (snd sample_started) = Some ?ex"
    by (simp add: sample_started_eq mem_get_def sample_candidate_def)
  obtain st' where st': "mem_upsertCandidate checksum32 sample_candidate 9000 False (snd sample_started) = Inr st'"
    using get by (simp add: mem_upsertCandidate_def upserted_row_def candidateEventUid_def start_row_def baseRow_def
        computeEventUid_def assertUtf8U32Length_def assertUnixMs_def sample_candidate_def EARTHQUAKE_def U32_MAX_def
        MAX_SAFE_INTEGER_def)
  from mem_candidate_keeps_results [OF st' get] st' show ?thesis
    by (auto simp: keeps_result_def start_row_def sample_candidate_def)
qed

text \<open>A manual request makes an event due at once: after it the event exists and, unless a run of it is
  queued or in progress, in which case its status stays, it is due now whatever its status, retries and
  retry time were.\<close>

theorem mem_manual_request_due:
  assumes "mem_upsertManualEvent sha k t q st = Inr st'"
  shows "\<exists>r. mem_get k st' = Some r
    \<and> (if \<exists>ex. mem_get k st = Some ex \<and> er_status ex \<in> {Queued, Processing}
       then er_status r = er_status (the (mem_get k st)) else is_due t r)"
proof -
  obtain st1 where up: "mem_upsertCandidate sha (manual_candidate k q t) t True st = Inr st1"
    and st': "st' = (case mem_get k st1 of None \<Rightarrow> st1
            | Some row \<Rightarrow>
              if er_status row \<in> RESULT_TERMINAL_STATUSES then set_row k (resetTerminalResultForManualRerun row t) st1
              else if er_status row \<in> DUE_STATUSES then set_row k (clear_backoff_row t row) st1 else st1)"
    using assms by (auto simp: mem_upsertManualEvent_def res_simps)
  obtain r1 where r1: "upserted_row sha (manual_candidate k q t) t True (mem_get k st) = Inr r1"
    and st1: "st1 = set_row k r1 st"
    using up by (auto simp: mem_upsertCandidate_def res_simps manual_candidate_def)
  have status: "er_status r1 = nextScreeningStatus (map_option er_status (mem_get k st)) New"
  proof (cases "mem_get k st")
    case None
    with r1 show ?thesis
      by (auto simp: nextScreeningStatus_def screening_of_def candidate_row_def mergePreservingResult_def
          elim!: upserted_cases)
  next
    case (Some ex)
    with r1 upserted_existing(2) show ?thesis by (simp add: screening_of_def)
  qed
  have due: "is_due t (resetTerminalResultForManualRerun r1 t)" "er_status r1 \<in> DUE_STATUSES \<Longrightarrow> is_due t (clear_backoff_row t r1)"
    by (simp_all add: is_due_def isReadyForRetryOrDeadline_def resetTerminalResultForManualRerun_def
        clear_backoff_row_def DUE_STATUSES_def)
  show ?thesis
  proof (cases "mem_get k st")
    case None
    with status have "er_status r1 = New" by (simp add: nextScreeningStatus_def)
    with None due show ?thesis by (simp add: st' st1 RESULT_TERMINAL_STATUSES_def DUE_STATUSES_def)
  next
    case (Some ex)
    with status due show ?thesis
      by (cases "er_status ex")
        (simp_all add: st' st1 nextScreeningStatus_def RESULT_TERMINAL_STATUSES_def DUE_STATUSES_def TERMINAL_STATUSES_def)
  qed
qed

theorem mem_manual_request_due_witness:
  "\<exists>st' r. mem_upsertManualEvent checksum32 ''us7000abcd'' 9000 None (snd sample_started) = Inr st'
     \<and> mem_get ''us7000abcd'' st' = Some r \<and> er_status r = Processing"
proof -
  have get: "mem_get ''us7000abcd'' (snd sample_started) = Some (start_row ''run'' 1 1 2000 (baseRow ''us7000abcd'' 1000))"
    by (simp add: sample_started_eq mem_get_def)
  obtain st' where st': "mem_upsertManualEvent checksum32 ''us7000abcd'' 9000 None (snd sample_started) = Inr st'"
    using get by (simp add: mem_upsertManualEvent_def mem_upsertCandidate_def upserted_row_def candidateEventUid_def
        start_row_def baseRow_def manual_candidate_def
        computeEventUid_def assertUtf8U32Length_def assertUnixMs_def EARTHQUAKE_def U32_MAX_def MAX_SAFE_INTEGER_def)
  from mem_manual_request_due [OF st'] st' get show ?thesis
    by (auto simp: start_row_def split: if_splits)
qed

text \<open>A proof registration retry is claimed once: after a claim was granted, no other claim of the same
  event is granted until the lease of fifteen minutes is over.\<close>

theorem mem_proof_claim_once:
  assumes "mem_claimAffectedCellsProofRegistrationRetry k x t st = (Some g, st1)"
    and "t' < t + PROCESSING_STALE_AFTER_MS"
  shows "mem_claimAffectedCellsProofRegistrationRetry k x' t' st1 = (None, st1)"
proof -
  from assms(1) obtain r where "st1 = set_row k (proof_lease_row t r) st"
    by (auto simp: mem_claimAffectedCellsProofRegistrationRetry_def split: option.splits if_splits)
  with assms(2) show ?thesis
    by (simp add: mem_claimAffectedCellsProofRegistrationRetry_def isDueAffectedCellsProofRegistration_def
        proof_lease_row_def)
qed

theorem mem_proof_claim_once_witness:
  "\<exists>g st1. mem_claimAffectedCellsProofRegistrationRetry ''us7000abcd'' 50 60
       \<lparr>mr_rows = [(''us7000abcd'', (baseRow ''us7000abcd'' 0)\<lparr>er_proof_registration_status := Some RetryableFailed,
          er_proof_registration_next_retry_at_ms := Some 50, er_source_archive_status := Some Success,
          er_runner_result_s3_key := Some ''result'', er_runner_attempt := Some 1\<rparr>)], mr_lock = None\<rparr> = (Some g, st1)
     \<and> mem_claimAffectedCellsProofRegistrationRetry ''us7000abcd'' 50 70 st1 = (None, st1)"
proof -
  obtain g st1 where c: "mem_claimAffectedCellsProofRegistrationRetry ''us7000abcd'' 50 60
       \<lparr>mr_rows = [(''us7000abcd'', (baseRow ''us7000abcd'' 0)\<lparr>er_proof_registration_status := Some RetryableFailed,
          er_proof_registration_next_retry_at_ms := Some 50, er_source_archive_status := Some Success,
          er_runner_result_s3_key := Some ''result'', er_runner_attempt := Some 1\<rparr>)], mr_lock = None\<rparr> = (Some g, st1)"
    by (simp add: mem_claimAffectedCellsProofRegistrationRetry_def mem_get_def isDueAffectedCellsProofRegistration_def)
  from mem_proof_claim_once [OF c, of 70 50] c show ?thesis by (auto simp: PROCESSING_STALE_AFTER_MS_def)
qed

end
