(* ===== verification/Scheduler.thy ===== *)
theory Scheduler
  imports MemRepoProps
begin

text \<open>
  The watcher's scheduler, \<open>watcher/src/index.ts\<close>: planning revisions, starting workflows, retrying
  proof registrations, queueing jobs, scanning candidates, and the two handlers.

  The scheduler is written over any repository.  Its state is the repository's with the state of the
  services it calls: the workflow starter, the job queue, the reader of the on-chain revision, the
  resolver of event ids, the runner and the relayer, which are parameters over a state of their own.
\<close>

section \<open>Calls\<close>

definition on_repo :: "('s, 'a) io \<Rightarrow> ('s \<times> 'w, 'a) io" where
  "on_repo m = (\<lambda>(s, w). case m s of (r, s') \<Rightarrow> (r, (s', w)))"

definition on_world :: "('w, 'a) io \<Rightarrow> ('s \<times> 'w, 'a) io" where
  "on_world m = (\<lambda>(s, w). case m w of (r, w') \<Rightarrow> (r, (s, w')))"

text \<open>The result of a call in a \<open>try\<close> whose handler is the code that follows.\<close>

definition io_attempt :: "('s, 'a) io \<Rightarrow> ('s, js_error + 'a) io" where
  "io_attempt m = (\<lambda>st. case m st of (r, st') \<Rightarrow> (Inr r, st'))"

record workflow_request =
  wr_source_event_id :: string
  wr_execution_name :: string
  wr_event_revision :: "int option"
  wr_attempt :: "int option"
  wr_proof_registration :: bool
  wr_result_s3_key :: "string option"

type_synonym 'w starter = "workflow_request \<Rightarrow> ('w, unit) io"
type_synonym 'w revision_reader = "string \<Rightarrow> ('w, js_value) io"

text \<open>The input of the execution that \<open>StepFunctionsWorkflowStarter\<close> starts.\<close>

definition sfn_input :: "workflow_request \<Rightarrow> js_value" where
  "sfn_input req = json_obj
     ([(''verifier_kind'', JStr ''earthquake'')]
      @ (if wr_proof_registration req then [(''action'', JStr ''register_affected_cells_proof'')] else [])
      @ [(''source_event_id'', JStr (wr_source_event_id req)),
         (''event_revision'', (case wr_event_revision req of None \<Rightarrow> JUndef | Some n \<Rightarrow> jint n)),
         (''attempt'', jint (coalesce (wr_attempt req) 1))]
      @ (case wr_result_s3_key req of None \<Rightarrow> [] | Some k \<Rightarrow> [(''result_s3_key'', JStr k)]))"

definition start_execution ::
    "string \<Rightarrow> (string \<Rightarrow> string \<Rightarrow> js_value \<Rightarrow> ('w, unit) io) \<Rightarrow> 'w starter" where
  "start_execution stateMachineArn send req = send stateMachineArn (wr_execution_name req) (sfn_input req)"

section \<open>Planning\<close>

definition isPendingStatus :: "offchain_status \<Rightarrow> bool" where
  "isPendingStatus st \<longleftrightarrow> st = PendingSource \<or> st = PendingMmi"

definition isExecutionNameCollisionFailure :: "event_row \<Rightarrow> bool" where
  "isExecutionNameCollisionFailure row \<longleftrightarrow>
     er_status row = Failed \<and> er_error_code row = Some ''AWS_RUNNER_START_FAILED''
     \<and> some_and (\<lambda>m. includes_str m ''Execution Already Exists'') (er_runner_error_message row)"

text \<open>The pattern \<open>^0x[0-9a-fA-F]{64}$\<close>.\<close>

definition is_hex32_any_case :: "string \<Rightarrow> bool" where
  "is_hex32_any_case s \<longleftrightarrow> starts_with s ''0x'' \<and> length s = 66 \<and> list_all is_hex (drop 2 s)"

definition plannedEventRevision :: "'w revision_reader option \<Rightarrow> event_row \<Rightarrow> ('w, int) io" where
  "plannedEventRevision reader row =
     (if er_planned_event_revision row \<noteq> None \<and> \<not> isExecutionNameCollisionFailure row
      then io_return (the (er_planned_event_revision row))
      else case er_event_uid row of
        None \<Rightarrow> io_throw ''event_uid is required to plan event_revision''
      | Some uid \<Rightarrow>
        if \<not> is_hex32_any_case uid then io_throw ''event_uid is required to plan event_revision''
        else io_bind (case reader of None \<Rightarrow> io_return (JNum 0) | Some read \<Rightarrow> read uid) (\<lambda>v.
          case v of
            JNum q \<Rightarrow>
              if \<not> isSafeInteger q \<or> q < 0 \<or> q \<ge> 4294967295
              then io_throw ''latest on-chain event revision must be a non-negative u32 below max''
              else io_return (max \<lfloor>q\<rfloor> (er_latest_revision row) + 1)
          | _ \<Rightarrow> io_throw ''latest on-chain event revision must be a non-negative u32 below max''))"

text \<open>\<open>replace(/[^A-Za-z0-9_-]/g, "-").slice(0, 64)\<close>.\<close>

definition sanitizeExecutionName :: "string \<Rightarrow> string" where
  "sanitizeExecutionName s = take 64 (map (\<lambda>c.
     if is_upper_az c \<or> is_lower_az c \<or> is_digit c \<or> c = CHR ''_'' \<or> c = CHR ''-'' then c else CHR ''-'') s)"

definition executionName :: "string \<Rightarrow> int \<Rightarrow> int \<Rightarrow> string" where
  "executionName sid eventRevision attempt =
     ''earthquake-'' @ sanitizeExecutionName sid @ ''-r'' @ show_int eventRevision @ ''-a'' @ show_int attempt"

definition runnerJobId :: "string \<Rightarrow> int \<Rightarrow> int \<Rightarrow> string" where
  "runnerJobId sid eventRevision attempt =
     sid @ '':r'' @ show_int eventRevision @ '':a'' @ show_int attempt"

definition proofRegistrationName :: "string \<Rightarrow> int \<Rightarrow> int \<Rightarrow> string" where
  "proofRegistrationName sid attempt nowMs =
     ''earthquake-'' @ sanitizeExecutionName sid @ ''-proof-registration-'' @ show_int attempt @ ''-'' @ show_int nowMs"

text \<open>\<open>row.finalization_deadline_at_ms <= nowMs && isPendingStatus(row.status)\<close>.\<close>

definition pastDeadline :: "int \<Rightarrow> event_row \<Rightarrow> bool" where
  "pastDeadline nowMs row \<longleftrightarrow> er_finalization_deadline_at_ms row \<le> nowMs \<and> isPendingStatus (er_status row)"

section \<open>Starting due workflows\<close>

text \<open>
  The \<open>for\<close> loop over the due rows: the counters \<open>started\<close> and \<open>handled\<close>, and whether progress was
  made.  A started workflow leaves the loop, a failed start goes on with the next row.
\<close>

fun start_rows ::
    "'s repository \<Rightarrow> 'w starter \<Rightarrow> 'w revision_reader option \<Rightarrow> int \<Rightarrow> event_row list \<Rightarrow> nat \<times> nat \<times> bool
     \<Rightarrow> ('s \<times> 'w, nat \<times> nat \<times> bool) io" where
  "start_rows rp start reader nowMs [] acc = io_return acc"
| "start_rows rp start reader nowMs (row # rows) (started, handled, madeProgress) =
     (if pastDeadline nowMs row then
        io_bind (on_repo (rp_markRejected rp (er_source_event_id row) ''REJECTED_AUTO_TRIGGER'' nowMs)) (\<lambda>_.
          start_rows rp start reader nowMs rows (started, handled + 1, True))
      else
        io_bind (on_world (plannedEventRevision reader row)) (\<lambda>eventRevision.
        let name = executionName (er_source_event_id row) eventRevision (er_retry_count row + 1) in
        io_bind (on_repo (rp_tryStartRunnerWorkflowExclusively rp (er_source_event_id row) name nowMs
            (Some (er_retry_count row)) (Some eventRevision))) (\<lambda>res.
        case res of
          None \<Rightarrow> start_rows rp start reader nowMs rows (started, handled, madeProgress)
        | Some w \<Rightarrow>
          io_bind (io_attempt (on_world (start
            \<lparr>wr_source_event_id = er_source_event_id row, wr_execution_name = name,
             wr_event_revision = Some (ws_event_revision w), wr_attempt = Some (ws_attempt w),
             wr_proof_registration = False, wr_result_s3_key = None\<rparr>))) (\<lambda>outcome.
          case outcome of
            Inl e \<Rightarrow>
              io_bind (on_repo (rp_markFailed rp (er_source_event_id row) ''AWS_RUNNER_START_FAILED'' nowMs
                  (nowMs + FAILED_RETRY_BACKOFF_MS) (Some e) (Some (ws_attempt w)))) (\<lambda>_.
              io_bind (on_repo (rp_markWorkflowStopped rp (er_source_event_id row) (ws_attempt w) nowMs)) (\<lambda>_.
                start_rows rp start reader nowMs rows (started, handled + 1, True)))
          | Inr _ \<Rightarrow> io_return (started + 1, handled + 1, True)))))"

datatype loop_result = Return nat | Continue nat nat

text \<open>One round of the \<open>while\<close> loop: return \<open>started\<close>, or go on with the new counters.\<close>

definition start_round ::
    "'s repository \<Rightarrow> 'w starter \<Rightarrow> 'w revision_reader option \<Rightarrow> int \<Rightarrow> nat \<Rightarrow> nat \<Rightarrow> nat
     \<Rightarrow> ('s \<times> 'w, loop_result) io" where
  "start_round rp start reader nowMs limit started handled =
     (let staleBeforeMs = nowMs - PROCESSING_STALE_AFTER_MS in
      io_bind (on_repo (rp_hasActiveRunnerWorkflow rp (Some staleBeforeMs))) (\<lambda>busy.
      if busy then io_return (Return started) else
      io_bind (on_repo (rp_recoverStaleProcessing rp staleBeforeMs nowMs (nowMs + FAILED_RETRY_BACKOFF_MS))) (\<lambda>_.
      io_bind (on_repo (rp_hasActiveRunnerWorkflow rp (Some staleBeforeMs))) (\<lambda>busy2.
      if busy2 then io_return (Return started) else
      io_bind (on_repo (rp_listDue rp nowMs (limit - handled))) (\<lambda>rows.
      if rows = [] then io_return (Return started) else
      io_bind (start_rows rp start reader nowMs rows (started, handled, False)) (\<lambda>(s, h, madeProgress).
        io_return (if madeProgress then Continue s h else Return s)))))))"

lemma start_rows_handled:
  "rets (start_rows rp start reader nowMs rows (s, h, p)) (\<lambda>(s', h', p'). s' = s \<and> h' = h \<and> p' = p \<or> p' \<and> h < h')"
proof (induction rows arbitrary: s h p)
  case (Cons row rows)
  have weak: "rets (start_rows rp start reader nowMs rows (s1, h1, True))
      (\<lambda>(s', h', p'). s' = s \<and> h' = h \<and> p' = p \<or> p' \<and> h < h')" if "h < h1" for s1 h1
    using Cons.IH [of s1 h1 True] that by (auto simp: rets_def elim!: triple_weaken split: sum.splits)
  show ?case
    unfolding start_rows.simps Let_def
    by (auto intro!: rets_bind_any weak Cons.IH rets_return split: option.split sum.split)
qed (simp add: rets_return)

lemma start_round_handled:
  "rets (start_round rp start reader nowMs limit started handled) (\<lambda>v. \<forall>s h. v = Continue s h \<longrightarrow> handled < h)"
proof -
  have "rets (io_bind (start_rows rp start reader nowMs rows (started, handled, False))
      (\<lambda>(s, h, madeProgress). io_return (if madeProgress then Continue s h else Return s)))
    (\<lambda>v. \<forall>s h. v = Continue s h \<longrightarrow> handled < h)" for rows
    by (rule rets_bind [OF start_rows_handled]) (auto intro!: rets_return)
  then show ?thesis
    unfolding start_round_def Let_def by (auto intro!: rets_bind_any rets_return)
qed

text \<open>The \<open>while\<close> loop ends because every round that goes on has handled a row more.\<close>

function start_loop ::
    "'s repository \<Rightarrow> 'w starter \<Rightarrow> 'w revision_reader option \<Rightarrow> int \<Rightarrow> nat \<Rightarrow> nat \<Rightarrow> nat \<Rightarrow> ('s \<times> 'w, nat) io" where
  "start_loop rp start reader nowMs limit started handled st =
     (if handled < limit then
        (case start_round rp start reader nowMs limit started handled st of
           (Inl e, st1) \<Rightarrow> (Inl e, st1)
         | (Inr (Return n), st1) \<Rightarrow> (Inr n, st1)
         | (Inr (Continue s h), st1) \<Rightarrow> start_loop rp start reader nowMs limit s h st1)
      else (Inr started, st))"
  by pat_completeness auto
termination
  by (relation "measure (\<lambda>(rp, start, reader, nowMs, limit, started, handled, st). limit - handled)")
    (auto dest!: retsD [OF start_round_handled, OF sym])

declare start_loop.simps [simp del]

definition startDueWorkflows ::
    "'s repository \<Rightarrow> 'w starter \<Rightarrow> 'w revision_reader option \<Rightarrow> int \<Rightarrow> nat \<Rightarrow> ('s \<times> 'w, nat) io" where
  "startDueWorkflows rp start reader nowMs limit = start_loop rp start reader nowMs limit 0 0"

section \<open>Retrying proof registrations\<close>

fun proof_retry_loop :: "'s repository \<Rightarrow> 'w starter \<Rightarrow> int \<Rightarrow> event_row list \<Rightarrow> ('s \<times> 'w, nat) io" where
  "proof_retry_loop rp start nowMs [] = io_return 0"
| "proof_retry_loop rp start nowMs (row # rows) =
     (case er_proof_registration_next_retry_at_ms row of
        None \<Rightarrow> proof_retry_loop rp start nowMs rows
      | Some nextRetryAtMs \<Rightarrow>
        io_bind (on_repo (rp_claimAffectedCellsProofRegistrationRetry rp (er_source_event_id row) nextRetryAtMs nowMs))
          (\<lambda>claimed.
        case claimed of
          None \<Rightarrow> proof_retry_loop rp start nowMs rows
        | Some (attempt, resultS3Key) \<Rightarrow>
          io_bind (io_attempt (on_world (start
            \<lparr>wr_source_event_id = er_source_event_id row,
             wr_execution_name = proofRegistrationName (er_source_event_id row) attempt nowMs,
             wr_event_revision = None, wr_attempt = Some attempt, wr_proof_registration = True,
             wr_result_s3_key = Some resultS3Key\<rparr>))) (\<lambda>outcome.
          case outcome of
            Inl e \<Rightarrow>
              io_bind (on_repo (rp_markAffectedCellsProofRegistrationResult rp (er_source_event_id row)
                \<lparr>pru_status = RetryableFailed,
                 pru_error_code = Some ''AFFECTED_CELLS_PROOF_REGISTRATION_RETRYABLE_FAILED'',
                 pru_retryable_next_retry_at_ms = Some (nowMs + FAILED_RETRY_BACKOFF_MS),
                 pru_message = Some e\<rparr> nowMs (Some attempt))) (\<lambda>_. io_return 0)
          | Inr _ \<Rightarrow> io_return 1)))"

definition startDueAffectedCellsProofRegistrationRetries ::
    "'s repository \<Rightarrow> 'w starter \<Rightarrow> int \<Rightarrow> nat \<Rightarrow> ('s \<times> 'w, nat) io" where
  "startDueAffectedCellsProofRegistrationRetries rp start nowMs limit =
     io_bind (on_repo (rp_listDueAffectedCellsProofRegistrations rp nowMs limit)) (proof_retry_loop rp start nowMs)"

section \<open>Queueing due events\<close>

record enqueue_summary =
  es_enqueued :: nat
  es_deferred :: nat
  es_recovered :: nat
  es_rejected :: nat

fun enqueue_loop ::
    "'s repository \<Rightarrow> (runner_queue_job \<Rightarrow> ('w, unit) io) \<Rightarrow> 'w revision_reader option \<Rightarrow> int
     \<Rightarrow> event_row list \<Rightarrow> enqueue_summary \<Rightarrow> ('s \<times> 'w, enqueue_summary) io" where
  "enqueue_loop rp send reader nowMs [] summary = io_return summary"
| "enqueue_loop rp send reader nowMs (row # rows) summary =
     (if pastDeadline nowMs row then
        io_bind (on_repo (rp_markRejected rp (er_source_event_id row) ''REJECTED_AUTO_TRIGGER'' nowMs)) (\<lambda>_.
          enqueue_loop rp send reader nowMs rows (summary\<lparr>es_rejected := es_rejected summary + 1\<rparr>))
      else
        let attempt = er_retry_count row + 1 in
        io_bind (on_world (plannedEventRevision reader row)) (\<lambda>eventRevision.
        let job_id = runnerJobId (er_source_event_id row) eventRevision attempt in
        io_bind (on_repo (rp_enqueueRunnerJob rp (er_source_event_id row) attempt job_id nowMs (Some eventRevision)))
          (\<lambda>job.
        case job of
          None \<Rightarrow> enqueue_loop rp send reader nowMs rows (summary\<lparr>es_deferred := es_deferred summary + 1\<rparr>)
        | Some j \<Rightarrow>
          io_bind (io_attempt (on_world (send j))) (\<lambda>outcome.
          case outcome of
            Inr _ \<Rightarrow> enqueue_loop rp send reader nowMs rows (summary\<lparr>es_enqueued := es_enqueued summary + 1\<rparr>)
          | Inl e \<Rightarrow>
            io_bind (on_repo (rp_markQueueEnqueueFailed rp (er_source_event_id row) job_id nowMs
                (nowMs + FAILED_RETRY_BACKOFF_MS) e)) (\<lambda>_.
              enqueue_loop rp send reader nowMs rows (summary\<lparr>es_deferred := es_deferred summary + 1\<rparr>))))))"

definition enqueueDueEvents ::
    "'s repository \<Rightarrow> (runner_queue_job \<Rightarrow> ('w, unit) io) \<Rightarrow> 'w revision_reader option \<Rightarrow> int \<Rightarrow> nat
     \<Rightarrow> ('s \<times> 'w, enqueue_summary) io" where
  "enqueueDueEvents rp send reader nowMs limit =
     io_bind (on_repo (rp_recoverStaleQueued rp (nowMs - PROCESSING_STALE_AFTER_MS) nowMs
         (nowMs + FAILED_RETRY_BACKOFF_MS))) (\<lambda>queued.
     io_bind (on_repo (rp_recoverStaleProcessing rp (nowMs - PROCESSING_STALE_AFTER_MS) nowMs
         (nowMs + FAILED_RETRY_BACKOFF_MS))) (\<lambda>processing.
     io_bind (on_repo (rp_listDue rp nowMs limit)) (\<lambda>rows.
       enqueue_loop rp send reader nowMs rows
         \<lparr>es_enqueued = 0, es_deferred = 0, es_recovered = queued + processing, es_rejected = 0\<rparr>)))"

section \<open>Scanning candidates\<close>

definition DAY_MS :: int where "DAY_MS = 24 * HOUR_MS"

text \<open>\<open>UsgsSourceEventIdResolverResult | null\<close>.\<close>

datatype resolution =
    NoResolution
  | Unavailable
  | Resolved string "string option" "int option"

type_synonym 'w resolver = "string \<Rightarrow> ('w, resolution) io"

definition resolveSourceEventId :: "'w resolver option \<Rightarrow> 'w resolver" where
  "resolveSourceEventId resolver sid =
     (case resolver of None \<Rightarrow> io_return (Resolved sid None None) | Some f \<Rightarrow> f sid)"

fun scan_loop ::
    "'s repository \<Rightarrow> 'w resolver option \<Rightarrow> bool \<Rightarrow> int \<Rightarrow> usgs_candidate list \<Rightarrow> string list \<Rightarrow> ('s \<times> 'w, unit) io" where
  "scan_loop rp resolver bypass nowMs [] seen = io_return ()"
| "scan_loop rp resolver bypass nowMs (candidate # cs) seen =
     (if \<not> isValidUsgsSourceEventId (cand_source_event_id candidate) then scan_loop rp resolver bypass nowMs cs seen
      else if \<not> bypass \<and> \<not> runnerEligible candidate then
        io_bind (on_repo (rp_upsertCandidate rp candidate nowMs bypass)) (\<lambda>_.
          scan_loop rp resolver bypass nowMs cs seen)
      else
        io_bind (on_world (resolveSourceEventId resolver (cand_source_event_id candidate))) (\<lambda>res.
        case res of
          Unavailable \<Rightarrow> scan_loop rp resolver bypass nowMs cs seen
        | NoResolution \<Rightarrow> scan_loop rp resolver bypass nowMs cs seen
        | Resolved sid requested occurred \<Rightarrow>
          if \<not> isValidUsgsSourceEventId sid \<or> sid \<in> set seen then scan_loop rp resolver bypass nowMs cs seen
          else
            let canonical = candidate\<lparr>cand_source_event_id := sid,
                  cand_occurred_at_ms := coalesce occurred (cand_occurred_at_ms candidate),
                  cand_requested_source_event_id := or_else requested (cand_requested_source_event_id candidate)\<rparr> in
            io_bind (on_repo (rp_upsertCandidate rp canonical nowMs bypass)) (\<lambda>_.
            io_bind
              (if \<not> bypass \<and> nowMs - cand_occurred_at_ms candidate < DAY_MS then
                 io_bind (on_repo (rp_get rp sid)) (\<lambda>row.
                 if some_and (\<lambda>r. er_status r = New) row
                 then on_repo (rp_deferUntil rp sid (cand_occurred_at_ms candidate + DAY_MS) nowMs)
                 else io_return ())
               else io_return ()) (\<lambda>_.
              scan_loop rp resolver bypass nowMs cs (sid # seen)))))"

definition scanCandidates ::
    "'s repository \<Rightarrow> usgs_candidate list \<Rightarrow> int \<Rightarrow> bool \<Rightarrow> 'w resolver option \<Rightarrow> ('s \<times> 'w, unit) io" where
  "scanCandidates rp candidates nowMs bypass resolver = scan_loop rp resolver bypass nowMs candidates []"

section \<open>Handlers\<close>

definition scheduledHandler ::
    "'s repository \<Rightarrow> 'w starter \<Rightarrow> 'w revision_reader option \<Rightarrow> ('w, usgs_candidate list) io \<Rightarrow> 'w resolver
     \<Rightarrow> nat option \<Rightarrow> bool \<Rightarrow> int \<Rightarrow> ('s \<times> 'w, nat \<times> nat) io" where
  "scheduledHandler rp start reader fetchCandidates resolver dueLimit completionTrigger nowMs =
     io_bind (if completionTrigger then io_return [] else on_world fetchCandidates) (\<lambda>candidates.
     io_bind (if completionTrigger then io_return ()
              else scanCandidates rp candidates nowMs False (Some resolver)) (\<lambda>_.
     io_bind (startDueWorkflows rp start reader nowMs (coalesce dueLimit DEFAULT_DUE_LIMIT)) (\<lambda>started.
     io_bind (startDueAffectedCellsProofRegistrationRetries rp start nowMs (coalesce dueLimit DEFAULT_DUE_LIMIT))
       (\<lambda>retried. io_return (length candidates, started + retried)))))"

text \<open>The request headers are the list of their names and values.\<close>

definition isAuthorized :: "(string \<times> string) list option \<Rightarrow> string \<Rightarrow> bool" where
  "isAuthorized headers token \<longleftrightarrow>
     (case headers of None \<Rightarrow> False
      | Some hs \<Rightarrow> or_else (map_of hs ''authorization'') (map_of hs ''Authorization'') = Some (''Bearer '' @ token))"

text \<open>\<open>JSON.parse\<close> is a parameter: \<open>None\<close> when it throws.\<close>

definition parseJsonBody :: "(string \<Rightarrow> js_value option) \<Rightarrow> string option \<Rightarrow> js_value" where
  "parseJsonBody json_parse body =
     (case body of None \<Rightarrow> JNull
      | Some text \<Rightarrow> if text = [] then JNull else coalesce (json_parse text) JNull)"

record http_response =
  http_status :: nat
  http_body :: js_value

definition failureResponse :: "nat \<Rightarrow> string \<Rightarrow> http_response" where
  "failureResponse code message =
     \<lparr>http_status = code, http_body = json_obj [(''ok'', JBool False), (''message'', JStr message)]\<rparr>"

definition manualSubmitResponse :: "nat \<Rightarrow> string \<Rightarrow> string option \<Rightarrow> js_value" where
  "manualSubmitResponse workflowStarted sid requested = json_obj
     ([(''ok'', JBool True), (''workflow_started'', jint (int workflowStarted)), (''source_event_id'', JStr sid)]
      @ (case requested of None \<Rightarrow> [] | Some r \<Rightarrow> [(''requested_source_event_id'', JStr r)]))"

text \<open>The \<open>source_event_id\<close> of a body that is a record with a valid one.\<close>

definition bodySourceEventId :: "js_value \<Rightarrow> string option" where
  "bodySourceEventId body =
     (case body of
        JObj fs \<Rightarrow>
          (case get_field fs ''source_event_id'' of
             JStr s \<Rightarrow> if isValidUsgsSourceEventId s then Some s else None
           | _ \<Rightarrow> None)
      | _ \<Rightarrow> None)"

definition manualHandler ::
    "'s repository \<Rightarrow> 'w starter \<Rightarrow> 'w revision_reader option \<Rightarrow> 'w resolver \<Rightarrow> (string \<Rightarrow> js_value option)
     \<Rightarrow> string \<Rightarrow> (string \<times> string) list option \<Rightarrow> string option \<Rightarrow> int \<Rightarrow> ('s \<times> 'w, http_response) io" where
  "manualHandler rp start reader resolver json_parse token headers body nowMs =
     (if \<not> isAuthorized headers token then io_return (failureResponse 401 ''unauthorized'') else
      case bodySourceEventId (parseJsonBody json_parse body) of
        None \<Rightarrow> io_return (failureResponse 400 ''valid source_event_id is required'')
      | Some inp \<Rightarrow>
        io_bind (on_world (resolveSourceEventId (Some resolver) inp)) (\<lambda>res.
        case res of
          Unavailable \<Rightarrow> io_return (failureResponse 503 ''USGS detail unavailable; retry later'')
        | NoResolution \<Rightarrow> io_return (failureResponse 400 ''source_event_id does not match USGS detail'')
        | Resolved sid requested _ \<Rightarrow>
          if \<not> isValidUsgsSourceEventId sid
          then io_return (failureResponse 400 ''source_event_id does not match USGS detail'')
          else
            io_bind (on_repo (rp_upsertManualEvent rp sid nowMs requested)) (\<lambda>_.
            io_bind (startDueWorkflows rp start reader nowMs 1) (\<lambda>started.
              io_return \<lparr>http_status = 200, http_body = manualSubmitResponse started sid requested\<rparr>))))"

section \<open>Triples over the two parts of the state\<close>

lemma triple_on_repo:
  "(\<And>w. triple (\<lambda>s. P (s, w)) m (\<lambda>r s. Q r (s, w))) \<Longrightarrow> triple P (on_repo m) Q"
  by (auto simp: triple_def on_repo_def split: prod.split) (metis fst_conv snd_conv)

lemma triple_on_world:
  "(\<And>s. triple (\<lambda>w. P (s, w)) m (\<lambda>r w. Q r (s, w))) \<Longrightarrow> triple P (on_world m) Q"
  by (auto simp: triple_def on_world_def split: prod.split) (metis fst_conv snd_conv)

lemma triple_attempt: "triple P m (\<lambda>r. Q (Inr r)) \<Longrightarrow> triple P (io_attempt m) Q"
  by (force simp: triple_def io_attempt_def split: prod.split)

text \<open>
  A record of the executions that were started: a start that returns is added to it, one that throws
  is not, and reading a revision leaves it alone.
\<close>

definition records_starts :: "('w \<Rightarrow> workflow_request list) \<Rightarrow> 'w starter \<Rightarrow> 'w revision_reader option \<Rightarrow> bool" where
  "records_starts hist start reader \<longleftrightarrow>
     (\<forall>req L. triple (\<lambda>w. hist w = L) (start req)
        (\<lambda>r w. case r of Inl _ \<Rightarrow> hist w = L | Inr _ \<Rightarrow> hist w = L @ [req]))
     \<and> (\<forall>read uid L. reader = Some read \<longrightarrow> keeps (\<lambda>w. hist w = L) (read uid))"

lemma plannedEventRevision_keeps:
  "records_starts hist start reader \<Longrightarrow> keeps (\<lambda>w. hist w = L) (plannedEventRevision reader row)"
  unfolding plannedEventRevision_def records_starts_def
  by (auto intro!: keeps_intros split: option.split js_value.split)

text \<open>The row of a started execution.\<close>

definition running_row :: "int \<Rightarrow> workflow_request \<Rightarrow> event_row option \<Rightarrow> bool" where
  "running_row t req row \<longleftrightarrow> some_and (\<lambda>r. er_status r = Processing \<and> er_updated_at_ms r = t
     \<and> er_runner_attempt r = wr_attempt req \<and> er_runner_job_id r = Some (wr_execution_name req)) row"

lemma running_active: "running_row t req (Some r) \<Longrightarrow> s < t \<Longrightarrow> isActiveRunnerWorkflow r (Some s)"
  by (simp add: running_row_def isActiveRunnerWorkflow_def)

context state_repository
begin

text \<open>What a run of the start loops has done: nothing was started, or exactly the last request.\<close>

definition outcome_ok ::
    "('w \<Rightarrow> workflow_request list) \<Rightarrow> workflow_request list \<Rightarrow> int \<Rightarrow> nat \<Rightarrow> js_error + nat \<Rightarrow> 's \<times> 'w \<Rightarrow> bool" where
  "outcome_ok hist L t n r st \<longleftrightarrow> inv (fst st)
     \<and> ((hist (snd st) = L \<and> (\<forall>m. r = Inr m \<longrightarrow> m = n))
        \<or> (\<exists>req. hist (snd st) = L @ [req] \<and> running_row t req (row_of (wr_source_event_id req) (fst st))
             \<and> (\<forall>m. r = Inr m \<longrightarrow> m = n + 1)))"

abbreviation idle_at :: "('w \<Rightarrow> workflow_request list) \<Rightarrow> workflow_request list \<Rightarrow> 's \<times> 'w \<Rightarrow> bool" where
  "idle_at hist L st \<equiv> inv (fst st) \<and> hist (snd st) = L"

lemma repo_idle:
  assumes "keeps inv m"
  shows "triple (idle_at hist L) (on_repo m) (\<lambda>r st. case r of Inl e \<Rightarrow> idle_at hist L st | Inr x \<Rightarrow> idle_at hist L st)"
  by (rule triple_on_repo) (use assms in \<open>auto simp: triple_def keeps_def split: sum.split\<close>)

lemma start_triple:
  "triple inv (rp_tryStartRunnerWorkflowExclusively rp k nm t ex rv)
     (\<lambda>r st. inv st \<and> (\<forall>w. r = Inr (Some w) \<longrightarrow>
        (\<exists>x. row_of k st = Some x \<and> er_status x = Processing \<and> er_updated_at_ms x = t
          \<and> er_runner_attempt x = Some (ws_attempt w) \<and> er_runner_job_id x = Some nm)))"
proof (rule tripleI)
  fix st r st' assume inv: "inv st" and c: "rp_tryStartRunnerWorkflowExclusively rp k nm t ex rv st = (r, st')"
  show "inv st' \<and> (\<forall>w. r = Inr (Some w) \<longrightarrow>
        (\<exists>x. row_of k st' = Some x \<and> er_status x = Processing \<and> er_updated_at_ms x = t
          \<and> er_runner_attempt x = Some (ws_attempt w) \<and> er_runner_job_id x = Some nm))"
  proof (cases r)
    case (Inl e)
    with start_threw inv c show ?thesis by auto
  next
    case (Inr res)
    show ?thesis
    proof (cases res)
      case None
      with not_started inv c Inr show ?thesis by auto
    next
      case (Some w)
      from started [OF inv, of k nm t ex rv w st'] c Inr Some show ?thesis
        by (auto simp: start_row_def)
    qed
  qed
qed

lemma start_request:
  assumes "records_starts hist start reader"
  shows "triple (\<lambda>st. inv (fst st) \<and> hist (snd st) = L \<and> running_row t req (row_of (wr_source_event_id req) (fst st)))
    (io_attempt (on_world (start req)))
    (\<lambda>r st. case r of Inl e \<Rightarrow> False
       | Inr (Inl e) \<Rightarrow> idle_at hist L st
       | Inr (Inr u) \<Rightarrow> inv (fst st) \<and> hist (snd st) = L @ [req]
           \<and> running_row t req (row_of (wr_source_event_id req) (fst st)))"
  using assms
  by (intro triple_attempt triple_on_world)
    (auto simp: records_starts_def triple_def split: sum.splits)

lemma keeps_stop: "keeps inv (rp_markWorkflowStopped rp k a t)"
  by (rule keepsI) (auto dest: stopped)

lemma start_rows_ok:
  assumes rec: "records_starts hist start reader"
  shows "triple (idle_at hist L) (start_rows rp start reader t rows (n, h, p))
    (\<lambda>r. outcome_ok hist L t n (map_sum id fst r))"
proof (induction rows arbitrary: h p)
  case Nil
  show ?case by (auto intro!: triple_return simp: outcome_ok_def)
next
  case (Cons row rows)
  have idle_rows: "triple (idle_at hist L) (start_rows rp start reader t rows (n, h', p'))
      (\<lambda>r. outcome_ok hist L t n (map_sum id fst r))" for h' p'
    by (rule Cons.IH)
  have threw: "outcome_ok hist L t n (map_sum id fst (Inl e)) st" if "idle_at hist L st" for e
    using that by (simp add: outcome_ok_def)
  have repo: "triple (idle_at hist L) (io_bind (on_repo m) f) (\<lambda>r. outcome_ok hist L t n (map_sum id fst r))"
    if "keeps inv m" "\<And>x. triple (idle_at hist L) (f x) (\<lambda>r. outcome_ok hist L t n (map_sum id fst r))"
    for m and f
    by (rule triple_bind [where R = "\<lambda>_. idle_at hist L", OF triple_weaken [OF repo_idle [OF that(1), where hist = hist and L = L]] that(2)])
      (auto simp: outcome_ok_def split: sum.splits)
  let ?req = "\<lambda>rn w. \<lparr>wr_source_event_id = er_source_event_id row,
    wr_execution_name = executionName (er_source_event_id row) rn (er_retry_count row + 1),
    wr_event_revision = Some (ws_event_revision w), wr_attempt = Some (ws_attempt w),
    wr_proof_registration = False, wr_result_s3_key = None\<rparr>"
  let ?call = "\<lambda>rn. rp_tryStartRunnerWorkflowExclusively rp (er_source_event_id row)
    (executionName (er_source_event_id row) rn (er_retry_count row + 1)) t (Some (er_retry_count row)) (Some rn)"
  let ?tried = "\<lambda>rn x st. idle_at hist L st \<and> (\<forall>w. x = Some w \<longrightarrow>
    running_row t (?req rn w) (row_of (er_source_event_id row) (fst st)))"
  have tried: "triple (idle_at hist L) (on_repo (?call rn))
      (\<lambda>r st. case r of Inl e \<Rightarrow> outcome_ok hist L t n (map_sum id fst (Inl e)) st | Inr x \<Rightarrow> ?tried rn x st)" for rn
    by (rule triple_on_repo)
      (use start_triple [of "er_source_event_id row" "executionName (er_source_event_id row) rn (er_retry_count row + 1)"
         t "Some (er_retry_count row)" "Some rn"] in
        \<open>fastforce simp: triple_def running_row_def outcome_ok_def split: sum.split\<close>)
  have failed: "triple (idle_at hist L)
      (io_bind (on_repo (rp_markFailed rp k e t x m a)) (\<lambda>_.
       io_bind (on_repo (rp_markWorkflowStopped rp k' a' t')) (\<lambda>_.
         start_rows rp start reader t rows (n, h', p'))))
      (\<lambda>r. outcome_ok hist L t n (map_sum id fst r))" for k e x m a k' a' t' h' p'
    by (intro repo idle_rows keeps_inv keeps_ops keeps_stop)
  have requested: "triple (?tried rn (Some w)) (io_bind (io_attempt (on_world (start (?req rn w)))) (\<lambda>outcome.
        case outcome of
          Inl e \<Rightarrow>
            io_bind (on_repo (rp_markFailed rp (er_source_event_id row) ''AWS_RUNNER_START_FAILED'' t
              (t + FAILED_RETRY_BACKOFF_MS) (Some e) (Some (ws_attempt w)))) (\<lambda>_.
            io_bind (on_repo (rp_markWorkflowStopped rp (er_source_event_id row) (ws_attempt w) t)) (\<lambda>_.
              start_rows rp start reader t rows (n, h + 1, True)))
        | Inr _ \<Rightarrow> io_return (n + 1, h + 1, True)))
      (\<lambda>r. outcome_ok hist L t n (map_sum id fst r))" for rn w
  proof (rule triple_bind [where R = "\<lambda>outcome st. case outcome of Inl e \<Rightarrow> idle_at hist L st
        | Inr u \<Rightarrow> inv (fst st) \<and> hist (snd st) = L @ [?req rn w]
            \<and> running_row t (?req rn w) (row_of (er_source_event_id row) (fst st))"],
      goal_cases)
    case 1
    show ?case
      by (rule triple_weaken [OF start_request [OF rec, where L = L and t = t and req = "?req rn w"]])
        (auto split: sum.splits)
  next
    case (2 outcome)
    show ?case
      by (cases outcome) (auto intro!: failed triple_return simp: outcome_ok_def exI [of _ "?req rn w"])
  qed
  have planned: "triple (idle_at hist L) (on_world (plannedEventRevision reader row))
      (\<lambda>r st. case r of Inl e \<Rightarrow> outcome_ok hist L t n (map_sum id fst (Inl e)) st | Inr x \<Rightarrow> idle_at hist L st)"
    by (rule triple_on_world)
      (use plannedEventRevision_keeps [OF rec] in \<open>auto simp: triple_def keeps_def outcome_ok_def split: sum.split\<close>)
  have body: "triple (idle_at hist L) (io_bind (on_repo (?call rn)) (\<lambda>res. case res of
          None \<Rightarrow> start_rows rp start reader t rows (n, h, p)
        | Some w \<Rightarrow> io_bind (io_attempt (on_world (start (?req rn w)))) (\<lambda>outcome. case outcome of
              Inl e \<Rightarrow>
                io_bind (on_repo (rp_markFailed rp (er_source_event_id row) ''AWS_RUNNER_START_FAILED'' t
                  (t + FAILED_RETRY_BACKOFF_MS) (Some e) (Some (ws_attempt w)))) (\<lambda>_.
                io_bind (on_repo (rp_markWorkflowStopped rp (er_source_event_id row) (ws_attempt w) t)) (\<lambda>_.
                  start_rows rp start reader t rows (n, h + 1, True)))
            | Inr _ \<Rightarrow> io_return (n + 1, h + 1, True))))
      (\<lambda>r. outcome_ok hist L t n (map_sum id fst r))" for rn
  proof (rule triple_bind [OF tried])
    fix x
    show "triple (?tried rn x) (case x of
          None \<Rightarrow> start_rows rp start reader t rows (n, h, p)
        | Some w \<Rightarrow> io_bind (io_attempt (on_world (start (?req rn w)))) (\<lambda>outcome. case outcome of
              Inl e \<Rightarrow>
                io_bind (on_repo (rp_markFailed rp (er_source_event_id row) ''AWS_RUNNER_START_FAILED'' t
                  (t + FAILED_RETRY_BACKOFF_MS) (Some e) (Some (ws_attempt w)))) (\<lambda>_.
                io_bind (on_repo (rp_markWorkflowStopped rp (er_source_event_id row) (ws_attempt w) t)) (\<lambda>_.
                  start_rows rp start reader t rows (n, h + 1, True)))
            | Inr _ \<Rightarrow> io_return (n + 1, h + 1, True)))
      (\<lambda>r. outcome_ok hist L t n (map_sum id fst r))"
    proof (cases x)
      case None
      then show ?thesis by (auto intro: triple_weaken [OF idle_rows])
    next
      case (Some w)
      show ?thesis unfolding Some option.case by (rule requested)
    qed
  qed
  show ?case
    unfolding start_rows.simps Let_def
    by (rule triple_if, intro repo idle_rows keeps_inv keeps_ops, rule triple_bind [OF planned], rule body)
qed

definition after_round ::
    "('w \<Rightarrow> workflow_request list) \<Rightarrow> workflow_request list \<Rightarrow> int \<Rightarrow> nat \<Rightarrow> js_error + loop_result \<Rightarrow> 's \<times> 'w \<Rightarrow> bool" where
  "after_round hist L t n r st \<longleftrightarrow>
     outcome_ok hist L t n (map_sum id (\<lambda>v. case v of Return m \<Rightarrow> m | Continue m h \<Rightarrow> m) r) st"

lemma start_round_ok:
  assumes rec: "records_starts hist start reader"
  shows "triple (idle_at hist L) (start_round rp start reader t mx n h) (after_round hist L t n)"
proof -
  have repo: "triple (idle_at hist L) (io_bind (on_repo m) f) (after_round hist L t n)"
    if "keeps inv m" "\<And>x. triple (idle_at hist L) (f x) (after_round hist L t n)" for m and f
    by (rule triple_bind [where R = "\<lambda>_. idle_at hist L", OF triple_weaken [OF repo_idle [OF that(1), where hist = hist and L = L]] that(2)])
      (auto simp: outcome_ok_def after_round_def split: sum.splits)
  have ret: "triple (idle_at hist L) (io_return (Return n)) (after_round hist L t n)"
    by (rule triple_return) (simp add: after_round_def outcome_ok_def)
  have rows: "triple (idle_at hist L) (io_bind (start_rows rp start reader t rows (n, h, False))
      (\<lambda>(s, h, madeProgress). io_return (if madeProgress then Continue s h else Return s))) (after_round hist L t n)" for rows
    by (rule triple_bind [where R = "\<lambda>x. outcome_ok hist L t n (Inr (fst x))",
          OF triple_weaken [OF start_rows_ok [OF rec]]])
      (auto intro!: triple_return simp: after_round_def split: sum.splits)
  show ?thesis
    unfolding start_round_def Let_def
    by (intro repo triple_if ret rows keeps_inv keeps_ops)
qed

lemma start_round_busy:
  assumes "0 < PROCESSING_STALE_AFTER_MS"
  shows "triple (\<lambda>st. inv (fst st) \<and> hist (snd st) = L \<and> running_row t req (row_of (wr_source_event_id req) (fst st)))
    (start_round rp start reader t mx n h)
    (\<lambda>r st. inv (fst st) \<and> hist (snd st) = L \<and> running_row t req (row_of (wr_source_event_id req) (fst st))
       \<and> (\<forall>v. r = Inr v \<longrightarrow> v = Return n))"
proof (rule tripleI)
  fix st r st'
  assume P: "inv (fst st) \<and> hist (snd st) = L \<and> running_row t req (row_of (wr_source_event_id req) (fst st))"
    and c: "start_round rp start reader t mx n h st = (r, st')"
  obtain s w where st: "st = (s, w)" by fastforce
  obtain rb s1 where a: "rp_hasActiveRunnerWorkflow rp (Some (t - PROCESSING_STALE_AFTER_MS)) s = (rb, s1)" by fastforce
  from P st have inv: "inv s" and run: "running_row t req (row_of (wr_source_event_id req) s)" by simp_all
  from inv a have inv1: "inv s1" using kept [OF a keeps_ops(7)] by blast
  from active_rows [OF inv a] have rows: "row_of (wr_source_event_id req) s1 = row_of (wr_source_event_id req) s" .
  from run obtain x where x: "row_of (wr_source_event_id req) s = Some x"
    by (cases "row_of (wr_source_event_id req) s") (simp_all add: running_row_def)
  show "inv (fst st') \<and> hist (snd st') = L \<and> running_row t req (row_of (wr_source_event_id req) (fst st'))
      \<and> (\<forall>v. r = Inr v \<longrightarrow> v = Return n)"
  proof (cases rb)
    case (Inl e)
    then have "on_repo (rp_hasActiveRunnerWorkflow rp (Some (t - PROCESSING_STALE_AFTER_MS))) st = (Inl e, (s1, w))"
      using a st by (simp add: on_repo_def)
    with c have "r = Inl e" "st' = (s1, w)" by (simp_all add: start_round_def Let_def)
    with P st inv1 rows show ?thesis by simp
  next
    case (Inr b)
    with a active [OF inv, of "Some (t - PROCESSING_STALE_AFTER_MS)" b s1 _ x] x running_active run assms have b
      by simp
    with Inr have "on_repo (rp_hasActiveRunnerWorkflow rp (Some (t - PROCESSING_STALE_AFTER_MS))) st = (Inr True, (s1, w))"
      using a st by (simp add: on_repo_def)
    with c have "r = Inr (Return n)" "st' = (s1, w)" by (simp_all add: start_round_def Let_def io_return_def)
    with P st inv1 rows show ?thesis by simp
  qed
qed

lemma start_loop_ok:
  assumes rec: "records_starts hist start reader" and pos: "0 < PROCESSING_STALE_AFTER_MS"
    and run: "start_loop rp start reader t mx n h st = (r, st')" and now: "outcome_ok hist L t 0 (Inr n) st"
  shows "outcome_ok hist L t 0 r st'"
  using run now
proof (induction "mx - h" arbitrary: n h st rule: less_induct)
  case less
  show ?case
  proof (cases "h < mx")
    case False
    with less.prems show ?thesis by (simp add: start_loop.simps)
  next
    case True
    obtain v st1 where round: "start_round rp start reader t mx n h st = (v, st1)" by (rule prod.exhaust)
    from less.prems(2) consider (idle) "idle_at hist L st" "n = 0"
      | (busy) req where "inv (fst st)" "hist (snd st) = L @ [req]"
          "running_row t req (row_of (wr_source_event_id req) (fst st))" "n = 1"
      by (auto simp: outcome_ok_def)
    then show ?thesis
    proof cases
      case idle
      from tripleD [OF start_round_ok [OF rec] round] idle
      have ok: "outcome_ok hist L t 0 (map_sum id (\<lambda>v. case v of Return m \<Rightarrow> m | Continue m h \<Rightarrow> m) v) st1"
        by (simp add: after_round_def)
      show ?thesis
      proof (cases v)
        case (Inl e)
        with less.prems(1) True round ok show ?thesis by (simp add: start_loop.simps)
      next
        case (Inr res)
        show ?thesis
        proof (cases res)
          case (Return m)
          with Inr less.prems(1) True round ok show ?thesis by (simp add: start_loop.simps)
        next
          case (Continue m h')
          have "h < h'" using retsD [OF start_round_handled, of rp start reader t mx n h st] round Inr Continue by blast
          moreover have "start_loop rp start reader t mx m h' st1 = (r, st')"
            using less.prems(1) True round Inr Continue by (simp add: start_loop.simps [of _ _ _ _ _ n])
          ultimately show ?thesis
            using less.hyps [of h' m st1] ok Inr Continue True by simp
        qed
      qed
    next
      case busy
      then have pre: "inv (fst st) \<and> hist (snd st) = L @ [req] \<and> running_row t req (row_of (wr_source_event_id req) (fst st))"
        by blast
      from tripleD [OF start_round_busy [OF pos, where hist = hist and L = "L @ [req]" and req = req] round pre] busy
      have "outcome_ok hist L t 0 (map_sum id (\<lambda>_. 1) v) st1" and ret: "\<And>x. v = Inr x \<Longrightarrow> x = Return 1"
        by (cases v; auto simp: outcome_ok_def)+
      with less.prems(1) True round show ?thesis
        by (cases v) (auto simp: start_loop.simps [of _ _ _ _ _ n] dest!: ret)
    qed
  qed
qed

end

end
