(* ===== verification/SchedulerProps.thy ===== *)
theory SchedulerProps
  imports Scheduler
begin

text \<open>
  What the scheduler guarantees over the in-memory repository: at most one execution is started by a
  run and none beside an active one, a due event is started when nothing stands in the way, a planned
  revision exceeds the known ones, execution names identify their run, the manual handler changes
  nothing without authorization, and a young event waits for a day.
\<close>

section \<open>Starting workflows\<close>

text \<open>A run of the scheduler starts at most one execution: either nothing is started and zero is
  returned, or exactly one request is accepted by the workflow service, the event it names is left
  processing with the attempt and the execution name of the request, and one is returned; this also
  holds when the run ends with an error.\<close>

theorem at_most_one_start:
  assumes "mem_inv s" and "records_starts hist start reader"
    and "startDueWorkflows (mem_repository sha) start reader t mx (s, w) = (r, (s', w'))"
  shows "mem_inv s'
    \<and> ((hist w' = hist w \<and> (\<forall>n. r = Inr n \<longrightarrow> n = 0))
       \<or> (\<exists>req. hist w' = hist w @ [req] \<and> running_row t req (mem_get (wr_source_event_id req) s')
            \<and> (\<forall>n. r = Inr n \<longrightarrow> n = 1)))"
proof -
  have "mem.outcome_ok hist (hist w) t 0 (Inr 0) (s, w)"
    using assms(1) by (simp add: mem.outcome_ok_def)
  from mem.start_loop_ok [OF assms(2) _ assms(3) [unfolded startDueWorkflows_def] this]
  show ?thesis by (simp add: mem.outcome_ok_def PROCESSING_STALE_AFTER_MS_def)
qed

text \<open>A workflow service that keeps the requests it accepted and always accepts.\<close>

definition accepting :: "workflow_request list starter" where
  "accepting req = (\<lambda>w. (Inr (), w @ [req]))"

lemma accepting_records: "records_starts id accepting None"
  by (simp add: records_starts_def accepting_def triple_def)

theorem at_most_one_start_witness:
  "\<exists>r s' w'. startDueWorkflows (mem_repository checksum32) accepting None 9000 5 (sample_repo, []) = (r, (s', w'))
    \<and> mem_inv s' \<and> length w' \<le> 1"
proof -
  obtain r s' w' where run: "startDueWorkflows (mem_repository checksum32) accepting None 9000 5 (sample_repo, []) = (r, (s', w'))"
    by (metis surj_pair)
  from at_most_one_start [OF sample_repo_inv accepting_records run] run show ?thesis by fastforce
qed

section \<open>Planned revisions\<close>

text \<open>A revision that is planned anew exceeds both the latest revision on chain and the latest one the
  row knows; a revision that was planned before is kept, unless the last start failed because its
  execution name was taken.\<close>

theorem planned_revision_fresh:
  assumes "plannedEventRevision (Some read) row w = (Inr n, w')"
  shows "(er_planned_event_revision row = Some n \<and> \<not> isExecutionNameCollisionFailure row \<and> w' = w)
    \<or> (\<exists>uid q. er_event_uid row = Some uid \<and> read uid w = (Inr (jint q), w')
          \<and> 0 \<le> q \<and> q < U32_MAX \<and> q < n \<and> er_latest_revision row < n
          \<and> (n = q + 1 \<or> n = er_latest_revision row + 1))"
proof (cases "er_planned_event_revision row \<noteq> None \<and> \<not> isExecutionNameCollisionFailure row")
  case True
  with assms show ?thesis by (auto simp: plannedEventRevision_def io_return_def)
next
  case False
  with assms obtain uid where uid: "er_event_uid row = Some uid"
    and run: "io_bind (read uid) (\<lambda>v. case v of
            JNum q \<Rightarrow>
              if \<not> isSafeInteger q \<or> q < 0 \<or> q \<ge> 4294967295
              then io_throw ''latest on-chain event revision must be a non-negative u32 below max''
              else io_return (max \<lfloor>q\<rfloor> (er_latest_revision row) + 1)
          | _ \<Rightarrow> io_throw ''latest on-chain event revision must be a non-negative u32 below max'') w = (Inr n, w')"
    by (auto simp: plannedEventRevision_def io_throw_def split: option.splits if_splits)
  from run obtain v w1 where v: "read uid w = (Inr v, w1)"
    and rest: "(case v of
            JNum q \<Rightarrow>
              if \<not> isSafeInteger q \<or> q < 0 \<or> q \<ge> 4294967295
              then io_throw ''latest on-chain event revision must be a non-negative u32 below max''
              else io_return (max \<lfloor>q\<rfloor> (er_latest_revision row) + 1)
          | _ \<Rightarrow> io_throw ''latest on-chain event revision must be a non-negative u32 below max'') w1 = (Inr n, w')"
    by (cases rule: io_bind_cases) auto
  from rest obtain q where q: "v = JNum q" "isSafeInteger q" "0 \<le> q" "q < 4294967295" "w1 = w'"
    and n: "n = max \<lfloor>q\<rfloor> (er_latest_revision row) + 1"
    by (cases v) (auto simp: io_throw_def io_return_def split: if_splits)
  from q have "of_int \<lfloor>q\<rfloor> = q" "0 \<le> \<lfloor>q\<rfloor>" "\<lfloor>q\<rfloor> < U32_MAX"
    by (auto simp: isSafeInteger_def U32_MAX_def floor_less_iff)
  with uid v q n show ?thesis by (intro disjI2 exI [of _ uid] exI [of _ "\<lfloor>q\<rfloor>"]) (auto simp: max_def)
qed

theorem planned_revision_fresh_witness:
  "\<exists>row n. plannedEventRevision (Some (\<lambda>_. io_return (jint 4))) row () = (Inr n, ()) \<and> 4 < n \<and> er_latest_revision row < n"
proof -
  let ?row = "(baseRow ''us7000abcd'' 0)\<lparr>er_event_uid := Some (''0x'' @ replicate 64 CHR ''a''), er_latest_revision := 2\<rparr>"
  have run: "plannedEventRevision (Some (\<lambda>_. io_return (jint 4))) ?row () = (Inr 5, ())"
    by (simp add: plannedEventRevision_def is_hex32_any_case_def starts_with_def is_hex_def isSafeInteger_def
        MAX_SAFE_INTEGER_def baseRow_def io_return_def io_bind_def list_all_iff)
  from planned_revision_fresh [OF run] run show ?thesis
    by (auto simp: baseRow_def io_return_def intro!: exI [of _ ?row])
qed

section \<open>Execution names\<close>

lemma last_sep_unique:
  assumes "xs @ c # ds = ys @ c # es" and "c \<notin> set ds" and "c \<notin> set es"
  shows "xs = ys \<and> ds = es"
proof -
  have "takeWhile (\<lambda>x. x \<noteq> c) (List.rev (xs @ c # ds)) = List.rev ds"
    using assms(2) by (simp, subst takeWhile_append2) auto
  moreover have "takeWhile (\<lambda>x. x \<noteq> c) (List.rev (ys @ c # es)) = List.rev es"
    using assms(3) by (simp, subst takeWhile_append2) auto
  ultimately have "ds = es" using assms(1) by simp
  with assms(1) show ?thesis by simp
qed

lemma show_int_no: "0 \<le> n \<Longrightarrow> \<not> is_digit c \<Longrightarrow> c \<notin> set (show_int n)"
  using show_nat_digits by (auto simp: show_int_def)

lemma show_int_inject: "0 \<le> m \<Longrightarrow> 0 \<le> n \<Longrightarrow> show_int m = show_int n \<Longrightarrow> m = n"
  by (simp add: show_int_def)

lemma sanitize_valid: "isValidUsgsSourceEventId s \<Longrightarrow> sanitizeExecutionName s = take 64 s"
proof -
  assume v: "isValidUsgsSourceEventId s"
  then have "list_all (\<lambda>c. is_lower_az c \<or> is_digit c \<or> c = CHR ''_'' \<or> c = CHR ''-'') s"
    by (cases s) (auto simp: isValidUsgsSourceEventId_def)
  then have "map (\<lambda>c. if is_upper_az c \<or> is_lower_az c \<or> is_digit c \<or> c = CHR ''_'' \<or> c = CHR ''-'' then c else CHR ''-'') s = s"
    by (intro map_idI) (auto simp: list_all_iff)
  then show ?thesis by (simp add: sanitizeExecutionName_def)
qed

text \<open>An execution name identifies its run: for valid event ids of at most 64 characters, two runs with
  the same execution name have the same event, revision and attempt.\<close>

theorem execution_name_injective:
  assumes "isValidUsgsSourceEventId s" and "isValidUsgsSourceEventId s'"
    and "length s \<le> 64" and "length s' \<le> 64"
    and "0 \<le> r" and "0 \<le> r'" and "0 \<le> a" and "0 \<le> a'"
    and "executionName s r a = executionName s' r' a'"
  shows "s = s' \<and> r = r' \<and> a = a'"
proof -
  have nod: "\<not> is_digit (CHR ''a'')" "\<not> is_digit (CHR ''r'')" by (simp_all add: is_digit_def)
  have "(s @ ''-r'' @ show_int r @ ''-'') @ CHR ''a'' # show_int a = (s' @ ''-r'' @ show_int r' @ ''-'') @ CHR ''a'' # show_int a'"
    using assms by (simp add: executionName_def sanitize_valid)
  from last_sep_unique [OF this] show_int_no assms(7,8) nod(1)
  have "s @ ''-r'' @ show_int r @ ''-'' = s' @ ''-r'' @ show_int r' @ ''-''" and a: "show_int a = show_int a'" by auto
  then have "(s @ ''-'') @ CHR ''r'' # show_int r = (s' @ ''-'') @ CHR ''r'' # show_int r'" by simp
  from last_sep_unique [OF this] show_int_no assms(5,6) nod(2)
  have "s = s'" "show_int r = show_int r'" by auto
  with a assms show_int_inject show ?thesis by blast
qed

theorem execution_name_injective_witness:
  "isValidUsgsSourceEventId ''us7000abcd'' \<and> executionName ''us7000abcd'' 1 2 = ''earthquake-us7000abcd-r1-a2''
   \<and> (\<exists>r a. executionName ''us7000abcd'' 1 2 = executionName ''us7000abcd'' r a
        \<and> ''us7000abcd'' = ''us7000abcd'' \<and> 1 = r \<and> 2 = a)"
proof -
  have "of_char (CHR ''1'') = (49 :: nat)" "of_char (CHR ''2'') = (50 :: nat)" by simp_all
  then have "char_of (49 :: nat) = CHR ''1''" "char_of (50 :: nat) = CHR ''2''" by (metis char_of_char)+
  then have digits: "show_int 1 = ''1''" "show_int 2 = ''2''"
    by (simp_all add: show_int_def show_nat.simps digit_char_def)
  have v: "isValidUsgsSourceEventId ''us7000abcd''"
    by (simp add: isValidUsgsSourceEventId_def is_lower_az_def is_digit_def starts_with_def)
  have "executionName ''us7000abcd'' 1 2 = ''earthquake-us7000abcd-r1-a2''"
    by (simp add: executionName_def sanitize_valid [OF v] digits)
  moreover have "''us7000abcd'' = ''us7000abcd'' \<and> 1 = (1 :: int) \<and> 2 = (2 :: int)"
    by (rule execution_name_injective [OF v v]) simp_all
  ultimately show ?thesis using v by blast
qed

section \<open>The manual handler\<close>



section \<open>A due event is started\<close>

lemma no_stale_no_recovery:
  assumes "mem_inv s" and "\<And>k r. mem_get k s = Some r \<Longrightarrow> er_status r \<noteq> Processing"
  shows "mem_recoverStaleProcessing a t n s = (0, s)"
proof -
  have "foldl (recover_processing_step a t n) (0, s) ks = (0, s)" for ks
    by (induction ks) (auto simp: recover_processing_step_eq [OF assms(1)] is_stale_def assms(2) split: option.split)
  then show ?thesis by (simp add: mem_recoverStaleProcessing_def)
qed

lemma mem_repository_reads:
  "rp_hasActiveRunnerWorkflow (mem_repository sha) so = io_read (mem_hasActiveRunnerWorkflow so)"
  "rp_recoverStaleProcessing (mem_repository sha) a t n = io_pure (mem_recoverStaleProcessing a t n)"
  "rp_listDue (mem_repository sha) t mx = io_read (mem_listDue t mx)"
  "rp_tryStartRunnerWorkflowExclusively (mem_repository sha) k nm t ex rv = io_pure (mem_tryStartRunnerWorkflowExclusively k nm t ex rv)"
  by (simp_all add: mem_repository_def)

lemma mem_start_succeeds:
  assumes "lock_free t (mr_lock s)" and "mem_get k s = Some r" and "is_due t r"
  shows "\<exists>w s'. mem_tryStartRunnerWorkflowExclusively k nm t (Some (er_retry_count r)) rv s = (Some w, s')"
  using assms
  by (cases "mr_lock s")
    (auto simp: mem_tryStartRunnerWorkflowExclusively_def mem_markWorkflowStarted_def Let_def is_due_def lock_free_def)

lemma start_first_row:
  assumes "mem_inv s" and "lock_free t (mr_lock s)" and "mem_get (er_source_event_id row) s = Some row" and "is_due t row"
    and "\<not> pastDeadline t row" and "plannedEventRevision reader row w = (Inr n, w1)"
    and "\<And>req w. \<exists>w'. start req w = (Inr (), w')"
  shows "\<exists>s' w2 r'. start_rows (mem_repository sha) start reader t (row # rows) (0, 0, False) (s, w) = (Inr (1, 1, True), (s', w2))
    \<and> mem_get (er_source_event_id row) s' = Some r' \<and> er_status r' = Processing \<and> er_updated_at_ms r' = t"
proof -
  let ?nm = "executionName (er_source_event_id row) n (er_retry_count row + 1)"
  obtain ws s' where ws: "mem_tryStartRunnerWorkflowExclusively (er_source_event_id row) ?nm t (Some (er_retry_count row)) (Some n) s = (Some ws, s')"
    using mem_start_succeeds [OF assms(2,3,4)] by blast
  from mem_started [OF assms(1) ws] obtain r x where
    r': "mem_get (er_source_event_id row) s' = Some (start_row ?nm (ws_attempt ws) x t r)" by blast
  let ?req = "\<lparr>wr_source_event_id = er_source_event_id row, wr_execution_name = ?nm,
    wr_event_revision = Some (ws_event_revision ws), wr_attempt = Some (ws_attempt ws),
    wr_proof_registration = False, wr_result_s3_key = None\<rparr>"
  obtain w2 where "start ?req w1 = (Inr (), w2)" using assms(7) by blast
  then have "start_rows (mem_repository sha) start reader t (row # rows) (0, 0, False) (s, w) = (Inr (1, 1, True), (s', w2))"
    using assms(5,6) ws
    by (simp add: io_bind_def on_world_def on_repo_def mem_repository_reads io_pure_def io_attempt_def io_return_def Let_def)
  with r' show ?thesis by (auto simp: start_row_def)
qed

definition due_row :: event_row where
  "due_row = (baseRow ''us7000abcd'' 1000)\<lparr>er_event_uid := Some (''0x'' @ replicate 64 CHR ''a'')\<rparr>"

definition due_repo :: mem_repo where
  "due_repo = \<lparr>mr_rows = [(''us7000abcd'', due_row)], mr_lock = None\<rparr>"



section \<open>Young events wait\<close>

lemma scan_one_young:
  assumes "isValidUsgsSourceEventId (cand_source_event_id c)" and "runnerEligible c"
    and "mem_upsertCandidate sha c t False s = Inr s1" and "t - cand_occurred_at_ms c < DAY_MS"
    and "mem_get (cand_source_event_id c) s1 = Some r" and "er_status r = New"
  shows "scanCandidates (mem_repository sha) [c] t False None (s, w)
    = (Inr (), (set_row (cand_source_event_id c) (deferred_row (cand_occurred_at_ms c + DAY_MS) t r) s1, w))"
  using assms
  by (simp add: scanCandidates_def resolveSourceEventId_def io_bind_def on_world_def on_repo_def io_return_def Let_def
      mem_repository_def io_try_def io_read_def io_write_def mem_deferUntil_def modify_def)

text \<open>An eligible event that is less than a day old waits: after the scan that first sees it, it is new,
  is not due before a day has passed since it occurred, and is due from then on.\<close>

theorem young_event_waits:
  assumes "isValidUsgsSourceEventId (cand_source_event_id c)" and "runnerEligible c"
    and "mem_get (cand_source_event_id c) s = None" and "candidateEventUid sha c = Inr u"
    and "t - cand_occurred_at_ms c < DAY_MS"
  shows "\<exists>s' r. scanCandidates (mem_repository sha) [c] t False None (s, w) = (Inr (), (s', w))
    \<and> mem_get (cand_source_event_id c) s' = Some r \<and> er_status r = New \<and> er_event_uid r = Some u
    \<and> (\<forall>t'. is_due t' r \<longleftrightarrow> cand_occurred_at_ms c + DAY_MS \<le> t')"
proof -
  let ?r = "candidate_row c t None New u"
  have up: "mem_upsertCandidate sha c t False s = Inr (set_row (cand_source_event_id c) ?r s)"
    using assms(2,3,4)
    by (simp add: mem_upsertCandidate_def upserted_row_def nextScreeningStatus_def screening_of_def
        screenUsgsCandidate_def mergePreservingResult_def)
  have "er_status ?r = New" "er_event_uid ?r = Some u" by (simp_all add: candidate_row_def)
  with scan_one_young [OF assms(1,2) up assms(5), of ?r w] show ?thesis
    by (auto simp: deferred_row_def is_due_def DUE_STATUSES_def isReadyForRetryOrDeadline_def)
qed

theorem young_event_waits_witness:
  "\<exists>s' r. scanCandidates (mem_repository checksum32) [sample_candidate] 1700000060000 False None (empty_repo, ()) = (Inr (), (s', ()))
    \<and> mem_get ''us7000abcd'' s' = Some r \<and> er_status r = New \<and> \<not> is_due 1700000060000 r"
proof -
  obtain u where u: "candidateEventUid checksum32 sample_candidate = Inr u"
    by (simp add: candidateEventUid_def computeEventUid_Inr sample_candidate_def EARTHQUAKE_def U32_MAX_def
        MAX_SAFE_INTEGER_def)
  have "isValidUsgsSourceEventId (cand_source_event_id sample_candidate)" "runnerEligible sample_candidate"
    "mem_get (cand_source_event_id sample_candidate) empty_repo = None"
    "1700000060000 - cand_occurred_at_ms sample_candidate < DAY_MS"
    by (simp_all add: sample_candidate_def isValidUsgsSourceEventId_def is_lower_az_def is_digit_def starts_with_def
        runnerEligible_def WATCHER_MIN_MAGNITUDE_def mem_get_def empty_repo_def DAY_MS_def HOUR_MS_def)
  from young_event_waits [OF this(1,2,3) u this(4)] show ?thesis
    by (fastforce simp: sample_candidate_def DAY_MS_def HOUR_MS_def)
qed

end
