(* ===== verification/DynamoRepo.thy ===== *)
theory DynamoRepo
  imports MemRepo
begin

text \<open>
  \<open>DynamoDbStateRepository\<close> of \<open>nautilus/verifiers/earthquake/watcher/src/state.ts\<close>, over the table service
  it calls, which is a parameter: the record \<open>ddb\<close> has one function per command the class sends.

  A condition expression is a predicate on the stored row.  All but one of them name an attribute of
  the row or ask that it exists, so they fail on an absent row and the update applies to a present one;
  the candidate update sets every attribute and is \<open>db_upsert\<close>.  A missing attribute and a null one are
  both \<open>None\<close>.  The lock is kept apart from the rows, whose ids are never the reserved key.
\<close>

section \<open>The table service\<close>

datatype ddb_error = ConditionalCheckFailed | TransactionCanceled | OtherError js_error

type_synonym ('d, 'a) ddb_call = "'d \<Rightarrow> (ddb_error + 'a) \<times> 'd"

datatype ddb_item = EventItem event_row | LockItem runner_lock

definition item_key :: "ddb_item \<Rightarrow> string" where
  "item_key i = (case i of EventItem r \<Rightarrow> er_source_event_id r | LockItem _ \<Rightarrow> RUNNER_WORKFLOW_LOCK_SOURCE_EVENT_ID)"

record 'd ddb =
  db_get :: "string \<Rightarrow> ('d, event_row option) ddb_call"
  db_update :: "string \<Rightarrow> (event_row \<Rightarrow> bool) \<Rightarrow> (event_row \<Rightarrow> event_row) \<Rightarrow> ('d, unit) ddb_call"
  db_upsert :: "(event_row option \<Rightarrow> bool) \<Rightarrow> event_row \<Rightarrow> ('d, unit) ddb_call"
  db_put :: "event_row \<Rightarrow> (event_row option \<Rightarrow> bool) \<Rightarrow> ('d, unit) ddb_call"
  db_delete_lock :: "(runner_lock \<Rightarrow> bool) \<Rightarrow> ('d, unit) ddb_call"
  db_transact :: "string \<Rightarrow> (event_row \<Rightarrow> bool) \<Rightarrow> (event_row \<Rightarrow> event_row) \<Rightarrow> (runner_lock option \<Rightarrow> bool)
      \<Rightarrow> runner_lock \<Rightarrow> ('d, unit) ddb_call"
  db_scan :: "string option \<Rightarrow> ('d, ddb_item list \<times> string option) ddb_call"

definition ddb_message :: "ddb_error \<Rightarrow> js_error" where
  "ddb_message e = (case e of ConditionalCheckFailed \<Rightarrow> ''ConditionalCheckFailedException''
     | TransactionCanceled \<Rightarrow> ''TransactionCanceledException'' | OtherError m \<Rightarrow> m)"

definition isConditionalCheckFailed :: "ddb_error \<Rightarrow> bool" where
  "isConditionalCheckFailed e \<longleftrightarrow> e = ConditionalCheckFailed"

definition isTransactionCanceled :: "ddb_error \<Rightarrow> bool" where
  "isTransactionCanceled e \<longleftrightarrow> e = TransactionCanceled"

text \<open>\<open>await send(...)\<close>, and the same in a \<open>try\<close> that returns on the errors it catches.\<close>

definition send :: "('d, 'a) ddb_call \<Rightarrow> ('d, 'a) io" where
  "send call = (\<lambda>st. case call st of (Inl e, st1) \<Rightarrow> (Inl (ddb_message e), st1) | (Inr x, st1) \<Rightarrow> (Inr x, st1))"

definition send_catch ::
    "('d, 'a) ddb_call \<Rightarrow> (ddb_error \<Rightarrow> bool) \<Rightarrow> ('d, 'b) io \<Rightarrow> ('a \<Rightarrow> ('d, 'b) io) \<Rightarrow> ('d, 'b) io" where
  "send_catch call caught handler continue = (\<lambda>st. case call st of
       (Inl e, st1) \<Rightarrow> if caught e then handler st1 else (Inl (ddb_message e), st1)
     | (Inr x, st1) \<Rightarrow> continue x st1)"

section \<open>Reading\<close>

definition dyn_get :: "'d ddb \<Rightarrow> string \<Rightarrow> ('d, event_row option) io" where
  "dyn_get db sid = send (db_get db sid)"

definition isEarthquakeEventRow :: "ddb_item \<Rightarrow> bool" where
  "isEarthquakeEventRow i \<longleftrightarrow> item_key i \<noteq> RUNNER_WORKFLOW_LOCK_SOURCE_EVENT_ID"

definition event_rows :: "ddb_item list \<Rightarrow> event_row list" where
  "event_rows items = concat (map (\<lambda>i. case i of EventItem r \<Rightarrow> [r] | LockItem _ \<Rightarrow> []) (filter isEarthquakeEventRow items))"

text \<open>The pages of a scan; the fuel bounds their number.\<close>

fun scan_pages :: "'d ddb \<Rightarrow> nat \<Rightarrow> string option \<Rightarrow> event_row list \<Rightarrow> ('d, event_row list) io" where
  "scan_pages db 0 exclusiveStartKey rows = io_throw ''scan did not end''"
| "scan_pages db (Suc fuel) exclusiveStartKey rows =
     io_bind (send (db_scan db exclusiveStartKey)) (\<lambda>(items, lastEvaluatedKey).
       case lastEvaluatedKey of
         None \<Rightarrow> io_return (rows @ event_rows items)
       | Some k \<Rightarrow> scan_pages db fuel (Some k) (rows @ event_rows items))"

definition scanRows :: "'d ddb \<Rightarrow> nat \<Rightarrow> ('d, event_row list) io" where
  "scanRows db fuel = scan_pages db fuel None []"

definition dyn_listDue :: "'d ddb \<Rightarrow> nat \<Rightarrow> int \<Rightarrow> nat \<Rightarrow> ('d, event_row list) io" where
  "dyn_listDue db fuel nowMs limit =
     io_bind (scanRows db fuel) (\<lambda>rows.
       io_return (take limit (sort_key er_updated_at_ms (filter (is_due nowMs) rows))))"

definition dyn_listDueAffectedCellsProofRegistrations :: "'d ddb \<Rightarrow> nat \<Rightarrow> int \<Rightarrow> nat \<Rightarrow> ('d, event_row list) io" where
  "dyn_listDueAffectedCellsProofRegistrations db fuel nowMs limit =
     io_bind (scanRows db fuel) (\<lambda>rows.
       io_return (take limit (sort_key proof_retry_key
         (filter (\<lambda>row. isDueAffectedCellsProofRegistration row nowMs) rows))))"

definition dyn_hasActiveRunnerWorkflow :: "'d ddb \<Rightarrow> nat \<Rightarrow> int option \<Rightarrow> ('d, bool) io" where
  "dyn_hasActiveRunnerWorkflow db fuel staleBeforeMs =
     io_bind (scanRows db fuel) (\<lambda>rows. io_return (list_ex (\<lambda>row. isActiveRunnerWorkflow row staleBeforeMs) rows))"

section \<open>Writing a row back\<close>

definition put_condition :: "int option \<Rightarrow> bool \<Rightarrow> event_row option \<Rightarrow> bool" where
  "put_condition expectedAttempt allowNonProcessing stored =
     (case expectedAttempt of
        None \<Rightarrow> True
      | Some a \<Rightarrow> some_and (\<lambda>r. (allowNonProcessing \<or> er_status r = Processing) \<and> er_runner_attempt r = Some a) stored)"

definition dyn_put :: "'d ddb \<Rightarrow> event_row \<Rightarrow> int option \<Rightarrow> bool \<Rightarrow> ('d, bool) io" where
  "dyn_put db row expectedAttempt allowNonProcessing =
     send_catch (db_put db row (put_condition expectedAttempt allowNonProcessing)) isConditionalCheckFailed
       (io_return False) (\<lambda>_. io_return True)"

text \<open>Read a row, return false unless it exists and passes the guard, change it and put it back.\<close>

definition read_put ::
    "'d ddb \<Rightarrow> string \<Rightarrow> (event_row \<Rightarrow> bool) \<Rightarrow> (event_row \<Rightarrow> event_row) \<Rightarrow> int option \<Rightarrow> bool \<Rightarrow> ('d, bool) io" where
  "read_put db sid guard f expectedAttempt allowNonProcessing =
     io_bind (dyn_get db sid) (\<lambda>row.
       case row of
         None \<Rightarrow> io_return False
       | Some r \<Rightarrow> if guard r then dyn_put db (f r) expectedAttempt allowNonProcessing else io_return False)"

text \<open>A conditional update that returns whether the condition held.\<close>

definition update_when :: "'d ddb \<Rightarrow> string \<Rightarrow> (event_row \<Rightarrow> bool) \<Rightarrow> (event_row \<Rightarrow> event_row) \<Rightarrow> ('d, bool) io" where
  "update_when db sid cond f =
     send_catch (db_update db sid cond f) isConditionalCheckFailed (io_return False) (\<lambda>_. io_return True)"

text \<open>The result of a method that returns nothing.\<close>

definition io_void :: "('s, 'a) io \<Rightarrow> ('s, unit) io" where
  "io_void m = io_bind m (\<lambda>_. io_return ())"

section \<open>Candidates\<close>

text \<open>The row the candidate update sets, and its condition.\<close>

definition screenable_row :: "usgs_candidate \<Rightarrow> int \<Rightarrow> offchain_status \<times> error_code option \<Rightarrow> string \<Rightarrow> event_row" where
  "screenable_row c nowMs screening uid = (baseRow (cand_source_event_id c) nowMs)\<lparr>
     er_requested_source_event_id := cand_requested_source_event_id c,
     er_event_uid := Some uid,
     er_status := fst screening,
     er_retry_count := 0,
     er_next_retry_at_ms := None,
     er_finalization_deadline_at_ms := cand_occurred_at_ms c + FINALIZATION_WINDOW_MS,
     er_latest_revision := 0,
     er_last_seen_at_ms := nowMs,
     er_source_updated_at_ms := Some (cand_source_updated_at_ms c),
     er_error_code :=
       (if fst screening = IgnoredSmall then Some ''WATCHER_BELOW_AUTO_THRESHOLD'' else snd screening),
     er_created_at_ms := nowMs\<rparr>"

definition screenable_condition :: "offchain_status \<Rightarrow> event_row option \<Rightarrow> bool" where
  "screenable_condition screened stored \<longleftrightarrow>
     none_or (\<lambda>r. er_status r = IgnoredSmall \<or> screened \<noteq> IgnoredSmall \<and> er_status r = New) stored"

definition dyn_updateScreenableCandidate ::
    "hash_fn \<Rightarrow> 'd ddb \<Rightarrow> usgs_candidate \<Rightarrow> int \<Rightarrow> offchain_status \<times> error_code option \<Rightarrow> ('d, unit) io \<Rightarrow> ('d, unit) io" where
  "dyn_updateScreenableCandidate sha db c nowMs screening on_condition_failed =
     io_bind (io_lift (candidateEventUid sha c)) (\<lambda>uid.
       send_catch (db_upsert db (screenable_condition (fst screening)) (screenable_row c nowMs screening uid))
         isConditionalCheckFailed on_condition_failed io_return)"

text \<open>A conditional update whose failed condition is passed to the next \<open>catch\<close> block.\<close>

definition update_or ::
    "'d ddb \<Rightarrow> string \<Rightarrow> (event_row \<Rightarrow> bool) \<Rightarrow> (event_row \<Rightarrow> event_row) \<Rightarrow> ('d, unit) io \<Rightarrow> ('d, unit) io" where
  "update_or db sid cond f on_condition_failed =
     send_catch (db_update db sid cond f) isConditionalCheckFailed on_condition_failed io_return"

definition stop_pending :: "event_row \<Rightarrow> bool" where
  "stop_pending row \<longleftrightarrow> (er_runner_phase row = Some PhComplete \<or> er_runner_phase row = Some PhStoppingInstance)
     \<and> er_runner_stopped_at_ms row = None"

definition dyn_updateNonTerminalWatcherMetadataFields ::
    "'d ddb \<Rightarrow> usgs_candidate \<Rightarrow> int \<Rightarrow> ('d, unit) io \<Rightarrow> ('d, unit) io" where
  "dyn_updateNonTerminalWatcherMetadataFields db c nowMs = update_or db (cand_source_event_id c)
     (\<lambda>row. er_status row \<notin> {Processing, Finalized, Submitted, Rejected} \<and> \<not> stop_pending row)
     (\<lambda>row. row\<lparr>er_last_seen_at_ms := nowMs, er_source_updated_at_ms := Some (cand_source_updated_at_ms c),
        er_updated_at_ms := nowMs\<rparr>)"

definition dyn_updateTerminalWatcherMetadataFields ::
    "'d ddb \<Rightarrow> usgs_candidate \<Rightarrow> int \<Rightarrow> ('d, unit) io \<Rightarrow> ('d, unit) io" where
  "dyn_updateTerminalWatcherMetadataFields db c nowMs = update_or db (cand_source_event_id c)
     (\<lambda>row. er_status row \<in> {Finalized, Submitted, Rejected} \<and> \<not> stop_pending row)
     (\<lambda>row. row\<lparr>er_last_seen_at_ms := nowMs, er_updated_at_ms := nowMs\<rparr>)"

definition dyn_updateActiveWatcherMetadataFields ::
    "'d ddb \<Rightarrow> usgs_candidate \<Rightarrow> int \<Rightarrow> ('d, unit) io \<Rightarrow> ('d, unit) io" where
  "dyn_updateActiveWatcherMetadataFields db c nowMs = update_or db (cand_source_event_id c)
     (\<lambda>row. er_status row = Processing)
     (\<lambda>row. row\<lparr>er_last_seen_at_ms := nowMs, er_source_updated_at_ms := Some (cand_source_updated_at_ms c)\<rparr>)"

definition dyn_updateWatcherMetadata :: "'d ddb \<Rightarrow> usgs_candidate \<Rightarrow> int \<Rightarrow> ('d, unit) io" where
  "dyn_updateWatcherMetadata db c nowMs =
     dyn_updateNonTerminalWatcherMetadataFields db c nowMs
       (dyn_updateTerminalWatcherMetadataFields db c nowMs
         (dyn_updateActiveWatcherMetadataFields db c nowMs (io_return ())))"

definition dyn_upsertCandidate :: "hash_fn \<Rightarrow> 'd ddb \<Rightarrow> usgs_candidate \<Rightarrow> int \<Rightarrow> bool \<Rightarrow> ('d, unit) io" where
  "dyn_upsertCandidate sha db c nowMs bypassScreening =
     (let screening = (if bypassScreening then (New, None) else screenUsgsCandidate c)
      in dyn_updateScreenableCandidate sha db c nowMs screening (dyn_updateWatcherMetadata db c nowMs))"

definition dyn_clearManualRetryBackoff :: "'d ddb \<Rightarrow> string \<Rightarrow> int \<Rightarrow> ('d, unit) io" where
  "dyn_clearManualRetryBackoff db sid nowMs =
     update_or db sid (\<lambda>row. er_status row \<in> {New, PendingSource, PendingMmi, Failed})
       (clear_backoff_row nowMs) (io_return ())"

definition dyn_resetManualTerminalResult :: "'d ddb \<Rightarrow> string \<Rightarrow> int \<Rightarrow> ('d, unit) io" where
  "dyn_resetManualTerminalResult db sid nowMs =
     io_void (read_put db sid (\<lambda>row. er_status row \<in> RESULT_TERMINAL_STATUSES)
       (\<lambda>row. resetTerminalResultForManualRerun row nowMs) None False)"

definition dyn_upsertManualEvent :: "hash_fn \<Rightarrow> 'd ddb \<Rightarrow> string \<Rightarrow> int \<Rightarrow> string option \<Rightarrow> ('d, unit) io" where
  "dyn_upsertManualEvent sha db sid nowMs requested =
     io_bind (dyn_upsertCandidate sha db (manual_candidate sid requested nowMs) nowMs True) (\<lambda>_.
     io_bind (dyn_clearManualRetryBackoff db sid nowMs) (\<lambda>_.
       dyn_resetManualTerminalResult db sid nowMs))"

section \<open>Workflow start and stop\<close>

definition dyn_claimAffectedCellsProofRegistrationRetry ::
    "'d ddb \<Rightarrow> string \<Rightarrow> int \<Rightarrow> int \<Rightarrow> ('d, (int \<times> string) option) io" where
  "dyn_claimAffectedCellsProofRegistrationRetry db sid expectedNextRetryAtMs nowMs =
     io_bind (dyn_get db sid) (\<lambda>stored.
       case stored of
         None \<Rightarrow> io_return None
       | Some row \<Rightarrow>
         if \<not> isDueAffectedCellsProofRegistration row nowMs
            \<or> er_proof_registration_next_retry_at_ms row \<noteq> Some expectedNextRetryAtMs
         then io_return None
         else case (er_runner_attempt row, er_runner_result_s3_key row) of
             (Some a, Some key) \<Rightarrow>
               send_catch (db_update db sid
                   (\<lambda>r. er_proof_registration_status r = Some RetryableFailed
                      \<and> er_proof_registration_next_retry_at_ms r = Some expectedNextRetryAtMs
                      \<and> er_source_archive_status r = Some Success
                      \<and> er_runner_attempt r = Some a \<and> er_runner_result_s3_key r = Some key)
                   (proof_lease_row nowMs))
                 isConditionalCheckFailed (io_return None) (\<lambda>_. io_return (Some (a, key)))
           | _ \<Rightarrow> io_return None)"

definition workflowStartCondition :: "int \<Rightarrow> int \<Rightarrow> event_row \<Rightarrow> bool" where
  "workflowStartCondition retryCount nowMs row \<longleftrightarrow>
     er_retry_count row = retryCount
     \<and> er_status row \<in> {New, PendingSource, PendingMmi, Failed}
     \<and> (none_or (\<lambda>t. t \<le> nowMs) (er_next_retry_at_ms row)
        \<or> er_status row \<in> {PendingSource, PendingMmi} \<and> er_finalization_deadline_at_ms row \<le> nowMs)"

text \<open>\<open>expectedRetryCount ?? (await this.get(sourceEventId))?.retry_count\<close>.\<close>

definition dyn_retry_count :: "'d ddb \<Rightarrow> string \<Rightarrow> int option \<Rightarrow> ('d, int option) io" where
  "dyn_retry_count db sid expectedRetryCount =
     (case expectedRetryCount of
        Some n \<Rightarrow> io_return (Some n)
      | None \<Rightarrow> io_bind (dyn_get db sid) (\<lambda>row. io_return (map_option er_retry_count row)))"

definition dyn_tryStartRunnerWorkflowExclusively ::
    "'d ddb \<Rightarrow> string \<Rightarrow> string \<Rightarrow> int \<Rightarrow> int option \<Rightarrow> int option \<Rightarrow> ('d, workflow_start option) io" where
  "dyn_tryStartRunnerWorkflowExclusively db sid executionName nowMs expectedRetryCount eventRevision =
     io_bind (dyn_retry_count db sid expectedRetryCount) (\<lambda>count.
       case count of
         None \<Rightarrow> io_return None
       | Some retryCount \<Rightarrow>
         let attempt = retryCount + 1; rv = coalesce eventRevision 1
         in send_catch
              (db_transact db sid (workflowStartCondition retryCount nowMs)
                (start_row executionName attempt rv nowMs)
                (none_or (\<lambda>l. lock_expires_at_ms l \<le> nowMs))
                (started_lock sid executionName attempt nowMs))
              (\<lambda>e. isConditionalCheckFailed e \<or> isTransactionCanceled e) (io_return None)
              (\<lambda>_. io_return (Some \<lparr>ws_source_event_id = sid, ws_execution_name = executionName,
                 ws_attempt = attempt, ws_event_revision = rv\<rparr>)))"

definition dyn_markWorkflowStarted ::
    "'d ddb \<Rightarrow> string \<Rightarrow> string \<Rightarrow> int \<Rightarrow> int option \<Rightarrow> int option \<Rightarrow> ('d, workflow_start option) io" where
  "dyn_markWorkflowStarted db sid executionName nowMs expectedRetryCount eventRevision =
     io_bind (dyn_retry_count db sid expectedRetryCount) (\<lambda>count.
       case count of
         None \<Rightarrow> io_return None
       | Some retryCount \<Rightarrow>
         let attempt = retryCount + 1; rv = coalesce eventRevision 1
         in send_catch
              (db_update db sid (workflowStartCondition retryCount nowMs)
                (start_row executionName attempt rv nowMs))
              isConditionalCheckFailed (io_return None)
              (\<lambda>_. io_return (Some \<lparr>ws_source_event_id = sid, ws_execution_name = executionName,
                 ws_attempt = attempt, ws_event_revision = rv\<rparr>)))"

definition dyn_releaseRunnerWorkflowLock :: "'d ddb \<Rightarrow> string \<Rightarrow> int \<Rightarrow> ('d, unit) io" where
  "dyn_releaseRunnerWorkflowLock db sid attempt =
     send_catch (db_delete_lock db (\<lambda>l. lock_owner l = sid \<and> lock_runner_attempt l = attempt))
       isConditionalCheckFailed (io_return ()) io_return"

definition dyn_markWorkflowStopped :: "'d ddb \<Rightarrow> string \<Rightarrow> int \<Rightarrow> int \<Rightarrow> ('d, bool) io" where
  "dyn_markWorkflowStopped db sid attempt nowMs =
     send_catch (db_update db sid (\<lambda>row. er_runner_attempt row = Some attempt) (stopped_workflow_row nowMs))
       isConditionalCheckFailed (io_return False)
       (\<lambda>_. io_bind (dyn_releaseRunnerWorkflowLock db sid attempt) (\<lambda>_. io_return True))"

text \<open>The patch of a progress update sets the same attributes as \<open>applyRunnerWorkflowProgress\<close>.\<close>

definition dyn_updateRunnerWorkflowProgress :: "'d ddb \<Rightarrow> workflow_progress_update \<Rightarrow> ('d, bool) io" where
  "dyn_updateRunnerWorkflowProgress db inp =
     update_when db (wpu_source_event_id inp)
       (\<lambda>row. (wpu_allow_non_processing inp \<or> er_status row = Processing)
          \<and> er_runner_attempt row = Some (wpu_attempt inp))
       (\<lambda>row. applyRunnerWorkflowProgress row inp)"

section \<open>Results\<close>

definition dyn_markFailed ::
    "'d ddb \<Rightarrow> string \<Rightarrow> error_code \<Rightarrow> int \<Rightarrow> int \<Rightarrow> string option \<Rightarrow> int option \<Rightarrow> ('d, bool) io" where
  "dyn_markFailed db sid errorCode nowMs nextRetryAtMs runnerErrorMessage expectedAttempt =
     read_put db sid (fence_processing expectedAttempt)
       (failed_row errorCode nowMs nextRetryAtMs runnerErrorMessage) expectedAttempt False"

definition dyn_applyRunnerResult ::
    "'d ddb \<Rightarrow> string \<Rightarrow> tee_core_result \<Rightarrow> int \<Rightarrow> int option \<Rightarrow> int option \<Rightarrow> ('d, bool) io" where
  "dyn_applyRunnerResult db sid result nowMs pendingNextRetryAtMs expectedAttempt =
     io_bind (dyn_get db sid) (\<lambda>stored.
       case stored of
         None \<Rightarrow> io_return False
       | Some row \<Rightarrow>
         if \<not> fence_processing expectedAttempt row then io_return False
         else io_bind (io_lift (applyResultToRow row result nowMs pendingNextRetryAtMs)) (\<lambda>row'.
                dyn_put db row' expectedAttempt False))"

definition dyn_markRelayerSucceeded ::
    "'d ddb \<Rightarrow> string \<Rightarrow> relayer_success \<Rightarrow> int \<Rightarrow> int option \<Rightarrow> ('d, bool) io" where
  "dyn_markRelayerSucceeded db sid success nowMs expectedAttempt =
     read_put db sid (fence_attempt expectedAttempt) (relayer_succeeded_row success nowMs) expectedAttempt True"

definition dyn_markRelayerFailed ::
    "'d ddb \<Rightarrow> string \<Rightarrow> relayer_mode \<Rightarrow> error_code \<Rightarrow> string \<Rightarrow> int \<Rightarrow> int option \<Rightarrow> ('d, bool) io" where
  "dyn_markRelayerFailed db sid mode errorCode message nowMs expectedAttempt =
     read_put db sid (fence_attempt expectedAttempt) (relayer_failed_row mode errorCode message nowMs) expectedAttempt True"

definition dyn_markSourceArchiveResult ::
    "'d ddb \<Rightarrow> string \<Rightarrow> source_archive_update \<Rightarrow> int \<Rightarrow> int option \<Rightarrow> ('d, bool) io" where
  "dyn_markSourceArchiveResult db sid inp nowMs expectedAttempt =
     read_put db sid (fence_attempt expectedAttempt)
       (\<lambda>row. applySourceArchiveResultToRow row inp nowMs expectedAttempt) expectedAttempt True"

definition dyn_markAffectedCellsProofRegistrationResult ::
    "'d ddb \<Rightarrow> string \<Rightarrow> proof_registration_update \<Rightarrow> int \<Rightarrow> int option \<Rightarrow> ('d, bool) io" where
  "dyn_markAffectedCellsProofRegistrationResult db sid inp nowMs expectedAttempt =
     read_put db sid (fence_attempt expectedAttempt)
       (\<lambda>row. applyAffectedCellsProofRegistrationResultToRow row inp nowMs expectedAttempt) expectedAttempt True"

definition dyn_markFloorCensusProcessing :: "'d ddb \<Rightarrow> string \<Rightarrow> int \<Rightarrow> int option \<Rightarrow> ('d, bool) io" where
  "dyn_markFloorCensusProcessing db sid nowMs expectedAttempt =
     read_put db sid
       (\<lambda>row. er_floor_census_status row \<noteq> Some FcSucceeded \<and> fence_attempt expectedAttempt row)
       (census_processing_row nowMs expectedAttempt) expectedAttempt True"

definition dyn_markFloorCensusResult ::
    "'d ddb \<Rightarrow> string \<Rightarrow> floor_census_update \<Rightarrow> int \<Rightarrow> int option \<Rightarrow> ('d, bool) io" where
  "dyn_markFloorCensusResult db sid inp nowMs expectedAttempt =
     read_put db sid (fence_attempt expectedAttempt)
       (\<lambda>row. applyFloorCensusResultToRow row inp nowMs expectedAttempt) expectedAttempt True"

section \<open>The queue helpers\<close>

definition dyn_enqueueRunnerJob ::
    "'d ddb \<Rightarrow> string \<Rightarrow> int \<Rightarrow> string \<Rightarrow> int \<Rightarrow> int option \<Rightarrow> ('d, runner_queue_job option) io" where
  "dyn_enqueueRunnerJob db sid attempt runnerJobId nowMs eventRevision =
     io_bind (dyn_get db sid) (\<lambda>stored.
       case stored of
         None \<Rightarrow> io_return None
       | Some row \<Rightarrow>
         if er_status row \<notin> DUE_STATUSES \<or> er_retry_count row \<noteq> attempt - 1 then io_return None
         else let rv = coalesce (or_else eventRevision (er_planned_event_revision row)) 1
              in io_bind (dyn_put db (enqueue_row attempt runnerJobId rv nowMs row) None False) (\<lambda>_.
                   io_return (Some \<lparr>rqj_runner_job_id = runnerJobId, rqj_source_event_id = sid,
                     rqj_attempt = attempt, rqj_event_revision = rv, rqj_enqueued_at_ms = nowMs\<rparr>)))"

definition dyn_markQueueEnqueueFailed :: "'d ddb \<Rightarrow> string \<Rightarrow> string \<Rightarrow> int \<Rightarrow> int \<Rightarrow> string \<Rightarrow> ('d, unit) io" where
  "dyn_markQueueEnqueueFailed db sid runnerJobId nowMs nextRetryAtMs message =
     io_void (read_put db sid (\<lambda>row. er_runner_job_id row = Some runnerJobId)
       (enqueue_failed_row nowMs nextRetryAtMs message) None False)"

definition dyn_claimQueuedForProcessing :: "'d ddb \<Rightarrow> runner_queue_job \<Rightarrow> int \<Rightarrow> int \<Rightarrow> ('d, bool) io" where
  "dyn_claimQueuedForProcessing db job nowMs timeoutAtMs =
     io_bind (dyn_get db (rqj_source_event_id job)) (\<lambda>stored.
       case stored of
         None \<Rightarrow> io_return False
       | Some row \<Rightarrow>
         if er_status row \<noteq> Queued \<or> er_runner_job_id row \<noteq> Some (rqj_runner_job_id job)
            \<or> er_runner_attempt row \<noteq> Some (rqj_attempt job)
         then io_return False
         else io_bind (dyn_put db (claimed_row nowMs timeoutAtMs row) None False) (\<lambda>_. io_return True))"

definition dyn_recordRunnerStarted :: "'d ddb \<Rightarrow> string \<Rightarrow> string \<Rightarrow> string \<Rightarrow> int \<Rightarrow> int \<Rightarrow> ('d, unit) io" where
  "dyn_recordRunnerStarted db sid runnerJobId runnerId nowMs timeoutAtMs =
     io_void (read_put db sid (\<lambda>row. er_runner_job_id row = Some runnerJobId)
       (runner_started_row runnerId nowMs timeoutAtMs) None False)"

definition dyn_recordRunnerStopped :: "'d ddb \<Rightarrow> string \<Rightarrow> string \<Rightarrow> int \<Rightarrow> ('d, unit) io" where
  "dyn_recordRunnerStopped db sid runnerJobId nowMs =
     io_void (read_put db sid (\<lambda>row. er_runner_job_id row = Some runnerJobId) (runner_stopped_row nowMs) None False)"

definition dyn_recordRunnerStopFailed :: "'d ddb \<Rightarrow> string \<Rightarrow> string \<Rightarrow> string \<Rightarrow> int \<Rightarrow> ('d, unit) io" where
  "dyn_recordRunnerStopFailed db sid runnerJobId message nowMs =
     io_void (read_put db sid (\<lambda>row. er_runner_job_id row = Some runnerJobId)
       (runner_stop_failed_row message nowMs) None False)"

definition dyn_deferUntil :: "'d ddb \<Rightarrow> string \<Rightarrow> int \<Rightarrow> int \<Rightarrow> ('d, unit) io" where
  "dyn_deferUntil db sid nextRetryAtMs nowMs =
     update_or db sid (\<lambda>row. er_status row = New) (deferred_row nextRetryAtMs nowMs) (io_return ())"

definition dyn_markRejected :: "'d ddb \<Rightarrow> string \<Rightarrow> error_code \<Rightarrow> int \<Rightarrow> ('d, unit) io" where
  "dyn_markRejected db sid errorCode nowMs =
     io_void (read_put db sid (\<lambda>_. True) (rejected_row errorCode nowMs) None False)"

section \<open>Recovery\<close>

definition dyn_recoverStaleProcessingRow :: "'d ddb \<Rightarrow> event_row \<Rightarrow> int \<Rightarrow> int \<Rightarrow> int \<Rightarrow> ('d, bool) io" where
  "dyn_recoverStaleProcessingRow db row staleBeforeMs nowMs nextRetryAtMs =
     update_when db (er_source_event_id row)
       (\<lambda>r. er_status r = Processing \<and> er_updated_at_ms r \<le> staleBeforeMs)
       (\<lambda>r. r\<lparr>er_status := Failed, er_retry_count := er_retry_count row + 1,
          er_next_retry_at_ms := Some nextRetryAtMs, er_error_code := Some ''AWS_RUNNER_TIMEOUT'',
          er_runner_error_message := None, er_updated_at_ms := nowMs\<rparr>)"

fun recover_processing_rows :: "'d ddb \<Rightarrow> int \<Rightarrow> int \<Rightarrow> int \<Rightarrow> event_row list \<Rightarrow> nat \<Rightarrow> ('d, nat) io" where
  "recover_processing_rows db staleBeforeMs nowMs nextRetryAtMs [] recovered = io_return recovered"
| "recover_processing_rows db staleBeforeMs nowMs nextRetryAtMs (row # rows) recovered =
     (if er_status row = Processing \<and> er_updated_at_ms row \<le> staleBeforeMs
      then io_bind (dyn_recoverStaleProcessingRow db row staleBeforeMs nowMs nextRetryAtMs) (\<lambda>did.
             recover_processing_rows db staleBeforeMs nowMs nextRetryAtMs rows
               (if did then recovered + 1 else recovered))
      else recover_processing_rows db staleBeforeMs nowMs nextRetryAtMs rows recovered)"

definition dyn_recoverStaleProcessing :: "'d ddb \<Rightarrow> nat \<Rightarrow> int \<Rightarrow> int \<Rightarrow> int \<Rightarrow> ('d, nat) io" where
  "dyn_recoverStaleProcessing db fuel staleBeforeMs nowMs nextRetryAtMs =
     io_bind (scanRows db fuel) (\<lambda>rows. recover_processing_rows db staleBeforeMs nowMs nextRetryAtMs rows 0)"

fun recover_queued_rows :: "'d ddb \<Rightarrow> int \<Rightarrow> int \<Rightarrow> int \<Rightarrow> event_row list \<Rightarrow> nat \<Rightarrow> ('d, nat) io" where
  "recover_queued_rows db staleBeforeMs nowMs nextRetryAtMs [] recovered = io_return recovered"
| "recover_queued_rows db staleBeforeMs nowMs nextRetryAtMs (row # rows) recovered =
     (if er_status row = Queued \<and> some_and (\<lambda>t. t \<le> staleBeforeMs) (er_runner_queued_at_ms row)
      then io_bind (dyn_markQueueEnqueueFailed db (er_source_event_id row) (coalesce (er_runner_job_id row) [])
             nowMs nextRetryAtMs ''queued runner job was not processed before stale timeout'') (\<lambda>_.
             recover_queued_rows db staleBeforeMs nowMs nextRetryAtMs rows (recovered + 1))
      else recover_queued_rows db staleBeforeMs nowMs nextRetryAtMs rows recovered)"

definition dyn_recoverStaleQueued :: "'d ddb \<Rightarrow> nat \<Rightarrow> int \<Rightarrow> int \<Rightarrow> int \<Rightarrow> ('d, nat) io" where
  "dyn_recoverStaleQueued db fuel staleBeforeMs nowMs nextRetryAtMs =
     io_bind (scanRows db fuel) (\<lambda>rows. recover_queued_rows db staleBeforeMs nowMs nextRetryAtMs rows 0)"

section \<open>The repository\<close>

text \<open>\<open>class DynamoDbStateRepository implements StateRepository\<close>.\<close>

definition dynamo_repository :: "hash_fn \<Rightarrow> 'd ddb \<Rightarrow> nat \<Rightarrow> 'd repository" where
  "dynamo_repository sha db fuel =
    \<lparr>rp_upsertCandidate = dyn_upsertCandidate sha db,
     rp_upsertManualEvent = dyn_upsertManualEvent sha db,
     rp_get = dyn_get db,
     rp_listDue = dyn_listDue db fuel,
     rp_listDueAffectedCellsProofRegistrations = dyn_listDueAffectedCellsProofRegistrations db fuel,
     rp_claimAffectedCellsProofRegistrationRetry = dyn_claimAffectedCellsProofRegistrationRetry db,
     rp_hasActiveRunnerWorkflow = dyn_hasActiveRunnerWorkflow db fuel,
     rp_tryStartRunnerWorkflowExclusively = dyn_tryStartRunnerWorkflowExclusively db,
     rp_markWorkflowStarted = dyn_markWorkflowStarted db,
     rp_markWorkflowStopped = dyn_markWorkflowStopped db,
     rp_updateRunnerWorkflowProgress = dyn_updateRunnerWorkflowProgress db,
     rp_markFailed = dyn_markFailed db,
     rp_applyRunnerResult = dyn_applyRunnerResult db,
     rp_markRelayerSucceeded = dyn_markRelayerSucceeded db,
     rp_markRelayerFailed = dyn_markRelayerFailed db,
     rp_markSourceArchiveResult = dyn_markSourceArchiveResult db,
     rp_markAffectedCellsProofRegistrationResult = dyn_markAffectedCellsProofRegistrationResult db,
     rp_markFloorCensusProcessing = dyn_markFloorCensusProcessing db,
     rp_markFloorCensusResult = dyn_markFloorCensusResult db,
     rp_enqueueRunnerJob = dyn_enqueueRunnerJob db,
     rp_markQueueEnqueueFailed = dyn_markQueueEnqueueFailed db,
     rp_claimQueuedForProcessing = dyn_claimQueuedForProcessing db,
     rp_recordRunnerStarted = dyn_recordRunnerStarted db,
     rp_recordRunnerStopped = dyn_recordRunnerStopped db,
     rp_recordRunnerStopFailed = dyn_recordRunnerStopFailed db,
     rp_deferUntil = dyn_deferUntil db,
     rp_markRejected = dyn_markRejected db,
     rp_recoverStaleProcessing = dyn_recoverStaleProcessing db fuel,
     rp_recoverStaleQueued = dyn_recoverStaleQueued db fuel\<rparr>"

end
