(* ===== verification/TableService.thy ===== *)
theory TableService
  imports DynamoRepo
begin

text \<open>
  What \<open>DynamoDbStateRepository\<close> relies on of the table service, and what follows for the repository.

  The view of a service state is its rows, its lock, and every version each row has had: a
  \<open>GetCommand\<close> without \<open>ConsistentRead\<close> may return an old one.  A write whose call fails may have been
  applied; a transaction that was cancelled was not.  A scan with \<open>ConsistentRead\<close> returns its listing
  in pages, each but the last ending at its \<open>LastEvaluatedKey\<close>.

  From these laws the repository keeps the contract of \<open>RepoInterface\<close>.
\<close>

section \<open>The view of the table\<close>

record table_view =
  tb_rows :: "string \<Rightarrow> event_row option"
  tb_lock :: "runner_lock option"
  tb_seen :: "string \<Rightarrow> event_row set"

definition put_row :: "string \<Rightarrow> event_row \<Rightarrow> table_view \<Rightarrow> table_view" where
  "put_row k r v = v\<lparr>tb_rows := (tb_rows v)(k \<mapsto> r), tb_seen := (tb_seen v)(k := insert r (tb_seen v k))\<rparr>"

text \<open>The result of a conditional write from the view \<open>v\<close> to \<open>v1\<close>.\<close>

definition write_result :: "ddb_error + unit \<Rightarrow> bool \<Rightarrow> table_view \<Rightarrow> table_view \<Rightarrow> table_view \<Rightarrow> bool" where
  "write_result res held v v1 v' \<longleftrightarrow>
     (case res of Inr _ \<Rightarrow> held \<and> v' = v1 | Inl _ \<Rightarrow> v' = v \<or> held \<and> v' = v1)"

text \<open>A page of a scan and what is left of the listing after it.\<close>

definition page_end :: "ddb_item list \<Rightarrow> ddb_item list \<Rightarrow> string option \<Rightarrow> bool" where
  "page_end items rest lastKey \<longleftrightarrow>
     (case lastKey of None \<Rightarrow> rest = [] | Some k \<Rightarrow> items \<noteq> [] \<and> k = item_key (last items))"

text \<open>A write fenced by an attempt: the stored row had the attempt and was processing, unless it need not
  be, and the new row was made from a version of the row.\<close>

definition fenced_write ::
    "table_view \<Rightarrow> string \<Rightarrow> int \<Rightarrow> bool \<Rightarrow> (event_row \<Rightarrow> event_row \<Rightarrow> bool) \<Rightarrow> table_view \<Rightarrow> bool" where
  "fenced_write v k a allowNonProcessing makes v' \<longleftrightarrow>
     (\<exists>old read new. tb_rows v k = Some old \<and> er_runner_attempt old = Some a
        \<and> (allowNonProcessing \<or> er_status old = Processing)
        \<and> read \<in> tb_seen v k \<and> makes read new \<and> v' = put_row k new v)"

text \<open>Every version of a row is stored under its own id and keeps the row invariant.\<close>

definition table_inv :: "table_view \<Rightarrow> bool" where
  "table_inv v \<longleftrightarrow> (\<forall>k r. tb_rows v k = Some r \<or> r \<in> tb_seen v k \<longrightarrow> er_source_event_id r = k \<and> row_inv r)"

definition row_at :: "string \<Rightarrow> table_view \<Rightarrow> event_row option" where
  "row_at k v = (if k = RUNNER_WORKFLOW_LOCK_SOURCE_EVENT_ID then None else tb_rows v k)"

lemma table_inv_row: "table_inv v \<Longrightarrow> tb_rows v k = Some r \<Longrightarrow> er_source_event_id r = k \<and> row_inv r"
  by (simp add: table_inv_def)

lemma table_inv_put: "table_inv v \<Longrightarrow> er_source_event_id r = k \<Longrightarrow> row_inv r \<Longrightarrow> table_inv (put_row k r v)"
  by (simp add: table_inv_def put_row_def)

lemma table_inv_lock [simp]: "table_inv (v\<lparr>tb_lock := l\<rparr>) = table_inv v"
  by (simp add: table_inv_def)

lemma tb_lock_put_row [simp]: "tb_lock (put_row k r v) = tb_lock v"
  by (simp add: put_row_def)

lemma tb_rows_put_row [simp]: "tb_rows (put_row k r v) = (tb_rows v)(k \<mapsto> r)"
  by (simp add: put_row_def)

section \<open>What a service call keeps\<close>

definition call_keeps :: "('d \<Rightarrow> bool) \<Rightarrow> ('d, 'a) ddb_call \<Rightarrow> bool" where
  "call_keeps P call \<longleftrightarrow> (\<forall>st. P st \<longrightarrow> P (snd (call st)))"

lemma call_keepsI: "(\<And>st res st'. P st \<Longrightarrow> call st = (res, st') \<Longrightarrow> P st') \<Longrightarrow> call_keeps P call"
  by (metis call_keeps_def prod.collapse)

lemma call_keepsD: "call_keeps P call \<Longrightarrow> call st = (res, st') \<Longrightarrow> P st \<Longrightarrow> P st'"
  by (metis call_keeps_def snd_conv)

lemma keeps_send [keeps_intros]: "call_keeps P call \<Longrightarrow> keeps P (send call)"
  unfolding call_keeps_def keeps_def send_def by (auto split: prod.split sum.split)

lemma keeps_send_catch [keeps_intros]:
  assumes "call_keeps P call" and "keeps P h" and "\<And>x. keeps P (c x)"
  shows "keeps P (send_catch call caught h c)"
proof (rule keepsI)
  fix st r st' assume P: "P st" and run: "send_catch call caught h c st = (r, st')"
  obtain res st1 where call: "call st = (res, st1)" by (rule prod.exhaust)
  with assms(1) P have "P st1" by (auto simp: call_keeps_def dest: spec [of _ st])
  with run call assms(2,3) show "P st'"
    by (cases res) (auto simp: send_catch_def split: if_splits dest: keepsD)
qed

lemma keeps_lift_bind [keeps_intros]:
  "(\<And>y. x = Inr y \<Longrightarrow> keeps P (f y)) \<Longrightarrow> keeps P (io_bind (io_lift x) f)"
  by (cases x) (auto simp: keeps_def io_bind_def io_lift_def)

lemma keeps_void [keeps_intros]: "keeps P m \<Longrightarrow> keeps P (io_void m)"
  unfolding io_void_def by (intro keeps_intros)

section \<open>The laws of the service\<close>

locale table_service =
  fixes db :: "'d ddb" and view :: "'d \<Rightarrow> table_view" and listing :: "'d \<Rightarrow> ddb_item list"
  assumes get: "db_get db k st = (gres, st') \<Longrightarrow> view st' = view st
      \<and> (\<forall>r. gres = Inr (Some r) \<longrightarrow> r \<in> tb_seen (view st) k)"
    and update_missing: "tb_rows (view st) k = None \<Longrightarrow> db_update db k cond f st = (res, st') \<Longrightarrow>
      view st' = view st \<and> res \<noteq> Inr ()"
    and update: "tb_rows (view st) k = Some r \<Longrightarrow> db_update db k cond f st = (res, st') \<Longrightarrow>
      write_result res (cond r) (view st) (put_row k (f r) (view st)) (view st')"
    and upsert: "db_upsert db ucond row st = (res, st') \<Longrightarrow>
      write_result res (ucond (tb_rows (view st) (er_source_event_id row)))
        (view st) (put_row (er_source_event_id row) row (view st)) (view st')"
    and put: "db_put db row ucond st = (res, st') \<Longrightarrow>
      write_result res (ucond (tb_rows (view st) (er_source_event_id row)))
        (view st) (put_row (er_source_event_id row) row (view st)) (view st')"
    and delete_lock: "db_delete_lock db dcond st = (res, st') \<Longrightarrow>
      write_result res (some_and dcond (tb_lock (view st))) (view st) ((view st)\<lparr>tb_lock := None\<rparr>) (view st')"
    and transact_cancelled: "db_transact db k cond f lcond l st = (Inl e, st') \<Longrightarrow>
      e \<in> {ConditionalCheckFailed, TransactionCanceled} \<Longrightarrow> view st' = view st"
    and transact: "db_transact db k cond f lcond l st = (res, st') \<Longrightarrow>
      view st' = view st \<and> res \<noteq> Inr () \<or>
      (\<exists>r. k \<noteq> RUNNER_WORKFLOW_LOCK_SOURCE_EVENT_ID \<and> tb_rows (view st) k = Some r \<and> cond r
         \<and> lcond (tb_lock (view st)) \<and> view st' = (put_row k (f r) (view st))\<lparr>tb_lock := Some l\<rparr>)"
    and scan: "db_scan db startKey st = (sres, st') \<Longrightarrow> view st' = view st \<and> listing st' = listing st"
    and scan_first: "db_scan db None st = (Inr (items, lastKey), st') \<Longrightarrow>
      \<exists>rest. listing st = items @ rest \<and> page_end items rest lastKey"
    and scan_next: "db_scan db (Some startAt) st = (Inr (items, lastKey), st') \<Longrightarrow>
      listing st = pre @ post \<Longrightarrow> pre \<noteq> [] \<Longrightarrow> item_key (last pre) = startAt \<Longrightarrow>
      \<exists>rest. post = items @ rest \<and> page_end items rest lastKey"
    and listing_rows: "table_inv (view st) \<Longrightarrow>
      EventItem r \<in> set (listing st) \<longleftrightarrow> tb_rows (view st) (er_source_event_id r) = Some r"
    and listing_distinct: "distinct (map item_key (listing st))"
begin

text \<open>The invariant with the value of the lock.\<close>

definition table_ok :: "runner_lock option \<Rightarrow> 'd \<Rightarrow> bool" where
  "table_ok l st \<longleftrightarrow> table_inv (view st) \<and> tb_lock (view st) = l"

text \<open>A write of a row that keeps the row invariant keeps the table's.\<close>

definition row_fun_ok :: "(event_row \<Rightarrow> bool) \<Rightarrow> (event_row \<Rightarrow> event_row) \<Rightarrow> bool" where
  "row_fun_ok cond f \<longleftrightarrow>
     (\<forall>r. cond r \<longrightarrow> row_inv r \<longrightarrow> row_inv (f r) \<and> er_source_event_id (f r) = er_source_event_id r)"

lemma row_fun_okI [intro]:
  "(\<And>r. cond r \<Longrightarrow> row_inv r \<Longrightarrow> row_inv (f r) \<and> er_source_event_id (f r) = er_source_event_id r) \<Longrightarrow> row_fun_ok cond f"
  by (simp add: row_fun_ok_def)

lemma write_ok:
  assumes "write_result res held (view st) (put_row k r (view st)) (view st')" and "table_ok l st"
    and "held \<Longrightarrow> er_source_event_id r = k \<and> row_inv r"
  shows "table_ok l st'"
  using assms by (auto simp: write_result_def table_ok_def table_inv_put split: sum.splits)

lemma update_ok:
  assumes "row_fun_ok cond f"
  shows "call_keeps (table_ok l) (db_update db k cond f)"
proof (rule call_keepsI)
  fix st res st' assume ok: "table_ok l st" and run: "db_update db k cond f st = (res, st')"
  show "table_ok l st'"
  proof (cases "tb_rows (view st) k")
    case None
    with update_missing [OF None run] ok show ?thesis by (simp add: table_ok_def)
  next
    case (Some r)
    with ok have "er_source_event_id r = k \<and> row_inv r" by (auto simp: table_ok_def dest: table_inv_row)
    with assms have "cond r \<Longrightarrow> er_source_event_id (f r) = k \<and> row_inv (f r)" by (auto simp: row_fun_ok_def)
    from write_ok [OF update [OF Some run] ok this] show ?thesis .
  qed
qed

lemma upsert_ok:
  assumes "row_inv row"
  shows "call_keeps (table_ok l) (db_upsert db ucond row)" "call_keeps (table_ok l) (db_put db row ucond)"
  by (rule call_keepsI, erule write_ok [OF upsert], simp_all add: assms)
     (rule call_keepsI, erule write_ok [OF put], simp_all add: assms)

lemma keeps_get [keeps_intros]: "keeps (table_ok l) (dyn_get db k)"
  unfolding dyn_get_def
  by (intro keeps_intros call_keepsI) (drule get, simp add: table_ok_def)

lemma get_seen:
  assumes "table_ok l st" and "dyn_get db k st = (Inr (Some r), st')"
  shows "er_source_event_id r = k \<and> row_inv r"
proof -
  have "db_get db k st = (Inr (Some r), st')"
    using assms(2) by (auto simp: dyn_get_def send_def split: prod.splits sum.splits)
  from get [OF this] assms(1) show ?thesis by (auto simp: table_ok_def table_inv_def)
qed

lemma keeps_get_bind [keeps_intros]:
  assumes "keeps (table_ok l) (f None)"
    and "\<And>r. er_source_event_id r = k \<Longrightarrow> row_inv r \<Longrightarrow> keeps (table_ok l) (f (Some r))"
  shows "keeps (table_ok l) (io_bind (dyn_get db k) f)"
proof (rule keepsI)
  fix st r st' assume ok: "table_ok l st" and "io_bind (dyn_get db k) f st = (r, st')"
  from this(2) show "table_ok l st'"
  proof (cases rule: io_bind_cases)
    case (threw e)
    show ?thesis by (rule keepsD [OF keeps_get threw(1) ok])
  next
    case (returned x st1)
    have st1: "table_ok l st1" by (rule keepsD [OF keeps_get returned(1) ok])
    show ?thesis
    proof (cases x)
      case None
      with returned(2) st1 show ?thesis by (auto intro: keepsD [OF assms(1)])
    next
      case (Some row)
      with get_seen [OF ok] returned(1) have "er_source_event_id row = k \<and> row_inv row" by simp
      then have "keeps (table_ok l) (f x)" using assms(2) Some by simp
      from keepsD [OF this returned(2) st1] show ?thesis .
    qed
  qed
qed

lemma keeps_put: "row_inv row \<Longrightarrow> keeps (table_ok l) (dyn_put db row a np)"
  unfolding dyn_put_def by (intro keeps_intros upsert_ok)

lemma keeps_read_put: "row_fun_ok guard f \<Longrightarrow> keeps (table_ok l) (read_put db k guard f a np)"
  unfolding read_put_def by (intro keeps_intros) (auto simp: row_fun_ok_def intro!: keeps_put keeps_prims)

lemma keeps_update_or: "row_fun_ok cond f \<Longrightarrow> keeps (table_ok l) h \<Longrightarrow> keeps (table_ok l) (update_or db k cond f h)"
  unfolding update_or_def by (intro keeps_intros update_ok)

lemma keeps_update_when: "row_fun_ok cond f \<Longrightarrow> keeps (table_ok l) (update_when db k cond f)"
  unfolding update_when_def by (intro keeps_intros update_ok)

section \<open>Scans\<close>

definition at_key :: "ddb_item list \<Rightarrow> string option \<Rightarrow> bool" where
  "at_key pre startKey \<longleftrightarrow> (case startKey of None \<Rightarrow> pre = [] | Some k \<Rightarrow> pre \<noteq> [] \<and> item_key (last pre) = k)"

lemma scan_page:
  assumes "db_scan db startKey st = (Inr (items, lastKey), st')" and "listing st = pre @ post" and "at_key pre startKey"
  shows "\<exists>rest. post = items @ rest \<and> page_end items rest lastKey"
proof (cases startKey)
  case None
  with assms scan_first [of st items lastKey st'] show ?thesis by (simp add: at_key_def)
next
  case (Some k)
  with assms scan_next [of k st items lastKey st' pre post] show ?thesis by (simp add: at_key_def)
qed

lemma event_rows_append [simp]: "event_rows (xs @ ys) = event_rows xs @ event_rows ys"
  by (simp add: event_rows_def)

lemma event_rows_Nil [simp]: "event_rows [] = []"
  by (simp add: event_rows_def)

lemma scan_pages_result:
  assumes "listing st = pre @ post" and "at_key pre startKey"
    and "scan_pages db fuel startKey acc st = (r, st')"
  shows "view st' = view st \<and> listing st' = listing st \<and> (\<forall>rows. r = Inr rows \<longrightarrow> rows = acc @ event_rows post)"
  using assms
proof (induction fuel arbitrary: pre post startKey acc st)
  case 0
  then show ?case by (auto simp: io_throw_def)
next
  case (Suc fuel)
  obtain sres st1 where page: "db_scan db startKey st = (sres, st1)" by (rule prod.exhaust)
  have same: "view st1 = view st" "listing st1 = listing st" using scan [OF page] by auto
  show ?case
  proof (cases sres)
    case (Inl e)
    with Suc.prems(3) page same show ?thesis by (auto simp: io_bind_def send_def)
  next
    case (Inr p)
    obtain items lastKey where p: "p = (items, lastKey)" by (rule prod.exhaust)
    from scan_page [OF page [unfolded Inr p] Suc.prems(1,2)] obtain rest
      where rest: "post = items @ rest" "page_end items rest lastKey" by blast
    show ?thesis
    proof (cases lastKey)
      case None
      with Suc.prems(3) page same rest Inr p show ?thesis
        by (auto simp: io_bind_def send_def io_return_def page_end_def)
    next
      case (Some k)
      have "listing st1 = (pre @ items) @ rest" "at_key (pre @ items) (Some k)"
        using same Suc.prems(1) rest Some by (auto simp: at_key_def page_end_def)
      moreover have "scan_pages db fuel (Some k) (acc @ event_rows items) st1 = (r, st')"
        using Suc.prems(3) page Inr p Some by (simp add: io_bind_def send_def)
      ultimately have "view st' = view st1 \<and> listing st' = listing st1
          \<and> (\<forall>rows. r = Inr rows \<longrightarrow> rows = (acc @ event_rows items) @ event_rows rest)"
        by (rule Suc.IH)
      with same rest show ?thesis by simp
    qed
  qed
qed

lemma scan_result:
  assumes "scanRows db fuel st = (r, st')"
  shows "view st' = view st" and "listing st' = listing st"
    and "r = Inr rows \<Longrightarrow> rows = event_rows (listing st)"
proof -
  have *: "listing st = [] @ listing st" "at_key [] None" by (simp_all add: at_key_def)
  from scan_pages_result [OF * assms [unfolded scanRows_def]]
  show "view st' = view st" "listing st' = listing st" "r = Inr rows \<Longrightarrow> rows = event_rows (listing st)"
    by simp_all
qed

lemma mem_event_rows:
  "r \<in> set (event_rows items) \<longleftrightarrow>
     EventItem r \<in> set items \<and> er_source_event_id r \<noteq> RUNNER_WORKFLOW_LOCK_SOURCE_EVENT_ID"
  by (auto simp: event_rows_def isEarthquakeEventRow_def item_key_def split: ddb_item.splits)

lemma mem_scanned:
  assumes "table_inv (view st)"
  shows "r \<in> set (event_rows (listing st)) \<longleftrightarrow> row_at (er_source_event_id r) (view st) = Some r"
  using listing_rows [OF assms] by (auto simp: mem_event_rows row_at_def)

lemma scanned_inv:
  assumes "table_inv (view st)" and "r \<in> set (event_rows (listing st))"
  shows "row_inv r"
proof -
  from assms(2) have "tb_rows (view st) (er_source_event_id r) = Some r"
    by (auto simp: mem_scanned [OF assms(1)] row_at_def split: if_splits)
  from table_inv_row [OF assms(1) this] show ?thesis by simp
qed

lemma keeps_scan [keeps_intros]: "keeps (table_ok l) (scanRows db fuel)"
  by (rule keepsI) (drule scan_result(1), simp add: table_ok_def)

lemma keeps_scan_bind:
  assumes "\<And>rows. list_all row_inv rows \<Longrightarrow> keeps (table_ok l) (f rows)"
  shows "keeps (table_ok l) (io_bind (scanRows db fuel) f)"
proof (rule keepsI)
  fix st r st' assume ok: "table_ok l st" and "io_bind (scanRows db fuel) f st = (r, st')"
  from this(2) show "table_ok l st'"
  proof (cases rule: io_bind_cases)
    case (threw e)
    show ?thesis by (rule keepsD [OF keeps_scan threw(1) ok])
  next
    case (returned rows st1)
    have "rows = event_rows (listing st)" using scan_result(3) [OF returned(1)] by simp
    with ok have "list_all row_inv rows" by (auto simp: table_ok_def list_all_iff scanned_inv)
    from keepsD [OF assms [OF this] returned(2) keepsD [OF keeps_scan returned(1) ok]] show ?thesis .
  qed
qed

text \<open>With a service that answers, a scan ends within as many pages as the table has items and one more.\<close>

lemma scan_pages_ends:
  assumes "\<And>k st. \<exists>x st'. db_scan db k st = (Inr x, st')"
    and "listing st = pre @ post" and "at_key pre startKey" and "length post < fuel"
  shows "\<exists>rows st'. scan_pages db fuel startKey acc st = (Inr rows, st')"
  using assms(2-)
proof (induction fuel arbitrary: pre post startKey acc st)
  case (Suc fuel)
  obtain items lastKey st1 where page: "db_scan db startKey st = (Inr (items, lastKey), st1)"
    using assms(1) by (metis surj_pair)
  from scan_page [OF page Suc.prems(1,2)] obtain rest
    where rest: "post = items @ rest" "page_end items rest lastKey" by blast
  show ?case
  proof (cases lastKey)
    case None
    with page show ?thesis by (simp add: io_bind_def send_def io_return_def)
  next
    case (Some k)
    have "listing st1 = (pre @ items) @ rest" "at_key (pre @ items) (Some k)" "length rest < fuel"
      using scan [OF page] Suc.prems rest Some by (auto simp: at_key_def page_end_def Suc_le_eq length_greater_0_conv [symmetric] simp del: length_greater_0_conv)
    then have "\<exists>rows st'. scan_pages db fuel (Some k) (acc @ event_rows items) st1 = (Inr rows, st')"
      by (rule Suc.IH)
    with page Some show ?thesis by (simp add: io_bind_def send_def)
  qed
qed simp

lemma distinct_event_rows: "distinct (map er_source_event_id (event_rows (listing st)))"
proof -
  have "map er_source_event_id (event_rows items) = filter (\<lambda>k. k \<noteq> RUNNER_WORKFLOW_LOCK_SOURCE_EVENT_ID) (map item_key items)" for items
    by (induction items) (auto simp: event_rows_def isEarthquakeEventRow_def item_key_def split: ddb_item.split)
  then show ?thesis using listing_distinct [of st] by (metis distinct_filter)
qed

section \<open>Fenced writes\<close>

lemma put_fenced:
  assumes "dyn_put db row (Some a) np st = (Inr True, st')"
  shows "\<exists>old. tb_rows (view st) (er_source_event_id row) = Some old \<and> er_runner_attempt old = Some a
    \<and> (np \<or> er_status old = Processing) \<and> view st' = put_row (er_source_event_id row) row (view st)"
proof -
  have "db_put db row (put_condition (Some a) np) st = (Inr (), st')"
    using assms by (auto simp: dyn_put_def send_catch_def io_return_def split: prod.splits sum.splits if_splits)
  from put [OF this] show ?thesis
    by (cases "tb_rows (view st) (er_source_event_id row)") (auto simp: write_result_def put_condition_def)
qed

lemma get_version:
  assumes "dyn_get db k st = (Inr (Some r), st')"
  shows "r \<in> tb_seen (view st) k \<and> view st' = view st"
proof -
  have "db_get db k st = (Inr (Some r), st')"
    using assms by (auto simp: dyn_get_def send_def split: prod.splits sum.splits)
  from get [OF this] show ?thesis by simp
qed

lemma read_put_fenced:
  assumes "table_inv (view st)" and "read_put db k guard f (Some a) np st = (Inr True, st')"
    and "row_fun_ok guard f"
  shows "fenced_write (view st) k a np (\<lambda>r r'. guard r \<and> r' = f r) (view st')"
proof -
  from assms(2) obtain r st1 where r: "dyn_get db k st = (Inr (Some r), st1)" "guard r"
    and p: "dyn_put db (f r) (Some a) np st1 = (Inr True, st')"
    by (auto simp: read_put_def io_bind_def io_return_def split: prod.splits sum.splits option.splits if_splits)
  have "er_source_event_id r = k \<and> row_inv r"
    using get_version [OF r(1)] assms(1) by (auto simp: table_inv_def)
  with assms(3) r(2) have "er_source_event_id (f r) = k" by (simp add: row_fun_ok_def)
  with put_fenced [OF p] get_version [OF r(1)] r(2) show ?thesis by (auto simp: fenced_write_def)
qed

end

end
