(* ===== verification/DynamoContract.thy ===== *)
theory DynamoContract
  imports TableService
begin

text \<open>
  \<open>DynamoDbStateRepository\<close> keeps the contract of \<open>RepoInterface\<close> over every service that keeps the
  laws of \<open>TableService\<close>: stale reads, writes that fail after they were applied and lost updates do
  not break the row invariant or the exclusion of runner workflows.
\<close>

context table_service
begin

lemma row_funs:
  "row_fun_ok c (stopped_workflow_row t)" "row_fun_ok c (failed_row e t n m)"
  "row_fun_ok c (relayer_succeeded_row s t)" "row_fun_ok c (relayer_failed_row md e msg t)"
  "row_fun_ok c (census_processing_row t ea)" "row_fun_ok c (enqueue_failed_row t n msg)"
  "row_fun_ok c (runner_started_row i t n)" "row_fun_ok c (runner_stopped_row t)"
  "row_fun_ok c (runner_stop_failed_row msg t)" "row_fun_ok c (deferred_row n t)"
  "row_fun_ok c (rejected_row e t)" "row_fun_ok c (clear_backoff_row t)"
  "row_fun_ok c (\<lambda>row. applySourceArchiveResultToRow row sau t ea)"
  "row_fun_ok c (\<lambda>row. applyAffectedCellsProofRegistrationResultToRow row pru t ea)"
  "row_fun_ok c (\<lambda>row. applyFloorCensusResultToRow row fcu t ea)"
  "row_fun_ok c (\<lambda>row. applyRunnerWorkflowProgress row wpu)"
  "row_fun_ok c (\<lambda>row. resetTerminalResultForManualRerun row t)"
  by (simp_all add: row_fun_ok_def row_inv_transitions)

lemma row_fun_start: "a = n + 1 \<Longrightarrow> row_fun_ok (workflowStartCondition n t) (start_row nm a rv t)"
  by (auto simp: workflowStartCondition_def row_inv_transitions)

lemma row_fun_lease: "row_fun_ok (\<lambda>r. er_proof_registration_status r = Some RetryableFailed \<and> P r) (proof_lease_row t)"
  by (auto simp: row_inv_transitions)

lemma row_fun_metadata:
  "row_fun_ok c (\<lambda>row. row\<lparr>er_last_seen_at_ms := t, er_source_updated_at_ms := u, er_updated_at_ms := t\<rparr>)"
  "row_fun_ok c (\<lambda>row. row\<lparr>er_last_seen_at_ms := t, er_updated_at_ms := t\<rparr>)"
  "row_fun_ok c (\<lambda>row. row\<lparr>er_last_seen_at_ms := t, er_source_updated_at_ms := u\<rparr>)"
  by (auto simp: row_inv_def)

lemma screenable_row_inv: "row_inv (screenable_row c t (if b then (New, None) else screenUsgsCandidate c) uid)"
  by (simp add: row_inv_def screenable_row_def baseRow_def screenUsgsCandidate_def)

lemmas keeps_rows = keeps_read_put keeps_update_or keeps_update_when row_funs row_fun_metadata

lemma dyn_keeps_upsert: "keeps (table_ok l) (dyn_upsertCandidate sha db c t b)"
  unfolding dyn_upsertCandidate_def dyn_updateScreenableCandidate_def Let_def dyn_updateWatcherMetadata_def
    dyn_updateNonTerminalWatcherMetadataFields_def dyn_updateTerminalWatcherMetadataFields_def
    dyn_updateActiveWatcherMetadataFields_def
  by (intro keeps_intros upsert_ok(1) screenable_row_inv keeps_rows)

lemma dyn_keeps_manual: "keeps (table_ok l) (dyn_upsertManualEvent sha db k t q)"
  unfolding dyn_upsertManualEvent_def dyn_clearManualRetryBackoff_def dyn_resetManualTerminalResult_def
  by (intro keeps_bind dyn_keeps_upsert keeps_intros keeps_rows)

lemma dyn_keeps_claim: "keeps (table_ok l) (dyn_claimAffectedCellsProofRegistrationRetry db k x t)"
  unfolding dyn_claimAffectedCellsProofRegistrationRetry_def
  by (intro keeps_intros update_ok row_fun_lease | simp split: prod.split option.split)+

lemma dyn_keeps_retry_count: "keeps (table_ok l) (dyn_retry_count db k ex)"
  unfolding dyn_retry_count_def by (intro keeps_intros | simp)+

lemma dyn_keeps_start: "keeps (table_ok l) (dyn_markWorkflowStarted db k nm t ex rv)"
  unfolding dyn_markWorkflowStarted_def Let_def
  by (intro keeps_bind dyn_keeps_retry_count keeps_intros update_ok row_fun_start refl)

lemma dyn_keeps_listings:
  "keeps (table_ok l) (dyn_listDue db fuel t mx)"
  "keeps (table_ok l) (dyn_listDueAffectedCellsProofRegistrations db fuel t mx)"
  "keeps (table_ok l) (dyn_hasActiveRunnerWorkflow db fuel so)"
  unfolding dyn_listDue_def dyn_listDueAffectedCellsProofRegistrations_def dyn_hasActiveRunnerWorkflow_def
  by (intro keeps_intros)+

lemma dyn_keeps_result: "keeps (table_ok l) (dyn_applyRunnerResult db k tr t no ao)"
  unfolding dyn_applyRunnerResult_def
  by (intro keeps_intros) (auto intro!: keeps_put dest: applyResult_inv)

lemma dyn_keeps_queue:
  "keeps (table_ok l) (dyn_enqueueRunnerJob db k a j t rv)"
  "keeps (table_ok l) (dyn_claimQueuedForProcessing db qj t n)"
  unfolding dyn_enqueueRunnerJob_def dyn_claimQueuedForProcessing_def Let_def
  by (intro keeps_intros keeps_put row_inv_transitions | simp)+

lemmas dyn_row_op_defs =
  dyn_updateRunnerWorkflowProgress_def dyn_markFailed_def dyn_markRelayerSucceeded_def
  dyn_markRelayerFailed_def dyn_markSourceArchiveResult_def
  dyn_markAffectedCellsProofRegistrationResult_def dyn_markFloorCensusProcessing_def
  dyn_markFloorCensusResult_def dyn_markQueueEnqueueFailed_def
  dyn_recordRunnerStarted_def dyn_recordRunnerStopped_def dyn_recordRunnerStopFailed_def
  dyn_deferUntil_def dyn_markRejected_def

lemma dyn_keeps_row_ops:
  "keeps (table_ok l) (dyn_updateRunnerWorkflowProgress db w)"
  "keeps (table_ok l) (dyn_markFailed db k e t n m a)"
  "keeps (table_ok l) (dyn_markRelayerSucceeded db k su t a)"
  "keeps (table_ok l) (dyn_markRelayerFailed db k md e msg t a)"
  "keeps (table_ok l) (dyn_markSourceArchiveResult db k sau t a)"
  "keeps (table_ok l) (dyn_markAffectedCellsProofRegistrationResult db k pru t a)"
  "keeps (table_ok l) (dyn_markFloorCensusProcessing db k t a)"
  "keeps (table_ok l) (dyn_markFloorCensusResult db k fcu t a)"
  "keeps (table_ok l) (dyn_markQueueEnqueueFailed db k j t n msg)"
  "keeps (table_ok l) (dyn_recordRunnerStarted db k j i t n)"
  "keeps (table_ok l) (dyn_recordRunnerStopped db k j t)"
  "keeps (table_ok l) (dyn_recordRunnerStopFailed db k j msg t)"
  "keeps (table_ok l) (dyn_deferUntil db k n t)"
  "keeps (table_ok l) (dyn_markRejected db k e t)"
  unfolding dyn_row_op_defs by (intro keeps_void keeps_prims keeps_rows)+

lemma keeps_recover_row: "row_inv row \<Longrightarrow> keeps (table_ok l) (dyn_recoverStaleProcessingRow db row s t n)"
  unfolding dyn_recoverStaleProcessingRow_def
  by (intro keeps_update_when row_fun_okI) (simp add: row_inv_def)

lemma keeps_recover_rows:
  "list_all row_inv rows \<Longrightarrow> keeps (table_ok l) (recover_processing_rows db s t n rows c)"
  "keeps (table_ok l) (recover_queued_rows db s t n rows c)"
  by (induction rows arbitrary: c) (auto intro!: keeps_prims keeps_bind keeps_if keeps_recover_row dyn_keeps_row_ops)

lemma dyn_keeps_recover:
  "keeps (table_ok l) (dyn_recoverStaleProcessing db fuel s t n)"
  "keeps (table_ok l) (dyn_recoverStaleQueued db fuel s t n)"
  unfolding dyn_recoverStaleProcessing_def dyn_recoverStaleQueued_def
  by (intro keeps_scan_bind keeps_recover_rows, assumption) (intro keeps_scan_bind keeps_recover_rows)

section \<open>Starting and stopping\<close>

lemma start_condition_startable:
  "workflowStartCondition n t r \<Longrightarrow> none_or (\<lambda>m. m = n) ex \<Longrightarrow> startable r t ex"
  by (cases ex) (auto simp: workflowStartCondition_def startable_def isReadyForRetryOrDeadline_def DUE_STATUSES_def)

text \<open>A start leaves the table as it was, or starts the row and takes the lock.\<close>

definition start_effect :: "string \<Rightarrow> string \<Rightarrow> int \<Rightarrow> int option \<Rightarrow> int \<Rightarrow> 'd \<Rightarrow> 'd \<Rightarrow> bool" where
  "start_effect k nm t ex a st st' \<longleftrightarrow> lock_free t (tb_lock (view st))
     \<and> (\<exists>r rv. row_at k (view st) = Some r \<and> startable r t ex \<and> a = er_retry_count r + 1
          \<and> view st' = (put_row k (start_row nm a rv t r) (view st))\<lparr>tb_lock := Some (started_lock k nm a t)\<rparr>)"

lemma start_transaction:
  assumes "db_transact db k (workflowStartCondition n t) (start_row nm (n + 1) rv t)
      (none_or (\<lambda>l. lock_expires_at_ms l \<le> t)) (started_lock k nm (n + 1) t) st = (res, st')"
    and "none_or (\<lambda>m. m = n) ex"
  shows "view st' = view st \<and> res \<noteq> Inr () \<or> start_effect k nm t ex (n + 1) st st'"
  using transact [OF assms(1)] start_condition_startable [OF _ assms(2)]
  by (auto simp: start_effect_def row_at_def lock_free_def workflowStartCondition_def)

lemma retry_count_cases:
  assumes "dyn_retry_count db k ex st = (r, st')"
  shows "view st' = view st \<and> (\<forall>n. r = Inr (Some n) \<longrightarrow> none_or (\<lambda>m. m = n) ex)"
  using assms
  by (cases ex)
    (auto simp: dyn_retry_count_def dyn_get_def send_def io_return_def io_bind_def dest!: get split: prod.splits sum.splits)

lemma start_cases:
  assumes "dyn_tryStartRunnerWorkflowExclusively db k nm t ex rv st = (r, st')"
  shows "(\<forall>w. r = Inr (Some w) \<longrightarrow> start_effect k nm t ex (ws_attempt w) st st')
    \<and> (r = Inr None \<longrightarrow> view st' = view st)
    \<and> (view st' = view st \<or> (\<exists>a. start_effect k nm t ex a st st'))"
proof -
  obtain c st1 where c: "dyn_retry_count db k ex st = (c, st1)" by (rule prod.exhaust)
  have same: "view st1 = view st" using retry_count_cases [OF c] by simp
  show ?thesis
  proof (cases "\<exists>n. c = Inr (Some n)")
    case False
    with assms c same show ?thesis
      by (cases c) (auto simp: dyn_tryStartRunnerWorkflowExclusively_def io_bind_def io_return_def split: option.splits)
  next
    case True
    then obtain n where n: "c = Inr (Some n)" by blast
    obtain res st2 where run: "db_transact db k (workflowStartCondition n t) (start_row nm (n + 1) (coalesce rv 1) t)
      (none_or (\<lambda>l. lock_expires_at_ms l \<le> t)) (started_lock k nm (n + 1) t) st1 = (res, st2)" by (rule prod.exhaust)
    have ex: "none_or (\<lambda>m. m = n) ex" using retry_count_cases [OF c] n by simp
    have "st' = st2" and r: "r = (case res of
        Inl e \<Rightarrow> if e \<in> {ConditionalCheckFailed, TransactionCanceled} then Inr None else Inl (ddb_message e)
      | Inr _ \<Rightarrow> Inr (Some \<lparr>ws_source_event_id = k, ws_execution_name = nm, ws_attempt = n + 1,
          ws_event_revision = coalesce rv 1\<rparr>))"
      using assms c n run
      by (auto simp: dyn_tryStartRunnerWorkflowExclusively_def Let_def io_bind_def send_catch_def io_return_def
          isConditionalCheckFailed_def isTransactionCanceled_def split: sum.splits if_splits)
    moreover have "view st2 = view st1 \<and> res \<noteq> Inr () \<or> start_effect k nm t ex (n + 1) st st2"
      using start_transaction [OF run ex] same by (simp add: start_effect_def)
    moreover have "e \<in> {ConditionalCheckFailed, TransactionCanceled} \<Longrightarrow> res = Inl e \<Longrightarrow> view st2 = view st1" for e
      using transact_cancelled run by blast
    ultimately show ?thesis
      using same by (auto split: sum.splits if_splits)
  qed
qed

lemma start_effect_inv:
  assumes "table_inv (view st)" and "start_effect k nm t ex a st st'"
  shows "table_inv (view st')"
proof -
  from assms(2) obtain r rv where r: "tb_rows (view st) k = Some r" "a = er_retry_count r + 1"
    and v: "view st' = (put_row k (start_row nm a rv t r) (view st))\<lparr>tb_lock := Some (started_lock k nm a t)\<rparr>"
    by (auto simp: start_effect_def row_at_def split: if_splits)
  from table_inv_row [OF assms(1) r(1)] r(2) show ?thesis
    by (auto simp: v row_inv_transitions intro!: table_inv_put [OF assms(1)])
qed

lemma start_inv:
  assumes "table_inv (view st)" and "dyn_tryStartRunnerWorkflowExclusively db k nm t ex rv st = (r, st')"
  shows "table_inv (view st')"
  using start_cases [OF assms(2)] start_effect_inv [OF assms(1)] assms(1) by auto

lemma dyn_started:
  assumes "table_inv (view st)" and "dyn_tryStartRunnerWorkflowExclusively db k nm t ex rv st = (Inr (Some w), st')"
  shows "table_inv (view st') \<and> lock_free t (tb_lock (view st))
    \<and> (\<exists>r rv'. row_at k (view st) = Some r \<and> startable r t ex \<and> ws_attempt w = er_retry_count r + 1
         \<and> row_at k (view st') = Some (start_row nm (ws_attempt w) rv' t r))
    \<and> (\<forall>k'. k' \<noteq> k \<longrightarrow> row_at k' (view st') = row_at k' (view st))
    \<and> tb_lock (view st') = Some (started_lock k nm (ws_attempt w) t)"
proof -
  have "start_effect k nm t ex (ws_attempt w) st st'" using start_cases [OF assms(2)] by blast
  then show ?thesis
    using start_inv [OF assms] by (auto simp: start_effect_def row_at_def split: if_splits)
qed

lemma dyn_stopped:
  assumes "table_inv (view st)" and "dyn_markWorkflowStopped db k a t st = (r, st')"
  shows "table_inv (view st') \<and> (tb_lock (view st') = tb_lock (view st)
    \<or> lock_held_by k a (tb_lock (view st)) \<and> tb_lock (view st') = None)"
proof -
  obtain res st1 where up: "db_update db k (\<lambda>row. er_runner_attempt row = Some a) (stopped_workflow_row t) st = (res, st1)"
    by (rule prod.exhaust)
  have ok: "table_ok (tb_lock (view st)) st1"
    by (rule call_keepsD [OF update_ok [OF row_funs(1)] up]) (simp add: table_ok_def assms(1))
  show ?thesis
  proof (cases res)
    case (Inl e)
    with assms(2) up ok show ?thesis
      by (auto simp: dyn_markWorkflowStopped_def send_catch_def io_return_def table_ok_def split: if_splits)
  next
    case (Inr u)
    obtain dres st2 where del: "db_delete_lock db (\<lambda>l. lock_owner l = k \<and> lock_runner_attempt l = a) st1 = (dres, st2)"
      by (rule prod.exhaust)
    have "st' = st2"
      using assms(2) up Inr del
      by (auto simp: dyn_markWorkflowStopped_def send_catch_def io_bind_def io_return_def
          dyn_releaseRunnerWorkflowLock_def split: sum.splits if_splits)
    with delete_lock [OF del] ok show ?thesis
      by (auto simp: write_result_def table_ok_def lock_held_by_def split: sum.splits)
  qed
qed

section \<open>Listings\<close>

lemma dyn_active:
  assumes "dyn_hasActiveRunnerWorkflow db fuel so st = (rb, st')"
  shows "view st' = view st"
    and "table_inv (view st) \<Longrightarrow> rb = Inr b \<Longrightarrow> row_at k (view st) = Some r \<Longrightarrow> isActiveRunnerWorkflow r so \<Longrightarrow> b"
proof -
  obtain srows st1 where sc: "scanRows db fuel st = (srows, st1)" by (rule prod.exhaust)
  have rb: "rb = map_sum id (list_ex (\<lambda>row. isActiveRunnerWorkflow row so)) srows" "st' = st1"
    using assms sc by (auto simp: dyn_hasActiveRunnerWorkflow_def io_bind_def io_return_def split: sum.splits)
  show "view st' = view st" using scan_result(1) [OF sc] rb by simp
  assume inv: "table_inv (view st)" and b: "rb = Inr b" and r: "row_at k (view st) = Some r" "isActiveRunnerWorkflow r so"
  obtain rows where rows: "srows = Inr rows" using rb b by (cases srows) auto
  have "er_source_event_id r = k"
    using r(1) table_inv_row [OF inv] by (auto simp: row_at_def split: if_splits)
  with scan_result(3) [OF sc rows] r inv have "r \<in> set rows" by (simp add: mem_scanned)
  with rb b rows r(2) show b by (auto simp: list_ex_iff)
qed

lemma dyn_due:
  assumes "dyn_listDue db fuel t mx st = (Inr rows, st')"
  shows "length rows \<le> mx \<and> list_all (is_due t) rows"
  using assms
  by (auto simp: dyn_listDue_def io_bind_def io_return_def list_all_iff split: prod.splits sum.splits dest: in_set_takeD)

end

section \<open>The contract\<close>

sublocale table_service \<subseteq>
  dyn: state_repository "dynamo_repository sha db fuel" "\<lambda>st. table_inv (view st)" "\<lambda>k st. row_at k (view st)" "\<lambda>st. tb_lock (view st)"
  for sha fuel
proof
  fix st k r assume "table_inv (view st)" "row_at k (view st) = Some r"
  then show "er_source_event_id r = k \<and> row_inv r" by (auto simp: row_at_def dest: table_inv_row split: if_splits)
next
  fix st st' k nm t ex rv w
  assume "table_inv (view st)"
    and "rp_tryStartRunnerWorkflowExclusively (dynamo_repository sha db fuel) k nm t ex rv st = (Inr (Some w), st')"
  then show "table_inv (view st') \<and> lock_free t (tb_lock (view st))
    \<and> (\<exists>r rv'. row_at k (view st) = Some r \<and> startable r t ex \<and> ws_attempt w = er_retry_count r + 1
         \<and> row_at k (view st') = Some (start_row nm (ws_attempt w) rv' t r))
    \<and> (\<forall>k'. k' \<noteq> k \<longrightarrow> row_at k' (view st') = row_at k' (view st))
    \<and> tb_lock (view st') = Some (started_lock k nm (ws_attempt w) t)"
    by (intro dyn_started) (simp_all add: dynamo_repository_def)
next
  fix st st' k nm t ex rv
  assume "table_inv (view st)"
    and "rp_tryStartRunnerWorkflowExclusively (dynamo_repository sha db fuel) k nm t ex rv st = (Inr None, st')"
  then show "table_inv (view st') \<and> tb_lock (view st') = tb_lock (view st)"
    using start_cases by (auto simp: dynamo_repository_def)
next
  fix st st' k nm t ex rv and e :: js_error
  assume "table_inv (view st)"
    and "rp_tryStartRunnerWorkflowExclusively (dynamo_repository sha db fuel) k nm t ex rv st = (Inl e, st')"
  then show "table_inv (view st') \<and> (tb_lock (view st') = tb_lock (view st) \<or> lock_free t (tb_lock (view st)))"
    using start_cases [of k nm t ex rv st "Inl e" st'] start_inv [of st k nm t ex rv "Inl e" st']
    by (auto simp: dynamo_repository_def start_effect_def)
next
  fix st st' k a t and r' :: "js_error + bool"
  assume "table_inv (view st)" and "rp_markWorkflowStopped (dynamo_repository sha db fuel) k a t st = (r', st')"
  then show "table_inv (view st') \<and> (tb_lock (view st') = tb_lock (view st)
      \<or> lock_held_by k a (tb_lock (view st)) \<and> tb_lock (view st') = None)"
    by (intro dyn_stopped) (simp_all add: dynamo_repository_def)
next
  fix st st' so b k r
  assume "table_inv (view st)" and "rp_hasActiveRunnerWorkflow (dynamo_repository sha db fuel) so st = (Inr b, st')"
    and "row_at k (view st) = Some r" "isActiveRunnerWorkflow r so"
  then show b using dyn_active(2) [OF _ _ refl] by (simp add: dynamo_repository_def) blast
next
  fix st st' so k and rb :: "js_error + bool"
  assume "rp_hasActiveRunnerWorkflow (dynamo_repository sha db fuel) so st = (rb, st')"
  then show "row_at k (view st') = row_at k (view st)" using dyn_active(1) by (simp add: dynamo_repository_def)
next
  fix st st' t mx rows
  assume "rp_listDue (dynamo_repository sha db fuel) t mx st = (Inr rows, st')"
  then show "length rows \<le> mx \<and> list_all (is_due t) rows" using dyn_due by (simp add: dynamo_repository_def)
qed (simp_all add: dynamo_repository_def table_ok_def [symmetric] dyn_keeps_upsert dyn_keeps_manual keeps_get
  dyn_keeps_claim dyn_keeps_start dyn_keeps_listings dyn_keeps_result dyn_keeps_queue dyn_keeps_row_ops dyn_keeps_recover)

end
