(* ===== verification/TableDb.thy ===== *)
theory TableDb
  imports DynamoContract
begin

text \<open>
  A table service that keeps the laws: the rows and the lock of a repository state, the versions each
  row has had, reads that lag behind by a number of versions, and scans in pages of a fixed size.
  With no lag it is the strongly consistent table on which \<open>DynamoDbStateRepository\<close> is compared
  with \<open>InMemoryStateRepository\<close>.
\<close>

record table =
  tbl_repo :: mem_repo
  tbl_old :: "string \<Rightarrow> event_row list"

definition tbl_get :: "string \<Rightarrow> table \<Rightarrow> event_row option" where
  "tbl_get k st = mem_get k (tbl_repo st)"

definition tbl_write :: "string \<Rightarrow> event_row \<Rightarrow> table \<Rightarrow> table" where
  "tbl_write k row st = st
     \<lparr>tbl_repo := set_row k row (tbl_repo st),
      tbl_old := (tbl_old st)(k := (case tbl_get k st of None \<Rightarrow> [] | Some r \<Rightarrow> r # tbl_old st k))\<rparr>"

definition tbl_lagged :: "nat \<Rightarrow> string \<Rightarrow> table \<Rightarrow> event_row option" where
  "tbl_lagged lag k st =
     map_option (\<lambda>r. (r # tbl_old st k) ! min lag (length (tbl_old st k))) (tbl_get k st)"

definition conditionally :: "bool \<Rightarrow> table \<Rightarrow> table \<Rightarrow> (ddb_error + unit) \<times> table" where
  "conditionally held st1 st = (if held then (Inr (), st1) else (Inl ConditionalCheckFailed, st))"

definition tbl_items :: "table \<Rightarrow> ddb_item list" where
  "tbl_items st =
     map (\<lambda>(k, r). EventItem (r\<lparr>er_source_event_id := k\<rparr>)) (AList.clearjunk (mr_rows (tbl_repo st)))
     @ (case mr_lock (tbl_repo st) of
          None \<Rightarrow> []
        | Some l \<Rightarrow> if tbl_get RUNNER_WORKFLOW_LOCK_SOURCE_EVENT_ID st = None then [LockItem l] else [])"

definition tbl_page :: "nat \<Rightarrow> ddb_item list \<Rightarrow> ddb_item list \<times> string option" where
  "tbl_page n items =
     (take (Suc n) items, if length items \<le> Suc n then None else Some (item_key (last (take (Suc n) items))))"

definition after_key :: "string option \<Rightarrow> ddb_item list \<Rightarrow> ddb_item list" where
  "after_key startKey items =
     (case startKey of None \<Rightarrow> items | Some k \<Rightarrow> tl (dropWhile (\<lambda>i. item_key i \<noteq> k) items))"

definition table_db :: "nat \<Rightarrow> nat \<Rightarrow> table ddb" where
  "table_db lag pageSize =
    \<lparr>db_get = (\<lambda>k st. (Inr (tbl_lagged lag k st), st)),
     db_update = (\<lambda>k cond f st. case tbl_get k st of
         None \<Rightarrow> (Inl ConditionalCheckFailed, st)
       | Some r \<Rightarrow> conditionally (cond r) (tbl_write k (f r) st) st),
     db_upsert = (\<lambda>cond row st. conditionally (cond (tbl_get (er_source_event_id row) st))
        (tbl_write (er_source_event_id row) row st) st),
     db_put = (\<lambda>row cond st. conditionally (cond (tbl_get (er_source_event_id row) st))
        (tbl_write (er_source_event_id row) row st) st),
     db_delete_lock = (\<lambda>cond st. conditionally (some_and cond (mr_lock (tbl_repo st)))
        (st\<lparr>tbl_repo := (tbl_repo st)\<lparr>mr_lock := None\<rparr>\<rparr>) st),
     db_transact = (\<lambda>k cond f lcond l st.
       if k \<noteq> RUNNER_WORKFLOW_LOCK_SOURCE_EVENT_ID \<and> some_and cond (tbl_get k st) \<and> lcond (mr_lock (tbl_repo st))
       then (Inr (), let st1 = tbl_write k (f (the (tbl_get k st))) st
                     in st1\<lparr>tbl_repo := (tbl_repo st1)\<lparr>mr_lock := Some l\<rparr>\<rparr>)
       else (Inl TransactionCanceled, st)),
     db_scan = (\<lambda>startKey st. (Inr (tbl_page pageSize (after_key startKey (tbl_items st))), st))\<rparr>"

section \<open>It keeps the laws\<close>

definition tbl_view :: "table \<Rightarrow> table_view" where
  "tbl_view st = \<lparr>tb_rows = (\<lambda>k. tbl_get k st), tb_lock = mr_lock (tbl_repo st),
     tb_seen = (\<lambda>k. case tbl_get k st of None \<Rightarrow> {} | Some r \<Rightarrow> insert r (set (tbl_old st k)))\<rparr>"

lemma tbl_get_write [simp]: "tbl_get k (tbl_write k' row st) = (if k = k' then Some row else tbl_get k st)"
  by (simp add: tbl_get_def tbl_write_def)

lemma tbl_get_lock [simp]: "tbl_get k (st\<lparr>tbl_repo := (tbl_repo st)\<lparr>mr_lock := l\<rparr>\<rparr>) = tbl_get k st"
  by (simp add: tbl_get_def)

lemma tbl_view_write: "tbl_view (tbl_write k row st) = put_row k row (tbl_view st)"
  by (auto simp: tbl_view_def put_row_def tbl_write_def tbl_get_def fun_eq_iff split: option.split)

lemma tbl_view_lock: "tbl_view (st\<lparr>tbl_repo := (tbl_repo st)\<lparr>mr_lock := l\<rparr>\<rparr>) = (tbl_view st)\<lparr>tb_lock := l\<rparr>"
  by (simp add: tbl_view_def cong: option.case_cong)

lemma tb_rows_view [simp]: "tb_rows (tbl_view st) k = tbl_get k st" "tb_lock (tbl_view st) = mr_lock (tbl_repo st)"
  by (simp_all add: tbl_view_def)

lemma lagged_seen: "tbl_lagged lag k st = Some r \<Longrightarrow> r \<in> tb_seen (tbl_view st) k"
proof -
  assume "tbl_lagged lag k st = Some r"
  then obtain r0 where r0: "tbl_get k st = Some r0" "r = (r0 # tbl_old st k) ! min lag (length (tbl_old st k))"
    by (auto simp: tbl_lagged_def)
  have "(r0 # tbl_old st k) ! min lag (length (tbl_old st k)) \<in> set (r0 # tbl_old st k)"
    by (rule nth_mem) simp
  with r0 show ?thesis by (simp add: tbl_view_def)
qed

lemma conditionally_result:
  "conditionally held st1 st = (res, st') \<Longrightarrow> tbl_view st1 = v1 \<Longrightarrow> write_result res held (tbl_view st) v1 (tbl_view st')"
  by (auto simp: conditionally_def write_result_def split: if_splits)

lemma map_of_junk: "(k, r) \<in> set (AList.clearjunk xs) \<longleftrightarrow> map_of xs k = Some r"
  by (metis distinct_clearjunk map_of_clearjunk map_of_eq_Some_iff)

lemma tbl_items_event:
  "EventItem r \<in> set (tbl_items st) \<longleftrightarrow>
     (\<exists>r'. tbl_get (er_source_event_id r) st = Some r' \<and> r = r'\<lparr>er_source_event_id := er_source_event_id r\<rparr>)"
proof -
  have "EventItem r \<in> set (tbl_items st) \<longleftrightarrow>
      (\<exists>k r'. (k, r') \<in> set (AList.clearjunk (mr_rows (tbl_repo st))) \<and> r = r'\<lparr>er_source_event_id := k\<rparr>)"
    by (auto simp: tbl_items_def split: option.split)
  also have "\<dots> \<longleftrightarrow> (\<exists>r'. tbl_get (er_source_event_id r) st = Some r' \<and> r = r'\<lparr>er_source_event_id := er_source_event_id r\<rparr>)"
    by (auto simp: map_of_junk tbl_get_def mem_get_def)
  finally show ?thesis .
qed

lemma own_id: "table_inv (tbl_view st) \<Longrightarrow> tbl_get k st = Some r \<Longrightarrow> r\<lparr>er_source_event_id := k\<rparr> = r"
  using table_inv_row [of "tbl_view st" k r] by (cases r) auto

lemma distinct_items: "distinct (map item_key (tbl_items st))"
proof -
  have "map item_key (map (\<lambda>(k, r). EventItem (r\<lparr>er_source_event_id := k\<rparr>)) xs) = map fst xs" for xs :: "(string \<times> event_row) list"
    by (induction xs) (auto simp: item_key_def)
  moreover have "item_key (LockItem l) = RUNNER_WORKFLOW_LOCK_SOURCE_EVENT_ID" for l by (simp add: item_key_def)
  moreover have "RUNNER_WORKFLOW_LOCK_SOURCE_EVENT_ID \<notin> fst ` set (AList.clearjunk (mr_rows (tbl_repo st)))"
    if "tbl_get RUNNER_WORKFLOW_LOCK_SOURCE_EVENT_ID st = None"
    using that by (auto simp: map_of_junk tbl_get_def mem_get_def)
  ultimately show ?thesis
    unfolding tbl_items_def map_append
    by (auto simp del: map_map simp add: distinct_clearjunk simp flip: set_map split: option.split)
qed

lemma after_key_split:
  assumes "distinct (map item_key (pre @ post))" and "pre \<noteq> []" and "item_key (last pre) = k"
  shows "after_key (Some k) (pre @ post) = post"
proof -
  obtain as i where pre: "pre = as @ [i]" using assms(2) by (metis rev_exhaust)
  have i: "item_key i = k" using assms(3) pre by simp
  have "item_key i \<notin> item_key ` set as" using assms(1) pre by auto
  with i have "\<forall>j\<in>set as. item_key j \<noteq> k" by (metis imageI)
  with i have "dropWhile (\<lambda>j. item_key j \<noteq> k) (pre @ post) = i # post"
    by (simp add: pre dropWhile_append2)
  then show ?thesis by (simp add: after_key_def)
qed

lemma tbl_page_end:
  assumes "tbl_page n items = (page, lastKey)"
  shows "\<exists>rest. items = page @ rest \<and> page_end page rest lastKey"
proof -
  have "items = page @ drop (Suc n) items" "page_end page (drop (Suc n) items) lastKey"
    using assms by (auto simp: tbl_page_def page_end_def split: if_splits)
  then show ?thesis by blast
qed

interpretation table: table_service "table_db lag pageSize" tbl_view tbl_items
proof
  fix k st gres st'
  assume "db_get (table_db lag pageSize) k st = (gres, st')"
  then show "tbl_view st' = tbl_view st \<and> (\<forall>r. gres = Inr (Some r) \<longrightarrow> r \<in> tb_seen (tbl_view st) k)"
    by (auto simp: table_db_def lagged_seen)
next
  fix k st cond f st' and res :: "ddb_error + unit"
  assume "tb_rows (tbl_view st) k = None" and "db_update (table_db lag pageSize) k cond f st = (res, st')"
  then show "tbl_view st' = tbl_view st \<and> res \<noteq> Inr ()" by (auto simp: table_db_def)
next
  fix k st cond f st' r and res :: "ddb_error + unit"
  assume "tb_rows (tbl_view st) k = Some r" and "db_update (table_db lag pageSize) k cond f st = (res, st')"
  then show "write_result res (cond r) (tbl_view st) (put_row k (f r) (tbl_view st)) (tbl_view st')"
    by (auto simp: table_db_def tbl_view_write intro: conditionally_result)
next
  fix row st ucond st' and res :: "ddb_error + unit"
  assume "db_upsert (table_db lag pageSize) ucond row st = (res, st')"
  then show "write_result res (ucond (tb_rows (tbl_view st) (er_source_event_id row)))
      (tbl_view st) (put_row (er_source_event_id row) row (tbl_view st)) (tbl_view st')"
    by (auto simp: table_db_def tbl_view_write intro: conditionally_result)
next
  fix row st ucond st' and res :: "ddb_error + unit"
  assume "db_put (table_db lag pageSize) row ucond st = (res, st')"
  then show "write_result res (ucond (tb_rows (tbl_view st) (er_source_event_id row)))
      (tbl_view st) (put_row (er_source_event_id row) row (tbl_view st)) (tbl_view st')"
    by (auto simp: table_db_def tbl_view_write intro: conditionally_result)
next
  fix st dcond st' and res :: "ddb_error + unit"
  assume "db_delete_lock (table_db lag pageSize) dcond st = (res, st')"
  then show "write_result res (some_and dcond (tb_lock (tbl_view st))) (tbl_view st)
      ((tbl_view st)\<lparr>tb_lock := None\<rparr>) (tbl_view st')"
    by (auto simp: table_db_def tbl_view_lock intro: conditionally_result)
next
  fix k cond f lcond l st st' and e :: ddb_error
  assume "db_transact (table_db lag pageSize) k cond f lcond l st = (Inl e, st')"
  then show "tbl_view st' = tbl_view st" by (auto simp: table_db_def split: if_splits)
next
  fix k cond f lcond l st st' and res :: "ddb_error + unit"
  assume "db_transact (table_db lag pageSize) k cond f lcond l st = (res, st')"
  then show "tbl_view st' = tbl_view st \<and> res \<noteq> Inr () \<or>
      (\<exists>r. k \<noteq> RUNNER_WORKFLOW_LOCK_SOURCE_EVENT_ID \<and> tb_rows (tbl_view st) k = Some r \<and> cond r
         \<and> lcond (tb_lock (tbl_view st)) \<and> tbl_view st' = (put_row k (f r) (tbl_view st))\<lparr>tb_lock := Some l\<rparr>)"
    by (cases "tbl_get k st") (auto simp: table_db_def tbl_view_write tbl_view_lock Let_def split: if_splits)
next
  fix st startKey sres st'
  assume "db_scan (table_db lag pageSize) startKey st = (sres, st')"
  then show "tbl_view st' = tbl_view st \<and> tbl_items st' = tbl_items st" by (auto simp: table_db_def)
next
  fix st items lastKey st'
  assume "db_scan (table_db lag pageSize) None st = (Inr (items, lastKey), st')"
  then show "\<exists>rest. tbl_items st = items @ rest \<and> page_end items rest lastKey"
    by (intro tbl_page_end [of pageSize]) (auto simp: table_db_def after_key_def)
next
  fix startAt st items lastKey st' pre post
  assume scan: "db_scan (table_db lag pageSize) (Some startAt) st = (Inr (items, lastKey), st')"
    and split: "tbl_items st = pre @ post" "pre \<noteq> []" "item_key (last pre) = startAt"
  have "after_key (Some startAt) (tbl_items st) = post"
    using after_key_split [OF _ split(2,3)] distinct_items [of st] split(1) by simp
  with scan show "\<exists>rest. post = items @ rest \<and> page_end items rest lastKey"
    by (intro tbl_page_end [of pageSize]) (simp add: table_db_def)
next
  fix st r
  assume "table_inv (tbl_view st)"
  then show "EventItem r \<in> set (tbl_items st) \<longleftrightarrow> tb_rows (tbl_view st) (er_source_event_id r) = Some r"
    using own_id [of st "er_source_event_id r"] by (auto simp: tbl_items_event)
next
  fix st show "distinct (map item_key (tbl_items st))" by (rule distinct_items)
qed

end
