(* ===== verification/DynamoProps.thy ===== *)
theory DynamoProps
  imports TableDb SchedulerProps
begin

text \<open>
  What \<open>DynamoDbStateRepository\<close> guarantees over every table service that keeps the laws of
  \<open>TableService\<close>: the guarantees of the in-memory repository that the scheduler and the runner rely
  on, complete scans, fenced writes, and, on a strongly consistent table, the same results as the
  in-memory repository.
\<close>

context table_service
begin

lemma contract:
  "state_repository (dynamo_repository sha db fuel) (\<lambda>st. table_inv (view st)) (\<lambda>k st. row_at k (view st)) (\<lambda>st. tb_lock (view st))"
  by (rule dyn.state_repository_axioms)

lemma apply_result_fenced:
  assumes "table_inv (view st)" and "dyn_applyRunnerResult db k res t no (Some a) st = (Inr True, st')"
  shows "fenced_write (view st) k a False
    (\<lambda>r r'. fence_processing (Some a) r \<and> applyResultToRow r res t no = Inr r') (view st')"
proof -
  from assms(2) obtain r r' st1 where r: "dyn_get db k st = (Inr (Some r), st1)" "fence_processing (Some a) r"
    "applyResultToRow r res t no = Inr r'" and p: "dyn_put db r' (Some a) False st1 = (Inr True, st')"
    by (auto simp: dyn_applyRunnerResult_def io_bind_def io_return_def io_lift_def split: prod.splits sum.splits option.splits if_splits)
  have "er_source_event_id r' = k"
    using get_version [OF r(1)] assms(1) applyResult_id [OF r(3)] by (auto simp: table_inv_def)
  with put_fenced [OF p] get_version [OF r(1)] r(2,3) show ?thesis by (auto simp: fenced_write_def)
qed

lemma scan_complete:
  assumes "\<And>k st. \<exists>x st'. db_scan db k st = (Inr x, st')" and "table_inv (view st)"
    and "length (listing st) < fuel"
  obtains rows st' where "scanRows db fuel st = (Inr rows, st')" "view st' = view st"
    "distinct (map er_source_event_id rows)" "\<And>r. r \<in> set rows \<longleftrightarrow> row_at (er_source_event_id r) (view st) = Some r"
proof -
  have "listing st = [] @ listing st" "at_key [] None" by (simp_all add: at_key_def)
  then have "\<exists>rows st'. scan_pages db fuel None [] st = (Inr rows, st')"
    by (rule scan_pages_ends [OF assms(1) _ _ assms(3)])
  then obtain rows st' where run: "scanRows db fuel st = (Inr rows, st')" by (auto simp: scanRows_def)
  with scan_result [OF run] mem_scanned [OF assms(2)] distinct_event_rows [of st] that show thesis by simp
qed

lemma update_keeps:
  assumes "\<And>v r. P v \<Longrightarrow> tb_rows v k = Some r \<Longrightarrow> cond r \<Longrightarrow> P (put_row k (f r) v)"
  shows "call_keeps (\<lambda>st. P (view st)) (db_update db k cond f)"
proof (rule call_keepsI)
  fix st res st' assume P: "P (view st)" and run: "db_update db k cond f st = (res, st')"
  show "P (view st')"
  proof (cases "tb_rows (view st) k")
    case None
    with update_missing [OF None run] P show ?thesis by simp
  next
    case (Some r)
    with update [OF Some run] P assms show ?thesis by (auto simp: write_result_def split: sum.splits)
  qed
qed

lemma upsert_keeps:
  assumes "\<And>v. P v \<Longrightarrow> ucond (tb_rows v (er_source_event_id row)) \<Longrightarrow> P (put_row (er_source_event_id row) row v)"
  shows "call_keeps (\<lambda>st. P (view st)) (db_upsert db ucond row)"
  by (rule call_keepsI, drule upsert) (use assms in \<open>auto simp: write_result_def split: sum.splits\<close>)

end

lemmas dynamo_contract = table_service.contract

section \<open>A concrete table\<close>

text \<open>One event, ready to be started, whose reads lag by one version.\<close>

definition sample_table :: table where
  "sample_table = \<lparr>tbl_repo = sample_repo, tbl_old = (\<lambda>_. [])\<rparr>"

lemma sample_service: "table_service (table_db 1 0) tbl_view tbl_items"
  by (rule table.table_service_axioms)

lemma sample_table_inv: "table_inv (tbl_view sample_table)"
  using mem_inv_get [OF sample_repo_inv]
  by (auto simp: table_inv_def tbl_view_def sample_table_def tbl_get_def split: option.splits)

definition sample_table_started :: "(js_error + workflow_start option) \<times> table" where
  "sample_table_started =
     dyn_tryStartRunnerWorkflowExclusively (table_db 1 0) ''us7000abcd'' ''run'' 2000 None (Some 1) sample_table"

lemma sample_table_started_eq:
  "sample_table_started = (Inr (Some \<lparr>ws_source_event_id = ''us7000abcd'', ws_execution_name = ''run'', ws_attempt = 1,
       ws_event_revision = 1\<rparr>),
     \<lparr>tbl_repo = \<lparr>mr_rows = [(''us7000abcd'', start_row ''run'' 1 1 2000 (baseRow ''us7000abcd'' 1000))],
        mr_lock = Some (started_lock ''us7000abcd'' ''run'' 1 2000)\<rparr>,
      tbl_old = (\<lambda>_. [])(''us7000abcd'' := [baseRow ''us7000abcd'' 1000])\<rparr>)"
proof -
  have key: "RUNNER_WORKFLOW_LOCK_SOURCE_EVENT_ID \<noteq> ''us7000abcd''"
    by (simp add: RUNNER_WORKFLOW_LOCK_SOURCE_EVENT_ID_def)
  have row: "workflowStartCondition 0 2000 (baseRow ''us7000abcd'' 1000)" "er_retry_count (baseRow ''us7000abcd'' 1000) = 0"
    by (simp_all add: workflowStartCondition_def baseRow_def)
  show ?thesis
    using key [symmetric] row
    by (simp add: sample_table_started_def dyn_tryStartRunnerWorkflowExclusively_def dyn_retry_count_def dyn_get_def
        send_def send_catch_def io_bind_def io_return_def table_db_def tbl_lagged_def tbl_get_def tbl_write_def
        sample_table_def sample_repo_def mem_get_def set_row_def Let_def)
qed

lemma sample_table_step:
  "repo_step (dynamo_repository sha (table_db 1 0) fuel) sample_table (EvStarted ''us7000abcd'' 1 2000) (snd sample_table_started)"
proof -
  have "rp_tryStartRunnerWorkflowExclusively (dynamo_repository sha (table_db 1 0) fuel) ''us7000abcd'' ''run'' 2000 None (Some 1) sample_table
    = (Inr (Some \<lparr>ws_source_event_id = ''us7000abcd'', ws_execution_name = ''run'', ws_attempt = 1,
       ws_event_revision = 1\<rparr>), snd sample_table_started)"
    using sample_table_started_eq by (simp add: dynamo_repository_def sample_table_started_def)
  from repo_step.step_started [OF this] show ?thesis by simp
qed

lemma sample_table_run:
  "repo_run (dynamo_repository sha (table_db 1 0) fuel) (snd sample_table_started) [EvOther] (snd sample_table_started)"
proof -
  have "rp_get (dynamo_repository sha (table_db 1 0) fuel) ''us7000abcd'' (snd sample_table_started)
      = (Inr (tbl_lagged 1 ''us7000abcd'' (snd sample_table_started)), snd sample_table_started)"
    by (simp add: dynamo_repository_def dyn_get_def send_def table_db_def)
  then show ?thesis by (rule run_cons [OF repo_step.step_get run_nil])
qed

section \<open>Any table service\<close>

text \<open>C1. At most one runner workflow at a time, in production: once a start through the table service has
  returned a workflow, no call of any kind lets another start return one, until the workflow's own stop is
  called or a start is attempted ten minutes or more after it.  Reads may be stale, and writes may fail
  after they were applied.\<close>

theorem dynamo_runner_exclusive:
  assumes "table_service db view listing" and "table_inv (view st)"
    and "repo_step (dynamo_repository sha db fuel) st (EvStarted k a t) st1"
    and "repo_run (dynamo_repository sha db fuel) st1 evs st2" and "EvStop k a \<notin> set evs"
    and "\<forall>ev\<in>set evs. \<forall>k' a' t'. ev = EvStarted k' a' t' \<or> ev = EvStartThrew k' t' \<longrightarrow> t' < t + FAILED_RETRY_BACKOFF_MS"
  shows "(\<forall>k' a' t'. EvStarted k' a' t' \<notin> set evs) \<and> lock_held_by k a (tb_lock (view st2))"
proof -
  have c: "state_repository (dynamo_repository sha db fuel) (\<lambda>st. table_inv (view st))
      (\<lambda>k st. row_at k (view st)) (\<lambda>st. tb_lock (view st))" by (rule dynamo_contract [OF assms(1)])
  show ?thesis
    using state_repository.exclusive [OF c assms(4) state_repository.holds_after_start [OF c assms(3,2)] assms(5,6)]
    by (auto simp: state_repository.holds_def [OF c])
qed

theorem dynamo_runner_exclusive_witness:
  "\<exists>st1 st2. repo_step (dynamo_repository checksum32 (table_db 1 0) 5) sample_table (EvStarted ''us7000abcd'' 1 2000) st1
     \<and> repo_run (dynamo_repository checksum32 (table_db 1 0) 5) st1 [EvOther] st2
     \<and> (\<forall>k' a' t'. EvStarted k' a' t' \<notin> set [EvOther]) \<and> lock_held_by ''us7000abcd'' 1 (tb_lock (tbl_view st2))"
  using dynamo_runner_exclusive [OF sample_service sample_table_inv sample_table_step sample_table_run]
    sample_table_step sample_table_run by fastforce

text \<open>C28. Every history of calls through the table service keeps the rows well formed: each row, and each
  version a stale read may return, is stored under its own id, its retries are not negative, a queued or
  processing row carries the attempt that follows its retries, and a proof registration has a retry time
  exactly while it is retryable.\<close>

theorem dynamo_rows_well_formed:
  assumes "table_service db view listing" and "table_inv (view st)"
    and "repo_run (dynamo_repository sha db fuel) st evs st'" and "r \<in> tb_seen (view st') k \<or> tb_rows (view st') k = Some r"
  shows "er_source_event_id r = k \<and> 0 \<le> er_retry_count r
    \<and> (er_status r \<in> {Queued, Processing} \<longrightarrow> er_runner_attempt r = Some (er_retry_count r + 1))
    \<and> ((er_proof_registration_next_retry_at_ms r \<noteq> None) =
        (er_proof_registration_status r = Some RetryableFailed))"
proof -
  have "table_inv (view st')"
    by (rule state_repository.run_inv [OF dynamo_contract [OF assms(1)] assms(3,2)])
  with assms(4) show ?thesis by (auto simp: table_inv_def row_inv_def)
qed

theorem dynamo_rows_well_formed_witness:
  "\<exists>st' r. repo_run (dynamo_repository checksum32 (table_db 1 0) 5) sample_table [EvStarted ''us7000abcd'' 1 2000] st'
     \<and> tb_rows (tbl_view st') ''us7000abcd'' = Some r \<and> er_runner_attempt r = Some (er_retry_count r + 1)"
proof -
  let ?st = "snd sample_table_started" and ?r = "start_row ''run'' 1 1 2000 (baseRow ''us7000abcd'' 1000)"
  have run: "repo_run (dynamo_repository checksum32 (table_db 1 0) 5) sample_table [EvStarted ''us7000abcd'' 1 2000] ?st"
    by (rule run_cons [OF sample_table_step run_nil])
  have r: "tb_rows (tbl_view ?st) ''us7000abcd'' = Some ?r"
    by (simp add: sample_table_started_eq tbl_get_def mem_get_def)
  then have "?r \<in> tb_seen (tbl_view ?st) ''us7000abcd'' \<or> tb_rows (tbl_view ?st) ''us7000abcd'' = Some ?r" by simp
  from dynamo_rows_well_formed [OF sample_service sample_table_inv run this] run r show ?thesis
    by (auto simp: start_row_def)
qed

text \<open>C2. The scheduler in production starts at most one execution: over the table service, either nothing is
  started and zero is returned, or exactly one request is accepted by the workflow service, the event it
  names is left processing with the attempt and the execution name of the request, and one is returned; this
  also holds when the run ends with an error.\<close>

theorem dynamo_at_most_one_start:
  assumes "table_service db view listing" and "table_inv (view s)" and "records_starts hist start reader"
    and "startDueWorkflows (dynamo_repository sha db fuel) start reader t mx (s, w) = (r, (s', w'))"
  shows "table_inv (view s')
    \<and> ((hist w' = hist w \<and> (\<forall>n. r = Inr n \<longrightarrow> n = 0))
       \<or> (\<exists>req. hist w' = hist w @ [req] \<and> running_row t req (row_at (wr_source_event_id req) (view s'))
            \<and> (\<forall>n. r = Inr n \<longrightarrow> n = 1)))"
proof -
  note c = dynamo_contract [OF assms(1), of sha fuel]
  have "state_repository.outcome_ok (\<lambda>st. table_inv (view st)) (\<lambda>k st. row_at k (view st)) hist (hist w) t 0 (Inr 0) (s, w)"
    using assms(2) by (simp add: state_repository.outcome_ok_def [OF c])
  from state_repository.start_loop_ok [OF c assms(3) _ assms(4) [unfolded startDueWorkflows_def] this]
  show ?thesis by (simp add: state_repository.outcome_ok_def [OF c] PROCESSING_STALE_AFTER_MS_def)
qed

theorem dynamo_at_most_one_start_witness:
  "\<exists>r s' w'. startDueWorkflows (dynamo_repository checksum32 (table_db 1 0) 5) accepting None 9000 5 (sample_table, []) = (r, (s', w'))
    \<and> table_inv (tbl_view s') \<and> length w' \<le> 1"
proof -
  obtain r s' w' where run: "startDueWorkflows (dynamo_repository checksum32 (table_db 1 0) 5) accepting None 9000 5 (sample_table, []) = (r, (s', w'))"
    by (metis surj_pair)
  from dynamo_at_most_one_start [OF sample_service sample_table_inv accepting_records run] run show ?thesis by fastforce
qed

text \<open>C3. A runner of an earlier attempt cannot write, even when reads are stale: a fenced method returns true
  only if the stored row carries the expected attempt (and is processing, for a result or a failure), and
  then it has stored what the method makes of a version of the row that passed the same fence.\<close>

theorem dynamo_fenced_writes:
  assumes "table_service db view listing" and "table_inv (view st)"
  shows "(dyn_markFailed db k e t n m (Some a) st = (Inr True, st') \<longrightarrow>
      fenced_write (view st) k a False (\<lambda>r r'. fence_processing (Some a) r \<and> r' = failed_row e t n m r) (view st'))
    \<and> (dyn_applyRunnerResult db k res t no (Some a) st = (Inr True, st') \<longrightarrow>
      fenced_write (view st) k a False
        (\<lambda>r r'. fence_processing (Some a) r \<and> applyResultToRow r res t no = Inr r') (view st'))
    \<and> (dyn_markRelayerSucceeded db k su t (Some a) st = (Inr True, st') \<longrightarrow>
      fenced_write (view st) k a True (\<lambda>r r'. fence_attempt (Some a) r \<and> r' = relayer_succeeded_row su t r) (view st'))
    \<and> (dyn_markRelayerFailed db k md e msg t (Some a) st = (Inr True, st') \<longrightarrow>
      fenced_write (view st) k a True (\<lambda>r r'. fence_attempt (Some a) r \<and> r' = relayer_failed_row md e msg t r) (view st'))
    \<and> (dyn_markSourceArchiveResult db k sau t (Some a) st = (Inr True, st') \<longrightarrow>
      fenced_write (view st) k a True
        (\<lambda>r r'. fence_attempt (Some a) r \<and> r' = applySourceArchiveResultToRow r sau t (Some a)) (view st'))
    \<and> (dyn_markAffectedCellsProofRegistrationResult db k pru t (Some a) st = (Inr True, st') \<longrightarrow>
      fenced_write (view st) k a True
        (\<lambda>r r'. fence_attempt (Some a) r \<and> r' = applyAffectedCellsProofRegistrationResultToRow r pru t (Some a)) (view st'))
    \<and> (dyn_markFloorCensusResult db k fcu t (Some a) st = (Inr True, st') \<longrightarrow>
      fenced_write (view st) k a True
        (\<lambda>r r'. fence_attempt (Some a) r \<and> r' = applyFloorCensusResultToRow r fcu t (Some a)) (view st'))"
proof -
  note rp = table_service.read_put_fenced [OF assms] and rf = table_service.row_funs [OF assms(1)]
  show ?thesis
    by (intro conjI impI)
      (simp_all only: dyn_markFailed_def dyn_markRelayerSucceeded_def dyn_markRelayerFailed_def
        dyn_markSourceArchiveResult_def dyn_markAffectedCellsProofRegistrationResult_def dyn_markFloorCensusResult_def
        rp [OF _ rf(2)] rp [OF _ rf(3)] rp [OF _ rf(4)] rp [OF _ rf(13)] rp [OF _ rf(14)] rp [OF _ rf(15)]
        table_service.apply_result_fenced [OF assms])
qed

lemma sample_service_current: "table_service (table_db 0 0) tbl_view tbl_items"
  by (rule table.table_service_axioms)

lemma sample_table_started_inv: "table_inv (tbl_view (snd sample_table_started))"
  by (rule table.start_inv [OF sample_table_inv, of 1 0 "''us7000abcd''" "''run''" 2000 None "Some 1" "fst sample_table_started"])
    (simp add: sample_table_started_def)

theorem dynamo_fenced_writes_witness:
  "\<exists>st'. dyn_markFailed (table_db 0 0) ''us7000abcd'' ''X'' 3000 4000 None (Some 1) (snd sample_table_started) = (Inr True, st')
    \<and> fenced_write (tbl_view (snd sample_table_started)) ''us7000abcd'' 1 False
        (\<lambda>r r'. fence_processing (Some 1) r \<and> r' = failed_row ''X'' 3000 4000 None r) (tbl_view st')"
proof -
  have "er_source_event_id (start_row ''run'' 1 1 2000 (baseRow ''us7000abcd'' 1000)) = ''us7000abcd''"
    by (simp add: baseRow_def)
  then have "\<exists>st'. dyn_markFailed (table_db 0 0) ''us7000abcd'' ''X'' 3000 4000 None (Some 1) (snd sample_table_started) = (Inr True, st')"
    by (simp add: dyn_markFailed_def read_put_def dyn_get_def dyn_put_def send_def send_catch_def io_bind_def io_return_def
        table_db_def tbl_lagged_def tbl_get_def mem_get_def sample_table_started_eq fence_processing_def put_condition_def
        conditionally_def) (simp add: start_row_def)
  with dynamo_fenced_writes [OF sample_service_current sample_table_started_inv] show ?thesis by blast
qed

text \<open>C29. A scan ends and is complete: with a service that answers every scan request, \<open>scanRows\<close> returns after
  at most one page more than the table has items, changes nothing, and returns every row of the table
  exactly once and never the row of the lock.\<close>

theorem dynamo_scan_complete:
  assumes "table_service db view listing" and "table_inv (view st)"
    and "\<And>k st. \<exists>x st'. db_scan db k st = (Inr x, st')" and "length (listing st) < fuel"
  shows "\<exists>rows st'. scanRows db fuel st = (Inr rows, st') \<and> view st' = view st
    \<and> distinct (map er_source_event_id rows)
    \<and> (\<forall>r. r \<in> set rows \<longleftrightarrow> er_source_event_id r \<noteq> RUNNER_WORKFLOW_LOCK_SOURCE_EVENT_ID
         \<and> tb_rows (view st) (er_source_event_id r) = Some r)"
proof -
  obtain rows st' where "scanRows db fuel st = (Inr rows, st')" "view st' = view st" "distinct (map er_source_event_id rows)"
    and mem: "\<And>r. r \<in> set rows \<longleftrightarrow> row_at (er_source_event_id r) (view st) = Some r"
    using table_service.scan_complete [OF assms(1,3,2,4)] by blast
  moreover have "r \<in> set rows \<longleftrightarrow> er_source_event_id r \<noteq> RUNNER_WORKFLOW_LOCK_SOURCE_EVENT_ID
      \<and> tb_rows (view st) (er_source_event_id r) = Some r" for r
    unfolding mem by (simp add: row_at_def)
  ultimately show ?thesis by blast
qed

lemma table_db_answers: "\<exists>x st'. db_scan (table_db lag n) k st = (Inr x, st')"
  by (simp add: table_db_def)

lemma sample_items: "length (tbl_items sample_table) = 1"
  by (simp add: tbl_items_def sample_table_def sample_repo_def)

theorem dynamo_scan_complete_witness:
  "\<exists>rows st'. scanRows (table_db 1 0) 2 sample_table = (Inr rows, st')
     \<and> (\<forall>r. r \<in> set rows \<longleftrightarrow> er_source_event_id r \<noteq> RUNNER_WORKFLOW_LOCK_SOURCE_EVENT_ID
          \<and> tb_rows (tbl_view sample_table) (er_source_event_id r) = Some r)"
proof -
  have "length (tbl_items sample_table) < 2" by (simp add: sample_items)
  from dynamo_scan_complete [OF sample_service sample_table_inv table_db_answers this] show ?thesis by blast
qed

text \<open>The due listing is exact in production: with a service that answers every scan request it returns
  rows of the table that are due, each at most once, oldest update first, at most the limit of them, and
  leaves out a due row only because the limit was reached by rows that were updated no later.\<close>

theorem dynamo_listDue_exact:
  assumes "table_service db view listing" and "table_inv (view st)"
    and "\<And>k st. \<exists>x st'. db_scan db k st = (Inr x, st')" and "length (listing st) < fuel"
  shows "\<exists>rows st'. dyn_listDue db fuel t n st = (Inr rows, st') \<and> view st' = view st
    \<and> length rows \<le> n \<and> distinct (map er_source_event_id rows) \<and> sorted (map er_updated_at_ms rows)
    \<and> (\<forall>r\<in>set rows. is_due t r \<and> row_at (er_source_event_id r) (view st) = Some r)
    \<and> (\<forall>k r. row_at k (view st) = Some r \<longrightarrow> is_due t r \<longrightarrow> r \<notin> set rows \<longrightarrow>
         length rows = n \<and> (\<forall>r'\<in>set rows. er_updated_at_ms r' \<le> er_updated_at_ms r))"
proof -
  obtain rows st' where sc: "scanRows db fuel st = (Inr rows, st')" "view st' = view st"
    "distinct (map er_source_event_id rows)"
    and mem: "\<And>r. r \<in> set rows \<longleftrightarrow> row_at (er_source_event_id r) (view st) = Some r"
    using table_service.scan_complete [OF assms(1,3,2,4)] by blast
  let ?due = "take n (sort_key er_updated_at_ms (filter (is_due t) rows))"
  note ls = limited_listing [of ?due n er_updated_at_ms "is_due t" rows, OF refl]
  have run: "dyn_listDue db fuel t n st = (Inr ?due, st')"
    using sc(1) by (simp add: dyn_listDue_def io_return_def)
  have full: "length ?due = n \<and> (\<forall>r'\<in>set ?due. er_updated_at_ms r' \<le> er_updated_at_ms r)"
    if "row_at k (view st) = Some r" "is_due t r" "r \<notin> set ?due" for k r
  proof (rule ls(5) [OF _ that(2,3)])
    have "er_source_event_id r = k"
      using that(1) table_inv_row [OF assms(2)] by (auto simp: row_at_def split: if_splits)
    with that(1) mem show "r \<in> set rows" by simp
  qed
  have due: "\<forall>r\<in>set ?due. is_due t r \<and> row_at (er_source_event_id r) (view st) = Some r"
    using ls(4) mem by blast
  show ?thesis
    by (intro exI [of _ ?due] exI [of _ st'] conjI run sc(2) ls(1,2) ls(3) [OF sc(3)] due allI impI) (use full in blast)+
qed

theorem dynamo_listDue_exact_witness:
  "\<exists>rows st'. dyn_listDue (table_db 1 0) 2 5000 3 sample_table = (Inr rows, st') \<and> tbl_view st' = tbl_view sample_table
     \<and> length rows \<le> 3"
proof -
  have "length (tbl_items sample_table) < 2" by (simp add: sample_items)
  from dynamo_listDue_exact [OF sample_service sample_table_inv table_db_answers this] show ?thesis by blast
qed

text \<open>What a candidate may change of a row that has left screening: when it was last seen, the source's update
  time unless the event has a result, and the row's update time unless a runner is processing it.\<close>

definition metadata_changed :: "event_row \<Rightarrow> event_row \<Rightarrow> bool" where
  "metadata_changed old r \<longleftrightarrow> (\<exists>seen src upd.
     r = old\<lparr>er_last_seen_at_ms := seen, er_source_updated_at_ms := src, er_updated_at_ms := upd\<rparr>
     \<and> (er_status old \<in> {Finalized, Submitted, Rejected} \<longrightarrow> src = er_source_updated_at_ms old)
     \<and> (er_status old = Processing \<longrightarrow> upd = er_updated_at_ms old))"

lemma metadata_changedI:
  "r = old\<lparr>er_last_seen_at_ms := seen, er_source_updated_at_ms := src, er_updated_at_ms := upd\<rparr> \<Longrightarrow>
    (er_status old \<in> {Finalized, Submitted, Rejected} \<Longrightarrow> src = er_source_updated_at_ms old) \<Longrightarrow>
    (er_status old = Processing \<Longrightarrow> upd = er_updated_at_ms old) \<Longrightarrow> metadata_changed old r"
  unfolding metadata_changed_def by blast

lemma metadata_refl: "metadata_changed old old"
  by (rule metadata_changedI [where seen = "er_last_seen_at_ms old" and src = "er_source_updated_at_ms old" and upd = "er_updated_at_ms old"]) simp_all

lemma metadata_steps:
  "er_status r \<notin> {Processing, Finalized, Submitted, Rejected} \<Longrightarrow>
    metadata_changed r (r\<lparr>er_last_seen_at_ms := t, er_source_updated_at_ms := u, er_updated_at_ms := t\<rparr>)"
  "er_status r \<noteq> Processing \<Longrightarrow> metadata_changed r (r\<lparr>er_last_seen_at_ms := t, er_updated_at_ms := t\<rparr>)"
  "er_status r = Processing \<Longrightarrow>
    metadata_changed r (r\<lparr>er_last_seen_at_ms := t, er_source_updated_at_ms := u\<rparr>)"
proof -
  show "er_status r \<notin> {Processing, Finalized, Submitted, Rejected} \<Longrightarrow>
      metadata_changed r (r\<lparr>er_last_seen_at_ms := t, er_source_updated_at_ms := u, er_updated_at_ms := t\<rparr>)"
    by (rule metadata_changedI [where seen = t and src = u and upd = t]) simp_all
  show "er_status r \<noteq> Processing \<Longrightarrow> metadata_changed r (r\<lparr>er_last_seen_at_ms := t, er_updated_at_ms := t\<rparr>)"
    by (rule metadata_changedI [where seen = t and src = "er_source_updated_at_ms r" and upd = t]) simp_all
  show "er_status r = Processing \<Longrightarrow>
      metadata_changed r (r\<lparr>er_last_seen_at_ms := t, er_source_updated_at_ms := u\<rparr>)"
    by (rule metadata_changedI [where seen = t and src = u and upd = "er_updated_at_ms r"]) simp_all
qed

lemma metadata_trans:
  assumes "metadata_changed old r" and "metadata_changed r r'"
  shows "metadata_changed old r'"
proof -
  from assms(1) obtain seen src upd where r: "r = old\<lparr>er_last_seen_at_ms := seen, er_source_updated_at_ms := src, er_updated_at_ms := upd\<rparr>"
    and 1: "er_status old \<in> {Finalized, Submitted, Rejected} \<longrightarrow> src = er_source_updated_at_ms old"
      "er_status old = Processing \<longrightarrow> upd = er_updated_at_ms old" unfolding metadata_changed_def by blast
  from assms(2) obtain seen' src' upd' where r': "r' = r\<lparr>er_last_seen_at_ms := seen', er_source_updated_at_ms := src', er_updated_at_ms := upd'\<rparr>"
    and 2: "er_status r \<in> {Finalized, Submitted, Rejected} \<longrightarrow> src' = er_source_updated_at_ms r"
      "er_status r = Processing \<longrightarrow> upd' = er_updated_at_ms r" unfolding metadata_changed_def by blast
  show ?thesis
    by (rule metadata_changedI [where seen = seen' and src = src' and upd = upd']) (use r r' 1 2 in simp_all)
qed

lemma metadata_status: "metadata_changed old r \<Longrightarrow> er_status r = er_status old"
  by (auto simp: metadata_changed_def)

text \<open>A new report of an event never disturbs its processing: when the event has left screening, a
  candidate, whatever errors the service returns, leaves its status, retries, attempt, results and every
  other column as they are, but for the time it was last seen, the source's update time (kept when there is
  a result) and the row's update time (kept while a runner is processing, so that a lost runner is still
  found stale), and changes no other event and not the lock.\<close>

theorem dynamo_candidate_keeps_results:
  assumes "table_service db view listing" and "dyn_upsertCandidate sha db c t b st = (r, st')"
    and "tb_rows (view st) (cand_source_event_id c) = Some old" and "er_status old \<notin> {New, IgnoredSmall}"
  shows "(\<exists>new. tb_rows (view st') (cand_source_event_id c) = Some new \<and> metadata_changed old new)
    \<and> (\<forall>k. k \<noteq> cand_source_event_id c \<longrightarrow> tb_rows (view st') k = tb_rows (view st) k)
    \<and> tb_lock (view st') = tb_lock (view st)"
proof -
  let ?k = "cand_source_event_id c"
  define P :: "table_view \<Rightarrow> bool" where "P v \<longleftrightarrow> (\<exists>new. tb_rows v ?k = Some new \<and> metadata_changed old new)
    \<and> (\<forall>k. k \<noteq> ?k \<longrightarrow> tb_rows v k = tb_rows (view st) k) \<and> tb_lock v = tb_lock (view st)" for v
  have step: "P (put_row ?k (f x) v)"
    if "P v" "tb_rows v ?k = Some x" "cond x" "\<And>x. cond x \<Longrightarrow> metadata_changed x (f x)" for v x f cond
    using that metadata_trans by (auto simp: P_def)
  have meta: "keeps (\<lambda>st. P (view st)) (update_or db ?k cond f h)"
    if "\<And>x. cond x \<Longrightarrow> metadata_changed x (f x)" "keeps (\<lambda>st. P (view st)) h" for cond f h
    unfolding update_or_def
    by (intro keeps_send_catch keeps_prims that(2) table_service.update_keeps [OF assms(1)]) (rule step [OF _ _ _ that(1)])
  have screen: "call_keeps (\<lambda>st. P (view st)) (db_upsert db (screenable_condition s) (screenable_row c t sc uid))" for s sc uid
  proof (rule table_service.upsert_keeps [OF assms(1)])
    fix v assume P: "P v" and "screenable_condition s (tb_rows v (er_source_event_id (screenable_row c t sc uid)))"
    moreover have "er_source_event_id (screenable_row c t sc uid) = ?k" by (simp add: screenable_row_def baseRow_def)
    ultimately have False
      using assms(4) metadata_status by (fastforce simp: P_def screenable_condition_def)
    then show "P (put_row (er_source_event_id (screenable_row c t sc uid)) (screenable_row c t sc uid) v)" ..
  qed
  have "keeps (\<lambda>st. P (view st)) (dyn_upsertCandidate sha db c t b)"
    unfolding dyn_upsertCandidate_def dyn_updateScreenableCandidate_def dyn_updateWatcherMetadata_def Let_def
      dyn_updateNonTerminalWatcherMetadataFields_def dyn_updateTerminalWatcherMetadataFields_def
      dyn_updateActiveWatcherMetadataFields_def
    by (intro keeps_lift_bind keeps_send_catch screen meta keeps_prims) (auto intro: metadata_steps)
  moreover have "P (view st)" using assms(3) metadata_refl by (auto simp: P_def)
  ultimately have "P (view st')" using keepsD assms(2) by fastforce
  then show ?thesis by (simp add: P_def)
qed

theorem dynamo_candidate_keeps_results_witness:
  "\<exists>r st'. dyn_upsertCandidate checksum32 (table_db 1 0) sample_candidate 3000 False (snd sample_table_started) = (r, st')
    \<and> tb_lock (tbl_view st') = tb_lock (tbl_view (snd sample_table_started))
    \<and> (\<exists>new. tb_rows (tbl_view st') ''us7000abcd'' = Some new \<and> er_status new = Processing)"
proof -
  obtain r st' where run: "dyn_upsertCandidate checksum32 (table_db 1 0) sample_candidate 3000 False (snd sample_table_started) = (r, st')"
    by (rule prod.exhaust)
  let ?r = "start_row ''run'' 1 1 2000 (baseRow ''us7000abcd'' 1000)"
  have key: "cand_source_event_id sample_candidate = ''us7000abcd''" by (simp add: sample_candidate_def)
  have row: "tb_rows (tbl_view (snd sample_table_started)) (cand_source_event_id sample_candidate) = Some ?r"
    by (simp add: key sample_table_started_eq tbl_get_def mem_get_def)
  have st: "er_status ?r = Processing" by (simp add: start_row_def)
  from dynamo_candidate_keeps_results [OF sample_service run row] st run metadata_status show ?thesis
    unfolding key by fastforce
qed

end
