(* ===== verification/DynamoRefines.thy ===== *)
theory DynamoRefines
  imports DynamoProps MemRepoProps
begin

text \<open>
  On a strongly consistent table \<open>DynamoDbStateRepository\<close> and \<open>InMemoryStateRepository\<close> return the same
  results and leave the same rows and lock, for every method but the three in which the sources differ:
  a candidate that meets a new or screened-out row (the table resets it, the memory merges it),
  \<open>deferUntil\<close> of a row that is not new, and a start without an event revision.
\<close>

definition agrees :: "(table, 'a) io \<Rightarrow> (mem_repo, 'a) io \<Rightarrow> table \<Rightarrow> bool" where
  "agrees m m' st \<longleftrightarrow> m' (tbl_repo st) = (fst (m st), tbl_repo (snd (m st)))"

text \<open>The rows are well formed and none has the key of the lock.\<close>

definition tbl_ok :: "table \<Rightarrow> bool" where
  "tbl_ok st \<longleftrightarrow> mem_inv (tbl_repo st) \<and> mem_get RUNNER_WORKFLOW_LOCK_SOURCE_EVENT_ID (tbl_repo st) = None"

abbreviation current_db :: "nat \<Rightarrow> table ddb" where
  "current_db \<equiv> table_db 0"

lemma tbl_ok_get: "tbl_ok st \<Longrightarrow> mem_get k (tbl_repo st) = Some r \<Longrightarrow> er_source_event_id r = k \<and> row_inv r"
  unfolding tbl_ok_def using mem_inv_get by blast

lemma tbl_lagged_0 [simp]: "tbl_lagged 0 k st = mem_get k (tbl_repo st)"
  by (simp add: tbl_lagged_def tbl_get_def option.map_ident)

lemma tbl_repo_write [simp]: "tbl_repo (tbl_write k row st) = set_row k row (tbl_repo st)"
  by (simp add: tbl_write_def)

lemma current_calls:
  "send (db_get (current_db n) k) st = (Inr (mem_get k (tbl_repo st)), st)"
  "db_put (current_db n) row ucond st =
     conditionally (ucond (mem_get (er_source_event_id row) (tbl_repo st))) (tbl_write (er_source_event_id row) row st) st"
  "db_update (current_db n) k cond f st = (case mem_get k (tbl_repo st) of
       None \<Rightarrow> (Inl ConditionalCheckFailed, st)
     | Some r \<Rightarrow> conditionally (cond r) (tbl_write k (f r) st) st)"
  "db_delete_lock (current_db n) dcond st = conditionally (some_and dcond (mr_lock (tbl_repo st)))
     (st\<lparr>tbl_repo := (tbl_repo st)\<lparr>mr_lock := None\<rparr>\<rparr>) st"
  "db_transact (current_db n) k cond f lcond l st =
     (if k \<noteq> RUNNER_WORKFLOW_LOCK_SOURCE_EVENT_ID \<and> some_and cond (mem_get k (tbl_repo st)) \<and> lcond (mr_lock (tbl_repo st))
      then (Inr (), let st1 = tbl_write k (f (the (mem_get k (tbl_repo st)))) st
                    in st1\<lparr>tbl_repo := (tbl_repo st1)\<lparr>mr_lock := Some l\<rparr>\<rparr>)
      else (Inl TransactionCanceled, st))"
  by (simp_all add: table_db_def send_def tbl_get_def)

lemma current_put:
  "dyn_put (current_db n) row a np st =
     (if put_condition a np (mem_get (er_source_event_id row) (tbl_repo st))
      then (Inr True, tbl_write (er_source_event_id row) row st) else (Inr False, st))"
  by (simp add: dyn_put_def send_catch_def current_calls conditionally_def isConditionalCheckFailed_def io_return_def)

lemma current_put_bind:
  "io_bind (dyn_put (current_db n) row a np) g st =
     (if put_condition a np (mem_get (er_source_event_id row) (tbl_repo st))
      then g True (tbl_write (er_source_event_id row) row st) else g False st)"
  by (simp add: io_bind_def current_put)

lemma lift_bind: "io_bind (io_lift x) g st = (case x of Inl e \<Rightarrow> (Inl e, st) | Inr y \<Rightarrow> g y st)"
  by (simp add: io_bind_def io_lift_def split: sum.split)

lemma current_get: "io_bind (dyn_get (current_db n) k) f st = f (mem_get k (tbl_repo st)) st"
  by (simp add: io_bind_def dyn_get_def current_calls)

lemma agrees_read_put:
  assumes "tbl_ok st" and "\<And>r. guard r \<Longrightarrow> put_condition a np (Some r)"
    and "\<And>r. er_source_event_id (f r) = er_source_event_id r"
  shows "agrees (read_put (current_db n) k guard f a np) (io_pure (modify k guard f)) st"
proof (cases "mem_get k (tbl_repo st)")
  case None
  then show ?thesis by (simp add: agrees_def read_put_def current_get modify_def io_prims)
next
  case (Some r)
  with tbl_ok_get [OF assms(1)] assms(3) have "er_source_event_id (f r) = k" by simp
  with Some assms(2) show ?thesis
    by (simp add: agrees_def read_put_def current_get current_put modify_def io_prims)
qed

lemma agrees_update_when:
  "agrees (update_when (current_db n) k cond f) (io_pure (modify k cond f)) st"
  by (simp add: agrees_def update_when_def send_catch_def current_calls modify_def io_prims conditionally_def
      isConditionalCheckFailed_def split: option.split)

lemma agrees_void:
  "agrees m (io_pure g) st \<Longrightarrow> agrees (io_void m) (io_write (\<lambda>st. snd (g st))) st"
  by (auto simp: agrees_def io_void_def io_prims io_bind_def split: prod.splits sum.splits)

lemma fence_put: "fence_processing a r \<Longrightarrow> put_condition a False (Some r)"
  "fence_attempt a r \<Longrightarrow> put_condition a True (Some r)" "put_condition None np x"
  by (cases a; simp add: fence_processing_def fence_attempt_def put_condition_def)+

lemma agrees_apply_result:
  assumes "tbl_ok st"
  shows "agrees (dyn_applyRunnerResult (current_db n) k res t no a) (io_try (mem_applyRunnerResult k res t no a)) st"
proof (cases "mem_get k (tbl_repo st)")
  case None
  then show ?thesis
    by (simp add: agrees_def dyn_applyRunnerResult_def current_get mem_applyRunnerResult_def io_try_def io_return_def)
next
  case (Some r)
  with tbl_ok_get [OF assms] have "er_source_event_id r = k" by blast
  with Some fence_put(1) [of a r] show ?thesis
    by (cases "applyResultToRow r res t no")
      (auto simp: agrees_def dyn_applyRunnerResult_def current_get mem_applyRunnerResult_def io_try_def io_return_def
        lift_bind current_put applyResult_id)
qed

lemma agrees_queue:
  assumes "tbl_ok st"
  shows "agrees (dyn_enqueueRunnerJob (current_db n) k a j t rv) (io_pure (mem_enqueueRunnerJob k a j t rv)) st"
    and "agrees (dyn_claimQueuedForProcessing (current_db n) qj t u) (io_pure (mem_claimQueuedForProcessing qj t u)) st"
  using tbl_ok_get [OF assms]
  by (auto simp: agrees_def dyn_enqueueRunnerJob_def mem_enqueueRunnerJob_def dyn_claimQueuedForProcessing_def
      mem_claimQueuedForProcessing_def modify_def current_get io_return_def io_pure_def current_put_bind fence_put(3) Let_def
      split: option.split)

lemma agrees_claim:
  assumes "tbl_ok st"
  shows "agrees (dyn_claimAffectedCellsProofRegistrationRetry (current_db n) k x t)
    (io_pure (mem_claimAffectedCellsProofRegistrationRetry k x t)) st"
  by (auto simp: agrees_def dyn_claimAffectedCellsProofRegistrationRetry_def mem_claimAffectedCellsProofRegistrationRetry_def
      current_get io_prims send_catch_def current_calls conditionally_def isDueAffectedCellsProofRegistration_def
      split: option.split)

lemma start_condition_iff:
  "workflowStartCondition m t r \<longleftrightarrow> startable r t (Some m)"
  by (auto simp: workflowStartCondition_def startable_def isReadyForRetryOrDeadline_def DUE_STATUSES_def)

lemma current_retry_count:
  "io_bind (dyn_retry_count (current_db n) k ex) f st =
     f (case ex of Some m \<Rightarrow> Some m | None \<Rightarrow> map_option er_retry_count (mem_get k (tbl_repo st))) st"
  by (cases ex) (simp_all add: dyn_retry_count_def io_bind_assoc current_get)

lemma agrees_mark_started:
  shows "agrees (dyn_markWorkflowStarted (current_db n) k nm t ex (Some rv))
    (io_pure (mem_markWorkflowStarted k nm t ex (Some rv))) st"
  by (cases ex; cases "mem_get k (tbl_repo st)")
    (auto simp: agrees_def dyn_markWorkflowStarted_def mem_markWorkflowStarted_def current_retry_count io_prims Let_def
      send_catch_def current_calls conditionally_def start_condition_iff startable_def isConditionalCheckFailed_def)

lemma agrees_start:
  assumes "tbl_ok st"
  shows "agrees (dyn_tryStartRunnerWorkflowExclusively (current_db n) k nm t ex (Some rv))
    (io_pure (mem_tryStartRunnerWorkflowExclusively k nm t ex (Some rv))) st"
proof -
  have "mem_get k (tbl_repo st) = Some r \<Longrightarrow> k \<noteq> RUNNER_WORKFLOW_LOCK_SOURCE_EVENT_ID" for r
    using assms by (auto simp: tbl_ok_def)
  then show ?thesis
    by (cases ex; cases "mem_get k (tbl_repo st)"; cases "mr_lock (tbl_repo st)")
      (auto simp: agrees_def dyn_tryStartRunnerWorkflowExclusively_def mem_tryStartRunnerWorkflowExclusively_def
        mem_markWorkflowStarted_def current_retry_count io_prims Let_def send_catch_def current_calls
        start_condition_iff startable_def isConditionalCheckFailed_def isTransactionCanceled_def)
qed

lemma agrees_stop:
  "agrees (dyn_markWorkflowStopped (current_db n) k a t) (io_pure (mem_markWorkflowStopped k a t)) st"
  by (cases "mem_get k (tbl_repo st)")
    (auto simp: agrees_def dyn_markWorkflowStopped_def mem_markWorkflowStopped_def modify_def io_prims io_bind_def
      send_catch_def current_calls conditionally_def isConditionalCheckFailed_def dyn_releaseRunnerWorkflowLock_def
      mem_releaseRunnerWorkflowLock_def)

section \<open>Scans\<close>

lemma current_scan_keeps: "keeps (\<lambda>s. s = st) (scan_pages (table_db lag n) fuel startKey acc)"
  by (induction fuel arbitrary: startKey acc)
    (auto intro!: keeps_intros simp: call_keeps_def table_db_def split: prod.split option.split)

lemma clearjunk_distinct: "distinct (map fst xs) \<Longrightarrow> AList.clearjunk xs = xs"
  by (induction xs rule: clearjunk.induct) (auto simp: delete_idem)

lemma current_items:
  assumes "tbl_ok st"
  shows "event_rows (tbl_items st) = mem_values (tbl_repo st)"
proof -
  have inv: "mem_inv (tbl_repo st)" using assms by (simp add: tbl_ok_def)
  have d: "distinct (map fst (mr_rows (tbl_repo st)))" using inv by (simp add: mem_inv_def)
  have own: "r\<lparr>er_source_event_id := k\<rparr> = r \<and> k \<noteq> RUNNER_WORKFLOW_LOCK_SOURCE_EVENT_ID \<and> er_source_event_id r = k"
    if "(k, r) \<in> set (mr_rows (tbl_repo st))" for k r
    using mem_rows_own_id [OF inv that] assms by (cases r) (auto simp: tbl_ok_def)
  have "event_rows (map (\<lambda>(k, r). EventItem (r\<lparr>er_source_event_id := k\<rparr>)) xs) = map snd xs"
    if "set xs \<subseteq> set (mr_rows (tbl_repo st))" for xs
    using that own by (induction xs) (auto simp: event_rows_def isEarthquakeEventRow_def item_key_def)
  then show ?thesis
    using clearjunk_distinct [OF d]
    by (auto simp: tbl_items_def mem_values_def event_rows_def isEarthquakeEventRow_def item_key_def split: option.split)
qed

lemma current_scan:
  assumes "tbl_ok st" and "length (tbl_items st) < fuel"
  shows "scanRows (table_db lag n) fuel st = (Inr (mem_values (tbl_repo st)), st)"
proof -
  have answers: "\<And>k st. \<exists>x st'. db_scan (table_db lag n) k st = (Inr x, st')" by (simp add: table_db_def)
  have *: "tbl_items st = [] @ tbl_items st" "table_service.at_key [] None"
    by (simp_all add: table_service.at_key_def [OF table.table_service_axioms])
  from table.scan_pages_ends [OF answers * assms(2)] obtain rows st'
    where run: "scanRows (table_db lag n) fuel st = (Inr rows, st')"
    unfolding scanRows_def by blast
  have "st' = st" using keepsD [OF current_scan_keeps run [unfolded scanRows_def] refl] .
  moreover have "rows = mem_values (tbl_repo st)"
    using table.scan_result(3) [OF run refl] current_items [OF assms(1)] by simp
  ultimately show ?thesis using run by simp
qed

lemma current_scan_bind:
  assumes "tbl_ok st" and "length (tbl_items st) < fuel"
  shows "io_bind (scanRows (table_db lag n) fuel) f st = f (mem_values (tbl_repo st)) st"
  by (simp add: io_bind_def current_scan [OF assms])

lemma agrees_listings:
  assumes "tbl_ok st" and "length (tbl_items st) < fuel"
  shows "agrees (dyn_listDue (current_db n) fuel t mx) (io_read (mem_listDue t mx)) st"
    and "agrees (dyn_listDueAffectedCellsProofRegistrations (current_db n) fuel t mx)
      (io_read (mem_listDueAffectedCellsProofRegistrations t mx)) st"
    and "agrees (dyn_hasActiveRunnerWorkflow (current_db n) fuel so) (io_read (mem_hasActiveRunnerWorkflow so)) st"
  by (simp_all add: agrees_def dyn_listDue_def mem_listDue_def dyn_listDueAffectedCellsProofRegistrations_def
      mem_listDueAffectedCellsProofRegistrations_def dyn_hasActiveRunnerWorkflow_def mem_hasActiveRunnerWorkflow_def
      current_scan_bind [OF assms] io_prims)

section \<open>Recovery\<close>

text \<open>The loop over the scanned rows and the loop over the live rows do the same, as long as the rows that
  are left to visit are the stored ones.\<close>

definition rows_stored :: "event_row list \<Rightarrow> table \<Rightarrow> bool" where
  "rows_stored rows st \<longleftrightarrow> distinct (map er_source_event_id rows)
     \<and> (\<forall>r\<in>set rows. mem_get (er_source_event_id r) (tbl_repo st) = Some r)"

lemma rows_stored_write:
  "rows_stored (r # rows) st \<Longrightarrow> k = er_source_event_id r \<Longrightarrow> rows_stored rows (tbl_write k r' st)"
  by (simp add: rows_stored_def) (metis imageI)

lemma recover_processing_agrees:
  assumes "rows_stored rows st"
  shows "\<exists>c' st'. recover_processing_rows (current_db n) s t u rows c st = (Inr c', st')
    \<and> foldl (recover_processing_step s t u) (c, tbl_repo st) (map er_source_event_id rows) = (c', tbl_repo st')"
  using assms
proof (induction rows arbitrary: c st)
  case (Cons r rows)
  let ?k = "er_source_event_id r"
  have get: "mem_get ?k (tbl_repo st) = Some r" using Cons.prems by (simp add: rows_stored_def)
  have tail: "rows_stored rows st" using Cons.prems by (simp add: rows_stored_def)
  show ?case
  proof (cases "is_stale s r")
    case False
    then have "recover_processing_rows (current_db n) s t u (r # rows) c = recover_processing_rows (current_db n) s t u rows c"
      by (auto simp: is_stale_def)
    moreover have "recover_processing_step s t u (c, tbl_repo st) ?k = (c, tbl_repo st)"
      using False get by (auto simp: is_stale_def recover_processing_step_def)
    ultimately show ?thesis using Cons.IH [OF tail] by simp
  next
    case True
    let ?r = "failed_row ''AWS_RUNNER_TIMEOUT'' t u None r"
    have "dyn_recoverStaleProcessingRow (current_db n) r s t u st = (Inr True, tbl_write ?k ?r st)"
      using True get
      by (simp add: dyn_recoverStaleProcessingRow_def update_when_def send_catch_def current_calls conditionally_def
          is_stale_def failed_row_def io_return_def)
    moreover have "recover_processing_step s t u (c, tbl_repo st) ?k = (Suc c, tbl_repo (tbl_write ?k ?r st))"
      using True get
      by (simp add: recover_processing_step_def is_stale_def mem_markFailed_def modify_def fence_processing_def)
    moreover have "rows_stored rows (tbl_write ?k ?r st)" by (rule rows_stored_write [OF Cons.prems refl])
    ultimately show ?thesis
      using True Cons.IH [of "tbl_write ?k ?r st" "Suc c"] by (simp add: is_stale_def io_bind_def)
  qed
qed (simp add: io_return_def)

lemma recover_queued_agrees:
  assumes "rows_stored rows st"
  shows "\<exists>c' st'. recover_queued_rows (current_db n) s t u rows c st = (Inr c', st')
    \<and> foldl (recover_queued_step s t u) (c, tbl_repo st) (map er_source_event_id rows) = (c', tbl_repo st')"
  using assms
proof (induction rows arbitrary: c st)
  case (Cons r rows)
  let ?k = "er_source_event_id r"
  let ?m = "''queued runner job was not processed before stale timeout''"
  have get: "mem_get ?k (tbl_repo st) = Some r" using Cons.prems by (simp add: rows_stored_def)
  have tail: "rows_stored rows st" using Cons.prems by (simp add: rows_stored_def)
  show ?case
  proof (cases "er_status r = Queued \<and> some_and (\<lambda>t. t \<le> s) (er_runner_queued_at_ms r)")
    case False
    then have "recover_queued_rows (current_db n) s t u (r # rows) c = recover_queued_rows (current_db n) s t u rows c"
      by auto
    moreover have "recover_queued_step s t u (c, tbl_repo st) ?k = (c, tbl_repo st)"
      using False get by (auto simp: recover_queued_step_def)
    ultimately show ?thesis using Cons.IH [OF tail] by simp
  next
    case True
    let ?j = "coalesce (er_runner_job_id r) []" and ?r = "enqueue_failed_row t u ?m r"
    let ?st = "if er_runner_job_id r = Some ?j then tbl_write ?k ?r st else st"
    have "dyn_markQueueEnqueueFailed (current_db n) ?k ?j t u ?m st = (Inr (), ?st)"
      using get
      by (simp add: dyn_markQueueEnqueueFailed_def io_void_def read_put_def io_bind_assoc current_get current_put_bind
          put_condition_def io_return_def)
    moreover have "recover_queued_step s t u (c, tbl_repo st) ?k = (c + 1, tbl_repo ?st)"
      using True get by (simp add: recover_queued_step_def mem_markQueueEnqueueFailed_def modify_def)
    moreover have "rows_stored rows ?st" using tail rows_stored_write [OF Cons.prems refl] by simp
    ultimately show ?thesis
      using True Cons.IH [of ?st "c + 1"] by (simp add: io_bind_def)
  qed
qed (simp add: io_return_def)

lemma agrees_recover:
  assumes "tbl_ok st" and "length (tbl_items st) < fuel"
  shows "agrees (dyn_recoverStaleProcessing (current_db n) fuel s t u) (io_pure (mem_recoverStaleProcessing s t u)) st"
    and "agrees (dyn_recoverStaleQueued (current_db n) fuel s t u) (io_pure (mem_recoverStaleQueued s t u)) st"
proof -
  have inv: "mem_inv (tbl_repo st)" using assms(1) by (simp add: tbl_ok_def)
  have stored: "rows_stored (mem_values (tbl_repo st)) st"
    using mem_values_distinct [OF inv] mem_values_iff [OF inv] by (simp add: rows_stored_def)
  have ids: "map er_source_event_id (mem_values (tbl_repo st)) = map fst (mr_rows (tbl_repo st))"
    using mem_rows_own_id [OF inv] by (simp add: mem_values_def)
  show "agrees (dyn_recoverStaleProcessing (current_db n) fuel s t u) (io_pure (mem_recoverStaleProcessing s t u)) st"
    using recover_processing_agrees [OF stored, of n s t u 0]
    by (auto simp: agrees_def dyn_recoverStaleProcessing_def mem_recoverStaleProcessing_def ids io_prims
        current_scan_bind [OF assms])
  show "agrees (dyn_recoverStaleQueued (current_db n) fuel s t u) (io_pure (mem_recoverStaleQueued s t u)) st"
    using recover_queued_agrees [OF stored, of n s t u 0]
    by (auto simp: agrees_def dyn_recoverStaleQueued_def mem_recoverStaleQueued_def ids io_prims
        current_scan_bind [OF assms])
qed

lemma agrees_row_ops:
  assumes "tbl_ok st"
  shows "agrees (dyn_updateRunnerWorkflowProgress (current_db n) w) (io_pure (mem_updateRunnerWorkflowProgress w)) st"
    and "agrees (dyn_markFailed (current_db n) k e t u mo ao) (io_pure (mem_markFailed k e t u mo ao)) st"
    and "agrees (dyn_markRelayerSucceeded (current_db n) k su t ao) (io_pure (mem_markRelayerSucceeded k su t ao)) st"
    and "agrees (dyn_markRelayerFailed (current_db n) k md e msg t ao) (io_pure (mem_markRelayerFailed k md e msg t ao)) st"
    and "agrees (dyn_markSourceArchiveResult (current_db n) k sau t ao) (io_pure (mem_markSourceArchiveResult k sau t ao)) st"
    and "agrees (dyn_markAffectedCellsProofRegistrationResult (current_db n) k pru t ao)
      (io_pure (mem_markAffectedCellsProofRegistrationResult k pru t ao)) st"
    and "agrees (dyn_markFloorCensusProcessing (current_db n) k t ao) (io_pure (mem_markFloorCensusProcessing k t ao)) st"
    and "agrees (dyn_markFloorCensusResult (current_db n) k fcu t ao) (io_pure (mem_markFloorCensusResult k fcu t ao)) st"
    and "agrees (dyn_markQueueEnqueueFailed (current_db n) k j t u msg) (io_write (mem_markQueueEnqueueFailed k j t u msg)) st"
    and "agrees (dyn_recordRunnerStarted (current_db n) k j i t u) (io_write (mem_recordRunnerStarted k j i t u)) st"
    and "agrees (dyn_recordRunnerStopped (current_db n) k j t) (io_write (mem_recordRunnerStopped k j t)) st"
    and "agrees (dyn_recordRunnerStopFailed (current_db n) k j msg t) (io_write (mem_recordRunnerStopFailed k j msg t)) st"
    and "agrees (dyn_markRejected (current_db n) k e t) (io_write (mem_markRejected k e t)) st"
  unfolding table.dyn_row_op_defs mem_op_defs [abs_def] conj_commute [of "er_runner_attempt _ = _"]
  by (rule agrees_update_when agrees_read_put [OF assms] agrees_void | simp add: fence_put)+

section \<open>Properties\<close>


lemma sample_table_ok: "tbl_ok sample_table"
  using sample_repo_inv
  by (simp add: tbl_ok_def sample_table_def sample_repo_def mem_get_def RUNNER_WORKFLOW_LOCK_SOURCE_EVENT_ID_def)




text \<open>A stale read undoes a newer write: a rejected event is processing again after a claim that read the
  version before the rejection, because the claim puts the whole row back without a condition.\<close>

definition queued_row :: event_row where
  "queued_row = enqueue_row 1 ''job'' 1 2000 (baseRow ''us7000abcd'' 1000)"

definition rejected_table :: table where
  "rejected_table = \<lparr>tbl_repo = \<lparr>mr_rows = [(''us7000abcd'', rejected_row ''REJECTED_AUTO_TRIGGER'' 2500 queued_row)],
     mr_lock = None\<rparr>, tbl_old = (\<lambda>_. [])(''us7000abcd'' := [queued_row])\<rparr>"

theorem dynamo_lost_update:
  "\<exists>job st'. dyn_claimQueuedForProcessing (table_db 1 0) job 3000 9000 rejected_table = (Inr True, st')
     \<and> map_option er_status (tb_rows (tbl_view rejected_table) ''us7000abcd'') = Some Rejected
     \<and> map_option er_status (tb_rows (tbl_view st') ''us7000abcd'') = Some Processing"
proof -
  let ?job = "\<lparr>rqj_runner_job_id = ''job'', rqj_source_event_id = ''us7000abcd'', rqj_attempt = 1,
    rqj_event_revision = 1, rqj_enqueued_at_ms = 2000\<rparr>"
  have q: "er_status queued_row = Queued" "er_runner_job_id queued_row = Some ''job''" "er_runner_attempt queued_row = Some 1"
    "er_source_event_id queued_row = ''us7000abcd''"
    by (simp_all add: queued_row_def enqueue_row_def baseRow_def)
  have read: "db_get (table_db 1 0) ''us7000abcd'' rejected_table = (Inr (Some queued_row), rejected_table)"
    by (simp add: table_db_def tbl_lagged_def rejected_table_def tbl_get_def mem_get_def)
  let ?st = "tbl_write ''us7000abcd'' (claimed_row 3000 9000 queued_row) rejected_table"
  have "db_put (table_db 1 0) (claimed_row 3000 9000 queued_row) (put_condition None False) rejected_table = (Inr (), ?st)"
    using q(4) by (simp add: table_db_def conditionally_def put_condition_def)
  with read q have "dyn_claimQueuedForProcessing (table_db 1 0) ?job 3000 9000 rejected_table = (Inr True, ?st)"
    by (simp add: dyn_claimQueuedForProcessing_def dyn_get_def dyn_put_def send_def send_catch_def io_bind_def io_return_def)
  moreover have "map_option er_status (tb_rows (tbl_view rejected_table) ''us7000abcd'') = Some Rejected"
    by (simp add: rejected_table_def tbl_get_def mem_get_def rejected_row_def)
  moreover have "map_option er_status (tb_rows (tbl_view ?st) ''us7000abcd'') = Some Processing"
    by (simp add: claimed_row_def)
  ultimately show ?thesis by blast
qed

end
