(* ===== verification/RunnerShell.thy ===== *)
theory RunnerShell
  imports OraclePayload
begin

text \<open>
  \<open>nautilus/verifiers/common/contracts/src/runner_shell.ts\<close>: the shell commands that run the enclave on
  the runner instance, with their quoting, and \<open>JSON.stringify\<close>, whose text the commands carry.

  The text of a number is a parameter of \<open>json_text\<close>.  White space is what \<open>/\s/\<close> matches in ASCII, as
  the process command is a line of the deployment's configuration.
\<close>

section \<open>JSON text\<close>

definition json_escape :: "char \<Rightarrow> string" where
  "json_escape c = (let n = (of_char c :: nat) in
     if c = CHR 0x22 then [CHR 0x5C, CHR 0x22]
     else if c = CHR 0x5C then [CHR 0x5C, CHR 0x5C]
     else if n = 8 then [CHR 0x5C, CHR ''b'']
     else if n = 12 then [CHR 0x5C, CHR ''f'']
     else if n = 10 then [CHR 0x5C, CHR ''n'']
     else if n = 13 then [CHR 0x5C, CHR ''r'']
     else if n = 9 then [CHR 0x5C, CHR ''t'']
     else if n < 32 then [CHR 0x5C, CHR ''u'', CHR ''0'', CHR ''0''] @ hex2 (word_of_nat n)
     else [c])"

definition json_string :: "string \<Rightarrow> string" where
  "json_string s = [CHR 0x22] @ concat (map json_escape s) @ [CHR 0x22]"

fun join_with :: "string \<Rightarrow> string list \<Rightarrow> string" where
  "join_with sep [] = []"
| "join_with sep [x] = x"
| "join_with sep (x # y # xs) = x @ sep @ join_with sep (y # xs)"

text \<open>An undefined value is dropped from an object and is \<open>null\<close> in an array.\<close>

fun json_text :: "(rat \<Rightarrow> string) \<Rightarrow> js_value \<Rightarrow> string"
and json_fields :: "(rat \<Rightarrow> string) \<Rightarrow> (string \<times> js_value) list \<Rightarrow> string list"
and json_items :: "(rat \<Rightarrow> string) \<Rightarrow> js_value list \<Rightarrow> string list" where
  "json_text num JUndef = ''null''"
| "json_text num JNull = ''null''"
| "json_text num (JBool b) = (if b then ''true'' else ''false'')"
| "json_text num (JNum q) = num q"
| "json_text num JNonFinite = ''null''"
| "json_text num (JStr s) = json_string s"
| "json_text num (JArr vs) = ''['' @ join_with '','' (json_items num vs) @ '']''"
| "json_text num (JObj fs) = ''{'' @ join_with '','' (json_fields num fs) @ ''}''"
| "json_fields num [] = []"
| "json_fields num ((k, v) # fs) =
     (if v = JUndef then [] else [json_string k @ '':'' @ json_text num v]) @ json_fields num fs"
| "json_items num [] = []"
| "json_items num (v # vs) = json_text num v # json_items num vs"

section \<open>Quoting\<close>

abbreviation quote_char :: char where "quote_char \<equiv> CHR 0x27"
abbreviation double_quote :: char where "double_quote \<equiv> CHR 0x22"
abbreviation backslash :: char where "backslash \<equiv> CHR 0x5C"

definition shellSingleQuote :: "string \<Rightarrow> string" where
  "shellSingleQuote s =
     [quote_char]
     @ concat (map (\<lambda>c. if c = quote_char then [quote_char, backslash, quote_char, quote_char] else [c]) s)
     @ [quote_char]"

text \<open>The loop of \<open>parseNitroEnclaveProcessCommand\<close>: the words so far, the current word, the open quote,
  and whether a word has started.\<close>

fun parse_words :: "string \<Rightarrow> string list \<Rightarrow> string \<Rightarrow> char option \<Rightarrow> bool \<Rightarrow> js_error + string list" where
  "parse_words [] ws cur quote started =
     (if quote \<noteq> None then Inl ''invalid NITRO_ENCLAVE_PROCESS_COMMAND: unterminated quote''
      else let ws' = (if started then ws @ [cur] else ws)
           in if ws' = [] \<or> hd ws' = [] then Inl ''invalid NITRO_ENCLAVE_PROCESS_COMMAND: command is empty''
              else Inr ws')"
| "parse_words (c # cs) ws cur quote started =
     (if quote = Some quote_char then
        (if c = quote_char then parse_words cs ws cur None started
         else parse_words cs ws (cur @ [c]) quote started)
      else if quote = Some double_quote then
        (if c = double_quote then parse_words cs ws cur None started
         else if c = backslash then
           (case cs of
              [] \<Rightarrow> Inl ''invalid NITRO_ENCLAVE_PROCESS_COMMAND: trailing escape''
            | d # ds \<Rightarrow> parse_words ds ws (cur @ [d]) quote started)
         else parse_words cs ws (cur @ [c]) quote started)
      else if c = quote_char \<or> c = double_quote then parse_words cs ws cur (Some c) True
      else if c = backslash then
        (case cs of
           [] \<Rightarrow> Inl ''invalid NITRO_ENCLAVE_PROCESS_COMMAND: trailing escape''
         | d # ds \<Rightarrow> parse_words ds ws (cur @ [d]) quote True)
      else if is_js_space c then
        (if started then parse_words cs (ws @ [cur]) [] quote False else parse_words cs ws cur quote started)
      else parse_words cs ws (cur @ [c]) quote True)"

definition parseNitroEnclaveProcessCommand :: "string \<Rightarrow> js_error + string list" where
  "parseNitroEnclaveProcessCommand command = parse_words command [] [] None False"

section \<open>The commands\<close>

definition buildRequiredShellEnvCheck :: "string \<Rightarrow> string" where
  "buildRequiredShellEnvCheck name = '': '' @ [double_quote] @ ''${'' @ name @ '':?'' @ name @ '' is required}'' @ [double_quote]"

definition newline :: string where "newline = [CHR 0x0A]"

definition buildRunnerBootstrapReadinessShellCommand :: "string list \<Rightarrow> string list \<Rightarrow> string list \<Rightarrow> string" where
  "buildRunnerBootstrapReadinessShellCommand requiredEnvNames preEnvCommands postEnvCommands =
     join_with newline
       ([''set -euo pipefail'', ''test -f /opt/sonari/bootstrap-complete'', ''test -s /opt/sonari/runner.env'',
         ''source /opt/sonari/runner.env'']
        @ preEnvCommands @ map buildRequiredShellEnvCheck requiredEnvNames @ postEnvCommands)"

record ssm_shell_input =
  ssi_resultBucket :: string
  ssi_resultS3Key :: string
  ssi_nitroEnclaveProcessCommand :: string
  ssi_teeInput :: "js_value option"
  ssi_teeInputS3Uri :: "string option"
  ssi_requiredEnvNames :: "string list"
  ssi_preEnvCommands :: "string list"
  ssi_postEnvCommands :: "string list"
  ssi_tempResultPath :: string

definition buildRunnerSsmShellCommand :: "(rat \<Rightarrow> string) \<Rightarrow> ssm_shell_input \<Rightarrow> js_error + string" where
  "buildRunnerSsmShellCommand num inp =
     res_bind (parseNitroEnclaveProcessCommand (ssi_nitroEnclaveProcessCommand inp)) (\<lambda>ws.
       let commandInvocation = join_with '' '' (map shellSingleQuote ws);
           target = '' | '' @ commandInvocation @ '' > '' @ shellSingleQuote (ssi_tempResultPath inp)
       in if (ssi_teeInput inp \<noteq> None) = (ssi_teeInputS3Uri inp \<noteq> None)
          then Inl ''exactly one of teeInput or teeInputS3Uri is required''
          else Inr (join_with newline
            ([''set -euo pipefail'', ''source /opt/sonari/runner.env'']
             @ ssi_preEnvCommands inp @ map buildRequiredShellEnvCheck (ssi_requiredEnvNames inp)
             @ ssi_postEnvCommands inp
             @ [''RESULT_S3_KEY='' @ shellSingleQuote (ssi_resultS3Key inp),
                ''NITRO_ENCLAVE_PROCESS_COMMAND='' @ shellSingleQuote (ssi_nitroEnclaveProcessCommand inp),
                ''export NITRO_ENCLAVE_PROCESS_COMMAND'',
                (case ssi_teeInputS3Uri inp of
                   None \<Rightarrow> ''printf '' @ shellSingleQuote ''%s'' @ '' ''
                     @ shellSingleQuote (json_text num (the (ssi_teeInput inp))) @ target
                 | Some uri \<Rightarrow> ''aws s3 cp '' @ shellSingleQuote uri @ '' -'' @ target),
                ''aws s3 cp '' @ shellSingleQuote (ssi_tempResultPath inp) @ '' ''
                  @ shellSingleQuote (''s3://'' @ ssi_resultBucket inp @ ''/'' @ ssi_resultS3Key inp)])))"

section \<open>Quoted words are read back\<close>

lemma parse_quoted_body:
  "parse_words (concat (map (\<lambda>c. if c = quote_char then [quote_char, backslash, quote_char, quote_char] else [c]) s)
       @ quote_char # rest) ws cur (Some quote_char) True
     = parse_words rest ws (cur @ s) None True"
  by (induction s arbitrary: cur) auto

lemma parse_quoted:
  "parse_words (shellSingleQuote s @ rest) ws cur None started = parse_words rest ws (cur @ s) None True"
  by (simp add: shellSingleQuote_def parse_quoted_body)

lemma parse_quoted_words:
  "xs \<noteq> [] \<Longrightarrow> parse_words (join_with '' '' (map shellSingleQuote xs)) ws [] None False
     = (if ws @ xs = [] \<or> hd (ws @ xs) = [] then Inl ''invalid NITRO_ENCLAVE_PROCESS_COMMAND: command is empty''
        else Inr (ws @ xs))"
proof (induction xs arbitrary: ws)
  case (Cons x ys)
  show ?case
  proof (cases ys)
    case Nil
    then show ?thesis using parse_quoted [of x "[]" ws "[]" False] by simp
  next
    case (Cons y zs)
    let ?rest = "join_with '' '' (map shellSingleQuote ys)"
    have "parse_words (join_with '' '' (map shellSingleQuote (x # ys))) ws [] None False
        = parse_words ('' '' @ ?rest) ws x None True"
      using parse_quoted [of x "'' '' @ ?rest" ws "[]" False] by (simp add: Cons)
    also have "\<dots> = parse_words ?rest (ws @ [x]) [] None False"
      by (simp add: is_js_space_def)
    finally show ?thesis using Cons.IH [of "ws @ [x]"] Cons by simp
  qed
qed simp



end
