(* ===== verification/RunnerContracts.thy ===== *)
theory RunnerContracts
  imports RunnerShell Effects
begin

text \<open>
  \<open>nautilus/verifiers/common/contracts/src/index.ts\<close>: what the verifiers' runner workflows share.  The
  verifier kind of an event, the lease of the shared runner, finding, commanding and polling a runner
  instance, and the readers of the attestation and of the registration of an enclave.

  The AWS clients are parameters, the fields of \<open>runner_clients\<close>; each is a call over the state of the
  outside world.  A client's error is its message, except that of \<open>getCommandInvocation\<close>, whose name the
  code reads.  The clock and the timer of the workflow are fields of the same record.
\<close>

section \<open>Verifier kinds\<close>

definition EARTHQUAKE_VERIFIER_KIND :: string where "EARTHQUAKE_VERIFIER_KIND = ''earthquake''"
definition MEMBERSHIP_IDENTITY_VERIFIER_KIND :: string where
  "MEMBERSHIP_IDENTITY_VERIFIER_KIND = ''membership_identity''"

definition parseVerifierKind :: "js_value \<Rightarrow> js_error + string" where
  "parseVerifierKind v =
     (if v = JStr EARTHQUAKE_VERIFIER_KIND then Inr EARTHQUAKE_VERIFIER_KIND
      else if v = JStr MEMBERSHIP_IDENTITY_VERIFIER_KIND then Inr MEMBERSHIP_IDENTITY_VERIFIER_KIND
      else Inl ''verifier_kind must be earthquake or membership_identity'')"

definition parseExpectedVerifierKind :: "js_value \<Rightarrow> string \<Rightarrow> js_error + string option" where
  "parseExpectedVerifierKind v expected =
     (if v = JUndef then Inr None
      else res_bind (parseVerifierKind v) (\<lambda>verifierKind.
        if verifierKind \<noteq> expected then Inl (''verifier_kind must be '' @ expected)
        else Inr (Some verifierKind)))"

text \<open>A spread after a property keeps the place of the property and overrides its value.\<close>

definition withVerifierKind :: "string option \<Rightarrow> json_record \<Rightarrow> json_record" where
  "withVerifierKind verifierKind output =
     (case verifierKind of
        None \<Rightarrow> output
      | Some k \<Rightarrow> (''verifier_kind'', coalesce (map_of output ''verifier_kind'') (JStr k))
          # filter (\<lambda>(f, _). f \<noteq> ''verifier_kind'') output)"

section \<open>The lease of the shared runner\<close>

record 'w lease_store =
  ls_acquire :: "string \<Rightarrow> string \<Rightarrow> int \<Rightarrow> int \<Rightarrow> ('w, unit) io"
  ls_release :: "string \<Rightarrow> string \<Rightarrow> ('w, bool) io"

definition buildSharedRunnerLeaseOwner :: "string \<Rightarrow> string \<Rightarrow> int option \<Rightarrow> js_error + string" where
  "buildSharedRunnerLeaseOwner verifierKind workflowId attempt =
     (if length workflowId = 0 then Inl ''workflowId is required for shared runner lease''
      else Inr (join_with '':'' [verifierKind, workflowId, show_int (coalesce attempt 1)]))"

definition acquireSharedRunnerLease :: "'w lease_store \<Rightarrow> string \<Rightarrow> int \<Rightarrow> int option \<Rightarrow> ('w, unit) io" where
  "acquireSharedRunnerLease store owner nowMs ttl =
     (let nowSeconds = nowMs div 1000; leaseTtlSeconds = coalesce ttl (60 * 60)
      in ls_acquire store ''shared-runner'' owner nowSeconds (nowSeconds + leaseTtlSeconds))"

definition releaseSharedRunnerLease :: "'w lease_store \<Rightarrow> string \<Rightarrow> ('w, bool) io" where
  "releaseSharedRunnerLease store owner = ls_release store ''shared-runner'' owner"

section \<open>Runner instances and commands\<close>

datatype command_status = CmdPending | CmdSucceeded | CmdFailed

type_synonym invocation_error = "string \<times> js_error"

record 'w runner_clients =
  rc_setDesiredCapacity :: "string \<Rightarrow> nat \<Rightarrow> ('w, unit) io"
  rc_listRunnerInstances :: "string \<Rightarrow> ('w, (string \<times> string) list) io"
  rc_listOnlineManagedInstanceIds :: "string list \<Rightarrow> ('w, string list) io"
  rc_checkRunnerBootstrapReady :: "string \<Rightarrow> ('w, bool) io"
  rc_sendCommand :: "string \<Rightarrow> string \<Rightarrow> ('w, string) io"
  rc_getCommandInvocation :: "string \<Rightarrow> string \<Rightarrow> 'w \<Rightarrow> (invocation_error + string) \<times> 'w"
  rc_getObjectText :: "string \<Rightarrow> string \<Rightarrow> ('w, string) io"
  rc_putObjectBytes :: "(string \<Rightarrow> string \<Rightarrow> bytes \<Rightarrow> ('w, unit) io) option"
  rc_now :: "'w \<Rightarrow> int \<times> 'w"
  rc_delay :: "int \<Rightarrow> ('w, unit) io"

definition setRunnerDesiredCapacity :: "'w runner_clients \<Rightarrow> string \<Rightarrow> nat \<Rightarrow> ('w, unit) io" where
  "setRunnerDesiredCapacity cl autoScalingGroupName desiredCapacity =
     rc_setDesiredCapacity cl autoScalingGroupName desiredCapacity"

text \<open>The loop over the running instances: the first that is online and ready.\<close>

fun first_ready :: "'w runner_clients \<Rightarrow> string list \<Rightarrow> string \<Rightarrow> string list \<Rightarrow> ('w, string) io" where
  "first_ready cl online runnerLabel [] =
     io_throw (''No running SSM-managed '' @ runnerLabel @ '' instance is bootstrap-ready'')"
| "first_ready cl online runnerLabel (instanceId # ids) =
     (if instanceId \<notin> set online then first_ready cl online runnerLabel ids
      else io_bind (rc_checkRunnerBootstrapReady cl instanceId) (\<lambda>ready.
        if ready then io_return instanceId else first_ready cl online runnerLabel ids))"

definition findReadyRunnerInstance :: "'w runner_clients \<Rightarrow> string \<Rightarrow> string option \<Rightarrow> ('w, string) io" where
  "findReadyRunnerInstance cl autoScalingGroupName runnerLabel =
     io_bind (rc_listRunnerInstances cl autoScalingGroupName) (\<lambda>instances.
     let runningIds = map fst (filter (\<lambda>(_, state). state = ''running'') instances) in
     io_bind (rc_listOnlineManagedInstanceIds cl runningIds) (\<lambda>online.
       first_ready cl online (coalesce runnerLabel ''runner'') runningIds))"

record dispatched_command =
  di_command_id :: string
  di_result_s3_key :: string
  di_command_poll_count :: int

definition result_key :: "string \<Rightarrow> int \<Rightarrow> string" where
  "result_key workflowId dispatchTimestampMs =
     ''results/'' @ workflowId @ ''/'' @ show_int dispatchTimestampMs @ ''.json''"

definition dispatchRunnerCommand ::
    "'w runner_clients \<Rightarrow> string \<Rightarrow> string \<Rightarrow> int \<Rightarrow> (string \<Rightarrow> js_error + string) \<Rightarrow> ('w, dispatched_command) io" where
  "dispatchRunnerCommand cl workflowId instanceId dispatchTimestampMs buildShellCommand =
     (let resultS3Key = result_key workflowId dispatchTimestampMs in
      io_bind (io_lift (buildShellCommand resultS3Key)) (\<lambda>shellCommand.
      io_bind (rc_sendCommand cl instanceId shellCommand) (\<lambda>commandId.
        io_return \<lparr>di_command_id = commandId, di_result_s3_key = resultS3Key, di_command_poll_count = 0\<rparr>)))"

definition normalizeCommandStatus :: "string \<Rightarrow> command_status" where
  "normalizeCommandStatus status =
     (if status = ''Success'' then CmdSucceeded
      else if status = ''Pending'' \<or> status = ''InProgress'' \<or> status = ''Delayed'' then CmdPending
      else CmdFailed)"

definition isTransientCommandInvocationLookupError :: "invocation_error \<Rightarrow> bool" where
  "isTransientCommandInvocationLookupError e \<longleftrightarrow> fst e = ''InvocationDoesNotExist''"

definition pollCommandStatus :: "'w runner_clients \<Rightarrow> string \<Rightarrow> string \<Rightarrow> ('w, command_status) io" where
  "pollCommandStatus cl instanceId commandId = (\<lambda>st.
     case rc_getCommandInvocation cl instanceId commandId st of
       (Inr status, st1) \<Rightarrow> (Inr (normalizeCommandStatus status), st1)
     | (Inl e, st1) \<Rightarrow>
         if isTransientCommandInvocationLookupError e then (Inr CmdPending, st1) else (Inl (snd e), st1))"

definition pollRunnerCommand ::
    "'w runner_clients \<Rightarrow> string \<Rightarrow> string \<Rightarrow> int option \<Rightarrow> ('w, command_status \<times> int) io" where
  "pollRunnerCommand cl instanceId commandId commandPollCount =
     io_bind (pollCommandStatus cl instanceId commandId) (\<lambda>commandStatus.
       io_return (commandStatus,
         if commandStatus = CmdPending then coalesce commandPollCount 0 + 1 else coalesce commandPollCount 0))"

definition readRunnerResultText :: "'w runner_clients \<Rightarrow> string \<Rightarrow> string \<Rightarrow> ('w, string) io" where
  "readRunnerResultText cl bucket key = rc_getObjectText cl bucket key"

section \<open>Hexadecimal and base-64 byte vectors\<close>

definition normalizeHex :: "string \<Rightarrow> string" where
  "normalizeHex v = map to_lower (if starts_with v ''0x'' then drop 2 v else v)"

text \<open>The pattern \<open>^(?:0x)?[0-9a-fA-F]+$\<close>.\<close>

definition is_hex_text :: "string \<Rightarrow> bool" where
  "is_hex_text s \<longleftrightarrow>
     s \<noteq> [] \<and> list_all is_hex s \<or> starts_with s ''0x'' \<and> drop 2 s \<noteq> [] \<and> list_all is_hex (drop 2 s)"

definition isRunnerHexBytes :: "js_value \<Rightarrow> nat option \<Rightarrow> bool" where
  "isRunnerHexBytes v expectedBytes =
     (case v of
        JStr s \<Rightarrow>
          (if \<not> is_hex_text s then False
           else let hex = (if starts_with s ''0x'' then drop 2 s else s) in
             if length hex = 0 \<or> length hex mod 2 \<noteq> 0 then False
             else none_or (\<lambda>n. length hex = n * 2) expectedBytes)
      | _ \<Rightarrow> False)"

text \<open>\<open>Buffer.from(text, 'hex')\<close> on text of an even number of hexadecimal digits.\<close>

fun hex_pairs :: "string \<Rightarrow> bytes" where
  "hex_pairs (a # b # s) = word_of_nat (16 * hex_val a + hex_val b) # hex_pairs s"
| "hex_pairs _ = []"

definition parseHexByteVector :: "string \<Rightarrow> bytes" where
  "parseHexByteVector v = hex_pairs (normalizeHex v)"

definition readSafeIntegerText :: "js_value \<Rightarrow> int option" where
  "readSafeIntegerText v =
     (case v of
        JNum q \<Rightarrow> if isSafeInteger q then Some \<lfloor>q\<rfloor> else None
      | JStr s \<Rightarrow>
          if s \<noteq> [] \<and> list_all is_digit s
          then (if int (read_nat s) \<le> MAX_SAFE_INTEGER then Some (int (read_nat s)) else None)
          else None
      | _ \<Rightarrow> None)"

definition readSafeIntegerField :: "json_record \<Rightarrow> string \<Rightarrow> int option" where
  "readSafeIntegerField fs key = readSafeIntegerText (get_field fs key)"

definition base64_char :: "nat \<Rightarrow> char" where
  "base64_char n =
     (if n < 26 then char_of (65 + n) else if n < 52 then char_of (97 + (n - 26))
      else if n < 62 then char_of (48 + (n - 52)) else if n = 62 then CHR ''+'' else CHR 0x2F)"

definition base64_val :: "char \<Rightarrow> nat option" where
  "base64_val c =
     (if is_upper_az c then Some (of_char c - 65)
      else if is_lower_az c then Some (of_char c - 97 + 26)
      else if is_digit c then Some (of_char c - 48 + 52)
      else if c = CHR ''+'' then Some 62 else if c = CHR 0x2F then Some 63 else None)"

fun base64_encode :: "bytes \<Rightarrow> string" where
  "base64_encode (a # b # c # bs) =
     (let n = unat a * 65536 + unat b * 256 + unat c in
      [base64_char (n div 262144), base64_char (n div 4096 mod 64), base64_char (n div 64 mod 64),
       base64_char (n mod 64)] @ base64_encode bs)"
| "base64_encode [a, b] =
     (let n = unat a * 1024 + unat b * 4 in
      [base64_char (n div 4096), base64_char (n div 64 mod 64), base64_char (n mod 64), CHR ''=''])"
| "base64_encode [a] =
     (let n = unat a * 16 in [base64_char (n div 64), base64_char (n mod 64), CHR ''='', CHR ''=''])"
| "base64_encode [] = []"

text \<open>\<open>Buffer.from(text, 'base64')\<close> on the digits of a padded text: bytes of 8 bits out of digits of 6.\<close>

fun base64_decode :: "nat list \<Rightarrow> bytes" where
  "base64_decode (a # b # c # d # ns) =
     (let n = a * 262144 + b * 4096 + c * 64 + d in
      [word_of_nat (n div 65536), word_of_nat (n div 256 mod 256), word_of_nat (n mod 256)] @ base64_decode ns)"
| "base64_decode [a, b, c] =
     (let n = a * 4096 + b * 64 + c in [word_of_nat (n div 1024), word_of_nat (n div 4 mod 256)])"
| "base64_decode [a, b] = [word_of_nat ((a * 64 + b) div 16)]"
| "base64_decode _ = []"

definition base64_digits :: "string \<Rightarrow> string" where
  "base64_digits s = takeWhile (\<lambda>c. c \<noteq> CHR ''='') s"

definition is_base64_text :: "string \<Rightarrow> bool" where
  "is_base64_text s \<longleftrightarrow>
     base64_digits s \<noteq> [] \<and> list_all (\<lambda>c. base64_val c \<noteq> None) (base64_digits s)
     \<and> dropWhile (\<lambda>c. c \<noteq> CHR ''='') s \<in> {[], ''='', ''==''}"

definition decodeBase64ByteVector :: "string \<Rightarrow> bytes option" where
  "decodeBase64ByteVector s =
     (if \<not> is_base64_text s \<or> length s mod 4 \<noteq> 0 then None
      else let decoded = base64_decode (map (the \<circ> base64_val) (base64_digits s)) in
        if length decoded \<noteq> 32 \<or> base64_encode decoded \<noteq> s then None else Some decoded)"

definition is_byte_number :: "js_value \<Rightarrow> bool" where
  "is_byte_number v = (case v of JNum q \<Rightarrow> of_int \<lfloor>q\<rfloor> = q \<and> 0 \<le> q \<and> q \<le> 255 | _ \<Rightarrow> False)"

definition readHexByteVectorField :: "js_value \<Rightarrow> string option" where
  "readHexByteVectorField v =
     (if isRunnerHexBytes v (Some 32) then Some (''0x'' @ normalizeHex (js_str v))
      else case v of
        JStr s \<Rightarrow> map_option bytesToPrefixedHex (decodeBase64ByteVector s)
      | JArr xs \<Rightarrow>
          if length xs = 32 \<and> list_all is_byte_number xs
          then Some (bytesToPrefixedHex (map (\<lambda>x. word_of_int (js_int x)) xs)) else None
      | _ \<Rightarrow> None)"

section \<open>Attestation and registration\<close>

record enclave_metadata =
  em_verifier_config_key :: int
  em_verifier_config_version :: int
  em_enclave_instance_public_key :: string

record enclave_attestation =
  ea_attestation_document_hex :: string
  ea_public_key :: string

text \<open>\<open>a ?? b\<close> on values.\<close>

definition nullish :: "js_value \<Rightarrow> js_value \<Rightarrow> js_value" where
  "nullish a b = (if a = JUndef \<or> a = JNull then b else a)"

definition readEventJson :: "js_value \<Rightarrow> js_value" where
  "readEventJson event = nullish (field_of event ''json'') (field_of event ''parsedJson'')"

definition is_event_of :: "string \<Rightarrow> js_value \<Rightarrow> bool" where
  "is_event_of sfx event =
     (let eventType = (case field_of event ''eventType'' of JStr s \<Rightarrow> JStr s | _ \<Rightarrow> field_of event ''type'')
      in case eventType of JStr s \<Rightarrow> ends_with s sfx | _ \<Rightarrow> False)"

definition isEnclaveInstanceRegisteredEvent :: "js_value \<Rightarrow> bool" where
  "isEnclaveInstanceRegisteredEvent = is_event_of ''::metadata_verifier::EnclaveInstanceRegistered''"

definition readEnclaveRegistrationMetadata ::
    "js_value list \<Rightarrow> int \<Rightarrow> int \<Rightarrow> int \<Rightarrow> js_error + enclave_metadata" where
  "readEnclaveRegistrationMetadata events expectedFamily expectedVersion configKey =
     (case find isEnclaveInstanceRegisteredEvent events of
        None \<Rightarrow> Inl ''Sui response did not include EnclaveInstanceRegistered event''
      | Some event \<Rightarrow>
        (case readEventJson event of
           JObj json \<Rightarrow>
             (let verifierFamily = readSafeIntegerField json ''verifier_family'';
                  verifierVersion = readSafeIntegerField json ''verifier_version'';
                  configVersion = readSafeIntegerField json ''config_version'';
                  publicKey = readHexByteVectorField (get_field json ''public_key'')
              in if verifierFamily \<noteq> Some expectedFamily \<or> verifierVersion \<noteq> Some expectedVersion
                    \<or> configVersion = None
                 then Inl (''EnclaveInstanceRegistered event did not match verifier family=''
                        @ show_int expectedFamily @ '' version='' @ show_int expectedVersion)
                 else case publicKey of
                   None \<Rightarrow> Inl ''EnclaveInstanceRegistered event public key was malformed''
                 | Some pk \<Rightarrow> Inr \<lparr>em_verifier_config_key = configKey,
                     em_verifier_config_version = the configVersion, em_enclave_instance_public_key = pk\<rparr>)
         | _ \<Rightarrow> Inl ''EnclaveInstanceRegistered event was malformed''))"

definition requireRegistrationMetadata :: "js_value \<Rightarrow> int \<Rightarrow> js_error + enclave_metadata" where
  "requireRegistrationMetadata v expectedConfigKey =
     (let f = field_of v in
      if \<not> isRecord v \<or> f ''verifier_config_key'' \<noteq> jint expectedConfigKey
         \<or> \<not> isSafeIntegerInRange (f ''verifier_config_version'') 1 MAX_SAFE_INTEGER
         \<or> \<not> isRunnerHexBytes (f ''enclave_instance_public_key'') (Some 32)
      then Inl ''enclave registration metadata is malformed''
      else Inr \<lparr>em_verifier_config_key = js_int (f ''verifier_config_key''),
             em_verifier_config_version = js_int (f ''verifier_config_version''),
             em_enclave_instance_public_key = js_str (f ''enclave_instance_public_key'')\<rparr>)"

definition readEnclaveAttestation :: "js_value \<Rightarrow> js_error + enclave_attestation" where
  "readEnclaveAttestation v =
     (let f = field_of v in
      if \<not> isRecord v \<or> \<not> isRunnerHexBytes (f ''attestation_document_hex'') None
         \<or> \<not> isRunnerHexBytes (f ''public_key'') (Some 32)
      then Inl ''enclave attestation is malformed''
      else Inr \<lparr>ea_attestation_document_hex = js_str (f ''attestation_document_hex''),
             ea_public_key = js_str (f ''public_key'')\<rparr>)"

text \<open>A transaction as the calls it makes: \<open>ArgResult\<close> is the result of an earlier call.\<close>

datatype sui_argument = ArgVectorU8 bytes | ArgObject string | ArgClock | ArgU64 int | ArgResult nat

record sui_transaction =
  tx_sender :: string
  tx_calls :: "(string \<times> sui_argument list) list"

definition createSuiEnclaveRegistrationTransaction ::
    "string \<Rightarrow> string \<Rightarrow> bytes \<Rightarrow> int \<Rightarrow> string \<Rightarrow> int option \<Rightarrow> sui_transaction" where
  "createSuiEnclaveRegistrationTransaction target verifierRegistry attestationDocumentBytes expiresAtMs
       senderAddress configKey =
     \<lparr>tx_sender = senderAddress,
      tx_calls =
        [(''0x2::nitro_attestation::load_nitro_attestation'', [ArgVectorU8 attestationDocumentBytes, ArgClock]),
         (target,
          (case configKey of
             Some k \<Rightarrow> [ArgObject verifierRegistry, ArgU64 k, ArgResult 0, ArgU64 expiresAtMs]
           | None \<Rightarrow> [ArgObject verifierRegistry, ArgResult 0, ArgU64 expiresAtMs]))]\<rparr>"

section \<open>Lemmas\<close>

lemma isRunnerHexBytes_eq: "isRunnerHexBytes v n = isHexBytes v n"
  by (cases v) (auto simp: isRunnerHexBytes_def isHexBytes_def is_hex_text_def strip0x_def Let_def list_all_iff
      dest: in_set_dropD split: if_splits)

lemma normalizeHex_eq: "normalizeHex s = normalizeHexBytes s"
  by (simp add: normalizeHex_def normalizeHexBytes_def strip0x_def)

lemma base64_val_char [simp]: "n < 64 \<Longrightarrow> base64_val (base64_char n) = Some n"
  by (auto simp: base64_char_def base64_val_def is_upper_az_def is_lower_az_def is_digit_def of_char_of)

lemma base64_char_pad [simp]: "n < 64 \<Longrightarrow> base64_char n \<noteq> CHR ''=''"
proof
  assume "n < 64" "base64_char n = CHR ''=''"
  then have "base64_val (CHR ''='') = Some n" using base64_val_char [of n] by simp
  then show False by (simp add: base64_val_def is_upper_az_def is_lower_az_def is_digit_def)
qed

lemma bytes_of_number:
  fixes x y z :: nat
  assumes "x < 256" and "y < 256" and "z < 256"
  shows "(x * 65536 + y * 256 + z) div 65536 = x"
    and "(x * 65536 + y * 256 + z) div 256 mod 256 = y" and "(x * 65536 + y * 256 + z) mod 256 = z"
proof -
  let ?n = "x * 65536 + y * 256 + z"
  show "?n div 65536 = x" using assms by (intro div_nat_eqI) auto
  have "?n div 256 = x * 256 + y" using assms by (intro div_nat_eqI) auto
  then show "?n div 256 mod 256 = y" using assms by simp
  have "?n = z + (x * 256 + y) * 256" by simp
  then show "?n mod 256 = z" using assms by (metis mod_mult_self1 mod_less)
qed

lemma digits_of_number:
  fixes n :: nat
  shows "n div 4096 * 4096 + n div 64 mod 64 * 64 + n mod 64 = n"
    and "n div 262144 * 262144 + n div 4096 mod 64 * 4096 + n div 64 mod 64 * 64 + n mod 64 = n"
proof -
  have "n div 4096 = n div 64 div 64" "n div 262144 = n div 4096 div 64" by (simp_all flip: div_mult2_eq)
  then have "n div 4096 * 64 + n div 64 mod 64 = n div 64"
    and "n div 262144 * 64 + n div 4096 mod 64 = n div 4096" and "n div 64 * 64 + n mod 64 = n"
    by (simp_all only: div_mult_mod_eq)
  then show "n div 4096 * 4096 + n div 64 mod 64 * 64 + n mod 64 = n"
    and "n div 262144 * 262144 + n div 4096 mod 64 * 4096 + n div 64 mod 64 * 64 + n mod 64 = n"
    by linarith+
qed

lemma base64_group:
  assumes "x < 256" and "y < 256" and "z < 256"
  defines "n \<equiv> x * 65536 + y * 256 + z"
  shows "base64_digits ([base64_char (n div 262144), base64_char (n div 4096 mod 64), base64_char (n div 64 mod 64),
           base64_char (n mod 64)] @ s)
       = [base64_char (n div 262144), base64_char (n div 4096 mod 64), base64_char (n div 64 mod 64),
           base64_char (n mod 64)] @ base64_digits s"
    and "n div 262144 < 64"
proof -
  show "n div 262144 < 64" using assms unfolding n_def by (simp add: less_mult_imp_div_less)
  then show "base64_digits ([base64_char (n div 262144), base64_char (n div 4096 mod 64), base64_char (n div 64 mod 64),
           base64_char (n mod 64)] @ s)
       = [base64_char (n div 262144), base64_char (n div 4096 mod 64), base64_char (n div 64 mod 64),
           base64_char (n mod 64)] @ base64_digits s"
    by (simp add: base64_digits_def)
qed

lemma base64_roundtrip:
  "base64_decode (map (the \<circ> base64_val) (base64_digits (base64_encode bs))) = bs
   \<and> list_all (\<lambda>c. base64_val c \<noteq> None) (base64_digits (base64_encode bs))"
proof (induction bs rule: base64_encode.induct)
  case (1 a b c bs)
  have l: "unat a < 256" "unat b < 256" "unat c < 256" by (rule byte_unat_less)+
  note bytes_of_number [OF l, simp] digits_of_number(2) [simp] base64_group(2) [OF l, simp]
  from 1 show ?case
    unfolding base64_encode.simps Let_def base64_group(1) [OF l]
    by simp
next
  case (2 a b)
  have l: "unat a < 256" "unat b < 256" by (rule byte_unat_less)+
  let ?n = "unat a * 1024 + unat b * 4"
  have "?n div 1024 = unat a" using l by (intro div_nat_eqI) auto
  moreover have "?n div 4 mod 256 = unat b" using l by simp
  moreover have "?n div 4096 < 64" using l by (simp add: less_mult_imp_div_less)
  ultimately show ?case
    unfolding base64_encode.simps Let_def by (simp add: base64_digits_def digits_of_number(1))
next
  case (3 a)
  let ?n = "unat a * 16"
  have "?n div 64 < 64" using byte_unat_less [of a] by (simp add: less_mult_imp_div_less)
  moreover have "?n div 64 * 64 + ?n mod 64 = ?n" by (rule div_mult_mod_eq)
  ultimately show ?case
    unfolding base64_encode.simps Let_def by (simp add: base64_digits_def)
qed (simp add: base64_digits_def)

lemma base64_padding: "dropWhile (\<lambda>c. c \<noteq> CHR ''='') (base64_encode bs) \<in> {[], ''='', ''==''}"
proof (induction bs rule: base64_encode.induct)
  case (1 a b c bs)
  have l: "unat a < 256" "unat b < 256" "unat c < 256" by (rule byte_unat_less)+
  note base64_group(2) [OF l, simp]
  from 1 show ?case unfolding base64_encode.simps Let_def by simp
next
  case (2 a b)
  have "(unat a * 1024 + unat b * 4) div 4096 < 64"
    using byte_unat_less [of a] byte_unat_less [of b] by (simp add: less_mult_imp_div_less)
  then show ?case unfolding base64_encode.simps Let_def by simp
next
  case (3 a)
  have "unat a * 16 div 64 < 64" using byte_unat_less [of a] by (simp add: less_mult_imp_div_less)
  then show ?case unfolding base64_encode.simps Let_def by simp
qed simp

lemma length_base64_encode: "length (base64_encode bs) = 4 * ((length bs + 2) div 3)"
proof (induction bs rule: base64_encode.induct)
  case (1 a b c bs)
  have "(length (a # b # c # bs) + 2) div 3 = Suc ((length bs + 2) div 3)" by simp
  with 1 show ?case by (simp add: Let_def del: add_2_eq_Suc')
qed (simp_all add: Let_def)

lemma decodeBase64_encode:
  assumes "length bs = 32"
  shows "decodeBase64ByteVector (base64_encode bs) = Some bs"
proof -
  have len: "length (base64_encode bs) = 44" by (simp add: length_base64_encode assms)
  have "base64_digits (base64_encode bs) \<noteq> []"
    using base64_roundtrip [of bs] assms by (intro notI) simp
  then show ?thesis
    using base64_roundtrip [of bs] base64_padding [of bs] assms len
    by (simp add: decodeBase64ByteVector_def is_base64_text_def)
qed

section \<open>Properties\<close>

text \<open>The public key of a registration event is read alike from its three encodings: the base-64 text
  of 32 bytes, their prefixed hexadecimal text and the array of their values all give the prefixed
  hexadecimal text of these bytes.\<close>

theorem public_key_encodings:
  assumes "length bs = 32"
  shows "readHexByteVectorField (JStr (base64_encode bs)) = Some (bytesToPrefixedHex bs)
    \<and> readHexByteVectorField (JStr (bytesToPrefixedHex bs)) = Some (bytesToPrefixedHex bs)
    \<and> readHexByteVectorField (JArr (map (\<lambda>b. jint (uint b)) bs)) = Some (bytesToPrefixedHex bs)"
proof (intro conjI)
  have "length (base64_encode bs) = 44" by (simp add: length_base64_encode assms)
  then have "\<not> isRunnerHexBytes (JStr (base64_encode bs)) (Some 32)"
    by (auto simp: isRunnerHexBytes_eq isHexBytes_def strip0x_def Let_def)
  then show "readHexByteVectorField (JStr (base64_encode bs)) = Some (bytesToPrefixedHex bs)"
    by (simp add: readHexByteVectorField_def decodeBase64_encode assms)
  have "isRunnerHexBytes (JStr (bytesToPrefixedHex bs)) (Some 32)"
    unfolding isRunnerHexBytes_eq using assms by (intro bytesToPrefixedHex_hexbytes) auto
  then show "readHexByteVectorField (JStr (bytesToPrefixedHex bs)) = Some (bytesToPrefixedHex bs)"
    by (simp add: readHexByteVectorField_def normalizeHex_eq normalize_prefixed) (simp add: bytesToPrefixedHex_def)
  have "\<not> isRunnerHexBytes (JArr (map (\<lambda>b. jint (uint b)) bs)) (Some 32)"
    by (simp add: isRunnerHexBytes_def)
  moreover have "is_byte_number (jint n)" if "0 \<le> n" "n < 256" for n
    using that by (simp add: is_byte_number_def)
  then have "is_byte_number (jint (uint b))" for b :: byte
    using uint_lt2p [of b] by (simp del: of_int_uint)
  moreover have word: "word_of_int (uint b) = b" for b :: byte by simp
  ultimately show "readHexByteVectorField (JArr (map (\<lambda>b. jint (uint b)) bs)) = Some (bytesToPrefixedHex bs)"
    using assms by (simp add: readHexByteVectorField_def list_all_iff o_def word del: of_int_uint)
qed

theorem public_key_encodings_witness:
  "readHexByteVectorField (JStr (base64_encode (replicate 32 7))) = Some (bytesToPrefixedHex (replicate 32 7))
    \<and> readHexByteVectorField (JStr (bytesToPrefixedHex (replicate 32 7))) = Some (bytesToPrefixedHex (replicate 32 7))
    \<and> readHexByteVectorField (JArr (map (\<lambda>b. jint (uint b)) (replicate 32 (7 :: byte)))) = Some (bytesToPrefixedHex (replicate 32 7))"
  by (rule public_key_encodings) simp

end
