(* ===== verification/TeeResult.thy ===== *)
theory TeeResult
  imports RunnerContracts EventRow
begin

text \<open>
  Reading the enclave's result in \<open>watcher/src/runner_workflow.ts\<close>: the text of the result object in S3,
  or the result the event carries inline, becomes a \<open>tee_core_result\<close> of the event it was asked for.

  \<open>JSON.parse\<close> is a parameter, \<open>None\<close> when it throws.  A validated finalized result is the object the
  validator returns, \<open>submit_json\<close>; the validator accepts it again with the same value, so the later
  validations of one result agree.
\<close>

definition ERROR_CODES :: "string list" where
  "ERROR_CODES =
     [''USGS_RECENT_UNAVAILABLE'', ''USGS_DETAIL_UNAVAILABLE'', ''SHAKEMAP_PRODUCT_MISSING'',
      ''SHAKEMAP_CANCELLED'', ''SHAKEMAP_GRID_UNAVAILABLE'', ''SHAKEMAP_PARSE_FAILED'', ''MMI_NOT_AVAILABLE'',
      ''NO_AFFECTED_CELLS'', ''SEA_ONLY_AFFECTED_CELLS'', ''SOURCE_STALE'', ''SOURCE_REVISION_OLD'',
      ''UNSUPPORTED_HAZARD_TYPE'', ''TEE_SIGNATURE_FAILED'', ''BCS_SERIALIZATION_FAILED'', ''MERKLE_ROOT_FAILED'',
      ''AWS_RUNNER_START_FAILED'', ''AWS_RUNNER_PROCESS_FAILED'', ''AWS_RUNNER_TIMEOUT'',
      ''AWS_RUNNER_CONTRACT_INVALID'', ''RELAYER_SUBMIT_FAILED'', ''MOVE_REJECTED'',
      ''SOURCE_ARCHIVE_CONFIGURATION_FAILED'', ''SOURCE_ARCHIVE_RETRYABLE_FAILED'',
      ''SOURCE_ARCHIVE_INTEGRITY_FAILED'', ''REJECTED_AUTO_TRIGGER'', ''WATCHER_BELOW_AUTO_THRESHOLD'']"

definition readRunnerFailureErrorCode :: "string option \<Rightarrow> js_error + error_code" where
  "readRunnerFailureErrorCode errorCode =
     (case errorCode of
        None \<Rightarrow> Inr ''AWS_RUNNER_PROCESS_FAILED''
      | Some e \<Rightarrow> if e \<in> set ERROR_CODES then Inr e else Inl (''invalid runner error_code: '' @ e))"

definition assertTeeResultSourceEventId :: "string \<Rightarrow> string \<Rightarrow> js_error + unit" where
  "assertTeeResultSourceEventId actual expected = ensure (actual = expected) ''TEE result source_event_id mismatch''"

text \<open>The object \<open>validateRelayerSubmitInput\<close> returns.\<close>

definition opt_entry :: "string \<Rightarrow> js_value option \<Rightarrow> json_record" where
  "opt_entry k v = (case v of None \<Rightarrow> [] | Some x \<Rightarrow> [(k, x)])"

definition submit_json :: "relayer_submit_input \<Rightarrow> js_value" where
  "submit_json r = JObj
     ([(''status'', JStr ''finalized''), (''payload'', JObj (rsi_payload r)),
       (''payload_bcs_hex'', JStr (rsi_payload_bcs_hex r)), (''signature'', JStr (rsi_signature r)),
       (''public_key'', JStr (rsi_public_key r))]
      @ opt_entry ''raw_data_manifest'' (rsi_raw_data_manifest r)
      @ opt_entry ''affected_cells'' (rsi_affected_cells r)
      @ opt_entry ''evidence_manifest'' (rsi_evidence_manifest r)
      @ opt_entry ''affected_cells_ref'' (rsi_affected_cells_ref r)
      @ opt_entry ''evidence_manifest_ref'' (rsi_evidence_manifest_ref r)
      @ opt_entry ''expected_hashes'' (rsi_expected_hashes r)
      @ [(''verifier_config_key'', jint (rsi_verifier_config_key r)),
         (''verifier_config_version'', jint (rsi_verifier_config_version r)),
         (''enclave_instance_public_key'', JStr (rsi_enclave_instance_public_key r))])"

definition isValidNonFinalizedTeeErrorCode :: "string \<Rightarrow> string \<Rightarrow> bool" where
  "isValidNonFinalizedTeeErrorCode status errorCode \<longleftrightarrow>
     (if status = ''pending_source''
      then errorCode = ''USGS_DETAIL_UNAVAILABLE'' \<or> errorCode = ''SHAKEMAP_PRODUCT_MISSING''
           \<or> errorCode = ''SHAKEMAP_GRID_UNAVAILABLE''
      else if status = ''pending_mmi'' then errorCode = ''MMI_NOT_AVAILABLE''
      else errorCode \<in> set ERROR_CODES)"

definition nonfinalized_result :: "string \<Rightarrow> string \<Rightarrow> error_code \<Rightarrow> tee_core_result" where
  "nonfinalized_result status sid e =
     (if status = ''pending_source'' then TeePendingSource sid e
      else if status = ''pending_mmi'' then TeePendingMmi sid e else TeeRejected sid e)"

definition parseTeeResult :: "(string \<Rightarrow> js_value option) \<Rightarrow> string \<Rightarrow> string \<Rightarrow> js_error + tee_core_result" where
  "parseTeeResult json_parse txt expectedSourceEventId =
     (case json_parse txt of
        None \<Rightarrow> Inl ''Unexpected token in JSON''
      | Some parsed \<Rightarrow>
        let f = field_of parsed in
        if isRecord parsed \<and> f ''status'' = JStr ''finalized'' then
          res_bind (validateRelayerSubmitInput parsed) (\<lambda>validation.
            case validation of
              Inl (_, message) \<Rightarrow> Inl (''invalid finalized TEE result: '' @ message)
            | Inr v \<Rightarrow>
              (case get_field (rsi_payload v) ''source_event_id'' of
                 JStr actual \<Rightarrow>
                   res_bind (assertTeeResultSourceEventId actual expectedSourceEventId) (\<lambda>_.
                     Inr (TeeFinalized (submit_json v)))
               | _ \<Rightarrow> Inl ''invalid finalized TEE result: payload.source_event_id is missing''))
        else (case (f ''status'', f ''source_event_id'', f ''error_code'') of
            (JStr status, JStr actual, JStr errorCode) \<Rightarrow>
              if isRecord parsed \<and> status \<in> {''pending_source'', ''pending_mmi'', ''rejected''} then
                res_bind (assertTeeResultSourceEventId actual expectedSourceEventId) (\<lambda>_.
                  if \<not> isValidNonFinalizedTeeErrorCode status errorCode
                  then Inl ''invalid non-finalized TEE result error_code''
                  else Inr (nonfinalized_result status actual errorCode))
              else Inl ''invalid TEE result''
          | _ \<Rightarrow> Inl ''invalid TEE result''))"

definition isPendingTeeResult :: "tee_core_result \<Rightarrow> bool" where
  "isPendingTeeResult result = (case result of TeePendingSource _ _ \<Rightarrow> True | TeePendingMmi _ _ \<Rightarrow> True | _ \<Rightarrow> False)"

definition tee_status :: "tee_core_result \<Rightarrow> string" where
  "tee_status result = (case result of
     TeePendingSource _ _ \<Rightarrow> ''pending_source'' | TeePendingMmi _ _ \<Rightarrow> ''pending_mmi''
   | TeeRejected _ _ \<Rightarrow> ''rejected'' | TeeFinalized _ \<Rightarrow> ''finalized'')"

definition readTeeResultFromS3 ::
    "'w runner_clients \<Rightarrow> (string \<Rightarrow> js_value option) \<Rightarrow> (rat \<Rightarrow> string) \<Rightarrow> string \<Rightarrow> string \<Rightarrow> js_value
     \<Rightarrow> string option \<Rightarrow> ('w, tee_core_result) io" where
  "readTeeResultFromS3 cl json_parse num resultBucket sourceEventId inlineResult resultS3Key =
     (if inlineResult \<noteq> JUndef then io_lift (parseTeeResult json_parse (json_text num inlineResult) sourceEventId)
      else case resultS3Key of
        None \<Rightarrow> io_throw ''result_s3_key is required''
      | Some key \<Rightarrow>
        if key = [] then io_throw ''result_s3_key is required''
        else io_bind (readRunnerResultText cl resultBucket key) (\<lambda>txt.
          io_lift (parseTeeResult json_parse txt sourceEventId)))"

section \<open>Validating a validated result again\<close>

lemma map_of_opt_entry: "map_of (opt_entry k v) k' = (if k' = k then v else None)"
  by (cases v) (auto simp: opt_entry_def)

lemma field_submit_json:
  "field_of (submit_json r) k =
    (if k = ''status'' then JStr ''finalized'' else if k = ''payload'' then JObj (rsi_payload r)
     else if k = ''payload_bcs_hex'' then JStr (rsi_payload_bcs_hex r)
     else if k = ''signature'' then JStr (rsi_signature r) else if k = ''public_key'' then JStr (rsi_public_key r)
     else if k = ''raw_data_manifest'' then coalesce (rsi_raw_data_manifest r) JUndef
     else if k = ''affected_cells'' then coalesce (rsi_affected_cells r) JUndef
     else if k = ''evidence_manifest'' then coalesce (rsi_evidence_manifest r) JUndef
     else if k = ''affected_cells_ref'' then coalesce (rsi_affected_cells_ref r) JUndef
     else if k = ''evidence_manifest_ref'' then coalesce (rsi_evidence_manifest_ref r) JUndef
     else if k = ''expected_hashes'' then coalesce (rsi_expected_hashes r) JUndef
     else if k = ''verifier_config_key'' then jint (rsi_verifier_config_key r)
     else if k = ''verifier_config_version'' then jint (rsi_verifier_config_version r)
     else if k = ''enclave_instance_public_key'' then JStr (rsi_enclave_instance_public_key r) else JUndef)"
  unfolding submit_json_def field_of_def js_value.case get_field_def
  by (simp add: map_of_opt_entry map_add_def coalesce_def split: option.split)

lemma coalesce_opt_field: "coalesce (opt_field v) JUndef = v"
  by (simp add: opt_field_def)

lemma jint_safe: "isSafeIntegerInRange v lo hi \<Longrightarrow> jint (js_int v) = v"
  by (cases v) (auto simp: isSafeIntegerInRange_def isSafeInteger_def)

text \<open>The validator reads these fields of its input.\<close>

lemma validate_cong:
  assumes "isRecord v" and "isRecord v'"
    and "\<And>k. k \<in> {''status'', ''payload'', ''payload_bcs_hex'', ''signature'', ''public_key'', ''raw_data_manifest'',
       ''affected_cells'', ''evidence_manifest'', ''affected_cells_ref'', ''evidence_manifest_ref'',
       ''verifier_config_key'', ''verifier_config_version'', ''enclave_instance_public_key''} \<Longrightarrow>
       field_of v k = field_of v' k"
    and "(if isRecord (field_of v ''expected_hashes'') then Some (field_of v ''expected_hashes'') else None)
       = (if isRecord (field_of v' ''expected_hashes'') then Some (field_of v' ''expected_hashes'') else None)"
  shows "validateRelayerSubmitInput v = validateRelayerSubmitInput v'"
proof -
  have "\<forall>k\<in>{''status'', ''payload'', ''payload_bcs_hex'', ''signature'', ''public_key'', ''raw_data_manifest'',
       ''affected_cells'', ''evidence_manifest'', ''affected_cells_ref'', ''evidence_manifest_ref'',
       ''verifier_config_key'', ''verifier_config_version'', ''enclave_instance_public_key''}.
       field_of v k = field_of v' k"
    using assms(3) by blast
  note same = this [unfolded ball_simps, simplified simp_thms]
  show ?thesis
    by (simp only: validateRelayerSubmitInput_def submit_value_def Let_def same assms(1,2,4))
qed

text \<open>The fields of an accepted input are the fields of the value it is returned as.\<close>

lemma accepted_fields:
  assumes "validateRelayerSubmitInput v = Inr (Inr r)"
  shows "r = submit_value v (rsi_payload r)" and "isRecord v"
    and "isHexBytes (field_of v ''enclave_instance_public_key'') (Some 32)"
    and "isSafeIntegerInRange (field_of v ''verifier_config_version'') 1 MAX_SAFE_INTEGER"
    and "field_of v ''verifier_config_key'' = jint EARTHQUAKE_VERIFIER_CONFIG_KEY"
    and "field_of v ''raw_data_manifest'' = JUndef \<or> hasValidRawDataManifest (field_of v ''raw_data_manifest'')"
    and "field_of v ''affected_cells_ref'' = JUndef \<or> hasValidStoredSourceRef (field_of v ''affected_cells_ref'')"
    and "field_of v ''evidence_manifest_ref'' = JUndef
       \<or> hasValidStoredSourceRef (field_of v ''evidence_manifest_ref'')"
proof -
  note acc = validateRelayer_accepts [OF assms]
  then have valid: "hasValidFinalizedPayload (rsi_payload r)" and p: "field_of v ''payload'' = JObj (rsi_payload r)"
    by (auto simp: relayer_accepts_def)
  note hex = encode_payload_eq [OF valid_payload_fits [OF valid]]
  note all = assms [unfolded validateRelayerSubmitInput_def Let_def reject_if p js_value.case
      encodeEarthquakeOraclePayloadBcsHex_def hex res_bind_simps reject_if sum.inject]
  from all have "submit_value v (rsi_payload r) = r" by blast
  then show "r = submit_value v (rsi_payload r)" ..
  from all show "isRecord v"
    "isHexBytes (field_of v ''enclave_instance_public_key'') (Some 32)"
    "isSafeIntegerInRange (field_of v ''verifier_config_version'') 1 MAX_SAFE_INTEGER"
    "field_of v ''verifier_config_key'' = jint EARTHQUAKE_VERIFIER_CONFIG_KEY"
    "field_of v ''raw_data_manifest'' = JUndef \<or> hasValidRawDataManifest (field_of v ''raw_data_manifest'')"
    "field_of v ''affected_cells_ref'' = JUndef \<or> hasValidStoredSourceRef (field_of v ''affected_cells_ref'')"
    "field_of v ''evidence_manifest_ref'' = JUndef \<or> hasValidStoredSourceRef (field_of v ''evidence_manifest_ref'')"
    by blast+
qed

lemma validate_again:
  assumes "validateRelayerSubmitInput v = Inr (Inr r)"
  shows "validateRelayerSubmitInput (submit_json r) = Inr (Inr r)"
proof -
  note acc = validateRelayer_accepts [OF assms] and fields = accepted_fields [OF assms]
  have r: "rsi_raw_data_manifest r = opt_field (field_of v ''raw_data_manifest'')"
    "rsi_affected_cells r = opt_field (field_of v ''affected_cells'')"
    "rsi_evidence_manifest r = opt_field (field_of v ''evidence_manifest'')"
    "rsi_affected_cells_ref r = opt_field (field_of v ''affected_cells_ref'')"
    "rsi_evidence_manifest_ref r = opt_field (field_of v ''evidence_manifest_ref'')"
    "rsi_expected_hashes r =
      (if isRecord (field_of v ''expected_hashes'') then Some (field_of v ''expected_hashes'') else None)"
    "rsi_verifier_config_key r = js_int (field_of v ''verifier_config_key'')"
    "rsi_verifier_config_version r = js_int (field_of v ''verifier_config_version'')"
    "rsi_enclave_instance_public_key r = js_str (field_of v ''enclave_instance_public_key'')"
    using arg_cong [OF fields(1), of rsi_raw_data_manifest] arg_cong [OF fields(1), of rsi_affected_cells]
      arg_cong [OF fields(1), of rsi_evidence_manifest] arg_cong [OF fields(1), of rsi_affected_cells_ref]
      arg_cong [OF fields(1), of rsi_evidence_manifest_ref] arg_cong [OF fields(1), of rsi_expected_hashes]
      arg_cong [OF fields(1), of rsi_verifier_config_key] arg_cong [OF fields(1), of rsi_verifier_config_version]
      arg_cong [OF fields(1), of rsi_enclave_instance_public_key]
    by (simp_all add: submit_value_def Let_def)
  have key: "JStr (js_str (field_of v ''enclave_instance_public_key'')) = field_of v ''enclave_instance_public_key''"
    using fields(3) isHexBytes_str by fastforce
  have "validateRelayerSubmitInput (submit_json r) = validateRelayerSubmitInput v"
  proof (rule validate_cong)
    show "isRecord (submit_json r)" by (simp add: submit_json_def isRecord_def)
    show "isRecord v" by (rule fields(2))
    show "(if isRecord (field_of (submit_json r) ''expected_hashes'') then Some (field_of (submit_json r) ''expected_hashes'') else None)
      = (if isRecord (field_of v ''expected_hashes'') then Some (field_of v ''expected_hashes'') else None)"
      by (simp add: field_submit_json r isRecord_def)
  qed (use acc in \<open>auto simp: field_submit_json r coalesce_opt_field jint_safe [OF fields(4)] key fields(5)
      relayer_accepts_def\<close>)
  with assms show ?thesis by simp
qed

section \<open>Results belong to their event\<close>

definition result_for :: "string \<Rightarrow> tee_core_result \<Rightarrow> bool" where
  "result_for sid result =
     (case result of
        TeePendingSource s e \<Rightarrow>
          s = sid \<and> e \<in> {''USGS_DETAIL_UNAVAILABLE'', ''SHAKEMAP_PRODUCT_MISSING'', ''SHAKEMAP_GRID_UNAVAILABLE''}
      | TeePendingMmi s e \<Rightarrow> s = sid \<and> e = ''MMI_NOT_AVAILABLE''
      | TeeRejected s e \<Rightarrow> s = sid \<and> e \<in> set ERROR_CODES
      | TeeFinalized v \<Rightarrow>
          (case validateRelayerSubmitInput v of
             Inr (Inr r) \<Rightarrow> v = submit_json r \<and> get_field (rsi_payload r) ''source_event_id'' = JStr sid
           | _ \<Rightarrow> False))"

lemma result_for_finalized:
  "result_for sid (TeeFinalized v) \<longleftrightarrow>
     (\<exists>r. validateRelayerSubmitInput v = Inr (Inr r) \<and> v = submit_json r
        \<and> get_field (rsi_payload r) ''source_event_id'' = JStr sid)"
  by (auto simp: result_for_def split: sum.splits)

lemma parseTeeResult_for:
  assumes "parseTeeResult json_parse txt sid = Inr result"
  shows "result_for sid result"
proof -
  obtain parsed where p: "json_parse txt = Some parsed"
    using assms by (auto simp: parseTeeResult_def split: option.splits)
  show ?thesis
  proof (cases "isRecord parsed \<and> field_of parsed ''status'' = JStr ''finalized''")
    case True
    note fin = assms [unfolded parseTeeResult_def p option.case Let_def if_P [OF True]]
    obtain x where x: "validateRelayerSubmitInput parsed = Inr x" using validateRelayer_total by blast
    then obtain r where "x = Inr r" using fin by (cases x) auto
    with x have r: "validateRelayerSubmitInput parsed = Inr (Inr r)" by simp
    have "get_field (rsi_payload r) ''source_event_id'' = JStr sid" "result = TeeFinalized (submit_json r)"
      using fin unfolding r
      by (auto simp: assertTeeResultSourceEventId_def res_bind_Inr_iff split: js_value.splits)
    with validate_again [OF r] show ?thesis by (auto simp: result_for_finalized)
  next
    case False
    with assms p obtain status e where
      "parsed = JObj (case parsed of JObj fs \<Rightarrow> fs)" "status \<in> {''pending_source'', ''pending_mmi'', ''rejected''}"
      "isValidNonFinalizedTeeErrorCode status e" "result = nonfinalized_result status sid e"
      by (auto simp: parseTeeResult_def Let_def assertTeeResultSourceEventId_def res_bind_Inr_iff isRecord_def
          split: js_value.splits if_splits)
    then show ?thesis
      by (auto simp: result_for_def nonfinalized_result_def isValidNonFinalizedTeeErrorCode_def)
  qed
qed

lemma readTeeResult_for:
  "readTeeResultFromS3 cl json_parse num bucket sid inline key st = (Inr result, st') \<Longrightarrow> result_for sid result"
  by (auto simp: readTeeResultFromS3_def io_prims io_bind_def split: if_splits option.splits prod.splits sum.splits
      intro: parseTeeResult_for)

lemma applyResult_for: "result_for sid result \<Longrightarrow> \<exists>row'. applyResultToRow row result nowMs next = Inr row'"
  by (cases result)
    (auto simp: applyResultToRow_def result_for_finalized finalizedPayloadMetadata_def)

text \<open>A result that is read belongs to its event and can be recorded: the payload or the event id of
  the result is that of the event asked for, a result that is not final has one of the error codes of its
  status, a finalized result is accepted by the relayer's validator with the value it holds, and applying
  any of them to a row does not throw.\<close>

theorem tee_result_bound:
  assumes "parseTeeResult json_parse txt sid = Inr result"
  shows "result_for sid result \<and> (\<exists>row'. applyResultToRow row result nowMs next = Inr row')"
  using parseTeeResult_for [OF assms] applyResult_for by blast

theorem tee_result_bound_witness:
  "\<exists>result row'. parseTeeResult (\<lambda>_. Some sample_submit) [] ''us7000abcd'' = Inr result
     \<and> result_for ''us7000abcd'' result
     \<and> applyResultToRow (baseRow ''us7000abcd'' 5) result 6 None = Inr row'"
proof -
  obtain r where r: "validateRelayerSubmitInput sample_submit = Inr (Inr r)" using sample_submit_accepted by blast
  then have "field_of sample_submit ''payload'' = JObj (rsi_payload r)"
    by (auto dest: validateRelayer_accepts simp: relayer_accepts_def)
  then have "rsi_payload r = sample_payload_json"
    by (simp add: sample_submit_def field_of_def get_field_def)
  then have "get_field (rsi_payload r) ''source_event_id'' = JStr ''us7000abcd''"
    by (simp add: sample_payload_json_def get_field_def)
  moreover have "isRecord sample_submit" "field_of sample_submit ''status'' = JStr ''finalized''"
    by (simp_all add: sample_submit_def isRecord_def field_of_def get_field_def)
  ultimately have "parseTeeResult (\<lambda>_. Some sample_submit) [] ''us7000abcd'' = Inr (TeeFinalized (submit_json r))"
    using r by (simp add: parseTeeResult_def assertTeeResultSourceEventId_def Let_def)
  with tee_result_bound [OF this] show ?thesis by blast
qed

end
