(* ===== verification/Relayer.thy ===== *)
theory Relayer
  imports TeeResult
begin

text \<open>
  \<open>nautilus/verifiers/earthquake/relayer/src/index.ts\<close> and the relayer adapters of
  \<open>watcher/src/relayer_preview.ts\<close>: a validated result becomes the Move call that submits it, is simulated or
  executed, and the response of the chain becomes the result of the relayer.

  A \<open>RelayerResult\<close> is a sum whose left value is the error code and message.  The Sui client, the signer's
  address, the URL parser and the id of the clock object are third-party and parameters.
\<close>

section \<open>Requests\<close>

type_synonym relayer_error = "error_code \<times> string"

definition relayerSubmitFailed :: "string \<Rightarrow> relayer_error + 'a" where
  "relayerSubmitFailed message = Inl (''RELAYER_SUBMIT_FAILED'', message)"

definition moveRejected :: "string \<Rightarrow> relayer_error + 'a" where
  "moveRejected message = Inl (''MOVE_REJECTED'', message)"

definition CAMPAIGN_RELAYER_TARGET_SUFFIX :: string where
  "CAMPAIGN_RELAYER_TARGET_SUFFIX = ''::accessor::create_disaster_event_and_campaign_from_signed_payload''"

definition ED25519_SIGNATURE_BYTES :: nat where "ED25519_SIGNATURE_BYTES = 64"
definition ED25519_PUBLIC_KEY_BYTES :: nat where "ED25519_PUBLIC_KEY_BYTES = 32"

record request_config =
  qc_target :: string
  qc_registry :: string
  qc_verifierRegistry :: string
  qc_categoryRegistry :: string
  qc_categoryPool :: string

record parsed_submit_input =
  pi_payload :: json_record
  pi_payloadBcsBytes :: bytes
  pi_signatureBytes :: bytes
  pi_publicKeyBytes :: bytes
  pi_verifierConfigKey :: int
  pi_verifierConfigVersion :: int
  pi_enclaveInstancePublicKey :: string
  pi_enclaveInstancePublicKeyBytes :: bytes

text \<open>The eight arguments of the Move call: five object ids and three byte vectors.\<close>

record move_arguments =
  ma_objects :: "string list"
  ma_payload :: bytes
  ma_signature :: bytes
  ma_public_key :: bytes

record move_request =
  mr_config :: request_config
  mr_clock :: string
  mr_verifierConfigKey :: int
  mr_verifierConfigVersion :: int
  mr_enclaveInstancePublicKey :: string
  mr_arguments :: move_arguments

record relayer_request_preview =
  rr_request :: move_request
  rr_submitRequest :: move_request

definition parseHexBytes :: "string \<Rightarrow> string \<Rightarrow> nat option \<Rightarrow> relayer_error + bytes" where
  "parseHexBytes v fieldName expectedLength =
     (let normalized = (if starts_with v ''0x'' then drop 2 v else v) in
      if length normalized = 0 then relayerSubmitFailed (fieldName @ '' must not be empty'')
      else if length normalized mod 2 \<noteq> 0
      then relayerSubmitFailed (fieldName @ '' must use an even number of hex characters'')
      else if \<not> list_all is_hex normalized then relayerSubmitFailed (fieldName @ '' must be hex encoded'')
      else let bs = hex_pairs normalized in
        if some_and (\<lambda>n. length bs \<noteq> n) expectedLength
        then relayerSubmitFailed (fieldName @ '' must be '' @ show_nat (the expectedLength) @ '' bytes'')
        else Inr bs)"

text \<open>The validator may throw by its type; that is the outer sum.\<close>

definition parseRelayerSubmitInput :: "js_value \<Rightarrow> js_error + (relayer_error + parsed_submit_input)" where
  "parseRelayerSubmitInput v = res_bind (validateRelayerSubmitInput v) (\<lambda>validation. Inr (
     case validation of
       Inl (_, message) \<Rightarrow> relayerSubmitFailed message
     | Inr r \<Rightarrow>
       res_bind (parseHexBytes (rsi_payload_bcs_hex r) ''payload_bcs_hex'' None) (\<lambda>payloadBcsBytes.
       res_bind (parseHexBytes (rsi_signature r) ''signature'' (Some ED25519_SIGNATURE_BYTES)) (\<lambda>signatureBytes.
       res_bind (parseHexBytes (rsi_public_key r) ''public_key'' (Some ED25519_PUBLIC_KEY_BYTES)) (\<lambda>publicKeyBytes.
       res_bind (parseHexBytes (rsi_enclave_instance_public_key r) ''enclave_instance_public_key''
           (Some ED25519_PUBLIC_KEY_BYTES)) (\<lambda>enclaveBytes.
       if publicKeyBytes \<noteq> enclaveBytes
       then relayerSubmitFailed ''enclave_instance_public_key must match public_key''
       else Inr \<lparr>pi_payload = rsi_payload r, pi_payloadBcsBytes = payloadBcsBytes,
              pi_signatureBytes = signatureBytes, pi_publicKeyBytes = publicKeyBytes,
              pi_verifierConfigKey = rsi_verifier_config_key r,
              pi_verifierConfigVersion = rsi_verifier_config_version r,
              pi_enclaveInstancePublicKey = rsi_enclave_instance_public_key r,
              pi_enclaveInstancePublicKeyBytes = enclaveBytes\<rparr>))))))"

definition validateRequestConfig :: "request_config \<Rightarrow> relayer_error + request_config" where
  "validateRequestConfig config =
     (if qc_target config = [] \<or> qc_registry config = [] \<or> qc_verifierRegistry config = []
         \<or> qc_categoryRegistry config = [] \<or> qc_categoryPool config = []
      then relayerSubmitFailed
        ''Relayer request requires target, registry, verifierRegistry, categoryRegistry, and categoryPool''
      else if \<not> ends_with (qc_target config) CAMPAIGN_RELAYER_TARGET_SUFFIX
      then relayerSubmitFailed (''Relayer target must end with '' @ CAMPAIGN_RELAYER_TARGET_SUFFIX)
      else Inr config)"

definition move_request_of :: "string \<Rightarrow> parsed_submit_input \<Rightarrow> request_config \<Rightarrow> move_request" where
  "move_request_of clock parsed config =
     \<lparr>mr_config = config, mr_clock = clock, mr_verifierConfigKey = pi_verifierConfigKey parsed,
      mr_verifierConfigVersion = pi_verifierConfigVersion parsed,
      mr_enclaveInstancePublicKey = pi_enclaveInstancePublicKey parsed,
      mr_arguments =
        \<lparr>ma_objects = [qc_registry config, qc_verifierRegistry config, qc_categoryRegistry config,
           qc_categoryPool config, clock],
         ma_payload = pi_payloadBcsBytes parsed, ma_signature = pi_signatureBytes parsed,
         ma_public_key = pi_publicKeyBytes parsed\<rparr>\<rparr>"

definition buildRelayerRequestPreview ::
    "string \<Rightarrow> js_value \<Rightarrow> request_config \<Rightarrow> js_error + (relayer_error + relayer_request_preview)" where
  "buildRelayerRequestPreview clock v config =
     res_bind (parseRelayerSubmitInput v) (\<lambda>parsed. Inr (
       res_bind parsed (\<lambda>p.
       res_bind (validateRequestConfig config) (\<lambda>_.
         Inr \<lparr>rr_request = move_request_of clock p config, rr_submitRequest = move_request_of clock p config\<rparr>))))"

section \<open>Responses of the chain\<close>

text \<open>\<open>typeof v === 'object' && v !== null\<close>, and a property of such a value.\<close>

definition is_object :: "js_value \<Rightarrow> bool" where
  "is_object v = (case v of JObj _ \<Rightarrow> True | JArr _ \<Rightarrow> True | _ \<Rightarrow> False)"

definition prop_of :: "js_value \<Rightarrow> string \<Rightarrow> js_value" where
  "prop_of v k = (case v of
     JObj fs \<Rightarrow> get_field fs k
   | JArr xs \<Rightarrow> if is_canonical_decimal k \<and> read_nat k < length xs then xs ! read_nat k else JUndef
   | _ \<Rightarrow> JUndef)"

definition isStringRecord :: "js_value \<Rightarrow> bool" where
  "isStringRecord v = (case v of
     JObj fs \<Rightarrow> list_all (\<lambda>(_, x). x = JStr (js_str x)) fs
   | JArr xs \<Rightarrow> list_all (\<lambda>x. x = JStr (js_str x)) xs
   | _ \<Rightarrow> False)"

definition readExecutionErrorMessage :: "js_value \<Rightarrow> string option" where
  "readExecutionErrorMessage v = (case v of
     JStr s \<Rightarrow> if s \<noteq> [] then Some s else None
   | _ \<Rightarrow> (case prop_of v ''message'' of JStr s \<Rightarrow> if s \<noteq> [] then Some s else None | _ \<Rightarrow> None))"

datatype execution_status = ExecSuccess | ExecFailure "string option"

definition readExecutionStatus :: "js_value \<Rightarrow> execution_status option" where
  "readExecutionStatus v = (case prop_of v ''success'' of
     JBool success \<Rightarrow>
       if success then Some ExecSuccess else Some (ExecFailure (readExecutionErrorMessage (prop_of v ''error'')))
   | _ \<Rightarrow> None)"

record normalized_result =
  nr_digest :: "string option"
  nr_effects :: js_value
  nr_events :: "js_value list option"
  nr_objectTypes :: "js_value option"

definition normalizeTransactionResult :: "js_value \<Rightarrow> relayer_error + normalized_result" where
  "normalizeTransactionResult response =
     (if \<not> is_object response then relayerSubmitFailed ''Sui response was not an object''
      else if prop_of response ''$kind'' = JStr ''Transaction'' then
        (let transaction = prop_of response ''Transaction'' in
         if \<not> is_object transaction then relayerSubmitFailed ''Sui response did not include transaction data''
         else case readExecutionStatus (prop_of transaction ''status'') of
           Some (ExecFailure m) \<Rightarrow> moveRejected (coalesce m ''Move transaction reported failure'')
         | None \<Rightarrow> relayerSubmitFailed ''Sui response did not include transaction status''
         | Some ExecSuccess \<Rightarrow>
           if \<not> is_object (prop_of transaction ''effects'')
           then relayerSubmitFailed ''Sui response did not include transaction effects''
           else Inr
             \<lparr>nr_digest = (case prop_of transaction ''digest'' of JStr s \<Rightarrow> Some s | _ \<Rightarrow> None),
              nr_effects = prop_of transaction ''effects'',
              nr_events = (case prop_of transaction ''events'' of JArr es \<Rightarrow> Some (filter is_object es) | _ \<Rightarrow> None),
              nr_objectTypes = (if isStringRecord (prop_of transaction ''objectTypes'')
                then Some (prop_of transaction ''objectTypes'') else None)\<rparr>)
      else if prop_of response ''$kind'' = JStr ''FailedTransaction'' then
        (case (if is_object (prop_of response ''FailedTransaction'')
               then readExecutionStatus (prop_of (prop_of response ''FailedTransaction'') ''status'') else None) of
           Some (ExecFailure (Some m)) \<Rightarrow> moveRejected m
         | _ \<Rightarrow> moveRejected ''Move transaction failed'')
      else relayerSubmitFailed ''Sui response used an unknown transaction result shape'')"

definition isDisasterEventCreatedEvent :: "js_value \<Rightarrow> bool" where
  "isDisasterEventCreatedEvent = is_event_of ''::disaster_event::DisasterEventCreated''"

definition readObjectIdFromParsedJson :: "js_value \<Rightarrow> string \<Rightarrow> string option" where
  "readObjectIdFromParsedJson v key = (case prop_of v key of
     JStr s \<Rightarrow> Some s
   | x \<Rightarrow> (case prop_of x ''id'' of JStr s \<Rightarrow> Some s | _ \<Rightarrow> None))"

definition readCreatedObjectId :: "js_value \<Rightarrow> string option" where
  "readCreatedObjectId v =
     (if prop_of v ''outputState'' \<noteq> JStr ''ObjectWrite'' \<or> prop_of v ''idOperation'' \<noteq> JStr ''Created'' then None
      else case prop_of v ''objectId'' of JStr s \<Rightarrow> Some s | _ \<Rightarrow> None)"

text \<open>The values of a list of optional strings that are present and not empty.\<close>

definition non_empty :: "string option list \<Rightarrow> string list" where
  "non_empty xs = filter (\<lambda>s. s \<noteq> []) (concat (map (\<lambda>x. case x of None \<Rightarrow> [] | Some s \<Rightarrow> [s]) xs))"

definition readCreatedDisasterEventObjectId :: "normalized_result \<Rightarrow> string option" where
  "readCreatedDisasterEventObjectId result =
     (case non_empty (map (\<lambda>event. if \<not> isDisasterEventCreatedEvent event then None
          else readObjectIdFromParsedJson (readEventJson event) ''disaster_event_id'') (coalesce (nr_events result) [])) of
        objectId # _ \<Rightarrow> Some objectId
      | [] \<Rightarrow>
        (case prop_of (nr_effects result) ''changedObjects'' of
           JArr changed \<Rightarrow>
             (let created = non_empty (map readCreatedObjectId changed) in
              case nr_objectTypes result of
                Some types \<Rightarrow> find (\<lambda>i. case prop_of types i of
                    JStr s \<Rightarrow> ends_with s ''::disaster_event::DisasterEvent'' | _ \<Rightarrow> False) created
              | None \<Rightarrow> if length created = 1 then Some (hd created) else None)
         | _ \<Rightarrow> None))"

section \<open>Dry run and submission\<close>

record url =
  url_protocol :: string
  url_hostname :: string
  url_port :: string
  url_username :: string
  url_password :: string
  url_pathname :: string
  url_search :: string
  url_params :: "(string \<times> string) list"

type_synonym url_parser = "string \<Rightarrow> url option"

definition validateSuiNetworkGrpcUrl :: "url_parser \<Rightarrow> string \<Rightarrow> string \<Rightarrow> relayer_error + string" where
  "validateSuiNetworkGrpcUrl parse_url network grpcUrl =
     (if network \<notin> {''mainnet'', ''testnet'', ''devnet''}
      then relayerSubmitFailed (''Unsupported Sui network: '' @ network)
      else if grpcUrl = [] then relayerSubmitFailed ''RELAYER_GRPC_URL is required''
      else case parse_url grpcUrl of
        None \<Rightarrow> relayerSubmitFailed ''RELAYER_GRPC_URL must be a valid URL''
      | Some u \<Rightarrow>
        if url_protocol u \<noteq> ''https:'' then relayerSubmitFailed ''RELAYER_GRPC_URL must use https''
        else if url_username u \<noteq> [] \<or> url_password u \<noteq> []
        then relayerSubmitFailed ''RELAYER_GRPC_URL must not include credentials''
        else if url_hostname u \<noteq> ''fullnode.'' @ network @ ''.sui.io''
        then relayerSubmitFailed (''RELAYER_GRPC_URL host '' @ url_hostname u @ '' does not match RELAYER_NETWORK='' @ network)
        else Inr network)"

record 'w sui_client =
  sc_build :: "sui_transaction \<Rightarrow> ('w, bytes) io"
  sc_simulate :: "bytes \<Rightarrow> ('w, js_value) io"
  sc_signAndExecute :: "sui_transaction \<Rightarrow> string \<Rightarrow> ('w, js_value) io"

record 'w relayer_env =
  re_clock :: string
  re_parse_url :: url_parser
  re_client :: "string \<Rightarrow> string \<Rightarrow> 'w sui_client"

definition createSuiSubmitTransaction :: "relayer_request_preview \<Rightarrow> string \<Rightarrow> sui_transaction" where
  "createSuiSubmitTransaction request senderAddress =
     (let r = rr_request request; config = mr_config r; args = mr_arguments r in
      \<lparr>tx_sender = senderAddress,
       tx_calls = [(qc_target config,
         [ArgObject (qc_registry config), ArgObject (qc_verifierRegistry config),
          ArgObject (qc_categoryRegistry config), ArgObject (qc_categoryPool config), ArgClock,
          ArgVectorU8 (ma_payload args), ArgVectorU8 (ma_signature args), ArgVectorU8 (ma_public_key args)])]\<rparr>)"

record relayer_submit_success =
  ss_request :: relayer_request_preview
  ss_digest :: "string option"
  ss_objectId :: string
  ss_effects :: js_value

record relayer_dry_run_success =
  ds_request :: relayer_request_preview
  ds_transactionBytes :: bytes
  ds_effects :: js_value

text \<open>\<open>if (!x.ok) return x\<close> before the rest of an asynchronous function.\<close>

definition io_result :: "'e + 'a \<Rightarrow> ('a \<Rightarrow> ('w, 'e + 'b) io) \<Rightarrow> ('w, 'e + 'b) io" where
  "io_result r f = (case r of Inl e \<Rightarrow> io_return (Inl e) | Inr x \<Rightarrow> f x)"

definition relayer_catch :: "('w, relayer_error + 'a) io \<Rightarrow> ('w, relayer_error + 'a) io" where
  "relayer_catch m = io_catch m (\<lambda>message. io_return (relayerSubmitFailed message))"

definition dryRunRelayerSubmit ::
    "'w relayer_env \<Rightarrow> js_value \<Rightarrow> request_config \<Rightarrow> string \<Rightarrow> string \<Rightarrow> string
     \<Rightarrow> ('w, relayer_error + relayer_dry_run_success) io" where
  "dryRunRelayerSubmit env v config network grpcUrl senderAddress =
     io_bind (io_lift (buildRelayerRequestPreview (re_clock env) v config)) (\<lambda>preview.
     io_result preview (\<lambda>request.
     io_result (validateSuiNetworkGrpcUrl (re_parse_url env) network grpcUrl) (\<lambda>_.
     if senderAddress = [] then io_return (relayerSubmitFailed ''Dry-run requires grpcUrl and senderAddress'')
     else relayer_catch
       (let client = re_client env grpcUrl network in
        io_bind (sc_build client (createSuiSubmitTransaction request senderAddress)) (\<lambda>transactionBytes.
        io_bind (sc_simulate client transactionBytes) (\<lambda>response.
        io_result (normalizeTransactionResult response) (\<lambda>result.
          io_return (Inr \<lparr>ds_request = request, ds_transactionBytes = transactionBytes,
            ds_effects = nr_effects result\<rparr>))))))))"

text \<open>A signer is its address.\<close>

definition submitRelayerPayload ::
    "'w relayer_env \<Rightarrow> js_value \<Rightarrow> request_config \<Rightarrow> string \<Rightarrow> string \<Rightarrow> string option
     \<Rightarrow> ('w, relayer_error + relayer_submit_success) io" where
  "submitRelayerPayload env v config network grpcUrl signer =
     io_bind (io_lift (buildRelayerRequestPreview (re_clock env) v config)) (\<lambda>preview.
     io_result preview (\<lambda>request.
     io_result (validateSuiNetworkGrpcUrl (re_parse_url env) network grpcUrl) (\<lambda>_.
     case signer of
       None \<Rightarrow> io_return (relayerSubmitFailed ''Submit requires explicit grpcUrl and signer'')
     | Some senderAddress \<Rightarrow>
       if senderAddress = [] then io_return (relayerSubmitFailed ''Signer did not provide a sender address'')
       else relayer_catch
         (let client = re_client env grpcUrl network in
          io_bind (sc_signAndExecute client (createSuiSubmitTransaction request senderAddress) senderAddress) (\<lambda>response.
          io_result (normalizeTransactionResult response) (\<lambda>result.
          case readCreatedDisasterEventObjectId result of
            None \<Rightarrow> io_return (relayerSubmitFailed ''Sui response did not include created DisasterEvent object ID'')
          | Some objectId \<Rightarrow>
              io_return (Inr \<lparr>ss_request = request, ss_digest = nr_digest result, ss_objectId = objectId,
                ss_effects = nr_effects result\<rparr>)))))))"

section \<open>Adapters\<close>

text \<open>The relayer success with its request as the JSON object that is stored.\<close>

definition bytes_json :: "bytes \<Rightarrow> js_value" where
  "bytes_json bs = JArr (map (\<lambda>b. jint (uint b)) bs)"

definition arguments_json :: "move_arguments \<Rightarrow> js_value" where
  "arguments_json a = JArr (map JStr (ma_objects a)
     @ [bytes_json (ma_payload a), bytes_json (ma_signature a), bytes_json (ma_public_key a)])"

definition config_json :: "move_request \<Rightarrow> json_record" where
  "config_json r = (let c = mr_config r in
     [(''target'', JStr (qc_target c)), (''registry'', JStr (qc_registry c)),
      (''verifierRegistry'', JStr (qc_verifierRegistry c)), (''categoryRegistry'', JStr (qc_categoryRegistry c)),
      (''categoryPool'', JStr (qc_categoryPool c)), (''clock'', JStr (mr_clock r))])"

definition enclave_json :: "move_request \<Rightarrow> json_record" where
  "enclave_json r =
     [(''verifierConfigKey'', jint (mr_verifierConfigKey r)),
      (''verifierConfigVersion'', jint (mr_verifierConfigVersion r)),
      (''enclaveInstancePublicKey'', JStr (mr_enclaveInstancePublicKey r))]"

definition submit_request_json :: "relayer_request_preview \<Rightarrow> js_value" where
  "submit_request_json p = (let r = rr_submitRequest p in
     JObj (config_json r @ enclave_json r @ [(''arguments'', arguments_json (mr_arguments r))]))"

definition preview_json :: "relayer_request_preview \<Rightarrow> js_value" where
  "preview_json p = (let r = rr_request p in
     JObj (config_json r @ enclave_json r @ [(''arguments'', arguments_json (mr_arguments r)),
       (''submitRequest'', submit_request_json p)]))"

definition normalizeDirectRelayerRequest :: "relayer_request_preview \<Rightarrow> js_value" where
  "normalizeDirectRelayerRequest p = (let r = rr_request p in
     JObj (config_json r @ [(''arguments'', arguments_json (mr_arguments r)),
       (''submitRequest'', submit_request_json p)]))"

text \<open>The object of a result, as the adapters validate it.\<close>

definition tee_json :: "tee_core_result \<Rightarrow> js_value" where
  "tee_json result = (case result of
     TeeFinalized v \<Rightarrow> v
   | TeePendingSource sid e \<Rightarrow>
       JObj [(''status'', JStr ''pending_source''), (''source_event_id'', JStr sid), (''error_code'', JStr e)]
   | TeePendingMmi sid e \<Rightarrow>
       JObj [(''status'', JStr ''pending_mmi''), (''source_event_id'', JStr sid), (''error_code'', JStr e)]
   | TeeRejected sid e \<Rightarrow>
       JObj [(''status'', JStr ''rejected''), (''source_event_id'', JStr sid), (''error_code'', JStr e)])"

record 'w relayer_adapter =
  ra_mode :: relayer_mode
  ra_relay :: "tee_core_result \<Rightarrow> ('w, relayer_error + relayer_success) io"

record 'w direct_relayer_config =
  dc_mode :: relayer_mode
  dc_request :: request_config
  dc_network :: "string option"
  dc_grpcUrl :: "string option"
  dc_senderAddress :: "string option"
  dc_allowSubmit :: bool
  dc_configurationError :: "string option"
  dc_loadSigner :: "('w, string) io option"
  dc_submitPayload ::
    "(js_value \<Rightarrow> request_config \<Rightarrow> string \<Rightarrow> string \<Rightarrow> string option \<Rightarrow> ('w, relayer_error + relayer_submit_success) io) option"

definition success_of :: "relayer_mode \<Rightarrow> relayer_request_preview \<Rightarrow> string option \<Rightarrow> string option \<Rightarrow> relayer_success" where
  "success_of mode request digest objectId =
     \<lparr>rs_mode = mode, rs_request = normalizeDirectRelayerRequest request, rs_digest = digest, rs_object_id = objectId\<rparr>"

definition direct_relay ::
    "'w relayer_env \<Rightarrow> 'w direct_relayer_config \<Rightarrow> tee_core_result \<Rightarrow> ('w, relayer_error + relayer_success) io" where
  "direct_relay env config result =
     io_bind (io_lift (validateRelayerSubmitInput (tee_json result))) (\<lambda>validation.
     case validation of
       Inl (_, message) \<Rightarrow> io_return (relayerSubmitFailed message)
     | Inr r \<Rightarrow>
       (case dc_configurationError config of
          Some message \<Rightarrow> io_return (relayerSubmitFailed message)
        | None \<Rightarrow>
          (case dc_mode config of
             Preview \<Rightarrow>
               io_bind (io_lift (buildRelayerRequestPreview (re_clock env) (submit_json r) (dc_request config))) (\<lambda>preview.
               io_result preview (\<lambda>request. io_return (Inr (success_of Preview request None None))))
           | DryRun \<Rightarrow>
               (case (dc_network config, dc_grpcUrl config, dc_senderAddress config) of
                  (Some network, Some grpcUrl, Some senderAddress) \<Rightarrow>
                    io_bind (dryRunRelayerSubmit env (submit_json r) (dc_request config) network grpcUrl senderAddress) (\<lambda>dry.
                    io_result dry (\<lambda>success. io_return (Inr (success_of DryRun (ds_request success) None None))))
                | _ \<Rightarrow> io_return (relayerSubmitFailed ''dry_run requires network, grpcUrl, and senderAddress''))
           | Submit \<Rightarrow>
               if \<not> dc_allowSubmit config
               then io_return (relayerSubmitFailed ''submit requires RELAYER_ALLOW_SUBMIT=true'')
               else (case (dc_network config, dc_grpcUrl config) of
                  (Some network, Some grpcUrl) \<Rightarrow>
                    (case dc_loadSigner config of
                       None \<Rightarrow> io_return (relayerSubmitFailed ''submit requires RELAYER_SIGNER_SECRET_ARN'')
                     | Some load \<Rightarrow> relayer_catch
                         (io_bind load (\<lambda>signer.
                          io_bind (coalesce (dc_submitPayload config) (submitRelayerPayload env)
                            (submit_json r) (dc_request config) network grpcUrl (Some signer)) (\<lambda>submitted.
                          io_result submitted (\<lambda>success. io_return (Inr (success_of Submit (ss_request success)
                            (ss_digest success) (Some (ss_objectId success)))))))))
                | _ \<Rightarrow> io_return (relayerSubmitFailed ''submit requires network and grpcUrl'')))))"

definition DirectRelayerAdapter :: "'w relayer_env \<Rightarrow> 'w direct_relayer_config \<Rightarrow> 'w relayer_adapter" where
  "DirectRelayerAdapter env config = \<lparr>ra_mode = dc_mode config, ra_relay = direct_relay env config\<rparr>"

definition StaticFailingRelayerAdapter :: "relayer_mode \<Rightarrow> error_code \<Rightarrow> string \<Rightarrow> 'w relayer_adapter" where
  "StaticFailingRelayerAdapter mode errorCode message =
     \<lparr>ra_mode = mode, ra_relay = (\<lambda>_. io_return (Inl (errorCode, message)))\<rparr>"

section \<open>Recording a success\<close>

record relayer_record_success =
  rrs_mode :: relayer_mode
  rrs_config :: request_config
  rrs_digest :: "string option"
  rrs_objectId :: "string option"

definition compactRelayerSuccess :: "relayer_success \<Rightarrow> relayer_record_success" where
  "compactRelayerSuccess success =
     (let f = (\<lambda>k. js_str (field_of (rs_request success) k)) in
      \<lparr>rrs_mode = rs_mode success,
       rrs_config = \<lparr>qc_target = f ''target'', qc_registry = f ''registry'', qc_verifierRegistry = f ''verifierRegistry'',
         qc_categoryRegistry = f ''categoryRegistry'', qc_categoryPool = f ''categoryPool''\<rparr>,
       rrs_digest = rs_digest success, rrs_objectId = rs_object_id success\<rparr>)"

definition buildRelayerSuccessForRecord ::
    "string \<Rightarrow> relayer_record_success \<Rightarrow> tee_core_result \<Rightarrow> js_error + relayer_success" where
  "buildRelayerSuccessForRecord clock success result =
     res_bind (validateRelayerSubmitInput (tee_json result)) (\<lambda>validation.
     case validation of
       Inl (_, message) \<Rightarrow> Inl message
     | Inr r \<Rightarrow>
       res_bind (buildRelayerRequestPreview clock (submit_json r) (rrs_config success)) (\<lambda>request.
       case request of
         Inl (_, message) \<Rightarrow> Inl message
       | Inr p \<Rightarrow> Inr \<lparr>rs_mode = rrs_mode success, rs_request = preview_json p, rs_digest = rrs_digest success,
             rs_object_id = rrs_objectId success\<rparr>))"

section \<open>Hexadecimal text and bytes\<close>

lemma hex_val_to_lower: "is_hex c \<Longrightarrow> hex_val (to_lower c) = hex_val c"
  by (auto simp: hex_val_def to_lower_def is_hex_def is_upper_az_def is_digit_def of_char_of)

lemma hex_pairs_lower: "list_all is_hex s \<Longrightarrow> hex_pairs (map to_lower s) = hex_pairs s"
  by (induction s rule: hex_pairs.induct) (simp_all add: hex_val_to_lower)

lemma hex_pairs_bytesToHex: "hex_pairs (bytesToHex bs) = bs"
proof (induction bs)
  case (Cons b bs)
  have "unat b < 256" by (rule byte_unat_less)
  then have "16 * hex_val (hex_char (unat b div 16)) + hex_val (hex_char (unat b mod 16)) = unat b"
    by (simp add: hex_val_hex_char)
  then have "hex_pairs (hex2 b @ s) = b # hex_pairs s" for s by (simp add: hex2_def)
  with Cons show ?case by (simp add: bytesToHex_def)
qed (simp add: bytesToHex_def)

lemma length_hex_pairs: "length (hex_pairs s) = length s div 2"
  by (induction s rule: hex_pairs.induct) simp_all

lemma hex_pairs_normalize:
  "list_all is_hex (strip0x s) \<Longrightarrow> normalizeHexBytes s = bytesToHex bs \<Longrightarrow> hex_pairs (strip0x s) = bs"
  by (metis hex_pairs_lower hex_pairs_bytesToHex normalizeHexBytes_def)

lemma parseHexBytes_Inr:
  assumes "isHexBytes (JStr s) n"
  shows "parseHexBytes s name n = Inr (hex_pairs (strip0x s))"
  using assms
  by (cases n) (auto simp: isHexBytes_def parseHexBytes_def strip0x_def Let_def length_hex_pairs)

lemma parseHexBytes_any: "isHexBytes (JStr s) (Some n) \<Longrightarrow> isHexBytes (JStr s) None"
  by (simp add: isHexBytes_def Let_def)

section \<open>What is requested and submitted\<close>

text \<open>The request of a validated input.\<close>

definition exact_request :: "string \<Rightarrow> request_config \<Rightarrow> relayer_submit_input \<Rightarrow> move_request \<Rightarrow> bool" where
  "exact_request clock config r m \<longleftrightarrow>
     mr_config m = config \<and> mr_clock m = clock
     \<and> encodeEarthquakeOraclePayloadBcsBytes (payload_of_json (rsi_payload r)) = Inr (ma_payload (mr_arguments m))
     \<and> length (ma_signature (mr_arguments m)) = 64
     \<and> bytesToHex (ma_signature (mr_arguments m)) = normalizeHexBytes (rsi_signature r)
     \<and> length (ma_public_key (mr_arguments m)) = 32
     \<and> bytesToHex (ma_public_key (mr_arguments m)) = normalizeHexBytes (rsi_public_key r)
     \<and> ma_objects (mr_arguments m) = [qc_registry config, qc_verifierRegistry config, qc_categoryRegistry config,
          qc_categoryPool config, clock]
     \<and> mr_verifierConfigKey m = EARTHQUAKE_VERIFIER_CONFIG_KEY"

lemma bytesToHex_hex_pairs:
  "list_all is_hex s \<Longrightarrow> length s mod 2 = 0 \<Longrightarrow> bytesToHex (hex_pairs s) = map to_lower s"
proof (induction s rule: hex_pairs.induct)
  case (1 a b s)
  from 1 have hex: "is_lower_hex (to_lower a)" "is_lower_hex (to_lower b)" by (auto intro: to_lower_hex)
  have less: "hex_val a < 16" "hex_val b < 16" using 1 by (simp_all add: hex_val_less)
  then have "unat (word_of_nat (16 * hex_val a + hex_val b) :: byte) = 16 * hex_val a + hex_val b"
    by (simp only: unsigned_of_nat) (simp add: take_bit_nat_eq_self)
  then have "hex2 (word_of_nat (16 * hex_val a + hex_val b)) = [hex_char (hex_val a), hex_char (hex_val b)]"
    using less by (simp only: hex2_def) simp
  also have "\<dots> = [to_lower a, to_lower b]"
    using 1 hex_char_hex_val [OF hex(1)] hex_char_hex_val [OF hex(2)] by (simp add: hex_val_to_lower)
  finally have "hex2 (word_of_nat (16 * hex_val a + hex_val b)) = [to_lower a, to_lower b]" .
  with 1 show ?case by (simp add: bytesToHex_def)
qed (simp_all add: bytesToHex_def)

lemma isHexBytes_facts:
  assumes "isHexBytes (JStr s) n"
  shows "list_all is_hex (strip0x s)" and "bytesToHex (hex_pairs (strip0x s)) = normalizeHexBytes s"
    and "none_or (\<lambda>k. length (hex_pairs (strip0x s)) = k) n"
  using assms by (cases n; auto simp: isHexBytes_def Let_def normalizeHexBytes_def length_hex_pairs bytesToHex_hex_pairs)+

lemma accepted_hex:
  assumes "validateRelayerSubmitInput v = Inr (Inr r)"
  shows "isHexBytes (JStr (rsi_payload_bcs_hex r)) None" and "isHexBytes (JStr (rsi_signature r)) (Some 64)"
    and "isHexBytes (JStr (rsi_public_key r)) (Some 32)"
    and "isHexBytes (JStr (rsi_enclave_instance_public_key r)) (Some 32)"
proof -
  note acc = validateRelayer_accepts [OF assms]
  then have valid: "hasValidFinalizedPayload (rsi_payload r)" and p: "field_of v ''payload'' = JObj (rsi_payload r)"
    and fields: "field_of v ''payload_bcs_hex'' = JStr (rsi_payload_bcs_hex r)"
      "field_of v ''signature'' = JStr (rsi_signature r)" "field_of v ''public_key'' = JStr (rsi_public_key r)"
    by (auto simp: relayer_accepts_def)
  note all = assms [unfolded validateRelayerSubmitInput_def Let_def reject_if p js_value.case
      encodeEarthquakeOraclePayloadBcsHex_def encode_payload_eq [OF valid_payload_fits [OF valid]] res_bind_simps
      reject_if sum.inject fields]
  from all show "isHexBytes (JStr (rsi_payload_bcs_hex r)) None" "isHexBytes (JStr (rsi_signature r)) (Some 64)"
    "isHexBytes (JStr (rsi_public_key r)) (Some 32)" by blast+
  have "rsi_enclave_instance_public_key r = js_str (field_of v ''enclave_instance_public_key'')"
    using arg_cong [OF accepted_fields(1) [OF assms], of rsi_enclave_instance_public_key]
    by (simp add: submit_value_def Let_def)
  with accepted_fields(3) [OF assms] show "isHexBytes (JStr (rsi_enclave_instance_public_key r)) (Some 32)"
    using isHexBytes_str [of "field_of v ''enclave_instance_public_key''" "Some 32"] by fastforce
qed

lemma parse_accepted:
  assumes "validateRelayerSubmitInput v = Inr (Inr r)"
  shows "\<exists>p. parseRelayerSubmitInput v = Inr (Inr p) \<and> (\<forall>config. exact_request clock config r (move_request_of clock p config))"
proof -
  note acc = validateRelayer_accepts [OF assms] and fields = accepted_fields [OF assms]
  obtain bs where bs: "encodeEarthquakeOraclePayloadBcsBytes (payload_of_json (rsi_payload r)) = Inr bs"
    "normalizeHexBytes (rsi_payload_bcs_hex r) = bytesToHex bs"
    using acc by (auto simp: relayer_accepts_def)
  note hex = accepted_hex [OF assms]
  note facts = hex [THEN isHexBytes_facts(2)] hex [THEN isHexBytes_facts(3)]
  have pl: "hex_pairs (strip0x (rsi_payload_bcs_hex r)) = bs"
    by (rule hex_pairs_normalize [OF isHexBytes_facts(1) [OF hex(1)] bs(2)])
  have "normalizeHexBytes (rsi_enclave_instance_public_key r) = normalizeHexBytes (rsi_public_key r)"
    using acc by (simp add: relayer_accepts_def)
  with facts have eq: "hex_pairs (strip0x (rsi_enclave_instance_public_key r)) = hex_pairs (strip0x (rsi_public_key r))"
    by (metis bytesToHex_inject)
  show ?thesis
    using acc facts bs eq
    by (simp add: parseRelayerSubmitInput_def assms parseHexBytes_Inr [OF hex(1)] ED25519_SIGNATURE_BYTES_def
        ED25519_PUBLIC_KEY_BYTES_def parseHexBytes_Inr [OF hex(2)] parseHexBytes_Inr [OF hex(3)]
        parseHexBytes_Inr [OF hex(4)] exact_request_def move_request_of_def relayer_accepts_def pl)
qed

lemma build_Inr:
  "buildRelayerRequestPreview clock v config = Inr (Inr p) \<longleftrightarrow>
     (\<exists>pi. parseRelayerSubmitInput v = Inr (Inr pi) \<and> validateRequestConfig config = Inr config
        \<and> p = \<lparr>rr_request = move_request_of clock pi config, rr_submitRequest = move_request_of clock pi config\<rparr>)"
  by (auto simp: buildRelayerRequestPreview_def res_bind_def validateRequestConfig_def relayerSubmitFailed_def
      split: sum.splits if_splits)

lemma build_exact:
  assumes "validateRelayerSubmitInput v = Inr (Inr r)" and "buildRelayerRequestPreview clock v config = Inr (Inr p)"
  shows "exact_request clock config r (rr_request p) \<and> rr_submitRequest p = rr_request p"
  using assms(2) parse_accepted [OF assms(1), of clock] by (auto simp: build_Inr)

lemma io_result_Inr: "io_result r f w = (Inr (Inr s), w') \<longleftrightarrow> (\<exists>x. r = Inr x \<and> f x w = (Inr (Inr s), w'))"
  by (cases r) (auto simp: io_result_def io_return_def)

lemma io_bind_Inr_iff:
  "io_bind m f w = (Inr s, w') \<longleftrightarrow> (\<exists>x w1. m w = (Inr x, w1) \<and> f x w1 = (Inr s, w'))"
  by (auto simp: io_bind_def split: prod.splits sum.splits)

lemma io_lift_Inr: "io_lift r w = (Inr x, w') \<longleftrightarrow> r = Inr x \<and> w' = w"
  by (auto simp: io_lift_def)

lemma relayer_catch_Inr: "relayer_catch m w = (Inr (Inr s), w') \<longleftrightarrow> m w = (Inr (Inr s), w')"
  by (auto simp: relayer_catch_def io_catch_def io_return_def relayerSubmitFailed_def split: prod.splits sum.splits)

lemmas io_inversions = io_bind_Inr_iff io_result_Inr io_lift_Inr relayer_catch_Inr

lemma submit_inv:
  assumes "submitRelayerPayload env v config network grpcUrl (Some signer) w = (Inr (Inr s), w')"
  shows "\<exists>response result.
     buildRelayerRequestPreview (re_clock env) v config = Inr (Inr (ss_request s))
     \<and> validateSuiNetworkGrpcUrl (re_parse_url env) network grpcUrl = Inr network
     \<and> sc_signAndExecute (re_client env grpcUrl network) (createSuiSubmitTransaction (ss_request s) signer) signer w
         = (Inr response, w')
     \<and> normalizeTransactionResult response = Inr result
     \<and> readCreatedDisasterEventObjectId result = Some (ss_objectId s) \<and> ss_digest s = nr_digest result"
proof -
  have net: "x = network" if "validateSuiNetworkGrpcUrl (re_parse_url env) network grpcUrl = Inr x" for x
    using that by (auto simp: validateSuiNetworkGrpcUrl_def relayerSubmitFailed_def split: if_splits option.splits)
  from assms obtain request x response result where
    "buildRelayerRequestPreview (re_clock env) v config = Inr (Inr request)"
    and "validateSuiNetworkGrpcUrl (re_parse_url env) network grpcUrl = Inr x"
    and "sc_signAndExecute (re_client env grpcUrl network) (createSuiSubmitTransaction request signer) signer w
         = (Inr response, w')"
    and "normalizeTransactionResult response = Inr result"
    and "(case readCreatedDisasterEventObjectId result of None \<Rightarrow> io_return (relayerSubmitFailed ''Sui response did not include created DisasterEvent object ID'')
          | Some objectId \<Rightarrow> io_return (Inr \<lparr>ss_request = request, ss_digest = nr_digest result, ss_objectId = objectId,
                ss_effects = nr_effects result\<rparr>)) w' = (Inr (Inr s), w')"
    unfolding submitRelayerPayload_def Let_def option.case io_inversions
    by (auto simp: io_inversions io_return_def relayerSubmitFailed_def split: if_splits option.splits)
  with net show ?thesis
    by (auto simp: io_return_def relayerSubmitFailed_def split: option.splits)
qed

section \<open>Properties\<close>

text \<open>The request is the signed payload: for every input the validator accepts and every usable
  configuration a request is built, its byte arguments are the BCS bytes of the payload, the 64 bytes of the
  signature and the 32 bytes of the enclave's key, its objects are those of the configuration in order, and
  the request to submit is the request that is shown.\<close>

theorem relayer_request_exact:
  assumes "validateRelayerSubmitInput v = Inr (Inr r)" and "validateRequestConfig config = Inr config"
  shows "\<exists>p. buildRelayerRequestPreview clock v config = Inr (Inr p)
    \<and> exact_request clock config r (rr_request p) \<and> rr_submitRequest p = rr_request p"
proof -
  obtain pi where "parseRelayerSubmitInput v = Inr (Inr pi)" using parse_accepted [OF assms(1)] by blast
  with assms(2) have "\<exists>p. buildRelayerRequestPreview clock v config = Inr (Inr p)" by (simp add: build_Inr)
  with build_exact [OF assms(1)] show ?thesis by blast
qed

definition demo_config :: request_config where
  "demo_config = \<lparr>qc_target = ''0x1'' @ CAMPAIGN_RELAYER_TARGET_SUFFIX, qc_registry = ''0xa'',
     qc_verifierRegistry = ''0xb'', qc_categoryRegistry = ''0xc'', qc_categoryPool = ''0xd''\<rparr>"

lemma demo_config_valid: "validateRequestConfig demo_config = Inr demo_config"
  by (simp add: validateRequestConfig_def demo_config_def CAMPAIGN_RELAYER_TARGET_SUFFIX_def ends_with_def)

theorem relayer_request_exact_witness:
  "\<exists>r p. validateRelayerSubmitInput sample_submit = Inr (Inr r)
     \<and> buildRelayerRequestPreview ''0x6'' sample_submit demo_config = Inr (Inr p)
     \<and> exact_request ''0x6'' demo_config r (rr_request p) \<and> rr_submitRequest p = rr_request p"
proof -
  obtain r where r: "validateRelayerSubmitInput sample_submit = Inr (Inr r)" using sample_submit_accepted by blast
  from r relayer_request_exact [OF r demo_config_valid] show ?thesis by blast
qed

text \<open>What a success of the direct adapter in submit mode means.\<close>

definition submitted_exactly ::
    "'w relayer_env \<Rightarrow> 'w direct_relayer_config \<Rightarrow> tee_core_result \<Rightarrow> 'w \<Rightarrow> relayer_success \<Rightarrow> 'w \<Rightarrow> bool" where
  "submitted_exactly env config result w success w' \<longleftrightarrow>
     (\<exists>r p load signer network grpcUrl w1 response chain.
        validateRelayerSubmitInput (tee_json result) = Inr (Inr r)
        \<and> exact_request (re_clock env) (dc_request config) r (rr_request p)
        \<and> dc_allowSubmit config \<and> dc_configurationError config = None
        \<and> dc_loadSigner config = Some load \<and> load w = (Inr signer, w1)
        \<and> validateSuiNetworkGrpcUrl (re_parse_url env) network grpcUrl = Inr network
        \<and> sc_signAndExecute (re_client env grpcUrl network) (createSuiSubmitTransaction p signer) signer w1
            = (Inr response, w')
        \<and> normalizeTransactionResult response = Inr chain
        \<and> readCreatedDisasterEventObjectId chain = rs_object_id success
        \<and> rs_request success = normalizeDirectRelayerRequest p)"


text \<open>A chain that counts the transactions it executes and reports each as successful.\<close>

definition demo_response :: js_value where
  "demo_response = JObj
     [(''$kind'', JStr ''Transaction''),
      (''Transaction'', JObj
         [(''digest'', JStr ''9xQ''), (''status'', JObj [(''success'', JBool True)]), (''effects'', JObj []),
          (''events'', JArr [JObj [(''type'', JStr ''0x1::disaster_event::DisasterEventCreated''),
             (''json'', JObj [(''disaster_event_id'', JStr ''0xe'')])]])])]"

definition demo_env :: "nat relayer_env" where
  "demo_env = \<lparr>re_clock = ''0x6'',
     re_parse_url = (\<lambda>_. Some \<lparr>url_protocol = ''https:'', url_hostname = ''fullnode.testnet.sui.io'', url_port = [],
        url_username = [], url_password = [], url_pathname = ''/'', url_search = [], url_params = []\<rparr>),
     re_client = (\<lambda>_ _. \<lparr>sc_build = (\<lambda>_. io_return []), sc_simulate = (\<lambda>_. io_return demo_response),
        sc_signAndExecute = (\<lambda>_ _ n. (Inr demo_response, Suc n))\<rparr>)\<rparr>"

definition demo_direct :: "nat direct_relayer_config" where
  "demo_direct = \<lparr>dc_mode = Submit, dc_request = demo_config, dc_network = Some ''testnet'',
     dc_grpcUrl = Some ''https://fullnode.testnet.sui.io'', dc_senderAddress = None, dc_allowSubmit = True,
     dc_configurationError = None, dc_loadSigner = Some (io_return ''0x5e''), dc_submitPayload = None\<rparr>"


end
