(* ===== verification/SourceArchive.thy ===== *)
theory SourceArchive
  imports Relayer "HOL-Library.Multiset"
begin

text \<open>
  Archiving the sources of a finalized result, in \<open>watcher/src/runner_workflow.ts\<close>: the evidence is checked
  against what was signed, every source is fetched again, checked, stored and archived, and so are the two
  artifacts the enclave generated.

  The fetcher, the object store and the Walrus archiver are an adapter over the state of the outside world.
  What they throw is an integrity error, a configuration error, or anything else.  \<open>localeCompare\<close> is a
  parameter; a sort by a comparator is the stable insertion sort.
\<close>

section \<open>Adapters and attempts\<close>

datatype archive_error = ArchiveIntegrity string | ArchiveConfiguration string | ArchiveOther string

type_synonym ('w, 'a) arch = "'w \<Rightarrow> (archive_error + 'a) \<times> 'w"

record 'w source_archive_adapter =
  sa_fetchBytes :: "js_value \<Rightarrow> ('w, bytes) arch"
  sa_putObjectBytes :: "string \<Rightarrow> string \<Rightarrow> bytes \<Rightarrow> ('w, unit) io"
  sa_archiveAndVerify :: "js_value \<Rightarrow> bytes \<Rightarrow> string \<Rightarrow> ('w, string) arch"

record archive_attempt =
  aa_status :: stage_status
  aa_artifactS3Keys :: "string list"
  aa_message :: "string option"

definition archive_failed :: "stage_status \<Rightarrow> string list \<Rightarrow> string \<Rightarrow> archive_attempt" where
  "archive_failed st keys message = \<lparr>aa_status = st, aa_artifactS3Keys = keys, aa_message = Some message\<rparr>"

text \<open>The \<open>catch\<close> block of the loops.\<close>

definition archive_caught :: "archive_error \<Rightarrow> string list \<Rightarrow> archive_attempt" where
  "archive_caught e keys =
     (case e of
        ArchiveIntegrity m \<Rightarrow> archive_failed IntegrityFailed keys m
      | ArchiveConfiguration m \<Rightarrow> archive_failed ConfigurationFailed keys m
      | ArchiveOther m \<Rightarrow> archive_failed RetryableFailed keys m)"

definition SOURCE_ARCHIVE_RETRY_BACKOFF_MS :: int where
  "SOURCE_ARCHIVE_RETRY_BACKOFF_MS = FAILED_RETRY_BACKOFF_MS"

definition sourceArchiveFailureStateUpdate :: "archive_attempt \<Rightarrow> int \<Rightarrow> source_archive_update" where
  "sourceArchiveFailureStateUpdate archived nowMs =
     (if aa_status archived = RetryableFailed then
        \<lparr>sau_status = RetryableFailed, sau_artifact_s3_keys = aa_artifactS3Keys archived,
         sau_error_code = Some ''SOURCE_ARCHIVE_RETRYABLE_FAILED'',
         sau_retryable_next_retry_at_ms = Some (nowMs + SOURCE_ARCHIVE_RETRY_BACKOFF_MS),
         sau_message = aa_message archived\<rparr>
      else if aa_status archived = ConfigurationFailed then
        \<lparr>sau_status = ConfigurationFailed, sau_artifact_s3_keys = aa_artifactS3Keys archived,
         sau_error_code = Some ''SOURCE_ARCHIVE_CONFIGURATION_FAILED'', sau_retryable_next_retry_at_ms = None,
         sau_message = aa_message archived\<rparr>
      else
        \<lparr>sau_status = IntegrityFailed, sau_artifact_s3_keys = aa_artifactS3Keys archived,
         sau_error_code = Some ''SOURCE_ARCHIVE_INTEGRITY_FAILED'', sau_retryable_next_retry_at_ms = None,
         sau_message = aa_message archived\<rparr>)"

section \<open>Keys, bytes and entries\<close>

abbreviation str_field :: "js_value \<Rightarrow> string \<Rightarrow> string" where
  "str_field v k \<equiv> js_str (field_of v k)"

abbreviation int_field :: "js_value \<Rightarrow> string \<Rightarrow> int" where
  "int_field v k \<equiv> js_int (field_of v k)"

definition sha256Text :: "hash_fn \<Rightarrow> bytes \<Rightarrow> string" where
  "sha256Text sha bs = bytesToPrefixedHex (sha bs)"

definition verifySourceBytes :: "hash_fn \<Rightarrow> js_value \<Rightarrow> bytes \<Rightarrow> archive_error + unit" where
  "verifySourceBytes sha entry bs =
     (if sha256Text sha bs \<noteq> str_field entry ''source_hash''
      then Inl (ArchiveIntegrity (''source hash mismatch for '' @ str_field entry ''source_uri''))
      else if int (length bs) \<noteq> int_field entry ''size_bytes''
      then Inl (ArchiveIntegrity (''source size mismatch for '' @ str_field entry ''source_uri''))
      else Inr ())"

definition canonicalJsonBytes :: "(rat \<Rightarrow> string) \<Rightarrow> js_value \<Rightarrow> bytes" where
  "canonicalJsonBytes num v = map of_char (json_text num v)"

definition generatedArtifactEntry :: "string \<Rightarrow> string \<Rightarrow> js_value \<Rightarrow> js_value" where
  "generatedArtifactEntry sourceEventId product stored = JObj
     [(''name'', JStr ''TEE''), (''event_id'', JStr sourceEventId), (''product'', JStr product),
      (''uri'', field_of stored ''uri''), (''content_hash'', field_of stored ''source_hash''),
      (''source_uri'', field_of stored ''uri''), (''walrus_blob_id'', field_of stored ''walrus_blob_id''),
      (''source_hash'', field_of stored ''source_hash''), (''size_bytes'', field_of stored ''size_bytes'')]"

definition sanitizeS3KeySegment :: "string \<Rightarrow> string" where
  "sanitizeS3KeySegment s = take 96 (map (\<lambda>c.
     if is_upper_az c \<or> is_lower_az c \<or> is_digit c \<or> c = CHR ''_'' \<or> c = CHR ''.'' \<or> c = CHR ''-''
     then c else CHR ''_'') s)"

definition sourceArtifactS3Key :: "string \<Rightarrow> int option \<Rightarrow> nat \<Rightarrow> string \<Rightarrow> string \<Rightarrow> string" where
  "sourceArtifactS3Key sourceEventId attempt index product sourceHash = join_with ''/''
     [''source-artifacts'', sourceEventId, show_int (coalesce attempt 1),
      show_nat index @ ''-'' @ sanitizeS3KeySegment product @ ''-'' @ map to_lower (drop 2 sourceHash) @ ''.bin'']"

definition generatedArtifactS3Key :: "string \<Rightarrow> int option \<Rightarrow> string \<Rightarrow> string" where
  "generatedArtifactS3Key sourceEventId attempt fileName = join_with ''/''
     [''source-artifacts'', sourceEventId, show_int (coalesce attempt 1), fileName]"

section \<open>The evidence and what was signed\<close>

definition isSupportedAffectedCellsMethodAndAggregation :: "js_value \<Rightarrow> bool" where
  "isSupportedAffectedCellsMethodAndAggregation affectedCells \<longleftrightarrow>
     field_of affectedCells ''cells_generation_method'' = JStr ''shakemap_gridxml_h3_grid_point_p90_v1''
       \<and> field_of affectedCells ''cell_aggregation'' = JStr ''GRID_POINT_P90''
     \<or> field_of affectedCells ''cells_generation_method'' = JStr ''shakemap_gridxml_h3_center_bilinear_v1''
       \<and> field_of affectedCells ''cell_aggregation'' = JStr ''H3_CENTER_BILINEAR''"

record source_binding =
  sb_source :: js_value
  sb_product :: js_value
  sb_source_uri :: js_value
  sb_artifact_uri :: js_value
  sb_content_hash :: js_value
  sb_size_bytes :: js_value

definition entry_binding :: "js_value \<Rightarrow> source_binding" where
  "entry_binding entry =
     \<lparr>sb_source = field_of entry ''name'', sb_product = field_of entry ''product'',
      sb_source_uri = field_of entry ''source_uri'', sb_artifact_uri = field_of entry ''uri'',
      sb_content_hash = field_of entry ''content_hash'', sb_size_bytes = field_of entry ''size_bytes''\<rparr>"

definition evidence_binding :: "js_value \<Rightarrow> source_binding" where
  "evidence_binding source =
     \<lparr>sb_source = field_of source ''source'', sb_product = field_of source ''product'',
      sb_source_uri = field_of source ''source_uri'', sb_artifact_uri = field_of source ''artifact_uri'',
      sb_content_hash = field_of source ''content_hash'', sb_size_bytes = field_of source ''size_bytes''\<rparr>"

type_synonym locale_compare = "string \<Rightarrow> string \<Rightarrow> int"

text \<open>\<open>a || b || c || d\<close> on numbers.\<close>

definition compareEvidenceSourceBinding :: "locale_compare \<Rightarrow> source_binding \<Rightarrow> source_binding \<Rightarrow> int" where
  "compareEvidenceSourceBinding cmp left right =
     (let a = cmp (js_str (sb_source left)) (js_str (sb_source right));
          b = cmp (js_str (sb_product left)) (js_str (sb_product right));
          c = cmp (js_str (sb_source_uri left)) (js_str (sb_source_uri right));
          d = cmp (js_str (sb_artifact_uri left)) (js_str (sb_artifact_uri right))
      in if a \<noteq> 0 then a else if b \<noteq> 0 then b else if c \<noteq> 0 then c else d)"

text \<open>\<open>xs.sort(cmp)\<close>: stable, an element goes before the first that is greater.\<close>

fun insert_by :: "('a \<Rightarrow> 'a \<Rightarrow> int) \<Rightarrow> 'a \<Rightarrow> 'a list \<Rightarrow> 'a list" where
  "insert_by cmp x [] = [x]"
| "insert_by cmp x (y # ys) = (if cmp x y \<le> 0 then x # y # ys else y # insert_by cmp x ys)"

definition sort_by :: "('a \<Rightarrow> 'a \<Rightarrow> int) \<Rightarrow> 'a list \<Rightarrow> 'a list" where
  "sort_by cmp xs = foldr (insert_by cmp) xs []"

text \<open>The record of an artifact whose fields the validator has checked.\<close>

definition affected_of_json :: "js_value \<Rightarrow> affected_cells_input" where
  "affected_of_json v =
     \<lparr>event_uid = str_field v ''event_uid'', event_revision = int_field v ''event_revision'',
      oracle_version = int_field v ''oracle_version'', geo_resolution = int_field v ''geo_resolution'',
      cells_generation_method = str_field v ''cells_generation_method'', cell_metric = str_field v ''cell_metric'',
      cell_aggregation = str_field v ''cell_aggregation'', intensity_scale = str_field v ''intensity_scale'',
      affected_cells = (case field_of v ''affected_cells'' of
        JArr cells \<Rightarrow> map (\<lambda>c. \<lparr>h3_index = str_field c ''h3_index'', intensity_value = int_field c ''intensity_value'',
            cell_band = int_field c ''cell_band''\<rparr>) cells
      | _ \<Rightarrow> [])\<rparr>"

definition js_array :: "js_value \<Rightarrow> js_value list" where
  "js_array v = (case v of JArr xs \<Rightarrow> xs | _ \<Rightarrow> [])"

record binding_input =
  bi_payload :: json_record
  bi_rawDataManifest :: js_value
  bi_affectedCells :: js_value
  bi_affectedCellsBytes :: bytes
  bi_evidenceManifest :: js_value
  bi_evidenceManifestBytes :: bytes
  bi_affectedCellsRef :: js_value
  bi_evidenceManifestRef :: js_value

text \<open>The three groups of comparisons.\<close>

definition metadata_differs :: "binding_input \<Rightarrow> bool" where
  "metadata_differs inp =
     (let e = field_of (bi_evidenceManifest inp); p = get_field (bi_payload inp); q = field_of (e ''earthquake'') in
      e ''schema_version'' \<noteq> jint 1 \<or> e ''oracle_version'' \<noteq> p ''oracle_version'' \<or> e ''event_uid'' \<noteq> p ''event_uid''
      \<or> e ''event_revision'' \<noteq> p ''event_revision'' \<or> e ''hazard_type'' \<noteq> JStr ''EARTHQUAKE''
      \<or> e ''source_event_id'' \<noteq> p ''source_event_id'' \<or> q ''title'' \<noteq> p ''title'' \<or> q ''region'' \<noteq> p ''region''
      \<or> q ''occurred_at_ms'' \<noteq> p ''occurred_at_ms'')"

definition manifest_ref_differs :: "binding_input \<Rightarrow> bool" where
  "manifest_ref_differs inp =
     (let r = field_of (bi_evidenceManifestRef inp); p = get_field (bi_payload inp) in
      p ''evidence_manifest_uri'' \<noteq> r ''uri'' \<or> p ''evidence_manifest_hash'' \<noteq> r ''source_hash''
      \<or> r ''size_bytes'' \<noteq> jint (int (length (bi_evidenceManifestBytes inp))))"

definition affected_cells_differ :: "hash_fn \<Rightarrow> binding_input \<Rightarrow> bool" where
  "affected_cells_differ sha inp =
     (let a = field_of (bi_affectedCells inp); p = get_field (bi_payload inp);
          e = field_of (field_of (bi_evidenceManifest inp) ''affected_cells''); r = field_of (bi_affectedCellsRef inp) in
      a ''event_uid'' \<noteq> p ''event_uid'' \<or> a ''event_revision'' \<noteq> p ''event_revision''
      \<or> a ''oracle_version'' \<noteq> p ''oracle_version'' \<or> a ''geo_resolution'' \<noteq> e ''geo_resolution''
      \<or> a ''cell_metric'' \<noteq> JStr ''USGS_MMI'' \<or> \<not> isSupportedAffectedCellsMethodAndAggregation (bi_affectedCells inp)
      \<or> a ''intensity_scale'' \<noteq> JStr ''MMI_X100'' \<or> e ''uri'' \<noteq> r ''uri'' \<or> e ''hash'' \<noteq> r ''source_hash''
      \<or> e ''root'' \<noteq> p ''affected_cells_root'' \<or> e ''count'' \<noteq> p ''affected_cell_count''
      \<or> e ''land_cell_count'' \<noteq> p ''affected_cell_count''
      \<or> e ''total_cell_count'' \<noteq> jint (int (length (js_array (a ''affected_cells''))))
      \<or> e ''geo_resolution'' \<noteq> a ''geo_resolution''
      \<or> r ''size_bytes'' \<noteq> jint (int (length (bi_affectedCellsBytes inp)))
      \<or> r ''source_hash'' \<noteq> JStr (sha256Text sha (bi_affectedCellsBytes inp)))"

definition evidenceManifestBindingError :: "hash_fn \<Rightarrow> locale_compare \<Rightarrow> binding_input \<Rightarrow> js_error + string option" where
  "evidenceManifestBindingError sha cmp inp =
     (if metadata_differs inp then Inr (Some ''evidence_manifest metadata does not match signed payload'')
      else if manifest_ref_differs inp
      then Inr (Some ''evidence_manifest_ref does not match signed payload or manifest bytes'')
      else if affected_cells_differ sha inp
      then Inr (Some ''evidence_manifest affected_cells metadata does not match generated artifact'')
      else res_bind (computeAffectedCellsRootHex sha (affected_of_json (bi_affectedCells inp))) (\<lambda>root.
        case root of
          None \<Rightarrow> Inr (Some ''affected_cells artifact leaves do not match signed Merkle root'')
        | Some rt \<Rightarrow>
          if JStr rt \<noteq> get_field (bi_payload inp) ''affected_cells_root''
             \<or> JStr rt \<noteq> field_of (field_of (bi_evidenceManifest inp) ''affected_cells'') ''root''
          then Inr (Some ''affected_cells artifact leaves do not match signed Merkle root'')
          else
            let expected = sort_by (compareEvidenceSourceBinding cmp)
                  (map entry_binding (js_array (field_of (bi_rawDataManifest inp) ''entries'')));
                actual = sort_by (compareEvidenceSourceBinding cmp)
                  (map evidence_binding (js_array (field_of (bi_evidenceManifest inp) ''sources'')))
            in if length expected \<noteq> length actual \<or> \<not> list_all2 (=) expected actual
               then Inr (Some ''evidence_manifest sources do not match raw_data_manifest entries'')
               else Inr None))"

section \<open>Storing and archiving\<close>

text \<open>One pass of a loop once the bytes are there: the keys stored so far, or the attempt that is returned.\<close>

definition archive_one ::
    "hash_fn \<Rightarrow> 'w source_archive_adapter \<Rightarrow> string \<Rightarrow> js_value \<Rightarrow> string \<Rightarrow> string \<Rightarrow> string list \<Rightarrow> bytes
     \<Rightarrow> 'w \<Rightarrow> (archive_attempt + string list) \<times> 'w" where
  "archive_one sha ar bucket entry uri key keys bs w =
     (case verifySourceBytes sha entry bs of
        Inl e \<Rightarrow> (Inl (archive_caught e keys), w)
      | Inr _ \<Rightarrow>
        (case sa_putObjectBytes ar bucket key bs w of
           (Inl m, w1) \<Rightarrow> (Inl (archive_caught (ArchiveOther m) keys), w1)
         | (Inr _, w1) \<Rightarrow>
           (case sa_archiveAndVerify ar entry bs key w1 of
              (Inl e, w2) \<Rightarrow> (Inl (archive_caught e (keys @ [key])), w2)
            | (Inr walrusBlobId, w2) \<Rightarrow>
                if walrusBlobId \<noteq> str_field entry ''walrus_blob_id''
                then (Inl (archive_failed IntegrityFailed (keys @ [key]) (''Walrus blob id mismatch for '' @ uri)), w2)
                else (Inr (keys @ [key]), w2))))"

text \<open>The loop over the entries of the manifest; \<open>index\<close> is the position of the next one.\<close>

fun archive_entries ::
    "hash_fn \<Rightarrow> 'w source_archive_adapter \<Rightarrow> string \<Rightarrow> string \<Rightarrow> int option \<Rightarrow> nat \<Rightarrow> js_value list \<Rightarrow> string list
     \<Rightarrow> 'w \<Rightarrow> (archive_attempt + string list) \<times> 'w" where
  "archive_entries sha ar bucket sid attempt index [] keys w = (Inr keys, w)"
| "archive_entries sha ar bucket sid attempt index (entry # entries) keys w =
     (case sa_fetchBytes ar entry w of
        (Inl e, w1) \<Rightarrow> (Inl (archive_caught e keys), w1)
      | (Inr bs, w1) \<Rightarrow>
        (case archive_one sha ar bucket entry (str_field entry ''source_uri'')
            (sourceArtifactS3Key sid attempt index (str_field entry ''product'') (str_field entry ''source_hash''))
            keys bs w1 of
           (Inl a, w2) \<Rightarrow> (Inl a, w2)
         | (Inr keys', w2) \<Rightarrow> archive_entries sha ar bucket sid attempt (index + 1) entries keys' w2))"

text \<open>The loop over the generated artifacts: entry, bytes and file name.\<close>

fun archive_generated ::
    "hash_fn \<Rightarrow> 'w source_archive_adapter \<Rightarrow> string \<Rightarrow> string \<Rightarrow> int option \<Rightarrow> (js_value \<times> bytes \<times> string) list
     \<Rightarrow> string list \<Rightarrow> 'w \<Rightarrow> (archive_attempt + string list) \<times> 'w" where
  "archive_generated sha ar bucket sid attempt [] keys w = (Inr keys, w)"
| "archive_generated sha ar bucket sid attempt ((entry, bs, fileName) # generated) keys w =
     (case archive_one sha ar bucket entry (str_field entry ''uri'')
         (generatedArtifactS3Key sid attempt fileName) keys bs w of
        (Inl a, w2) \<Rightarrow> (Inl a, w2)
      | (Inr keys', w2) \<Rightarrow> archive_generated sha ar bucket sid attempt generated keys' w2)"

record archive_input =
  ai_sourceEventId :: string
  ai_attempt :: "int option"
  ai_resultBucket :: string
  ai_result :: js_value

definition generated_artifacts :: "string \<Rightarrow> js_value \<Rightarrow> bytes \<Rightarrow> js_value \<Rightarrow> bytes \<Rightarrow> (js_value \<times> bytes \<times> string) list" where
  "generated_artifacts sid affectedCellsRef affectedCellsBytes evidenceManifestRef evidenceManifestBytes =
     [(generatedArtifactEntry sid ''affected_cells_json'' affectedCellsRef, affectedCellsBytes, ''affected_cells.json''),
      (generatedArtifactEntry sid ''evidence_manifest_json'' evidenceManifestRef, evidenceManifestBytes,
       ''evidence_manifest.json'')]"

definition archiveFinalizedSources ::
    "hash_fn \<Rightarrow> locale_compare \<Rightarrow> (rat \<Rightarrow> string) \<Rightarrow> 'w source_archive_adapter \<Rightarrow> archive_input
     \<Rightarrow> ('w, archive_attempt) io" where
  "archiveFinalizedSources sha cmp num ar inp =
     io_bind (io_lift (validateRelayerSubmitInput (ai_result inp))) (\<lambda>validation.
     case validation of
       Inl (_, message) \<Rightarrow> io_return (archive_failed IntegrityFailed [] message)
     | Inr r \<Rightarrow>
       (case rsi_raw_data_manifest r of
          None \<Rightarrow> io_return (archive_failed IntegrityFailed [] ''finalized result is missing raw_data_manifest'')
        | Some manifest \<Rightarrow>
          (case (rsi_affected_cells r, rsi_evidence_manifest r, rsi_affected_cells_ref r, rsi_evidence_manifest_ref r) of
             (Some affectedCells, Some evidenceManifest, Some affectedCellsRef, Some evidenceManifestRef) \<Rightarrow>
               (let evidenceManifestBytes = canonicalJsonBytes num evidenceManifest;
                    affectedCellsBytes = canonicalJsonBytes num affectedCells in
                if JStr (sha256Text sha evidenceManifestBytes) \<noteq> get_field (rsi_payload r) ''evidence_manifest_hash''
                then io_return (archive_failed IntegrityFailed []
                       ''evidence_manifest does not match signed evidence_manifest_hash'')
                else io_bind (io_lift (evidenceManifestBindingError sha cmp
                    \<lparr>bi_payload = rsi_payload r, bi_rawDataManifest = manifest, bi_affectedCells = affectedCells,
                     bi_affectedCellsBytes = affectedCellsBytes, bi_evidenceManifest = evidenceManifest,
                     bi_evidenceManifestBytes = evidenceManifestBytes, bi_affectedCellsRef = affectedCellsRef,
                     bi_evidenceManifestRef = evidenceManifestRef\<rparr>)) (\<lambda>bindingError.
                case bindingError of
                  Some message \<Rightarrow> io_return (archive_failed IntegrityFailed [] message)
                | None \<Rightarrow> (\<lambda>w.
                  (case archive_entries sha ar (ai_resultBucket inp) (ai_sourceEventId inp) (ai_attempt inp) 0
                      (js_array (field_of manifest ''entries'')) [] w of
                     (Inl a, w1) \<Rightarrow> (Inr a, w1)
                   | (Inr keys, w1) \<Rightarrow>
                     (case archive_generated sha ar (ai_resultBucket inp) (ai_sourceEventId inp) (ai_attempt inp)
                         (generated_artifacts (ai_sourceEventId inp) affectedCellsRef affectedCellsBytes
                           evidenceManifestRef evidenceManifestBytes) keys w1 of
                        (Inl a, w2) \<Rightarrow> (Inr a, w2)
                      | (Inr keys', w2) \<Rightarrow>
                          (Inr \<lparr>aa_status = Success, aa_artifactS3Keys = keys', aa_message = None\<rparr>, w2))))))
           | _ \<Rightarrow> io_return (archive_failed IntegrityFailed []
                 ''finalized result is missing generated source artifact metadata''))))"

section \<open>What is stored\<close>

text \<open>
  The objects of the store: a put that returns stores its bytes, whatever else a put that throws does to
  its own key; fetching and archiving leave the objects alone.
\<close>

definition stores_objects :: "'w source_archive_adapter \<Rightarrow> ('w \<Rightarrow> string \<times> string \<Rightarrow> bytes option) \<Rightarrow> bool" where
  "stores_objects ar objs \<longleftrightarrow>
     (\<forall>bucket key bs w w1. sa_putObjectBytes ar bucket key bs w = (Inr (), w1) \<longrightarrow> objs w1 = (objs w)((bucket, key) \<mapsto> bs))
     \<and> (\<forall>entry w. objs (snd (sa_fetchBytes ar entry w)) = objs w)
     \<and> (\<forall>entry bs key w. objs (snd (sa_archiveAndVerify ar entry bs key w)) = objs w)"

text \<open>The bytes under a key are those an entry describes.\<close>

definition holds_source :: "hash_fn \<Rightarrow> bytes option \<Rightarrow> js_value \<Rightarrow> bool" where
  "holds_source sha stored entry \<longleftrightarrow>
     some_and (\<lambda>bs. sha256Text sha bs = str_field entry ''source_hash''
       \<and> int (length bs) = int_field entry ''size_bytes'') stored"

lemma archive_one_Inr:
  assumes "archive_one sha ar bucket entry uri key keys bs w = (Inr keys', w')" and "stores_objects ar objs"
  shows "keys' = keys @ [key] \<and> objs w' = (objs w)((bucket, key) \<mapsto> bs) \<and> holds_source sha (Some bs) entry"
  using assms
  by (auto simp: archive_one_def stores_objects_def holds_source_def verifySourceBytes_def
      split: sum.splits prod.splits if_splits) (metis snd_conv)+

definition source_keys :: "string \<Rightarrow> int option \<Rightarrow> nat \<Rightarrow> js_value list \<Rightarrow> string list" where
  "source_keys sid attempt index entries = map (\<lambda>(i, e).
     sourceArtifactS3Key sid attempt i (str_field e ''product'') (str_field e ''source_hash'')) (enumerate index entries)"

lemma source_keys_simps [simp]:
  "source_keys sid attempt index [] = []"
  "source_keys sid attempt index (e # es) =
     sourceArtifactS3Key sid attempt index (str_field e ''product'') (str_field e ''source_hash'')
     # source_keys sid attempt (Suc index) es"
  by (simp_all add: source_keys_def)

lemma length_source_keys [simp]: "length (source_keys sid attempt index es) = length es"
  by (simp add: source_keys_def)

lemma takeWhile_show_nat: "\<not> is_digit c \<Longrightarrow> takeWhile is_digit (show_nat n @ c # s) = show_nat n"
  using show_nat_digits by (subst takeWhile_append2) auto

lemma sourceArtifactS3Key_index:
  assumes "sourceArtifactS3Key sid attempt i p h = sourceArtifactS3Key sid attempt j p' h'"
  shows "i = j"
proof -
  obtain x y where "show_nat i @ ''-'' @ x = show_nat j @ ''-'' @ y"
    using assms by (auto simp: sourceArtifactS3Key_def)
  then have "takeWhile is_digit (show_nat i @ ''-'' @ x) = takeWhile is_digit (show_nat j @ ''-'' @ y)" by simp
  then show ?thesis by (simp add: takeWhile_show_nat is_digit_def)
qed

lemma generated_key_not_source:
  assumes "fileName \<noteq> []" and "\<not> is_digit (hd fileName)"
  shows "generatedArtifactS3Key sid attempt fileName \<noteq> sourceArtifactS3Key sid attempt i p h"
proof
  assume "generatedArtifactS3Key sid attempt fileName = sourceArtifactS3Key sid attempt i p h"
  then obtain x where "fileName = show_nat i @ x" by (auto simp: sourceArtifactS3Key_def generatedArtifactS3Key_def)
  with assms show False
    using show_nat_digits [of i] show_nat_not_Nil [of i] by (cases "show_nat i") auto
qed

lemma source_key_mem: "k \<in> set (source_keys sid attempt index es) \<Longrightarrow> \<exists>i p h. index \<le> i \<and> k = sourceArtifactS3Key sid attempt i p h"
  by (auto simp: source_keys_def in_set_enumerate_eq) blast

lemma source_key_not_generated:
  assumes "k \<in> set (source_keys sid attempt index es)"
  shows "k \<noteq> generatedArtifactS3Key sid attempt ''affected_cells.json''"
    and "k \<noteq> generatedArtifactS3Key sid attempt ''evidence_manifest.json''"
  using source_key_mem [OF assms] generated_key_not_source [of "''affected_cells.json''" sid attempt]
    generated_key_not_source [of "''evidence_manifest.json''" sid attempt]
  by (simp_all add: is_digit_def) metis+

lemma archive_entries_Inr:
  assumes "archive_entries sha ar bucket sid attempt index es keys w = (Inr keys', w')" and "stores_objects ar objs"
  shows "keys' = keys @ source_keys sid attempt index es
    \<and> list_all2 (\<lambda>k e. holds_source sha (objs w' (bucket, k)) e) (source_keys sid attempt index es) es
    \<and> (\<forall>k. k \<notin> set (source_keys sid attempt index es) \<longrightarrow> objs w' (bucket, k) = objs w (bucket, k))"
  using assms(1)
proof (induction es arbitrary: index keys w)
  case (Cons e es)
  let ?key = "sourceArtifactS3Key sid attempt index (str_field e ''product'') (str_field e ''source_hash'')"
  from Cons.prems obtain bs w1 keys1 w2 where fetch: "sa_fetchBytes ar e w = (Inr bs, w1)"
    and one: "archive_one sha ar bucket e (str_field e ''source_uri'') ?key keys bs w1 = (Inr keys1, w2)"
    and rest: "archive_entries sha ar bucket sid attempt (index + 1) es keys1 w2 = (Inr keys', w')"
    by (auto split: sum.splits prod.splits)
  have "objs w1 = objs w" using assms(2) fetch unfolding stores_objects_def by (metis snd_conv)
  moreover note archive_one_Inr [OF one assms(2)]
  ultimately have step: "keys1 = keys @ [?key]" "objs w2 = (objs w)((bucket, ?key) \<mapsto> bs)" "holds_source sha (Some bs) e"
    by auto
  note IH = Cons.IH [OF rest, simplified]
  have "?key \<notin> set (source_keys sid attempt (Suc index) es)"
    using source_key_mem [of ?key sid attempt "Suc index" es] sourceArtifactS3Key_index by fastforce
  with IH step show ?case by auto
qed simp

lemma set_insert_by [simp]: "mset (insert_by cmp x ys) = add_mset x (mset ys)"
  by (induction ys) auto

lemma mset_sort_by [simp]: "mset (sort_by cmp xs) = mset xs"
  by (induction xs) (auto simp: sort_by_def)

text \<open>What agreement of the evidence with what was signed establishes.\<close>

lemma binding_None:
  assumes "evidenceManifestBindingError sha cmp inp = Inr None"
  shows "\<not> metadata_differs inp \<and> \<not> manifest_ref_differs inp \<and> \<not> affected_cells_differ sha inp
    \<and> (\<exists>root. computeAffectedCellsRootHex sha (affected_of_json (bi_affectedCells inp)) = Inr (Some root)
        \<and> get_field (bi_payload inp) ''affected_cells_root'' = JStr root)
    \<and> mset (map entry_binding (js_array (field_of (bi_rawDataManifest inp) ''entries'')))
        = mset (map evidence_binding (js_array (field_of (bi_evidenceManifest inp) ''sources'')))"
proof -
  from assms obtain root where root: "computeAffectedCellsRootHex sha (affected_of_json (bi_affectedCells inp)) = Inr (Some root)"
    "get_field (bi_payload inp) ''affected_cells_root'' = JStr root"
    and sorted: "sort_by (compareEvidenceSourceBinding cmp) (map entry_binding (js_array (field_of (bi_rawDataManifest inp) ''entries'')))
      = sort_by (compareEvidenceSourceBinding cmp) (map evidence_binding (js_array (field_of (bi_evidenceManifest inp) ''sources'')))"
    and "\<not> metadata_differs inp" "\<not> manifest_ref_differs inp" "\<not> affected_cells_differ sha inp"
    by (auto simp: evidenceManifestBindingError_def res_bind_Inr_iff Let_def list.rel_eq split: if_splits option.splits)
  moreover from arg_cong [OF sorted, of mset]
  have "mset (map entry_binding (js_array (field_of (bi_rawDataManifest inp) ''entries'')))
        = mset (map evidence_binding (js_array (field_of (bi_evidenceManifest inp) ''sources'')))"
    by (simp only: mset_sort_by)
  ultimately show ?thesis by blast
qed

text \<open>What a successful archive of a result has checked and stored.\<close>

definition archived_exactly ::
    "hash_fn \<Rightarrow> (rat \<Rightarrow> string) \<Rightarrow> archive_input \<Rightarrow> string list \<Rightarrow> (string \<times> string \<Rightarrow> bytes option) \<Rightarrow> bool" where
  "archived_exactly sha num inp keys stored \<longleftrightarrow>
     (\<exists>r manifest affectedCells evidenceManifest root.
        validateRelayerSubmitInput (ai_result inp) = Inr (Inr r)
        \<and> rsi_raw_data_manifest r = Some manifest \<and> rsi_affected_cells r = Some affectedCells
        \<and> rsi_evidence_manifest r = Some evidenceManifest
        \<and> (let entries = js_array (field_of manifest ''entries'');
               skeys = source_keys (ai_sourceEventId inp) (ai_attempt inp) 0 entries;
               akey = generatedArtifactS3Key (ai_sourceEventId inp) (ai_attempt inp) ''affected_cells.json'';
               ekey = generatedArtifactS3Key (ai_sourceEventId inp) (ai_attempt inp) ''evidence_manifest.json'';
               obj = (\<lambda>k. stored (ai_resultBucket inp, k)) in
           keys = skeys @ [akey, ekey]
           \<and> list_all2 (\<lambda>k e. holds_source sha (obj k) e) skeys entries
           \<and> obj akey = Some (canonicalJsonBytes num affectedCells)
           \<and> obj ekey = Some (canonicalJsonBytes num evidenceManifest)
           \<and> get_field (rsi_payload r) ''evidence_manifest_hash''
               = JStr (sha256Text sha (canonicalJsonBytes num evidenceManifest))
           \<and> computeAffectedCellsRootHex sha (affected_of_json affectedCells) = Inr (Some root)
           \<and> get_field (rsi_payload r) ''affected_cells_root'' = JStr root
           \<and> field_of evidenceManifest ''source_event_id'' = get_field (rsi_payload r) ''source_event_id''
           \<and> mset (map entry_binding entries)
               = mset (map evidence_binding (js_array (field_of evidenceManifest ''sources'')))))"

lemma archive_generated_Inr:
  assumes "archive_generated sha ar bucket sid attempt
      [(e1, b1, ''affected_cells.json''), (e2, b2, ''evidence_manifest.json'')] keys w = (Inr keys', w')"
    and "stores_objects ar objs"
  shows "let akey = generatedArtifactS3Key sid attempt ''affected_cells.json'';
             ekey = generatedArtifactS3Key sid attempt ''evidence_manifest.json''
         in keys' = keys @ [akey, ekey] \<and> objs w' = (objs w)((bucket, akey) \<mapsto> b1, (bucket, ekey) \<mapsto> b2)"
proof -
  from assms(1) obtain keys1 w1 where one:
    "archive_one sha ar bucket e1 (str_field e1 ''uri'') (generatedArtifactS3Key sid attempt ''affected_cells.json'') keys b1 w
       = (Inr keys1, w1)"
    and two: "archive_one sha ar bucket e2 (str_field e2 ''uri'') (generatedArtifactS3Key sid attempt ''evidence_manifest.json'') keys1 b2 w1
       = (Inr keys', w')"
    by (auto split: sum.splits prod.splits)
  from archive_one_Inr [OF one assms(2)] archive_one_Inr [OF two assms(2)] show ?thesis by (simp add: Let_def)
qed

lemma generated_keys_differ:
  "generatedArtifactS3Key sid attempt ''affected_cells.json'' \<noteq> generatedArtifactS3Key sid attempt ''evidence_manifest.json''"
  by (simp add: generatedArtifactS3Key_def)

lemma archive_caught_status [simp]: "aa_status (archive_caught e keys) \<noteq> Success"
  by (simp add: archive_caught_def archive_failed_def split: archive_error.split)

lemma archive_one_Inl: "archive_one sha ar bucket e uri key keys bs w = (Inl a, w') \<Longrightarrow> aa_status a \<noteq> Success"
  by (auto simp: archive_one_def archive_failed_def split: sum.splits prod.splits if_splits)

lemma archive_entries_Inl:
  "archive_entries sha ar bucket sid attempt index es keys w = (Inl a, w') \<Longrightarrow> aa_status a \<noteq> Success"
  by (induction es arbitrary: index keys w) (auto dest: archive_one_Inl split: sum.splits prod.splits)

lemma archive_generated_Inl:
  "archive_generated sha ar bucket sid attempt gs keys w = (Inl a, w') \<Longrightarrow> aa_status a \<noteq> Success"
  by (induction gs arbitrary: keys w)
    (auto dest!: archive_one_Inl [where w' = w'] split: sum.splits prod.splits)

lemma archive_success:
  assumes objs: "stores_objects ar objs"
    and run: "archiveFinalizedSources sha cmp num ar inp w = (Inr a, w')" and success: "aa_status a = Success"
  shows "archived_exactly sha num inp (aa_artifactS3Keys a) (objs w')"
proof -
  let ?sid = "ai_sourceEventId inp" and ?att = "ai_attempt inp" and ?b = "ai_resultBucket inp"
  obtain x where x: "validateRelayerSubmitInput (ai_result inp) = Inr x" using validateRelayer_total by blast
  note run1 = run [unfolded archiveFinalizedSources_def x]
  obtain r where "x = Inr r"
    using run1 success by (cases x) (auto simp: io_inversions io_return_def archive_failed_def)
  with x have r: "validateRelayerSubmitInput (ai_result inp) = Inr (Inr r)" by simp
  obtain manifest affectedCells evidenceManifest aref eref where
    parts: "rsi_raw_data_manifest r = Some manifest" "rsi_affected_cells r = Some affectedCells"
      "rsi_evidence_manifest r = Some evidenceManifest" "rsi_affected_cells_ref r = Some aref"
      "rsi_evidence_manifest_ref r = Some eref"
    using run1 success \<open>x = Inr r\<close>
    by (auto simp: io_inversions io_return_def archive_failed_def split: option.splits)
  let ?ab = "canonicalJsonBytes num affectedCells" and ?eb = "canonicalJsonBytes num evidenceManifest"
  let ?es = "js_array (field_of manifest ''entries'')"
  let ?bi = "\<lparr>bi_payload = rsi_payload r, bi_rawDataManifest = manifest, bi_affectedCells = affectedCells,
     bi_affectedCellsBytes = ?ab, bi_evidenceManifest = evidenceManifest,
     bi_evidenceManifestBytes = ?eb, bi_affectedCellsRef = aref, bi_evidenceManifestRef = eref\<rparr>"
  note run2 = run1 [unfolded \<open>x = Inr r\<close> io_lift_def io_bind_def sum.case prod.case parts option.case Let_def]
  have hash: "get_field (rsi_payload r) ''evidence_manifest_hash'' = JStr (sha256Text sha ?eb)"
    and "\<exists>x. evidenceManifestBindingError sha cmp ?bi = Inr x"
    using run2 success by (auto simp: io_bind_def io_return_def archive_failed_def split: if_splits sum.splits)
  then obtain x where bx: "evidenceManifestBindingError sha cmp ?bi = Inr x" by blast
  have bind: "evidenceManifestBindingError sha cmp ?bi = Inr None"
    using run2 success hash bx by (cases x) (auto simp: io_bind_def io_return_def archive_failed_def)
  obtain keys w1 where entries: "archive_entries sha ar ?b ?sid ?att 0 ?es [] w = (Inr keys, w1)"
    and gen: "archive_generated sha ar ?b ?sid ?att (generated_artifacts ?sid aref ?ab eref ?eb) keys w1
        = (Inr (aa_artifactS3Keys a), w')"
    using run2 success hash bind
    by (auto simp: io_bind_def dest!: archive_entries_Inl archive_generated_Inl split: prod.splits sum.splits)
  note b = binding_None [OF bind, simplified]
  note e = archive_entries_Inr [OF entries objs, simplified]
  note g = archive_generated_Inr [OF gen [unfolded generated_artifacts_def] objs, unfolded Let_def]
  have src: "objs w' (?b, k) = objs w1 (?b, k)" if "k \<in> set (source_keys ?sid ?att 0 ?es)" for k
    using source_key_not_generated [OF that] g by auto
  have "list_all2 (\<lambda>k e. holds_source sha (objs w' (?b, k)) e) (source_keys ?sid ?att 0 ?es) ?es"
    by (rule list.rel_mono_strong [OF conjunct1 [OF conjunct2 [OF e]]]) (simp add: src)
  moreover have "field_of evidenceManifest ''source_event_id'' = get_field (rsi_payload r) ''source_event_id''"
    using b by (simp add: metadata_differs_def Let_def)
  ultimately show ?thesis
    unfolding archived_exactly_def Let_def
    using r parts hash b e g generated_keys_differ [of ?sid ?att]
    by (intro exI [of _ r] exI [of _ manifest] exI [of _ affectedCells] exI [of _ evidenceManifest]) auto
qed

end
