(* ===== verification/SourceArchiveProps.thy ===== *)
theory SourceArchiveProps
  imports SourceArchive
begin

text \<open>The property of \<open>SourceArchive\<close> and a finalized result that is archived.\<close>

section \<open>Properties\<close>

text \<open>A finalized result with one source and its artifacts, under a hash that gives every text the hash the
  result names, and a store that is a map.\<close>

definition demo_sha :: hash_fn where "demo_sha = (\<lambda>_. hexToBytes sample_uid)"
definition demo_num :: "rat \<Rightarrow> string" where "demo_num q = show_int \<lfloor>q\<rfloor>"

definition demo_cells :: js_value where
  "demo_cells = JObj
     [(''event_uid'', JStr sample_uid), (''event_revision'', JNum 1), (''oracle_version'', JNum 1),
      (''geo_resolution'', JNum 7), (''cells_generation_method'', JStr ''shakemap_gridxml_h3_grid_point_p90_v1''),
      (''cell_metric'', JStr ''USGS_MMI''), (''cell_aggregation'', JStr ''GRID_POINT_P90''),
      (''intensity_scale'', JStr ''MMI_X100''),
      (''affected_cells'', JArr
         [JObj [(''h3_index'', JStr ''1''), (''intensity_value'', JNum 600), (''cell_band'', JNum 1)],
          JObj [(''h3_index'', JStr ''2''), (''intensity_value'', JNum 700), (''cell_band'', JNum 2)]])]"

definition demo_evidence :: js_value where
  "demo_evidence = JObj
     [(''schema_version'', JNum 1), (''oracle_version'', JNum 1), (''event_uid'', JStr sample_uid),
      (''event_revision'', JNum 1), (''hazard_type'', JStr ''EARTHQUAKE''), (''source_event_id'', JStr ''us7000abcd''),
      (''earthquake'', JObj [(''title'', JStr ''M 6.8''), (''region'', JStr ''Japan''),
         (''occurred_at_ms'', JNum 1700000000000), (''magnitude_x100'', JNum 680), (''source_updated_at_ms'', JNum 1)]),
      (''affected_cells'', JObj [(''uri'', JStr ''walrus://blob/cellscells''), (''hash'', JStr sample_uid),
         (''root'', JStr sample_uid), (''count'', JNum 2), (''total_cell_count'', JNum 2),
         (''land_cell_count'', JNum 2), (''water_cell_count'', JNum 0), (''land_allowlist_version'', JNum 0),
         (''land_allowlist_root'', JStr sample_uid), (''land_classifier'', JStr ''h3''), (''geo_resolution'', JNum 7)]),
      (''sources'', JArr [JObj [(''source'', JStr ''USGS''), (''product'', JStr ''detail_geojson''),
         (''source_uri'', JStr ''https://earthquake.usgs.gov/d''), (''artifact_uri'', JStr ''walrus://blob/detailjson''),
         (''content_hash'', JStr sample_uid), (''size_bytes'', JNum 3), (''source_updated_at_ms'', JNum 1)]])]"

definition demo_ref :: "string \<Rightarrow> js_value \<Rightarrow> js_value" where
  "demo_ref blobId artifact = JObj [(''uri'', JStr (''walrus://blob/'' @ blobId)), (''walrus_blob_id'', JStr blobId),
     (''source_hash'', JStr sample_uid), (''size_bytes'', jint (int (length (canonicalJsonBytes demo_num artifact))))]"

definition demo_manifest :: js_value where
  "demo_manifest = JObj [(''oracle_version'', JNum 1), (''entries'', JArr [JObj
     [(''name'', JStr ''USGS''), (''event_id'', JStr ''us7000abcd''), (''product'', JStr ''detail_geojson''),
      (''uri'', JStr ''walrus://blob/detailjson''), (''content_hash'', JStr sample_uid),
      (''source_uri'', JStr ''https://earthquake.usgs.gov/d''), (''walrus_blob_id'', JStr ''detailjson''),
      (''source_hash'', JStr sample_uid), (''size_bytes'', JNum 3)]])]"

definition demo_result :: js_value where
  "demo_result = JObj
     [(''status'', JStr ''finalized''), (''payload'', JObj sample_payload_json),
      (''payload_bcs_hex'', JStr (bytesToPrefixedHex (payload_bytes sample_payload))),
      (''signature'', JStr (bytesToPrefixedHex (replicate 64 1))),
      (''public_key'', JStr (bytesToPrefixedHex (replicate 32 2))),
      (''raw_data_manifest'', demo_manifest), (''affected_cells'', demo_cells), (''evidence_manifest'', demo_evidence),
      (''affected_cells_ref'', demo_ref ''cellscells'' demo_cells),
      (''evidence_manifest_ref'', demo_ref ''abcdefgh'' demo_evidence),
      (''verifier_config_key'', JNum 1), (''verifier_config_version'', JNum 1),
      (''enclave_instance_public_key'', JStr (bytesToPrefixedHex (replicate 32 2)))]"

definition demo_adapter :: "(string \<times> string \<Rightarrow> bytes option) source_archive_adapter" where
  "demo_adapter =
     \<lparr>sa_fetchBytes = (\<lambda>_ w. (Inr [1, 2, 3], w)),
      sa_putObjectBytes = (\<lambda>bucket key bs w. (Inr (), w((bucket, key) \<mapsto> bs))),
      sa_archiveAndVerify = (\<lambda>entry _ _ w. (Inr (str_field entry ''walrus_blob_id''), w))\<rparr>"

lemmas text_size = canonicalJsonBytes_def json_string_def json_escape_def demo_num_def show_int_def show_nat.simps

lemma uid_size: "length (concat (map json_escape sample_uid)) = 66"
  by code_simp

lemma demo_cells_size:
  "0 < length (canonicalJsonBytes demo_num demo_cells) \<and> length (canonicalJsonBytes demo_num demo_cells) < 10000"
  by (simp add: demo_cells_def text_size uid_size)

lemma demo_evidence_size:
  "0 < length (canonicalJsonBytes demo_num demo_evidence) \<and> length (canonicalJsonBytes demo_num demo_evidence) < 10000"
  by (simp add: demo_evidence_def text_size uid_size)

lemmas value_checks = isSafeIntegerInRange_def isSafeInteger_def isUtf8BytesInRange_def isSafeNonNegativeInteger_def
  isRecord_def field_of_def get_field_def array_all_def MAX_SAFE_INTEGER_def U32_MAX_def ONE_MILLION_def
  DEFAULT_oracle_version_def DEFAULT_geo_resolution_def hash32_sample_uid

lemma demo_cells_valid: "hasValidAffectedCellsArtifact demo_cells"
  by (simp add: hasValidAffectedCellsArtifact_def demo_cells_def valid_artifact_cell_def value_checks)

lemma demo_evidence_valid: "hasValidEvidenceManifest demo_evidence"
  by (simp add: hasValidEvidenceManifest_def demo_evidence_def hasValidEarthquakeEvidence_def
      hasValidEvidenceAffectedCells_def hasValidEvidenceSource_def starts_with_def value_checks)

lemma demo_manifest_valid: "hasValidRawDataManifest demo_manifest"
  by (simp add: hasValidRawDataManifest_def demo_manifest_def hasValidRawDataEntry_def isWalrusBlobId_def
      is_blob_char_def is_lower_az_def isWalrusUriForBlobId_def value_checks)

lemma demo_ref_valid:
  assumes "artifact \<in> {demo_cells, demo_evidence}" and "blobId \<in> {''cellscells'', ''abcdefgh''}"
  shows "hasValidStoredSourceRef (demo_ref blobId artifact)"
proof -
  have "isSafeIntegerInRange (jint (int (length (canonicalJsonBytes demo_num artifact)))) 1 MAX_SAFE_INTEGER"
    using assms(1) demo_cells_size demo_evidence_size
    by (auto simp: isSafeIntegerInRange_def isSafeInteger_def MAX_SAFE_INTEGER_def Suc_le_eq)
  then show ?thesis
    using assms(2)
    by (auto simp: hasValidStoredSourceRef_def demo_ref_def isWalrusBlobId_def is_blob_char_def is_lower_az_def
        isWalrusUriForBlobId_def isUtf8BytesInRange_def isRecord_def field_of_def get_field_def hash32_sample_uid)
qed

definition demo_submit :: relayer_submit_input where
  "demo_submit = submit_value demo_result sample_payload_json"

lemma demo_result_accepted: "validateRelayerSubmitInput demo_result = Inr (Inr demo_submit)"
proof -
  have hex: "isHexBytes (JStr (bytesToPrefixedHex (payload_bytes sample_payload))) None"
    "isHexBytes (JStr (bytesToPrefixedHex (replicate 64 1))) (Some 64)"
    "isHexBytes (JStr (bytesToPrefixedHex (replicate 32 2))) (Some 32)"
    by (rule bytesToPrefixedHex_hexbytes; simp add: payload_bytes_not_Nil)+
  have enc: "encodeEarthquakeOraclePayloadBcsHex sample_payload
      = Inr (bytesToPrefixedHex (payload_bytes sample_payload))"
    by (simp add: encodeEarthquakeOraclePayloadBcsHex_def encode_payload_eq sample_payload_fits)
  have st: "get_field sample_payload_json ''status'' = jint FINALIZED_STATUS"
    by (simp add: sample_payload_json_def get_field_def FINALIZED_STATUS_def)
  have one: "isSafeIntegerInRange (JNum 1) 1 MAX_SAFE_INTEGER"
    by (simp add: isSafeIntegerInRange_def isSafeInteger_def MAX_SAFE_INTEGER_def)
  have valid: "hasValidStoredSourceRef (demo_ref ''cellscells'' demo_cells)"
    "hasValidStoredSourceRef (demo_ref ''abcdefgh'' demo_evidence)" by (rule demo_ref_valid; simp)+
  have field: "field_of demo_result k = (case map_of (case demo_result of JObj fs \<Rightarrow> fs | _ \<Rightarrow> []) k of None \<Rightarrow> JUndef | Some v \<Rightarrow> v)" for k
    by (simp add: field_of_def get_field_def demo_result_def)
  show ?thesis
    unfolding validateRelayerSubmitInput_def Let_def field
    by (simp add: demo_result_def isRecord_def st sample_payload_valid hex sample_payload_of_json enc one
        valid demo_manifest_valid demo_cells_valid demo_evidence_valid EARTHQUAKE_VERIFIER_CONFIG_KEY_def)
       (simp add: demo_submit_def demo_result_def)
qed

lemma demo_objects: "demo_manifest \<noteq> JUndef" "demo_cells \<noteq> JUndef" "demo_evidence \<noteq> JUndef" "demo_ref b v \<noteq> JUndef"
  by (simp_all add: demo_manifest_def demo_cells_def demo_evidence_def demo_ref_def)

lemma demo_result_fields:
  "field_of demo_result ''payload'' = JObj sample_payload_json" "field_of demo_result ''raw_data_manifest'' = demo_manifest"
  "field_of demo_result ''affected_cells'' = demo_cells" "field_of demo_result ''evidence_manifest'' = demo_evidence"
  "field_of demo_result ''affected_cells_ref'' = demo_ref ''cellscells'' demo_cells"
  "field_of demo_result ''evidence_manifest_ref'' = demo_ref ''abcdefgh'' demo_evidence"
  by (simp_all add: demo_result_def field_of_def get_field_def)

lemma demo_submit_parts:
  "rsi_payload demo_submit = sample_payload_json" "rsi_raw_data_manifest demo_submit = Some demo_manifest"
  "rsi_affected_cells demo_submit = Some demo_cells" "rsi_evidence_manifest demo_submit = Some demo_evidence"
  "rsi_affected_cells_ref demo_submit = Some (demo_ref ''cellscells'' demo_cells)"
  "rsi_evidence_manifest_ref demo_submit = Some (demo_ref ''abcdefgh'' demo_evidence)"
  by (simp_all add: demo_submit_def submit_value_def Let_def opt_field_def demo_result_fields demo_objects)

lemma demo_sha_text: "sha256Text demo_sha bs = sample_uid"
  by (simp add: sha256Text_def demo_sha_def bytesToPrefixedHex_hexToBytes sample_uid_def)

lemma demo_decimals: "parseCanonicalU64Decimal ''1'' = Some 1" "parseCanonicalU64Decimal ''2'' = Some 2"
  by (simp_all add: parseCanonicalU64Decimal_def is_canonical_decimal_def read_nat_def digit_val_def is_digit_def U64_MAX_def)

lemma demo_leaves:
  "root_leaves demo_sha (affected_of_json demo_cells) m None (affected_cells (affected_of_json demo_cells))
     = Inr (Some [hexToBytes sample_uid, hexToBytes sample_uid])"
proof -
  have uid: "event_uid (affected_of_json demo_cells) = sample_uid"
    by (simp add: affected_of_json_def demo_cells_def field_of_def get_field_def)
  have "hexBytes32 sample_uid = Inr (hexToBytes sample_uid)"
    by (rule hexBytes32_lower) (simp add: sample_uid_def)
  moreover have "affected_cells (affected_of_json demo_cells)
      = [\<lparr>h3_index = ''1'', intensity_value = 600, cell_band = 1\<rparr>, \<lparr>h3_index = ''2'', intensity_value = 700, cell_band = 2\<rparr>]"
    by (simp add: affected_of_json_def demo_cells_def field_of_def get_field_def)
  ultimately show ?thesis by (simp add: uid demo_decimals demo_sha_def)
qed

lemma demo_root: "computeAffectedCellsRootHex demo_sha (affected_of_json demo_cells) = Inr (Some sample_uid)"
proof -
  have "cellsGenerationMethodId (cells_generation_method (affected_of_json demo_cells)) \<noteq> None"
    by (simp add: affected_of_json_def demo_cells_def field_of_def get_field_def cellsGenerationMethodId_def)
  then obtain m where m: "cellsGenerationMethodId (cells_generation_method (affected_of_json demo_cells)) = Some m" by blast
  have "byte_root demo_sha [u, u] = Some (hexToBytes sample_uid)" for u
    by (subst byte_root.simps, simp, subst byte_root.simps, simp add: demo_sha_def)
  moreover have "bytesToPrefixedHex (hexToBytes sample_uid) = sample_uid"
    by (simp add: bytesToPrefixedHex_hexToBytes sample_uid_def)
  ultimately show ?thesis by (simp add: computeAffectedCellsRootHex_def m demo_leaves)
qed

lemma demo_binding:
  "evidenceManifestBindingError demo_sha cmp
     \<lparr>bi_payload = sample_payload_json, bi_rawDataManifest = demo_manifest, bi_affectedCells = demo_cells,
      bi_affectedCellsBytes = canonicalJsonBytes demo_num demo_cells, bi_evidenceManifest = demo_evidence,
      bi_evidenceManifestBytes = canonicalJsonBytes demo_num demo_evidence,
      bi_affectedCellsRef = demo_ref ''cellscells'' demo_cells,
      bi_evidenceManifestRef = demo_ref ''abcdefgh'' demo_evidence\<rparr> = Inr None"
  (is "evidenceManifestBindingError _ _ ?inp = _")
proof -
  have s: "sort_by f [x] = [x]" for f and x :: source_binding by (simp add: sort_by_def)
  note defs = field_of_def get_field_def demo_sha_text sample_payload_json_def
  have "\<not> metadata_differs ?inp"
    by (simp add: metadata_differs_def demo_evidence_def defs)
  moreover have "\<not> manifest_ref_differs ?inp"
    by (simp add: manifest_ref_differs_def demo_ref_def defs)
  moreover have "\<not> affected_cells_differ demo_sha ?inp"
    by (simp add: affected_cells_differ_def demo_ref_def demo_cells_def demo_evidence_def
        isSupportedAffectedCellsMethodAndAggregation_def js_array_def defs)
  moreover have "get_field sample_payload_json ''affected_cells_root'' = JStr sample_uid"
    "field_of (field_of demo_evidence ''affected_cells'') ''root'' = JStr sample_uid"
    by (simp_all add: demo_evidence_def defs)
  moreover have "map entry_binding (js_array (field_of demo_manifest ''entries''))
      = map evidence_binding (js_array (field_of demo_evidence ''sources''))"
    by (simp add: demo_manifest_def demo_evidence_def entry_binding_def evidence_binding_def js_array_def defs)
  ultimately show ?thesis
    by (simp add: evidenceManifestBindingError_def Let_def demo_root list_all2_refl)
qed

lemma demo_entries: "js_array (field_of demo_manifest ''entries'') =
    [JObj [(''name'', JStr ''USGS''), (''event_id'', JStr ''us7000abcd''), (''product'', JStr ''detail_geojson''),
      (''uri'', JStr ''walrus://blob/detailjson''), (''content_hash'', JStr sample_uid),
      (''source_uri'', JStr ''https://earthquake.usgs.gov/d''), (''walrus_blob_id'', JStr ''detailjson''),
      (''source_hash'', JStr sample_uid), (''size_bytes'', JNum 3)]]"
  by (simp add: demo_manifest_def js_array_def field_of_def get_field_def)

lemma demo_stores: "stores_objects demo_adapter (\<lambda>w. w)"
  by (simp add: stores_objects_def demo_adapter_def)

definition demo_input :: archive_input where
  "demo_input = \<lparr>ai_sourceEventId = ''us7000abcd'', ai_attempt = Some 1, ai_resultBucket = ''bucket'', ai_result = demo_result\<rparr>"

lemma demo_archived:
  "\<exists>a w'. archiveFinalizedSources demo_sha cmp demo_num demo_adapter demo_input (\<lambda>_. None) = (Inr a, w') \<and> aa_status a = Success"
proof -
  have "\<exists>ks w1. archive_entries demo_sha demo_adapter ''bucket'' ''us7000abcd'' (Some 1) 0
      (js_array (field_of demo_manifest ''entries'')) [] (\<lambda>_. None) = (Inr ks, w1)"
    unfolding demo_entries
    by (simp add: demo_adapter_def archive_one_def verifySourceBytes_def demo_sha_text field_of_def get_field_def)
  then obtain ks w1 where entries: "archive_entries demo_sha demo_adapter ''bucket'' ''us7000abcd'' (Some 1) 0
      (js_array (field_of demo_manifest ''entries'')) [] (\<lambda>_. None) = (Inr ks, w1)" by blast
  define gs where "gs = generated_artifacts ''us7000abcd'' (demo_ref ''cellscells'' demo_cells)
    (canonicalJsonBytes demo_num demo_cells) (demo_ref ''abcdefgh'' demo_evidence) (canonicalJsonBytes demo_num demo_evidence)"
  have "\<exists>ks' w2. archive_generated demo_sha demo_adapter ''bucket'' ''us7000abcd'' (Some 1) gs ks w1 = (Inr ks', w2)"
    by (simp add: gs_def generated_artifacts_def generatedArtifactEntry_def demo_ref_def demo_adapter_def archive_one_def
        verifySourceBytes_def demo_sha_text field_of_def get_field_def)
  then obtain ks' w2 where gen: "archive_generated demo_sha demo_adapter ''bucket'' ''us7000abcd'' (Some 1) gs ks w1 = (Inr ks', w2)"
    by blast
  have hash: "get_field sample_payload_json ''evidence_manifest_hash'' = JStr sample_uid"
    by (simp add: sample_payload_json_def get_field_def)
  show ?thesis
    by (simp add: archiveFinalizedSources_def demo_input_def demo_result_accepted io_lift_def io_bind_def io_return_def
        demo_submit_parts Let_def demo_sha_text hash demo_binding entries gen [unfolded gs_def])
qed

text \<open>C14. When archiving a finalized result ends in success, the result was accepted by the relayer's
  validator, its evidence agrees with the signed payload, and the store holds, under the keys that are
  returned and in their order, for every entry of the raw data manifest bytes with the entry's hash and size,
  and the exact text of the two generated artifacts, the second one of the hash that was signed.\<close>

theorem archive_success_sound:
  assumes "stores_objects ar objs"
    and "archiveFinalizedSources sha cmp num ar inp w = (Inr a, w')" and "aa_status a = Success"
  shows "archived_exactly sha num inp (aa_artifactS3Keys a) (objs w')"
  by (rule archive_success [OF assms])

theorem archive_success_sound_witness:
  "\<exists>a w'. archiveFinalizedSources demo_sha (\<lambda>_ _. 0) demo_num demo_adapter demo_input (\<lambda>_. None) = (Inr a, w')
     \<and> aa_status a = Success \<and> archived_exactly demo_sha demo_num demo_input (aa_artifactS3Keys a) w'"
proof -
  obtain a w' where run: "archiveFinalizedSources demo_sha (\<lambda>_ _. 0) demo_num demo_adapter demo_input (\<lambda>_. None) = (Inr a, w')"
    "aa_status a = Success" using demo_archived by blast
  with archive_success_sound [OF demo_stores this] show ?thesis by blast
qed

end
