(* ===== verification/SourceFetch.thy ===== *)
theory SourceFetch
  imports SourceArchive
begin

text \<open>
  The adapters of \<open>SourceArchive\<close> as \<open>watcher/src/runner_workflow.ts\<close> builds them: fetching a source again
  from the USGS, within the size that was signed, and the Walrus archiver behind its HTTP endpoint.

  \<open>fetch\<close> and the URL parser are parameters.  A response body that is streamed is the list of its chunks
  and the error that ends it, if one does; \<open>response.json()\<close> is a value or the error it throws.
\<close>

section \<open>Text\<close>

text \<open>\<open>text.split(sep)\<close> for a separator that is not empty; \<open>curr\<close> is the part read so far.\<close>

function split_by :: "string \<Rightarrow> string \<Rightarrow> string \<Rightarrow> string list" where
  "split_by sep part [] = [part]"
| "split_by sep part (c # s) =
     (if starts_with (c # s) sep then part # split_by sep [] (drop (length sep - 1) s)
      else split_by sep (part @ [c]) s)"
  by pat_completeness auto
termination by (relation "measure (\<lambda>(_, _, s). length s)") auto

definition split_str :: "string \<Rightarrow> string \<Rightarrow> string list" where
  "split_str s sep = split_by sep [] s"

definition is_space :: "char \<Rightarrow> bool" where
  "is_space c \<longleftrightarrow> of_char c \<in> {9 :: nat, 10, 11, 12, 13, 32, 160}"

definition trim :: "string \<Rightarrow> string" where
  "trim s = List.rev (dropWhile is_space (List.rev (dropWhile is_space s)))"

section \<open>Which sources may be fetched\<close>

definition isAllowedUsgsDetailUri :: "url \<Rightarrow> string \<Rightarrow> bool" where
  "isAllowedUsgsDetailUri u eventId =
     (if url_pathname u = ''/earthquakes/feed/v1.0/detail/'' @ eventId @ ''.geojson'' \<and> url_search u = [] then True
      else if url_pathname u \<noteq> ''/fdsnws/event/1/query'' then False
      else let keys = map fst (url_params u) in
        length keys = 2 \<and> ''eventid'' \<in> set keys \<and> ''format'' \<in> set keys
        \<and> map_of (url_params u) ''eventid'' = Some eventId \<and> map_of (url_params u) ''format'' = Some ''geojson'')"

definition isAllowedUsgsShakemapGridUri :: "url \<Rightarrow> bool" where
  "isAllowedUsgsShakemapGridUri u =
     (if url_search u \<noteq> [] then False
      else case split_str (url_pathname u) ''/'' of
        [first, productPrefix, productType, code, source, version, download, file] \<Rightarrow>
          first = [] \<and> productPrefix = ''product'' \<and> productType = ''shakemap'' \<and> length code > 0
          \<and> length source > 0 \<and> length version > 0 \<and> download = ''download''
          \<and> (file = ''grid.xml'' \<or> file = ''grid.xml.zip'')
      | _ \<Rightarrow> False)"

definition assertAllowedSourceUri :: "url_parser \<Rightarrow> js_value \<Rightarrow> archive_error + unit" where
  "assertAllowedSourceUri parse_url entry =
     (if str_field entry ''name'' \<noteq> ''USGS''
      then Inl (ArchiveIntegrity ''source archive entry is not a USGS source'')
      else case parse_url (str_field entry ''source_uri'') of
        None \<Rightarrow> Inl (ArchiveIntegrity (''source URI is not a valid URL for '' @ str_field entry ''product''))
      | Some u \<Rightarrow>
        if url_protocol u \<noteq> ''https:'' \<or> url_hostname u \<noteq> ''earthquake.usgs.gov'' \<or> url_port u \<noteq> []
           \<or> url_username u \<noteq> [] \<or> url_password u \<noteq> []
        then Inl (ArchiveIntegrity ''source URI is outside allowed USGS HTTPS scope'')
        else if str_field entry ''product'' = ''detail_geojson'' \<and> isAllowedUsgsDetailUri u (str_field entry ''event_id'')
        then Inr ()
        else if str_field entry ''product'' = ''shakemap_grid_xml'' \<and> isAllowedUsgsShakemapGridUri u
        then Inr ()
        else Inl (ArchiveIntegrity (''source URI is not allowed for '' @ str_field entry ''product'')))"

section \<open>Fetching with a time limit\<close>

datatype fetch_error = FetchAborted | FetchFailed js_error

datatype response_body = NoBody bytes | BodyChunks "bytes list" "js_error option"

record fetch_response =
  fr_status :: int
  fr_body :: response_body
  fr_json :: "js_error + js_value"

record fetch_request =
  fq_method :: "string option"
  fq_headers :: "(string \<times> string) list"
  fq_body :: "string option"

type_synonym 'w fetch_fn = "string \<Rightarrow> fetch_request \<Rightarrow> int \<Rightarrow> 'w \<Rightarrow> (fetch_error + fetch_response) \<times> 'w"

definition response_ok :: "fetch_response \<Rightarrow> bool" where
  "response_ok response \<longleftrightarrow> 200 \<le> fr_status response \<and> fr_status response \<le> 299"

definition SOURCE_FETCH_TIMEOUT_MS :: int where "SOURCE_FETCH_TIMEOUT_MS = 30000"
definition SOURCE_ARCHIVER_HTTP_TIMEOUT_MS :: int where "SOURCE_ARCHIVER_HTTP_TIMEOUT_MS = 210000"

definition isAbortError :: "fetch_error \<Rightarrow> bool" where
  "isAbortError e = (case e of FetchAborted \<Rightarrow> True | FetchFailed _ \<Rightarrow> False)"

definition fetch_message :: "fetch_error \<Rightarrow> js_error" where
  "fetch_message e = (case e of FetchAborted \<Rightarrow> ''This operation was aborted'' | FetchFailed m \<Rightarrow> m)"

definition fetchWithTimeout ::
    "'w fetch_fn \<Rightarrow> string \<Rightarrow> fetch_request \<Rightarrow> int \<Rightarrow> string \<Rightarrow> ('w, fetch_response) arch" where
  "fetchWithTimeout fetch target init timeoutMs timeoutMessage = (\<lambda>w.
     case fetch target init timeoutMs w of
       (Inr response, w1) \<Rightarrow> (Inr response, w1)
     | (Inl e, w1) \<Rightarrow>
         if isAbortError e then (Inl (ArchiveOther timeoutMessage), w1)
         else (Inl (ArchiveOther (fetch_message e)), w1))"

text \<open>\<open>out.set(chunk, offset)\<close> on the array of \<open>totalBytes\<close> zeros.\<close>

fun copy_chunks :: "bytes list \<Rightarrow> nat \<Rightarrow> bytes \<Rightarrow> bytes" where
  "copy_chunks [] offset out = out"
| "copy_chunks (chunk # chunks) offset out =
     copy_chunks chunks (offset + length chunk)
       (take offset out @ chunk @ drop (offset + length chunk) out)"

definition concatBytes :: "bytes list \<Rightarrow> nat \<Rightarrow> bytes" where
  "concatBytes chunks totalBytes = copy_chunks chunks 0 (replicate totalBytes 0)"

text \<open>The loop over the chunks: those kept so far and their tot size.\<close>

fun read_chunks :: "int \<Rightarrow> string \<Rightarrow> js_error option \<Rightarrow> bytes list \<Rightarrow> nat \<Rightarrow> bytes list \<Rightarrow> archive_error + bytes" where
  "read_chunks expectedSizeBytes sourceUri broken chunks totalBytes [] =
     (case broken of
        Some message \<Rightarrow> Inl (ArchiveOther message)
      | None \<Rightarrow> Inr (concatBytes chunks totalBytes))"
| "read_chunks expectedSizeBytes sourceUri broken chunks totalBytes (chunk # rest) =
     (if int (totalBytes + length chunk) > expectedSizeBytes
      then Inl (ArchiveIntegrity (''source size exceeded signed size for '' @ sourceUri))
      else read_chunks expectedSizeBytes sourceUri broken (chunks @ [chunk]) (totalBytes + length chunk) rest)"

definition readResponseBytesWithLimit :: "fetch_response \<Rightarrow> int \<Rightarrow> string \<Rightarrow> archive_error + bytes" where
  "readResponseBytesWithLimit response expectedSizeBytes sourceUri =
     (case fr_body response of
        NoBody bs \<Rightarrow>
          if int (length bs) > expectedSizeBytes
          then Inl (ArchiveIntegrity (''source size exceeded signed size for '' @ sourceUri)) else Inr bs
      | BodyChunks chunks broken \<Rightarrow> read_chunks expectedSizeBytes sourceUri broken [] 0 chunks)"

definition fetchBytes :: "'w fetch_fn \<Rightarrow> url_parser \<Rightarrow> js_value \<Rightarrow> ('w, bytes) arch" where
  "fetchBytes fetch parse_url entry = (\<lambda>w.
     case assertAllowedSourceUri parse_url entry of
       Inl e \<Rightarrow> (Inl e, w)
     | Inr _ \<Rightarrow>
       (case fetchWithTimeout fetch (str_field entry ''source_uri'')
           \<lparr>fq_method = None, fq_headers = [], fq_body = None\<rparr> SOURCE_FETCH_TIMEOUT_MS
           (''source re-fetch timed out for '' @ str_field entry ''source_uri'') w of
          (Inl e, w1) \<Rightarrow> (Inl e, w1)
        | (Inr response, w1) \<Rightarrow>
            if \<not> response_ok response
            then (Inl (ArchiveOther (''source re-fetch failed for '' @ str_field entry ''source_uri'' @ '': HTTP ''
                   @ show_int (fr_status response))), w1)
            else (readResponseBytesWithLimit response (int_field entry ''size_bytes'') (str_field entry ''source_uri''), w1)))"

section \<open>The Walrus archiver\<close>

record 'w archiver_auth =
  au_secretArn :: string
  au_getSecretString :: "string \<Rightarrow> ('w, string) io"

definition archiver_token :: "'w archiver_auth option \<Rightarrow> ('w, string) arch" where
  "archiver_token auth = (\<lambda>w.
     case auth of
       None \<Rightarrow> (Inl (ArchiveOther ''source archiver auth is not configured''), w)
     | Some a \<Rightarrow>
       (case au_getSecretString a (au_secretArn a) w of
          (Inl m, w1) \<Rightarrow> (Inl (ArchiveOther m), w1)
        | (Inr secret, w1) \<Rightarrow>
            if length (trim secret) = 0
            then (Inl (ArchiveOther (au_secretArn a @ '' did not contain SecretString'')), w1)
            else (Inr (trim secret), w1)))"

definition archiver_headers :: "'w archiver_auth option \<Rightarrow> ('w, (string \<times> string) list) arch" where
  "archiver_headers auth = (\<lambda>w.
     if auth = None then (Inr [(''content-type'', ''application/json'')], w)
     else case archiver_token auth w of
       (Inl e, w1) \<Rightarrow> (Inl e, w1)
     | (Inr token, w1) \<Rightarrow>
         (Inr [(''content-type'', ''application/json''), (''x-sonari-source-archiver-token'', token)], w1))"

definition readSourceArchiverErrorKind :: "fetch_response \<Rightarrow> string option" where
  "readSourceArchiverErrorKind response =
     (case fr_json response of
        Inl _ \<Rightarrow> None
      | Inr body \<Rightarrow>
        if \<not> isRecord body then None
        else case field_of body ''error'' of
          JStr e \<Rightarrow> if e = ''configuration'' \<or> e = ''integrity'' \<or> e = ''retryable'' then Some e else None
        | _ \<Rightarrow> None)"

definition archive_request_json :: "js_value \<Rightarrow> string \<Rightarrow> js_value" where
  "archive_request_json entry artifactS3Key = JObj
     [(''artifact_s3_key'', JStr artifactS3Key), (''expected_walrus_blob_id'', field_of entry ''walrus_blob_id''),
      (''source_hash'', field_of entry ''source_hash''), (''size_bytes'', field_of entry ''size_bytes'')]"

text \<open>What is made of the response.\<close>

definition archived_blob :: "js_value \<Rightarrow> fetch_response \<Rightarrow> archive_error + string" where
  "archived_blob entry response =
     (if \<not> response_ok response then
        let message = ''Walrus source archiver failed: HTTP '' @ show_int (fr_status response) in
        if readSourceArchiverErrorKind response = Some ''configuration'' then Inl (ArchiveConfiguration message)
        else if fr_status response = 409 \<or> fr_status response = 422 then Inl (ArchiveIntegrity message)
        else Inl (ArchiveOther message)
      else case fr_json response of
        Inl m \<Rightarrow> Inl (ArchiveOther m)
      | Inr body \<Rightarrow>
        if \<not> isRecord body then Inl (ArchiveOther ''Walrus source archiver returned invalid JSON'')
        else case field_of body ''walrus_blob_id'' of
          JStr blobId \<Rightarrow>
            if JStr blobId \<noteq> field_of entry ''walrus_blob_id''
            then Inl (ArchiveIntegrity ''Walrus source archiver blob id mismatch'') else Inr blobId
        | _ \<Rightarrow> Inl (ArchiveOther ''Walrus source archiver returned invalid JSON''))"

definition HttpWalrusSourceArchiver ::
    "'w fetch_fn \<Rightarrow> (rat \<Rightarrow> string) \<Rightarrow> string \<Rightarrow> 'w archiver_auth option \<Rightarrow> js_value \<Rightarrow> bytes \<Rightarrow> string \<Rightarrow> ('w, string) arch" where
  "HttpWalrusSourceArchiver fetch num endpoint auth entry bs artifactS3Key = (\<lambda>w.
     case archiver_headers auth w of
       (Inl e, w1) \<Rightarrow> (Inl e, w1)
     | (Inr headers, w1) \<Rightarrow>
       (case fetchWithTimeout fetch endpoint
           \<lparr>fq_method = Some ''POST'', fq_headers = headers,
            fq_body = Some (json_text num (archive_request_json entry artifactS3Key))\<rparr>
           SOURCE_ARCHIVER_HTTP_TIMEOUT_MS ''Walrus source archiver request timed out'' w1 of
          (Inl e, w2) \<Rightarrow> (Inl e, w2)
        | (Inr response, w2) \<Rightarrow> (archived_blob entry response, w2)))"

definition UnconfiguredWalrusSourceArchiver :: "js_value \<Rightarrow> bytes \<Rightarrow> string \<Rightarrow> ('w, string) arch" where
  "UnconfiguredWalrusSourceArchiver entry bs artifactS3Key =
     (\<lambda>w. (Inl (ArchiveOther ''Walrus source archiver is not configured''), w))"

type_synonym env = "string \<Rightarrow> string option"

text \<open>\<open>value === undefined || value.length === 0\<close>.\<close>

definition unset :: "string option \<Rightarrow> bool" where
  "unset v \<longleftrightarrow> none_or (\<lambda>s. length s = 0) v"

definition buildSourceArchiveFromConfig ::
    "'w fetch_fn \<Rightarrow> url_parser \<Rightarrow> (rat \<Rightarrow> string) \<Rightarrow> (string \<Rightarrow> ('w, string) io) \<Rightarrow> env \<Rightarrow> 'w runner_clients
     \<Rightarrow> js_error + 'w source_archive_adapter" where
  "buildSourceArchiveFromConfig fetch parse_url num getSecretString ev cl =
     (case rc_putObjectBytes cl of
        None \<Rightarrow> Inl ''source archive requires S3 byte staging support''
      | Some put \<Rightarrow>
        let sourceArchiverUrl = ev ''SOURCE_ARCHIVER_URL'';
            secretArn = ev ''SOURCE_ARCHIVER_TOKEN_SECRET_ARN'' in
        if \<not> unset sourceArchiverUrl \<and> unset secretArn
        then Inl ''SOURCE_ARCHIVER_TOKEN_SECRET_ARN is required with SOURCE_ARCHIVER_URL''
        else let auth = (if unset secretArn then None
                         else Some \<lparr>au_secretArn = the secretArn, au_getSecretString = getSecretString\<rparr>)
          in Inr \<lparr>sa_fetchBytes = fetchBytes fetch parse_url, sa_putObjectBytes = put,
               sa_archiveAndVerify =
                 (if unset sourceArchiverUrl then UnconfiguredWalrusSourceArchiver
                  else HttpWalrusSourceArchiver fetch num (the sourceArchiverUrl) auth)\<rparr>)"

section \<open>What is fetched\<close>

lemma copy_chunks_eq:
  "offset + length (concat chunks) = length out \<Longrightarrow>
     copy_chunks chunks offset out = take offset out @ concat chunks"
proof (induction chunks arbitrary: offset out)
  case (Cons a chunks)
  let ?out = "take offset out @ a @ drop (offset + length a) out"
  from Cons.prems have "offset + length a + length (concat chunks) = length ?out" by simp
  from Cons.IH [OF this] Cons.prems show ?case by simp
qed simp

lemma concatBytes_eq: "totalBytes = length (concat chunks) \<Longrightarrow> concatBytes chunks totalBytes = concat chunks"
  by (simp add: concatBytes_def copy_chunks_eq)

lemma read_chunks_Inr:
  assumes "read_chunks limit uri broken chunks tot rest = Inr bs" and "tot = length (concat chunks)"
    and "int tot \<le> limit"
  shows "broken = None \<and> bs = concat (chunks @ rest) \<and> int (length bs) \<le> limit"
  using assms
  by (induction limit uri broken chunks tot rest rule: read_chunks.induct)
    (auto simp: concatBytes_eq split: option.splits if_splits)

text \<open>The bytes of the body, when it is read to the end.\<close>

definition body_bytes :: "fetch_response \<Rightarrow> bytes option" where
  "body_bytes response =
     (case fr_body response of NoBody bs \<Rightarrow> Some bs
      | BodyChunks chunks broken \<Rightarrow> if broken = None then Some (concat chunks) else None)"

lemma readResponseBytesWithLimit_Inr:
  assumes "readResponseBytesWithLimit response limit uri = Inr bs" and "0 \<le> limit"
  shows "body_bytes response = Some bs \<and> int (length bs) \<le> limit"
  using assms read_chunks_Inr [of limit uri _ "[]" 0 _ bs]
  by (auto simp: readResponseBytesWithLimit_def body_bytes_def split: response_body.splits if_splits)

text \<open>A location from which a source may be taken.\<close>

definition usgs_source :: "url \<Rightarrow> js_value \<Rightarrow> bool" where
  "usgs_source u entry \<longleftrightarrow>
     url_protocol u = ''https:'' \<and> url_hostname u = ''earthquake.usgs.gov'' \<and> url_port u = []
     \<and> url_username u = [] \<and> url_password u = []
     \<and> (str_field entry ''product'' = ''detail_geojson''
         \<and> (url_pathname u = ''/earthquakes/feed/v1.0/detail/'' @ str_field entry ''event_id'' @ ''.geojson''
            \<or> url_pathname u = ''/fdsnws/event/1/query''
              \<and> mset (url_params u) = {#(''eventid'', str_field entry ''event_id''), (''format'', ''geojson'')#})
       \<or> str_field entry ''product'' = ''shakemap_grid_xml''
         \<and> (\<exists>code source version file. split_str (url_pathname u) ''/''
              = ['''', ''product'', ''shakemap'', code, source, version, ''download'', file]
            \<and> file \<in> {''grid.xml'', ''grid.xml.zip''}))"

lemma detail_uri_query:
  assumes "isAllowedUsgsDetailUri u sid" and "url_pathname u \<noteq> ''/earthquakes/feed/v1.0/detail/'' @ sid @ ''.geojson''"
  shows "url_pathname u = ''/fdsnws/event/1/query'' \<and> mset (url_params u) = {#(''eventid'', sid), (''format'', ''geojson'')#}"
proof -
  have q: "url_pathname u = ''/fdsnws/event/1/query''" "length (url_params u) = 2"
    "map_of (url_params u) ''eventid'' = Some sid" "map_of (url_params u) ''format'' = Some ''geojson''"
    using assms by (auto simp: isAllowedUsgsDetailUri_def Let_def split: if_splits)
  from q(2) obtain a b where "url_params u = [a, b]" by (auto simp: length_Suc_conv numeral_2_eq_2)
  with q show ?thesis by (cases a; cases b) (auto split: if_splits)
qed

lemma allowed_source: "assertAllowedSourceUri parse_url entry = Inr () \<Longrightarrow>
    \<exists>u. parse_url (str_field entry ''source_uri'') = Some u \<and> usgs_source u entry"
proof -
  assume a: "assertAllowedSourceUri parse_url entry = Inr ()"
  then obtain u where u: "parse_url (str_field entry ''source_uri'') = Some u"
    by (auto simp: assertAllowedSourceUri_def split: option.splits if_splits)
  with a have scope: "url_protocol u = ''https:''" "url_hostname u = ''earthquake.usgs.gov''" "url_port u = []"
      "url_username u = []" "url_password u = []"
    and kind: "str_field entry ''product'' = ''detail_geojson'' \<and> isAllowedUsgsDetailUri u (str_field entry ''event_id'')
      \<or> str_field entry ''product'' = ''shakemap_grid_xml'' \<and> isAllowedUsgsShakemapGridUri u"
    by (auto simp: assertAllowedSourceUri_def split: if_splits)
  have "\<exists>code source version file. split_str (url_pathname u) ''/''
      = ['''', ''product'', ''shakemap'', code, source, version, ''download'', file] \<and> file \<in> {''grid.xml'', ''grid.xml.zip''}"
    if "isAllowedUsgsShakemapGridUri u"
    using that by (auto simp: isAllowedUsgsShakemapGridUri_def split: if_splits list.splits)
  with kind detail_uri_query [of u "str_field entry ''event_id''"]
  show ?thesis unfolding usgs_source_def using u scope by blast
qed

section \<open>Properties\<close>


definition demo_source :: js_value where
  "demo_source = JObj [(''name'', JStr ''USGS''), (''product'', JStr ''detail_geojson''), (''event_id'', JStr ''us7000abcd''),
     (''source_uri'', JStr ''https://earthquake.usgs.gov/fdsnws/event/1/query?eventid=us7000abcd&format=geojson''),
     (''size_bytes'', JNum 3)]"

definition demo_url :: url where
  "demo_url = \<lparr>url_protocol = ''https:'', url_hostname = ''earthquake.usgs.gov'', url_port = [], url_username = [],
     url_password = [], url_pathname = ''/fdsnws/event/1/query'', url_search = ''?eventid=us7000abcd&format=geojson'',
     url_params = [(''eventid'', ''us7000abcd''), (''format'', ''geojson'')]\<rparr>"

definition demo_response :: fetch_response where
  "demo_response = \<lparr>fr_status = 200, fr_body = BodyChunks [[1], [2, 3]] None, fr_json = Inl ''not JSON''\<rparr>"


end
