(* ===== verification/EnclaveRegistration.thy ===== *)
theory EnclaveRegistration
  imports SourceFetch
begin

text \<open>
  Registering an enclave's key on chain, in \<open>watcher/src/runner_workflow.ts\<close>: the adapter
  \<open>SuiEnclaveRegistrationAdapter\<close>, the reading of what the chain answers, and of the registry when the key is
  there already.

  The chain's client, the signer and the clock are parameters; \<open>Buffer.from(text, 'base64')\<close>, which also
  takes text that is not padded, is the parameter \<open>b64\<close>.
\<close>

section \<open>Targets\<close>

definition isNonEmptyText :: "string option \<Rightarrow> bool" where
  "isNonEmptyText v \<longleftrightarrow> some_and (\<lambda>s. length s > 0) v"

text \<open>\<open>const [a, b, c] = text.split(sep)\<close>.\<close>

definition part_of :: "string list \<Rightarrow> nat \<Rightarrow> string option" where
  "part_of parts i = (if i < length parts then Some (parts ! i) else None)"

definition deriveEnclaveRegistrationTarget :: "string option \<Rightarrow> string option" where
  "deriveEnclaveRegistrationTarget relayerTarget =
     (if unset relayerTarget then None
      else let parts = split_str (the relayerTarget) ''::'' in
        if \<not> isNonEmptyText (part_of parts 0) \<or> \<not> isNonEmptyText (part_of parts 1)
           \<or> \<not> isNonEmptyText (part_of parts 2)
        then None
        else Some (the (part_of parts 0) @ ''::metadata_verifier::register_enclave_instance''))"

definition resolveEnclaveRegistrationTargetForConfig :: "string \<Rightarrow> int option \<Rightarrow> string" where
  "resolveEnclaveRegistrationTargetForConfig target configKey =
     (if configKey = None then target
      else let parts = split_str target ''::'' in
        if part_of parts 1 = Some ''metadata_verifier'' \<and> part_of parts 2 = Some ''register_enclave_instance''
        then the (part_of parts 0) @ ''::metadata_verifier::register_enclave_instance_for_config''
        else target)"

definition validateRegistrationGrpcUrl :: "url_parser \<Rightarrow> string \<Rightarrow> string \<Rightarrow> string \<Rightarrow> js_error + unit" where
  "validateRegistrationGrpcUrl parse_url network grpcUrl fieldName =
     (case parse_url grpcUrl of
        None \<Rightarrow> Inl (fieldName @ '' must be a valid URL'')
      | Some u \<Rightarrow>
        if url_protocol u \<noteq> ''https:'' then Inl (fieldName @ '' must use https'')
        else if length (url_username u) > 0 \<or> length (url_password u) > 0
        then Inl (fieldName @ '' must not include credentials'')
        else if url_hostname u \<noteq> ''fullnode.'' @ network @ ''.sui.io''
        then Inl (fieldName @ '' host '' @ url_hostname u @ '' does not match RELAYER_NETWORK='' @ network)
        else Inr ())"

section \<open>The answer of the chain\<close>

definition readRegistrationErrorMessage :: "js_value \<Rightarrow> string option" where
  "readRegistrationErrorMessage v =
     (case v of
        JStr s \<Rightarrow> if length s > 0 then Some s else None
      | JObj fs \<Rightarrow> (case get_field fs ''message'' of JStr m \<Rightarrow> if length m > 0 then Some m else None | _ \<Rightarrow> None)
      | _ \<Rightarrow> None)"

text \<open>\<open>None\<close> when the value is no status.\<close>

definition readEnclaveExecutionStatus :: "js_value \<Rightarrow> execution_status option" where
  "readEnclaveExecutionStatus v =
     (if \<not> isRecord v then None
      else case field_of v ''success'' of
        JBool success \<Rightarrow>
          if success then Some ExecSuccess
          else Some (ExecFailure (readRegistrationErrorMessage (field_of v ''error'')))
      | _ \<Rightarrow> None)"

definition readSuccessfulEnclaveRegistrationEvents :: "js_value \<Rightarrow> js_error + js_value list" where
  "readSuccessfulEnclaveRegistrationEvents response =
     (if \<not> isRecord response then Inl ''Sui response was not an object''
      else if field_of response ''$kind'' = JStr ''FailedTransaction'' then
        (let failed = field_of response ''FailedTransaction'';
             status = (if isRecord failed then readEnclaveExecutionStatus (field_of failed ''status'') else None) in
         Inl (case status of Some (ExecFailure (Some m)) \<Rightarrow> m | _ \<Rightarrow> ''Move transaction failed''))
      else if field_of response ''$kind'' \<noteq> JStr ''Transaction'' \<or> \<not> isRecord (field_of response ''Transaction'')
      then Inl ''Sui response used an unknown transaction result shape''
      else let transaction = field_of response ''Transaction'' in
        (case readEnclaveExecutionStatus (field_of transaction ''status'') of
           Some (ExecFailure m) \<Rightarrow> Inl (coalesce m ''Move transaction reported failure'')
         | None \<Rightarrow> Inl ''Sui response did not include transaction status''
         | Some ExecSuccess \<Rightarrow>
           if \<not> isRecord (field_of transaction ''effects'')
           then Inl ''Sui response did not include transaction effects''
           else Inr (filter isRecord (js_array (field_of transaction ''events'')))))"

text \<open>\<open>\b\<close> at position \<open>i\<close>, and the patterns \<open>\bword\b\<close> and \<open>\b(?:abort|code)\D*16\b\<close>.\<close>

definition is_word_char :: "char \<Rightarrow> bool" where
  "is_word_char c \<longleftrightarrow> is_upper_az c \<or> is_lower_az c \<or> is_digit c \<or> c = CHR ''_''"

definition word_boundary :: "string \<Rightarrow> nat \<Rightarrow> bool" where
  "word_boundary s i \<longleftrightarrow>
     (0 < i \<and> i \<le> length s \<and> is_word_char (s ! (i - 1))) \<noteq> (i < length s \<and> is_word_char (s ! i))"

definition has_word :: "string \<Rightarrow> string \<Rightarrow> bool" where
  "has_word s w \<longleftrightarrow> list_ex (\<lambda>i. starts_with (drop i s) w \<and> word_boundary s i \<and> word_boundary s (i + length w))
     [0..<length s + 1]"

definition has_code_16 :: "string \<Rightarrow> bool" where
  "has_code_16 s \<longleftrightarrow>
     list_ex (\<lambda>i. list_ex (\<lambda>w. starts_with (drop i s) w \<and> word_boundary s i
         \<and> list_ex (\<lambda>k. list_all (\<lambda>c. \<not> is_digit c) (take k (drop (i + length w) s))
             \<and> starts_with (drop (i + length w + k) s) ''16'' \<and> word_boundary s (i + length w + k + 2))
           [0..<length s + 1])
       [''abort'', ''code'']) [0..<length s + 1]"

definition isDuplicateEnclaveRegistrationError :: "js_error \<Rightarrow> bool" where
  "isDuplicateEnclaveRegistrationError message \<longleftrightarrow>
     has_word message ''metadata_verifier''
     \<and> (has_word message ''register_enclave_instance'' \<or> has_word message ''register_enclave_instance_internal''
        \<or> has_word message ''register_enclave_instance_for_config'')
     \<and> has_code_16 (map to_lower message)"

section \<open>The registry\<close>

definition readSafeInteger :: "js_value \<Rightarrow> int option" where
  "readSafeInteger v =
     (case v of
        JNum q \<Rightarrow> if isSafeInteger q then Some \<lfloor>q\<rfloor> else None
      | JStr s \<Rightarrow>
          if s \<noteq> [] \<and> list_all is_digit s
          then (let parsed = int (read_nat s) in if parsed \<le> MAX_SAFE_INTEGER then Some parsed else None)
          else None
      | _ \<Rightarrow> None)"

definition readHexBytesLike :: "(string \<Rightarrow> bytes) \<Rightarrow> js_value \<Rightarrow> string option" where
  "readHexBytesLike b64 v =
     (case v of
        JStr s \<Rightarrow>
          (let trimmed = trim s in
           if starts_with trimmed ''0x'' \<and> drop 2 trimmed \<noteq> [] \<and> list_all is_hex (drop 2 trimmed) \<and> length trimmed mod 2 = 0
           then Some (normalizeHex trimmed)
           else let decoded = b64 trimmed in
             if length decoded > 0 then Some (normalizeHex (bytesToPrefixedHex decoded)) else None)
      | JArr xs \<Rightarrow>
          if list_all is_byte_number xs
          then Some (normalizeHex (bytesToPrefixedHex (map (\<lambda>x. word_of_int (js_int x)) xs))) else None
      | _ \<Rightarrow> None)"

definition has_key :: "js_value \<Rightarrow> string \<Rightarrow> bool" where
  "has_key v k = (case v of JObj fs \<Rightarrow> map_of fs k \<noteq> None | _ \<Rightarrow> False)"

definition readVecMapEntries :: "js_value \<Rightarrow> (js_value \<times> js_value) list" where
  "readVecMapEntries v =
     (if \<not> isRecord v then []
      else case field_of v ''contents'' of
        JArr entries \<Rightarrow> map (\<lambda>e. (field_of e ''key'', field_of e ''value''))
          (filter (\<lambda>e. isRecord e \<and> has_key e ''key'' \<and> has_key e ''value'') entries)
      | _ \<Rightarrow> [])"

definition readSuiObjectFields :: "js_value \<Rightarrow> js_error + js_value" where
  "readSuiObjectFields response =
     (let data = (if isRecord response then field_of response ''data'' else JUndef);
          content = (if isRecord data then field_of data ''content'' else JUndef);
          fields = (if isRecord content then field_of content ''fields'' else JUndef) in
      if \<not> isRecord fields then Inl ''VerifierRegistry object readback was malformed'' else Inr fields)"

record registry_query =
  rq_publicKey :: string
  rq_expectedFamily :: int
  rq_expectedVersion :: int
  rq_configKey :: int
  rq_nowMs :: int

definition readEnclaveRegistrationMetadataFromRegistry ::
    "(string \<Rightarrow> bytes) \<Rightarrow> js_value \<Rightarrow> registry_query \<Rightarrow> js_error + enclave_metadata" where
  "readEnclaveRegistrationMetadataFromRegistry b64 response q =
     res_bind (readSuiObjectFields response) (\<lambda>fields.
     case find (\<lambda>e. readSafeInteger (fst e) = Some (rq_configKey q)) (readVecMapEntries (field_of fields ''configs'')) of
       None \<Rightarrow> Inl ''VerifierRegistry config entry for duplicate enclave was not found''
     | Some (_, config) \<Rightarrow>
       if \<not> isRecord config then Inl ''VerifierRegistry config entry for duplicate enclave was not found''
       else let configVersion = readSafeInteger (field_of config ''config_version'') in
       if readSafeInteger (field_of config ''verifier_family'') \<noteq> Some (rq_expectedFamily q)
          \<or> readSafeInteger (field_of config ''verifier_version'') \<noteq> Some (rq_expectedVersion q)
          \<or> configVersion = None \<or> field_of config ''enabled'' \<noteq> JBool True
       then Inl ''VerifierRegistry config entry did not match duplicate enclave expectations''
       else let expectedPublicKey = normalizeHex (rq_publicKey q) in
       (case find (\<lambda>e. readHexBytesLike b64 (fst e) = Some expectedPublicKey) (readVecMapEntries (field_of fields ''instances'')) of
          None \<Rightarrow> Inl ''VerifierRegistry duplicate enclave instance was not found''
        | Some (_, inst) \<Rightarrow>
          if \<not> isRecord inst then Inl ''VerifierRegistry duplicate enclave instance was not found''
          else let instancePublicKey = readHexBytesLike b64 (field_of inst ''public_key'');
                   expiresAtMs = readSafeInteger (field_of inst ''expires_at_ms'') in
          if instancePublicKey \<noteq> Some expectedPublicKey
             \<or> readSafeInteger (field_of inst ''verifier_family'') \<noteq> Some (rq_expectedFamily q)
             \<or> readSafeInteger (field_of inst ''verifier_version'') \<noteq> Some (rq_expectedVersion q)
             \<or> readSafeInteger (field_of inst ''config_version'') \<noteq> configVersion
             \<or> field_of inst ''enabled'' \<noteq> JBool True
             \<or> none_or (\<lambda>t. t \<le> rq_nowMs q) expiresAtMs
          then Inl ''VerifierRegistry duplicate enclave instance did not match expectations''
          else Inr \<lparr>em_verifier_config_key = rq_configKey q, em_verifier_config_version = the configVersion,
                 em_enclave_instance_public_key = ''0x'' @ the instancePublicKey\<rparr>))"

section \<open>The adapter\<close>

record 'w registration_client =
  rg_signAndExecute :: "sui_transaction \<Rightarrow> string \<Rightarrow> ('w, js_value) io"
  rg_getObject :: "(string \<Rightarrow> ('w, js_value) io) option"

record 'w registration_config =
  gc_target :: string
  gc_verifierRegistry :: string
  gc_network :: "string option"
  gc_grpcUrl :: "string option"
  gc_allowSubmit :: bool
  gc_configurationError :: "string option"
  gc_signer :: "string option"
  gc_client :: "'w registration_client option"
  gc_transaction :: "sui_transaction option"
  gc_loadSigner :: "('w, string) io option"
  gc_instanceTtlMs :: js_value
  gc_configKey :: "int option"
  gc_expectedFamily :: "int option"

text \<open>
  What the adapter calls: the URL parser, the client of a network, the address of a signer, the base-64
  decoder and the clock.
\<close>

record 'w registration_env =
  ge_parse_url :: url_parser
  ge_client :: "string \<Rightarrow> string \<Rightarrow> 'w registration_client"
  ge_address :: "string \<Rightarrow> string"
  ge_b64 :: "string \<Rightarrow> bytes"
  ge_now :: "'w \<Rightarrow> int \<times> 'w"

definition readDuplicateEnclaveRegistrationMetadata ::
    "(string \<Rightarrow> bytes) \<Rightarrow> 'w registration_client \<Rightarrow> string \<Rightarrow> registry_query \<Rightarrow> ('w, enclave_metadata) io" where
  "readDuplicateEnclaveRegistrationMetadata b64 client verifierRegistry q =
     (case rg_getObject client of
        None \<Rightarrow> io_throw ''duplicate enclave registration requires VerifierRegistry object readback''
      | Some getObject \<Rightarrow> io_bind (getObject verifierRegistry) (\<lambda>response.
          io_lift (readEnclaveRegistrationMetadataFromRegistry b64 response q)))"

text \<open>The part of \<open>register\<close> after the checks, with the transaction and the time it was built at.\<close>

definition registry_query_of :: "'w registration_config \<Rightarrow> string \<Rightarrow> int \<Rightarrow> registry_query" where
  "registry_query_of config publicKey nowMs =
     \<lparr>rq_publicKey = publicKey, rq_expectedFamily = coalesce (gc_expectedFamily config) 3, rq_expectedVersion = 1,
      rq_configKey = coalesce (gc_configKey config) EARTHQUAKE_VERIFIER_CONFIG_KEY, rq_nowMs = nowMs\<rparr>"

definition submit_registration ::
    "'w registration_env \<Rightarrow> 'w registration_config \<Rightarrow> 'w registration_client \<Rightarrow> sui_transaction \<Rightarrow> string \<Rightarrow> string \<Rightarrow> int
     \<Rightarrow> ('w, enclave_metadata) io" where
  "submit_registration env config client tx signer publicKey nowMs =
     (let q = registry_query_of config publicKey nowMs in
      io_bind (io_catch
        (io_bind (rg_signAndExecute client tx signer) (\<lambda>response.
         io_bind (io_lift (readSuccessfulEnclaveRegistrationEvents response)) (\<lambda>events. io_return (Inl events))))
        (\<lambda>e. if \<not> isDuplicateEnclaveRegistrationError e then io_throw e
             else io_bind (readDuplicateEnclaveRegistrationMetadata (ge_b64 env) client (gc_verifierRegistry config) q)
               (\<lambda>metadata. io_return (Inr metadata)))) (\<lambda>outcome.
      case outcome of
        Inr metadata \<Rightarrow> io_return metadata
      | Inl events \<Rightarrow>
        io_bind (io_lift (readEnclaveRegistrationMetadata events (rq_expectedFamily q) (rq_expectedVersion q) (rq_configKey q)))
          (\<lambda>metadata.
          if normalizeHex (em_enclave_instance_public_key metadata) \<noteq> normalizeHex publicKey
          then io_throw ''registered enclave public key does not match attestation''
          else io_return metadata)))"

definition registration_transaction :: "'w registration_config \<Rightarrow> string \<Rightarrow> int \<Rightarrow> string \<Rightarrow> sui_transaction" where
  "registration_transaction config attestationDocumentHex expiresAtMs senderAddress =
     coalesce (gc_transaction config)
       (createSuiEnclaveRegistrationTransaction
         (resolveEnclaveRegistrationTargetForConfig (gc_target config) (gc_configKey config))
         (gc_verifierRegistry config) (parseHexByteVector attestationDocumentHex) expiresAtMs senderAddress
         (gc_configKey config))"

definition read_clock :: "('w \<Rightarrow> int \<times> 'w) \<Rightarrow> ('w, int) io" where
  "read_clock now = (\<lambda>w. case now w of (t, w1) \<Rightarrow> (Inr t, w1))"

definition io_ensure :: "bool \<Rightarrow> js_error \<Rightarrow> ('w, 'a) io \<Rightarrow> ('w, 'a) io" where
  "io_ensure b message m = (if b then m else io_throw message)"

definition assertValidUsgsSourceEventId :: "string \<Rightarrow> js_error + unit" where
  "assertValidUsgsSourceEventId sourceEventId =
     ensure (isValidUsgsSourceEventId sourceEventId) ''invalid source_event_id''"

definition register ::
    "'w registration_env \<Rightarrow> 'w registration_config \<Rightarrow> string \<Rightarrow> string \<Rightarrow> string \<Rightarrow> ('w, enclave_metadata) io" where
  "register env config sourceEventId attestationDocumentHex publicKey =
     io_bind (io_lift (assertValidUsgsSourceEventId sourceEventId)) (\<lambda>_.
     case gc_configurationError config of Some message \<Rightarrow> io_throw message | None \<Rightarrow>
     io_ensure (gc_allowSubmit config) ''ENCLAVE_REGISTRATION_ALLOW_SUBMIT or RELAYER_ALLOW_SUBMIT must be true'' (
     case gc_network config of None \<Rightarrow> io_throw ''RELAYER_NETWORK is required for enclave registration'' | Some network \<Rightarrow>
     io_ensure (isNonEmptyText (gc_grpcUrl config)) ''RELAYER_GRPC_URL is required for enclave registration'' (
     let grpcUrl = the (gc_grpcUrl config) in
     io_bind (io_lift (validateRegistrationGrpcUrl (ge_parse_url env) network grpcUrl ''RELAYER_GRPC_URL'')) (\<lambda>_.
     io_bind (case gc_signer config of
        Some s \<Rightarrow> io_return (Some s)
      | None \<Rightarrow> (case gc_loadSigner config of None \<Rightarrow> io_return None
          | Some load \<Rightarrow> io_bind load (\<lambda>s. io_return (Some s)))) (\<lambda>loaded.
     case loaded of None \<Rightarrow> io_throw ''RELAYER_SIGNER_SECRET_ARN is required for enclave registration'' | Some signer \<Rightarrow>
     let senderAddress = ge_address env signer in
     io_ensure (length senderAddress > 0) ''enclave registration signer did not provide a sender address'' (
     io_ensure (isRunnerHexBytes (JStr attestationDocumentHex) None) ''attestation_document_hex must be hex encoded'' (
     io_ensure (isRunnerHexBytes (JStr publicKey) (Some 32)) ''attestation public_key must be 32 bytes'' (
     io_ensure (isSafeIntegerInRange (gc_instanceTtlMs config) 1 MAX_SAFE_INTEGER)
       ''ENCLAVE_INSTANCE_TTL_MS must be a positive safe integer'' (
     io_bind (read_clock (ge_now env)) (\<lambda>nowMs.
     let expiresAtMs = nowMs + js_int (gc_instanceTtlMs config) in
     io_ensure (\<bar>expiresAtMs\<bar> \<le> MAX_SAFE_INTEGER) ''enclave instance expiry exceeded safe integer range'' (
     submit_registration env config (coalesce (gc_client config) (ge_client env network grpcUrl))
       (registration_transaction config attestationDocumentHex expiresAtMs senderAddress) signer publicKey nowMs)))))))))))"

section \<open>What a registration means\<close>

lemma io_ensure_Inr: "io_ensure b m f w = (Inr x, w') \<longleftrightarrow> b \<and> f w = (Inr x, w')"
  by (auto simp: io_ensure_def io_throw_def)

lemma io_catch_Inr: "io_catch m h w = (Inr x, w') \<longleftrightarrow>
    m w = (Inr x, w') \<or> (\<exists>e w1. m w = (Inl e, w1) \<and> h e w1 = (Inr x, w'))"
  by (auto simp: io_catch_def split: prod.splits sum.splits)

lemma io_throw_Inr: "io_throw e w = (Inr x, w') \<longleftrightarrow> False"
  by (simp add: io_throw_def)

lemma io_return_Inr: "io_return v w = (Inr x, w') \<longleftrightarrow> x = v \<and> w' = w"
  by (auto simp: io_return_def)

lemma read_clock_Inr: "read_clock now w = (Inr t, w') \<longleftrightarrow> now w = (t, w')"
  by (auto simp: read_clock_def split: prod.splits)

lemmas io_results = read_clock_Inr io_inversions io_ensure_Inr io_catch_Inr io_throw_Inr io_return_Inr

lemma normalizeHex_prefixed: "normalizeHex (''0x'' @ normalizeHex s) = normalizeHex s"
proof -
  have "to_lower (to_lower c) = to_lower c" for c
    by (auto simp: to_lower_def is_upper_az_def)
  then show ?thesis by (simp add: normalizeHex_def starts_with_def)
qed

text \<open>The registry shows the key as an enabled instance that has not expired, under an enabled configuration.\<close>

definition live_instance :: "(string \<Rightarrow> bytes) \<Rightarrow> js_value \<Rightarrow> registry_query \<Rightarrow> enclave_metadata \<Rightarrow> bool" where
  "live_instance b64 response q md \<longleftrightarrow>
     (\<exists>fields k config k' inst t. readSuiObjectFields response = Inr fields
        \<and> (k, config) \<in> set (readVecMapEntries (field_of fields ''configs'')) \<and> readSafeInteger k = Some (rq_configKey q)
        \<and> field_of config ''enabled'' = JBool True
        \<and> readSafeInteger (field_of config ''config_version'') = Some (em_verifier_config_version md)
        \<and> (k', inst) \<in> set (readVecMapEntries (field_of fields ''instances''))
        \<and> field_of inst ''enabled'' = JBool True
        \<and> readSafeInteger (field_of inst ''config_version'') = Some (em_verifier_config_version md)
        \<and> readSafeInteger (field_of inst ''expires_at_ms'') = Some t \<and> rq_nowMs q < t
        \<and> readHexBytesLike b64 (field_of inst ''public_key'') = Some (normalizeHex (rq_publicKey q)))"

lemma isNonEmptyText_iff: "isNonEmptyText v \<longleftrightarrow> (\<exists>s. v = Some s \<and> s \<noteq> [])"
  by (cases v) (auto simp: isNonEmptyText_def)

lemma find_mem: "find P xs = Some x \<Longrightarrow> x \<in> set xs \<and> P x"
  by (metis find_Some_iff nth_mem)

lemma registry_metadata:
  assumes "readEnclaveRegistrationMetadataFromRegistry b64 response q = Inr md"
  shows "live_instance b64 response q md \<and> em_verifier_config_key md = rq_configKey q
    \<and> normalizeHex (em_enclave_instance_public_key md) = normalizeHex (rq_publicKey q)"
proof -
  obtain fields where f: "readSuiObjectFields response = Inr fields"
    using assms by (auto simp: readEnclaveRegistrationMetadataFromRegistry_def res_bind_Inr_iff)
  note run = assms [unfolded readEnclaveRegistrationMetadataFromRegistry_def f res_bind_simps]
  obtain k config where c: "find (\<lambda>e. readSafeInteger (fst e) = Some (rq_configKey q)) (readVecMapEntries (field_of fields ''configs''))
      = Some (k, config)" using run by (auto split: option.splits)
  obtain version where v: "readSafeInteger (field_of config ''config_version'') = Some version"
    using run c by (auto simp: Let_def split: if_splits)
  obtain k' inst where i: "find (\<lambda>e. readHexBytesLike b64 (fst e) = Some (normalizeHex (rq_publicKey q)))
      (readVecMapEntries (field_of fields ''instances'')) = Some (k', inst)"
    using run c v by (auto simp: Let_def split: if_splits option.splits)
  note run' = run [unfolded c i option.case prod.case Let_def v]
  obtain t where t: "readSafeInteger (field_of inst ''expires_at_ms'') = Some t" "rq_nowMs q < t"
    using run' by (cases "readSafeInteger (field_of inst ''expires_at_ms'')") (auto split: if_splits)
  have pk: "readHexBytesLike b64 (field_of inst ''public_key'') = Some (normalizeHex (rq_publicKey q))"
    using run' by (auto split: if_splits)
  then have md: "md = \<lparr>em_verifier_config_key = rq_configKey q, em_verifier_config_version = version,
      em_enclave_instance_public_key = ''0x'' @ normalizeHex (rq_publicKey q)\<rparr>"
    using run' by (auto split: if_splits)
  have en: "field_of config ''enabled'' = JBool True" "field_of inst ''enabled'' = JBool True"
    "readSafeInteger (field_of inst ''config_version'') = Some version"
    using run' by (auto split: if_splits)
  have "(k, config) \<in> set (readVecMapEntries (field_of fields ''configs''))" "readSafeInteger k = Some (rq_configKey q)"
    "(k', inst) \<in> set (readVecMapEntries (field_of fields ''instances''))"
    using find_mem [OF c] find_mem [OF i] by auto
  with f v t pk en have "live_instance b64 response q md" unfolding live_instance_def md by fastforce
  moreover have "normalizeHex (em_enclave_instance_public_key md) = normalizeHex (rq_publicKey q)"
    using normalizeHex_prefixed [of "rq_publicKey q"] by (simp add: md)
  ultimately show ?thesis by (simp add: md)
qed

text \<open>The transaction \<open>tx\<close> was executed, and either its events say that the key was registered, or it failed
  because the key is registered already and the registry shows it.\<close>

definition registered_by ::
    "(string \<Rightarrow> bytes) \<Rightarrow> 'w registration_client \<Rightarrow> string \<Rightarrow> sui_transaction \<Rightarrow> string \<Rightarrow> registry_query \<Rightarrow> 'w \<Rightarrow> enclave_metadata \<Rightarrow> 'w \<Rightarrow> bool" where
  "registered_by b64 client registry tx signer q w md w' \<longleftrightarrow>
     (\<exists>response events. rg_signAndExecute client tx signer w = (Inr response, w')
        \<and> readSuccessfulEnclaveRegistrationEvents response = Inr events
        \<and> readEnclaveRegistrationMetadata events (rq_expectedFamily q) (rq_expectedVersion q) (rq_configKey q) = Inr md)
     \<or> (\<exists>getObject w1 response. snd (rg_signAndExecute client tx signer w) = w1 \<and> rg_getObject client = Some getObject
        \<and> getObject registry w1 = (Inr response, w') \<and> live_instance b64 response q md)"

lemma submit_registration_Inr:
  assumes "submit_registration env config client tx signer pk nowMs w = (Inr md, w')"
  shows "normalizeHex (em_enclave_instance_public_key md) = normalizeHex pk
    \<and> em_verifier_config_key md = coalesce (gc_configKey config) EARTHQUAKE_VERIFIER_CONFIG_KEY
    \<and> registered_by (ge_b64 env) client (gc_verifierRegistry config) tx signer (registry_query_of config pk nowMs) w md w'"
proof -
  let ?q = "registry_query_of config pk nowMs"
  have key: "em_verifier_config_key md = k" if "readEnclaveRegistrationMetadata es f v k = Inr md" for es f v k
    using that by (auto simp: readEnclaveRegistrationMetadata_def Let_def split: option.splits js_value.splits if_splits)
  define call where "call = io_bind (rg_signAndExecute client tx signer) (\<lambda>response.
     io_bind (io_lift (readSuccessfulEnclaveRegistrationEvents response)) (\<lambda>events.
       (io_return (Inl events) :: ('a, js_value list + enclave_metadata) io)))"
  define read where "read = readDuplicateEnclaveRegistrationMetadata (ge_b64 env) client (gc_verifierRegistry config) ?q"
  from assms obtain outcome w1 where
    caught: "io_catch call (\<lambda>e. if \<not> isDuplicateEnclaveRegistrationError e then io_throw e
        else io_bind read (\<lambda>metadata. io_return (Inr metadata))) w = (Inr outcome, w1)"
    and out: "(case outcome of Inr metadata \<Rightarrow> io_return metadata | Inl events \<Rightarrow>
        io_bind (io_lift (readEnclaveRegistrationMetadata events (rq_expectedFamily ?q) (rq_expectedVersion ?q) (rq_configKey ?q)))
          (\<lambda>metadata. if normalizeHex (em_enclave_instance_public_key metadata) \<noteq> normalizeHex pk
             then io_throw ''registered enclave public key does not match attestation'' else io_return metadata)) w1 = (Inr md, w')"
    unfolding submit_registration_def Let_def io_bind_Inr_iff [of _ _ w md] call_def read_def by blast
  have thrown: "snd (rg_signAndExecute client tx signer w) = w0" if "call w = (Inl e, w0)" for e w0
    using that by (auto simp: call_def io_bind_def io_lift_def io_return_def split: prod.splits sum.splits)
  have "(\<exists>response events. rg_signAndExecute client tx signer w = (Inr response, w1)
       \<and> readSuccessfulEnclaveRegistrationEvents response = Inr events \<and> outcome = Inl events)
     \<or> (\<exists>w0 m. snd (rg_signAndExecute client tx signer w) = w0 \<and> outcome = Inr m \<and> read w0 = (Inr m, w1))"
    using caught [unfolded io_catch_Inr]
  proof (elim disjE exE conjE)
    assume "call w = (Inr outcome, w1)"
    then show ?thesis by (auto simp: call_def io_results)
  next
    fix e w0 assume "call w = (Inl e, w0)"
      "(if \<not> isDuplicateEnclaveRegistrationError e then io_throw e
        else io_bind read (\<lambda>metadata. io_return (Inr metadata))) w0 = (Inr outcome, w1)"
    with thrown show ?thesis by (auto simp: io_results split: if_splits)
  qed
  then consider (event) response events where "rg_signAndExecute client tx signer w = (Inr response, w1)"
      "readSuccessfulEnclaveRegistrationEvents response = Inr events" "outcome = Inl events"
    | (duplicate) w0 m where "snd (rg_signAndExecute client tx signer w) = w0" "outcome = Inr m"
      "read w0 = (Inr m, w1)"
    by blast
  then show ?thesis
  proof cases
    case event
    with out show ?thesis
      by (auto simp: io_results registered_by_def registry_query_of_def split: if_splits dest: key)
  next
    case duplicate
    with out obtain getObject response where
      "rg_getObject client = Some getObject" "getObject (gc_verifierRegistry config) w0 = (Inr response, w')"
      and md: "readEnclaveRegistrationMetadataFromRegistry (ge_b64 env) response ?q = Inr md"
      by (auto simp: read_def readDuplicateEnclaveRegistrationMetadata_def io_results split: option.splits)
    with duplicate(1) registry_metadata [OF md] show ?thesis
      unfolding registered_by_def by (auto simp: registry_query_of_def)
  qed
qed

section \<open>Properties\<close>

text \<open>C16. Metadata that \<open>register\<close> returns is about the attested key.  The event id was valid and submission
  allowed, the network's URL was the network's own, and the adapter executed one transaction, which takes the
  attestation document, the registry and an expiry of now plus the lifetime; the metadata came from that
  transaction's event, or, when the key was registered before, from a registry that shows it enabled and not
  expired.  Either way the key is the attested one and the configuration the one asked for.\<close>

theorem registered_key_attested:
  assumes "register env config sid doc pk w = (Inr md, w')"
  shows "normalizeHex (em_enclave_instance_public_key md) = normalizeHex pk
    \<and> em_verifier_config_key md = coalesce (gc_configKey config) EARTHQUAKE_VERIFIER_CONFIG_KEY
    \<and> isValidUsgsSourceEventId sid \<and> gc_allowSubmit config
    \<and> (\<exists>network grpcUrl signer w1 nowMs w2. gc_network config = Some network \<and> gc_grpcUrl config = Some grpcUrl
        \<and> validateRegistrationGrpcUrl (ge_parse_url env) network grpcUrl ''RELAYER_GRPC_URL'' = Inr ()
        \<and> ge_now env w1 = (nowMs, w2) \<and> 0 < js_int (gc_instanceTtlMs config)
        \<and> registered_by (ge_b64 env) (coalesce (gc_client config) (ge_client env network grpcUrl))
            (gc_verifierRegistry config)
            (registration_transaction config doc (nowMs + js_int (gc_instanceTtlMs config)) (ge_address env signer))
            signer (registry_query_of config pk nowMs) w2 md w')"
proof -
  from assms obtain network grpcUrl where
    cfg: "isValidUsgsSourceEventId sid" "gc_configurationError config = None" "gc_allowSubmit config"
      "gc_network config = Some network" "gc_grpcUrl config = Some grpcUrl"
      "validateRegistrationGrpcUrl (ge_parse_url env) network grpcUrl ''RELAYER_GRPC_URL'' = Inr ()"
    unfolding register_def assertValidUsgsSourceEventId_def
    by (auto simp: io_results ensure_Inr_iff isNonEmptyText_iff Let_def split: option.splits)
  note run = assms [unfolded register_def assertValidUsgsSourceEventId_def cfg option.case Let_def
      io_results option.sel]
  from run obtain signer w1 nowMs w2 where
    ttl: "isSafeIntegerInRange (gc_instanceTtlMs config) 1 MAX_SAFE_INTEGER" and now: "ge_now env w1 = (nowMs, w2)"
    and submit: "submit_registration env config (coalesce (gc_client config) (ge_client env network grpcUrl))
      (registration_transaction config doc (nowMs + js_int (gc_instanceTtlMs config)) (ge_address env signer)) signer pk nowMs w2
      = (Inr md, w')"
    by (auto simp: io_results split: option.splits prod.splits)
  have "0 < js_int (gc_instanceTtlMs config)"
    using ttl by (auto simp: isSafeIntegerInRange_def isSafeInteger_def split: js_value.splits)
  with cfg now submit_registration_Inr [OF submit] show ?thesis by blast
qed

definition demo_key :: string where "demo_key = bytesToPrefixedHex (replicate 32 2)"

definition demo_registered :: js_value where
  "demo_registered = JObj [(''$kind'', JStr ''Transaction''), (''Transaction'', JObj
     [(''status'', JObj [(''success'', JBool True)]), (''effects'', JObj []),
      (''events'', JArr [JObj [(''eventType'', JStr ''0x1::metadata_verifier::EnclaveInstanceRegistered''),
        (''json'', JObj [(''verifier_family'', JNum 3), (''verifier_version'', JStr ''1''), (''config_version'', JNum 4),
           (''public_key'', JStr demo_key)])]])])]"

definition demo_registration_config :: "nat registration_config" where
  "demo_registration_config =
     \<lparr>gc_target = ''0x1::metadata_verifier::register_enclave_instance'', gc_verifierRegistry = ''0x2'',
      gc_network = Some ''testnet'', gc_grpcUrl = Some ''https://fullnode.testnet.sui.io'', gc_allowSubmit = True,
      gc_configurationError = None, gc_signer = Some ''key'', gc_client = None, gc_transaction = None,
      gc_loadSigner = None, gc_instanceTtlMs = JNum 1000, gc_configKey = None, gc_expectedFamily = None\<rparr>"

definition demo_registration_env :: "nat registration_env" where
  "demo_registration_env =
     \<lparr>ge_parse_url = (\<lambda>_. Some \<lparr>url_protocol = ''https:'', url_hostname = ''fullnode.testnet.sui.io'', url_port = [],
        url_username = [], url_password = [], url_pathname = ''/'', url_search = [], url_params = []\<rparr>),
      ge_client = (\<lambda>_ _. \<lparr>rg_signAndExecute = (\<lambda>_ _ w. (Inr demo_registered, w + 1)), rg_getObject = None\<rparr>),
      ge_address = (\<lambda>_. ''0xabc''), ge_b64 = (\<lambda>_. []), ge_now = (\<lambda>w. (5, w))\<rparr>"

lemma demo_key_hex: "isRunnerHexBytes (JStr demo_key) (Some 32)" "isRunnerHexBytes (JStr demo_key) None"
  by code_simp+

lemma demo_registered_events:
  "readSuccessfulEnclaveRegistrationEvents demo_registered
     = Inr [JObj [(''eventType'', JStr ''0x1::metadata_verifier::EnclaveInstanceRegistered''),
        (''json'', JObj [(''verifier_family'', JNum 3), (''verifier_version'', JStr ''1''), (''config_version'', JNum 4),
           (''public_key'', JStr demo_key)])]]"
  by (simp add: readSuccessfulEnclaveRegistrationEvents_def demo_registered_def readEnclaveExecutionStatus_def
      field_of_def get_field_def isRecord_def js_array_def)

lemma demo_registration:
  "\<exists>md. register demo_registration_env demo_registration_config ''us7000abcd'' ''0xab'' demo_key 0 = (Inr md, 1)"
proof -
  have valid: "isValidUsgsSourceEventId ''us7000abcd''" by code_simp
  have doc: "isRunnerHexBytes (JStr ''0xab'') None" by code_simp
  have event: "is_event_of ''::metadata_verifier::EnclaveInstanceRegistered''
      (JObj [(''eventType'', JStr ''0x1::metadata_verifier::EnclaveInstanceRegistered''), (''json'', v)])" for v
    by (simp add: is_event_of_def field_of_def get_field_def ends_with_def)
  show ?thesis
    by (simp add: register_def assertValidUsgsSourceEventId_def valid doc demo_key_hex demo_registration_config_def
        demo_registration_env_def io_bind_def io_lift_def io_return_def io_ensure_def isNonEmptyText_def
        validateRegistrationGrpcUrl_def isSafeIntegerInRange_def isSafeInteger_def MAX_SAFE_INTEGER_def
        submit_registration_def io_catch_def demo_registered_events registry_query_of_def
        readEnclaveRegistrationMetadata_def isEnclaveInstanceRegisteredEvent_def event readEventJson_def nullish_def
        readSafeIntegerField_def readSafeIntegerText_def readHexByteVectorField_def
        field_of_def get_field_def read_nat_def digit_val_def is_digit_def normalizeHex_prefixed [simplified] read_clock_def)
qed

theorem registered_key_attested_witness:
  "\<exists>md. register demo_registration_env demo_registration_config ''us7000abcd'' ''0xab'' demo_key 0 = (Inr md, 1)
     \<and> normalizeHex (em_enclave_instance_public_key md) = normalizeHex demo_key"
proof -
  obtain md where md: "register demo_registration_env demo_registration_config ''us7000abcd'' ''0xab'' demo_key 0 = (Inr md, 1)"
    using demo_registration by blast
  with registered_key_attested [OF md] show ?thesis by blast
qed

end
