(* ===== verification/Census.thy ===== *)
theory Census
  imports EnclaveRegistration "HOL-Library.AList"
begin

text \<open>
  The floor census of \<open>watcher/src/census.ts\<close>: how many active lineages had their home in an affected cell
  when the event occurred, per band and per cell, the Merkle root over the counted cells, and the bytes of the
  result that is signed.

  An insertion-ordered \<open>Map\<close> is an association list under \<open>AList.update\<close>, which replaces in place and
  appends; a \<open>bigint\<close> is an integer.  A band and a time are integers, so that \<open>Number.isSafeInteger\<close> is a bound.
\<close>

definition CENSUS_INTENT :: string where "CENSUS_INTENT = ''SONARI_FLOOR_CENSUS_V1''"
definition CENSUS_VERIFIER_FAMILY :: string where "CENSUS_VERIFIER_FAMILY = ''census''"
definition CENSUS_VERIFIER_VERSION :: int where "CENSUS_VERIFIER_VERSION = 1"
definition CENSUS_H3_RESOLUTION :: int where "CENSUS_H3_RESOLUTION = 7"
definition CENSUS_SHARD_COUNT :: int where "CENSUS_SHARD_COUNT = 4096"
definition BAND_COUNT :: nat where "BAND_COUNT = 3"

section \<open>Encodings\<close>

definition census_u32 :: "int \<Rightarrow> js_error + bytes" where
  "census_u32 v =
     (if v < 0 \<or> v > U32_MAX then Inl (''u32 out of range: '' @ show_int v) else Inr (le_bytes 4 v))"

definition census_u64 :: "int \<Rightarrow> js_error + bytes" where
  "census_u64 v =
     (if v < 0 \<or> v > U64_MAX then Inl (''u64 out of range: '' @ show_int v) else Inr (le_bytes 8 v))"

definition census_hexBytes32 :: "string \<Rightarrow> js_error + bytes" where
  "census_hexBytes32 v =
     (let normalized = normalizeHex v in
      if length normalized \<noteq> 64 \<or> \<not> list_all is_lower_hex normalized then Inl ''expected 32-byte hex string''
      else Inr (hex_pairs normalized))"

fun census_u64s :: "int list \<Rightarrow> js_error + bytes" where
  "census_u64s [] = Inr []"
| "census_u64s (v # vs) = res_bind (census_u64 v) (\<lambda>b. res_bind (census_u64s vs) (\<lambda>bs. Inr (b @ bs)))"

definition u64Vector :: "int list \<Rightarrow> js_error + bytes" where
  "u64Vector values = res_bind (census_u64s values) (\<lambda>bs. Inr (uleb128 (length values) @ bs))"

definition canonicalU64Decimal :: "string \<Rightarrow> js_error + string" where
  "canonicalU64Decimal v =
     (if \<not> is_canonical_decimal v then Inl (''u64 decimal is not canonical: '' @ v)
      else let parsed = read_nat v in
        if int parsed > U64_MAX then Inl (''u64 decimal is out of range: '' @ v) else Inr (show_nat parsed))"

record floor_census_fields =
  ff_eventUid :: string
  ff_eventRevision :: int
  ff_affectedCellsRoot :: string
  ff_membershipRegistryId :: string
  ff_cellCountIndexId :: string
  ff_censusCheckpoint :: int
  ff_registeredMembersByBand :: "int list"
  ff_countedCellsRoot :: string
  ff_issuedAtMs :: int

definition encodeFloorCensusResultBcs :: "floor_census_fields \<Rightarrow> js_error + bytes" where
  "encodeFloorCensusResultBcs inp =
     (if length (ff_registeredMembersByBand inp) \<noteq> BAND_COUNT
      then Inl ''registered_members_by_band must contain 3 values'' else
      res_bind (census_u64 CENSUS_VERIFIER_VERSION) (\<lambda>version.
      res_bind (census_hexBytes32 (ff_eventUid inp)) (\<lambda>eventUid.
      res_bind (census_u32 (ff_eventRevision inp)) (\<lambda>eventRevision.
      res_bind (census_hexBytes32 (ff_affectedCellsRoot inp)) (\<lambda>affectedCellsRoot.
      res_bind (census_hexBytes32 (ff_membershipRegistryId inp)) (\<lambda>membershipRegistryId.
      res_bind (census_hexBytes32 (ff_cellCountIndexId inp)) (\<lambda>cellCountIndexId.
      res_bind (census_u64 (ff_censusCheckpoint inp)) (\<lambda>censusCheckpoint.
      res_bind (census_u64 CENSUS_SHARD_COUNT) (\<lambda>shards.
      res_bind (u64Vector (ff_registeredMembersByBand inp)) (\<lambda>members.
      res_bind (census_hexBytes32 (ff_countedCellsRoot inp)) (\<lambda>countedCells.
      res_bind (census_u64 (ff_issuedAtMs inp)) (\<lambda>issuedAtMs.
        Inr (concat [utf8Vector CENSUS_INTENT, utf8Vector CENSUS_VERIFIER_FAMILY, version, eventUid, eventRevision,
          affectedCellsRoot, membershipRegistryId, cellCountIndexId, censusCheckpoint,
          [word_of_int CENSUS_H3_RESOLUTION], shards, members, countedCells, issuedAtMs])))))))))))))"

section \<open>The root over the counted cells\<close>

definition compareBigint :: "int \<Rightarrow> int \<Rightarrow> int" where
  "compareBigint left right = (if left < right then -1 else if left > right then 1 else 0)"

fun census_level :: "hash_fn \<Rightarrow> bytes list \<Rightarrow> bytes list" where
  "census_level sha (left # right # rest) = sha (concat [[1], left, right]) # census_level sha rest"
| "census_level sha [left] = [left]"
| "census_level sha [] = []"

lemma length_census_level: "length (census_level sha ls) = (length ls + 1) div 2"
  by (induction sha ls rule: census_level.induct) simp_all

text \<open>The \<open>while\<close> loop: the level is halved until one hash is left.\<close>

function census_root_loop :: "hash_fn \<Rightarrow> bytes list \<Rightarrow> bytes list" where
  "census_root_loop sha level = (if length level > 1 then census_root_loop sha (census_level sha level) else level)"
  by pat_completeness auto
termination by (relation "measure (\<lambda>(_, l). length l)") (auto simp: length_census_level)

declare census_root_loop.simps [simp del]

definition censusMerkleRoot :: "hash_fn \<Rightarrow> bytes list \<Rightarrow> bytes option" where
  "censusMerkleRoot sha leafHashes =
     (if leafHashes = [] then None
      else case census_root_loop sha leafHashes of [] \<Rightarrow> None | r # _ \<Rightarrow> Some r)"

record counted_cell =
  cc_h3 :: int
  cc_band :: int
  cc_count :: int

definition counted_leaf :: "counted_cell \<Rightarrow> js_error + bytes" where
  "counted_leaf cell =
     res_bind (census_u64 (cc_h3 cell)) (\<lambda>h3.
     res_bind (census_u64 (cc_h3 cell mod CENSUS_SHARD_COUNT)) (\<lambda>shard.
     res_bind (census_u64 (cc_count cell)) (\<lambda>count.
       Inr (concat [[0], h3, [word_of_int (cc_band cell)], shard, count]))))"

fun counted_leaves :: "counted_cell list \<Rightarrow> js_error + bytes list" where
  "counted_leaves [] = Inr []"
| "counted_leaves (c # cs) = res_bind (counted_leaf c) (\<lambda>l. res_bind (counted_leaves cs) (\<lambda>ls. Inr (l # ls)))"

definition countedCellsRoot :: "hash_fn \<Rightarrow> counted_cell list \<Rightarrow> js_error + string" where
  "countedCellsRoot sha cells =
     res_bind (counted_leaves (sort_by (\<lambda>l r. compareBigint (cc_h3 l) (cc_h3 r)) cells)) (\<lambda>leaves.
     case censusMerkleRoot sha (map sha leaves) of
       None \<Rightarrow> Inl ''counted_cells_root requires at least one affected cell''
     | Some r \<Rightarrow> Inr (bytesToPrefixedHex r))"

section \<open>Counting\<close>

record home_cell_event =
  he_lineage :: string
  he_homeCell :: string
  he_registeredAtMs :: int

record census_counts_input =
  ci_affectedCells :: affected_cells_input
  ci_homeCellEvents :: "home_cell_event list"
  ci_activeLineages :: "string set"
  ci_cutoffMs :: int
  ci_expectedAffectedCellsRoot :: string
  ci_eventUid :: string
  ci_eventRevision :: int

record census_snapshot =
  sn_counts :: "int list"
  sn_countedCellsRoot :: string

definition validateCensusBinding :: "census_counts_input \<Rightarrow> js_error + unit" where
  "validateCensusBinding inp =
     (if normalizeHex (event_uid (ci_affectedCells inp)) \<noteq> normalizeHex (ci_eventUid inp)
      then Inl ''affected_cells event_uid does not match census event_uid''
      else if event_revision (ci_affectedCells inp) \<noteq> ci_eventRevision inp
      then Inl ''affected_cells event_revision does not match census event_revision'' else Inr ())"

text \<open>The loop that fills \<open>cellsByH3\<close>.\<close>

fun cells_loop :: "affected_cell_entry list \<Rightarrow> (string \<times> (nat \<times> int)) list \<Rightarrow> js_error + (string \<times> (nat \<times> int)) list" where
  "cells_loop [] cellsByH3 = Inr cellsByH3"
| "cells_loop (cell # cells) cellsByH3 =
     (if \<bar>cell_band cell\<bar> > MAX_SAFE_INTEGER \<or> cell_band cell < 1 \<or> cell_band cell > int BAND_COUNT
      then Inl ''affected cell band must be in range 1..3''
      else res_bind (canonicalU64Decimal (h3_index cell)) (\<lambda>decimal.
        let h3 = read_nat decimal in
        cells_loop cells (AList.update (show_nat h3) (h3, cell_band cell) cellsByH3)))"

text \<open>The loop that keeps the latest registration of each lineage before the cutoff.\<close>

fun latest_loop :: "int \<Rightarrow> home_cell_event list \<Rightarrow> (string \<times> home_cell_event) list
    \<Rightarrow> js_error + (string \<times> home_cell_event) list" where
  "latest_loop cutoffMs [] latest = Inr latest"
| "latest_loop cutoffMs (event # events) latest =
     (if he_registeredAtMs event > MAX_SAFE_INTEGER \<or> he_registeredAtMs event < 0
      then Inl (''registered_at must be a non-negative safe integer: '' @ show_int (he_registeredAtMs event))
      else if he_registeredAtMs event \<ge> cutoffMs then latest_loop cutoffMs events latest
      else if none_or (\<lambda>previous. he_registeredAtMs previous \<le> he_registeredAtMs event) (map_of latest (he_lineage event))
      then latest_loop cutoffMs events (AList.update (he_lineage event) event latest)
      else latest_loop cutoffMs events latest)"

text \<open>The loop over these: the counts per band and per cell.\<close>

fun count_loop :: "string set \<Rightarrow> (string \<times> (nat \<times> int)) list \<Rightarrow> (string \<times> home_cell_event) list \<Rightarrow> int list
    \<Rightarrow> (string \<times> int) list \<Rightarrow> js_error + int list \<times> (string \<times> int) list" where
  "count_loop activeLineages cellsByH3 [] counts countsByH3 = Inr (counts, countsByH3)"
| "count_loop activeLineages cellsByH3 ((lineage, event) # latest) counts countsByH3 =
     (if lineage \<notin> activeLineages then count_loop activeLineages cellsByH3 latest counts countsByH3
      else res_bind (canonicalU64Decimal (he_homeCell event)) (\<lambda>h3.
        case map_of cellsByH3 h3 of
          None \<Rightarrow> count_loop activeLineages cellsByH3 latest counts countsByH3
        | Some (_, band) \<Rightarrow>
          let index = nat (band - 1) in
          if band < 1 \<or> index \<ge> length counts then Inl ''affected cell band must be in range 1..3''
          else count_loop activeLineages cellsByH3 latest (counts[index := counts ! index + 1])
            (AList.update h3 (coalesce (map_of countsByH3 h3) 0 + 1) countsByH3)))"

definition computeFloorCensusSnapshot :: "hash_fn \<Rightarrow> census_counts_input \<Rightarrow> js_error + census_snapshot" where
  "computeFloorCensusSnapshot sha inp =
     res_bind (validateCensusBinding inp) (\<lambda>_.
     res_bind (computeAffectedCellsRootHex sha (ci_affectedCells inp)) (\<lambda>actualRoot.
     if none_or (\<lambda>r. normalizeHex r \<noteq> normalizeHex (ci_expectedAffectedCellsRoot inp)) actualRoot
     then Inl ''affected_cells artifact leaves do not match signed Merkle root''
     else
     res_bind (cells_loop (affected_cells (ci_affectedCells inp)) []) (\<lambda>cellsByH3.
     res_bind (latest_loop (ci_cutoffMs inp) (ci_homeCellEvents inp) []) (\<lambda>latest.
     res_bind (count_loop (ci_activeLineages inp) cellsByH3 latest [0, 0, 0] (map (\<lambda>(h3, _). (h3, 0)) cellsByH3))
       (\<lambda>(counts, countsByH3).
     res_bind (countedCellsRoot sha (map (\<lambda>(_, h3, band). \<lparr>cc_h3 = int h3, cc_band = band,
         cc_count = coalesce (map_of countsByH3 (show_nat h3)) 0\<rparr>) cellsByH3)) (\<lambda>root.
       Inr \<lparr>sn_counts = counts, sn_countedCellsRoot = root\<rparr>))))))"

definition computeFloorCensusCounts :: "hash_fn \<Rightarrow> census_counts_input \<Rightarrow> js_error + int list" where
  "computeFloorCensusCounts sha inp = res_bind (computeFloorCensusSnapshot sha inp) (\<lambda>s. Inr (sn_counts s))"

section \<open>The latest registration\<close>

lemma update_new: "k \<notin> fst ` set al \<Longrightarrow> AList.update k v al = al @ [(k, v)]"
  by (induction al) auto

text \<open>One event, as it changes what is known of one lineage.\<close>

definition latest_step :: "int \<Rightarrow> string \<Rightarrow> home_cell_event \<Rightarrow> home_cell_event option \<Rightarrow> home_cell_event option" where
  "latest_step cutoff l e acc =
     (if he_lineage e = l \<and> he_registeredAtMs e < cutoff
         \<and> none_or (\<lambda>p. he_registeredAtMs p \<le> he_registeredAtMs e) acc then Some e else acc)"

lemma latest_loop_map:
  "latest_loop cutoff es m = Inr m' \<Longrightarrow> map_of m' l = fold (latest_step cutoff l) es (map_of m l)"
proof (induction cutoff es m rule: latest_loop.induct)
  case (2 cutoff e es m)
  then show ?case
    by (auto simp: latest_step_def update_conv' not_le split: if_splits)
qed simp

lemma latest_loop_distinct:
  "latest_loop cutoff es m = Inr m' \<Longrightarrow> distinct (map fst m) \<Longrightarrow> distinct (map fst m')"
  by (induction cutoff es m rule: latest_loop.induct) (auto split: if_splits simp: distinct_update)

text \<open>\<open>e\<close> is the latest registration of \<open>l\<close> before the cutoff; of two at one time the later in the list.\<close>

definition is_latest :: "int \<Rightarrow> home_cell_event list \<Rightarrow> string \<Rightarrow> home_cell_event \<Rightarrow> bool" where
  "is_latest cutoff es l e \<longleftrightarrow>
     (\<exists>i<length es. es ! i = e \<and> he_lineage e = l \<and> he_registeredAtMs e < cutoff
        \<and> (\<forall>j<length es. he_lineage (es ! j) = l \<and> he_registeredAtMs (es ! j) < cutoff \<longrightarrow>
             he_registeredAtMs (es ! j) < he_registeredAtMs e
             \<or> he_registeredAtMs (es ! j) = he_registeredAtMs e \<and> j \<le> i))"

lemma is_latest_unique: "is_latest cutoff es l e \<Longrightarrow> is_latest cutoff es l e' \<Longrightarrow> e = e'"
  unfolding is_latest_def by (metis le_antisym less_asym less_irrefl)

definition relevant :: "int \<Rightarrow> string \<Rightarrow> home_cell_event \<Rightarrow> bool" where
  "relevant cutoff l e \<longleftrightarrow> he_lineage e = l \<and> he_registeredAtMs e < cutoff"

lemma fold_latest_None: "fold (latest_step cutoff l) es None = None \<longleftrightarrow> (\<forall>e\<in>set es. \<not> relevant cutoff l e)"
  by (induction es rule: rev_induct) (auto simp: latest_step_def relevant_def)

lemma fold_latest_Some: "fold (latest_step cutoff l) es None = Some e \<Longrightarrow> is_latest cutoff es l e"
proof (induction es arbitrary: e rule: rev_induct)
  case (snoc x es)
  let ?acc = "fold (latest_step cutoff l) es None"
  from snoc.prems have step: "latest_step cutoff l x ?acc = Some e" by simp
  show ?case
  proof (cases "relevant cutoff l x \<and> none_or (\<lambda>p. he_registeredAtMs p \<le> he_registeredAtMs x) ?acc")
    case True
    with step have "e = x" by (simp add: latest_step_def relevant_def)
    have "he_registeredAtMs (es ! j) \<le> he_registeredAtMs x" if j: "j < length es" "relevant cutoff l (es ! j)" for j
    proof (cases ?acc)
      case None
      with fold_latest_None [of cutoff l es] j show ?thesis by (metis nth_mem)
    next
      case (Some p)
      with True snoc.IH [OF Some] j show ?thesis by (fastforce simp: is_latest_def relevant_def)
    qed
    with True \<open>e = x\<close> show ?thesis
      unfolding is_latest_def relevant_def
      by (intro exI [of _ "length es"]) (auto simp: nth_append less_Suc_eq order.order_iff_strict)
  next
    case False
    with step have acc: "?acc = Some e" by (auto simp: latest_step_def relevant_def split: if_splits)
    from snoc.IH [OF this] obtain i where i: "i < length es" "es ! i = e" "relevant cutoff l e"
      "\<forall>j<length es. relevant cutoff l (es ! j) \<longrightarrow> he_registeredAtMs (es ! j) < he_registeredAtMs e
         \<or> he_registeredAtMs (es ! j) = he_registeredAtMs e \<and> j \<le> i"
      by (auto simp: is_latest_def relevant_def)
    have "relevant cutoff l x \<longrightarrow> he_registeredAtMs x < he_registeredAtMs e"
      using False acc by auto
    with i show ?thesis
      unfolding is_latest_def relevant_def
      by (intro exI [of _ i]) (auto simp: nth_append less_Suc_eq)
  qed
qed simp

lemma fold_latest: "fold (latest_step cutoff l) es None = Some e \<longleftrightarrow> is_latest cutoff es l e"
proof
  assume latest: "is_latest cutoff es l e"
  then have "\<exists>x\<in>set es. relevant cutoff l x" by (auto simp: is_latest_def relevant_def)
  then obtain e' where "fold (latest_step cutoff l) es None = Some e'" using fold_latest_None by fastforce
  with fold_latest_Some [OF this] is_latest_unique [OF latest] show "fold (latest_step cutoff l) es None = Some e" by auto
qed (rule fold_latest_Some)

section \<open>What is counted\<close>

lemma cells_loop_eq:
  assumes "cells_loop cells acc = Inr m"
    and "distinct (map (read_nat \<circ> h3_index) cells)"
    and "\<forall>c\<in>set cells. show_nat (read_nat (h3_index c)) \<notin> fst ` set acc"
  shows "m = acc @ map (\<lambda>c. (show_nat (read_nat (h3_index c)), read_nat (h3_index c), cell_band c)) cells
    \<and> (\<forall>c\<in>set cells. 1 \<le> cell_band c \<and> cell_band c \<le> 3 \<and> int (read_nat (h3_index c)) \<le> U64_MAX)"
  using assms
proof (induction cells arbitrary: acc)
  case (Cons c cells)
  let ?h = "read_nat (h3_index c)"
  from Cons.prems(1) have c: "1 \<le> cell_band c \<and> cell_band c \<le> 3" "int ?h \<le> U64_MAX"
    and rest: "cells_loop cells (AList.update (show_nat ?h) (?h, cell_band c) acc) = Inr m"
    by (auto simp: canonicalU64Decimal_def BAND_COUNT_def Let_def read_show_nat split: if_splits)
  have new: "AList.update (show_nat ?h) (?h, cell_band c) acc = acc @ [(show_nat ?h, ?h, cell_band c)]"
    using Cons.prems(3) by (intro update_new) simp
  from Cons.prems(2,3) have "\<forall>x\<in>set cells. show_nat (read_nat (h3_index x)) \<notin> fst ` set (acc @ [(show_nat ?h, ?h, cell_band c)])"
    by (auto simp: image_iff)
  with Cons.IH [of "acc @ [(show_nat ?h, ?h, cell_band c)]"] rest Cons.prems(2) c show ?case by (simp add: new)
qed simp

text \<open>An accepted artifact has its cells in strictly increasing order.\<close>

lemma root_leaves_increasing:
  "root_leaves sha a m prev cells = Inr (Some ls) \<Longrightarrow>
     sorted_wrt (<) (map (read_nat \<circ> h3_index) cells) \<and> none_or (\<lambda>p. \<forall>c\<in>set cells. p < int (read_nat (h3_index c))) prev"
proof (induction cells arbitrary: prev ls)
  case (Cons c cells)
  have num: "h = int (read_nat t)" if "parseCanonicalU64Decimal t = Some h" for t h
    using that by (auto simp: parseCanonicalU64Decimal_def split: if_splits)
  obtain h where "parseCanonicalU64Decimal (h3_index c) = Some h"
    using Cons.prems by (cases "parseCanonicalU64Decimal (h3_index c)") auto
  with num have h: "parseCanonicalU64Decimal (h3_index c) = Some (int (read_nat (h3_index c)))" by simp
  have prev: "\<not> some_and (\<lambda>p. int (read_nat (h3_index c)) \<le> p) prev"
    using Cons.prems h by (auto split: if_splits)
  obtain ls' where rest: "root_leaves sha a m (Some (int (read_nat (h3_index c)))) cells = Inr (Some ls')"
    using Cons.prems h prev by (auto simp: Let_def res_bind_Inr_iff)
  from Cons.IH [OF rest] prev show ?case by (cases prev) auto
next
  case (Nil prev)
  show ?case by (cases prev) simp_all
qed

lemma root_increasing:
  "computeAffectedCellsRootHex sha a = Inr (Some r) \<Longrightarrow> distinct (map (read_nat \<circ> h3_index) (affected_cells a))"
  using root_leaves_increasing
  by (force simp: computeAffectedCellsRootHex_def res_bind_Inr_iff strict_sorted_iff split: option.splits if_splits)

text \<open>\<open>l\<close> is active and its latest home before the cutoff is cell \<open>h\<close>.\<close>

definition resides :: "census_counts_input \<Rightarrow> string \<Rightarrow> nat \<Rightarrow> bool" where
  "resides inp l h \<longleftrightarrow> l \<in> ci_activeLineages inp
     \<and> (\<exists>e. is_latest (ci_cutoffMs inp) (ci_homeCellEvents inp) l e \<and> canonicalU64Decimal (he_homeCell e) = Inr (show_nat h))"

text \<open>The entries of the loop that count for a cell, or for a band.\<close>

definition counts_for :: "string set \<Rightarrow> string \<Rightarrow> string \<times> home_cell_event \<Rightarrow> bool" where
  "counts_for active key x \<longleftrightarrow> fst x \<in> active \<and> canonicalU64Decimal (he_homeCell (snd x)) = Inr key"

definition counts_in_band :: "string set \<Rightarrow> (string \<times> (nat \<times> int)) list \<Rightarrow> nat \<Rightarrow> string \<times> home_cell_event \<Rightarrow> bool" where
  "counts_in_band active cells i x \<longleftrightarrow>
     (\<exists>key h. counts_for active key x \<and> map_of cells key = Some (h, int i + 1))"

lemma count_loop_bands:
  assumes "count_loop active cells m counts cnts = Inr (counts', cnts')"
  shows "length counts' = length counts
    \<and> (\<forall>i<length counts. counts' ! i = counts ! i + int (length (filter (counts_in_band active cells i) m)))"
  using assms
proof (induction active cells m counts cnts rule: count_loop.induct)
  case (2 active cells l e m counts cnts)
  show ?case
  proof (cases "l \<in> active")
    case False
    then have "\<not> counts_in_band active cells i (l, e)" for i by (simp add: counts_in_band_def counts_for_def)
    with False 2 show ?thesis by simp
  next
    case True
    with 2(4) obtain h3 where h3: "canonicalU64Decimal (he_homeCell e) = Inr h3"
      by (auto simp: res_bind_Inr_iff)
    have in_band: "counts_in_band active cells i (l, e) \<longleftrightarrow> (\<exists>h. map_of cells h3 = Some (h, int i + 1))" for i
      using True h3 by (auto simp: counts_in_band_def counts_for_def)
    show ?thesis
    proof (cases "map_of cells h3")
      case None
      with True h3 2 in_band show ?thesis by simp
    next
      case (Some hb)
      obtain h band where hb: "hb = (h, band)" by fastforce
      let ?i = "nat (band - 1)"
      from 2(4) True h3 Some hb have ok: "1 \<le> band" "?i < length counts"
        and rest: "count_loop active cells m (counts[?i := counts ! ?i + 1])
            (AList.update h3 (coalesce (map_of cnts h3) 0 + 1) cnts) = Inr (counts', cnts')"
        by (auto simp: Let_def not_le not_less split: if_splits)
      have "counts_in_band active cells i (l, e) \<longleftrightarrow> i = ?i" for i
        using in_band [of i] Some hb ok by auto
      moreover note "2.IH"(3) [OF _ h3 Some hb [symmetric] refl _ rest]
      ultimately show ?thesis using True ok hb
        by (auto simp: nth_list_update)
    qed
  qed
qed simp

lemma count_loop_cells:
  assumes "count_loop active cells m counts cnts = Inr (counts', cnts')" and "map_of cells key \<noteq> None"
  shows "coalesce (map_of cnts' key) 0 = coalesce (map_of cnts key) 0 + int (length (filter (counts_for active key) m))"
  using assms
proof (induction active cells m counts cnts rule: count_loop.induct)
  case (2 active cells l e m counts cnts)
  show ?case
  proof (cases "l \<in> active")
    case True
    with 2(4) obtain h3 where h3: "canonicalU64Decimal (he_homeCell e) = Inr h3"
      by (auto simp: res_bind_Inr_iff)
    have for_key: "counts_for active key (l, e) \<longleftrightarrow> h3 = key"
      using True h3 by (auto simp: counts_for_def)
    show ?thesis
    proof (cases "map_of cells h3")
      case None
      with True h3 2 for_key show ?thesis by auto
    next
      case (Some hb)
      obtain h band where hb: "hb = (h, band)" by fastforce
      let ?i = "nat (band - 1)"
      from 2(4) True h3 Some hb have ok: "1 \<le> band" "?i < length counts"
        and rest: "count_loop active cells m (counts[?i := counts ! ?i + 1])
            (AList.update h3 (coalesce (map_of cnts h3) 0 + 1) cnts) = Inr (counts', cnts')"
        by (auto simp: Let_def not_le not_less split: if_splits)
      note "2.IH"(3) [OF _ h3 Some hb [symmetric] refl _ rest 2(5)]
      then show ?thesis using True ok hb for_key by (auto simp: update_conv')
    qed
  qed (use 2 in \<open>auto simp: counts_for_def\<close>)
qed simp

lemma length_filter_card:
  "distinct (map fst m) \<Longrightarrow> length (filter P m) = card {l. \<exists>e. map_of m l = Some e \<and> P (l, e)}"
proof -
  assume d: "distinct (map fst m)"
  then have "{l. \<exists>e. map_of m l = Some e \<and> P (l, e)} = set (map fst (filter P m))"
    by (force simp: map_of_eq_Some_iff)
  moreover have "distinct (map fst (filter P m))" by (rule distinct_map_filter [OF d])
  ultimately show ?thesis by (metis distinct_card length_map)
qed

lemma map_of_cells:
  assumes "distinct (map (read_nat \<circ> h3_index) cells)"
  shows "map_of (map (\<lambda>c. (show_nat (read_nat (h3_index c)), read_nat (h3_index c), cell_band c)) cells) key = Some (h, b)
    \<longleftrightarrow> key = show_nat h \<and> (\<exists>c\<in>set cells. read_nat (h3_index c) = h \<and> cell_band c = b)"
proof -
  have "distinct (map fst (map (\<lambda>c. (show_nat (read_nat (h3_index c)), read_nat (h3_index c), cell_band c)) cells))"
    using assms by (auto simp: distinct_map inj_on_def)
  then show ?thesis by (auto simp: map_of_eq_Some_iff)
qed

lemma counted_as_specified:
  assumes "latest_loop (ci_cutoffMs inp) (ci_homeCellEvents inp) [] = Inr m"
  shows "length (filter P m)
    = card {l. \<exists>e. is_latest (ci_cutoffMs inp) (ci_homeCellEvents inp) l e \<and> P (l, e)}"
  using latest_loop_distinct [OF assms] latest_loop_map [OF assms] length_filter_card [of m P]
  by (simp add: fold_latest)

lemma snapshot_runs:
  assumes "computeFloorCensusSnapshot sha inp = Inr snap"
  obtains r m cnts where
    "computeAffectedCellsRootHex sha (ci_affectedCells inp) = Inr (Some r)"
    "normalizeHex r = normalizeHex (ci_expectedAffectedCellsRoot inp)"
    "distinct (map (read_nat \<circ> h3_index) (affected_cells (ci_affectedCells inp)))"
    "\<forall>c\<in>set (affected_cells (ci_affectedCells inp)). 1 \<le> cell_band c \<and> cell_band c \<le> 3"
    "latest_loop (ci_cutoffMs inp) (ci_homeCellEvents inp) [] = Inr m"
    "count_loop (ci_activeLineages inp)
       (map (\<lambda>c. (show_nat (read_nat (h3_index c)), read_nat (h3_index c), cell_band c)) (affected_cells (ci_affectedCells inp)))
       m [0, 0, 0] (map (\<lambda>c. (show_nat (read_nat (h3_index c)), 0)) (affected_cells (ci_affectedCells inp)))
       = Inr (sn_counts snap, cnts)"
    "countedCellsRoot sha (map (\<lambda>c. \<lparr>cc_h3 = int (read_nat (h3_index c)), cc_band = cell_band c,
       cc_count = coalesce (map_of cnts (show_nat (read_nat (h3_index c)))) 0\<rparr>) (affected_cells (ci_affectedCells inp)))
       = Inr (sn_countedCellsRoot snap)"
proof -
  let ?cells = "affected_cells (ci_affectedCells inp)"
  from assms obtain ro cm m counts cnts where
    ro: "computeAffectedCellsRootHex sha (ci_affectedCells inp) = Inr ro"
      "\<not> none_or (\<lambda>r. normalizeHex r \<noteq> normalizeHex (ci_expectedAffectedCellsRoot inp)) ro"
    and cm: "cells_loop ?cells [] = Inr cm"
    and m: "latest_loop (ci_cutoffMs inp) (ci_homeCellEvents inp) [] = Inr m"
    and counts: "count_loop (ci_activeLineages inp) cm m [0, 0, 0] (map (\<lambda>(h3, _). (h3, 0)) cm) = Inr (counts, cnts)"
    and root: "countedCellsRoot sha (map (\<lambda>(_, h3, band). \<lparr>cc_h3 = int h3, cc_band = band,
         cc_count = coalesce (map_of cnts (show_nat h3)) 0\<rparr>) cm) = Inr (sn_countedCellsRoot snap)"
    and snap: "counts = sn_counts snap"
    unfolding computeFloorCensusSnapshot_def by (auto simp: res_bind_Inr_iff split: if_splits)
  from ro obtain r where r: "computeAffectedCellsRootHex sha (ci_affectedCells inp) = Inr (Some r)"
    "normalizeHex r = normalizeHex (ci_expectedAffectedCellsRoot inp)" by (cases ro) auto
  note d = root_increasing [OF r(1)]
  note cells = cells_loop_eq [OF cm d, simplified]
  then have cm_eq: "cm = map (\<lambda>c. (show_nat (read_nat (h3_index c)), read_nat (h3_index c), cell_band c)) ?cells" by simp
  from that [OF r d _ m] cells counts root snap show ?thesis
    unfolding cm_eq by (simp add: comp_def)
qed

section \<open>Properties\<close>

text \<open>C15. A floor census counts exactly the members it should.  When a snapshot is made, the affected cells have
  the root that was expected; the count of a band is the number of active lineages whose latest registered
  home before the cutoff is an affected cell of that band; and the root of the counted cells is the one over
  every affected cell with its band and the number of those lineages that reside in it.\<close>

theorem floor_census_exact:
  assumes "computeFloorCensusSnapshot sha inp = Inr snap"
  shows "length (sn_counts snap) = 3
    \<and> (\<forall>i<3. sn_counts snap ! i = int (card {l. \<exists>c\<in>set (affected_cells (ci_affectedCells inp)).
          cell_band c = int i + 1 \<and> resides inp l (read_nat (h3_index c))}))
    \<and> countedCellsRoot sha (map (\<lambda>c. \<lparr>cc_h3 = int (read_nat (h3_index c)), cc_band = cell_band c,
          cc_count = int (card {l. resides inp l (read_nat (h3_index c))})\<rparr>) (affected_cells (ci_affectedCells inp)))
        = Inr (sn_countedCellsRoot snap)
    \<and> (\<exists>r. computeAffectedCellsRootHex sha (ci_affectedCells inp) = Inr (Some r)
          \<and> normalizeHex r = normalizeHex (ci_expectedAffectedCellsRoot inp))"
proof -
  let ?cells = "affected_cells (ci_affectedCells inp)" and ?active = "ci_activeLineages inp"
  let ?cm = "map (\<lambda>c. (show_nat (read_nat (h3_index c)), read_nat (h3_index c), cell_band c)) ?cells"
  from assms show ?thesis
  proof (rule snapshot_runs)
    fix r m cnts
    assume r: "computeAffectedCellsRootHex sha (ci_affectedCells inp) = Inr (Some r)"
        "normalizeHex r = normalizeHex (ci_expectedAffectedCellsRoot inp)"
      and d: "distinct (map (read_nat \<circ> h3_index) ?cells)"
      and m: "latest_loop (ci_cutoffMs inp) (ci_homeCellEvents inp) [] = Inr m"
      and counts: "count_loop ?active ?cm m [0, 0, 0] (map (\<lambda>c. (show_nat (read_nat (h3_index c)), 0)) ?cells)
          = Inr (sn_counts snap, cnts)"
      and root: "countedCellsRoot sha (map (\<lambda>c. \<lparr>cc_h3 = int (read_nat (h3_index c)), cc_band = cell_band c,
          cc_count = coalesce (map_of cnts (show_nat (read_nat (h3_index c)))) 0\<rparr>) ?cells) = Inr (sn_countedCellsRoot snap)"
    have band: "{l. \<exists>e. is_latest (ci_cutoffMs inp) (ci_homeCellEvents inp) l e \<and> counts_in_band ?active ?cm i (l, e)}
        = {l. \<exists>c\<in>set ?cells. cell_band c = int i + 1 \<and> resides inp l (read_nat (h3_index c))}" for i
      by (auto simp: counts_in_band_def counts_for_def map_of_cells [OF d] resides_def)
    have cell: "{l. \<exists>e. is_latest (ci_cutoffMs inp) (ci_homeCellEvents inp) l e \<and> counts_for ?active (show_nat h) (l, e)}
        = {l. resides inp l h}" for h
      by (auto simp: counts_for_def resides_def)
    have "coalesce (map_of cnts (show_nat (read_nat (h3_index c)))) 0 = int (card {l. resides inp l (read_nat (h3_index c))})"
      if c: "c \<in> set ?cells" for c
    proof -
      have "map_of ?cm (show_nat (read_nat (h3_index c))) = Some (read_nat (h3_index c), cell_band c)"
        using c by (auto simp: map_of_cells [OF d])
      moreover have "coalesce (map_of (map (\<lambda>c. (show_nat (read_nat (h3_index c)), 0 :: int)) cs) k) 0 = 0" for k cs
        by (induction cs) auto
      ultimately show ?thesis
        using count_loop_cells [OF counts] counted_as_specified [OF m, of "counts_for ?active (show_nat (read_nat (h3_index c)))"] cell
        by simp
    qed
    then have "map (\<lambda>c. \<lparr>cc_h3 = int (read_nat (h3_index c)), cc_band = cell_band c,
          cc_count = coalesce (map_of cnts (show_nat (read_nat (h3_index c)))) 0\<rparr>) ?cells
        = map (\<lambda>c. \<lparr>cc_h3 = int (read_nat (h3_index c)), cc_band = cell_band c,
          cc_count = int (card {l. resides inp l (read_nat (h3_index c))})\<rparr>) ?cells" by simp
    with root have "countedCellsRoot sha (map (\<lambda>c. \<lparr>cc_h3 = int (read_nat (h3_index c)), cc_band = cell_band c,
          cc_count = int (card {l. resides inp l (read_nat (h3_index c))})\<rparr>) ?cells) = Inr (sn_countedCellsRoot snap)"
      by (simp only:)
    moreover have "sn_counts snap ! i = int (card {l. \<exists>c\<in>set ?cells. cell_band c = int i + 1 \<and> resides inp l (read_nat (h3_index c))})"
      if "i < 3" for i
    proof -
      from that have "[0, 0, 0 :: int] ! i = 0" by (auto simp: less_Suc_eq numeral_3_eq_3)
      then show ?thesis
        using that count_loop_bands [OF counts] counted_as_specified [OF m, of "counts_in_band ?active ?cm i"] band [of i]
        by simp
    qed
    ultimately show ?thesis using count_loop_bands [OF counts] r by auto
  qed
qed

definition demo_census :: census_counts_input where
  "demo_census = \<lparr>ci_affectedCells = \<lparr>event_uid = sample_uid, event_revision = 1, oracle_version = 1, geo_resolution = 7,
       cells_generation_method = ''shakemap_gridxml_h3_grid_point_p90_v1'', cell_metric = ''USGS_MMI'',
       cell_aggregation = ''GRID_POINT_P90'', intensity_scale = ''MMI_X100'',
       affected_cells = [\<lparr>h3_index = ''1'', intensity_value = 600, cell_band = 1\<rparr>]\<rparr>,
     ci_homeCellEvents = [\<lparr>he_lineage = ''a'', he_homeCell = ''1'', he_registeredAtMs = 5\<rparr>,
       \<lparr>he_lineage = ''b'', he_homeCell = ''1'', he_registeredAtMs = 20\<rparr>],
     ci_activeLineages = {''a'', ''b''}, ci_cutoffMs = 10, ci_expectedAffectedCellsRoot = sample_uid,
     ci_eventUid = sample_uid, ci_eventRevision = 1\<rparr>"

lemma demo_census_root:
  "computeAffectedCellsRootHex (\<lambda>_. hexToBytes sample_uid) (ci_affectedCells demo_census) = Inr (Some sample_uid)"
proof -
  have "hexBytes32 sample_uid = Inr (hexToBytes sample_uid)"
    by (rule hexBytes32_lower) (simp add: sample_uid_def)
  moreover have "parseCanonicalU64Decimal ''1'' = Some 1"
    by (simp add: parseCanonicalU64Decimal_def is_canonical_decimal_def read_nat_def digit_val_def is_digit_def U64_MAX_def)
  moreover have "bytesToPrefixedHex (hexToBytes sample_uid) = sample_uid"
    by (simp add: bytesToPrefixedHex_hexToBytes sample_uid_def)
  moreover have "byte_root f [u] = Some u" for f u by (subst byte_root.simps) simp
  ultimately show ?thesis
    by (simp add: computeAffectedCellsRootHex_def demo_census_def cellsGenerationMethodId_def)
qed

lemma demo_census_snapshot:
  "\<exists>root. computeFloorCensusSnapshot (\<lambda>_. hexToBytes sample_uid) demo_census
     = Inr \<lparr>sn_counts = [1, 0, 0], sn_countedCellsRoot = root\<rparr>"
proof -
  have dec: "canonicalU64Decimal ''1'' = Inr ''1''" "read_nat ''1'' = 1" "show_nat (Suc 0) = ''1''" by code_simp+
  have root: "censusMerkleRoot f [u] = Some u" for f u
    by (simp add: censusMerkleRoot_def census_root_loop.simps [of f "[u]"])
  show ?thesis
    unfolding computeFloorCensusSnapshot_def demo_census_root
    by (simp add: demo_census_def validateCensusBinding_def BAND_COUNT_def MAX_SAFE_INTEGER_def dec
        countedCellsRoot_def sort_by_def counted_leaf_def census_u64_def U64_MAX_def CENSUS_SHARD_COUNT_def root)
qed

theorem floor_census_exact_witness:
  "\<exists>snap. computeFloorCensusSnapshot (\<lambda>_. hexToBytes sample_uid) demo_census = Inr snap
     \<and> int (card {l. \<exists>c\<in>set (affected_cells (ci_affectedCells demo_census)).
          cell_band c = 1 \<and> resides demo_census l (read_nat (h3_index c))}) = 1"
proof -
  obtain r where run: "computeFloorCensusSnapshot (\<lambda>_. hexToBytes sample_uid) demo_census
     = Inr \<lparr>sn_counts = [1, 0, 0], sn_countedCellsRoot = r\<rparr>" using demo_census_snapshot by blast
  from floor_census_exact [OF run] have "\<forall>i<3. [1, 0, 0 :: int] ! i = int (card {l. \<exists>c\<in>set (affected_cells (ci_affectedCells demo_census)).
          cell_band c = int i + 1 \<and> resides demo_census l (read_nat (h3_index c))})" by simp
  from this [rule_format, of 0] run show ?thesis by simp
qed

section \<open>The signed bytes\<close>

lemma census_level_eq: "census_level = byte_level"
proof (intro ext)
  fix sha ls show "census_level sha ls = byte_level sha ls"
    by (induction sha ls rule: census_level.induct) (simp_all add: bcs_u8_def)
qed

text \<open>The Merkle root of this file is the one of \<open>computeAffectedCellsRootHex\<close>.\<close>

lemma censusMerkleRoot_eq: "ls \<noteq> [] \<Longrightarrow> censusMerkleRoot sha ls = byte_root sha ls"
proof -
  assume "ls \<noteq> []"
  have "(case census_root_loop sha ls of [] \<Rightarrow> None | r # _ \<Rightarrow> Some r) = byte_root sha ls"
  proof (induction sha ls rule: byte_root.induct)
    case (1 sha level)
    show ?case
      using 1 by (subst census_root_loop.simps, subst byte_root.simps) (simp add: census_level_eq split: list.split)
  qed
  with \<open>ls \<noteq> []\<close> show ?thesis by (simp add: censusMerkleRoot_def)
qed

lemma census_hexBytes32_Inr:
  "census_hexBytes32 s = Inr b \<longleftrightarrow> length (normalizeHex s) = 64 \<and> list_all is_lower_hex (normalizeHex s) \<and> b = hex_pairs (normalizeHex s)"
  by (auto simp: census_hexBytes32_def Let_def)

lemma census_hex_inject:
  assumes "census_hexBytes32 s = Inr a" and "census_hexBytes32 t = Inr b" and "a @ x = b @ y"
  shows "normalizeHex s = normalizeHex t \<and> x = y"
proof -
  note s = assms(1) [unfolded census_hexBytes32_Inr] and t = assms(2) [unfolded census_hexBytes32_Inr]
  then have "length a = length b" by (simp add: length_hex_pairs)
  with assms(3) have "a = b" "x = y" by simp_all
  moreover have "bytesToHex (hex_pairs (normalizeHex u)) = normalizeHex u"
    if u: "length (normalizeHex u) = 64" "list_all is_lower_hex (normalizeHex u)" for u
  proof -
    have "list_all is_hex (normalizeHex u)" using u(2) by (auto simp: list_all_iff is_lower_hex_def is_hex_def)
    moreover have "map to_lower (normalizeHex u) = normalizeHex u"
      using u(2) by (intro map_idI) (auto simp: list_all_iff to_lower_id)
    ultimately show ?thesis using u(1) by (simp add: bytesToHex_hex_pairs)
  qed
  ultimately show ?thesis using s t by metis
qed

lemma census_u64_Inr: "census_u64 v = Inr b \<longleftrightarrow> 0 \<le> v \<and> v \<le> U64_MAX \<and> b = le_bytes 8 v"
  by (auto simp: census_u64_def)

lemma census_u32_Inr: "census_u32 v = Inr b \<longleftrightarrow> 0 \<le> v \<and> v \<le> U32_MAX \<and> b = le_bytes 4 v"
  by (auto simp: census_u32_def)

lemma le_bytes_prefix: "le_bytes k a @ x = le_bytes k b @ y \<longleftrightarrow> le_bytes k a = le_bytes k b \<and> x = y"
  by simp

lemma census_u64_inject:
  "census_u64 v = Inr a \<Longrightarrow> census_u64 w = Inr b \<Longrightarrow> a @ x = b @ y \<Longrightarrow> v = w \<and> x = y"
  by (auto simp: census_u64_Inr le_bytes_inject U64_MAX_def)

lemma census_u32_inject:
  "census_u32 v = Inr a \<Longrightarrow> census_u32 w = Inr b \<Longrightarrow> a @ x = b @ y \<Longrightarrow> v = w \<and> x = y"
  by (auto simp: census_u32_Inr le_bytes_inject U32_MAX_def)

lemma census_u64s_inject:
  "census_u64s vs = Inr a \<Longrightarrow> census_u64s ws = Inr b \<Longrightarrow> length vs = length ws \<Longrightarrow> a @ x = b @ y \<Longrightarrow> vs = ws \<and> x = y"
proof (induction vs arbitrary: ws a b)
  case (Cons v vs)
  then obtain w ws' where ws: "ws = w # ws'" by (cases ws) auto
  with Cons.prems obtain a1 a2 b1 b2 where
    "census_u64 v = Inr a1" "census_u64s vs = Inr a2" "a = a1 @ a2"
    "census_u64 w = Inr b1" "census_u64s ws' = Inr b2" "b = b1 @ b2"
    by (auto simp: res_bind_Inr_iff)
  with Cons.prems(3,4) ws Cons.IH [of a2 ws' b2] census_u64_inject [of v a1 w b1 "a2 @ x" "b2 @ y"] show ?case by auto
qed auto

lemma u64Vector_inject:
  "u64Vector vs = Inr a \<Longrightarrow> u64Vector ws = Inr b \<Longrightarrow> length vs = length ws \<Longrightarrow> a @ x = b @ y \<Longrightarrow> vs = ws \<and> x = y"
  using census_u64s_inject [of vs _ ws _ x y] by (auto simp: u64Vector_def res_bind_Inr_iff)

definition lower_census :: "floor_census_fields \<Rightarrow> floor_census_fields" where
  "lower_census f = f\<lparr>ff_eventUid := normalizeHex (ff_eventUid f),
     ff_affectedCellsRoot := normalizeHex (ff_affectedCellsRoot f),
     ff_membershipRegistryId := normalizeHex (ff_membershipRegistryId f),
     ff_cellCountIndexId := normalizeHex (ff_cellCountIndexId f),
     ff_countedCellsRoot := normalizeHex (ff_countedCellsRoot f)\<rparr>"

text \<open>C18. The signed census bytes name one census: two results with the same bytes have the same event, revision,
  roots, registries, checkpoint, counts and time, up to the letter case of hexadecimal text.\<close>

theorem census_encoding_binding:
  assumes "encodeFloorCensusResultBcs f = Inr bs" and "encodeFloorCensusResultBcs g = Inr bs"
  shows "lower_census f = lower_census g"
proof -
  obtain e r a m c k ms cc t v s where f: "census_hexBytes32 (ff_eventUid f) = Inr e" "census_u32 (ff_eventRevision f) = Inr r"
    "census_hexBytes32 (ff_affectedCellsRoot f) = Inr a" "census_hexBytes32 (ff_membershipRegistryId f) = Inr m"
    "census_hexBytes32 (ff_cellCountIndexId f) = Inr c" "census_u64 (ff_censusCheckpoint f) = Inr k"
    "u64Vector (ff_registeredMembersByBand f) = Inr ms" "census_hexBytes32 (ff_countedCellsRoot f) = Inr cc"
    "census_u64 (ff_issuedAtMs f) = Inr t" "length (ff_registeredMembersByBand f) = 3"
    "census_u64 CENSUS_VERIFIER_VERSION = Inr v" "census_u64 CENSUS_SHARD_COUNT = Inr s"
    "bs = utf8Vector CENSUS_INTENT @ utf8Vector CENSUS_VERIFIER_FAMILY @ v @ e @ r @ a @ m @ c @ k
       @ [word_of_int CENSUS_H3_RESOLUTION] @ s @ ms @ cc @ t"
    using assms(1) unfolding encodeFloorCensusResultBcs_def BAND_COUNT_def
    by (auto simp: res_bind_Inr_iff split: if_splits)
  obtain e' r' a' m' c' k' ms' cc' t' where g: "census_hexBytes32 (ff_eventUid g) = Inr e'" "census_u32 (ff_eventRevision g) = Inr r'"
    "census_hexBytes32 (ff_affectedCellsRoot g) = Inr a'" "census_hexBytes32 (ff_membershipRegistryId g) = Inr m'"
    "census_hexBytes32 (ff_cellCountIndexId g) = Inr c'" "census_u64 (ff_censusCheckpoint g) = Inr k'"
    "u64Vector (ff_registeredMembersByBand g) = Inr ms'" "census_hexBytes32 (ff_countedCellsRoot g) = Inr cc'"
    "census_u64 (ff_issuedAtMs g) = Inr t'" "length (ff_registeredMembersByBand g) = 3"
    "bs = utf8Vector CENSUS_INTENT @ utf8Vector CENSUS_VERIFIER_FAMILY @ v @ e' @ r' @ a' @ m' @ c' @ k'
       @ [word_of_int CENSUS_H3_RESOLUTION] @ s @ ms' @ cc' @ t'"
    using assms(2) f(11,12) unfolding encodeFloorCensusResultBcs_def BAND_COUNT_def
    by (auto simp: res_bind_Inr_iff split: if_splits)
  from f(13) g(11) have "e @ r @ a @ m @ c @ k @ [word_of_int CENSUS_H3_RESOLUTION] @ s @ ms @ cc @ t
      = e' @ r' @ a' @ m' @ c' @ k' @ [word_of_int CENSUS_H3_RESOLUTION] @ s @ ms' @ cc' @ t'" by simp
  note 1 = census_hex_inject [OF f(1) g(1) this]
  note 2 = census_u32_inject [OF f(2) g(2) conjunct2 [OF 1]]
  note 3 = census_hex_inject [OF f(3) g(3) conjunct2 [OF 2]]
  note 4 = census_hex_inject [OF f(4) g(4) conjunct2 [OF 3]]
  note 5 = census_hex_inject [OF f(5) g(5) conjunct2 [OF 4]]
  note 6 = census_u64_inject [OF f(6) g(6) conjunct2 [OF 5]]
  then have "ms @ cc @ t = ms' @ cc' @ t'" by simp
  note 7 = u64Vector_inject [OF f(7) g(7) _ this, unfolded f(10) g(10), OF refl]
  note 8 = census_hex_inject [OF f(8) g(8) conjunct2 [OF 7]]
  have "t @ [] = t' @ []" using 8 by simp
  note 9 = census_u64_inject [OF f(9) g(9) this]
  show ?thesis using 1 2 3 4 5 6 7 8 9 by (simp add: lower_census_def)
qed

definition demo_fields :: "string \<Rightarrow> floor_census_fields" where
  "demo_fields uid = \<lparr>ff_eventUid = uid, ff_eventRevision = 1, ff_affectedCellsRoot = sample_uid,
     ff_membershipRegistryId = sample_uid, ff_cellCountIndexId = sample_uid, ff_censusCheckpoint = 7,
     ff_registeredMembersByBand = [1, 0, 2], ff_countedCellsRoot = sample_uid, ff_issuedAtMs = 9\<rparr>"

theorem census_encoding_binding_witness:
  "\<exists>bs. encodeFloorCensusResultBcs (demo_fields sample_uid) = Inr bs
     \<and> encodeFloorCensusResultBcs (demo_fields (''0x'' @ normalizeHex sample_uid)) = Inr bs
     \<and> lower_census (demo_fields sample_uid) = lower_census (demo_fields (''0x'' @ normalizeHex sample_uid))"
proof -
  have "is_prefixed_hex32 sample_uid" by (simp add: sample_uid_def)
  from normalize_lower [OF this] have norm: "''0x'' @ normalizeHex sample_uid = sample_uid"
    by (simp add: normalizeHexBytes_def normalizeHex_def strip0x_def)
  then have "drop 2 (''0x'' @ normalizeHex sample_uid) = drop 2 sample_uid" by (simp only:)
  then have "normalizeHex sample_uid = drop 2 sample_uid" by simp
  with \<open>is_prefixed_hex32 sample_uid\<close> have "length (normalizeHex sample_uid) = 64"
    "list_all is_lower_hex (normalizeHex sample_uid)" by (simp_all add: is_prefixed_hex32_def)
  then have hex: "census_hexBytes32 sample_uid = census_hexBytes32 (''0x'' @ normalizeHex sample_uid)"
    "\<exists>b. census_hexBytes32 sample_uid = Inr b" by (simp_all only: norm) (simp add: census_hexBytes32_def Let_def)
  have members: "\<exists>b. u64Vector [1, 0, 2] = Inr b"
    by (simp add: u64Vector_def census_u64_def U64_MAX_def)
  obtain b c where b: "census_hexBytes32 sample_uid = Inr b" "u64Vector [1, 0, 2] = Inr c"
    using hex(2) members by blast
  then obtain bs where bs: "encodeFloorCensusResultBcs (demo_fields sample_uid) = Inr bs"
    by (simp add: encodeFloorCensusResultBcs_def demo_fields_def BAND_COUNT_def census_u64_def census_u32_def
        CENSUS_VERIFIER_VERSION_def CENSUS_SHARD_COUNT_def U64_MAX_def U32_MAX_def)
  moreover have "encodeFloorCensusResultBcs (demo_fields (''0x'' @ normalizeHex sample_uid)) = encodeFloorCensusResultBcs (demo_fields sample_uid)"
    by (simp add: encodeFloorCensusResultBcs_def demo_fields_def hex(1) BAND_COUNT_def)
  ultimately show ?thesis
    using census_encoding_binding [of "demo_fields sample_uid" bs "demo_fields (''0x'' @ normalizeHex sample_uid)"] by simp
qed

end
