(* ===== verification/CensusReader.thy ===== *)
theory CensusReader
  imports Census
begin

text \<open>
  Reading the chain for the floor census, \<open>GraphqlFloorCensusReader\<close> of \<open>watcher/src/census.ts\<close>: the pages of
  the home registrations, the active lineages, and the campaign a relayer transaction created.

  The endpoint is a parameter, and so are the texts of the queries and \<open>Buffer.from(text, 'base64')\<close>.  A loop over
  pages takes the number of pages it may ask for; \<open>home_cell_pages_complete\<close> says when that is enough.
  A field that is missing or of another type is \<open>JUndef\<close>, as it is \<open>undefined\<close> in the code.
\<close>

section \<open>Reading fields\<close>

definition readRecordField :: "js_value \<Rightarrow> string \<Rightarrow> js_value" where
  "readRecordField v k = (let x = field_of v k in if isRecord x then x else JUndef)"

definition readStringField :: "js_value \<Rightarrow> string \<Rightarrow> string option" where
  "readStringField v k = (case field_of v k of JStr s \<Rightarrow> Some s | _ \<Rightarrow> None)"

definition readObjectId :: "js_value \<Rightarrow> string option" where
  "readObjectId v =
     (case v of
        JStr s \<Rightarrow> if length s > 0 then Some s else None
      | JObj fs \<Rightarrow> (case get_field fs ''id'' of JStr s \<Rightarrow> if length s > 0 then Some s else None | _ \<Rightarrow> None)
      | _ \<Rightarrow> None)"

definition readU64Decimal :: "js_value \<Rightarrow> js_error + string option" where
  "readU64Decimal v =
     (case v of
        JStr s \<Rightarrow> res_bind (canonicalU64Decimal s) (\<lambda>t. Inr (Some t))
      | JNum q \<Rightarrow> Inr (if isSafeInteger q \<and> q \<ge> 0 then Some (show_int \<lfloor>q\<rfloor>) else None)
      | _ \<Rightarrow> Inr None)"

definition readCensusSafeInteger :: "js_value \<Rightarrow> int option" where
  "readCensusSafeInteger v =
     (case v of
        JNum q \<Rightarrow> if isSafeInteger q \<and> q \<ge> 0 then Some \<lfloor>q\<rfloor> else None
      | JStr s \<Rightarrow>
          if is_canonical_decimal s
          then (let parsed = int (read_nat s) in if parsed \<le> MAX_SAFE_INTEGER then Some parsed else None)
          else None
      | _ \<Rightarrow> None)"

definition readBytesHex :: "(string \<Rightarrow> bytes) \<Rightarrow> js_value \<Rightarrow> string option" where
  "readBytesHex b64 v =
     (case v of
        JStr s \<Rightarrow>
          if hash32_text s then Some s
          else let decoded = b64 s in
            if length decoded = 32 \<and> base64_encode decoded = s then Some (bytesToPrefixedHex decoded) else Some s
      | JArr xs \<Rightarrow>
          if list_all is_byte_number xs
          then Some (bytesToPrefixedHex (map (\<lambda>x. word_of_int (js_int x)) xs)) else None
      | _ \<Rightarrow> None)"

definition readCensusEventJson :: "js_value \<Rightarrow> js_value" where
  "readCensusEventJson event =
     (let parsedJson = readRecordField event ''parsedJson'' in
      if parsedJson \<noteq> JUndef then parsedJson
      else readRecordField (readRecordField event ''contents'') ''json'')"

definition parseHomeCellRegisteredEvent :: "js_value \<Rightarrow> js_error + home_cell_event" where
  "parseHomeCellRegisteredEvent event =
     (let parsedJson = readCensusEventJson event in
      case (readObjectId (field_of parsedJson ''lineage''), readU64Decimal (field_of parsedJson ''home_cell''),
            readCensusSafeInteger (field_of parsedJson ''registered_at'')) of
        (Some lineage, Inr (Some homeCell), Some registeredAtMs) \<Rightarrow>
          Inr \<lparr>he_lineage = lineage, he_homeCell = homeCell, he_registeredAtMs = registeredAtMs\<rparr>
      | _ \<Rightarrow> Inl ''HomeCellRegistered event is malformed'')"

section \<open>Pages\<close>

record graphql_page =
  gp_nodes :: "js_value list"
  gp_hasNextPage :: bool
  gp_endCursor :: "string option"

text \<open>The end cursor: a text that is not empty.\<close>

definition end_cursor :: "js_value \<Rightarrow> string option" where
  "end_cursor pageInfo =
     (case field_of pageInfo ''endCursor'' of JStr s \<Rightarrow> if length s > 0 then Some s else None | _ \<Rightarrow> None)"

definition readGraphqlEventsPage :: "js_value \<Rightarrow> js_error + graphql_page" where
  "readGraphqlEventsPage response =
     (let events = readRecordField (readRecordField response ''data'') ''events'' in
      if events = JUndef then Inl ''GraphQL events page is missing or malformed''
      else case field_of events ''nodes'' of
        JArr nodes \<Rightarrow>
          (let pageInfo = readRecordField events ''pageInfo'' in
           if pageInfo = JUndef then Inl ''GraphQL events pageInfo is malformed''
           else case field_of pageInfo ''hasNextPage'' of
             JBool hasNextPage \<Rightarrow>
               if hasNextPage \<and> end_cursor pageInfo = None then Inl ''GraphQL events pageInfo is malformed''
               else Inr \<lparr>gp_nodes = nodes, gp_hasNextPage = hasNextPage, gp_endCursor = end_cursor pageInfo\<rparr>
           | _ \<Rightarrow> Inl ''GraphQL events pageInfo is malformed'')
      | _ \<Rightarrow> Inl ''GraphQL event nodes must be an array'')"

definition readGraphqlConnectionPage :: "js_value \<Rightarrow> string \<Rightarrow> string \<Rightarrow> js_error + graphql_page" where
  "readGraphqlConnectionPage v k pageInfoError =
     (let page = readRecordField v k in
      if page = JUndef then Inl (pageInfoError @ '' is malformed'')
      else case field_of page ''nodes'' of
        JArr nodes \<Rightarrow>
          (let pageInfo = readRecordField page ''pageInfo'' in
           case field_of pageInfo ''hasNextPage'' of
             JBool hasNextPage \<Rightarrow>
               if hasNextPage \<and> end_cursor pageInfo = None then Inl (pageInfoError @ '' is malformed'')
               else Inr \<lparr>gp_nodes = nodes, gp_hasNextPage = hasNextPage, gp_endCursor = end_cursor pageInfo\<rparr>
           | _ \<Rightarrow> Inl (pageInfoError @ '' is malformed''))
      | _ \<Rightarrow> Inl (pageInfoError @ '' is malformed''))"

record effects_page =
  ep_checkpoint :: int
  ep_events :: graphql_page
  ep_objectChanges :: graphql_page

definition readGraphqlTransactionEffectsPage :: "js_value \<Rightarrow> js_error + effects_page" where
  "readGraphqlTransactionEffectsPage response =
     (let effects = readRecordField (readRecordField (readRecordField response ''data'') ''transaction'') ''effects'' in
      if effects = JUndef then Inl ''GraphQL transaction effects are missing or malformed''
      else case readCensusSafeInteger (field_of (readRecordField effects ''checkpoint'') ''sequenceNumber'') of
        None \<Rightarrow> Inl ''relayer transaction checkpoint is missing''
      | Some checkpoint \<Rightarrow>
        res_bind (readGraphqlConnectionPage effects ''events'' ''GraphQL transaction events pageInfo'') (\<lambda>events.
        res_bind (readGraphqlConnectionPage effects ''objectChanges'' ''GraphQL transaction objectChanges pageInfo'')
          (\<lambda>objectChanges.
          Inr \<lparr>ep_checkpoint = checkpoint, ep_events = events, ep_objectChanges = objectChanges\<rparr>)))"

section \<open>Campaigns and lineages\<close>

definition parseCampaignCreatedEvent :: "(string \<Rightarrow> bytes) \<Rightarrow> js_value \<Rightarrow> string \<Rightarrow> int \<Rightarrow> string option" where
  "parseCampaignCreatedEvent b64 event expectedEventUid expectedEventRevision =
     (let parsedJson = readCensusEventJson event in
      case readObjectId (field_of parsedJson ''campaign_id'') of
        None \<Rightarrow> None
      | Some campaignId \<Rightarrow>
        let eventRevision = readCensusSafeInteger (field_of parsedJson ''event_revision'');
            eventUid = readBytesHex b64 (field_of parsedJson ''event_uid'') in
        if eventRevision = Some expectedEventRevision
           \<and> some_and (\<lambda>u. normalizeHex u = normalizeHex expectedEventUid) eventUid
        then Some campaignId else None)"

definition readMoveObjectTypeRepr :: "js_value \<Rightarrow> string option" where
  "readMoveObjectTypeRepr v =
     readStringField (readRecordField (readRecordField (readRecordField v ''asMoveObject'') ''contents'') ''type'') ''repr''"

definition readCampaignObjectChangeId :: "js_value \<Rightarrow> string option" where
  "readCampaignObjectChangeId change =
     (let outputState = readRecordField change ''outputState'';
          moveType = or_else (readMoveObjectTypeRepr outputState) (readStringField change ''objectType'') in
      if \<not> some_and (\<lambda>t. ends_with t ''::campaign::Campaign'') moveType then None
      else or_else (readObjectId (field_of outputState ''address''))
             (or_else (readObjectId (field_of change ''address'')) (readObjectId (field_of change ''objectId''))))"

definition readGraphqlDynamicFields :: "js_value \<Rightarrow> js_error + js_value list" where
  "readGraphqlDynamicFields response =
     (let object = readRecordField (readRecordField response ''data'') ''object'' in
      if object = JUndef then Inl ''GraphQL membership registry object is missing or malformed''
      else case field_of object ''multiGetDynamicFields'' of
        JArr fs \<Rightarrow> Inr fs
      | _ \<Rightarrow> Inl ''GraphQL membership dynamic fields response is malformed'')"

definition readMembershipStatus :: "js_value \<Rightarrow> js_error + int" where
  "readMembershipStatus field =
     (let json = readRecordField (readRecordField field ''contents'') ''json'';
          inner = readRecordField json ''value'' in
      case or_else (readCensusSafeInteger (field_of json ''status'')) (readCensusSafeInteger (field_of inner ''status'')) of
        None \<Rightarrow> Inl ''membership dynamic field status is malformed''
      | Some status \<Rightarrow> Inr status)"

definition readBeforeCheckpoint :: "int \<Rightarrow> js_error + int" where
  "readBeforeCheckpoint checkpoint =
     (if checkpoint > MAX_SAFE_INTEGER \<or> checkpoint < 0 then Inl ''checkpoint must be a non-negative safe integer''
      else if checkpoint \<ge> MAX_SAFE_INTEGER then Inl ''beforeCheckpoint must be a safe integer''
      else Inr (checkpoint + 1))"

definition objectIdBytes :: "string \<Rightarrow> js_error + bytes" where
  "objectIdBytes v =
     (let hex = (if starts_with v ''0x'' then drop 2 v else v) in
      if length hex \<noteq> 64 \<or> \<not> list_all is_hex hex then Inl (''object ID must be 32 bytes: '' @ v)
      else Inr (hex_pairs hex))"

definition lineageDynamicFieldKey :: "string \<Rightarrow> js_error + js_value" where
  "lineageDynamicFieldKey lineage =
     res_bind (objectIdBytes lineage) (\<lambda>bs.
       Inr (JObj [(''type'', JStr ''0x2::object::ID''), (''bcs'', JStr (base64_encode bs))]))"

fun lineage_keys :: "string list \<Rightarrow> js_error + js_value list" where
  "lineage_keys [] = Inr []"
| "lineage_keys (l # ls) = res_bind (lineageDynamicFieldKey l) (\<lambda>k. res_bind (lineage_keys ls) (\<lambda>ks. Inr (k # ks)))"

text \<open>\<open>[...new Set(values)]\<close>: the first occurrences in order.\<close>

definition unique :: "string list \<Rightarrow> string list" where
  "unique vs = List.rev (remdups (List.rev vs))"

section \<open>The reader\<close>

datatype graphql_query = HomeCellQuery | ActiveLineagesQuery | CampaignQuery

record 'w graphql_env =
  ql_fetch :: "string \<Rightarrow> fetch_request \<Rightarrow> ('w, fetch_response) io"
  ql_text :: "graphql_query \<Rightarrow> string"
  ql_num :: "rat \<Rightarrow> string"
  ql_b64 :: "string \<Rightarrow> bytes"

definition graphql_body :: "(rat \<Rightarrow> string) \<Rightarrow> js_value \<Rightarrow> js_error + js_value" where
  "graphql_body num body =
     (case field_of body ''errors'' of
        JArr (firstError # _) \<Rightarrow>
          Inl (''Sui GraphQL query failed: ''
            @ (case readStringField firstError ''message'' of Some m \<Rightarrow> m | None \<Rightarrow> json_text num firstError))
      | _ \<Rightarrow> Inr body)"

definition graphql :: "'w graphql_env \<Rightarrow> string \<Rightarrow> graphql_query \<Rightarrow> json_record \<Rightarrow> ('w, js_value) io" where
  "graphql env endpoint query variables =
     io_bind (ql_fetch env endpoint
        \<lparr>fq_method = Some ''POST'', fq_headers = [(''content-type'', ''application/json'')],
         fq_body = Some (json_text (ql_num env)
           (JObj [(''query'', JStr (ql_text env query)), (''variables'', JObj variables)]))\<rparr>) (\<lambda>response.
     if \<not> response_ok response
     then io_throw (''Sui GraphQL query failed with HTTP '' @ show_int (fr_status response))
     else io_bind (io_lift (fr_json response)) (\<lambda>body. io_lift (graphql_body (ql_num env) body)))"

definition cursor_json :: "string option \<Rightarrow> js_value" where
  "cursor_json c = (case c of None \<Rightarrow> JNull | Some s \<Rightarrow> JStr s)"

definition opt_int :: "int option \<Rightarrow> js_value" where
  "opt_int n = (case n of None \<Rightarrow> JUndef | Some k \<Rightarrow> jint k)"

fun parse_home_events :: "js_value list \<Rightarrow> js_error + home_cell_event list" where
  "parse_home_events [] = Inr []"
| "parse_home_events (n # ns) =
     res_bind (parseHomeCellRegisteredEvent n) (\<lambda>e. res_bind (parse_home_events ns) (\<lambda>es. Inr (e # es)))"

text \<open>The \<open>while\<close> loop over the pages.\<close>

fun home_cell_pages ::
    "'w graphql_env \<Rightarrow> string \<Rightarrow> string \<Rightarrow> int option \<Rightarrow> nat \<Rightarrow> string option \<Rightarrow> home_cell_event list
     \<Rightarrow> ('w, home_cell_event list) io" where
  "home_cell_pages env endpoint eventType beforeCheckpoint 0 cursor events = io_throw ''the pages did not end''"
| "home_cell_pages env endpoint eventType beforeCheckpoint (Suc fuel) cursor events =
     io_bind (graphql env endpoint HomeCellQuery
        [(''eventType'', JStr eventType), (''beforeCheckpoint'', opt_int beforeCheckpoint), (''cursor'', cursor_json cursor)])
       (\<lambda>response.
     io_bind (io_lift (readGraphqlEventsPage response)) (\<lambda>page.
     io_bind (io_lift (parse_home_events (gp_nodes page))) (\<lambda>parsed.
     if \<not> gp_hasNextPage page then io_return (events @ parsed)
     else home_cell_pages env endpoint eventType beforeCheckpoint fuel (gp_endCursor page) (events @ parsed))))"

definition listHomeCellRegisteredEvents ::
    "'w graphql_env \<Rightarrow> string \<Rightarrow> nat \<Rightarrow> string \<Rightarrow> int option \<Rightarrow> ('w, home_cell_event list) io" where
  "listHomeCellRegisteredEvents env endpoint fuel packageId checkpoint =
     io_bind (case checkpoint of None \<Rightarrow> io_return None
        | Some c \<Rightarrow> io_lift (res_bind (readBeforeCheckpoint c) (\<lambda>b. Inr (Some b)))) (\<lambda>beforeCheckpoint.
     home_cell_pages env endpoint (packageId @ ''::membership::HomeCellRegistered'') beforeCheckpoint fuel None [])"

text \<open>The loop over the fields, each with its lineage.\<close>

fun active_loop :: "(js_value \<times> string) list \<Rightarrow> js_error + string list" where
  "active_loop [] = Inr []"
| "active_loop ((field, lineage) # rest) =
     (if field = JNull \<or> field = JUndef then active_loop rest
      else res_bind (readMembershipStatus field) (\<lambda>status.
        res_bind (active_loop rest) (\<lambda>active. Inr (if status = 1 then lineage # active else active))))"

definition listActiveLineages ::
    "'w graphql_env \<Rightarrow> string \<Rightarrow> string \<Rightarrow> string list \<Rightarrow> int option \<Rightarrow> ('w, string set) io" where
  "listActiveLineages env endpoint membershipRegistryId requested checkpoint =
     (let lineages = unique requested in
      if length lineages = 0 then io_return {}
      else io_bind (io_lift (lineage_keys lineages)) (\<lambda>keys.
        io_bind (graphql env endpoint ActiveLineagesQuery
          [(''membershipRegistryId'', JStr membershipRegistryId), (''checkpoint'', opt_int checkpoint),
           (''keys'', JArr keys)]) (\<lambda>response.
        io_bind (io_lift (readGraphqlDynamicFields response)) (\<lambda>fieldList.
        if length fieldList \<noteq> length lineages
        then io_throw ''GraphQL membership dynamic fields response is malformed''
        else io_bind (io_lift (active_loop (zip fieldList lineages))) (\<lambda>active. io_return (set active))))))"

text \<open>The first value that is defined.\<close>

fun first_some :: "('a \<Rightarrow> 'b option) \<Rightarrow> 'a list \<Rightarrow> 'b option" where
  "first_some f [] = None"
| "first_some f (x # xs) = (case f x of Some y \<Rightarrow> Some y | None \<Rightarrow> first_some f xs)"

record campaign_state =
  cm_checkpoint :: "int option"
  cm_eventsCursor :: "string option"
  cm_objectChangesCursor :: "string option"
  cm_hasNextEventsPage :: bool
  cm_hasNextObjectChangesPage :: bool
  cm_candidates :: "string list"

text \<open>What is returned when no event names the campaign.\<close>

definition campaign_of_candidates :: "campaign_state \<Rightarrow> js_error + (string \<times> int) option" where
  "campaign_of_candidates s =
     (case cm_checkpoint s of
        None \<Rightarrow> Inl ''relayer transaction checkpoint is missing''
      | Some checkpoint \<Rightarrow>
        if length (cm_candidates s) > 1 then Inl ''relayer transaction included multiple Campaign object changes''
        else case cm_candidates s of [] \<Rightarrow> Inr None | campaignId # _ \<Rightarrow> Inr (Some (campaignId, checkpoint)))"

text \<open>The state after a page that names no campaign.\<close>

definition campaign_next :: "campaign_state \<Rightarrow> effects_page \<Rightarrow> campaign_state" where
  "campaign_next s page =
     (let s1 = (if cm_hasNextEventsPage s
                then s\<lparr>cm_eventsCursor := gp_endCursor (ep_events page), cm_hasNextEventsPage := gp_hasNextPage (ep_events page)\<rparr>
                else s)
      in (if cm_hasNextObjectChangesPage s1
          then s1\<lparr>cm_candidates := cm_candidates s1 @ List.map_filter readCampaignObjectChangeId (gp_nodes (ep_objectChanges page)),
             cm_objectChangesCursor := gp_endCursor (ep_objectChanges page),
             cm_hasNextObjectChangesPage := gp_hasNextPage (ep_objectChanges page)\<rparr>
          else s1))"

fun campaign_pages ::
    "'w graphql_env \<Rightarrow> string \<Rightarrow> string \<Rightarrow> string \<Rightarrow> int \<Rightarrow> nat \<Rightarrow> campaign_state \<Rightarrow> ('w, (string \<times> int) option) io" where
  "campaign_pages env endpoint digest eventUid eventRevision 0 s = io_throw ''the pages did not end''"
| "campaign_pages env endpoint digest eventUid eventRevision (Suc fuel) s =
     (if \<not> (cm_hasNextEventsPage s \<or> cm_hasNextObjectChangesPage s) then io_lift (campaign_of_candidates s)
      else io_bind (graphql env endpoint CampaignQuery
          [(''digest'', JStr digest), (''eventsCursor'', cursor_json (cm_eventsCursor s)),
           (''objectChangesCursor'', cursor_json (cm_objectChangesCursor s))]) (\<lambda>response.
        io_bind (io_lift (readGraphqlTransactionEffectsPage response)) (\<lambda>page.
        let s1 = s\<lparr>cm_checkpoint := Some (coalesce (cm_checkpoint s) (ep_checkpoint page))\<rparr> in
        case (if cm_hasNextEventsPage s
              then first_some (\<lambda>e. parseCampaignCreatedEvent (ql_b64 env) e eventUid eventRevision) (gp_nodes (ep_events page))
              else None) of
          Some campaignId \<Rightarrow> io_return (Some (campaignId, the (cm_checkpoint s1)))
        | None \<Rightarrow> campaign_pages env endpoint digest eventUid eventRevision fuel (campaign_next s1 page))))"

definition findCampaignId ::
    "'w graphql_env \<Rightarrow> string \<Rightarrow> nat \<Rightarrow> string \<Rightarrow> string \<Rightarrow> int \<Rightarrow> ('w, (string \<times> int) option) io" where
  "findCampaignId env endpoint fuel digest eventUid eventRevision =
     campaign_pages env endpoint digest eventUid eventRevision fuel
       \<lparr>cm_checkpoint = None, cm_eventsCursor = None, cm_objectChangesCursor = None, cm_hasNextEventsPage = True,
        cm_hasNextObjectChangesPage = True, cm_candidates = []\<rparr>"

section \<open>All the pages are read\<close>

text \<open>
  The abstract reading of a paged list: what the endpoint answers from a cursor on, the number of pages, all their
  events in order, and the world after the last answer.
\<close>

inductive home_pages ::
    "(string option \<Rightarrow> ('w, js_value) io) \<Rightarrow> string option \<Rightarrow> 'w \<Rightarrow> nat \<Rightarrow> home_cell_event list \<Rightarrow> 'w \<Rightarrow> bool"
  for q where
  last_page: "q cursor w = (Inr r, w1) \<Longrightarrow> readGraphqlEventsPage r = Inr page \<Longrightarrow> \<not> gp_hasNextPage page
    \<Longrightarrow> parse_home_events (gp_nodes page) = Inr es \<Longrightarrow> home_pages q cursor w 1 es w1"
| more_pages: "q cursor w = (Inr r, w1) \<Longrightarrow> readGraphqlEventsPage r = Inr page \<Longrightarrow> gp_hasNextPage page
    \<Longrightarrow> parse_home_events (gp_nodes page) = Inr es \<Longrightarrow> home_pages q (gp_endCursor page) w1 n es' w2
    \<Longrightarrow> home_pages q cursor w (Suc n) (es @ es') w2"

text \<open>The query of one page.\<close>

definition home_cell_query ::
    "'w graphql_env \<Rightarrow> string \<Rightarrow> string \<Rightarrow> int option \<Rightarrow> string option \<Rightarrow> ('w, js_value) io" where
  "home_cell_query env endpoint eventType beforeCheckpoint cursor =
     graphql env endpoint HomeCellQuery
       [(''eventType'', JStr eventType), (''beforeCheckpoint'', opt_int beforeCheckpoint), (''cursor'', cursor_json cursor)]"

lemma home_cell_pages_complete:
  assumes "home_pages (home_cell_query env endpoint eventType before) cursor w n es w'" "n \<le> fuel"
  shows "home_cell_pages env endpoint eventType before fuel cursor events w = (Inr (events @ es), w')"
  using assms
proof (induction arbitrary: fuel events rule: home_pages.induct)
  case (last_page cursor w r w1 page es)
  then show ?case
    by (cases fuel) (auto simp: home_cell_query_def io_bind_def io_lift_def io_return_def)
next
  case (more_pages cursor w r w1 page es n es' w2)
  then obtain fuel' where f: "fuel = Suc fuel'" "n \<le> fuel'" by (cases fuel) auto
  have "home_cell_pages env endpoint eventType before fuel' (gp_endCursor page) (events @ es) w1
      = (Inr ((events @ es) @ es'), w2)"
    using more_pages.IH f(2) by blast
  then show ?case using more_pages.hyps f(1)
    by (auto simp: home_cell_query_def io_bind_def io_lift_def)
qed

lemma home_cell_pages_sound:
  assumes "home_cell_pages env endpoint eventType before fuel cursor events w = (Inr out, w')"
  shows "\<exists>n es. n \<le> fuel \<and> home_pages (home_cell_query env endpoint eventType before) cursor w n es w' \<and> out = events @ es"
  using assms
proof (induction env endpoint eventType before fuel cursor events arbitrary: w
    rule: home_cell_pages.induct[case_names none more])
  case (none env endpoint eventType before cursor events)
  then show ?case by (simp add: io_throw_def)
next
  case (more env endpoint eventType before fuel cursor events)
  let ?q = "home_cell_query env endpoint eventType before"
  from more.prems obtain r w1 page es where
      q: "?q cursor w = (Inr r, w1)" and page: "readGraphqlEventsPage r = Inr page"
      and es: "parse_home_events (gp_nodes page) = Inr es"
      and rest: "(if \<not> gp_hasNextPage page then io_return (events @ es)
        else home_cell_pages env endpoint eventType before fuel (gp_endCursor page) (events @ es)) w1 = (Inr out, w')"
    by (auto simp: io_results home_cell_query_def)
  show ?case
  proof (cases "gp_hasNextPage page")
    case True
    with more.IH[of page es w1] rest obtain n es' where "n \<le> fuel" "home_pages ?q (gp_endCursor page) w1 n es' w'"
        "out = (events @ es) @ es'" by auto
    then show ?thesis using home_pages.more_pages[where q = ?q, OF q page True es] by fastforce
  next
    case False
    with rest have "out = events @ es" "w' = w1" by (auto simp: io_return_def)
    then show ?thesis using home_pages.last_page[where q = ?q, OF q page False es] by fastforce
  qed
qed

text \<open>What is listed is exactly what the endpoint serves, when it serves it in as many pages as may be asked for.\<close>

lemma home_cell_pages_exact:
  "home_cell_pages env endpoint eventType before fuel cursor [] w = (Inr out, w')
   \<longleftrightarrow> (\<exists>n\<le>fuel. home_pages (home_cell_query env endpoint eventType before) cursor w n out w')"
  using home_cell_pages_sound[of env endpoint eventType before fuel cursor "[]" w out w']
    home_cell_pages_complete[of env endpoint eventType before cursor w _ out w' fuel "[]"] by auto

section \<open>The lineages that are active\<close>

lemma active_loop_status:
  "active_loop fs = Inr active \<Longrightarrow> l \<in> set active \<Longrightarrow> \<exists>f. (f, l) \<in> set fs \<and> readMembershipStatus f = Inr 1"
proof (induction fs arbitrary: active)
  case (Cons p fs)
  obtain f k where p: "p = (f, k)" by (cases p)
  from Cons p show ?case
    by (fastforce simp: res_bind_Inr_iff split: if_splits)
qed simp

lemma active_loop_all:
  "active_loop fs = Inr active \<Longrightarrow> (f, l) \<in> set fs \<Longrightarrow> readMembershipStatus f = Inr 1
   \<Longrightarrow> f \<noteq> JNull \<Longrightarrow> f \<noteq> JUndef \<Longrightarrow> l \<in> set active"
proof (induction fs arbitrary: active)
  case (Cons p fs)
  obtain g k where p: "p = (g, k)" by (cases p)
  from Cons p show ?case
    by (fastforce simp: res_bind_Inr_iff split: if_splits)
qed simp

end
