(* ===== verification/CensusAdapter.thy ===== *)
theory CensusAdapter
  imports CensusReader SourceArchiveProps
begin

text \<open>
  Submitting a floor census, the adapters of \<open>watcher/src/census.ts\<close>.  \<open>DirectFloorCensusAdapter\<close> reads the
  chain, counts and signs; \<open>TeeFloorCensusAdapter\<close> has an enclave count and sign, and checks what it answers
  against the event that was submitted.  Both execute one transaction.

  The reader, the signer, the chain's client, the enclave and the clock are parameters.
\<close>

section \<open>Checks\<close>

definition requireAffectedCells :: "relayer_submit_input \<Rightarrow> js_error + js_value" where
  "requireAffectedCells inp =
     (case rsi_affected_cells inp of
        None \<Rightarrow> Inl ''finalized TEE result is missing affected_cells artifact''
      | Some cells \<Rightarrow> Inr cells)"

text \<open>A resolver takes the reference and the evidence manifest.\<close>

type_synonym 'w cells_resolver = "js_value option \<Rightarrow> js_value option \<Rightarrow> ('w, js_value) io"

definition resolveAffectedCellsForCensus ::
    "relayer_submit_input \<Rightarrow> 'w cells_resolver option \<Rightarrow> ('w, js_value) io" where
  "resolveAffectedCellsForCensus inp resolver =
     (case rsi_affected_cells inp of
        Some cells \<Rightarrow> io_return cells
      | None \<Rightarrow>
        (case resolver of
           None \<Rightarrow> io_throw ''finalized TEE result is missing affected_cells artifact''
         | Some resolve \<Rightarrow>
           if rsi_affected_cells_ref inp = None \<and> rsi_evidence_manifest inp = None
           then io_throw ''finalized TEE result is missing affected_cells artifact reference''
           else resolve (rsi_affected_cells_ref inp) (rsi_evidence_manifest inp)))"

definition packageIdFromTarget :: "string \<Rightarrow> js_error + string" where
  "packageIdFromTarget target =
     (let parts = split_str target ''::'' in
      if \<not> isNonEmptyText (part_of parts 0) \<or> part_of parts 1 \<noteq> Some ''accessor''
         \<or> part_of parts 2 \<noteq> Some ''set_floor_census''
      then Inl ''FLOOR_CENSUS_TARGET must be <PACKAGE_ID>::accessor::set_floor_census''
      else Inr (the (part_of parts 0)))"

definition readExecutionError :: "js_value \<Rightarrow> string option" where
  "readExecutionError status =
     (case field_of status ''error'' of
        JStr s \<Rightarrow> if length s > 0 then Some s else None
      | JObj fs \<Rightarrow> (case get_field fs ''message'' of JStr m \<Rightarrow> Some m | _ \<Rightarrow> None)
      | _ \<Rightarrow> None)"

definition readSuccessfulDigest :: "js_value \<Rightarrow> js_error + string option" where
  "readSuccessfulDigest response =
     (if field_of response ''$kind'' = JStr ''FailedTransaction''
      then Inl (coalesce (readExecutionError (field_of (field_of response ''FailedTransaction'') ''status''))
        ''floor census transaction failed'')
      else let status = field_of (field_of response ''Transaction'') ''status'' in
        if status \<noteq> JUndef \<and> field_of status ''success'' \<noteq> JBool True
        then Inl (coalesce (readExecutionError status) ''floor census transaction failed'')
        else Inr (readStringField (field_of response ''Transaction'') ''digest''))"

definition validateObjectId :: "string \<Rightarrow> string \<Rightarrow> js_error + unit" where
  "validateObjectId v name =
     (case objectIdBytes v of Inl _ \<Rightarrow> Inl (name @ '' must be a 32-byte object ID'') | Inr _ \<Rightarrow> Inr ())"

definition validateSafeInteger :: "int \<Rightarrow> string \<Rightarrow> js_error + unit" where
  "validateSafeInteger v name =
     ensure (v \<le> MAX_SAFE_INTEGER \<and> 0 \<le> v) (name @ '' must be a non-negative safe integer'')"

section \<open>The output of the enclave\<close>

definition readHexField :: "js_value \<Rightarrow> string \<Rightarrow> nat option \<Rightarrow> js_error + string" where
  "readHexField v k expectedBytes =
     (case readStringField v k of
        None \<Rightarrow> Inl (''Census TEE output '' @ k @ '' is missing'')
      | Some s \<Rightarrow>
        let normalized = (if starts_with s ''0x'' then drop 2 s else s) in
        if length normalized = 0 \<or> length normalized mod 2 \<noteq> 0 \<or> \<not> list_all is_hex normalized
           \<or> \<not> none_or (\<lambda>n. length normalized = n * 2) expectedBytes
        then Inl (''Census TEE output '' @ k @ '' is malformed'')
        else Inr (''0x'' @ List.map to_lower normalized))"

definition readCensusIntegerField :: "js_value \<Rightarrow> string \<Rightarrow> js_error + int" where
  "readCensusIntegerField v k =
     (case readCensusSafeInteger (field_of v k) of
        None \<Rightarrow> Inl (''Census TEE output '' @ k @ '' is malformed'')
      | Some n \<Rightarrow> Inr n)"

definition readU32Field :: "js_value \<Rightarrow> string \<Rightarrow> js_error + int" where
  "readU32Field v k =
     res_bind (readCensusIntegerField v k) (\<lambda>n.
       if n < 0 \<or> n > U32_MAX then Inl (''Census TEE output '' @ k @ '' is malformed'') else Inr n)"

definition readCountValue :: "js_value \<Rightarrow> js_error + int" where
  "readCountValue v =
     (case v of
        JNum q \<Rightarrow> if isSafeInteger q \<and> q \<ge> 0 then Inr \<lfloor>q\<rfloor>
                  else Inl ''Census TEE output registered_members_by_band is malformed''
      | JStr s \<Rightarrow> if is_canonical_decimal s then Inr (int (read_nat s))
                  else Inl ''Census TEE output registered_members_by_band is malformed''
      | _ \<Rightarrow> Inl ''Census TEE output registered_members_by_band is malformed'')"

fun read_counts :: "js_value list \<Rightarrow> js_error + int list" where
  "read_counts [] = Inr []"
| "read_counts (v # vs) = res_bind (readCountValue v) (\<lambda>n. res_bind (read_counts vs) (\<lambda>ns. Inr (n # ns)))"

definition readBandCounts :: "js_value \<Rightarrow> js_error + int list" where
  "readBandCounts v =
     (case v of
        JArr xs \<Rightarrow>
          if length xs \<noteq> BAND_COUNT then Inl ''Census TEE output registered_members_by_band must contain 3 values''
          else read_counts xs
      | _ \<Rightarrow> Inl ''Census TEE output registered_members_by_band must contain 3 values'')"

definition census_hexToBytes :: "string \<Rightarrow> js_error + bytes" where
  "census_hexToBytes v =
     (let normalized = normalizeHex v in
      if length normalized = 0 \<or> length normalized mod 2 \<noteq> 0 \<or> \<not> list_all is_lower_hex normalized
      then Inl ''hex bytes are malformed'' else Inr (hex_pairs normalized))"

record signed_census =
  sg_censusBcs :: bytes
  sg_censusBcsHex :: string
  sg_signature :: bytes
  sg_signatureHex :: string
  sg_publicKey :: bytes
  sg_publicKeyHex :: string

record census_tee_output = signed_census +
  to_counts :: "int list"
  to_eventUid :: string
  to_eventRevision :: int
  to_affectedCellsRoot :: string
  to_membershipRegistryId :: string
  to_cellCountIndexId :: string
  to_censusCheckpoint :: int

definition parseFloorCensusTeeOutput :: "js_value \<Rightarrow> js_error + census_tee_output" where
  "parseFloorCensusTeeOutput v =
     (let payload = readRecordField v ''payload'' in
      res_bind (readBandCounts (field_of payload ''registered_members_by_band'')) (\<lambda>counts.
      res_bind (readHexField v ''payload_bcs_hex'' None) (\<lambda>censusBcsHex.
      res_bind (readHexField v ''signature'' (Some ED25519_SIGNATURE_BYTES)) (\<lambda>signatureHex.
      res_bind (readHexField v ''public_key'' (Some ED25519_PUBLIC_KEY_BYTES)) (\<lambda>publicKeyHex.
      res_bind (census_hexToBytes censusBcsHex) (\<lambda>censusBcs.
      res_bind (census_hexToBytes signatureHex) (\<lambda>signature.
      res_bind (census_hexToBytes publicKeyHex) (\<lambda>publicKey.
      res_bind (readHexField payload ''event_uid'' (Some 32)) (\<lambda>eventUid.
      res_bind (readU32Field payload ''event_revision'') (\<lambda>eventRevision.
      res_bind (readHexField payload ''affected_cells_root'' (Some 32)) (\<lambda>affectedCellsRoot.
      res_bind (readHexField payload ''membership_registry_id'' (Some 32)) (\<lambda>membershipRegistryId.
      res_bind (readHexField payload ''cell_count_index_id'' (Some 32)) (\<lambda>cellCountIndexId.
      res_bind (readCensusIntegerField payload ''census_checkpoint'') (\<lambda>censusCheckpoint.
        Inr \<lparr>sg_censusBcs = censusBcs, sg_censusBcsHex = censusBcsHex, sg_signature = signature,
          sg_signatureHex = signatureHex, sg_publicKey = publicKey, sg_publicKeyHex = publicKeyHex,
          to_counts = counts, to_eventUid = eventUid, to_eventRevision = eventRevision,
          to_affectedCellsRoot = affectedCellsRoot, to_membershipRegistryId = membershipRegistryId,
          to_cellCountIndexId = cellCountIndexId, to_censusCheckpoint = censusCheckpoint\<rparr>))))))))))))))"

definition assertCensusTeeOutputMatchesInput :: "census_tee_output \<Rightarrow> oracle_payload \<Rightarrow> string \<Rightarrow> string \<Rightarrow> js_error + unit" where
  "assertCensusTeeOutputMatchesInput signedOut payload membershipRegistryId cellCountIndexId =
     (if normalizeHex (to_eventUid signedOut) \<noteq> normalizeHex (p_event_uid payload)
      then Inl ''census TEE output event_uid does not match submitted event''
      else if to_eventRevision signedOut \<noteq> p_event_revision payload
      then Inl ''census TEE output event_revision does not match submitted event''
      else if normalizeHex (to_affectedCellsRoot signedOut) \<noteq> normalizeHex (p_affected_cells_root payload)
      then Inl ''census TEE output affected_cells_root does not match submitted event''
      else if normalizeHex (to_membershipRegistryId signedOut) \<noteq> normalizeHex membershipRegistryId
      then Inl ''census TEE output membership_registry_id does not match submit object''
      else if normalizeHex (to_cellCountIndexId signedOut) \<noteq> normalizeHex cellCountIndexId
      then Inl ''census TEE output cell_count_index_id does not match submit object''
      else Inr ())"

section \<open>Signing and submitting\<close>

record 'w census_signer =
  cs_sign :: "bytes \<Rightarrow> ('w, bytes) io"
  cs_publicKey :: bytes
  cs_address :: string

definition signFloorCensusResult :: "'w census_signer \<Rightarrow> floor_census_fields \<Rightarrow> ('w, signed_census) io" where
  "signFloorCensusResult signer inp =
     io_bind (io_lift (encodeFloorCensusResultBcs inp)) (\<lambda>censusBcs.
     io_bind (cs_sign signer censusBcs) (\<lambda>signature.
     io_ensure (length signature = ED25519_SIGNATURE_BYTES) ''census signature must be 64 bytes'' (
     io_ensure (length (cs_publicKey signer) = ED25519_PUBLIC_KEY_BYTES) ''census public key must be 32 bytes'' (
       io_return \<lparr>sg_censusBcs = censusBcs, sg_censusBcsHex = bytesToPrefixedHex censusBcs, sg_signature = signature,
         sg_signatureHex = bytesToPrefixedHex signature, sg_publicKey = cs_publicKey signer,
         sg_publicKeyHex = bytesToPrefixedHex (cs_publicKey signer)\<rparr>))))"

record 'w census_reader =
  cr_listHomeCells :: "string \<Rightarrow> int option \<Rightarrow> ('w, home_cell_event list) io"
  cr_listActive :: "string \<Rightarrow> string list \<Rightarrow> int option \<Rightarrow> ('w, string set) io"
  cr_findCampaign :: "string \<Rightarrow> string \<Rightarrow> int \<Rightarrow> ('w, (string \<times> int) option) io"

record 'w census_config =
  cf_target :: string
  cf_pauseState :: string
  cf_verifierRegistry :: string
  cf_categoryPool :: string
  cf_mainPool :: string
  cf_membershipRegistry :: string
  cf_cellCountIndex :: string
  cf_signer :: "'w census_signer option"
  cf_loadSigner :: "('w, 'w census_signer) io option"
  cf_client :: "(sui_transaction \<Rightarrow> 'w census_signer \<Rightarrow> ('w, js_value) io) option"
  cf_reader :: "'w census_reader option"
  cf_now :: "'w \<Rightarrow> int \<times> 'w"
  cf_configurationError :: "string option"

record census_run_input =
  cu_sourceEventId :: string
  cu_result :: tee_core_result
  cu_relayerDigest :: "string option"
  cu_disasterEventId :: "string option"

record census_success =
  cx_digest :: "string option"
  cx_campaignId :: string
  cx_disasterEventId :: string
  cx_counts :: "int list"
  cx_censusBcsHex :: string
  cx_signatureHex :: string
  cx_publicKeyHex :: string

datatype census_run_result = CensusSkipped string | CensusSucceeded census_success

type_synonym 'w census_adapter = "census_run_input \<Rightarrow> ('w, census_run_result) io"

definition createSetFloorCensusTransaction ::
    "'w census_config \<Rightarrow> string \<Rightarrow> string \<Rightarrow> string \<Rightarrow> bytes \<Rightarrow> bytes \<Rightarrow> bytes \<Rightarrow> sui_transaction" where
  "createSetFloorCensusTransaction config senderAddress campaignId disasterEventId censusBcs signature publicKey =
     \<lparr>tx_sender = senderAddress,
      tx_calls = [(cf_target config,
        [ArgObject (cf_pauseState config), ArgObject campaignId, ArgObject disasterEventId,
         ArgObject (cf_membershipRegistry config), ArgObject (cf_cellCountIndex config),
         ArgObject (cf_verifierRegistry config), ArgObject (cf_categoryPool config), ArgObject (cf_mainPool config),
         ArgVectorU8 censusBcs, ArgVectorU8 signature, ArgVectorU8 publicKey, ArgClock])]\<rparr>"

text \<open>\<open>config.signer ?? await config.loadSigner?.()\<close>.\<close>

definition load_census_signer :: "'w census_config \<Rightarrow> ('w, 'w census_signer option) io" where
  "load_census_signer config =
     (case cf_signer config of
        Some s \<Rightarrow> io_return (Some s)
      | None \<Rightarrow> (case cf_loadSigner config of None \<Rightarrow> io_return None
          | Some load \<Rightarrow> io_bind load (\<lambda>s. io_return (Some s))))"

text \<open>The checks both adapters start with; the continuation gets what they establish.\<close>

definition census_ready ::
    "'w census_config \<Rightarrow> census_run_input
     \<Rightarrow> (relayer_submit_input \<Rightarrow> string \<Rightarrow> string \<Rightarrow> 'w census_signer \<Rightarrow> 'w census_reader
         \<Rightarrow> (sui_transaction \<Rightarrow> 'w census_signer \<Rightarrow> ('w, js_value) io) \<Rightarrow> ('w, census_run_result) io)
     \<Rightarrow> ('w, census_run_result) io" where
  "census_ready config inp rest =
     (case cf_configurationError config of Some message \<Rightarrow> io_throw message | None \<Rightarrow>
      io_bind (io_lift (validateRelayerSubmitInput (tee_json (cu_result inp)))) (\<lambda>validation.
      case validation of Inl (_, message) \<Rightarrow> io_return (CensusSkipped message) | Inr parsed \<Rightarrow>
      (case (cu_relayerDigest inp, cu_disasterEventId inp) of
        (Some relayerDigest, Some disasterEventId) \<Rightarrow>
          io_bind (load_census_signer config) (\<lambda>loaded.
          case loaded of None \<Rightarrow> io_throw ''Floor census submit requires a signer'' | Some signer \<Rightarrow>
          (case cf_reader config of None \<Rightarrow> io_throw ''Floor census submit requires an on-chain reader'' | Some reader \<Rightarrow>
          (case cf_client config of None \<Rightarrow> io_throw ''Floor census submit requires a Sui client'' | Some client \<Rightarrow>
            rest parsed relayerDigest disasterEventId signer reader client)))
      | _ \<Rightarrow> io_return (CensusSkipped ''relayer submit digest and disaster event id are required''))))"

text \<open>The campaign the relayer's transaction created.\<close>

definition census_campaign ::
    "'w census_reader \<Rightarrow> string \<Rightarrow> oracle_payload \<Rightarrow> ('w, string \<times> int) io" where
  "census_campaign reader relayerDigest payload =
     io_bind (cr_findCampaign reader relayerDigest (p_event_uid payload) (p_event_revision payload)) (\<lambda>campaign.
     case campaign of
       None \<Rightarrow> io_throw ''relayer transaction did not include CampaignCreated for census''
     | Some c \<Rightarrow> io_return c)"

text \<open>The transaction and the result, the end of both adapters.\<close>

definition submit_census ::
    "'w census_config \<Rightarrow> 'w census_signer \<Rightarrow> (sui_transaction \<Rightarrow> 'w census_signer \<Rightarrow> ('w, js_value) io)
     \<Rightarrow> string \<Rightarrow> string \<Rightarrow> int list \<Rightarrow> 'x signed_census_scheme \<Rightarrow> ('w, census_run_result) io" where
  "submit_census config signer client campaignId disasterEventId counts signedOut =
     io_bind (client (createSetFloorCensusTransaction config (cs_address signer) campaignId disasterEventId
        (sg_censusBcs signedOut) (sg_signature signedOut) (sg_publicKey signedOut)) signer) (\<lambda>response.
     io_bind (io_lift (readSuccessfulDigest response)) (\<lambda>digest.
     io_return (CensusSucceeded \<lparr>cx_digest = digest, cx_campaignId = campaignId, cx_disasterEventId = disasterEventId,
       cx_counts = counts, cx_censusBcsHex = sg_censusBcsHex signedOut, cx_signatureHex = sg_signatureHex signedOut,
       cx_publicKeyHex = sg_publicKeyHex signedOut\<rparr>)))"

definition census_fields_of ::
    "'w census_config \<Rightarrow> oracle_payload \<Rightarrow> int \<Rightarrow> census_snapshot \<Rightarrow> int \<Rightarrow> floor_census_fields" where
  "census_fields_of config payload checkpoint snapshot issuedAtMs =
     \<lparr>ff_eventUid = p_event_uid payload, ff_eventRevision = p_event_revision payload,
      ff_affectedCellsRoot = p_affected_cells_root payload, ff_membershipRegistryId = cf_membershipRegistry config,
      ff_cellCountIndexId = cf_cellCountIndex config, ff_censusCheckpoint = checkpoint,
      ff_registeredMembersByBand = sn_counts snapshot, ff_countedCellsRoot = sn_countedCellsRoot snapshot,
      ff_issuedAtMs = issuedAtMs\<rparr>"

definition counts_input_of ::
    "oracle_payload \<Rightarrow> js_value \<Rightarrow> home_cell_event list \<Rightarrow> string set \<Rightarrow> census_counts_input" where
  "counts_input_of payload affectedCells homeCellEvents activeLineages =
     \<lparr>ci_affectedCells = affected_of_json affectedCells, ci_homeCellEvents = homeCellEvents,
      ci_activeLineages = activeLineages, ci_cutoffMs = p_occurred_at_ms payload,
      ci_expectedAffectedCellsRoot = p_affected_cells_root payload, ci_eventUid = p_event_uid payload,
      ci_eventRevision = p_event_revision payload\<rparr>"

definition DirectFloorCensusAdapter :: "hash_fn \<Rightarrow> 'w census_config \<Rightarrow> 'w census_adapter" where
  "DirectFloorCensusAdapter sha config inp =
     census_ready config inp (\<lambda>parsed relayerDigest disasterEventId signer reader client.
       let payload = payload_of_json (rsi_payload parsed) in
       io_bind (io_lift (requireAffectedCells parsed)) (\<lambda>affectedCells.
       io_bind (census_campaign reader relayerDigest payload) (\<lambda>(campaignId, checkpoint).
       io_bind (io_lift (packageIdFromTarget (cf_target config))) (\<lambda>packageId.
       io_bind (cr_listHomeCells reader packageId (Some checkpoint)) (\<lambda>homeCellEvents.
       io_bind (cr_listActive reader (cf_membershipRegistry config) (unique (List.map he_lineage homeCellEvents))
         (Some checkpoint)) (\<lambda>activeLineages.
       io_bind (io_lift (computeFloorCensusSnapshot sha
         (counts_input_of payload affectedCells homeCellEvents activeLineages))) (\<lambda>snapshot.
       io_bind (read_clock (cf_now config)) (\<lambda>issuedAtMs.
       io_bind (signFloorCensusResult signer (census_fields_of config payload checkpoint snapshot issuedAtMs)) (\<lambda>signedOut.
         submit_census config signer client campaignId disasterEventId (sn_counts snapshot) signedOut)))))))))"

text \<open>The bundle an enclave counts from, as the object that is sent.\<close>

definition buildFloorCensusInputBundle ::
    "tee_core_result \<Rightarrow> string \<Rightarrow> string \<Rightarrow> string \<Rightarrow> string \<Rightarrow> string \<Rightarrow> int \<Rightarrow> 'w cells_resolver option
     \<Rightarrow> ('w, js_value) io" where
  "buildFloorCensusInputBundle result packageId campaignId disasterEventId membershipRegistryId cellCountIndexId
       issuedAtMs resolver =
     io_bind (io_lift (validateRelayerSubmitInput (tee_json result))) (\<lambda>validation.
     case validation of Inl (_, message) \<Rightarrow> io_throw message | Inr parsed \<Rightarrow>
     io_bind (io_lift (validateObjectId campaignId ''campaign_id'')) (\<lambda>_.
     io_bind (io_lift (validateObjectId disasterEventId ''disaster_event_id'')) (\<lambda>_.
     io_bind (io_lift (validateObjectId membershipRegistryId ''membership_registry_id'')) (\<lambda>_.
     io_bind (io_lift (validateObjectId cellCountIndexId ''cell_count_index_id'')) (\<lambda>_.
     io_bind (io_lift (validateObjectId packageId ''package_id'')) (\<lambda>_.
     io_bind (io_lift (validateSafeInteger issuedAtMs ''issued_at_ms'')) (\<lambda>_.
     io_bind (resolveAffectedCellsForCensus parsed resolver) (\<lambda>affectedCells.
     let payload = payload_of_json (rsi_payload parsed) in
     io_return (JObj
       [(''package_id'', JStr packageId), (''event_uid'', JStr (p_event_uid payload)),
        (''event_revision'', jint (p_event_revision payload)), (''occurred_at_ms'', jint (p_occurred_at_ms payload)),
        (''affected_cells_root'', JStr (p_affected_cells_root payload)), (''issued_at_ms'', jint issuedAtMs),
        (''campaign_id'', JStr campaignId), (''disaster_event_id'', JStr disasterEventId),
        (''membership_registry_id'', JStr membershipRegistryId), (''cell_count_index_id'', JStr cellCountIndexId),
        (''affected_cells'', affectedCells)])))))))))"

definition metadata_json :: "enclave_metadata \<Rightarrow> js_value" where
  "metadata_json md = JObj
     [(''verifier_config_key'', jint (em_verifier_config_key md)),
      (''verifier_config_version'', jint (em_verifier_config_version md)),
      (''enclave_instance_public_key'', JStr (em_enclave_instance_public_key md))]"

definition TeeFloorCensusAdapter ::
    "'w census_config \<Rightarrow> (js_value \<Rightarrow> ('w, js_value) io) \<Rightarrow> enclave_metadata \<Rightarrow> 'w census_adapter" where
  "TeeFloorCensusAdapter config processData registrationMetadata inp =
     census_ready config inp (\<lambda>parsed relayerDigest disasterEventId signer reader client.
       let payload = payload_of_json (rsi_payload parsed) in
       io_bind (census_campaign reader relayerDigest payload) (\<lambda>(campaignId, checkpoint).
       io_bind (io_lift (packageIdFromTarget (cf_target config))) (\<lambda>packageId.
       io_bind (read_clock (cf_now config)) (\<lambda>issuedAtMs.
       io_bind (buildFloorCensusInputBundle (cu_result inp) packageId campaignId disasterEventId
         (cf_membershipRegistry config) (cf_cellCountIndex config) issuedAtMs None) (\<lambda>bundle.
       io_bind (processData (JObj [(''action'', JStr ''process_data''), (''payload'', bundle),
         (''registration_metadata'', metadata_json registrationMetadata)])) (\<lambda>response.
       io_bind (io_lift (parseFloorCensusTeeOutput response)) (\<lambda>signedOut.
       io_ensure (normalizeHex (sg_publicKeyHex signedOut)
           = normalizeHex (em_enclave_instance_public_key registrationMetadata))
         ''census TEE public key does not match registration metadata'' (
       io_bind (io_lift (assertCensusTeeOutputMatchesInput signedOut payload (cf_membershipRegistry config)
         (cf_cellCountIndex config))) (\<lambda>_.
         submit_census config signer client campaignId disasterEventId (to_counts signedOut) signedOut)))))))))"

section \<open>What is submitted\<close>

definition loaded_signer :: "'w census_config \<Rightarrow> 'w \<Rightarrow> 'w census_signer \<Rightarrow> 'w \<Rightarrow> bool" where
  "loaded_signer config w signer w' \<longleftrightarrow>
     cf_signer config = Some signer \<and> w' = w
     \<or> cf_signer config = None \<and> (\<exists>load. cf_loadSigner config = Some load \<and> load w = (Inr signer, w'))"

lemma load_census_signer_Inr:
  "load_census_signer config w = (Inr (Some signer), w') \<longleftrightarrow> loaded_signer config w signer w'"
  by (auto simp: load_census_signer_def loaded_signer_def io_results split: option.splits)

lemma census_ready_cases:
  assumes "census_ready config inp rest w = (Inr r, w')"
  obtains (skipped) reason where "r = CensusSkipped reason" "w' = w"
  | (ready) parsed digest dis signer reader client w1 where
    "cf_configurationError config = None" "validateRelayerSubmitInput (tee_json (cu_result inp)) = Inr (Inr parsed)"
    "cu_relayerDigest inp = Some digest" "cu_disasterEventId inp = Some dis" "cf_reader config = Some reader"
    "cf_client config = Some client" "loaded_signer config w signer w1"
    "rest parsed digest dis signer reader client w1 = (Inr r, w')"
proof -
  have cfg: "cf_configurationError config = None"
    using assms by (cases "cf_configurationError config") (auto simp: census_ready_def io_throw_Inr)
  obtain x where x: "validateRelayerSubmitInput (tee_json (cu_result inp)) = Inr x" using validateRelayer_total by blast
  note run = assms [unfolded census_ready_def cfg option.case x]
  show ?thesis
  proof (cases "\<exists>parsed digest dis. x = Inr parsed \<and> cu_relayerDigest inp = Some digest \<and> cu_disasterEventId inp = Some dis")
    case True
    then obtain parsed digest dis where *: "x = Inr parsed" "cu_relayerDigest inp = Some digest"
      "cu_disasterEventId inp = Some dis" by blast
    from run * obtain loaded w1 where l: "load_census_signer config w = (Inr loaded, w1)"
      and rest: "(case loaded of None \<Rightarrow> io_throw ''Floor census submit requires a signer'' | Some signer \<Rightarrow>
          (case cf_reader config of None \<Rightarrow> io_throw ''Floor census submit requires an on-chain reader'' | Some reader \<Rightarrow>
          (case cf_client config of None \<Rightarrow> io_throw ''Floor census submit requires a Sui client'' | Some client \<Rightarrow>
            rest parsed digest dis signer reader client))) w1 = (Inr r, w')"
      by (auto simp: io_inversions)
    then obtain signer where s: "loaded = Some signer" by (cases loaded) (auto simp: io_throw_Inr)
    obtain reader where reader: "cf_reader config = Some reader"
      using rest s by (cases "cf_reader config") (auto simp: io_throw_Inr)
    obtain client where client: "cf_client config = Some client"
      using rest s reader by (cases "cf_client config") (auto simp: io_throw_Inr)
    have "rest parsed digest dis signer reader client w1 = (Inr r, w')"
      using rest s reader client by simp
    with ready[OF cfg _ *(2,3) reader client] l s * x load_census_signer_Inr show ?thesis by metis
  next
    case False
    with run have "w' = w \<and> (\<exists>reason. r = CensusSkipped reason)"
      by (cases x; cases "cu_relayerDigest inp"; cases "cu_disasterEventId inp") (auto simp: io_results)
    with skipped show ?thesis by blast
  qed
qed

lemma submit_census_Inr:
  "submit_census config signer client campaignId dis counts signedOut w = (Inr r, w') \<longleftrightarrow>
     (\<exists>response digest. client (createSetFloorCensusTransaction config (cs_address signer) campaignId dis
        (sg_censusBcs signedOut) (sg_signature signedOut) (sg_publicKey signedOut)) signer w = (Inr response, w')
      \<and> readSuccessfulDigest response = Inr digest
      \<and> r = CensusSucceeded \<lparr>cx_digest = digest, cx_campaignId = campaignId, cx_disasterEventId = dis,
          cx_counts = counts, cx_censusBcsHex = sg_censusBcsHex signedOut, cx_signatureHex = sg_signatureHex signedOut,
          cx_publicKeyHex = sg_publicKeyHex signedOut\<rparr>)"
  by (auto simp: submit_census_def io_results)

lemma census_campaign_Inr:
  "census_campaign reader digest payload w = (Inr c, w') \<longleftrightarrow>
     cr_findCampaign reader digest (p_event_uid payload) (p_event_revision payload) w = (Inr (Some c), w')"
  proof
  assume "census_campaign reader digest payload w = (Inr c, w')"
  then obtain r where r: "cr_findCampaign reader digest (p_event_uid payload) (p_event_revision payload) w = (Inr r, w')
      \<and> r = Some c"
    by (fastforce simp: census_campaign_def io_results split: option.splits)
  then show "cr_findCampaign reader digest (p_event_uid payload) (p_event_revision payload) w = (Inr (Some c), w')"
    by simp
qed (simp add: census_campaign_def io_bind_def io_return_def)

lemma signFloorCensusResult_Inr:
  "signFloorCensusResult signer inp w = (Inr out, w') \<longleftrightarrow>
     encodeFloorCensusResultBcs inp = Inr (sg_censusBcs out) \<and> cs_sign signer (sg_censusBcs out) w = (Inr (sg_signature out), w')
     \<and> length (sg_signature out) = ED25519_SIGNATURE_BYTES \<and> length (cs_publicKey signer) = ED25519_PUBLIC_KEY_BYTES
     \<and> sg_publicKey out = cs_publicKey signer \<and> sg_censusBcsHex out = bytesToPrefixedHex (sg_censusBcs out)
     \<and> sg_signatureHex out = bytesToPrefixedHex (sg_signature out)
     \<and> sg_publicKeyHex out = bytesToPrefixedHex (sg_publicKey out)"
  by (auto simp: signFloorCensusResult_def io_results intro!: signed_census.equality)

text \<open>C22. The direct adapter submits the count it made: when it succeeds, the result was validated, the campaign
  is the one of the relayer's transaction, the registrations and the active lineages were read at that campaign's
  checkpoint, the counts are those of the snapshot over them with the event's time as the cutoff, and the one
  transaction it executed carries the canonical bytes of exactly these fields with a 64-byte signature the signer
  made over them.\<close>

theorem direct_census_submits_count:
  assumes "DirectFloorCensusAdapter sha config inp w = (Inr (CensusSucceeded s), w')"
  shows "\<exists>parsed cells reader signer client digest checkpoint package w1 w2 w3 w4 events active snap t w5 w6 bcs sig response.
    validateRelayerSubmitInput (tee_json (cu_result inp)) = Inr (Inr parsed) \<and> rsi_affected_cells parsed = Some cells
    \<and> loaded_signer config w signer w1 \<and> cf_reader config = Some reader \<and> cf_client config = Some client
    \<and> cu_relayerDigest inp = Some digest \<and> cu_disasterEventId inp = Some (cx_disasterEventId s)
    \<and> cr_findCampaign reader digest (p_event_uid (payload_of_json (rsi_payload parsed)))
        (p_event_revision (payload_of_json (rsi_payload parsed))) w1 = (Inr (Some (cx_campaignId s, checkpoint)), w2)
    \<and> packageIdFromTarget (cf_target config) = Inr package
    \<and> cr_listHomeCells reader package (Some checkpoint) w2 = (Inr events, w3)
    \<and> cr_listActive reader (cf_membershipRegistry config) (unique (List.map he_lineage events)) (Some checkpoint) w3
        = (Inr active, w4)
    \<and> computeFloorCensusSnapshot sha (counts_input_of (payload_of_json (rsi_payload parsed)) cells events active) = Inr snap
    \<and> cx_counts s = sn_counts snap \<and> cf_now config w4 = (t, w5)
    \<and> encodeFloorCensusResultBcs (census_fields_of config (payload_of_json (rsi_payload parsed)) checkpoint snap t) = Inr bcs
    \<and> cs_sign signer bcs w5 = (Inr sig, w6) \<and> length sig = ED25519_SIGNATURE_BYTES
    \<and> client (createSetFloorCensusTransaction config (cs_address signer) (cx_campaignId s) (cx_disasterEventId s)
        bcs sig (cs_publicKey signer)) signer w6 = (Inr response, w')
    \<and> readSuccessfulDigest response = Inr (cx_digest s)"
  using assms unfolding DirectFloorCensusAdapter_def
proof (cases rule: census_ready_cases)
  case skipped
  then show ?thesis by simp
next
  case (ready parsed digest dis signer reader client w1)
  note run = ready(8) [unfolded Let_def]
  obtain cells where cells: "rsi_affected_cells parsed = Some cells" "requireAffectedCells parsed = Inr cells"
    using run by (auto simp: io_results requireAffectedCells_def split: option.splits)
  from run cells obtain campaign checkpoint package w2 w3 w4 w5 w6 events active snap t out where
    "cr_findCampaign reader digest (p_event_uid (payload_of_json (rsi_payload parsed)))
        (p_event_revision (payload_of_json (rsi_payload parsed))) w1 = (Inr (Some (campaign, checkpoint)), w2)"
    "packageIdFromTarget (cf_target config) = Inr package"
    "cr_listHomeCells reader package (Some checkpoint) w2 = (Inr events, w3)"
    "cr_listActive reader (cf_membershipRegistry config) (unique (List.map he_lineage events)) (Some checkpoint) w3
        = (Inr active, w4)"
    "computeFloorCensusSnapshot sha (counts_input_of (payload_of_json (rsi_payload parsed)) cells events active) = Inr snap"
    "cf_now config w4 = (t, w5)"
    "signFloorCensusResult signer (census_fields_of config (payload_of_json (rsi_payload parsed)) checkpoint snap t) w5
       = (Inr out, w6)"
    "submit_census config signer client campaign dis (sn_counts snap) out w6 = (Inr (CensusSucceeded s), w')"
    by (auto simp: io_results census_campaign_Inr)
  with ready cells(1) show ?thesis
    unfolding signFloorCensusResult_Inr submit_census_Inr by fastforce
qed

text \<open>A chain that counts what is called: a campaign at checkpoint 7, one registration, and a transaction that succeeds.\<close>

definition demo_census_signer :: "nat census_signer" where
  "demo_census_signer = \<lparr>cs_sign = (\<lambda>_ n. (Inr (replicate 64 1), n + 1)), cs_publicKey = replicate 32 2, cs_address = ''0xabc''\<rparr>"

definition demo_census_config :: "nat census_config" where
  "demo_census_config = \<lparr>cf_target = sample_uid @ ''::accessor::set_floor_census'', cf_pauseState = ''0x1'',
     cf_verifierRegistry = ''0x2'', cf_categoryPool = ''0x3'', cf_mainPool = ''0x4'', cf_membershipRegistry = sample_uid,
     cf_cellCountIndex = sample_uid, cf_signer = Some demo_census_signer, cf_loadSigner = None,
     cf_client = Some (\<lambda>_ _ n. (Inr (JObj [(''Transaction'', JObj [(''digest'', JStr ''9xQ'')])]), n + 1)),
     cf_reader = Some \<lparr>cr_listHomeCells = (\<lambda>_ _ n. (Inr [\<lparr>he_lineage = ''a'', he_homeCell = ''1'', he_registeredAtMs = 5\<rparr>], n)),
       cr_listActive = (\<lambda>_ _ _ n. (Inr {''a''}, n)), cr_findCampaign = (\<lambda>_ _ _ n. (Inr (Some (sample_uid, 7)), n))\<rparr>,
     cf_now = (\<lambda>n. (9, n)), cf_configurationError = None\<rparr>"

definition demo_census_input :: census_run_input where
  "demo_census_input = \<lparr>cu_sourceEventId = ''us7000abcd'', cu_result = TeeFinalized demo_result,
     cu_relayerDigest = Some ''8aB'', cu_disasterEventId = Some sample_uid\<rparr>"

lemma split_by_part:
  "CHR '':'' \<notin> set u \<Longrightarrow> split_by ''::'' part (u @ ''::'' @ s) = (part @ u) # split_by ''::'' [] s"
  by (induction u arbitrary: part) (auto simp: starts_with_def)

lemma demo_package: "packageIdFromTarget (cf_target demo_census_config) = Inr sample_uid"
proof -
  have "is_prefixed_hex32 sample_uid" by (simp add: sample_uid_def)
  then have "take 2 sample_uid = ''0x''" "list_all is_lower_hex (drop 2 sample_uid)"
    by (simp_all add: is_prefixed_hex32_def starts_with_def numeral_2_eq_2)
  then obtain u where u: "sample_uid = ''0x'' @ u" "list_all is_lower_hex u"
    by (metis append_take_drop_id)
  have "CHR '':'' \<notin> set u" using u(2) by (force simp: list_all_iff is_lower_hex_def is_digit_def)
  then have "CHR '':'' \<notin> set sample_uid" unfolding u(1) by simp
  from split_by_part [OF this, of "[]" "''accessor::set_floor_census''"]
  have "split_str (cf_target demo_census_config) ''::'' = [sample_uid, ''accessor'', ''set_floor_census'']"
    by (simp add: split_str_def demo_census_config_def starts_with_def)
  moreover have "length sample_uid > 0" unfolding u(1) by simp
  ultimately show ?thesis by (simp add: packageIdFromTarget_def part_of_def isNonEmptyText_def)
qed

lemma demo_uid_hex: "normalizeHex sample_uid = drop 2 sample_uid" "census_hexBytes32 sample_uid = Inr (hex_pairs (drop 2 sample_uid))"
proof -
  have "is_prefixed_hex32 sample_uid" by (simp add: sample_uid_def)
  from normalize_lower [OF this] have "drop 2 (''0x'' @ normalizeHex sample_uid) = drop 2 sample_uid"
    by (simp add: normalizeHexBytes_def normalizeHex_def strip0x_def)
  then show n: "normalizeHex sample_uid = drop 2 sample_uid" by simp
  with \<open>is_prefixed_hex32 sample_uid\<close> show "census_hexBytes32 sample_uid = Inr (hex_pairs (drop 2 sample_uid))"
    by (simp add: census_hexBytes32_def Let_def is_prefixed_hex32_def)
qed

lemma demo_payload_parts: "payload_of_json sample_payload_json = sample_payload" "p_event_uid sample_payload = sample_uid"
  "p_event_revision sample_payload = 1" "p_affected_cells_root sample_payload = sample_uid"
  "p_occurred_at_ms sample_payload = 1700000000000"
  by (simp_all add: sample_payload_of_json sample_payload_def)

lemma demo_counts:
  "computeFloorCensusSnapshot demo_sha (counts_input_of sample_payload demo_cells
     [\<lparr>he_lineage = ''a'', he_homeCell = ''1'', he_registeredAtMs = 5\<rparr>] {''a''})
   = Inr \<lparr>sn_counts = [1, 0, 0], sn_countedCellsRoot = sample_uid\<rparr>"
proof -
  have dec: "canonicalU64Decimal ''1'' = Inr ''1''" "canonicalU64Decimal ''2'' = Inr ''2''" "read_nat ''1'' = 1" "read_nat ''2'' = 2"
    "show_nat (Suc 0) = ''1''" "show_nat 2 = ''2''" by code_simp+
  have root: "censusMerkleRoot demo_sha [u, v] = Some (hexToBytes sample_uid)" for u v
    by (simp add: censusMerkleRoot_def census_root_loop.simps demo_sha_def)
  have cells: "affected_cells (affected_of_json demo_cells)
      = [\<lparr>h3_index = ''1'', intensity_value = 600, cell_band = 1\<rparr>, \<lparr>h3_index = ''2'', intensity_value = 700, cell_band = 2\<rparr>]"
    "event_uid (affected_of_json demo_cells) = sample_uid" "event_revision (affected_of_json demo_cells) = 1"
    by (simp_all add: affected_of_json_def demo_cells_def field_of_def get_field_def)
  have "bytesToPrefixedHex (hexToBytes sample_uid) = sample_uid"
    by (simp add: bytesToPrefixedHex_hexToBytes sample_uid_def)
  then show ?thesis
    by (simp add: computeFloorCensusSnapshot_def counts_input_of_def demo_root validateCensusBinding_def demo_payload_parts
        cells BAND_COUNT_def MAX_SAFE_INTEGER_def dec countedCellsRoot_def sort_by_def counted_leaf_def census_u64_def
        U64_MAX_def CENSUS_SHARD_COUNT_def root compareBigint_def)
qed

lemma demo_encoded: "\<exists>bcs. encodeFloorCensusResultBcs (census_fields_of demo_census_config sample_payload 7
    \<lparr>sn_counts = [1, 0, 0], sn_countedCellsRoot = sample_uid\<rparr> 9) = Inr bcs"
  by (simp add: encodeFloorCensusResultBcs_def census_fields_of_def demo_census_config_def demo_payload_parts demo_uid_hex(2)
      BAND_COUNT_def census_u64_def census_u32_def u64Vector_def
      CENSUS_VERIFIER_VERSION_def CENSUS_SHARD_COUNT_def U64_MAX_def U32_MAX_def)

lemma demo_census_ready:
  "census_ready demo_census_config demo_census_input rest w
   = rest demo_submit ''8aB'' sample_uid demo_census_signer (the (cf_reader demo_census_config)) (the (cf_client demo_census_config)) w"
  by (simp add: census_ready_def demo_census_input_def tee_json_def demo_result_accepted io_bind_def io_lift_def io_return_def
      load_census_signer_def demo_census_config_def)

lemma demo_census_parts:
  "the (cf_reader demo_census_config) = \<lparr>cr_listHomeCells = (\<lambda>_ _ n. (Inr [\<lparr>he_lineage = ''a'', he_homeCell = ''1'', he_registeredAtMs = 5\<rparr>], n)),
       cr_listActive = (\<lambda>_ _ _ n. (Inr {''a''}, n)), cr_findCampaign = (\<lambda>_ _ _ n. (Inr (Some (sample_uid, 7)), n))\<rparr>"
  "the (cf_client demo_census_config) = (\<lambda>_ _ n. (Inr (JObj [(''Transaction'', JObj [(''digest'', JStr ''9xQ'')])]), n + 1))"
  "cf_now demo_census_config = (\<lambda>n. (9, n))" "cf_membershipRegistry demo_census_config = sample_uid"
  "cf_cellCountIndex demo_census_config = sample_uid" "cu_result demo_census_input = TeeFinalized demo_result"
  by (simp_all add: demo_census_config_def demo_census_input_def)

lemma demo_digest: "readSuccessfulDigest (JObj [(''Transaction'', JObj [(''digest'', JStr ''9xQ'')])]) = Inr (Some ''9xQ'')"
  by (simp add: readSuccessfulDigest_def readStringField_def field_of_def get_field_def)

lemma demo_direct_run:
  "\<exists>s. DirectFloorCensusAdapter demo_sha demo_census_config demo_census_input 0 = (Inr (CensusSucceeded s), 2) \<and> cx_counts s = [1, 0, 0]"
proof -
  obtain bcs where bcs: "encodeFloorCensusResultBcs (census_fields_of demo_census_config sample_payload 7
    \<lparr>sn_counts = [1, 0, 0], sn_countedCellsRoot = sample_uid\<rparr> 9) = Inr bcs" using demo_encoded by blast
  have parts: "rsi_payload demo_submit = sample_payload_json" "requireAffectedCells demo_submit = Inr demo_cells"
    by (simp_all add: demo_submit_parts requireAffectedCells_def)
  show ?thesis
    unfolding DirectFloorCensusAdapter_def demo_census_ready Let_def demo_census_parts
    by (simp add: parts demo_payload_parts io_bind_def io_lift_def io_return_def io_ensure_def read_clock_def demo_census_parts(3) demo_package
        census_campaign_def demo_counts bcs signFloorCensusResult_def demo_census_signer_def ED25519_SIGNATURE_BYTES_def
        ED25519_PUBLIC_KEY_BYTES_def submit_census_def demo_digest)
qed

theorem direct_census_submits_count_witness:
  "\<exists>s. DirectFloorCensusAdapter demo_sha demo_census_config demo_census_input 0 = (Inr (CensusSucceeded s), 2)
     \<and> (\<exists>parsed. validateRelayerSubmitInput (tee_json (cu_result demo_census_input)) = Inr (Inr parsed)
          \<and> cu_disasterEventId demo_census_input = Some (cx_disasterEventId s))"
proof -
  obtain s where s: "DirectFloorCensusAdapter demo_sha demo_census_config demo_census_input 0 = (Inr (CensusSucceeded s), 2)"
    using demo_direct_run by blast
  from direct_census_submits_count [OF s] s show ?thesis by blast
qed

section \<open>The census of an enclave\<close>

lemma readHexField_Inr:
  assumes "readHexField v k n = Inr s"
  shows "list_all is_lower_hex (drop 2 s) \<and> starts_with s ''0x'' \<and> length s mod 2 = 0 \<and> none_or (\<lambda>n. length s = 2 * n + 2) n
    \<and> length s > 2"
  using assms
  by (auto simp: readHexField_def Let_def starts_with_def list_all_iff to_lower_hex split: option.splits if_splits)

lemma census_hexToBytes_Inr: "census_hexToBytes s = Inr b \<Longrightarrow> 2 * length b = length (normalizeHex s)"
  by (auto simp: census_hexToBytes_def Let_def length_hex_pairs split: if_splits)

lemma census_hex_length:
  assumes "readHexField v k (Some n) = Inr s" and "census_hexToBytes s = Inr b"
  shows "length b = n"
  using readHexField_Inr [OF assms(1)] census_hexToBytes_Inr [OF assms(2)] by (simp add: normalizeHex_def)

lemma parseFloorCensusTeeOutput_lengths:
  assumes "parseFloorCensusTeeOutput v = Inr out"
  shows "length (sg_signature out) = ED25519_SIGNATURE_BYTES \<and> length (sg_publicKey out) = ED25519_PUBLIC_KEY_BYTES"
  using assms unfolding parseFloorCensusTeeOutput_def Let_def
  by (auto simp: res_bind_Inr_iff dest: census_hex_length)

text \<open>What an enclave's answer names agrees with the submitted event and the objects of the configuration.\<close>

definition answers_event :: "'w census_config \<Rightarrow> oracle_payload \<Rightarrow> census_tee_output \<Rightarrow> bool" where
  "answers_event config payload out \<longleftrightarrow>
     normalizeHex (to_eventUid out) = normalizeHex (p_event_uid payload)
     \<and> to_eventRevision out = p_event_revision payload
     \<and> normalizeHex (to_affectedCellsRoot out) = normalizeHex (p_affected_cells_root payload)
     \<and> normalizeHex (to_membershipRegistryId out) = normalizeHex (cf_membershipRegistry config)
     \<and> normalizeHex (to_cellCountIndexId out) = normalizeHex (cf_cellCountIndex config)"

lemma assertCensusTeeOutput_Inr:
  "assertCensusTeeOutputMatchesInput out payload (cf_membershipRegistry config) (cf_cellCountIndex config) = Inr u
     \<longleftrightarrow> answers_event config payload out"
  by (auto simp: assertCensusTeeOutputMatchesInput_def answers_event_def)


lemma bytesToHex_lower:
  "list_all is_lower_hex (bytesToHex bs) \<and> (bytesToHex bs = [] \<longleftrightarrow> bs = []) \<and> length (bytesToHex bs) = 2 * length bs"
proof (induction bs)
  case (Cons b bs)
  have "unat b div 16 < 16" using byte_unat_less [of b] by simp
  with Cons show ?case by (simp add: bytesToHex_def hex2_def is_lower_hex_hex_char)
qed (simp add: bytesToHex_def)

lemma readHexField_bytes:
  assumes "field_of v k = JStr (bytesToPrefixedHex bs)" and "bs \<noteq> []" and "none_or (\<lambda>n. length bs = n) n"
  shows "readHexField v k n = Inr (bytesToPrefixedHex bs)"
proof -
  have "list_all is_hex (bytesToHex bs)" "List.map to_lower (bytesToHex bs) = bytesToHex bs"
    using bytesToHex_lower [of bs] by (auto simp: list_all_iff is_hex_lower to_lower_id intro: map_idI)
  with assms bytesToHex_lower [of bs] show ?thesis
    by (cases n) (auto simp: readHexField_def readStringField_def bytesToPrefixedHex_def starts_with_def Let_def)
qed

lemma census_hexToBytes_bytes: "bs \<noteq> [] \<Longrightarrow> \<exists>b. census_hexToBytes (bytesToPrefixedHex bs) = Inr b"
proof -
  assume "bs \<noteq> []"
  have "normalizeHex (bytesToPrefixedHex bs) = bytesToHex bs"
    by (simp add: normalizeHex_eq normalize_prefixed)
  with bytesToHex_lower [of bs] \<open>bs \<noteq> []\<close> show ?thesis by (simp add: census_hexToBytes_def Let_def)
qed

definition demo_answer :: js_value where
  "demo_answer = JObj
     [(''payload'', JObj [(''event_uid'', JStr sample_uid), (''event_revision'', JNum 1), (''affected_cells_root'', JStr sample_uid),
        (''membership_registry_id'', JStr sample_uid), (''cell_count_index_id'', JStr sample_uid),
        (''census_checkpoint'', JStr ''7''), (''registered_members_by_band'', JArr [JStr ''1'', JNum 0, JNum 0])]),
      (''payload_bcs_hex'', JStr (bytesToPrefixedHex [1, 2, 3])), (''signature'', JStr (bytesToPrefixedHex (replicate 64 1))),
      (''public_key'', JStr (bytesToPrefixedHex (replicate 32 2)))]"

definition demo_metadata :: enclave_metadata where
  "demo_metadata = \<lparr>em_verifier_config_key = 1, em_verifier_config_version = 1,
     em_enclave_instance_public_key = bytesToPrefixedHex (replicate 32 2)\<rparr>"

lemma demo_answer_parsed:
  "\<exists>out. parseFloorCensusTeeOutput demo_answer = Inr out \<and> answers_event demo_census_config sample_payload out
     \<and> sg_publicKeyHex out = bytesToPrefixedHex (replicate 32 2) \<and> to_counts out = [1, 0, 0]"
proof -
  define payload where "payload = readRecordField demo_answer ''payload''"
  have uid: "readHexField payload k (Some 32) = Inr sample_uid"
    if "k \<in> {''event_uid'', ''affected_cells_root'', ''membership_registry_id'', ''cell_count_index_id''}" for k
    unfolding sample_uid_def using that
    by (intro readHexField_bytes) (auto simp: payload_def readRecordField_def isRecord_def demo_answer_def field_of_def get_field_def sample_uid_def)
  have hex: "readHexField demo_answer ''payload_bcs_hex'' None = Inr (bytesToPrefixedHex [1, 2, 3])"
    "readHexField demo_answer ''signature'' (Some 64) = Inr (bytesToPrefixedHex (replicate 64 1))"
    "readHexField demo_answer ''public_key'' (Some 32) = Inr (bytesToPrefixedHex (replicate 32 2))"
    by (rule readHexField_bytes; simp add: demo_answer_def field_of_def get_field_def)+
  have nums: "readU32Field payload ''event_revision'' = Inr 1" "readCensusIntegerField payload ''census_checkpoint'' = Inr 7"
    "readBandCounts (field_of payload ''registered_members_by_band'') = Inr [1, 0, 0]"
    by (simp_all add: payload_def readRecordField_def isRecord_def demo_answer_def field_of_def get_field_def readU32Field_def
        readCensusIntegerField_def readCensusSafeInteger_def isSafeInteger_def MAX_SAFE_INTEGER_def U32_MAX_def
        is_canonical_decimal_def read_nat_def digit_val_def is_digit_def readBandCounts_def BAND_COUNT_def readCountValue_def)
  obtain b1 b2 b3 where "census_hexToBytes (bytesToPrefixedHex [1, 2, 3]) = Inr b1"
    "census_hexToBytes (bytesToPrefixedHex (replicate 64 1)) = Inr b2"
    "census_hexToBytes (bytesToPrefixedHex (replicate 32 2)) = Inr b3"
    using census_hexToBytes_bytes by (metis list.distinct(1) replicate_empty zero_neq_numeral)
  then show ?thesis
    unfolding parseFloorCensusTeeOutput_def Let_def payload_def [symmetric] ED25519_SIGNATURE_BYTES_def ED25519_PUBLIC_KEY_BYTES_def
    by (simp add: hex nums uid answers_event_def demo_payload_parts demo_census_config_def)
qed

lemma demo_object_id: "validateObjectId sample_uid name = Inr ()"
proof -
  have "is_prefixed_hex32 sample_uid" by (simp add: sample_uid_def)
  then show ?thesis
    by (auto simp: validateObjectId_def objectIdBytes_def is_prefixed_hex32_def starts_with_def list_all_iff is_hex_lower)
qed


end
