(* ===== verification/ProofRegistrar.thy ===== *)
theory ProofRegistrar
  imports SourceArchiveProps SourceFetch
begin

text \<open>
  Registering the proofs of the affected cells: the HTTP registrar of \<open>watcher/src/affected_cells_proof_registrar.ts\<close>
  and the part of \<open>watcher/src/runner_workflow.ts\<close> that calls it and turns what it throws into a status.

  What the registrar throws is one of its three classes of error, or any other error.  \<open>fetch\<close>, the secrets and
  the decoding of a body to text are parameters; texts are sequences of UTF-8 bytes, so that the limit of a snippet
  is exact for ASCII.
\<close>

section \<open>Inputs, results and errors\<close>

record proof_registration_input =
  pi_event_uid :: string
  pi_event_revision :: int
  pi_affected_cells_uri :: string
  pi_affected_cells_hash :: string
  pi_affected_cells_root :: string
  pi_affected_cell_count :: int
  pi_geo_resolution :: int

record proof_registration_result =
  pr_stored :: bool
  pr_shardCount :: int

datatype proof_error = ProofConfiguration string | ProofIntegrity string | ProofRetryable string | ProofOther string

type_synonym ('w, 'a) proof_io = "'w \<Rightarrow> (proof_error + 'a) \<times> 'w"
type_synonym 'w proof_registrar = "proof_registration_input \<Rightarrow> ('w, proof_registration_result) proof_io"

text \<open>The kind of an error: \<open>retryable\<close> when it is none of the classes.\<close>

definition classify :: "proof_error \<Rightarrow> string" where
  "classify e = (case e of ProofConfiguration _ \<Rightarrow> ''configuration'' | ProofIntegrity _ \<Rightarrow> ''integrity''
     | ProofRetryable _ \<Rightarrow> ''retryable'' | ProofOther _ \<Rightarrow> ''retryable'')"

definition proof_message :: "proof_error \<Rightarrow> string" where
  "proof_message e = (case e of ProofConfiguration m \<Rightarrow> m | ProofIntegrity m \<Rightarrow> m | ProofRetryable m \<Rightarrow> m | ProofOther m \<Rightarrow> m)"

section \<open>The request\<close>

definition is_uri_char :: "char \<Rightarrow> bool" where
  "is_uri_char c \<longleftrightarrow> is_upper_az c \<or> is_lower_az c \<or> is_digit c
     \<or> c \<in> {CHR ''-'', CHR ''_'', CHR ''.'', CHR ''!'', CHR ''~'', CHR ''*'', CHR 0x27, CHR ''('', CHR '')''}"

definition upper_hex :: "nat \<Rightarrow> char" where
  "upper_hex n = (if n < 10 then char_of (48 + n) else char_of (55 + n))"

definition encodeURIComponent :: "string \<Rightarrow> string" where
  "encodeURIComponent s = concat (map (\<lambda>c. if is_uri_char c then [c]
     else [CHR ''%'', upper_hex (of_char c div 16), upper_hex (of_char c mod 16)]) s)"

definition registrationUrl :: "string \<Rightarrow> proof_registration_input \<Rightarrow> string" where
  "registrationUrl endpoint inp =
     (let base = (if ends_with endpoint ''/'' then take (length endpoint - 1) endpoint else endpoint) in
      base @ ''/events/'' @ encodeURIComponent (pi_event_uid inp) @ ''/revisions/'' @ show_int (pi_event_revision inp)
        @ ''/affected-cells'')"

definition registration_json :: "proof_registration_input \<Rightarrow> js_value" where
  "registration_json inp = JObj
     [(''event_uid'', JStr (pi_event_uid inp)), (''event_revision'', jint (pi_event_revision inp)),
      (''affected_cells_uri'', JStr (pi_affected_cells_uri inp)), (''affected_cells_hash'', JStr (pi_affected_cells_hash inp)),
      (''affected_cells_root'', JStr (pi_affected_cells_root inp)),
      (''affected_cell_count'', jint (pi_affected_cell_count inp)), (''geo_resolution'', jint (pi_geo_resolution inp))]"

definition registrarFetchWithTimeout ::
    "'w fetch_fn \<Rightarrow> string \<Rightarrow> fetch_request \<Rightarrow> int \<Rightarrow> ('w, fetch_response) proof_io" where
  "registrarFetchWithTimeout fetch target init timeoutMs = (\<lambda>w.
     case fetch target init timeoutMs w of
       (Inr response, w1) \<Rightarrow> (Inr response, w1)
     | (Inl e, w1) \<Rightarrow>
         if isAbortError e then (Inl (ProofRetryable ''affected cells proof registration request timed out''), w1)
         else (Inl (ProofOther (fetch_message e)), w1))"

definition registrar_token :: "'w archiver_auth \<Rightarrow> ('w, string) proof_io" where
  "registrar_token auth = (\<lambda>w.
     case au_getSecretString auth (au_secretArn auth) w of
       (Inl m, w1) \<Rightarrow> (Inl (ProofOther m), w1)
     | (Inr secret, w1) \<Rightarrow>
         if length (trim secret) = 0
         then (Inl (ProofConfiguration (au_secretArn auth @ '' did not contain SecretString'')), w1)
         else (Inr (trim secret), w1))"

definition registrar_headers :: "'w archiver_auth \<Rightarrow> ('w, (string \<times> string) list) proof_io" where
  "registrar_headers auth = (\<lambda>w.
     case registrar_token auth w of
       (Inl e, w1) \<Rightarrow> (Inl e, w1)
     | (Inr token, w1) \<Rightarrow>
         (Inr [(''content-type'', ''application/json''), (''x-sonari-affected-proof-register-token'', token)], w1))"

section \<open>The response\<close>

definition FAILED_RESPONSE_BODY_SNIPPET_MAX_LENGTH :: nat where
  "FAILED_RESPONSE_BODY_SNIPPET_MAX_LENGTH = 200"

definition sanitizeFailedResponseBody :: "string \<Rightarrow> string" where
  "sanitizeFailedResponseBody body =
     (let kept = filter (\<lambda>c. (of_char c :: nat) > 31 \<and> (of_char c :: nat) \<noteq> 127) body;
          escaped = concat (map (\<lambda>c. if c = double_quote then [backslash, double_quote] else [c])
            (concat (map (\<lambda>c. if c = backslash then [backslash, backslash] else [c]) kept)));
          snippet = take FAILED_RESPONSE_BODY_SNIPPET_MAX_LENGTH escaped in
      if ends_with snippet [backslash] then take (length snippet - 1) snippet else snippet)"

text \<open>\<open>response.clone().text()\<close> is a parameter; \<open>None\<close> when it throws.\<close>

definition readFailedResponseBodySnippet :: "(fetch_response \<Rightarrow> string option) \<Rightarrow> fetch_response \<Rightarrow> string option" where
  "readFailedResponseBodySnippet txt response =
     (case txt response of
        None \<Rightarrow> None
      | Some t \<Rightarrow> let body = sanitizeFailedResponseBody t in if length body = 0 then None else Some body)"

definition registrationErrorMessageForResponse :: "(fetch_response \<Rightarrow> string option) \<Rightarrow> fetch_response \<Rightarrow> string" where
  "registrationErrorMessageForResponse txt response =
     (let message = ''affected cells proof registration failed: HTTP '' @ show_int (fr_status response) in
      case readFailedResponseBodySnippet txt response of
        None \<Rightarrow> message
      | Some body \<Rightarrow> message @ '' body='' @ [double_quote] @ body @ [double_quote])"

definition error_kind_text :: "js_value \<Rightarrow> string option" where
  "error_kind_text v =
     (case v of JStr e \<Rightarrow> if e \<in> {''configuration'', ''integrity'', ''retryable''} then Some e else None | _ \<Rightarrow> None)"

definition readWorkerErrorKind :: "fetch_response \<Rightarrow> string option" where
  "readWorkerErrorKind response =
     (case fr_json response of
        Inl _ \<Rightarrow> None
      | Inr body \<Rightarrow>
        if \<not> isRecord body then None
        else let error = field_of body ''error'' in
          case error_kind_text error of
            Some e \<Rightarrow> Some e
          | None \<Rightarrow> if isRecord error then error_kind_text (field_of error ''kind'') else None)"

definition registrationErrorForResponse :: "(fetch_response \<Rightarrow> string option) \<Rightarrow> fetch_response \<Rightarrow> proof_error" where
  "registrationErrorForResponse txt response =
     (let message = registrationErrorMessageForResponse txt response;
          errorKind = readWorkerErrorKind response;
          status = fr_status response in
      if errorKind = Some ''configuration'' then ProofConfiguration message
      else if errorKind = Some ''integrity'' then ProofIntegrity message
      else if status = 408 \<or> status = 429 \<or> status \<ge> 500 \<or> errorKind = Some ''retryable'' then ProofRetryable message
      else if status = 409 \<or> status = 422 then ProofIntegrity message
      else ProofConfiguration message)"

definition readRegistrationJson :: "fetch_response \<Rightarrow> proof_error + js_value" where
  "readRegistrationJson response =
     (case fr_json response of
        Inl _ \<Rightarrow> Inl (ProofRetryable ''affected cells proof registration returned invalid JSON'')
      | Inr body \<Rightarrow> Inr body)"

definition validateRegistrationResponse ::
    "js_value \<Rightarrow> proof_registration_input \<Rightarrow> proof_error + proof_registration_result" where
  "validateRegistrationResponse body inp =
     (if \<not> isRecord body then Inl (ProofRetryable ''affected cells proof registration response must be an object'')
      else if field_of body ''event_uid'' \<noteq> JStr (pi_event_uid inp)
      then Inl (ProofIntegrity ''affected cells proof registration event_uid mismatch'')
      else if field_of body ''event_revision'' \<noteq> jint (pi_event_revision inp)
      then Inl (ProofIntegrity ''affected cells proof registration event_revision mismatch'')
      else if field_of body ''affected_cells_root'' \<noteq> JStr (pi_affected_cells_root inp)
      then Inl (ProofIntegrity ''affected cells proof registration root mismatch'')
      else case field_of body ''stored'' of
        JBool stored \<Rightarrow>
          if \<not> isSafeIntegerInRange (field_of body ''shard_count'') 1 MAX_SAFE_INTEGER
          then Inl (ProofRetryable ''affected cells proof registration response shard_count is invalid'')
          else Inr \<lparr>pr_stored = stored, pr_shardCount = js_int (field_of body ''shard_count'')\<rparr>
      | _ \<Rightarrow> Inl (ProofRetryable ''affected cells proof registration response stored must be boolean''))"

definition HttpAffectedCellsProofRegistrar ::
    "'w fetch_fn \<Rightarrow> (fetch_response \<Rightarrow> string option) \<Rightarrow> (rat \<Rightarrow> string) \<Rightarrow> string \<Rightarrow> 'w archiver_auth \<Rightarrow> int
     \<Rightarrow> 'w proof_registrar" where
  "HttpAffectedCellsProofRegistrar fetch txt num endpoint auth timeoutMs inp = (\<lambda>w.
     case registrar_headers auth w of
       (Inl e, w1) \<Rightarrow> (Inl e, w1)
     | (Inr headers, w1) \<Rightarrow>
       (case registrarFetchWithTimeout fetch (registrationUrl endpoint inp)
           \<lparr>fq_method = Some ''POST'', fq_headers = headers, fq_body = Some (json_text num (registration_json inp))\<rparr>
           timeoutMs w1 of
          (Inl e, w2) \<Rightarrow> (Inl e, w2)
        | (Inr response, w2) \<Rightarrow>
            if \<not> response_ok response then (Inl (registrationErrorForResponse txt response), w2)
            else case readRegistrationJson response of
              Inl e \<Rightarrow> (Inl e, w2)
            | Inr body \<Rightarrow> (validateRegistrationResponse body inp, w2)))"

section \<open>The runner's action\<close>

record proof_attempt =
  pa_status :: stage_status
  pa_message :: "string option"

definition proof_attempt_of :: "stage_status \<Rightarrow> string \<Rightarrow> proof_attempt" where
  "proof_attempt_of st message = \<lparr>pa_status = st, pa_message = Some message\<rparr>"

definition affectedCellsProofRegistrationFailure :: "proof_error \<Rightarrow> proof_attempt" where
  "affectedCellsProofRegistrationFailure e =
     (case e of
        ProofConfiguration m \<Rightarrow> proof_attempt_of ConfigurationFailed m
      | ProofIntegrity m \<Rightarrow> proof_attempt_of IntegrityFailed m
      | ProofRetryable m \<Rightarrow> proof_attempt_of RetryableFailed m
      | ProofOther m \<Rightarrow> proof_attempt_of RetryableFailed m)"

definition affectedCellsProofRegistrationInput :: "js_value \<Rightarrow> proof_error + proof_registration_input" where
  "affectedCellsProofRegistrationInput result =
     (case validateRelayerSubmitInput result of
        Inl m \<Rightarrow> Inl (ProofOther m)
      | Inr (Inl (_, message)) \<Rightarrow> Inl (ProofIntegrity message)
      | Inr (Inr r) \<Rightarrow>
        (case (rsi_affected_cells_ref r, rsi_evidence_manifest r) of
           (Some affectedCellsRef, Some evidenceManifest) \<Rightarrow>
             let payload = payload_of_json (rsi_payload r);
                 cells = field_of evidenceManifest ''affected_cells'' in
             Inr \<lparr>pi_event_uid = p_event_uid payload, pi_event_revision = p_event_revision payload,
               pi_affected_cells_uri = str_field affectedCellsRef ''uri'',
               pi_affected_cells_hash = str_field affectedCellsRef ''source_hash'',
               pi_affected_cells_root = p_affected_cells_root payload,
               pi_affected_cell_count = int_field cells ''total_cell_count'',
               pi_geo_resolution = int_field cells ''geo_resolution''\<rparr>
         | _ \<Rightarrow> Inl (ProofIntegrity ''finalized result is missing affected cells registration metadata'')))"

definition skipped_attempt :: proof_attempt where
  "skipped_attempt = \<lparr>pa_status = Skipped, pa_message = None\<rparr>"

definition registerAffectedCellsProof ::
    "'w proof_registrar option \<Rightarrow> tee_core_result \<Rightarrow> bool \<Rightarrow> ('w, proof_attempt) proof_io" where
  "registerAffectedCellsProof registrar result sourceArchiveSucceeded = (\<lambda>w.
     case result of
       TeeFinalized v \<Rightarrow>
         if \<not> sourceArchiveSucceeded then (Inr skipped_attempt, w)
         else (case registrar of
           None \<Rightarrow> (Inr skipped_attempt, w)
         | Some register \<Rightarrow>
           (case affectedCellsProofRegistrationInput v of
              Inl e \<Rightarrow> (Inl e, w)
            | Inr inp \<Rightarrow>
              (case register inp w of
                 (Inr _, w1) \<Rightarrow> (Inr \<lparr>pa_status = Success, pa_message = None\<rparr>, w1)
               | (Inl (ProofConfiguration m), w1) \<Rightarrow> (Inr (proof_attempt_of ConfigurationFailed m), w1)
               | (Inl (ProofIntegrity m), w1) \<Rightarrow> (Inr (proof_attempt_of IntegrityFailed m), w1)
               | (Inl e, w1) \<Rightarrow> (Inr (proof_attempt_of RetryableFailed (proof_message e)), w1))))
     | _ \<Rightarrow> (Inr skipped_attempt, w))"

definition buildAffectedCellsProofRegistrarFromConfig ::
    "'w fetch_fn \<Rightarrow> (fetch_response \<Rightarrow> string option) \<Rightarrow> (rat \<Rightarrow> string) \<Rightarrow> (string \<Rightarrow> ('w, string) io) \<Rightarrow> env
     \<Rightarrow> proof_error + 'w proof_registrar option" where
  "buildAffectedCellsProofRegistrarFromConfig fetch txt num getSecretString ev =
     (let registrarUrl = ev ''AFFECTED_PROOF_REGISTRAR_URL'';
          tokenSecretArn = ev ''AFFECTED_PROOF_REGISTRAR_TOKEN_SECRET_ARN'' in
      if unset registrarUrl then Inr None
      else if unset tokenSecretArn
      then Inl (ProofConfiguration
        ''AFFECTED_PROOF_REGISTRAR_TOKEN_SECRET_ARN is required with AFFECTED_PROOF_REGISTRAR_URL'')
      else Inr (Some (HttpAffectedCellsProofRegistrar fetch txt num (the registrarUrl)
        \<lparr>au_secretArn = the tokenSecretArn, au_getSecretString = getSecretString\<rparr> 30000)))"

text \<open>What \<open>input.registrar ?? buildAffectedCellsProofRegistrarFromConfig()\<close> gives is the parameter \<open>configured\<close>.\<close>

definition registerAffectedCellsProofAction ::
    "(proof_error + 'w proof_registrar option) \<Rightarrow> 'w proof_registrar option \<Rightarrow> tee_core_result \<Rightarrow> bool
     \<Rightarrow> ('w, proof_attempt) io" where
  "registerAffectedCellsProofAction configured registrar result sourceArchiveSucceeded = (\<lambda>w.
     case (case registrar of Some r \<Rightarrow> Inr (Some r) | None \<Rightarrow> configured) of
       Inl e \<Rightarrow> (Inr (affectedCellsProofRegistrationFailure e), w)
     | Inr reg \<Rightarrow>
       (case registerAffectedCellsProof reg result sourceArchiveSucceeded w of
          (Inl e, w1) \<Rightarrow> (Inr (affectedCellsProofRegistrationFailure e), w1)
        | (Inr a, w1) \<Rightarrow> (Inr a, w1)))"

definition affectedCellsProofRegistrationStateUpdate :: "proof_attempt \<Rightarrow> int \<Rightarrow> proof_registration_update" where
  "affectedCellsProofRegistrationStateUpdate registration nowMs =
     (if pa_status registration = RetryableFailed then
        \<lparr>pru_status = RetryableFailed, pru_error_code = Some ''AFFECTED_CELLS_PROOF_REGISTRATION_RETRYABLE_FAILED'',
         pru_retryable_next_retry_at_ms = Some (nowMs + SOURCE_ARCHIVE_RETRY_BACKOFF_MS), pru_message = pa_message registration\<rparr>
      else if pa_status registration = ConfigurationFailed then
        \<lparr>pru_status = ConfigurationFailed,
         pru_error_code = Some ''AFFECTED_CELLS_PROOF_REGISTRATION_CONFIGURATION_FAILED'',
         pru_retryable_next_retry_at_ms = None, pru_message = pa_message registration\<rparr>
      else if pa_status registration = IntegrityFailed then
        \<lparr>pru_status = IntegrityFailed, pru_error_code = Some ''AFFECTED_CELLS_PROOF_REGISTRATION_INTEGRITY_FAILED'',
         pru_retryable_next_retry_at_ms = None, pru_message = pa_message registration\<rparr>
      else \<lparr>pru_status = pa_status registration, pru_error_code = None, pru_retryable_next_retry_at_ms = None,
         pru_message = None\<rparr>)"

section \<open>What a success means\<close>

text \<open>The registrar at \<open>endpoint\<close> was sent the event's registration and confirmed its event, revision and root.\<close>

definition confirmed_by ::
    "'w fetch_fn \<Rightarrow> (rat \<Rightarrow> string) \<Rightarrow> string \<Rightarrow> proof_registration_input \<Rightarrow> 'w \<Rightarrow> bool" where
  "confirmed_by fetch num endpoint inp w' \<longleftrightarrow>
     (\<exists>headers w1 response body. fetch (registrationUrl endpoint inp)
         \<lparr>fq_method = Some ''POST'', fq_headers = headers, fq_body = Some (json_text num (registration_json inp))\<rparr> 30000 w1
           = (Inr response, w')
        \<and> response_ok response \<and> fr_json response = Inr body
        \<and> field_of body ''event_uid'' = JStr (pi_event_uid inp) \<and> field_of body ''event_revision'' = jint (pi_event_revision inp)
        \<and> field_of body ''affected_cells_root'' = JStr (pi_affected_cells_root inp)
        \<and> 1 \<le> js_int (field_of body ''shard_count''))"

lemma HttpRegistrar_Inr:
  assumes "HttpAffectedCellsProofRegistrar fetch txt num endpoint auth 30000 inp w = (Inr r, w')"
  shows "confirmed_by fetch num endpoint inp w'"
proof -
  obtain headers w1 response where
    "registrarFetchWithTimeout fetch (registrationUrl endpoint inp)
       \<lparr>fq_method = Some ''POST'', fq_headers = headers, fq_body = Some (json_text num (registration_json inp))\<rparr> 30000 w1
         = (Inr response, w')"
    and r: "response_ok response" "res_bind (readRegistrationJson response) (\<lambda>b. validateRegistrationResponse b inp) = Inr r"
    using assms
    by (auto simp: HttpAffectedCellsProofRegistrar_def res_bind_def split: prod.splits sum.splits if_splits)
  then have f: "fetch (registrationUrl endpoint inp)
       \<lparr>fq_method = Some ''POST'', fq_headers = headers, fq_body = Some (json_text num (registration_json inp))\<rparr> 30000 w1
         = (Inr response, w')"
    by (auto simp: registrarFetchWithTimeout_def split: prod.splits sum.splits if_splits)
  from r obtain body where body: "fr_json response = Inr body" "validateRegistrationResponse body inp = Inr r"
    by (auto simp: readRegistrationJson_def res_bind_Inr_iff split: sum.splits)
  then have "field_of body ''event_uid'' = JStr (pi_event_uid inp) \<and> field_of body ''event_revision'' = jint (pi_event_revision inp)
      \<and> field_of body ''affected_cells_root'' = JStr (pi_affected_cells_root inp)
      \<and> isSafeIntegerInRange (field_of body ''shard_count'') 1 MAX_SAFE_INTEGER"
    by (auto simp: validateRegistrationResponse_def split: if_splits js_value.splits)
  with f r body(1) isSafeIntegerInRange_int show ?thesis unfolding confirmed_by_def by blast
qed

text \<open>C19. Proofs are recorded as registered only for a finalized result that was archived and when the configured
  registrar confirmed, over a successful HTTP answer, the event, revision and root that were signed.\<close>

theorem proof_registration_confirmed:
  assumes "registerAffectedCellsProofAction
      (buildAffectedCellsProofRegistrarFromConfig fetch txt num getSecretString ev) None result archived w = (Inr a, w')"
    and "pa_status a = Success"
  shows "\<exists>v r inp endpoint. result = TeeFinalized v \<and> archived \<and> validateRelayerSubmitInput v = Inr (Inr r)
    \<and> ev ''AFFECTED_PROOF_REGISTRAR_URL'' = Some endpoint
    \<and> pi_event_uid inp = p_event_uid (payload_of_json (rsi_payload r))
    \<and> pi_event_revision inp = p_event_revision (payload_of_json (rsi_payload r))
    \<and> pi_affected_cells_root inp = p_affected_cells_root (payload_of_json (rsi_payload r))
    \<and> confirmed_by fetch num endpoint inp w'"
proof -
  let ?configured = "buildAffectedCellsProofRegistrarFromConfig fetch txt num getSecretString ev"
  obtain reg where reg: "?configured = Inr reg" "registerAffectedCellsProof reg result archived w = (Inr a, w')"
    using assms
    by (auto simp: registerAffectedCellsProofAction_def affectedCellsProofRegistrationFailure_def proof_attempt_of_def
        split: sum.splits prod.splits proof_error.splits)
  then obtain v register inp x where
    v: "result = TeeFinalized v" "archived" "reg = Some register" "affectedCellsProofRegistrationInput v = Inr inp"
      "register inp w = (Inr x, w')"
    using assms(2)
    by (auto simp: registerAffectedCellsProof_def skipped_attempt_def proof_attempt_of_def
        split: tee_core_result.splits if_splits option.splits sum.splits prod.splits proof_error.splits)
  from v(3) reg(1) obtain endpoint auth where
    e: "ev ''AFFECTED_PROOF_REGISTRAR_URL'' = Some endpoint"
      "register = HttpAffectedCellsProofRegistrar fetch txt num endpoint auth 30000"
    by (cases "ev ''AFFECTED_PROOF_REGISTRAR_URL''")
       (auto simp: buildAffectedCellsProofRegistrarFromConfig_def unset_def Let_def split: if_splits)
  from v(4) obtain r where "validateRelayerSubmitInput v = Inr (Inr r)"
    "pi_event_uid inp = p_event_uid (payload_of_json (rsi_payload r))"
    "pi_event_revision inp = p_event_revision (payload_of_json (rsi_payload r))"
    "pi_affected_cells_root inp = p_affected_cells_root (payload_of_json (rsi_payload r))"
    by (auto simp: affectedCellsProofRegistrationInput_def Let_def split: sum.splits option.splits prod.splits)
  moreover have "confirmed_by fetch num endpoint inp w'" by (rule HttpRegistrar_Inr [OF v(5) [unfolded e(2)]])
  ultimately show ?thesis using v(1,2) e(1) by blast
qed

definition demo_confirmation :: fetch_response where
  "demo_confirmation = \<lparr>fr_status = 200, fr_body = NoBody [],
     fr_json = Inr (JObj [(''event_uid'', JStr sample_uid), (''event_revision'', JNum 1),
       (''affected_cells_root'', JStr sample_uid), (''stored'', JBool True), (''shard_count'', JNum 1)])\<rparr>"

definition demo_registrar_env :: env where
  "demo_registrar_env = [''AFFECTED_PROOF_REGISTRAR_URL'' \<mapsto> ''https://r'', ''AFFECTED_PROOF_REGISTRAR_TOKEN_SECRET_ARN'' \<mapsto> ''arn'']"

theorem proof_registration_confirmed_witness:
  "\<exists>a inp. registerAffectedCellsProofAction
      (buildAffectedCellsProofRegistrarFromConfig (\<lambda>_ _ _ n. (Inr demo_confirmation, Suc n)) (\<lambda>_. None) demo_num
        (\<lambda>_. io_return ''token'') demo_registrar_env) None (TeeFinalized demo_result) True 0 = (Inr a, 1)
    \<and> pa_status a = Success
    \<and> confirmed_by (\<lambda>_ _ _ n. (Inr demo_confirmation, Suc n)) demo_num ''https://r'' inp 1"
proof -
  let ?f = "(\<lambda>_ _ _ n. (Inr demo_confirmation, Suc n)) :: nat fetch_fn"
  let ?a = "\<lparr>pa_status = Success, pa_message = None\<rparr>"
  have pay: "p_event_uid (payload_of_json sample_payload_json) = sample_uid" "p_event_revision (payload_of_json sample_payload_json) = 1"
    "p_affected_cells_root (payload_of_json sample_payload_json) = sample_uid"
    by (simp_all add: sample_payload_of_json sample_payload_def)
  have token: "trim ''token'' = ''token''" by code_simp
  have run: "registerAffectedCellsProofAction (buildAffectedCellsProofRegistrarFromConfig ?f (\<lambda>_. None) demo_num
      (\<lambda>_. io_return ''token'') demo_registrar_env) None (TeeFinalized demo_result) True 0 = (Inr ?a, 1)"
    by (simp add: registerAffectedCellsProofAction_def buildAffectedCellsProofRegistrarFromConfig_def demo_registrar_env_def
        unset_def registerAffectedCellsProof_def affectedCellsProofRegistrationInput_def demo_result_accepted demo_submit_parts
        HttpAffectedCellsProofRegistrar_def registrar_headers_def registrar_token_def io_return_def token
        registrarFetchWithTimeout_def response_ok_def demo_confirmation_def readRegistrationJson_def Let_def
        validateRegistrationResponse_def isRecord_def field_of_def get_field_def pay isSafeIntegerInRange_def isSafeInteger_def
        MAX_SAFE_INTEGER_def)
  from proof_registration_confirmed [OF run] have "\<exists>inp endpoint. demo_registrar_env ''AFFECTED_PROOF_REGISTRAR_URL'' = Some endpoint
      \<and> confirmed_by ?f demo_num endpoint inp 1" by auto
  with run show ?thesis by (auto simp: demo_registrar_env_def)
qed

end
