(* ===== verification/RunnerConfig.thy ===== *)
theory RunnerConfig
  imports CensusAdapter
begin

text \<open>
  The configuration of the runner workflow from the environment, \<open>read...FromEnv\<close> of
  \<open>watcher/src/runner_workflow.ts\<close>: of the relayer, of the enclave registration and of the floor census.

  The environment is a function from names to texts.  The store of secrets, the decoding of a private key,
  \<open>Number\<close> on a text and the clients of the chain are parameters.
\<close>

section \<open>Reading single values\<close>

definition readSuiNetwork :: "string option \<Rightarrow> string option" where
  "readSuiNetwork v = (if v \<in> {Some ''mainnet'', Some ''testnet'', Some ''devnet''} then v else None)"

definition readOptionalEnv :: "env \<Rightarrow> string \<Rightarrow> string option" where
  "readOptionalEnv ev name = (if unset (ev name) then None else ev name)"

definition requiredEnv :: "env \<Rightarrow> string \<Rightarrow> js_error + string" where
  "requiredEnv ev name = (if unset (ev name) then Inl (name @ '' is required'') else Inr (the (ev name)))"

definition appendConfigurationError :: "string option \<Rightarrow> string \<Rightarrow> string" where
  "appendConfigurationError existing nxt = (case existing of None \<Rightarrow> nxt | Some e \<Rightarrow> e @ ''; '' @ nxt)"

text \<open>\<open>Number(text)\<close> is a parameter: \<open>None\<close> when it is not a finite number.\<close>

definition readPositiveIntegerEnv :: "(string \<Rightarrow> rat option) \<Rightarrow> env \<Rightarrow> string \<Rightarrow> int \<Rightarrow> int option" where
  "readPositiveIntegerEnv to_number ev name fallback =
     (if unset (ev name) then Some fallback
      else case to_number (the (ev name)) of
        Some q \<Rightarrow> if isSafeInteger q \<and> q > 0 then Some \<lfloor>q\<rfloor> else None
      | None \<Rightarrow> None)"

definition defaultSuiGraphqlUrl :: "string option \<Rightarrow> string option" where
  "defaultSuiGraphqlUrl network = map_option (\<lambda>n. ''https://graphql.'' @ n @ ''.sui.io/graphql'') network"

text \<open>The names whose values are not set.\<close>

definition missing_names :: "(string \<times> string option) list \<Rightarrow> string list" where
  "missing_names vars = List.map fst (filter (\<lambda>(_, v). unset v) vars)"

section \<open>Signers\<close>

record 'w config_env =
  ce_env :: env
  ce_getSecretValue :: "string \<Rightarrow> ('w, string option) io"
  ce_decodeSuiPrivateKey :: "string \<Rightarrow> js_error + (string \<times> bytes)"
  ce_fromSecretKey :: "bytes \<Rightarrow> 'w census_signer"
  ce_to_number :: "string \<Rightarrow> rat option"
  ce_censusClient :: "string \<Rightarrow> string \<Rightarrow> sui_transaction \<Rightarrow> 'w census_signer \<Rightarrow> ('w, js_value) io"
  ce_graphql :: "'w graphql_env"
  ce_maxPages :: nat
  ce_now :: "'w \<Rightarrow> int \<times> 'w"

definition getSecretString :: "'w config_env \<Rightarrow> string \<Rightarrow> ('w, string) io" where
  "getSecretString ce secretArn =
     io_bind (ce_getSecretValue ce secretArn) (\<lambda>res.
     case map_option trim res of
       None \<Rightarrow> io_throw (secretArn @ '' did not contain SecretString'')
     | Some secret \<Rightarrow>
       if length secret = 0 then io_throw (secretArn @ '' did not contain SecretString'') else io_return secret)"

definition createEd25519SuiSignerFromPrivateKey :: "'w config_env \<Rightarrow> string \<Rightarrow> js_error + 'w census_signer" where
  "createEd25519SuiSignerFromPrivateKey ce v =
     res_bind (ce_decodeSuiPrivateKey ce v) (\<lambda>(scheme, secretKey).
       if scheme \<noteq> ''ED25519'' then Inl ''Only Ed25519 Sui private keys are supported for relayer submit''
       else Inr (ce_fromSecretKey ce secretKey))"

definition load_signer :: "'w config_env \<Rightarrow> string \<Rightarrow> ('w, 'w census_signer) io" where
  "load_signer ce signerSecretArn =
     io_bind (getSecretString ce signerSecretArn) (\<lambda>s. io_lift (createEd25519SuiSignerFromPrivateKey ce s))"

text \<open>Where a signer is used only through its address.\<close>

definition load_address :: "'w config_env \<Rightarrow> string \<Rightarrow> ('w, string) io" where
  "load_address ce signerSecretArn = io_bind (load_signer ce signerSecretArn) (\<lambda>s. io_return (cs_address s))"

definition optional_loader :: "(string \<Rightarrow> 'a) \<Rightarrow> env \<Rightarrow> 'a option" where
  "optional_loader load ev = (if unset (ev ''RELAYER_SIGNER_SECRET_ARN'') then None
     else Some (load (the (ev ''RELAYER_SIGNER_SECRET_ARN''))))"

section \<open>The relayer\<close>

definition relayer_mode_of :: "string \<Rightarrow> relayer_mode option" where
  "relayer_mode_of mode = (if mode = ''preview'' then Some Preview else if mode = ''dry_run'' then Some DryRun
     else if mode = ''submit'' then Some Submit else None)"

definition readRelayerConfigFromEnv :: "'w config_env \<Rightarrow> 'w direct_relayer_config option" where
  "readRelayerConfigFromEnv ce =
     (let ev = ce_env ce in
      if unset (ev ''RELAYER_MODE'') then None
      else let modeText = the (ev ''RELAYER_MODE'') in
      case relayer_mode_of modeText of
        None \<Rightarrow> Some \<lparr>dc_mode = Preview,
          dc_request = \<lparr>qc_target = [], qc_registry = [], qc_verifierRegistry = [], qc_categoryRegistry = [], qc_categoryPool = []\<rparr>,
          dc_network = None, dc_grpcUrl = None, dc_senderAddress = None, dc_allowSubmit = False,
          dc_configurationError = Some (''Unsupported RELAYER_MODE: '' @ modeText), dc_loadSigner = None,
          dc_submitPayload = None\<rparr>
      | Some mode \<Rightarrow>
        let missing = missing_names [(''RELAYER_TARGET'', ev ''RELAYER_TARGET''), (''RELAYER_REGISTRY'', ev ''RELAYER_REGISTRY''),
              (''RELAYER_VERIFIER_REGISTRY'', ev ''RELAYER_VERIFIER_REGISTRY''),
              (''RELAYER_CATEGORY_REGISTRY'', ev ''RELAYER_CATEGORY_REGISTRY''),
              (''RELAYER_CATEGORY_POOL'', ev ''RELAYER_CATEGORY_POOL'')];
            coreError = (if length missing > 0
              then Some (join_with '', '' missing @ '' required for RELAYER_MODE='' @ modeText) else None);
            chain = mode = DryRun \<or> mode = Submit;
            network = (if chain then readSuiNetwork (ev ''RELAYER_NETWORK'') else None);
            configurationError = (if chain \<and> network = None
              then Some (appendConfigurationError coreError ''RELAYER_NETWORK is required'') else coreError)
        in Some \<lparr>dc_mode = mode,
          dc_request = \<lparr>qc_target = coalesce (ev ''RELAYER_TARGET'') [], qc_registry = coalesce (ev ''RELAYER_REGISTRY'') [],
            qc_verifierRegistry = coalesce (ev ''RELAYER_VERIFIER_REGISTRY'') [],
            qc_categoryRegistry = coalesce (ev ''RELAYER_CATEGORY_REGISTRY'') [],
            qc_categoryPool = coalesce (ev ''RELAYER_CATEGORY_POOL'') []\<rparr>,
          dc_network = network, dc_grpcUrl = ev ''RELAYER_GRPC_URL'', dc_senderAddress = ev ''RELAYER_SENDER_ADDRESS'',
          dc_allowSubmit = (mode = Submit \<and> ev ''RELAYER_ALLOW_SUBMIT'' = Some ''true''),
          dc_configurationError = configurationError,
          dc_loadSigner = (if mode = Submit then optional_loader (load_address ce) ev else None),
          dc_submitPayload = None\<rparr>)"

section \<open>Enclave registration\<close>

definition readEnclaveRegistrationConfigFromEnv ::
    "'w config_env \<Rightarrow> int option \<Rightarrow> int option \<Rightarrow> 'w registration_config" where
  "readEnclaveRegistrationConfigFromEnv ce configKey expectedFamily =
     (let ev = ce_env ce;
          baseTarget = coalesce (or_else (ev ''ENCLAVE_REGISTRATION_TARGET'')
            (deriveEnclaveRegistrationTarget (ev ''RELAYER_TARGET''))) [];
          target = resolveEnclaveRegistrationTargetForConfig baseTarget configKey;
          verifierRegistry = coalesce (ev ''RELAYER_VERIFIER_REGISTRY'') [];
          network = readSuiNetwork (ev ''RELAYER_NETWORK'');
          grpcUrl = ev ''RELAYER_GRPC_URL'';
          missing = missing_names [(''ENCLAVE_REGISTRATION_TARGET or RELAYER_TARGET'', Some target),
            (''RELAYER_VERIFIER_REGISTRY'', Some verifierRegistry), (''RELAYER_NETWORK'', ev ''RELAYER_NETWORK''),
            (''RELAYER_GRPC_URL'', grpcUrl), (''RELAYER_SIGNER_SECRET_ARN'', ev ''RELAYER_SIGNER_SECRET_ARN'')];
          error0 = (if length missing = 0 then None
            else Some (join_with '', '' missing @ '' required for enclave registration''));
          error1 = (if ev ''RELAYER_NETWORK'' \<noteq> None \<and> network = None
            then Some (appendConfigurationError error0 ''RELAYER_NETWORK is required for enclave registration'') else error0);
          instanceTtlMs = readPositiveIntegerEnv (ce_to_number ce) ev ''ENCLAVE_INSTANCE_TTL_MS'' (6 * HOUR_MS);
          error2 = (if instanceTtlMs = None
            then Some (appendConfigurationError error1 ''ENCLAVE_INSTANCE_TTL_MS must be a positive safe integer'') else error1)
      in \<lparr>gc_target = target, gc_verifierRegistry = verifierRegistry, gc_network = network, gc_grpcUrl = grpcUrl,
          gc_allowSubmit = (ev ''ENCLAVE_REGISTRATION_ALLOW_SUBMIT'' = Some ''true'' \<or> ev ''RELAYER_ALLOW_SUBMIT'' = Some ''true''),
          gc_configurationError = error2, gc_signer = None, gc_client = None, gc_transaction = None,
          gc_loadSigner = optional_loader (load_address ce) ev, gc_instanceTtlMs = jint (coalesce instanceTtlMs 0),
          gc_configKey = configKey, gc_expectedFamily = expectedFamily\<rparr>)"

section \<open>The floor census\<close>

definition GraphqlFloorCensusReader :: "'w graphql_env \<Rightarrow> nat \<Rightarrow> string \<Rightarrow> 'w census_reader" where
  "GraphqlFloorCensusReader env maxPages endpoint =
     \<lparr>cr_listHomeCells = listHomeCellRegisteredEvents env endpoint maxPages,
      cr_listActive = listActiveLineages env endpoint,
      cr_findCampaign = findCampaignId env endpoint maxPages\<rparr>"

definition census_missing :: "env \<Rightarrow> string list" where
  "census_missing ev = missing_names [(''FLOOR_CENSUS_TARGET'', Some (coalesce (ev ''FLOOR_CENSUS_TARGET'') [])),
     (''FLOOR_CENSUS_PAUSE_STATE'', ev ''FLOOR_CENSUS_PAUSE_STATE''),
     (''FLOOR_CENSUS_CATEGORY_POOL'', ev ''FLOOR_CENSUS_CATEGORY_POOL''),
     (''FLOOR_CENSUS_MAIN_POOL'', ev ''FLOOR_CENSUS_MAIN_POOL''),
     (''SONARI_MEMBERSHIP_REGISTRY_ID'', ev ''SONARI_MEMBERSHIP_REGISTRY_ID''),
     (''FLOOR_CENSUS_CELL_COUNT_INDEX'', ev ''FLOOR_CENSUS_CELL_COUNT_INDEX''),
     (''RELAYER_VERIFIER_REGISTRY'', ev ''RELAYER_VERIFIER_REGISTRY''), (''RELAYER_NETWORK'', ev ''RELAYER_NETWORK''),
     (''RELAYER_GRPC_URL'', ev ''RELAYER_GRPC_URL''), (''RELAYER_SIGNER_SECRET_ARN'', ev ''RELAYER_SIGNER_SECRET_ARN'')]"

definition census_config_error :: "env \<Rightarrow> string \<Rightarrow> string option" where
  "census_config_error ev mode =
     (let missing = census_missing ev;
          error0 = (if length missing = 0 then None
            else Some (join_with '', '' missing @ '' required for FLOOR_CENSUS_MODE='' @ mode));
          error1 = (if mode \<noteq> ''submit''
            then Some (appendConfigurationError error0 ''FLOOR_CENSUS_MODE currently supports submit only'') else error0)
      in if ev ''RELAYER_NETWORK'' \<noteq> None \<and> readSuiNetwork (ev ''RELAYER_NETWORK'') = None
         then Some (appendConfigurationError error1 ''RELAYER_NETWORK is required for floor census'') else error1)"

definition readFloorCensusConfigFromEnv :: "'w config_env \<Rightarrow> 'w census_config option" where
  "readFloorCensusConfigFromEnv ce =
     (let ev = ce_env ce in
      if unset (ev ''FLOOR_CENSUS_MODE'') \<or> ev ''FLOOR_CENSUS_MODE'' = Some ''disabled'' then None
      else let network = readSuiNetwork (ev ''RELAYER_NETWORK'');
          graphqlUrl = or_else (readOptionalEnv ev ''SONARI_SUI_GRAPHQL_URL'') (defaultSuiGraphqlUrl network)
      in Some \<lparr>cf_target = coalesce (ev ''FLOOR_CENSUS_TARGET'') [],
          cf_pauseState = coalesce (ev ''FLOOR_CENSUS_PAUSE_STATE'') [],
          cf_verifierRegistry = coalesce (ev ''RELAYER_VERIFIER_REGISTRY'') [],
          cf_categoryPool = coalesce (ev ''FLOOR_CENSUS_CATEGORY_POOL'') [],
          cf_mainPool = coalesce (ev ''FLOOR_CENSUS_MAIN_POOL'') [],
          cf_membershipRegistry = coalesce (ev ''SONARI_MEMBERSHIP_REGISTRY_ID'') [],
          cf_cellCountIndex = coalesce (ev ''FLOOR_CENSUS_CELL_COUNT_INDEX'') [],
          cf_signer = None, cf_loadSigner = optional_loader (load_signer ce) ev,
          cf_client = (case (network, ev ''RELAYER_GRPC_URL'') of (Some n, Some u) \<Rightarrow> Some (ce_censusClient ce n u) | _ \<Rightarrow> None),
          cf_reader = map_option (GraphqlFloorCensusReader (ce_graphql ce) (ce_maxPages ce)) graphqlUrl,
          cf_now = ce_now ce, cf_configurationError = census_config_error ev (the (ev ''FLOOR_CENSUS_MODE''))\<rparr>)"

section \<open>A configuration without an error is complete\<close>

lemma missing_names_Nil: "missing_names vars = [] \<longleftrightarrow> (\<forall>(n, v)\<in>set vars. \<not> unset v)"
  by (auto simp: missing_names_def filter_empty_conv)

lemma unset_coalesce: "\<not> unset (Some v) \<longleftrightarrow> v \<noteq> []"
  by (simp add: unset_def)

lemma set_coalesce: "\<not> unset v \<Longrightarrow> \<exists>s. v = Some s \<and> s \<noteq> []"
  by (cases v) (simp_all add: unset_def)

lemma readSuiNetwork_Some: "readSuiNetwork v = Some n \<Longrightarrow> v = Some n \<and> n \<in> {''mainnet'', ''testnet'', ''devnet''}"
  by (auto simp: readSuiNetwork_def split: if_splits)

lemma census_config_error_None:
  assumes "census_config_error ev mode = None"
  shows "census_missing ev = []" and "mode = ''submit''"
    and "ev ''RELAYER_NETWORK'' = None \<or> readSuiNetwork (ev ''RELAYER_NETWORK'') \<noteq> None"
  using assms by (auto simp: census_config_error_def Let_def split: if_splits)

text \<open>All that a submission needs is there.\<close>

definition complete_census_config :: "'w config_env \<Rightarrow> 'w census_config \<Rightarrow> bool" where
  "complete_census_config ce config \<longleftrightarrow>
     ce_env ce ''FLOOR_CENSUS_MODE'' = Some ''submit''
     \<and> (\<exists>n u. n \<in> {''mainnet'', ''testnet'', ''devnet''} \<and> ce_env ce ''RELAYER_NETWORK'' = Some n
          \<and> ce_env ce ''RELAYER_GRPC_URL'' = Some u \<and> cf_client config = Some (ce_censusClient ce n u))
     \<and> (\<exists>url. cf_reader config = Some (GraphqlFloorCensusReader (ce_graphql ce) (ce_maxPages ce) url))
     \<and> (\<exists>arn. arn \<noteq> [] \<and> ce_env ce ''RELAYER_SIGNER_SECRET_ARN'' = Some arn \<and> cf_loadSigner config = Some (load_signer ce arn))
     \<and> cf_target config \<noteq> [] \<and> cf_pauseState config \<noteq> [] \<and> cf_verifierRegistry config \<noteq> [] \<and> cf_categoryPool config \<noteq> []
     \<and> cf_mainPool config \<noteq> [] \<and> cf_membershipRegistry config \<noteq> [] \<and> cf_cellCountIndex config \<noteq> []"

text \<open>C40. A census configuration read without an error is complete: the mode is submit, the network is one of the three,
  the client, the reader and the signer are there, and no object identifier is empty.\<close>

theorem census_config_complete:
  assumes "readFloorCensusConfigFromEnv ce = Some config" and "cf_configurationError config = None"
  shows "complete_census_config ce config"
proof -
  let ?ev = "ce_env ce"
  note read = assms(1) [unfolded readFloorCensusConfigFromEnv_def Let_def]
  have m: "\<not> unset (?ev ''FLOOR_CENSUS_MODE'')" using read by (simp split: if_splits)
  then have err: "census_config_error ?ev (the (?ev ''FLOOR_CENSUS_MODE'')) = None"
    using read assms(2) by (auto split: if_splits)
  note e = census_config_error_None [OF err]
  from set_coalesce [OF m] e(2) have mode: "?ev ''FLOOR_CENSUS_MODE'' = Some ''submit''" by auto
  obtain n where n: "readSuiNetwork (?ev ''RELAYER_NETWORK'') = Some n"
    using e(1,3) by (auto simp: census_missing_def missing_names_Nil dest: set_coalesce)
  have target: "coalesce (?ev ''FLOOR_CENSUS_TARGET'') [] \<noteq> []"
    using e(1) by (simp add: census_missing_def missing_names_Nil unset_coalesce)
  have "\<not> unset (?ev ''FLOOR_CENSUS_PAUSE_STATE'')" "\<not> unset (?ev ''FLOOR_CENSUS_CATEGORY_POOL'')"
    "\<not> unset (?ev ''FLOOR_CENSUS_MAIN_POOL'')" "\<not> unset (?ev ''SONARI_MEMBERSHIP_REGISTRY_ID'')"
    "\<not> unset (?ev ''FLOOR_CENSUS_CELL_COUNT_INDEX'')" "\<not> unset (?ev ''RELAYER_VERIFIER_REGISTRY'')"
    "\<not> unset (?ev ''RELAYER_GRPC_URL'')" "\<not> unset (?ev ''RELAYER_SIGNER_SECRET_ARN'')"
    using e(1) by (simp_all add: census_missing_def missing_names_Nil)
  note vals = this [THEN set_coalesce]
  have url: "\<exists>url. or_else (readOptionalEnv ?ev ''SONARI_SUI_GRAPHQL_URL'') (defaultSuiGraphqlUrl (Some n)) = Some url"
    by (simp add: or_else_def defaultSuiGraphqlUrl_def split: option.split)
  from read have config: "cf_target config = coalesce (?ev ''FLOOR_CENSUS_TARGET'') []"
    "cf_pauseState config = coalesce (?ev ''FLOOR_CENSUS_PAUSE_STATE'') []"
    "cf_verifierRegistry config = coalesce (?ev ''RELAYER_VERIFIER_REGISTRY'') []"
    "cf_categoryPool config = coalesce (?ev ''FLOOR_CENSUS_CATEGORY_POOL'') []"
    "cf_mainPool config = coalesce (?ev ''FLOOR_CENSUS_MAIN_POOL'') []"
    "cf_membershipRegistry config = coalesce (?ev ''SONARI_MEMBERSHIP_REGISTRY_ID'') []"
    "cf_cellCountIndex config = coalesce (?ev ''FLOOR_CENSUS_CELL_COUNT_INDEX'') []"
    "cf_loadSigner config = optional_loader (load_signer ce) ?ev"
    "cf_client config = (case (Some n, ?ev ''RELAYER_GRPC_URL'') of (Some n, Some u) \<Rightarrow> Some (ce_censusClient ce n u) | _ \<Rightarrow> None)"
    "cf_reader config = map_option (GraphqlFloorCensusReader (ce_graphql ce) (ce_maxPages ce))
       (or_else (readOptionalEnv ?ev ''SONARI_SUI_GRAPHQL_URL'') (defaultSuiGraphqlUrl (Some n)))"
    by (auto simp: n split: if_splits)
  from vals(1) obtain a where a: "?ev ''FLOOR_CENSUS_PAUSE_STATE'' = Some a" "a \<noteq> []" by blast
  from vals(2) obtain b where b: "?ev ''FLOOR_CENSUS_CATEGORY_POOL'' = Some b" "b \<noteq> []" by blast
  from vals(3) obtain c where c: "?ev ''FLOOR_CENSUS_MAIN_POOL'' = Some c" "c \<noteq> []" by blast
  from vals(4) obtain d where d: "?ev ''SONARI_MEMBERSHIP_REGISTRY_ID'' = Some d" "d \<noteq> []" by blast
  from vals(5) obtain i where i: "?ev ''FLOOR_CENSUS_CELL_COUNT_INDEX'' = Some i" "i \<noteq> []" by blast
  from vals(6) obtain f where f: "?ev ''RELAYER_VERIFIER_REGISTRY'' = Some f" "f \<noteq> []" by blast
  from vals(7) obtain u where u: "?ev ''RELAYER_GRPC_URL'' = Some u" by blast
  from vals(8) obtain arn where arn: "?ev ''RELAYER_SIGNER_SECRET_ARN'' = Some arn" "arn \<noteq> []" by blast
  from url obtain g where g: "or_else (readOptionalEnv ?ev ''SONARI_SUI_GRAPHQL_URL'') (defaultSuiGraphqlUrl (Some n)) = Some g" by blast
  have "?ev ''RELAYER_NETWORK'' = Some n" "n \<in> {''mainnet'', ''testnet'', ''devnet''}" using readSuiNetwork_Some [OF n] by blast+
  then show ?thesis
    unfolding complete_census_config_def config mode a(1) b(1) c(1) d(1) i(1) f(1) u arn(1) g optional_loader_def
    using a(2) b(2) c(2) d(2) i(2) f(2) arn(2) target by (simp add: unset_def) blast
qed

definition demo_config_env :: "nat config_env" where
  "demo_config_env = \<lparr>ce_env = (\<lambda>k. if k = ''FLOOR_CENSUS_MODE'' then Some ''submit'' else if k = ''RELAYER_NETWORK'' then Some ''testnet''
       else Some ''0x1''), ce_getSecretValue = (\<lambda>_. io_return (Some ''key'')),
     ce_decodeSuiPrivateKey = (\<lambda>_. Inr (''ED25519'', [1])), ce_fromSecretKey = (\<lambda>_. demo_census_signer), ce_to_number = (\<lambda>_. None),
     ce_censusClient = (\<lambda>_ _ _ _. io_throw ''unused''), ce_graphql = \<lparr>ql_fetch = (\<lambda>_ _. io_throw ''offline''), ql_text = (\<lambda>_. []),
       ql_num = demo_num, ql_b64 = (\<lambda>_. [])\<rparr>, ce_maxPages = 10, ce_now = (\<lambda>n. (9, n))\<rparr>"

theorem census_config_complete_witness:
  "\<exists>config. readFloorCensusConfigFromEnv demo_config_env = Some config \<and> complete_census_config demo_config_env config"
proof -
  have "\<exists>config. readFloorCensusConfigFromEnv demo_config_env = Some config \<and> cf_configurationError config = None"
    by (simp add: readFloorCensusConfigFromEnv_def demo_config_env_def unset_def census_config_error_def census_missing_def
        missing_names_def readSuiNetwork_def Let_def)
  then obtain config where c: "readFloorCensusConfigFromEnv demo_config_env = Some config" "cf_configurationError config = None"
    by blast
  with census_config_complete [OF c] show ?thesis by blast
qed

end
