(* ===== verification/RunnerControl.thy ===== *)
theory RunnerControl
  imports Scheduler ProofRegistrar RunnerConfig
begin

text \<open>
  The handler of the runner workflow's actions, \<open>createRunnerControlHandler\<close> of
  \<open>watcher/src/runner_workflow.ts\<close>, with the functions it builds commands and adapters with.

  A computation works on the pair of the repository's state and the state of the outside world.  The clients of the
  cloud, the adapters and the platform are parameters; \<open>options.now\<close> is the clock \<open>rc_now\<close> of the clients.
  A result is the object that is returned, with the fields whose value is \<open>undefined\<close>.
\<close>

section \<open>Options and events\<close>

record ('s, 'w) runner_options =
  ro_clients :: "'w runner_clients"
  ro_repository :: "'s repository option"
  ro_relayer :: "'w relayer_adapter option"
  ro_enclaveRegistration :: "(string \<Rightarrow> string \<Rightarrow> string \<Rightarrow> ('w, enclave_metadata) io) option"
  ro_sourceArchive :: "'w source_archive_adapter option"
  ro_affectedCellsProofRegistrar :: "'w proof_registrar option"
  ro_floorCensus :: "'w census_adapter option"
  ro_autoScalingGroupName :: string
  ro_resultBucket :: string
  ro_nitroEnclaveProcessCommand :: string
  ro_relayerConfig :: "'w direct_relayer_config option"
  ro_floorCensusConfig :: "'w census_config option"
  ro_censusNitroEnclaveProcessCommand :: "string option"

text \<open>The platform: hashing, comparison, numbers, \<open>JSON.parse\<close>, \<open>fetch\<close>, secrets and the environment.\<close>

record 'w runner_env =
  rv_sha :: hash_fn
  rv_compare :: locale_compare
  rv_num :: "rat \<Rightarrow> string"
  rv_json_parse :: "string \<Rightarrow> js_value option"
  rv_relayer :: "'w relayer_env"
  rv_fetch :: "'w fetch_fn"
  rv_parse_url :: url_parser
  rv_getSecretString :: "string \<Rightarrow> ('w, string) io"
  rv_text :: "fetch_response \<Rightarrow> string option"
  rv_env :: env

record runner_event =
  ev_verifier_kind :: js_value
  ev_source_event_id :: string
  ev_event_revision :: "int option"
  ev_attempt :: "int option"
  ev_instance_id :: "string option"
  ev_result_s3_key :: "string option"
  ev_result :: js_value

datatype runner_action =
    StartInstance | StopInstance | FindReadyInstance
  | DispatchTeeCommand string | DispatchHealthCheckCommand string | DispatchGetAttestationCommand string
  | ReadHealthCheckResult | ReadAttestationResult | RegisterEnclaveInstance js_value
  | DispatchProcessDataCommand string js_value
  | PollCommand string string "int option"
  | ReadResult | ApplyResult | ArchiveSources | RegisterAffectedCellsProof
  | RestoreAffectedCellsProofRegistrationRetry "string option"
  | RelayerPreviewOrDryRun | RecordRelayerSuccess relayer_record_success
  | RunFloorCensus relayer_record_success
  | MarkFailed "string option" "string option"

section \<open>Commands for the runner\<close>

definition CENSUS_VERIFIER_CONFIG_KEY :: int where "CENSUS_VERIFIER_CONFIG_KEY = 3"
definition CENSUS_VERIFIER_FAMILY_ID :: int where "CENSUS_VERIFIER_FAMILY_ID = 5"
definition CENSUS_VERIFIER_KIND :: string where "CENSUS_VERIFIER_KIND = ''census''"
definition CENSUS_NITRO_ENCLAVE_PROCESS_COMMAND :: string where
  "CENSUS_NITRO_ENCLAVE_PROCESS_COMMAND = ''/opt/sonari/bin/run-census-enclave''"
definition CENSUS_RUNNER_COMMAND_MAX_POLLS :: nat where "CENSUS_RUNNER_COMMAND_MAX_POLLS = 60"
definition CENSUS_RUNNER_COMMAND_POLL_INTERVAL_MS :: int where "CENSUS_RUNNER_COMMAND_POLL_INTERVAL_MS = 5000"
definition CENSUS_TEE_INPUT_ARTIFACT_PREFIX :: string where "CENSUS_TEE_INPUT_ARTIFACT_PREFIX = ''source-artifacts''"

definition buildEarthquakeVerifierRequest :: "string \<Rightarrow> int \<Rightarrow> js_value" where
  "buildEarthquakeVerifierRequest sourceEventId eventRevision = JObj
     [(''source_event_id'', JStr sourceEventId), (''event_revision'', jint eventRevision),
      (''hazard_type'', jint EARTHQUAKE), (''primary_source'', jint USGS_SOURCE),
      (''geo_resolution'', jint DEFAULT_geo_resolution)]"

definition buildSsmShellCommand ::
    "(rat \<Rightarrow> string) \<Rightarrow> string \<Rightarrow> int \<Rightarrow> int \<Rightarrow> string \<Rightarrow> string \<Rightarrow> string \<Rightarrow> enclave_metadata option \<Rightarrow> js_value option
     \<Rightarrow> js_error + string" where
  "buildSsmShellCommand num sourceEventId eventRevision dispatchTimestampMs resultBucket resultS3Key
       nitroEnclaveProcessCommand registrationMetadata teeInput =
     (let request = buildEarthquakeVerifierRequest sourceEventId eventRevision in
      buildRunnerSsmShellCommand num
        \<lparr>ssi_resultBucket = resultBucket, ssi_resultS3Key = resultS3Key,
         ssi_nitroEnclaveProcessCommand = nitroEnclaveProcessCommand,
         ssi_teeInput = Some (coalesce teeInput
           (case registrationMetadata of
              None \<Rightarrow> request
            | Some md \<Rightarrow> JObj [(''action'', JStr ''process_data''), (''payload'', request),
                (''registration_metadata'', metadata_json md)])),
         ssi_teeInputS3Uri = None,
         ssi_requiredEnvNames = [''SONARI_WALRUS_CLI'', ''SONARI_WALRUS_N_SHARDS'', ''SONARI_EARTHQUAKE_EGRESS_PROXY_URL''],
         ssi_preEnvCommands = [],
         ssi_postEnvCommands =
           [''export SONARI_WALRUS_CLI SONARI_WALRUS_N_SHARDS SONARI_EARTHQUAKE_EGRESS_PROXY_URL''],
         ssi_tempResultPath = ''/tmp/sonari-tee-result-'' @ sourceEventId @ ''-'' @ show_int dispatchTimestampMs @ ''.json''\<rparr>)"

definition censusTeeInputArtifactS3Key :: "string \<Rightarrow> int \<Rightarrow> string" where
  "censusTeeInputArtifactS3Key sourceEventId dispatchTimestampMs =
     CENSUS_TEE_INPUT_ARTIFACT_PREFIX @ ''/'' @ sourceEventId @ ''/census-tee-inputs/'' @ show_int dispatchTimestampMs @ ''.json''"

definition buildCensusSsmShellCommand ::
    "(rat \<Rightarrow> string) \<Rightarrow> string \<Rightarrow> int \<Rightarrow> string \<Rightarrow> string \<Rightarrow> string \<Rightarrow> string \<Rightarrow> js_error + string" where
  "buildCensusSsmShellCommand num sourceEventId dispatchTimestampMs resultBucket resultS3Key
       nitroEnclaveProcessCommand teeInputS3Uri =
     buildRunnerSsmShellCommand num
       \<lparr>ssi_resultBucket = resultBucket, ssi_resultS3Key = resultS3Key,
        ssi_nitroEnclaveProcessCommand = nitroEnclaveProcessCommand,
        ssi_teeInput = None, ssi_teeInputS3Uri = Some teeInputS3Uri,
        ssi_requiredEnvNames = [''SONARI_CENSUS_EIF_PATH'', ''SONARI_CENSUS_NITRO_RUN_ENCLAVE_ARGS'',
          ''SONARI_CENSUS_ENCLAVE_CID'', ''NITRO_ENCLAVE_PROCESS_COMMAND'', ''RELAYER_NETWORK''],
        ssi_preEnvCommands = [''systemctl is-active --quiet nitro-enclaves-allocator.service''],
        ssi_postEnvCommands =
          [''test -s '' @ [double_quote] @ ''$SONARI_CENSUS_EIF_PATH'' @ [double_quote],
           ''export SONARI_CENSUS_EIF_PATH SONARI_CENSUS_NITRO_RUN_ENCLAVE_ARGS SONARI_CENSUS_ENCLAVE_CID NITRO_ENCLAVE_PROCESS_COMMAND RELAYER_NETWORK'',
           ''export SONARI_VERIFIER_KIND='' @ CENSUS_VERIFIER_KIND],
        ssi_tempResultPath =
          ''/tmp/sonari-census-tee-result-'' @ sourceEventId @ ''-'' @ show_int dispatchTimestampMs @ ''.json''\<rparr>"

definition buildEarthquakeBootstrapReadinessShellCommand :: string where
  "buildEarthquakeBootstrapReadinessShellCommand =
     buildRunnerBootstrapReadinessShellCommand
       [''RUNNER_TOKEN_FILE'', ''SONARI_WALRUS_CLI'', ''SONARI_WALRUS_N_SHARDS'', ''SONARI_EARTHQUAKE_EGRESS_PROXY_URL''] []
       [''test -s '' @ [double_quote] @ ''$RUNNER_TOKEN_FILE'' @ [double_quote],
        ''test -x '' @ [double_quote] @ ''$SONARI_WALRUS_CLI'' @ [double_quote],
        ''systemctl is-active --quiet nitro-enclaves-allocator.service'',
        ''systemctl is-active --quiet sonari-earthquake-egress-connect-proxy.service'',
        ''systemctl is-active --quiet sonari-earthquake-egress-vsock-proxy.service'']"

text \<open>The loop over the polls: at most \<open>n\<close> more.\<close>

fun wait_polls :: "'w runner_clients \<Rightarrow> string \<Rightarrow> string \<Rightarrow> nat \<Rightarrow> int \<Rightarrow> ('w, unit) io" where
  "wait_polls cl instanceId commandId 0 commandPollCount =
     io_throw ''census TEE command did not complete before timeout''"
| "wait_polls cl instanceId commandId (Suc n) commandPollCount =
     io_bind (pollRunnerCommand cl instanceId commandId (Some commandPollCount)) (\<lambda>(commandStatus, count).
       case commandStatus of
         CmdSucceeded \<Rightarrow> io_return ()
       | CmdFailed \<Rightarrow> io_throw ''census TEE command failed''
       | CmdPending \<Rightarrow> io_bind (rc_delay cl CENSUS_RUNNER_COMMAND_POLL_INTERVAL_MS)
           (\<lambda>_. wait_polls cl instanceId commandId n count))"

definition waitForRunnerCommandSuccess :: "'w runner_clients \<Rightarrow> string \<Rightarrow> string \<Rightarrow> ('w, unit) io" where
  "waitForRunnerCommandSuccess cl instanceId commandId = wait_polls cl instanceId commandId CENSUS_RUNNER_COMMAND_MAX_POLLS 0"

text \<open>\<open>AwsSsmClient.checkRunnerBootstrapReady\<close>: the poll \<open>attempt\<close> of five.\<close>

fun bootstrap_polls :: "'w runner_clients \<Rightarrow> string \<Rightarrow> string \<Rightarrow> nat \<Rightarrow> ('w, bool) io" where
  "bootstrap_polls cl instanceId commandId 0 = io_return False"
| "bootstrap_polls cl instanceId commandId (Suc n) =
     io_bind (pollRunnerCommand cl instanceId commandId None) (\<lambda>(commandStatus, _).
       case commandStatus of
         CmdSucceeded \<Rightarrow> io_return True
       | CmdFailed \<Rightarrow> io_return False
       | CmdPending \<Rightarrow>
           if n > 0 then io_bind (rc_delay cl 1000) (\<lambda>_. bootstrap_polls cl instanceId commandId n)
           else bootstrap_polls cl instanceId commandId n)"

definition checkRunnerBootstrapReady :: "'w runner_clients \<Rightarrow> string \<Rightarrow> ('w, bool) io" where
  "checkRunnerBootstrapReady cl instanceId =
     io_bind (rc_sendCommand cl instanceId buildEarthquakeBootstrapReadinessShellCommand) (\<lambda>commandId.
       bootstrap_polls cl instanceId commandId 5)"

section \<open>The census enclave\<close>

text \<open>\<open>JSON.parse\<close>, which throws on a text that is no JSON.\<close>

definition parse_json :: "'w runner_env \<Rightarrow> string \<Rightarrow> js_error + js_value" where
  "parse_json env txt = (case rv_json_parse env txt of None \<Rightarrow> Inl ''Unexpected token in JSON'' | Some v \<Rightarrow> Inr v)"

definition dispatchAndReadCensusTeeCommand ::
    "'w runner_env \<Rightarrow> ('s, 'w) runner_options \<Rightarrow> string \<Rightarrow> string \<Rightarrow> int \<Rightarrow> js_value \<Rightarrow> ('w, string) io" where
  "dispatchAndReadCensusTeeCommand env opts sourceEventId instanceId dispatchTimestampMs teeInput =
     io_bind (io_lift (assertValidUsgsSourceEventId sourceEventId)) (\<lambda>_.
     let cl = ro_clients opts; bucket = ro_resultBucket opts in
     case rc_putObjectBytes cl of
       None \<Rightarrow> io_throw ''census TEE command requires S3 byte staging support''
     | Some putObjectBytes \<Rightarrow>
       let command = coalesce (ro_censusNitroEnclaveProcessCommand opts) CENSUS_NITRO_ENCLAVE_PROCESS_COMMAND;
           teeInputS3Key = censusTeeInputArtifactS3Key sourceEventId dispatchTimestampMs in
       io_bind (putObjectBytes bucket teeInputS3Key (map of_char (json_text (rv_num env) teeInput))) (\<lambda>_.
       io_bind (dispatchRunnerCommand cl (sourceEventId @ ''-census'') instanceId dispatchTimestampMs
         (\<lambda>resultS3Key. buildCensusSsmShellCommand (rv_num env) sourceEventId dispatchTimestampMs bucket resultS3Key command
            (''s3://'' @ bucket @ ''/'' @ teeInputS3Key))) (\<lambda>dispatched.
       io_bind (waitForRunnerCommandSuccess cl instanceId (di_command_id dispatched)) (\<lambda>_.
         readRunnerResultText cl bucket (di_result_s3_key dispatched)))))"

definition buildCensusTeeFloorCensusFromConfig ::
    "'w runner_env \<Rightarrow> ('s, 'w) runner_options \<Rightarrow> runner_event \<Rightarrow> int \<Rightarrow> ('w, 'w census_adapter option) io" where
  "buildCensusTeeFloorCensusFromConfig env opts ev dispatchTimestampMs =
     (case ro_floorCensusConfig opts of None \<Rightarrow> io_return None | Some config \<Rightarrow>
      (case ev_instance_id ev of None \<Rightarrow> io_throw ''floor census requires a runner instance_id'' | Some instanceId \<Rightarrow>
      (case ro_enclaveRegistration opts of None \<Rightarrow> io_throw ''census enclave registration is not configured'' | Some registrar \<Rightarrow>
        io_bind (dispatchAndReadCensusTeeCommand env opts (ev_source_event_id ev) instanceId dispatchTimestampMs
          (JObj [(''action'', JStr ''get_attestation'')])) (\<lambda>attestationText.
        io_bind (io_lift (res_bind (parse_json env attestationText) readEnclaveAttestation)) (\<lambda>attestation.
        io_bind (registrar (ev_source_event_id ev) (ea_attestation_document_hex attestation) (ea_public_key attestation))
          (\<lambda>registration.
        io_bind (io_lift (requireRegistrationMetadata (metadata_json registration) CENSUS_VERIFIER_CONFIG_KEY)) (\<lambda>registered.
        if normalizeHex (em_enclave_instance_public_key registered) \<noteq> normalizeHex (ea_public_key attestation)
        then io_throw ''census registration metadata public key does not match attestation''
        else io_return (Some (TeeFloorCensusAdapter config
          (\<lambda>teeInput. io_bind (dispatchAndReadCensusTeeCommand env opts (ev_source_event_id ev) instanceId
             (dispatchTimestampMs + 1) teeInput) (\<lambda>txt. io_lift (parse_json env txt)))
          registered)))))))))"

definition readEnclaveHealthCheck :: "js_value \<Rightarrow> js_error + js_value" where
  "readEnclaveHealthCheck v =
     (if \<not> isRecord v \<or> field_of v ''status'' \<noteq> JStr ''healthy'' \<or> field_of v ''external_sources_reachable'' \<noteq> JBool True
      then Inl ''enclave health_check failed''
      else Inr (JObj [(''status'', JStr ''healthy''), (''external_sources_reachable'', JBool True)]))"

section \<open>The attempt of the workflow\<close>

definition requireRepository :: "('s, 'w) runner_options \<Rightarrow> js_error + 's repository" where
  "requireRepository opts =
     (case ro_repository opts of
        None \<Rightarrow> Inl ''state repository is required for this runner workflow action''
      | Some repository \<Rightarrow> Inr repository)"

record progress_input =
  pg_phase :: runner_phase
  pg_nowMs :: "int option"
  pg_instanceId :: "string option"
  pg_commandId :: "string option"
  pg_resultS3Key :: "string option"
  pg_lastPollAtMs :: "int option"
  pg_allowNonProcessing :: bool

definition progress :: "runner_phase \<Rightarrow> progress_input" where
  "progress phase = \<lparr>pg_phase = phase, pg_nowMs = None, pg_instanceId = None, pg_commandId = None, pg_resultS3Key = None,
     pg_lastPollAtMs = None, pg_allowNonProcessing = False\<rparr>"

definition clock :: "('s, 'w) runner_options \<Rightarrow> ('s \<times> 'w, int) io" where
  "clock opts = on_world (read_clock (rc_now (ro_clients opts)))"

definition stale :: js_error where "stale = ''stale runner workflow attempt''"

definition requireCurrentWorkflowAttempt ::
    "('s, 'w) runner_options \<Rightarrow> runner_event \<Rightarrow> progress_input \<Rightarrow> ('s \<times> 'w, unit) io" where
  "requireCurrentWorkflowAttempt opts ev inp =
     (case ro_repository opts of None \<Rightarrow> io_return () | Some repository \<Rightarrow>
      (case ev_attempt ev of None \<Rightarrow> io_throw ''runner workflow attempt is required'' | Some attempt \<Rightarrow>
        io_bind (case pg_nowMs inp of Some t \<Rightarrow> io_return t | None \<Rightarrow> clock opts) (\<lambda>nowMs.
        io_bind (on_repo (rp_updateRunnerWorkflowProgress repository
          \<lparr>wpu_source_event_id = ev_source_event_id ev, wpu_attempt = attempt, wpu_phase = pg_phase inp, wpu_now_ms = nowMs,
           wpu_instance_id = pg_instanceId inp, wpu_command_id = pg_commandId inp, wpu_result_s3_key = pg_resultS3Key inp,
           wpu_last_poll_at_ms = pg_lastPollAtMs inp, wpu_allow_non_processing = pg_allowNonProcessing inp\<rparr>)) (\<lambda>updated.
        io_ensure updated stale (io_return ())))))"

text \<open>A write of the attempt that must have been made.\<close>

definition must_mark :: "('s, bool) io \<Rightarrow> ('s \<times> 'w, unit) io" where
  "must_mark m = io_bind (on_repo m) (\<lambda>marked. io_ensure marked stale (io_return ()))"

section \<open>The actions\<close>

definition opt_str :: "string option \<Rightarrow> js_value" where
  "opt_str v = (case v of None \<Rightarrow> JUndef | Some s \<Rightarrow> JStr s)"

text \<open>The fields every result starts with, the spread of the instance, and the two fields about the result.\<close>

definition base_output :: "runner_event \<Rightarrow> json_record" where
  "base_output ev = [(''source_event_id'', JStr (ev_source_event_id ev)), (''attempt'', opt_int (ev_attempt ev))]"

definition instance_context :: "runner_event \<Rightarrow> json_record" where
  "instance_context ev = (case ev_instance_id ev of None \<Rightarrow> [] | Some i \<Rightarrow> [(''instance_id'', JStr i)])"

definition result_output :: "runner_event \<Rightarrow> tee_core_result \<Rightarrow> json_record" where
  "result_output ev result =
     [(''result_s3_key'', opt_str (ev_result_s3_key ev)), (''result_status'', JStr (tee_status result))]"

definition read_tee_result :: "'w runner_env \<Rightarrow> ('s, 'w) runner_options \<Rightarrow> runner_event \<Rightarrow> ('s \<times> 'w, tee_core_result) io" where
  "read_tee_result env opts ev = on_world (readTeeResultFromS3 (ro_clients opts) (rv_json_parse env) (rv_num env)
     (ro_resultBucket opts) (ev_source_event_id ev) (ev_result ev) (ev_result_s3_key ev))"

definition act_start_instance :: "('s, 'w) runner_options \<Rightarrow> runner_event \<Rightarrow> ('s \<times> 'w, json_record) io" where
  "act_start_instance opts ev =
     io_bind (requireCurrentWorkflowAttempt opts ev (progress PhStartingInstance)) (\<lambda>_.
     io_bind (on_world (setRunnerDesiredCapacity (ro_clients opts) (ro_autoScalingGroupName opts) 1)) (\<lambda>_.
       io_return (base_output ev @ [(''capacity'', JNum 1)])))"

definition act_stop_instance :: "('s, 'w) runner_options \<Rightarrow> runner_event \<Rightarrow> ('s \<times> 'w, json_record) io" where
  "act_stop_instance opts ev =
     io_bind (requireCurrentWorkflowAttempt opts ev ((progress PhStoppingInstance)\<lparr>pg_allowNonProcessing := True\<rparr>)) (\<lambda>_.
     io_bind (on_world (setRunnerDesiredCapacity (ro_clients opts) (ro_autoScalingGroupName opts) 0)) (\<lambda>_.
     io_bind (case (ro_repository opts, ev_attempt ev) of
         (Some repository, Some attempt) \<Rightarrow>
           io_bind (clock opts) (\<lambda>nowMs. must_mark (rp_markWorkflowStopped repository (ev_source_event_id ev) attempt nowMs))
       | _ \<Rightarrow> io_return ()) (\<lambda>_.
       io_return (base_output ev @ [(''capacity'', JNum 0)]))))"

definition act_find_ready_instance :: "('s, 'w) runner_options \<Rightarrow> runner_event \<Rightarrow> ('s \<times> 'w, json_record) io" where
  "act_find_ready_instance opts ev =
     io_bind (on_world (findReadyRunnerInstance (ro_clients opts) (ro_autoScalingGroupName opts) None)) (\<lambda>instanceId.
     io_bind (requireCurrentWorkflowAttempt opts ev ((progress PhWaitingForInstance)\<lparr>pg_instanceId := Some instanceId\<rparr>)) (\<lambda>_.
       io_return (base_output ev @ [(''instance_id'', JStr instanceId)])))"

text \<open>The four actions that send a command: the phase, and what is sent to the enclave.\<close>

definition dispatch_command ::
    "'w runner_env \<Rightarrow> ('s, 'w) runner_options \<Rightarrow> runner_event \<Rightarrow> runner_phase \<Rightarrow> string \<Rightarrow> enclave_metadata option
     \<Rightarrow> js_value option \<Rightarrow> ('s \<times> 'w, json_record) io" where
  "dispatch_command env opts ev phase instanceId registrationMetadata teeInput =
     io_bind (clock opts) (\<lambda>dispatchTimestampMs.
     let here = (progress phase)\<lparr>pg_instanceId := Some instanceId, pg_nowMs := Some dispatchTimestampMs\<rparr> in
     io_bind (requireCurrentWorkflowAttempt opts ev here) (\<lambda>_.
     io_bind (on_world (dispatchRunnerCommand (ro_clients opts) (ev_source_event_id ev) instanceId dispatchTimestampMs
       (\<lambda>resultS3Key. buildSsmShellCommand (rv_num env) (ev_source_event_id ev) (coalesce (ev_event_revision ev) 1)
          dispatchTimestampMs (ro_resultBucket opts) resultS3Key (ro_nitroEnclaveProcessCommand opts)
          registrationMetadata teeInput))) (\<lambda>dispatched.
     io_bind (requireCurrentWorkflowAttempt opts ev (here\<lparr>pg_commandId := Some (di_command_id dispatched),
         pg_resultS3Key := Some (di_result_s3_key dispatched)\<rparr>)) (\<lambda>_.
       io_return (base_output ev @ [(''instance_id'', JStr instanceId), (''command_id'', JStr (di_command_id dispatched)),
         (''result_s3_key'', JStr (di_result_s3_key dispatched)),
         (''command_poll_count'', jint (di_command_poll_count dispatched))])))))"

definition act_dispatch ::
    "'w runner_env \<Rightarrow> ('s, 'w) runner_options \<Rightarrow> runner_event \<Rightarrow> runner_phase \<Rightarrow> string \<Rightarrow> js_value option
     \<Rightarrow> ('s \<times> 'w, json_record) io" where
  "act_dispatch env opts ev phase instanceId teeInput =
     io_bind (io_lift (assertValidUsgsSourceEventId (ev_source_event_id ev))) (\<lambda>_.
       dispatch_command env opts ev phase instanceId None teeInput)"

definition act_dispatch_process_data ::
    "'w runner_env \<Rightarrow> ('s, 'w) runner_options \<Rightarrow> runner_event \<Rightarrow> string \<Rightarrow> js_value \<Rightarrow> ('s \<times> 'w, json_record) io" where
  "act_dispatch_process_data env opts ev instanceId registrationMetadata =
     io_bind (io_lift (assertValidUsgsSourceEventId (ev_source_event_id ev))) (\<lambda>_.
     io_bind (io_lift (requireRegistrationMetadata registrationMetadata EARTHQUAKE_VERIFIER_CONFIG_KEY)) (\<lambda>registered.
       dispatch_command env opts ev PhDispatchingCommand instanceId (Some registered) None))"

definition act_register_enclave ::
    "('s, 'w) runner_options \<Rightarrow> runner_event \<Rightarrow> js_value \<Rightarrow> ('s \<times> 'w, json_record) io" where
  "act_register_enclave opts ev attestationValue =
     (case ro_enclaveRegistration opts of None \<Rightarrow> io_throw ''enclave registration is not configured'' | Some registrar \<Rightarrow>
      io_bind (io_lift (readEnclaveAttestation attestationValue)) (\<lambda>attestation.
      io_bind (clock opts) (\<lambda>nowMs.
      io_bind (requireCurrentWorkflowAttempt opts ev ((progress PhRegisteringEnclave)\<lparr>pg_nowMs := Some nowMs\<rparr>)) (\<lambda>_.
      io_bind (on_world (registrar (ev_source_event_id ev) (ea_attestation_document_hex attestation)
        (ea_public_key attestation))) (\<lambda>registration.
      io_bind (io_lift (requireRegistrationMetadata (metadata_json registration) EARTHQUAKE_VERIFIER_CONFIG_KEY)) (\<lambda>registered.
      io_ensure (normalizeHex (em_enclave_instance_public_key registered) = normalizeHex (ea_public_key attestation))
        ''registration metadata public key does not match attestation'' (
        io_return (base_output ev @ [(''registration_metadata'', metadata_json registered)]))))))))"

text \<open>The two actions that read a command's output.\<close>

definition act_read_output ::
    "'w runner_env \<Rightarrow> ('s, 'w) runner_options \<Rightarrow> runner_event \<Rightarrow> runner_phase \<Rightarrow> string \<Rightarrow> (js_value \<Rightarrow> js_error + js_value)
     \<Rightarrow> ('s \<times> 'w, json_record) io" where
  "act_read_output env opts ev phase name read =
     io_bind (requireCurrentWorkflowAttempt opts ev ((progress phase)\<lparr>pg_resultS3Key := ev_result_s3_key ev\<rparr>)) (\<lambda>_.
     io_bind (on_world (readRunnerResultText (ro_clients opts) (ro_resultBucket opts) (coalesce (ev_result_s3_key ev) [])))
       (\<lambda>txt.
     io_bind (io_lift (res_bind (parse_json env txt) read)) (\<lambda>v.
       io_return (base_output ev @ [(name, v)]))))"

definition attestation_json :: "enclave_attestation \<Rightarrow> js_value" where
  "attestation_json a = JObj [(''attestation_document_hex'', JStr (ea_attestation_document_hex a)),
     (''public_key'', JStr (ea_public_key a))]"

definition command_status_text :: "command_status \<Rightarrow> string" where
  "command_status_text c = (case c of CmdPending \<Rightarrow> ''PENDING'' | CmdSucceeded \<Rightarrow> ''SUCCEEDED'' | CmdFailed \<Rightarrow> ''FAILED'')"

definition act_poll_command ::
    "('s, 'w) runner_options \<Rightarrow> runner_event \<Rightarrow> string \<Rightarrow> string \<Rightarrow> int option \<Rightarrow> ('s \<times> 'w, json_record) io" where
  "act_poll_command opts ev instanceId commandId commandPollCount =
     io_bind (clock opts) (\<lambda>pollTimestampMs.
     io_bind (on_world (pollRunnerCommand (ro_clients opts) instanceId commandId commandPollCount)) (\<lambda>(commandStatus, count).
     io_bind (requireCurrentWorkflowAttempt opts ev ((progress PhPollingCommand)\<lparr>pg_instanceId := Some instanceId,
         pg_commandId := Some commandId, pg_resultS3Key := ev_result_s3_key ev, pg_lastPollAtMs := Some pollTimestampMs,
         pg_nowMs := Some pollTimestampMs\<rparr>)) (\<lambda>_.
       io_return (base_output ev @ [(''instance_id'', JStr instanceId), (''command_id'', JStr commandId),
         (''result_s3_key'', opt_str (ev_result_s3_key ev)), (''command_poll_count'', jint count),
         (''command_status'', JStr (command_status_text commandStatus))]))))"

definition act_read_result :: "'w runner_env \<Rightarrow> ('s, 'w) runner_options \<Rightarrow> runner_event \<Rightarrow> ('s \<times> 'w, json_record) io" where
  "act_read_result env opts ev =
     io_bind (requireCurrentWorkflowAttempt opts ev ((progress PhReadingResult)\<lparr>pg_resultS3Key := ev_result_s3_key ev\<rparr>)) (\<lambda>_.
     io_bind (read_tee_result env opts ev) (\<lambda>result.
       io_return (base_output ev @ instance_context ev @ result_output ev result)))"

definition act_apply_result :: "'w runner_env \<Rightarrow> ('s, 'w) runner_options \<Rightarrow> runner_event \<Rightarrow> ('s \<times> 'w, json_record) io" where
  "act_apply_result env opts ev =
     io_bind (io_lift (requireRepository opts)) (\<lambda>repository.
     io_bind (clock opts) (\<lambda>nowMs.
     io_bind (requireCurrentWorkflowAttempt opts ev ((progress PhApplyingResult)\<lparr>pg_resultS3Key := ev_result_s3_key ev,
         pg_nowMs := Some nowMs\<rparr>)) (\<lambda>_.
     io_bind (read_tee_result env opts ev) (\<lambda>result.
     io_bind (must_mark (rp_applyRunnerResult repository (ev_source_event_id ev) result nowMs
         (if isPendingTeeResult result then Some (nowMs + HOUR_MS) else None) (ev_attempt ev))) (\<lambda>_.
       io_return (base_output ev @ instance_context ev @ [(''applied'', JBool True)] @ result_output ev result))))))"

definition stage_text :: "stage_status \<Rightarrow> string" where
  "stage_text st = (case st of Skipped \<Rightarrow> ''skipped'' | Success \<Rightarrow> ''success'' | ConfigurationFailed \<Rightarrow> ''configuration_failed''
     | RetryableFailed \<Rightarrow> ''retryable_failed'' | IntegrityFailed \<Rightarrow> ''integrity_failed'')"

text \<open>The progress of the actions that follow the result: they may find the row in any status.\<close>

definition after_result :: "runner_phase \<Rightarrow> runner_event \<Rightarrow> int option \<Rightarrow> progress_input" where
  "after_result phase ev nowMs = (progress phase)\<lparr>pg_allowNonProcessing := True, pg_resultS3Key := ev_result_s3_key ev,
     pg_nowMs := nowMs\<rparr>"

definition archive_output :: "runner_event \<Rightarrow> stage_status \<Rightarrow> string list \<Rightarrow> tee_core_result \<Rightarrow> json_record" where
  "archive_output ev st keys result = base_output ev @ instance_context ev
     @ [(''source_archive'', JStr (stage_text st)), (''source_artifact_s3_keys'', JArr (map JStr keys))] @ result_output ev result"

definition act_archive_sources :: "'w runner_env \<Rightarrow> ('s, 'w) runner_options \<Rightarrow> runner_event \<Rightarrow> ('s \<times> 'w, json_record) io" where
  "act_archive_sources env opts ev =
     io_bind (io_lift (requireRepository opts)) (\<lambda>repository.
     io_bind (clock opts) (\<lambda>nowMs.
     io_bind (read_tee_result env opts ev) (\<lambda>result.
     case result of
       TeeFinalized v \<Rightarrow>
         io_bind (requireCurrentWorkflowAttempt opts ev (after_result PhArchivingSources ev (Some nowMs))) (\<lambda>_.
         io_bind (case ro_sourceArchive opts of
             Some a \<Rightarrow> io_return a
           | None \<Rightarrow> io_lift (buildSourceArchiveFromConfig (rv_fetch env) (rv_parse_url env) (rv_num env)
               (rv_getSecretString env) (rv_env env) (ro_clients opts))) (\<lambda>archive.
         io_bind (on_world (archiveFinalizedSources (rv_sha env) (rv_compare env) (rv_num env) archive
           \<lparr>ai_sourceEventId = ev_source_event_id ev, ai_attempt = ev_attempt ev, ai_resultBucket = ro_resultBucket opts,
            ai_result = v\<rparr>)) (\<lambda>archived.
         io_bind (must_mark (rp_markSourceArchiveResult repository (ev_source_event_id ev)
           (if aa_status archived = Success
            then \<lparr>sau_status = Success, sau_artifact_s3_keys = aa_artifactS3Keys archived, sau_error_code = None,
                   sau_retryable_next_retry_at_ms = None, sau_message = None\<rparr>
            else sourceArchiveFailureStateUpdate archived nowMs) nowMs (ev_attempt ev))) (\<lambda>_.
           io_return (archive_output ev (aa_status archived) (aa_artifactS3Keys archived) result)))))
     | _ \<Rightarrow>
         io_bind (requireCurrentWorkflowAttempt opts ev (after_result PhComplete ev (Some nowMs))) (\<lambda>_.
         io_bind (must_mark (rp_markSourceArchiveResult repository (ev_source_event_id ev)
           \<lparr>sau_status = Skipped, sau_artifact_s3_keys = [], sau_error_code = None, sau_retryable_next_retry_at_ms = None,
            sau_message = None\<rparr> nowMs (ev_attempt ev))) (\<lambda>_.
           io_return (archive_output ev Skipped [] result))))))"

definition archived_row :: "event_row option \<Rightarrow> bool" where
  "archived_row row \<longleftrightarrow> some_and (\<lambda>r. er_source_archive_status r = Some Success) row"

definition act_register_proof :: "'w runner_env \<Rightarrow> ('s, 'w) runner_options \<Rightarrow> runner_event \<Rightarrow> ('s \<times> 'w, json_record) io" where
  "act_register_proof env opts ev =
     io_bind (io_lift (requireRepository opts)) (\<lambda>repository.
     io_bind (clock opts) (\<lambda>nowMs.
     io_bind (requireCurrentWorkflowAttempt opts ev (after_result PhRegisteringAffectedCellsProof ev (Some nowMs))) (\<lambda>_.
     io_bind (read_tee_result env opts ev) (\<lambda>result.
     io_bind (on_repo (rp_get repository (ev_source_event_id ev))) (\<lambda>row.
     io_bind (on_world (registerAffectedCellsProofAction
       (buildAffectedCellsProofRegistrarFromConfig (rv_fetch env) (rv_text env) (rv_num env) (rv_getSecretString env) (rv_env env))
       (ro_affectedCellsProofRegistrar opts) result (archived_row row))) (\<lambda>registration.
     io_bind (must_mark (rp_markAffectedCellsProofRegistrationResult repository (ev_source_event_id ev)
       (affectedCellsProofRegistrationStateUpdate registration nowMs) nowMs (ev_attempt ev))) (\<lambda>_.
       io_return (base_output ev @ [(''instance_id'', opt_str (ev_instance_id ev)),
         (''affected_cells_proof_registration'', JStr (stage_text (pa_status registration)))] @ result_output ev result))))))))"

definition act_restore_proof_retry ::
    "('s, 'w) runner_options \<Rightarrow> runner_event \<Rightarrow> string option \<Rightarrow> ('s \<times> 'w, json_record) io" where
  "act_restore_proof_retry opts ev message =
     io_bind (io_lift (requireRepository opts)) (\<lambda>repository.
     io_bind (clock opts) (\<lambda>nowMs.
     io_bind (must_mark (rp_markAffectedCellsProofRegistrationResult repository (ev_source_event_id ev)
       \<lparr>pru_status = RetryableFailed, pru_error_code = Some ''AFFECTED_CELLS_PROOF_REGISTRATION_RETRYABLE_FAILED'',
        pru_retryable_next_retry_at_ms = Some (nowMs + SOURCE_ARCHIVE_RETRY_BACKOFF_MS),
        pru_message = Some (coalesce message ''affected cells proof registration retry failed'')\<rparr> nowMs (ev_attempt ev))) (\<lambda>_.
       io_return (base_output ev @ [(''affected_cells_proof_registration'', JStr ''retry_restored'')]))))"

definition mode_text :: "relayer_mode \<Rightarrow> string" where
  "mode_text m = (case m of Preview \<Rightarrow> ''preview'' | DryRun \<Rightarrow> ''dry_run'' | Submit \<Rightarrow> ''submit'')"

definition record_success_json :: "relayer_record_success \<Rightarrow> js_value" where
  "record_success_json s = (let c = rrs_config s in JObj
     ([(''mode'', JStr (mode_text (rrs_mode s))), (''target'', JStr (qc_target c)), (''registry'', JStr (qc_registry c)),
       (''verifierRegistry'', JStr (qc_verifierRegistry c)), (''categoryRegistry'', JStr (qc_categoryRegistry c)),
       (''categoryPool'', JStr (qc_categoryPool c))]
      @ opt_entry ''digest'' (map_option JStr (rrs_digest s)) @ opt_entry ''objectId'' (map_option JStr (rrs_objectId s))))"

definition relayer_output :: "runner_event \<Rightarrow> string \<Rightarrow> tee_core_result \<Rightarrow> json_record" where
  "relayer_output ev outcome result = base_output ev @ instance_context ev @ [(''relayer'', JStr outcome)] @ result_output ev result"

text \<open>\<open>options.relayer ?? buildRelayerFromConfig(options.config)\<close>.\<close>

definition configured_relayer :: "'w runner_env \<Rightarrow> ('s, 'w) runner_options \<Rightarrow> 'w relayer_adapter option" where
  "configured_relayer env opts =
     or_else (ro_relayer opts) (map_option (DirectRelayerAdapter (rv_relayer env)) (ro_relayerConfig opts))"

text \<open>What follows the adapter's answer: a failure is recorded, under the attempt.\<close>

definition finish_relay ::
    "('s, 'w) runner_options \<Rightarrow> runner_event \<Rightarrow> 's repository \<Rightarrow> 'w relayer_adapter \<Rightarrow> tee_core_result \<Rightarrow> int
     \<Rightarrow> relayer_error + relayer_success \<Rightarrow> ('s \<times> 'w, json_record) io" where
  "finish_relay opts ev repository adapter result nowMs relayed =
     (case relayed of
        Inr success \<Rightarrow> io_return (relayer_output ev ''succeeded'' result
          @ [(''relayer_success'', record_success_json (compactRelayerSuccess success))])
      | Inl (errorCode, message) \<Rightarrow>
          io_bind (requireCurrentWorkflowAttempt opts ev (after_result PhComplete ev (Some nowMs))) (\<lambda>_.
          io_bind (must_mark (rp_markRelayerFailed repository (ev_source_event_id ev) (ra_mode adapter) errorCode message
            nowMs (ev_attempt ev))) (\<lambda>_.
            io_return (relayer_output ev ''failed'' result))))"

definition relay_result ::
    "('s, 'w) runner_options \<Rightarrow> runner_event \<Rightarrow> 's repository \<Rightarrow> 'w relayer_adapter \<Rightarrow> tee_core_result
     \<Rightarrow> ('s \<times> 'w, json_record) io" where
  "relay_result opts ev repository adapter result =
     io_bind (requireCurrentWorkflowAttempt opts ev (after_result PhComplete ev None)) (\<lambda>_.
     io_bind (on_repo (rp_get repository (ev_source_event_id ev))) (\<lambda>row.
     if \<not> archived_row row then io_return (relayer_output ev ''skipped'' result)
     else io_bind (clock opts) (\<lambda>nowMs.
     io_bind (on_world (ra_relay adapter result)) (finish_relay opts ev repository adapter result nowMs))))"

definition act_relay :: "'w runner_env \<Rightarrow> ('s, 'w) runner_options \<Rightarrow> runner_event \<Rightarrow> ('s \<times> 'w, json_record) io" where
  "act_relay env opts ev =
     io_bind (io_lift (requireRepository opts)) (\<lambda>repository.
     let relayer = configured_relayer env opts in
     io_bind (read_tee_result env opts ev) (\<lambda>result.
     case (relayer, result) of
       (Some adapter, TeeFinalized v) \<Rightarrow> relay_result opts ev repository adapter result
     | _ \<Rightarrow> io_return (relayer_output ev ''skipped'' result)))"

definition act_record_relayer_success ::
    "'w runner_env \<Rightarrow> ('s, 'w) runner_options \<Rightarrow> runner_event \<Rightarrow> relayer_record_success \<Rightarrow> ('s \<times> 'w, json_record) io" where
  "act_record_relayer_success env opts ev success =
     io_bind (io_lift (requireRepository opts)) (\<lambda>repository.
     io_bind (clock opts) (\<lambda>nowMs.
     io_bind (requireCurrentWorkflowAttempt opts ev (after_result PhComplete ev (Some nowMs))) (\<lambda>_.
     io_bind (read_tee_result env opts ev) (\<lambda>result.
     io_bind (io_lift (buildRelayerSuccessForRecord (re_clock (rv_relayer env)) success result)) (\<lambda>recorded.
     io_bind (must_mark (rp_markRelayerSucceeded repository (ev_source_event_id ev) recorded nowMs (ev_attempt ev))) (\<lambda>_.
       io_return (base_output ev @ [(''relayer'', JStr ''recorded'')] @ instance_context ev @ result_output ev result
         @ [(''relayer_success'', record_success_json success)])))))))"

section \<open>The floor census of an event\<close>

definition census_update :: "floor_census_status \<Rightarrow> string option \<Rightarrow> floor_census_update" where
  "census_update st message = \<lparr>fcu_status = st, fcu_digest = None, fcu_counts = None, fcu_message = message\<rparr>"

text \<open>The counts are three.\<close>

definition counts_triple :: "int list \<Rightarrow> int \<times> int \<times> int" where
  "counts_triple xs = (case xs of [a, b, c] \<Rightarrow> (a, b, c) | _ \<Rightarrow> (0, 0, 0))"

definition census_output :: "runner_event \<Rightarrow> string \<Rightarrow> string \<Rightarrow> json_record" where
  "census_output ev outcome status = base_output ev
     @ [(''floor_census'', JStr outcome), (''result_s3_key'', opt_str (ev_result_s3_key ev)), (''result_status'', JStr status)]"

text \<open>The body of the \<open>try\<close> block.\<close>

definition census_body ::
    "'w runner_env \<Rightarrow> ('s, 'w) runner_options \<Rightarrow> runner_event \<Rightarrow> relayer_record_success \<Rightarrow> 's repository \<Rightarrow> int
     \<Rightarrow> ('s \<times> 'w, json_record) io" where
  "census_body env opts ev success repository nowMs =
     (let mark = (\<lambda>update. on_repo (rp_markFloorCensusResult repository (ev_source_event_id ev) update nowMs (ev_attempt ev))) in
      io_bind (read_tee_result env opts ev) (\<lambda>result.
      case result of
        TeeFinalized v \<Rightarrow>
          io_bind (case ro_floorCensus opts of
              Some f \<Rightarrow> io_return (Some f)
            | None \<Rightarrow> on_world (buildCensusTeeFloorCensusFromConfig env opts ev nowMs)) (\<lambda>floorCensus.
          case floorCensus of
            None \<Rightarrow>
              io_bind (mark (census_update FcSkipped (Some ''floor census is not configured''))) (\<lambda>_.
                io_return (census_output ev ''skipped'' ''finalized''))
          | Some run \<Rightarrow>
              io_bind (on_world (run \<lparr>cu_sourceEventId = ev_source_event_id ev, cu_result = result,
                cu_relayerDigest = rrs_digest success, cu_disasterEventId = rrs_objectId success\<rparr>)) (\<lambda>census.
              case census of
                CensusSkipped reason \<Rightarrow>
                  io_bind (mark (census_update FcSkipped (Some reason))) (\<lambda>_.
                    io_return (census_output ev ''skipped'' ''finalized''))
              | CensusSucceeded s \<Rightarrow>
                  io_bind (mark \<lparr>fcu_status = FcSucceeded, fcu_digest = cx_digest s, fcu_counts = Some (counts_triple (cx_counts s)),
                    fcu_message = None\<rparr>) (\<lambda>_.
                    io_return (census_output ev ''succeeded'' ''finalized''))))
      | _ \<Rightarrow>
          io_bind (mark (census_update FcSkipped (Some ''TEE result is not finalized''))) (\<lambda>_.
            io_return (census_output ev ''skipped'' (tee_status result)))))"

definition act_run_floor_census ::
    "'w runner_env \<Rightarrow> ('s, 'w) runner_options \<Rightarrow> runner_event \<Rightarrow> relayer_record_success \<Rightarrow> ('s \<times> 'w, json_record) io" where
  "act_run_floor_census env opts ev success =
     io_bind (io_lift (requireRepository opts)) (\<lambda>repository.
     io_bind (clock opts) (\<lambda>nowMs.
     io_bind (requireCurrentWorkflowAttempt opts ev (after_result PhComplete ev (Some nowMs))) (\<lambda>_.
     io_bind (on_repo (rp_get repository (ev_source_event_id ev))) (\<lambda>row.
     if some_and (\<lambda>r. er_floor_census_status r = Some FcSucceeded) row
     then io_return (census_output ev ''skipped'' ''finalized'')
     else
       io_bind (must_mark (rp_markFloorCensusProcessing repository (ev_source_event_id ev) nowMs (ev_attempt ev))) (\<lambda>_.
       io_catch (census_body env opts ev success repository nowMs) (\<lambda>e.
         io_bind (on_repo (rp_markFloorCensusResult repository (ev_source_event_id ev) (census_update FcFailed (Some e)) nowMs
           (ev_attempt ev))) (\<lambda>_. io_throw e)))))))"

definition act_mark_failed ::
    "('s, 'w) runner_options \<Rightarrow> runner_event \<Rightarrow> string option \<Rightarrow> string option \<Rightarrow> ('s \<times> 'w, json_record) io" where
  "act_mark_failed opts ev errorCodeText message =
     io_bind (io_lift (requireRepository opts)) (\<lambda>repository.
     io_bind (clock opts) (\<lambda>nowMs.
     io_bind (requireCurrentWorkflowAttempt opts ev ((progress PhComplete)\<lparr>pg_nowMs := Some nowMs, pg_allowNonProcessing := True\<rparr>))
       (\<lambda>_.
     io_bind (io_lift (readRunnerFailureErrorCode errorCodeText)) (\<lambda>errorCode.
     io_bind (must_mark (rp_markFailed repository (ev_source_event_id ev) errorCode nowMs (nowMs + FAILED_RETRY_BACKOFF_MS)
       (Some (coalesce (or_else message errorCodeText) ''runner workflow failed'')) (ev_attempt ev))) (\<lambda>_.
       io_return (base_output ev @ [(''failed'', JBool True)]))))))"

section \<open>The handler\<close>

fun run_action ::
    "'w runner_env \<Rightarrow> ('s, 'w) runner_options \<Rightarrow> runner_event \<Rightarrow> runner_action \<Rightarrow> ('s \<times> 'w, json_record) io" where
  "run_action env opts ev StartInstance = act_start_instance opts ev"
| "run_action env opts ev StopInstance = act_stop_instance opts ev"
| "run_action env opts ev FindReadyInstance = act_find_ready_instance opts ev"
| "run_action env opts ev (DispatchTeeCommand i) = act_dispatch env opts ev PhDispatchingCommand i None"
| "run_action env opts ev (DispatchHealthCheckCommand i) =
     act_dispatch env opts ev PhHealthChecking i (Some (JObj [(''action'', JStr ''health_check'')]))"
| "run_action env opts ev (DispatchGetAttestationCommand i) =
     act_dispatch env opts ev PhGettingAttestation i (Some (JObj [(''action'', JStr ''get_attestation'')]))"
| "run_action env opts ev (RegisterEnclaveInstance a) = act_register_enclave opts ev a"
| "run_action env opts ev (DispatchProcessDataCommand i md) = act_dispatch_process_data env opts ev i md"
| "run_action env opts ev ReadHealthCheckResult =
     act_read_output env opts ev PhHealthChecking ''health_check'' readEnclaveHealthCheck"
| "run_action env opts ev ReadAttestationResult =
     act_read_output env opts ev PhGettingAttestation ''attestation''
       (\<lambda>v. res_bind (readEnclaveAttestation v) (\<lambda>a. Inr (attestation_json a)))"
| "run_action env opts ev (PollCommand i c n) = act_poll_command opts ev i c n"
| "run_action env opts ev ReadResult = act_read_result env opts ev"
| "run_action env opts ev ApplyResult = act_apply_result env opts ev"
| "run_action env opts ev ArchiveSources = act_archive_sources env opts ev"
| "run_action env opts ev RegisterAffectedCellsProof = act_register_proof env opts ev"
| "run_action env opts ev (RestoreAffectedCellsProofRegistrationRetry m) = act_restore_proof_retry opts ev m"
| "run_action env opts ev RelayerPreviewOrDryRun = act_relay env opts ev"
| "run_action env opts ev (RecordRelayerSuccess s) = act_record_relayer_success env opts ev s"
| "run_action env opts ev (RunFloorCensus s) = act_run_floor_census env opts ev s"
| "run_action env opts ev (MarkFailed c m) = act_mark_failed opts ev c m"

definition retainVerifierKind :: "string option \<Rightarrow> runner_event \<Rightarrow> json_record \<Rightarrow> json_record" where
  "retainVerifierKind verifierKind ev out =
     withVerifierKind verifierKind (out @ opt_entry ''event_revision'' (map_option jint (ev_event_revision ev)))"

definition runnerControlHandler ::
    "'w runner_env \<Rightarrow> ('s, 'w) runner_options \<Rightarrow> runner_event \<Rightarrow> runner_action \<Rightarrow> ('s \<times> 'w, json_record) io" where
  "runnerControlHandler env opts ev action =
     io_bind (io_lift (parseExpectedVerifierKind (ev_verifier_kind ev) EARTHQUAKE_VERIFIER_KIND)) (\<lambda>verifierKind.
     io_bind (run_action env opts ev action) (\<lambda>out. io_return (retainVerifierKind verifierKind ev out)))"

text \<open>
  The entry point of the deployed function: the configuration of the action from the environment.  The clients of the
  cloud and the repository of a table are parameters.
\<close>

definition config_when :: "bool \<Rightarrow> 'a option \<Rightarrow> 'a option" where
  "config_when b c = (if b then c else None)"

definition is_census_action :: "runner_action \<Rightarrow> bool" where
  "is_census_action a = (case a of RunFloorCensus _ \<Rightarrow> True | _ \<Rightarrow> False)"

definition is_relayer_action :: "runner_action \<Rightarrow> bool" where
  "is_relayer_action a = (case a of RelayerPreviewOrDryRun \<Rightarrow> True | _ \<Rightarrow> False)"

definition registers_enclave :: "runner_action \<Rightarrow> bool" where
  "registers_enclave a = (case a of RegisterEnclaveInstance _ \<Rightarrow> True | _ \<Rightarrow> is_census_action a)"

definition handler ::
    "'w runner_env \<Rightarrow> 'w config_env \<Rightarrow> 'w registration_env \<Rightarrow> 'w runner_clients \<Rightarrow> (string \<Rightarrow> 's repository)
     \<Rightarrow> runner_event \<Rightarrow> runner_action \<Rightarrow> ('s \<times> 'w, json_record) io" where
  "handler env ce genv clients repository_of ev action =
     (let e = ce_env ce; census = is_census_action action in
      io_bind (io_lift (parseExpectedVerifierKind (ev_verifier_kind ev) EARTHQUAKE_VERIFIER_KIND)) (\<lambda>_.
      io_bind (io_lift (requiredEnv e ''RUNNER_ASG_NAME'')) (\<lambda>autoScalingGroupName.
      io_bind (io_lift (requiredEnv e ''RESULT_BUCKET'')) (\<lambda>resultBucket.
      io_bind (io_lift (requiredEnv e ''NITRO_ENCLAVE_PROCESS_COMMAND'')) (\<lambda>processCommand.
      io_bind (if census then io_lift (res_bind (requiredEnv e ''CENSUS_NITRO_ENCLAVE_PROCESS_COMMAND'') (\<lambda>c. Inr (Some c)))
               else io_return None) (\<lambda>censusCommand.
      io_bind (io_lift (requiredEnv e ''EVENTS_TABLE_NAME'')) (\<lambda>table.
        runnerControlHandler env
          \<lparr>ro_clients = clients, ro_repository = Some (repository_of table), ro_relayer = None,
           ro_enclaveRegistration = config_when (registers_enclave action)
             (Some (register genv (if census
               then readEnclaveRegistrationConfigFromEnv ce (Some CENSUS_VERIFIER_CONFIG_KEY) (Some CENSUS_VERIFIER_FAMILY_ID)
               else readEnclaveRegistrationConfigFromEnv ce None None))),
           ro_sourceArchive = None, ro_affectedCellsProofRegistrar = None, ro_floorCensus = None,
           ro_autoScalingGroupName = autoScalingGroupName, ro_resultBucket = resultBucket,
           ro_nitroEnclaveProcessCommand = processCommand,
           ro_relayerConfig = config_when (is_relayer_action action) (readRelayerConfigFromEnv ce),
           ro_floorCensusConfig = config_when census (readFloorCensusConfigFromEnv ce),
           ro_censusNitroEnclaveProcessCommand = censusCommand\<rparr> ev action)))))))"

end
