(* ===== verification/RunnerControlProps.thy ===== *)
theory RunnerControlProps
  imports RunnerControl DynamoProps
begin

text \<open>
  What the actions of the runner workflow guarantee.  An action of an old attempt stops at the fence before it has
  touched anything; this rests on one law of the repository, the locale \<open>attempt_fence\<close>, which the in-memory
  repository and the one over a table service keep.  A result is relayed only when its sources are archived, and a
  census that succeeded is not run again.
\<close>

section \<open>Calls of the repository and of the world\<close>

lemma on_repo_result:
  "on_repo m (s, w) = (res, sw) \<longleftrightarrow> (\<exists>s'. m s = (res, s') \<and> sw = (s', w))"
  by (auto simp: on_repo_def split: prod.splits)

lemma on_world_result:
  "on_world m (s, w) = (res, sw) \<longleftrightarrow> (\<exists>w'. m w = (res, w') \<and> sw = (s, w'))"
  by (auto simp: on_world_def split: prod.splits)

definition tick :: "'w runner_clients \<Rightarrow> 'w \<Rightarrow> 'w" where
  "tick cl w = snd (rc_now cl w)"

text \<open>Nothing happened but at most \<open>n\<close> readings of the clock.\<close>

definition only_clock :: "('s, 'w) runner_options \<Rightarrow> nat \<Rightarrow> 'w \<Rightarrow> 'w \<Rightarrow> bool" where
  "only_clock opts n w w' \<longleftrightarrow> (\<exists>i\<le>n. w' = (tick (ro_clients opts) ^^ i) w)"

lemma only_clock_refl [simp]: "only_clock opts n w w"
  by (auto simp: only_clock_def intro: exI [of _ 0])

lemma only_clock_tick: "only_clock opts n (tick (ro_clients opts) w) w' \<Longrightarrow> only_clock opts (Suc n) w w'"
  unfolding only_clock_def
  by (metis Suc_le_mono funpow_Suc_right comp_apply)

lemma only_clock_one: "only_clock opts 1 w (tick (ro_clients opts) w)"
  by (auto simp: only_clock_def intro: exI [of _ 1])

lemma only_clock_mono: "only_clock opts n w w' \<Longrightarrow> n \<le> m \<Longrightarrow> only_clock opts m w w'"
  by (auto simp: only_clock_def intro: order_trans)

lemma clock_run: "clock opts (s, w) = (Inr (fst (rc_now (ro_clients opts) w)), (s, tick (ro_clients opts) w))"
  by (simp add: clock_def on_world_def read_clock_def tick_def split: prod.split)

text \<open>A computation that stops with an error, having read the clock at most \<open>n\<close> times.\<close>

definition stops :: "('s \<Rightarrow> 'v) \<Rightarrow> ('s, 'w) runner_options \<Rightarrow> nat \<Rightarrow> ('s \<times> 'w, 'a) io \<Rightarrow> 's \<times> 'w \<Rightarrow> bool" where
  "stops stored opts n m sw \<longleftrightarrow>
     (\<exists>e s' w'. m sw = (Inl e, (s', w')) \<and> stored s' = stored (fst sw) \<and> only_clock opts n (snd sw) w')"

lemma stops_bind: "stops stored opts n m sw \<Longrightarrow> stops stored opts n (io_bind m f) sw"
  by (auto simp: stops_def)

lemma stops_clock:
  "(\<And>t. stops stored opts n (f t) (s, tick (ro_clients opts) w)) \<Longrightarrow> stops stored opts (Suc n) (io_bind (clock opts) f) (s, w)"
  unfolding stops_def by (simp add: io_bind_def clock_run) (meson only_clock_tick)

lemma stops_lift: "(\<And>x. stops stored opts n (f x) sw) \<Longrightarrow> stops stored opts n (io_bind (io_lift y) f) sw"
  by (cases y; cases sw) (auto simp: stops_def io_bind_def io_lift_def)

lemma stops_throw: "stops stored opts n (io_throw e) sw"
  by (cases sw) (simp add: stops_def io_throw_def)

lemma stops_mono: "stops stored opts n m sw \<Longrightarrow> n \<le> k \<Longrightarrow> stops stored opts k m sw"
  unfolding stops_def by (meson only_clock_mono)

section \<open>The fence of the attempts\<close>

definition has_attempt :: "int \<Rightarrow> event_row option \<Rightarrow> bool" where
  "has_attempt a row \<longleftrightarrow> some_and (\<lambda>r. er_runner_attempt r = Some a) row"

text \<open>The actions that pass the fence before they do anything else.\<close>

definition fenced_first :: "runner_action \<Rightarrow> bool" where
  "fenced_first action = (case action of
     FindReadyInstance \<Rightarrow> False | PollCommand _ _ _ \<Rightarrow> False | ArchiveSources \<Rightarrow> False
   | RestoreAffectedCellsProofRegistrationRetry _ \<Rightarrow> False | RelayerPreviewOrDryRun \<Rightarrow> False | _ \<Rightarrow> True)"

text \<open>What is relied on: recording the progress of an attempt that the stored row does not have changes nothing and
  does not return true.\<close>

locale attempt_fence =
  fixes rp :: "'s repository" and row_of :: "'s \<Rightarrow> string \<Rightarrow> event_row option" and stored :: "'s \<Rightarrow> 'v"
  assumes progress_stale: "\<not> has_attempt (wpu_attempt u) (row_of s (wpu_source_event_id u)) \<Longrightarrow>
      rp_updateRunnerWorkflowProgress rp u s = (res, s') \<Longrightarrow> res \<noteq> Inr True \<and> stored s' = stored s"
begin

definition outdated :: "('s, 'w) runner_options \<Rightarrow> runner_event \<Rightarrow> 's \<Rightarrow> bool" where
  "outdated opts ev s \<longleftrightarrow> ro_repository opts = Some rp
     \<and> (\<forall>a. ev_attempt ev = Some a \<longrightarrow> \<not> has_attempt a (row_of s (ev_source_event_id ev)))"

lemma progress_stops:
  assumes "\<not> has_attempt (wpu_attempt u) (row_of s (wpu_source_event_id u))"
  shows "stops stored opts n (io_bind (on_repo (rp_updateRunnerWorkflowProgress rp u))
    (\<lambda>updated. io_ensure updated stale (io_return ()))) (s, w)"
proof -
  obtain res s' where run: "rp_updateRunnerWorkflowProgress rp u s = (res, s')" by (rule prod.exhaust)
  with progress_stale [OF assms run] show ?thesis
    by (cases res) (auto simp: stops_def io_bind_def on_repo_def io_ensure_def io_throw_def)
qed

lemma guard_stops:
  assumes "outdated opts ev s"
  shows "stops stored opts (if pg_nowMs inp = None then 1 else 0) (requireCurrentWorkflowAttempt opts ev inp) (s, w)"
proof (cases "ev_attempt ev")
  case None
  with assms show ?thesis by (simp add: outdated_def requireCurrentWorkflowAttempt_def stops_throw)
next
  case (Some a)
  with assms have *: "ro_repository opts = Some rp" "\<not> has_attempt a (row_of s (ev_source_event_id ev))"
    by (simp_all add: outdated_def)
  show ?thesis
    using Some *
    by (cases "pg_nowMs inp")
      (auto simp: requireCurrentWorkflowAttempt_def simp flip: One_nat_def intro!: stops_clock [where n = 0, simplified] progress_stops)
qed

lemma guard_stops_1: "outdated opts ev s \<Longrightarrow> stops stored opts 1 (io_bind (requireCurrentWorkflowAttempt opts ev inp) f) (s, w)"
  by (rule stops_mono [OF stops_bind [OF guard_stops]]) simp_all

lemma guard_stops_0:
  "outdated opts ev s \<Longrightarrow> pg_nowMs inp = Some t \<Longrightarrow> stops stored opts 0 (io_bind (requireCurrentWorkflowAttempt opts ev inp) f) (s, w)"
  using stops_bind [OF guard_stops, of opts ev s inp] by simp

lemma after_clock_stops:
  "outdated opts ev s \<Longrightarrow> (\<And>t. \<exists>t'. pg_nowMs (inp t) = Some t') \<Longrightarrow>
    stops stored opts 1 (io_bind (clock opts) (\<lambda>t. io_bind (requireCurrentWorkflowAttempt opts ev (inp t)) (f t))) (s, w)"
  unfolding One_nat_def by (rule stops_clock) (metis guard_stops_0)

lemmas action_stops_rules = guard_stops_1 after_clock_stops stops_lift stops_throw

lemma action_stops:
  assumes "outdated opts ev s" and "fenced_first action"
  shows "stops stored opts 1 (run_action env opts ev action) (s, w)"
  using assms(2)
  by (cases action)
    (auto simp: act_start_instance_def act_stop_instance_def act_dispatch_def act_dispatch_process_data_def dispatch_command_def
      act_register_enclave_def act_read_output_def act_read_result_def act_apply_result_def act_register_proof_def
      act_record_relayer_success_def act_run_floor_census_def act_mark_failed_def after_result_def Let_def fenced_first_def simp del: One_nat_def
      split: option.split intro!: action_stops_rules assms(1))

lemma handler_stops:
  assumes "outdated opts ev s" and "fenced_first action"
  shows "stops stored opts 1 (runnerControlHandler env opts ev action) (s, w)"
  unfolding runnerControlHandler_def by (intro stops_lift stops_bind action_stops assms)

end

section \<open>The two repositories keep the law\<close>

interpretation mem_fence: attempt_fence "mem_repository sha" "\<lambda>st k. mem_get k st" "\<lambda>st. st"
proof
  fix u s res s'
  assume fresh: "\<not> has_attempt (wpu_attempt u) (mem_get (wpu_source_event_id u) s)"
    and run: "rp_updateRunnerWorkflowProgress (mem_repository sha) u s = (res, s')"
  obtain b where b: "mem_updateRunnerWorkflowProgress u s = (b, s')" "res = Inr b"
    using run by (auto simp: mem_repository_def io_pure_def prod_eq_iff)
  from modify_cases [OF b(1) [unfolded mem_updateRunnerWorkflowProgress_def]] fresh b(2)
  show "res \<noteq> Inr True \<and> s' = s" by (auto simp: has_attempt_def some_and_def split: option.splits)
qed

sublocale table_service \<subseteq> progress_fence: attempt_fence "dynamo_repository sha db fuel" "\<lambda>st. tb_rows (view st)" view
  for sha fuel
proof
  fix u s res s'
  assume fresh: "\<not> has_attempt (wpu_attempt u) (tb_rows (view s) (wpu_source_event_id u))"
    and run: "rp_updateRunnerWorkflowProgress (dynamo_repository sha db fuel) u s = (res, s')"
  let ?cond = "\<lambda>row. (wpu_allow_non_processing u \<or> er_status row = Processing) \<and> er_runner_attempt row = Some (wpu_attempt u)"
  let ?f = "\<lambda>row. applyRunnerWorkflowProgress row u"
  obtain sent where sent: "db_update db (wpu_source_event_id u) ?cond ?f s = (sent, s')" "res = Inr True \<Longrightarrow> sent = Inr ()"
    using run by (auto simp: dynamo_repository_def dyn_updateRunnerWorkflowProgress_def update_when_def send_catch_def io_prims
        split: prod.splits sum.splits if_splits)
  show "res \<noteq> Inr True \<and> view s' = view s"
  proof (cases "tb_rows (view s) (wpu_source_event_id u)")
    case None
    with update_missing [OF None sent(1)] sent(2) show ?thesis by auto
  next
    case (Some r)
    with fresh have "\<not> ?cond r" by (simp add: has_attempt_def some_and_def)
    with update [OF Some sent(1)] sent(2) show ?thesis by (auto simp: write_result_def split: sum.splits)
  qed
qed

context table_service
begin

lemma old_attempt_stops:
  assumes "ro_repository opts = Some (dynamo_repository sha db fuel)"
    and "\<forall>a. ev_attempt ev = Some a \<longrightarrow> \<not> has_attempt a (tb_rows (view s) (ev_source_event_id ev))"
    and "fenced_first action"
  shows "stops view opts 1 (runnerControlHandler env opts ev action) (s, w)"
  by (rule progress_fence.handler_stops [OF _ assms(3)]) (use assms in \<open>simp add: progress_fence.outdated_def\<close>)

end

section \<open>Old attempts\<close>


section \<open>Relaying\<close>

lemma guard_world:
  assumes "requireCurrentWorkflowAttempt opts ev inp (s, w) = (res, (s', w'))"
  shows "only_clock opts (if pg_nowMs inp = None then 1 else 0) w w'"
proof (cases "pg_nowMs inp")
  case None
  have "only_clock opts 1 w w \<and> only_clock opts 1 w (tick (ro_clients opts) w)"
    by (auto simp: only_clock_def intro: exI [of _ 1])
  with None assms show ?thesis
    by (auto simp: requireCurrentWorkflowAttempt_def io_bind_def clock_run io_prims io_ensure_def on_repo_def
        split: option.splits prod.splits sum.splits if_splits)
next
  case (Some t)
  with assms show ?thesis
    by (auto simp: requireCurrentWorkflowAttempt_def io_bind_def io_prims io_ensure_def on_repo_def
        split: option.splits prod.splits sum.splits if_splits)
qed

lemma must_mark_world: "must_mark m (s, w) = (res, (s', w')) \<Longrightarrow> w' = w"
  by (auto simp: must_mark_def io_bind_def io_prims io_ensure_def on_repo_def split: prod.splits sum.splits if_splits)

text \<open>What the action read, and that the adapter was called once, after the row was seen to be archived.\<close>

definition result_read :: "'w runner_env \<Rightarrow> ('s, 'w) runner_options \<Rightarrow> runner_event \<Rightarrow> 'w \<Rightarrow> js_error + tee_core_result \<Rightarrow> 'w \<Rightarrow> bool" where
  "result_read env opts ev w result w1 \<longleftrightarrow>
     readTeeResultFromS3 (ro_clients opts) (rv_json_parse env) (rv_num env) (ro_resultBucket opts) (ev_source_event_id ev)
       (ev_result ev) (ev_result_s3_key ev) w = (result, w1)"

definition relay_outcome :: "relayer_error + relayer_success \<Rightarrow> string" where
  "relay_outcome relayed = (case relayed of Inr _ \<Rightarrow> ''succeeded'' | Inl _ \<Rightarrow> ''failed'')"

definition relayed_archived ::
    "'w runner_env \<Rightarrow> ('s, 'w) runner_options \<Rightarrow> runner_event \<Rightarrow> 's repository \<Rightarrow> tee_core_result \<Rightarrow> 'w
     \<Rightarrow> js_error + (relayer_error + relayer_success) \<Rightarrow> 'w \<Rightarrow> bool" where
  "relayed_archived env opts ev rp result w1 relayed w3 \<longleftrightarrow>
     (\<exists>adapter v row s1 s2 w2. configured_relayer env opts = Some adapter \<and> result = TeeFinalized v
        \<and> rp_get rp (ev_source_event_id ev) s1 = (Inr (Some row), s2) \<and> er_source_archive_status row = Some Success
        \<and> only_clock opts 2 w1 w2 \<and> ra_relay adapter result w2 = (relayed, w3))"

lemma read_tee_result_run:
  "read_tee_result env opts ev (s, w) = (r, sw) \<longleftrightarrow> (\<exists>w1. result_read env opts ev w r w1 \<and> sw = (s, w1))"
  by (auto simp: read_tee_result_def on_world_result result_read_def)

lemma only_clock_trans: "only_clock opts n w1 w2 \<Longrightarrow> only_clock opts m w2 w3 \<Longrightarrow> only_clock opts (n + m) w1 w3"
  unfolding only_clock_def
proof (elim exE conjE)
  fix i j assume "i \<le> n" "j \<le> m" "w2 = (tick (ro_clients opts) ^^ i) w1" "w3 = (tick (ro_clients opts) ^^ j) w2"
  then have "j + i \<le> n + m" "w3 = (tick (ro_clients opts) ^^ (j + i)) w1" by (simp_all add: funpow_add)
  then show "\<exists>i\<le>n + m. w3 = (tick (ro_clients opts) ^^ i) w1" by blast
qed

lemma archived_row_Some: "archived_row row \<Longrightarrow> \<exists>r. row = Some r \<and> er_source_archive_status r = Some Success"
  by (cases row) (simp_all add: archived_row_def some_and_def)

lemma base_output_field: "map_of (base_output ev @ ys) ''relayer'' = map_of ys ''relayer''"
  by (simp add: base_output_def)

lemma instance_context_field: "map_of (instance_context ev @ ys) ''relayer'' = map_of ys ''relayer''"
  by (cases "ev_instance_id ev") (simp_all add: instance_context_def)

lemma relayer_output_field: "map_of (relayer_output ev outcome result @ ys) ''relayer'' = Some (JStr outcome)"
  by (simp add: relayer_output_def base_output_field instance_context_field del: map_of_append)

text \<open>The end of the action: a failure is recorded under the attempt.\<close>

lemma relay_end:
  assumes "finish_relay opts ev rp adapter result nowMs relayed (s, w) = (res, (s', w'))"
  shows "w' = w \<and> (\<forall>out. res = Inr out \<longrightarrow> map_of out ''relayer'' = Some (JStr (relay_outcome relayed)))"
proof -
  note field = relayer_output_field
  show ?thesis
  proof (cases relayed)
    case (Inr success)
    with assms field [of _ "''succeeded''"] show ?thesis by (auto simp: io_return_def relay_outcome_def finish_relay_def simp del: map_of_append)
  next
    case (Inl e)
    obtain errorCode message where e: "e = (errorCode, message)" by (rule prod.exhaust)
    note run = assms [unfolded finish_relay_def Inl e sum.case prod.case]
    have stay: "w1 = w" if "requireCurrentWorkflowAttempt opts ev (after_result PhComplete ev (Some nowMs)) (s, w) = (r, (s1, w1))" for r s1 w1
      using guard_world [OF that] by (simp add: after_result_def only_clock_def)
    from run show ?thesis
    proof (cases rule: io_bind_cases)
      case (threw e1)
      with stay show ?thesis by auto
    next
      case (returned x st1)
      obtain s1 w1 where st1: "st1 = (s1, w1)" by (rule prod.exhaust)
      with returned(1) stay have "w1 = w" by simp
      with returned(2) st1 field [of _ "''failed''" _ "[]"] Inl show ?thesis
        by (auto elim!: io_bind_cases simp: io_return_def relay_outcome_def dest!: must_mark_world)
    qed
  qed
qed

lemma relay_finalized:
  assumes "relay_result opts ev rp adapter result (s, w) = (res, (s', w'))"
  shows "only_clock opts 2 w w' \<and> (\<forall>out. res = Inr out \<longrightarrow> map_of out ''relayer'' = Some (JStr ''skipped''))
    \<or> (\<exists>row s1 s2 w2 relayed. rp_get rp (ev_source_event_id ev) s1 = (Inr (Some row), s2)
        \<and> er_source_archive_status row = Some Success \<and> only_clock opts 2 w w2 \<and> ra_relay adapter result w2 = (relayed, w')
        \<and> (\<forall>out. res = Inr out \<longrightarrow> (\<exists>answer. relayed = Inr answer
             \<and> map_of out ''relayer'' = Some (JStr (relay_outcome answer)))))"
  using assms [unfolded relay_result_def]
proof (cases rule: io_bind_cases)
  case (threw e)
  with guard_world [OF threw(1)] show ?thesis by (auto simp: after_result_def progress_def elim: only_clock_mono)
next
  case (returned x st1)
  obtain s1 w1 where st1: "st1 = (s1, w1)" by (rule prod.exhaust)
  from guard_world [OF returned(1) [unfolded st1]] have w1: "only_clock opts 1 w w1"
    by (simp add: after_result_def progress_def)
  then have w1_2: "only_clock opts 2 w w1" by (rule only_clock_mono) simp
  note field = relayer_output_field [of ev "''skipped''" result "[]", simplified]
  from returned(2) show ?thesis unfolding st1
  proof (cases rule: io_bind_cases)
    case (threw e)
    with w1_2 show ?thesis by (auto simp: on_repo_result)
  next
    case (returned row st2)
    then obtain s2 where s2: "rp_get rp (ev_source_event_id ev) s1 = (Inr row, s2)" "st2 = (s2, w1)" by (auto simp: on_repo_result)
    show ?thesis
    proof (cases "archived_row row")
      case False
      with returned(2) s2(2) w1_2 field show ?thesis by (auto simp: io_return_def)
    next
      case True
      then obtain r where row: "row = Some r" "er_source_archive_status r = Some Success" using archived_row_Some by blast
      let ?w2 = "tick (ro_clients opts) w1"
      have "only_clock opts 1 w1 ?w2" by (rule only_clock_one)
      from only_clock_trans [OF w1 this] have w2: "only_clock opts 2 w ?w2" by (simp add: numeral_2_eq_2)
      from returned(2) True s2(2) have "io_bind (on_world (ra_relay adapter result))
          (finish_relay opts ev rp adapter result (fst (rc_now (ro_clients opts) w1))) (s2, ?w2) = (res, (s', w'))"
        by (simp add: io_bind_def clock_run)
      then show ?thesis
      proof (cases rule: io_bind_cases)
        case (threw e)
        with s2(1) row w2 show ?thesis by (auto simp: on_world_result)
      next
        case (returned relayed st3)
        then obtain w3 where w3: "ra_relay adapter result ?w2 = (Inr relayed, w3)" "st3 = (s2, w3)" by (auto simp: on_world_result)
        from relay_end [OF returned(2) [unfolded w3(2)]] s2(1) row w2 w3(1) show ?thesis by blast
      qed
    qed
  qed
qed


section \<open>A concrete runner\<close>

text \<open>A world that counts what happens in it: a reading of the clock adds one, everything else a hundred.\<close>

definition demo_clients :: "nat runner_clients" where
  "demo_clients = \<lparr>rc_setDesiredCapacity = (\<lambda>_ _ n. (Inr (), n + 100)), rc_listRunnerInstances = (\<lambda>_ n. (Inr [], n + 100)),
     rc_listOnlineManagedInstanceIds = (\<lambda>_ n. (Inr [], n + 100)), rc_checkRunnerBootstrapReady = (\<lambda>_ n. (Inr True, n + 100)),
     rc_sendCommand = (\<lambda>_ _ n. (Inr ''c'', n + 100)), rc_getCommandInvocation = (\<lambda>_ _ n. (Inr ''Success'', n + 100)),
     rc_getObjectText = (\<lambda>_ _ n. (Inr [], n + 100)), rc_putObjectBytes = None, rc_now = (\<lambda>n. (9, Suc n)),
     rc_delay = (\<lambda>_ n. (Inr (), n))\<rparr>"

definition demo_success :: relayer_success where
  "demo_success = \<lparr>rs_mode = Submit, rs_request = JObj [], rs_digest = Some ''d'', rs_object_id = Some ''o''\<rparr>"

definition demo_options :: "'s repository \<Rightarrow> ('s, nat) runner_options" where
  "demo_options rp = \<lparr>ro_clients = demo_clients, ro_repository = Some rp,
     ro_relayer = Some \<lparr>ra_mode = Submit, ra_relay = (\<lambda>_ n. (Inr (Inr demo_success), n + 100))\<rparr>,
     ro_enclaveRegistration = None, ro_sourceArchive = None, ro_affectedCellsProofRegistrar = None, ro_floorCensus = None,
     ro_autoScalingGroupName = ''asg'', ro_resultBucket = ''bucket'', ro_nitroEnclaveProcessCommand = ''run'',
     ro_relayerConfig = None, ro_floorCensusConfig = None, ro_censusNitroEnclaveProcessCommand = None\<rparr>"

definition demo_runner_env :: "nat runner_env" where
  "demo_runner_env = \<lparr>rv_sha = demo_sha, rv_compare = (\<lambda>_ _. 0), rv_num = demo_num, rv_json_parse = (\<lambda>_. Some demo_result),
     rv_relayer = demo_env, rv_fetch = (\<lambda>_ _ _ n. (Inl FetchAborted, n)), rv_parse_url = (\<lambda>_. None),
     rv_getSecretString = (\<lambda>_. io_throw ''none''), rv_text = (\<lambda>_. None), rv_env = Map.empty\<rparr>"

definition demo_event :: "int \<Rightarrow> runner_event" where
  "demo_event attempt = \<lparr>ev_verifier_kind = JUndef, ev_source_event_id = ''us7000abcd'', ev_event_revision = Some 1,
     ev_attempt = Some attempt, ev_instance_id = None, ev_result_s3_key = None, ev_result = demo_result\<rparr>"


definition demo_archived_row :: event_row where
  "demo_archived_row = (start_row ''run'' 1 1 2000 (baseRow ''us7000abcd'' 1000))\<lparr>er_source_archive_status := Some Success\<rparr>"

definition demo_archived :: mem_repo where
  "demo_archived = \<lparr>mr_rows = [(''us7000abcd'', demo_archived_row)], mr_lock = None\<rparr>"

lemma demo_row_facts:
  "mem_get ''us7000abcd'' demo_archived = Some demo_archived_row" "er_runner_attempt demo_archived_row = Some 1"
  "er_source_archive_status demo_archived_row = Some Success" "er_floor_census_status demo_archived_row = None"
  by (simp_all add: demo_archived_def mem_get_def demo_archived_row_def start_row_def baseRow_def)

lemma demo_result_read:
  "result_read demo_runner_env (demo_options rp) (demo_event 1) n (Inr (TeeFinalized (submit_json demo_submit))) n"
proof -
  have "isRecord demo_result" "field_of demo_result ''status'' = JStr ''finalized''"
    "field_of demo_result ''payload'' = JObj sample_payload_json" "demo_result \<noteq> JUndef"
    by (simp_all add: demo_result_def isRecord_def field_of_def get_field_def)
  moreover have "get_field sample_payload_json ''source_event_id'' = JStr ''us7000abcd''"
    by (simp add: sample_payload_json_def get_field_def)
  ultimately show ?thesis
    by (simp add: result_read_def readTeeResultFromS3_def parseTeeResult_def assertTeeResultSourceEventId_def Let_def io_lift_def
        demo_event_def demo_runner_env_def demo_result_accepted demo_submit_parts)
qed

lemma progress_current:
  assumes "mem_get (wpu_source_event_id u) s = Some row" "er_runner_attempt row = Some (wpu_attempt u)"
    "wpu_allow_non_processing u"
  shows "rp_updateRunnerWorkflowProgress (mem_repository sha) u s
    = (Inr True, set_row (wpu_source_event_id u) (applyRunnerWorkflowProgress row u) s)"
  using assms by (simp add: mem_repository_def io_pure_def mem_updateRunnerWorkflowProgress_def modify_def)

lemma progress_row:
  "er_runner_attempt (applyRunnerWorkflowProgress row u) = er_runner_attempt row"
  "er_source_archive_status (applyRunnerWorkflowProgress row u) = er_source_archive_status row"
  "er_floor_census_status (applyRunnerWorkflowProgress row u) = er_floor_census_status row"
  "er_floor_census_retry_count (applyRunnerWorkflowProgress row u) = er_floor_census_retry_count row"
  by (simp_all add: applyRunnerWorkflowProgress_def Let_def)

text \<open>In memory, the fence lets the current attempt pass.\<close>

lemma guard_passes:
  assumes "ro_repository opts = Some (mem_repository sha)" and "ev_attempt ev = Some a"
    and "mem_get (ev_source_event_id ev) s = Some row" and "er_runner_attempt row = Some a" and "pg_allowNonProcessing inp"
  shows "\<exists>u w'. requireCurrentWorkflowAttempt opts ev inp (s, w)
      = (Inr (), (set_row (ev_source_event_id ev) (applyRunnerWorkflowProgress row u) s, w'))
    \<and> w' = (if pg_nowMs inp = None then tick (ro_clients opts) w else w)"
proof -
  let ?u = "\<lambda>nowMs. \<lparr>wpu_source_event_id = ev_source_event_id ev, wpu_attempt = a, wpu_phase = pg_phase inp, wpu_now_ms = nowMs,
     wpu_instance_id = pg_instanceId inp, wpu_command_id = pg_commandId inp, wpu_result_s3_key = pg_resultS3Key inp,
     wpu_last_poll_at_ms = pg_lastPollAtMs inp, wpu_allow_non_processing = pg_allowNonProcessing inp\<rparr>"
  have "rp_updateRunnerWorkflowProgress (mem_repository sha) (?u t) s
      = (Inr True, set_row (ev_source_event_id ev) (applyRunnerWorkflowProgress row (?u t)) s)" for t
    using progress_current [of "?u t" s row] assms by simp
  then show ?thesis
    by (cases "pg_nowMs inp")
      (simp_all add: requireCurrentWorkflowAttempt_def assms(1,2) io_bind_def clock_run io_prims io_ensure_def on_repo_def, blast+)
qed


section \<open>The census\<close>

lemma mem_repository_ops:
  "rp_get (mem_repository sha) k s = (Inr (mem_get k s), s)"
  "rp_markFloorCensusProcessing (mem_repository sha) k t a s
    = (Inr (fst (mem_markFloorCensusProcessing k t a s)), snd (mem_markFloorCensusProcessing k t a s))"
  "rp_markFloorCensusResult (mem_repository sha) k u t a s
    = (Inr (fst (mem_markFloorCensusResult k u t a s)), snd (mem_markFloorCensusResult k u t a s))"
  by (simp_all add: mem_repository_def io_read_def io_pure_def)

text \<open>The state in which the action looks at the row: the clock was read, and the progress of the attempt is recorded.\<close>

lemma census_start:
  assumes "ro_repository opts = Some (mem_repository sha)"
    and "run_action env opts ev (RunFloorCensus success) (s, w) = (res, (s', w'))"
  obtains (stopped) e where "res = Inl e" "w' = tick (ro_clients opts) w" "s' = s"
      "\<not> (\<exists>a row. ev_attempt ev = Some a \<and> mem_get (ev_source_event_id ev) s = Some row \<and> er_runner_attempt row = Some a)"
  | (begun) a row u where "ev_attempt ev = Some a" "mem_get (ev_source_event_id ev) s = Some row" "er_runner_attempt row = Some a"
      "io_bind (on_repo (rp_get (mem_repository sha) (ev_source_event_id ev))) (\<lambda>row.
         if some_and (\<lambda>r. er_floor_census_status r = Some FcSucceeded) row
         then io_return (census_output ev ''skipped'' ''finalized'')
         else io_bind (must_mark (rp_markFloorCensusProcessing (mem_repository sha) (ev_source_event_id ev)
             (fst (rc_now (ro_clients opts) w)) (ev_attempt ev))) (\<lambda>_.
           io_catch (census_body env opts ev success (mem_repository sha) (fst (rc_now (ro_clients opts) w))) (\<lambda>e.
             io_bind (on_repo (rp_markFloorCensusResult (mem_repository sha) (ev_source_event_id ev)
               (census_update FcFailed (Some e)) (fst (rc_now (ro_clients opts) w)) (ev_attempt ev))) (\<lambda>_. io_throw e))))
       (set_row (ev_source_event_id ev) (applyRunnerWorkflowProgress row u) s, tick (ro_clients opts) w) = (res, (s', w'))"
proof -
  let ?inp = "after_result PhComplete ev (Some (fst (rc_now (ro_clients opts) w)))" and ?w = "tick (ro_clients opts) w"
  have inp: "pg_allowNonProcessing ?inp" "pg_nowMs ?inp \<noteq> None" by (simp_all add: after_result_def)
  note run = assms(2) [unfolded run_action.simps act_run_floor_census_def requireRepository_def assms(1) option.case]
  show thesis
  proof (cases "\<exists>a row. ev_attempt ev = Some a \<and> mem_get (ev_source_event_id ev) s = Some row \<and> er_runner_attempt row = Some a")
    case True
    then obtain a row where a: "ev_attempt ev = Some a" "mem_get (ev_source_event_id ev) s = Some row" "er_runner_attempt row = Some a"
      by blast
    from guard_passes [OF assms(1) a inp(1), of ?w] inp(2)
    obtain u where "requireCurrentWorkflowAttempt opts ev ?inp (s, ?w)
        = (Inr (), (set_row (ev_source_event_id ev) (applyRunnerWorkflowProgress row u) s, ?w))" by auto
    with run show thesis by (intro begun [OF a, of u]) (simp add: io_bind_def io_lift_def clock_run)
  next
    case False
    then have "mem_fence.outdated sha opts ev s"
      by (auto simp: mem_fence.outdated_def assms(1) has_attempt_def some_and_def split: option.splits)
    from mem_fence.guard_stops [OF this, of ?inp ?w] inp(2)
    obtain e where "requireCurrentWorkflowAttempt opts ev ?inp (s, ?w) = (Inl e, (s, ?w))"
      by (auto simp: stops_def only_clock_def)
    with run False show thesis by (intro stopped [of e]) (auto simp: io_bind_def io_lift_def clock_run)
  qed
qed


definition demo_census_done :: mem_repo where
  "demo_census_done = set_row ''us7000abcd'' (demo_archived_row\<lparr>er_floor_census_status := Some FcSucceeded\<rparr>) demo_archived"


text \<open>What the row says after a census, and what is returned.\<close>

definition census_recorded :: "event_row \<Rightarrow> json_record \<Rightarrow> bool" where
  "census_recorded row out \<longleftrightarrow>
     er_floor_census_status row = Some FcSkipped \<and> map_of out ''floor_census'' = Some (JStr ''skipped'')
     \<or> er_floor_census_status row = Some FcSucceeded \<and> map_of out ''floor_census'' = Some (JStr ''succeeded'')"

lemma census_output_field: "map_of (census_output ev outcome st) ''floor_census'' = Some (JStr outcome)"
  by (simp add: census_output_def base_output_def)

lemma mark_passes:
  assumes "mem_get k s = Some row" and "er_runner_attempt row = Some a"
  shows "on_repo (rp_markFloorCensusResult (mem_repository sha) k u t (Some a)) (s, w)
    = (Inr True, (set_row k (applyFloorCensusResultToRow row u t (Some a)) s, w))"
  using assms by (simp add: on_repo_def mem_repository_ops mem_markFloorCensusResult_def modify_def fence_attempt_def none_or_def)

lemma on_repo_get: "on_repo (rp_get (mem_repository sha) k) (s, w) = (Inr (mem_get k s), (s, w))"
  by (simp add: on_repo_def mem_repository_ops)

lemma census_status_row: "er_floor_census_status (applyFloorCensusResultToRow row u t a) = Some (fcu_status u)"
  by (simp add: applyFloorCensusResultToRow_def Let_def)

lemma census_body_mem:
  assumes "ev_attempt ev = Some a" and "mem_get (ev_source_event_id ev) s = Some row" and "er_runner_attempt row = Some a"
    and "census_body env opts ev success (mem_repository sha) nowMs (s, w) = (res, (s', w'))"
  shows "(\<exists>e. res = Inl e) \<and> s' = s
    \<or> (\<exists>out row'. res = Inr out \<and> mem_get (ev_source_event_id ev) s' = Some row' \<and> census_recorded row' out)"
proof -
  note marks = mark_passes [OF assms(2,3)]
  note recorded = census_recorded_def census_output_field census_status_row census_update_def
  note run = assms(4) [unfolded census_body_def Let_def assms(1)]
  from run show ?thesis
  proof (cases rule: io_bind_cases)
    case (threw e)
    then show ?thesis by (auto simp: read_tee_result_run)
  next
    case (returned result st1)
    then obtain w1 where st1: "st1 = (s, w1)" by (auto simp: read_tee_result_run)
    show ?thesis
    proof (cases "\<exists>v. result = TeeFinalized v")
      case False
      with returned(2) st1 show ?thesis
        by (cases result) (auto simp: io_bind_def marks io_return_def recorded)
    next
      case True
      then obtain v where "result = TeeFinalized v" ..
      note step = returned(2) [unfolded st1 this tee_core_result.case]
      from step show ?thesis
      proof (cases rule: io_bind_cases)
        case (threw e)
        then show ?thesis by (auto simp: io_return_def on_world_result split: option.splits)
      next
        case (returned floorCensus st2)
        then obtain w2 where st2: "st2 = (s, w2)"
          by (auto simp: io_return_def on_world_result split: option.splits)
        show ?thesis
        proof (cases floorCensus)
          case None
          with returned(2) st2 show ?thesis by (auto simp: io_bind_def marks io_return_def recorded)
        next
          case (Some run)
          from returned(2) [unfolded st2 Some option.case] show ?thesis
            by (cases rule: io_bind_cases)
              (auto simp: on_world_result io_bind_def marks io_return_def recorded split: census_run_result.splits)
        qed
      qed
    qed
  qed
qed



end
