(* ===== verification/OnchainRevision.thy ===== *)
theory OnchainRevision
  imports RunnerConfig SchedulerProps SourceArchiveProps
begin

text \<open>
  The latest revision of an event on chain: \<open>watcher/src/onchain_revision.ts\<close>, and the reader and the target of
  \<open>watcher/src/lambda.ts\<close> that connect it to the scheduler.

  The client of the GraphQL endpoint and that of the dynamic field are parameters.  The loop over the pages takes
  the number of pages it may ask for; \<open>revision_pages_enough\<close> says when that is enough.
\<close>

section \<open>Reading a response\<close>

text \<open>A field that is a record, \<open>null\<close>, or \<open>undefined\<close>.\<close>

definition readRecordOrNull :: "js_value \<Rightarrow> string \<Rightarrow> js_value" where
  "readRecordOrNull v k = (case field_of v k of JNull \<Rightarrow> JNull | JObj fs \<Rightarrow> JObj fs | _ \<Rightarrow> JUndef)"

definition text_includes :: "string \<Rightarrow> string \<Rightarrow> bool" where
  "text_includes s part \<longleftrightarrow> list_ex (\<lambda>i. starts_with (drop i s) part) [0..<Suc (length s)]"

definition assertEventUid :: "string \<Rightarrow> js_error + unit" where
  "assertEventUid v = ensure (hash32_text v) ''event_uid must be 0x-prefixed 32-byte hex''"

definition readPositiveU32 :: "js_value \<Rightarrow> string \<Rightarrow> js_error + int" where
  "readPositiveU32 v name =
     (case readCensusSafeInteger v of
        None \<Rightarrow> Inl (name @ '' must be a positive u32'')
      | Some n \<Rightarrow> if n \<le> 0 \<or> n > 4294967295 then Inl (name @ '' must be a positive u32'') else Inr n)"

definition readEventUid :: "(string \<Rightarrow> bytes) \<Rightarrow> js_value \<Rightarrow> string option" where
  "readEventUid b64 v =
     (case v of
        JStr s \<Rightarrow>
          if hash32_text s then Some s
          else let decoded = b64 s in
            if length decoded = 32 \<and> base64_encode decoded = s then Some (bytesToPrefixedHex decoded) else Some s
      | JArr xs \<Rightarrow>
          if list_all is_byte_number xs
          then Some (bytesToPrefixedHex (map (\<lambda>x. word_of_int (js_int x)) xs)) else None
      | _ \<Rightarrow> None)"

text \<open>The object of the event's fields, or \<open>undefined\<close>.\<close>

definition readEventJson :: "js_value \<Rightarrow> js_value" where
  "readEventJson event =
     (let parsedJson = readRecordOrNull event ''parsedJson'' in
      if parsedJson \<noteq> JUndef \<and> parsedJson \<noteq> JNull then parsedJson
      else let json = readRecordOrNull (readRecordOrNull event ''contents'') ''json'' in
        if json = JNull then JUndef else json)"

definition parseDisasterEventCreatedRevision ::
    "(string \<Rightarrow> bytes) \<Rightarrow> js_value \<Rightarrow> string \<Rightarrow> js_error + int option" where
  "parseDisasterEventCreatedRevision b64 event eventUid =
     res_bind (assertEventUid eventUid) (\<lambda>_.
     let parsed = readEventJson event in
     if parsed = JUndef then Inl ''DisasterEventCreated event is missing parsed JSON''
     else res_bind (readPositiveU32 (field_of parsed ''event_revision'') ''event_revision'') (\<lambda>eventRevision.
       case readEventUid b64 (field_of parsed ''event_uid'') of
         None \<Rightarrow> Inl ''DisasterEventCreated event_uid is missing or malformed''
       | Some actualEventUid \<Rightarrow>
           if normalizeHex actualEventUid \<noteq> normalizeHex eventUid then Inr None else Inr (Some eventRevision)))"

record revision_page =
  vp_events :: js_value
  vp_hasNextPage :: bool
  vp_endCursor :: "string option"

definition readRevisionEventsPage :: "js_value \<Rightarrow> js_error + revision_page" where
  "readRevisionEventsPage response =
     (let events = readRecordOrNull (readRecordOrNull response ''data'') ''events'' in
      if events = JUndef \<or> events = JNull then Inl ''GraphQL events page is missing or malformed''
      else let pageInfo = readRecordOrNull events ''pageInfo'' in
        Inr \<lparr>vp_events = events, vp_hasNextPage = field_of pageInfo ''hasNextPage'' = JBool True,
             vp_endCursor = end_cursor pageInfo\<rparr>)"

definition readGraphqlEventNodes :: "js_value \<Rightarrow> js_error + js_value list" where
  "readGraphqlEventNodes response =
     res_bind (readRevisionEventsPage response) (\<lambda>page.
       case field_of (vp_events page) ''nodes'' of
         JArr nodes \<Rightarrow> Inr nodes
       | _ \<Rightarrow> Inl ''GraphQL event nodes must be an array'')"

text \<open>The loop over the nodes.\<close>

fun latest_of_nodes :: "(string \<Rightarrow> bytes) \<Rightarrow> string \<Rightarrow> js_value list \<Rightarrow> int \<Rightarrow> js_error + int" where
  "latest_of_nodes b64 eventUid [] latestRevision = Inr latestRevision"
| "latest_of_nodes b64 eventUid (node # nodes) latestRevision =
     res_bind (parseDisasterEventCreatedRevision b64 node eventUid) (\<lambda>revision.
       latest_of_nodes b64 eventUid nodes
         (case revision of
            Some r \<Rightarrow> if r > latestRevision then r else latestRevision
          | None \<Rightarrow> latestRevision))"

definition parseGraphqlLatestRevision :: "(string \<Rightarrow> bytes) \<Rightarrow> js_value \<Rightarrow> string \<Rightarrow> js_error + int" where
  "parseGraphqlLatestRevision b64 response eventUid =
     res_bind (readGraphqlEventNodes response) (\<lambda>nodes. latest_of_nodes b64 eventUid nodes 0)"

definition lower_text :: "js_value \<Rightarrow> string \<Rightarrow> string option" where
  "lower_text v k = map_option (map to_lower) (readStringField v k)"

definition isDynamicFieldNotFound :: "js_value \<Rightarrow> bool" where
  "isDynamicFieldNotFound response =
     (let error = readRecordOrNull response ''error''; code = lower_text error ''code''; message = lower_text error ''message''
      in code = Some ''dynamicfieldnotfound'' \<or> code = Some ''notfound''
         \<or> some_and (\<lambda>m. text_includes m ''dynamic field not found'') message
         \<or> some_and (\<lambda>m. text_includes m ''not found'') message)"

definition decodeDynamicFieldRevision :: "js_value \<Rightarrow> js_error + int" where
  "decodeDynamicFieldRevision response =
     (if isDynamicFieldNotFound response then Inr 0
      else let data = readRecordOrNull response ''data'' in
        if data = JNull then Inr 0
        else let fs = readRecordOrNull (readRecordOrNull data ''content'') ''fields'';
                 v = field_of fs ''value'';
                 v = (if v = JUndef \<or> v = JNull then field_of fs ''contents'' else v) in
          if v = JUndef then Inl ''latest event revision field is missing or malformed''
          else readPositiveU32 v ''latest event revision'')"

text \<open>The pattern \<open>^0x[0-9a-fA-F]+$\<close>, and the type of the events of a package.\<close>

definition is_package_id :: "string \<Rightarrow> bool" where
  "is_package_id s \<longleftrightarrow> starts_with s ''0x'' \<and> length s > 2 \<and> list_all is_hex (drop 2 s)"

definition DISASTER_EVENT_SUFFIX :: string where "DISASTER_EVENT_SUFFIX = ''::disaster_event::DisasterEventCreated''"

definition readDisasterEventType :: "string option \<Rightarrow> js_error + string" where
  "readDisasterEventType v =
     (case v of
        Some s \<Rightarrow>
          if ends_with s DISASTER_EVENT_SUFFIX \<and> is_package_id (take (length s - length DISASTER_EVENT_SUFFIX) s) then Inr s
          else Inl ''disasterEventType must be <PACKAGE_ID>::disaster_event::DisasterEventCreated''
      | None \<Rightarrow> Inl ''disasterEventType must be <PACKAGE_ID>::disaster_event::DisasterEventCreated'')"

section \<open>The latest revision\<close>

type_synonym 'w revision_client = "string \<Rightarrow> string option \<Rightarrow> ('w, js_value) io"

text \<open>The \<open>while\<close> loop over the pages; the query's variables are the event type and the cursor.\<close>

fun revision_pages ::
    "(string \<Rightarrow> bytes) \<Rightarrow> 'w revision_client \<Rightarrow> string \<Rightarrow> string \<Rightarrow> nat \<Rightarrow> string option \<Rightarrow> int \<Rightarrow> ('w, int) io" where
  "revision_pages b64 query eventType eventUid 0 cursor latestRevision = io_throw ''the pages did not end''"
| "revision_pages b64 query eventType eventUid (Suc fuel) cursor latestRevision =
     io_bind (query eventType cursor) (\<lambda>response.
     io_bind (io_lift (readRevisionEventsPage response)) (\<lambda>page.
     io_bind (io_lift (parseGraphqlLatestRevision b64 response eventUid)) (\<lambda>pageLatestRevision.
     let latest = (if pageLatestRevision > latestRevision then pageLatestRevision else latestRevision) in
     if \<not> vp_hasNextPage page \<or> vp_endCursor page = None then io_return latest
     else revision_pages b64 query eventType eventUid fuel (vp_endCursor page) latest)))"

record 'w revision_input =
  vi_eventUid :: string
  vi_disasterEventType :: "string option"
  vi_graphql :: "'w revision_client option"
  vi_dynamicField :: "(string \<Rightarrow> ('w, js_value) io) option"

text \<open>\<open>OnchainLatestRevisionResult\<close>: the latest revision with the names of the sources.\<close>

definition getLatestOnchainEventRevision ::
    "(string \<Rightarrow> bytes) \<Rightarrow> nat \<Rightarrow> 'w revision_input \<Rightarrow> ('w, int \<times> string list) io" where
  "getLatestOnchainEventRevision b64 fuel inp =
     io_bind (io_lift (assertEventUid (vi_eventUid inp))) (\<lambda>_.
     io_bind (case vi_dynamicField inp of
         None \<Rightarrow> io_return []
       | Some getLatestRevision \<Rightarrow> io_bind (getLatestRevision (vi_eventUid inp)) (\<lambda>response.
           io_bind (io_lift (decodeDynamicFieldRevision response)) (\<lambda>revision. io_return [(revision, ''dynamic-field'')])))
       (\<lambda>dynamic.
     io_bind (case vi_graphql inp of
         None \<Rightarrow> io_return []
       | Some query \<Rightarrow> io_bind (io_lift (readDisasterEventType (vi_disasterEventType inp))) (\<lambda>eventType.
           io_bind (revision_pages b64 query eventType (vi_eventUid inp) fuel None 0) (\<lambda>revision.
             io_return [(revision, ''graphql'')])))
       (\<lambda>listed.
     let read = dynamic @ listed in
     if read = [] then io_throw ''on-chain latest revision reader requires at least one source''
     else io_return (Max (set (map fst read)), map snd read))))"

section \<open>The reader of the deployed functions\<close>

definition disasterEventTypeFromRelayerTarget :: "string \<Rightarrow> js_error + string" where
  "disasterEventTypeFromRelayerTarget target =
     (case split_str target ''::'' of
        packageId # moduleName # functionName # _ \<Rightarrow>
          if \<not> is_package_id packageId \<or> moduleName \<noteq> ''accessor''
             \<or> functionName \<noteq> ''create_disaster_event_and_campaign_from_signed_payload''
          then Inl ''RELAYER_TARGET must be <PACKAGE_ID>::accessor::create_disaster_event_and_campaign_from_signed_payload''
          else Inr (packageId @ DISASTER_EVENT_SUFFIX)
      | _ \<Rightarrow> Inl ''RELAYER_TARGET must be <PACKAGE_ID>::accessor::create_disaster_event_and_campaign_from_signed_payload'')"

text \<open>\<open>ql_text\<close> of the endpoint's environment would hold the text of the query; here it is the parameter \<open>query\<close>.\<close>

definition lambda_query ::
    "(string \<Rightarrow> fetch_request \<Rightarrow> ('w, fetch_response) io) \<Rightarrow> (rat \<Rightarrow> string) \<Rightarrow> string \<Rightarrow> string \<Rightarrow> 'w revision_client" where
  "lambda_query fetch num graphqlUrl query eventType cursor =
     io_bind (fetch graphqlUrl
       \<lparr>fq_method = Some ''POST'', fq_headers = [(''content-type'', ''application/json'')],
        fq_body = Some (json_text num (JObj [(''query'', JStr query),
          (''variables'', JObj [(''eventType'', JStr eventType), (''cursor'', cursor_json cursor)])]))\<rparr>) (\<lambda>response.
     if \<not> response_ok response then io_throw (''Sui GraphQL query failed with HTTP '' @ show_int (fr_status response))
     else io_lift (fr_json response))"

definition readLatestOnchainEventRevision ::
    "(string \<Rightarrow> bytes) \<Rightarrow> nat \<Rightarrow> 'w revision_client \<Rightarrow> string \<Rightarrow> 'w revision_reader" where
  "readLatestOnchainEventRevision b64 fuel query disasterEventType eventUid =
     io_bind (getLatestOnchainEventRevision b64 fuel
       \<lparr>vi_eventUid = eventUid, vi_disasterEventType = Some disasterEventType, vi_graphql = Some query, vi_dynamicField = None\<rparr>)
       (\<lambda>(latestRevision, _). io_return (jint latestRevision))"

definition readLatestOnchainEventRevisionFromEnv ::
    "(string \<Rightarrow> fetch_request \<Rightarrow> ('w, fetch_response) io) \<Rightarrow> (rat \<Rightarrow> string) \<Rightarrow> string \<Rightarrow> (string \<Rightarrow> bytes) \<Rightarrow> nat \<Rightarrow> env
     \<Rightarrow> js_error + 'w revision_reader" where
  "readLatestOnchainEventRevisionFromEnv fetch num query b64 fuel ev =
     res_bind (requiredEnv ev ''SONARI_SUI_GRAPHQL_URL'') (\<lambda>graphqlUrl.
     res_bind (requiredEnv ev ''RELAYER_TARGET'') (\<lambda>target.
     res_bind (disasterEventTypeFromRelayerTarget target) (\<lambda>disasterEventType.
       Inr (readLatestOnchainEventRevision b64 fuel (lambda_query fetch num graphqlUrl query) disasterEventType))))"

section \<open>The pages that are read\<close>

text \<open>The responses from a cursor on: each but the last has a next page and names its cursor.\<close>

inductive revision_run :: "'w revision_client \<Rightarrow> string \<Rightarrow> string option \<Rightarrow> 'w \<Rightarrow> js_value list \<Rightarrow> 'w \<Rightarrow> bool" for query eventType where
  last_page: "query eventType cursor w = (Inr response, w') \<Longrightarrow> readRevisionEventsPage response = Inr page \<Longrightarrow>
      \<not> vp_hasNextPage page \<or> vp_endCursor page = None \<Longrightarrow> revision_run query eventType cursor w [response] w'"
| next_page: "query eventType cursor w = (Inr response, w1) \<Longrightarrow> readRevisionEventsPage response = Inr page \<Longrightarrow>
      vp_hasNextPage page \<Longrightarrow> vp_endCursor page = Some next \<Longrightarrow> revision_run query eventType (Some next) w1 responses w' \<Longrightarrow>
      revision_run query eventType cursor w (response # responses) w'"

text \<open>The revisions of the event in a response, and in all of them.\<close>

definition revisions_in :: "(string \<Rightarrow> bytes) \<Rightarrow> string \<Rightarrow> js_value \<Rightarrow> int set" where
  "revisions_in b64 eventUid response = {r. \<exists>nodes node. readGraphqlEventNodes response = Inr nodes \<and> node \<in> set nodes
     \<and> parseDisasterEventCreatedRevision b64 node eventUid = Inr (Some r)}"

definition onchain_revisions :: "(string \<Rightarrow> bytes) \<Rightarrow> string \<Rightarrow> js_value list \<Rightarrow> int set" where
  "onchain_revisions b64 eventUid responses = (\<Union>response\<in>set responses. revisions_in b64 eventUid response)"

definition node_revisions :: "(string \<Rightarrow> bytes) \<Rightarrow> string \<Rightarrow> js_value list \<Rightarrow> int set" where
  "node_revisions b64 eventUid nodes = {r. \<exists>node\<in>set nodes. parseDisasterEventCreatedRevision b64 node eventUid = Inr (Some r)}"

lemma node_revisions_Cons:
  "parseDisasterEventCreatedRevision b64 node eventUid = Inr v \<Longrightarrow>
     node_revisions b64 eventUid (node # nodes) = (case v of None \<Rightarrow> {} | Some r \<Rightarrow> {r}) \<union> node_revisions b64 eventUid nodes"
  by (cases v) (auto simp: node_revisions_def)

lemma finite_node_revisions [simp]: "finite (node_revisions b64 eventUid nodes)"
proof -
  have "node_revisions b64 eventUid nodes
      \<subseteq> (\<lambda>node. case parseDisasterEventCreatedRevision b64 node eventUid of Inr (Some r) \<Rightarrow> r | _ \<Rightarrow> 0) ` set nodes"
    by (force simp: node_revisions_def)
  then show ?thesis by (rule finite_subset) simp
qed

lemma Max_insert_max: "finite S \<Longrightarrow> Max (insert (max a b) S) = Max (insert a (insert b S))" for a b :: int
  by (cases "S = {}") (simp_all add: max.assoc)

lemma larger_max: "(if r > n then r else n) = max n r" for n r :: int
  by simp

lemma latest_of_nodes_Max:
  "latest_of_nodes b64 eventUid nodes n = Inr m \<Longrightarrow> m = Max (insert n (node_revisions b64 eventUid nodes))"
proof (induction nodes arbitrary: n)
  case Nil
  then show ?case by (simp add: node_revisions_def)
next
  case (Cons node nodes)
  from Cons.prems obtain v where v: "parseDisasterEventCreatedRevision b64 node eventUid = Inr v"
    and rest: "latest_of_nodes b64 eventUid nodes (case v of Some r \<Rightarrow> if r > n then r else n | None \<Rightarrow> n) = Inr m"
    by (auto simp: res_bind_Inr_iff)
  from Cons.IH [OF rest] show ?case
    by (cases v) (simp_all add: node_revisions_Cons [OF v] Max_insert_max [unfolded larger_max [symmetric]] del: if_split)
qed

lemma page_latest_Max:
  assumes "parseGraphqlLatestRevision b64 response eventUid = Inr m"
  shows "m = Max (insert 0 (revisions_in b64 eventUid response))" "finite (revisions_in b64 eventUid response)"
proof -
  obtain nodes where nodes: "readGraphqlEventNodes response = Inr nodes" "latest_of_nodes b64 eventUid nodes 0 = Inr m"
    using assms by (auto simp: parseGraphqlLatestRevision_def res_bind_Inr_iff)
  then have "revisions_in b64 eventUid response = node_revisions b64 eventUid nodes"
    by (auto simp: revisions_in_def node_revisions_def)
  with latest_of_nodes_Max [OF nodes(2)]
  show "m = Max (insert 0 (revisions_in b64 eventUid response))" "finite (revisions_in b64 eventUid response)" by simp_all
qed

lemma Max_join:
  fixes n :: int
  assumes "finite A" "finite B" "0 \<le> n"
  shows "Max (insert (max n (Max (insert 0 A))) B) = Max (insert n (A \<union> B))"
proof -
  have "max n (Max (insert 0 A)) = Max (insert n A)"
    using assms by (cases "A = {}") (simp_all add: max_def)
  with assms show ?thesis
    by (cases "A = {}"; cases "B = {}") (simp_all add: Max_Un max.assoc)
qed

lemma Max_insert_nonneg: "finite A \<Longrightarrow> 0 \<le> n \<Longrightarrow> 0 \<le> Max (insert n A)" for n :: int
  by (meson Max_ge dual_order.trans finite.insertI insertI1)

text \<open>Whatever the loop returns is the largest revision of the pages it read.\<close>

lemma revision_pages_Max:
  assumes "revision_pages b64 query eventType eventUid fuel cursor n w = (Inr m, w')" and "0 \<le> n"
  shows "\<exists>responses. revision_run query eventType cursor w responses w'
    \<and> finite (onchain_revisions b64 eventUid responses) \<and> m = Max (insert n (onchain_revisions b64 eventUid responses))"
  using assms
proof (induction fuel arbitrary: cursor n w)
  case 0
  then show ?case by (simp add: io_throw_def)
next
  case (Suc fuel)
  obtain response w1 page latest where
    r: "query eventType cursor w = (Inr response, w1)" "readRevisionEventsPage response = Inr page"
      "parseGraphqlLatestRevision b64 response eventUid = Inr latest"
    and rest: "(let latest = (if latest > n then latest else n) in
        if \<not> vp_hasNextPage page \<or> vp_endCursor page = None then io_return latest
        else revision_pages b64 query eventType eventUid fuel (vp_endCursor page) latest) w1 = (Inr m, w')"
    using Suc.prems(1) by (auto simp: io_results simp del: if_split)
  note latest = page_latest_Max [OF r(3)]
  show ?case
  proof (cases "vp_hasNextPage page \<and> vp_endCursor page \<noteq> None")
    case False
    with rest have "m = max n latest" "w' = w1" by (auto simp: io_return_def)
    with latest Suc.prems(2) Max_join [OF latest(2) finite.emptyI Suc.prems(2)]
    have "m = Max (insert n (onchain_revisions b64 eventUid [response]))" "finite (onchain_revisions b64 eventUid [response])"
      by (simp_all add: onchain_revisions_def)
    with last_page [of query eventType cursor w response w1 page] r False \<open>w' = w1\<close> show ?thesis by blast
  next
    case True
    then obtain further where further: "vp_hasNextPage page" "vp_endCursor page = Some further" by blast
    with rest have "revision_pages b64 query eventType eventUid fuel (Some further) (max n latest) w1 = (Inr m, w')"
      by (simp add: larger_max)
    from Suc.IH [OF this] max.coboundedI1 [OF Suc.prems(2)] obtain responses where
      more: "revision_run query eventType (Some further) w1 responses w'" "finite (onchain_revisions b64 eventUid responses)"
        "m = Max (insert (max n latest) (onchain_revisions b64 eventUid responses))" by auto
    have "onchain_revisions b64 eventUid (response # responses)
        = revisions_in b64 eventUid response \<union> onchain_revisions b64 eventUid responses"
      by (simp add: onchain_revisions_def)
    with more latest Max_join [OF latest(2) more(2) Suc.prems(2)] next_page [OF r(1,2) further more(1)] show ?thesis by auto
  qed
qed

text \<open>When the listing ends and its pages can be read, as many pages as it has are enough.\<close>

lemma revision_pages_enough:
  "revision_run query eventType cursor w responses w' \<Longrightarrow>
     list_all (\<lambda>r. \<exists>n. parseGraphqlLatestRevision b64 r eventUid = Inr n) responses \<Longrightarrow> length responses \<le> fuel \<Longrightarrow>
     \<exists>m. revision_pages b64 query eventType eventUid fuel cursor n w = (Inr m, w')"
proof (induction arbitrary: fuel n rule: revision_run.induct)
  case (last_page cursor w response w1 page)
  then obtain k where "fuel = Suc k" by (cases fuel) auto
  with last_page show ?case by (auto simp: io_bind_def io_lift_def io_return_def)
next
  case (next_page cursor w response w1 page further responses w2)
  then obtain k where k: "fuel = Suc k" "length responses \<le> k" by (cases fuel) auto
  from next_page.prems(1) have "list_all (\<lambda>r. \<exists>n. parseGraphqlLatestRevision b64 r eventUid = Inr n) responses" by simp
  from next_page.IH [OF this k(2)] next_page k(1) show ?case
    by (auto simp: io_bind_def io_lift_def io_return_def Let_def)
qed

lemma read_latest_Max:
  assumes "readLatestOnchainEventRevision b64 fuel query eventType eventUid w = (Inr v, w')"
  shows "\<exists>responses. revision_run query eventType None w responses w'
    \<and> finite (onchain_revisions b64 eventUid responses) \<and> v = jint (Max (insert 0 (onchain_revisions b64 eventUid responses)))"
proof -
  obtain et m where m: "readDisasterEventType (Some eventType) = Inr et"
    "revision_pages b64 query et eventUid fuel None 0 w = (Inr m, w')" "v = jint m"
    using assms
    by (auto simp: readLatestOnchainEventRevision_def getLatestOnchainEventRevision_def io_results split: prod.splits)
  moreover have "et = eventType" using m(1) by (auto simp: readDisasterEventType_def split: if_splits)
  ultimately show ?thesis using revision_pages_Max [OF m(2)] by auto
qed


text \<open>An endpoint with one page: the event's third revision, and the eighth of another event.\<close>

definition demo_revisions :: js_value where
  "demo_revisions = (let event = (\<lambda>uid r. JObj [(''contents'', JObj [(''json'', JObj
       [(''event_uid'', JStr uid), (''event_revision'', JNum r)])])]) in
     JObj [(''data'', JObj [(''events'', JObj [(''nodes'', JArr [event sample_uid 3, event ''0x0'' 8]),
       (''pageInfo'', JObj [(''hasNextPage'', JBool False), (''endCursor'', JNull)])])])])"

lemma demo_revision_nodes:
  "parseDisasterEventCreatedRevision (\<lambda>_. []) (JObj [(''contents'', JObj [(''json'', JObj
      [(''event_uid'', JStr uid), (''event_revision'', JNum (of_int r))])])]) sample_uid
    = Inr (if normalizeHex uid = normalizeHex sample_uid then Some r else None)"
  if "0 < r" "r \<le> 4294967295"
  using that hash32_sample_uid
  by (simp add: parseDisasterEventCreatedRevision_def assertEventUid_def ensure_def isHash32_def readEventJson_def readRecordOrNull_def
      field_of_def get_field_def readPositiveU32_def readCensusSafeInteger_def isSafeInteger_def MAX_SAFE_INTEGER_def readEventUid_def)


end
