(* ===== verification/Usgs.thy ===== *)
theory Usgs
  imports EnclaveRegistration Scheduler
begin

text \<open>
  What is read of the USGS, \<open>watcher/src/usgs.ts\<close>: the candidates of the feed of the day, and the identity of an
  event, which the scheduler asks for before it stores a candidate.  \<open>fetch\<close> is a parameter.
\<close>

definition USGS_RECENT_FEED_URL :: string where
  "USGS_RECENT_FEED_URL = ''https://earthquake.usgs.gov/earthquakes/feed/v1.0/summary/all_day.geojson''"

definition usgsDetailUrl :: "string \<Rightarrow> string" where
  "usgsDetailUrl sourceEventId =
     ''https://earthquake.usgs.gov/earthquakes/feed/v1.0/detail/'' @ sourceEventId @ ''.geojson''"

definition isUnixMs :: "js_value \<Rightarrow> bool" where
  "isUnixMs v = (case v of JNum q \<Rightarrow> isSafeInteger q \<and> q \<ge> 0 | _ \<Rightarrow> False)"

definition readFiniteNumber :: "js_value \<Rightarrow> rat option" where
  "readFiniteNumber v = (case v of JNum q \<Rightarrow> Some q | _ \<Rightarrow> None)"

definition readAlert :: "js_value \<Rightarrow> usgs_alert_level option" where
  "readAlert v =
     (if v = JStr ''green'' then Some Green else if v = JStr ''yellow'' then Some Yellow
      else if v = JStr ''orange'' then Some Orange else if v = JStr ''red'' then Some Red else None)"

definition parseFeature :: "js_value \<Rightarrow> usgs_candidate option" where
  "parseFeature feature =
     (let properties = field_of feature ''properties'' in
      case field_of feature ''id'' of
        JStr sid \<Rightarrow>
          if \<not> isRecord feature \<or> \<not> isRecord properties then None
          else if field_of properties ''type'' \<noteq> JStr ''earthquake'' then None
          else if \<not> isUnixMs (field_of properties ''time'') \<or> \<not> isUnixMs (field_of properties ''updated'') then None
          else Some
            \<lparr>cand_source_event_id = sid, cand_requested_source_event_id = None,
             cand_occurred_at_ms = js_int (field_of properties ''time''),
             cand_source_updated_at_ms = js_int (field_of properties ''updated''),
             cand_magnitude = readFiniteNumber (field_of properties ''mag''),
             cand_summary_mmi = readFiniteNumber (field_of properties ''mmi''),
             cand_alert = readAlert (field_of properties ''alert''),
             cand_tsunami = (field_of properties ''tsunami'' = JNum 1)\<rparr>
      | _ \<Rightarrow> None)"

definition parseUsgsRecentFeed :: "js_value \<Rightarrow> usgs_candidate list" where
  "parseUsgsRecentFeed inp =
     (if \<not> isRecord inp then []
      else case field_of inp ''features'' of JArr features \<Rightarrow> List.map_filter parseFeature features | _ \<Rightarrow> [])"

definition fetchUsgsRecentCandidates :: "(string \<Rightarrow> ('w, fetch_response) io) \<Rightarrow> ('w, usgs_candidate list) io" where
  "fetchUsgsRecentCandidates fetcher =
     io_bind (fetcher USGS_RECENT_FEED_URL) (\<lambda>response.
     if \<not> response_ok response then io_throw (''USGS recent feed unavailable: '' @ show_int (fr_status response))
     else io_bind (io_lift (fr_json response)) (\<lambda>body. io_return (parseUsgsRecentFeed body)))"

record usgs_identity =
  ui_source_event_id :: string
  ui_occurred_at_ms :: int
  ui_ids :: "string option"

definition parseUsgsDetailEventIdentity :: "js_value \<Rightarrow> usgs_identity option" where
  "parseUsgsDetailEventIdentity inp =
     (let properties = field_of inp ''properties'' in
      case field_of inp ''id'' of
        JStr sid \<Rightarrow>
          if \<not> isRecord inp \<or> \<not> isRecord properties then None
          else if \<not> isUnixMs (field_of properties ''time'') then None
          else Some \<lparr>ui_source_event_id = sid, ui_occurred_at_ms = js_int (field_of properties ''time''),
                     ui_ids = (case field_of properties ''ids'' of JStr s \<Rightarrow> Some s | _ \<Rightarrow> None)\<rparr>
      | _ \<Rightarrow> None)"

definition usgsIdsContains :: "string option \<Rightarrow> string \<Rightarrow> bool" where
  "usgsIdsContains ids sourceEventId =
     some_and (\<lambda>s. list_ex (\<lambda>item. trim item = sourceEventId) (split_str s '','')) ids"

text \<open>What is resolved from the identity the detail page gives.\<close>

definition resolve_identity :: "string \<Rightarrow> usgs_identity \<Rightarrow> resolution" where
  "resolve_identity sourceEventId identity =
     (if ui_source_event_id identity = sourceEventId
      then Resolved (ui_source_event_id identity) None (Some (ui_occurred_at_ms identity))
      else if usgsIdsContains (ui_ids identity) sourceEventId
      then Resolved (ui_source_event_id identity) (Some sourceEventId) (Some (ui_occurred_at_ms identity))
      else NoResolution)"

definition resolveUsgsSourceEventId :: "(string \<Rightarrow> ('w, fetch_response) io) \<Rightarrow> 'w resolver" where
  "resolveUsgsSourceEventId fetcher sourceEventId =
     io_bind (io_attempt (fetcher (usgsDetailUrl sourceEventId))) (\<lambda>fetched.
       io_return (case fetched of
         Inl _ \<Rightarrow> Unavailable
       | Inr response \<Rightarrow>
           if \<not> response_ok response then Unavailable
           else case fr_json response of
             Inl _ \<Rightarrow> Unavailable
           | Inr detail \<Rightarrow>
               (case parseUsgsDetailEventIdentity detail of
                  None \<Rightarrow> Unavailable
                | Some identity \<Rightarrow> resolve_identity sourceEventId identity)))"

section \<open>What is read is what was reported\<close>

lemma isUnixMs_int: "isUnixMs v \<Longrightarrow> v = jint (js_int v) \<and> 0 \<le> js_int v \<and> js_int v \<le> MAX_SAFE_INTEGER"
  by (cases v) (auto simp: isUnixMs_def isSafeInteger_def js_int_def)

lemma unix_ms_int: "0 \<le> n \<Longrightarrow> n \<le> MAX_SAFE_INTEGER \<Longrightarrow> isUnixMs (jint n) \<and> js_int (jint n) = n"
  by (simp add: isUnixMs_def isSafeInteger_def js_int_def MAX_SAFE_INTEGER_def)

text \<open>The detail page names the event: its id is the one asked for, or the one asked for is among its ids.\<close>

definition reported_identity :: "js_value \<Rightarrow> string \<Rightarrow> string \<Rightarrow> string option \<Rightarrow> int \<Rightarrow> bool" where
  "reported_identity detail asked sid requested occurred \<longleftrightarrow>
     field_of detail ''id'' = JStr sid
     \<and> field_of (field_of detail ''properties'') ''time'' = jint occurred \<and> 0 \<le> occurred \<and> occurred \<le> MAX_SAFE_INTEGER
     \<and> (if sid = asked then requested = None
        else requested = Some asked
          \<and> (\<exists>ids. field_of (field_of detail ''properties'') ''ids'' = JStr ids \<and> asked \<in> trim ` set (split_str ids '','')))"

lemma identity_reported:
  assumes "parseUsgsDetailEventIdentity detail = Some identity" and "resolve_identity asked identity = Resolved sid requested occurred"
  shows "\<exists>t. occurred = Some t \<and> reported_identity detail asked sid requested t"
proof -
  obtain s where s: "field_of detail ''id'' = JStr s" "isUnixMs (field_of (field_of detail ''properties'') ''time'')"
    "identity = \<lparr>ui_source_event_id = s, ui_occurred_at_ms = js_int (field_of (field_of detail ''properties'') ''time''),
       ui_ids = (case field_of (field_of detail ''properties'') ''ids'' of JStr s \<Rightarrow> Some s | _ \<Rightarrow> None)\<rparr>"
    using assms(1) by (auto simp: parseUsgsDetailEventIdentity_def Let_def split: js_value.splits if_splits)
  note time = isUnixMs_int [OF s(2)]
  show ?thesis
  proof (cases "s = asked")
    case True
    with assms(2) s(1,3) time show ?thesis by (auto simp: resolve_identity_def reported_identity_def)
  next
    case False
    with assms(2) s(3) have "usgsIdsContains (ui_ids identity) asked" "sid = s" "requested = Some asked"
      "occurred = Some (ui_occurred_at_ms identity)"
      by (auto simp: resolve_identity_def split: if_splits)
    moreover from this(1) s(3) obtain ids where
      "field_of (field_of detail ''properties'') ''ids'' = JStr ids" "asked \<in> trim ` set (split_str ids '','')"
      by (auto simp: usgsIdsContains_def some_and_def list_ex_iff split: js_value.splits)
    ultimately show ?thesis using s(1,3) time False by (auto simp: reported_identity_def)
  qed
qed

text \<open>C38. An event id is resolved only to the identity the USGS reports: the detail page of the event that was asked for
  answered successfully, its id is the resolved one, which differs from the one asked for only when the page lists that
  among its ids and then the one asked for is kept, and the time of the event is the page's.\<close>

theorem resolved_identity_reported:
  assumes "resolveUsgsSourceEventId fetcher asked w = (Inr (Resolved sid requested occurred), w')"
  shows "\<exists>response detail t. fetcher (usgsDetailUrl asked) w = (Inr response, w') \<and> response_ok response
    \<and> fr_json response = Inr detail \<and> occurred = Some t \<and> reported_identity detail asked sid requested t"
proof -
  obtain response detail identity where r: "fetcher (usgsDetailUrl asked) w = (Inr response, w')" "response_ok response"
    "fr_json response = Inr detail" "parseUsgsDetailEventIdentity detail = Some identity"
    "resolve_identity asked identity = Resolved sid requested occurred"
    using assms
    by (auto simp: resolveUsgsSourceEventId_def io_bind_def io_attempt_def io_return_def split: prod.splits sum.splits option.splits if_splits)
  with identity_reported [OF r(4,5)] show ?thesis by auto
qed

definition demo_detail :: js_value where
  "demo_detail = JObj [(''id'', JStr ''us7000abcd''), (''properties'', JObj [(''time'', JNum 1700000000000),
     (''ids'', JStr '',ci1, us7000abcd,'')])]"

theorem resolved_identity_reported_witness:
  "\<exists>response. resolveUsgsSourceEventId (\<lambda>_. io_return response) ''ci1'' ()
      = (Inr (Resolved ''us7000abcd'' (Some ''ci1'') (Some 1700000000000)), ())
    \<and> reported_identity demo_detail ''ci1'' ''us7000abcd'' (Some ''ci1'') 1700000000000"
proof -
  let ?response = "\<lparr>fr_status = 200, fr_body = NoBody [], fr_json = Inr demo_detail\<rparr>"
  have "resolveUsgsSourceEventId (\<lambda>_. io_return ?response) ''ci1'' ()
      = (Inr (Resolved ''us7000abcd'' (Some ''ci1'') (Some 1700000000000)), ())"
    by (simp add: resolveUsgsSourceEventId_def io_bind_def io_attempt_def io_return_def response_ok_def demo_detail_def
        parseUsgsDetailEventIdentity_def field_of_def get_field_def isRecord_def isUnixMs_def isSafeInteger_def MAX_SAFE_INTEGER_def
        js_int_def resolve_identity_def usgsIdsContains_def some_and_def split_str_def starts_with_def trim_def is_space_def)
  with resolved_identity_reported [OF this] show ?thesis by (auto simp: io_return_def intro!: exI [of _ ?response])
qed

text \<open>The feed: every candidate is a feature that is an earthquake, with its own id and times.\<close>

lemma feed_candidate:
  assumes "c \<in> set (parseUsgsRecentFeed inp)"
  shows "\<exists>features feature. field_of inp ''features'' = JArr features \<and> feature \<in> set features
    \<and> field_of feature ''id'' = JStr (cand_source_event_id c) \<and> field_of (field_of feature ''properties'') ''type'' = JStr ''earthquake''
    \<and> field_of (field_of feature ''properties'') ''time'' = jint (cand_occurred_at_ms c) \<and> 0 \<le> cand_occurred_at_ms c
    \<and> field_of (field_of feature ''properties'') ''updated'' = jint (cand_source_updated_at_ms c) \<and> 0 \<le> cand_source_updated_at_ms c"
proof -
  obtain features feature where f: "field_of inp ''features'' = JArr features" "feature \<in> set features" "parseFeature feature = Some c"
    using assms by (auto simp: parseUsgsRecentFeed_def List.map_filter_def split: js_value.splits if_splits)
  then show ?thesis
    by (intro exI [of _ features] exI [of _ feature])
      (auto simp: parseFeature_def Let_def dest: isUnixMs_int split: js_value.splits if_splits)
qed

end
