(* ===== verification/HttpAdapters.thy ===== *)
theory HttpAdapters
  imports CensusReader
begin

text \<open>
  The adapters that speak HTTP with a service beside the watcher: \<open>HttpRelayerAdapter\<close> of
  \<open>watcher/src/relayer_preview.ts\<close>, and \<open>HttpRunnerAdapter\<close> and \<open>AwsRunnerLifecycleAdapter\<close> of
  \<open>watcher/src/trigger_tee.ts\<close>.  \<open>fetch\<close> is a parameter; a request has its address and the fields of \<open>fetch_request\<close>.
\<close>

type_synonym 'w fetcher = "string \<Rightarrow> fetch_request \<Rightarrow> ('w, fetch_response) io"

definition stripTrailingSlash :: "string \<Rightarrow> string" where
  "stripTrailingSlash s = (if ends_with s ''/'' then butlast s else s)"

section \<open>The relayer's sidecar\<close>

record http_relayer_config =
  hr_sidecarUrl :: string
  hr_bearerToken :: "string option"
  hr_request :: request_config
  hr_mode :: "relayer_mode option"
  hr_network :: "string option"
  hr_grpcUrl :: "string option"
  hr_senderAddress :: "string option"

definition relayer_mode_text :: "relayer_mode \<Rightarrow> string" where
  "relayer_mode_text m = (case m of Preview \<Rightarrow> ''preview'' | DryRun \<Rightarrow> ''dry_run'' | Submit \<Rightarrow> ''submit'')"

text \<open>The body of the request; \<open>JSON.stringify\<close> leaves out what is undefined.\<close>

definition sidecar_body :: "http_relayer_config \<Rightarrow> js_value \<Rightarrow> js_value" where
  "sidecar_body config inp = (let c = hr_request config in JObj
     ([(''input'', inp), (''target'', JStr (qc_target c)), (''registry'', JStr (qc_registry c)),
       (''verifierRegistry'', JStr (qc_verifierRegistry c)), (''categoryRegistry'', JStr (qc_categoryRegistry c)),
       (''categoryPool'', JStr (qc_categoryPool c))]
      @ opt_entry ''network'' (map_option JStr (hr_network config))
      @ opt_entry ''grpcUrl'' (map_option JStr (hr_grpcUrl config))
      @ opt_entry ''senderAddress'' (map_option JStr (hr_senderAddress config))))"

definition sidecar_request :: "(rat \<Rightarrow> string) \<Rightarrow> http_relayer_config \<Rightarrow> js_value \<Rightarrow> fetch_request" where
  "sidecar_request num config inp =
     \<lparr>fq_method = Some ''POST'',
      fq_headers = (''content-type'', ''application/json'')
        # (case hr_bearerToken config of None \<Rightarrow> [] | Some t \<Rightarrow> [(''authorization'', ''Bearer '' @ t)]),
      fq_body = Some (json_text num (sidecar_body config inp))\<rparr>"

definition readSidecarJson :: "fetch_response \<Rightarrow> js_value" where
  "readSidecarJson response =
     (case fr_json response of
        Inr body \<Rightarrow> body
      | Inl _ \<Rightarrow> JObj [(''ok'', JBool False), (''error_code'', JStr ''RELAYER_SUBMIT_FAILED''),
          (''message'', JStr (''Relayer sidecar returned non-JSON response: '' @ show_int (fr_status response)))])"

definition readOptionalString :: "js_value \<Rightarrow> string option" where
  "readOptionalString v = (case v of JStr s \<Rightarrow> if length s > 0 then Some s else None | _ \<Rightarrow> None)"

definition has_key :: "js_value \<Rightarrow> string \<Rightarrow> bool" where
  "has_key v k = (case v of JObj fs \<Rightarrow> k \<in> fst ` set fs | _ \<Rightarrow> False)"

definition readRelayerRequest :: "js_value \<Rightarrow> js_value" where
  "readRelayerRequest v = (if has_key v ''request'' then field_of v ''request'' else v)"

definition readRelayerDigest :: "js_value \<Rightarrow> string option" where
  "readRelayerDigest v = (if has_key v ''request'' then readOptionalString (field_of v ''digest'') else None)"

definition readRelayerObjectId :: "js_value \<Rightarrow> string option" where
  "readRelayerObjectId v = (if has_key v ''request'' then readOptionalString (field_of v ''objectId'') else None)"

definition isRelayerSidecarResult :: "js_value \<Rightarrow> bool" where
  "isRelayerSidecarResult v \<longleftrightarrow> isRecord v \<and>
     (case field_of v ''ok'' of
        JBool True \<Rightarrow> isRecord (field_of v ''value'')
      | JBool False \<Rightarrow> field_of v ''error_code'' \<in> {JStr ''RELAYER_SUBMIT_FAILED'', JStr ''MOVE_REJECTED''}
          \<and> readStringField v ''message'' \<noteq> None
      | _ \<Rightarrow> False)"

text \<open>The answer of the sidecar.\<close>

definition sidecar_result :: "relayer_mode \<Rightarrow> int \<Rightarrow> js_value \<Rightarrow> relayer_error + relayer_success" where
  "sidecar_result mode status body =
     (if isRelayerSidecarResult body then
        (if field_of body ''ok'' = JBool True
         then (let v = field_of body ''value'' in Inr
           \<lparr>rs_mode = mode, rs_request = readRelayerRequest v, rs_digest = readRelayerDigest v, rs_object_id = readRelayerObjectId v\<rparr>)
         else Inl (js_str (field_of body ''error_code''), js_str (field_of body ''message'')))
      else Inl (''RELAYER_SUBMIT_FAILED'', ''Invalid relayer sidecar response: '' @ show_int status))"

definition http_relay ::
    "(rat \<Rightarrow> string) \<Rightarrow> 'w fetcher \<Rightarrow> http_relayer_config \<Rightarrow> tee_core_result \<Rightarrow> ('w, relayer_error + relayer_success) io" where
  "http_relay num fetch config result =
     io_bind (io_lift (validateRelayerSubmitInput (tee_json result))) (\<lambda>validation.
     case validation of
       Inl (_, message) \<Rightarrow> io_return (Inl (''RELAYER_SUBMIT_FAILED'', message))
     | Inr r \<Rightarrow>
       let mode = coalesce (hr_mode config) Preview in
       io_catch
         (io_bind (fetch (stripTrailingSlash (hr_sidecarUrl config) @ ''/relayer/'' @ relayer_mode_text mode)
             (sidecar_request num config (submit_json r))) (\<lambda>response.
           io_return (sidecar_result mode (fr_status response) (readSidecarJson response))))
         (\<lambda>e. io_return (Inl (''RELAYER_SUBMIT_FAILED'', e))))"

definition HttpRelayerAdapter :: "(rat \<Rightarrow> string) \<Rightarrow> 'w fetcher \<Rightarrow> http_relayer_config \<Rightarrow> 'w relayer_adapter" where
  "HttpRelayerAdapter num fetch config =
     \<lparr>ra_mode = coalesce (hr_mode config) Preview, ra_relay = http_relay num fetch config\<rparr>"

section \<open>The runner\<close>

definition readJsonResponse :: "fetch_response \<Rightarrow> js_value" where
  "readJsonResponse response = (case fr_json response of Inr v \<Rightarrow> v | Inl _ \<Rightarrow> JNull)"

definition HttpRunnerAdapter_run :: "(rat \<Rightarrow> string) \<Rightarrow> 'w fetcher \<Rightarrow> string \<Rightarrow> js_value \<Rightarrow> ('w, js_value) io" where
  "HttpRunnerAdapter_run num fetch sidecarUrl request =
     io_bind (fetch (stripTrailingSlash sidecarUrl @ ''/process_data'')
       \<lparr>fq_method = Some ''POST'', fq_headers = [(''content-type'', ''application/json'')],
        fq_body = Some (json_text num (JObj [(''payload'', request)]))\<rparr>) (\<lambda>response.
     let body = readJsonResponse response in
     if response_ok response \<and> isRecord body \<and> field_of body ''ok'' = JBool True \<and> isRecord (field_of body ''result'')
     then io_return (field_of body ''result'')
     else case readStringField body ''message'' of
       Some m \<Rightarrow> io_throw m
     | None \<Rightarrow> io_throw (''Oracle sidecar request failed: '' @ show_int (fr_status response)))"

text \<open>The errors of the lifecycle adapter: their class, with the error code the class carries, and the message.\<close>

datatype lifecycle_error =
    RunnerStartError string
  | RunnerProcessError string error_code
  | RunnerContractError string
  | RunnerOtherError string

type_synonym ('w, 'a) lifecycle_io = "'w \<Rightarrow> (lifecycle_error + 'a) \<times> 'w"

definition lifecycle_code :: "lifecycle_error \<Rightarrow> error_code option" where
  "lifecycle_code e = (case e of
     RunnerStartError _ \<Rightarrow> Some ''AWS_RUNNER_START_FAILED''
   | RunnerProcessError _ c \<Rightarrow> Some c
   | RunnerContractError _ \<Rightarrow> Some ''AWS_RUNNER_CONTRACT_INVALID''
   | RunnerOtherError _ \<Rightarrow> None)"

record 'w lifecycle_config =
  lc_fetch :: "'w fetcher"
  lc_num :: "rat \<Rightarrow> string"
  lc_baseUrl :: string
  lc_token :: string

text \<open>What \<open>postJson\<close> makes of a response: the body of a success or of a failure the runner reports, or an error.\<close>

definition post_result :: "fetch_response \<Rightarrow> lifecycle_error + js_value" where
  "post_result response =
     (let json = readJsonResponse response in
      if response_ok response then Inr json
      else if isRecord json \<and> field_of json ''ok'' = JBool False then Inr json
      else case readStringField json ''message'' of
        Some m \<Rightarrow> Inl (RunnerOtherError m)
      | None \<Rightarrow> Inl (RunnerOtherError (''AWS runner request failed: '' @ show_int (fr_status response))))"

definition postJson :: "'w lifecycle_config \<Rightarrow> string \<Rightarrow> js_value \<Rightarrow> string option \<Rightarrow> ('w, js_value) lifecycle_io" where
  "postJson config pathname body runnerId w =
     (case lc_fetch config (stripTrailingSlash (lc_baseUrl config) @ pathname)
        \<lparr>fq_method = Some ''POST'',
         fq_headers = [(''content-type'', ''application/json''), (''authorization'', ''Bearer '' @ lc_token config)]
           @ (case runnerId of None \<Rightarrow> [] | Some i \<Rightarrow> [(''x-runner-id'', i)]),
         fq_body = Some (json_text (lc_num config) body)\<rparr> w of
        (Inl e, w1) \<Rightarrow> (Inl (RunnerOtherError e), w1)
      | (Inr response, w1) \<Rightarrow> (post_result response, w1))"

definition runner_ok :: "js_value \<Rightarrow> bool \<Rightarrow> bool" where
  "runner_ok body b \<longleftrightarrow> isRecord body \<and> field_of body ''ok'' = JBool b"

definition start_result :: "js_value \<Rightarrow> lifecycle_error + string" where
  "start_result body =
     (case (readStringField body ''runner_id'', readStringField body ''message'') of
        (runnerId, message) \<Rightarrow>
          if runner_ok body True \<and> runnerId \<noteq> None then Inr (the runnerId)
          else if runner_ok body False \<and> message \<noteq> None then Inl (RunnerStartError (the message))
          else Inl (RunnerContractError ''AWS runner start response did not match the runner contract''))"

definition process_result :: "js_value \<Rightarrow> lifecycle_error + js_value" where
  "process_result body =
     (if runner_ok body True \<and> isRecord (field_of body ''result'') then Inr (field_of body ''result'')
      else if runner_ok body False then
        Inl (RunnerProcessError (coalesce (readStringField body ''message'') ''AWS runner process failed'')
          (case readStringField body ''error_code'' of
             Some c \<Rightarrow> if c \<in> set ERROR_CODES then c else ''AWS_RUNNER_PROCESS_FAILED''
           | None \<Rightarrow> ''AWS_RUNNER_PROCESS_FAILED''))
      else Inl (RunnerContractError ''AWS runner process response did not match the runner contract''))"

definition stop_result :: "js_value \<Rightarrow> lifecycle_error + unit" where
  "stop_result body =
     (if runner_ok body True then Inr ()
      else case readStringField body ''message'' of
        Some m \<Rightarrow> if runner_ok body False then Inl (RunnerOtherError m)
          else Inl (RunnerOtherError ''AWS_RUNNER_STOP_FAILED: AWS runner stop response did not match the runner contract'')
      | None \<Rightarrow> Inl (RunnerOtherError ''AWS_RUNNER_STOP_FAILED: AWS runner stop response did not match the runner contract''))"

definition then_read :: "('w, js_value) lifecycle_io \<Rightarrow> (js_value \<Rightarrow> lifecycle_error + 'a) \<Rightarrow> ('w, 'a) lifecycle_io" where
  "then_read call read w = (case call w of (Inl e, w1) \<Rightarrow> (Inl e, w1) | (Inr body, w1) \<Rightarrow> (read body, w1))"

definition start_runner :: "'w lifecycle_config \<Rightarrow> ('w, string) lifecycle_io" where
  "start_runner config = then_read (postJson config ''/start'' (JObj []) None) start_result"

definition process_on_runner :: "'w lifecycle_config \<Rightarrow> string \<Rightarrow> js_value \<Rightarrow> ('w, js_value) lifecycle_io" where
  "process_on_runner config runnerId request =
     then_read (postJson config ''/process'' (JObj [(''payload'', request)]) (Some runnerId)) process_result"

definition stop_runner :: "'w lifecycle_config \<Rightarrow> string \<Rightarrow> ('w, unit) lifecycle_io" where
  "stop_runner config runnerId = then_read (postJson config ''/stop'' (JObj [(''runner_id'', JStr runnerId)]) None) stop_result"

end
