(* ===== verification/WorkerArtifacts.thy ===== *)
theory WorkerArtifacts
  imports ProofManifest SourceFetch
begin

text \<open>
  The service that proves affected cells, \<open>packages/affected-cells-proof-worker/src\<close>: its errors (\<open>errors.ts\<close>),
  the register token (\<open>auth.ts\<close>), the manifest and the shard entries it stores, their parsers, the search
  for an entry and the shape of an answer (\<open>proof_artifacts.ts\<close>), the keys and the stored text of a shard (\<open>r2.ts\<close>).

  A text is its UTF-8 bytes, as everywhere; \<open>utf8_text\<close> is what \<open>TextDecoder\<close> reads from any bytes.  A bigint is
  an \<open>int\<close>; the text of a number is the parameter \<open>num\<close>.
\<close>

section \<open>Text and numbers\<close>

definition replacement_character :: bytes where "replacement_character = [0xEF, 0xBF, 0xBD]"

datatype utf8_lead = Ascii | LeadOf nat nat nat | NotLead

text \<open>The bytes a first byte asks for, and the range of the second.\<close>

definition utf8_lead_of :: "byte \<Rightarrow> utf8_lead" where
  "utf8_lead_of b = (let n = unat b in
     if n \<le> 0x7F then Ascii
     else if 0xC2 \<le> n \<and> n \<le> 0xDF then LeadOf 1 0x80 0xBF
     else if 0xE0 \<le> n \<and> n \<le> 0xEF then LeadOf 2 (if n = 0xE0 then 0xA0 else 0x80) (if n = 0xED then 0x9F else 0xBF)
     else if 0xF0 \<le> n \<and> n \<le> 0xF4 then LeadOf 3 (if n = 0xF0 then 0x90 else 0x80) (if n = 0xF4 then 0x8F else 0xBF)
     else NotLead)"

text \<open>The decoder: the bytes of the character it is in, how many it lacks and the range of the next one.\<close>

fun utf8_go :: "bytes \<Rightarrow> nat \<Rightarrow> nat \<Rightarrow> nat \<Rightarrow> bytes \<Rightarrow> bytes" where
  "utf8_go seen lacks low high [] = (if lacks = 0 then [] else replacement_character)"
| "utf8_go seen lacks low high (b # bs) =
     (if lacks > 0 \<and> low \<le> unat b \<and> unat b \<le> high
      then if lacks = 1 then seen @ [b] @ utf8_go [] 0 0 0 bs else utf8_go (seen @ [b]) (lacks - 1) 0x80 0xBF bs
      else (if lacks = 0 then [] else replacement_character)
        @ (case utf8_lead_of b of
             Ascii \<Rightarrow> b # utf8_go [] 0 0 0 bs
           | LeadOf n lo hi \<Rightarrow> utf8_go [b] n lo hi bs
           | NotLead \<Rightarrow> replacement_character @ utf8_go [] 0 0 0 bs))"

text \<open>A byte order mark at the start is dropped.\<close>

definition utf8_text :: "bytes \<Rightarrow> string" where
  "utf8_text bs = map (\<lambda>b. char_of (unat b)) (utf8_go [] 0 0 0 (if take 3 bs = [0xEF, 0xBB, 0xBF] then drop 3 bs else bs))"

definition text_bytes :: "string \<Rightarrow> bytes" where
  "text_bytes s = map of_char s"

text \<open>The double nearest to an integer, ties to the even one, and \<open>parseInt(digits, 10)\<close>, which is \<open>None\<close> where
  it is infinite.\<close>

fun bit_length :: "nat \<Rightarrow> nat" where
  "bit_length n = (if n = 0 then 0 else Suc (bit_length (n div 2)))"

declare bit_length.simps [simp del]

definition round_to_double :: "nat \<Rightarrow> nat" where
  "round_to_double n =
     (if n < 2 ^ 53 then n
      else let s = bit_length n - 53; q = n div 2 ^ s; r = n mod 2 ^ s; half = 2 ^ (s - 1) in
        (if r > half \<or> r = half \<and> odd q then q + 1 else q) * 2 ^ s)"

definition parseInt10 :: "string \<Rightarrow> int option" where
  "parseInt10 digits = (let v = round_to_double (read_nat digits) in if v \<ge> 2 ^ 1024 then None else Some (int v))"

text \<open>\<open>String(value)\<close>.\<close>

fun js_string :: "(rat \<Rightarrow> string) \<Rightarrow> js_value \<Rightarrow> string"
and js_item :: "(rat \<Rightarrow> string) \<Rightarrow> js_value \<Rightarrow> string" where
  "js_string num JUndef = ''undefined''"
| "js_string num JNull = ''null''"
| "js_string num (JBool b) = (if b then ''true'' else ''false'')"
| "js_string num (JNum q) = num q"
| "js_string num JNonFinite = ''NaN''"
| "js_string num (JStr s) = s"
| "js_string num (JArr vs) = join_with '','' (map (js_item num) vs)"
| "js_string num (JObj fs) = ''[object Object]''"
| "js_item num v = (if v = JUndef \<or> v = JNull then [] else js_string num v)"

section \<open>Errors\<close>

datatype proof_code =
    InvalidRequest | Unauthorized | WalrusFetchFailed | CellsHashMismatch | CellsRootMismatch | CellsInvalid
  | CellNotInEvent | ManifestMissing | ManifestInvalid | ShardMissing | ShardIntegrityMismatch | ShardInvalid
  | MethodNotAllowed | RouteNotFound | InternalError

definition code_text :: "proof_code \<Rightarrow> string" where
  "code_text c = (case c of
     InvalidRequest \<Rightarrow> ''invalid_request'' | Unauthorized \<Rightarrow> ''unauthorized'' | WalrusFetchFailed \<Rightarrow> ''walrus_fetch_failed''
   | CellsHashMismatch \<Rightarrow> ''affected_cells_hash_mismatch'' | CellsRootMismatch \<Rightarrow> ''affected_cells_root_mismatch''
   | CellsInvalid \<Rightarrow> ''affected_cells_invalid'' | CellNotInEvent \<Rightarrow> ''affected_cell_not_in_event''
   | ManifestMissing \<Rightarrow> ''proof_manifest_missing'' | ManifestInvalid \<Rightarrow> ''proof_manifest_invalid''
   | ShardMissing \<Rightarrow> ''proof_shard_missing'' | ShardIntegrityMismatch \<Rightarrow> ''proof_shard_integrity_mismatch''
   | ShardInvalid \<Rightarrow> ''proof_shard_invalid'' | MethodNotAllowed \<Rightarrow> ''method_not_allowed''
   | RouteNotFound \<Rightarrow> ''not_found'' | InternalError \<Rightarrow> ''internal'')"

text \<open>What is thrown: an \<open>AffectedCellsProofError\<close> with its code, message and status, or any other error.\<close>

datatype worker_error = WorkerError proof_code string int | PlainError js_error

record worker_response =
  ws_status :: int
  ws_headers :: "(string \<times> string) list"
  ws_body :: js_value

text \<open>The body is the text \<open>JSON.stringify\<close> makes of \<open>ws_body\<close>.\<close>

definition jsonResponse :: "js_value \<Rightarrow> int \<Rightarrow> worker_response" where
  "jsonResponse body status =
     \<lparr>ws_status = status, ws_headers = [(''content-type'', ''application/json; charset=utf-8'')], ws_body = body\<rparr>"

definition errorResponse :: "proof_code \<Rightarrow> string \<Rightarrow> int \<Rightarrow> worker_response" where
  "errorResponse code message status =
     jsonResponse (JObj [(''error'', JObj [(''code'', JStr (code_text code)), (''message'', JStr message)])]) status"

text \<open>Both handlers turn what they catch into an answer, and so does the entry point.\<close>

definition handler_error :: "worker_error \<Rightarrow> worker_response" where
  "handler_error e = (case e of
     WorkerError code message status \<Rightarrow> errorResponse code message status
   | PlainError _ \<Rightarrow> errorResponse InternalError ''Internal error'' 500)"

definition toAffectedCellsProofError :: "worker_error \<Rightarrow> worker_response" where
  "toAffectedCellsProofError e = (case e of
     WorkerError code message status \<Rightarrow> errorResponse code message status
   | PlainError _ \<Rightarrow> errorResponse InternalError ''Affected cells proof request failed'' 500)"

section \<open>The register token\<close>

definition padded :: "nat \<Rightarrow> bytes \<Rightarrow> bytes" where
  "padded n bs = bs @ replicate (n - length bs) 0"

definition constantTimeEqual :: "string \<Rightarrow> string \<Rightarrow> bool" where
  "constantTimeEqual a b =
     (let aBytes = text_bytes a; bBytes = text_bytes b; maxLen = max (length aBytes) (length bBytes) in
      if maxLen = 0 then True
      else let diff = foldl (\<lambda>diff (x, y). diff OR (x XOR y)) 0 (zip (padded maxLen aBytes) (padded maxLen bBytes));
               lengthEqual = (if length aBytes = length bBytes then 0 else 1) in
           diff OR lengthEqual = 0)"

definition token_accepted :: "string option \<Rightarrow> string option \<Rightarrow> bool" where
  "token_accepted secret token =
     (let secretConfigured = some_and (\<lambda>s. length s > 0) secret;
          tokenPresent = some_and (\<lambda>t. length t > 0) token;
          timingSafeMatch = constantTimeEqual (coalesce secret []) (coalesce token []) in
      secretConfigured \<and> tokenPresent \<and> timingSafeMatch)"

definition verifyRegisterToken :: "(string \<times> string) list \<Rightarrow> string option \<Rightarrow> worker_error + unit" where
  "verifyRegisterToken headers secret =
     (if \<not> token_accepted secret (map_of headers ''x-sonari-affected-proof-register-token'')
      then Inl (WorkerError Unauthorized ''Invalid or missing register token'' 401) else Inr ())"

section \<open>The manifest\<close>

record manifest_entry =
  me_shard_key :: string
  me_r2_key :: string
  me_hash :: string
  me_cell_count :: int

record worker_manifest =
  wm_schema_version :: int
  wm_event_uid :: string
  wm_event_revision :: int
  wm_affected_cells_uri :: string
  wm_affected_cells_hash :: string
  wm_affected_cells_root :: string
  wm_affected_cell_count :: int
  wm_geo_resolution :: int
  wm_shards :: "manifest_entry list"

definition MANIFEST_KEYS :: "string list" where
  "MANIFEST_KEYS = [''schema_version'', ''event_uid'', ''event_revision'', ''affected_cells_uri'', ''affected_cells_hash'',
     ''affected_cells_root'', ''affected_cell_count'', ''geo_resolution'', ''shards'']"

definition MANIFEST_ENTRY_KEYS :: "string list" where
  "MANIFEST_ENTRY_KEYS = [''shard_key'', ''r2_key'', ''hash'', ''cell_count'']"

definition parseManifestShardEntry :: "js_value \<Rightarrow> js_error + manifest_entry" where
  "parseManifestShardEntry v =
     res_bind (expectRecord ''manifest shard entry'' v) (\<lambda>record'.
     res_bind (expectKeys ''manifest shard entry'' record' MANIFEST_ENTRY_KEYS) (\<lambda>_.
     res_bind (expectString ''shard_key'' (get_field record' ''shard_key'')) (\<lambda>shard_key.
     res_bind (expectString ''r2_key'' (get_field record' ''r2_key'')) (\<lambda>r2_key.
     res_bind (expectPrefixedHex32 ''hash'' (get_field record' ''hash'')) (\<lambda>hash.
     res_bind (expectNonNegativeSafeInteger ''cell_count'' (get_field record' ''cell_count'')) (\<lambda>cell_count.
       Inr \<lparr>me_shard_key = shard_key, me_r2_key = r2_key, me_hash = hash, me_cell_count = cell_count\<rparr>))))))"

definition parseProofManifest :: "js_value \<Rightarrow> js_error + worker_manifest" where
  "parseProofManifest v =
     res_bind (expectRecord ''proof manifest'' v) (\<lambda>record'.
     res_bind (expectKeys ''proof manifest'' record' MANIFEST_KEYS) (\<lambda>_.
     res_bind (expectPositiveSafeInteger ''schema_version'' (get_field record' ''schema_version'')) (\<lambda>schema_version.
     res_bind (expectPrefixedHex32 ''event_uid'' (get_field record' ''event_uid'')) (\<lambda>uid.
     res_bind (expectPositiveSafeInteger ''event_revision'' (get_field record' ''event_revision'')) (\<lambda>revision.
     res_bind (expectString ''affected_cells_uri'' (get_field record' ''affected_cells_uri'')) (\<lambda>uri.
     res_bind (expectPrefixedHex32 ''affected_cells_hash'' (get_field record' ''affected_cells_hash'')) (\<lambda>hash.
     res_bind (expectPrefixedHex32 ''affected_cells_root'' (get_field record' ''affected_cells_root'')) (\<lambda>root'.
     res_bind (expectNonNegativeSafeInteger ''affected_cell_count'' (get_field record' ''affected_cell_count'')) (\<lambda>count'.
     res_bind (expectNonNegativeSafeInteger ''geo_resolution'' (get_field record' ''geo_resolution'')) (\<lambda>geo.
     res_bind (expectArray ''shards'' (get_field record' ''shards'')) (\<lambda>rawShards.
     res_bind (res_map parseManifestShardEntry rawShards) (\<lambda>shards.
       Inr \<lparr>wm_schema_version = schema_version, wm_event_uid = uid, wm_event_revision = revision,
            wm_affected_cells_uri = uri, wm_affected_cells_hash = hash, wm_affected_cells_root = root',
            wm_affected_cell_count = count', wm_geo_resolution = geo, wm_shards = shards\<rparr>))))))))))))"

definition manifest_entry_json :: "manifest_entry \<Rightarrow> js_value" where
  "manifest_entry_json s = JObj [(''shard_key'', JStr (me_shard_key s)), (''r2_key'', JStr (me_r2_key s)),
     (''hash'', JStr (me_hash s)), (''cell_count'', jint (me_cell_count s))]"

definition manifest_json :: "worker_manifest \<Rightarrow> js_value" where
  "manifest_json m = JObj
     [(''schema_version'', jint (wm_schema_version m)), (''event_uid'', JStr (wm_event_uid m)),
      (''event_revision'', jint (wm_event_revision m)), (''affected_cells_uri'', JStr (wm_affected_cells_uri m)),
      (''affected_cells_hash'', JStr (wm_affected_cells_hash m)), (''affected_cells_root'', JStr (wm_affected_cells_root m)),
      (''affected_cell_count'', jint (wm_affected_cell_count m)), (''geo_resolution'', jint (wm_geo_resolution m)),
      (''shards'', JArr (map manifest_entry_json (wm_shards m)))]"

section \<open>Shard entries\<close>

record shard_entry = affected_cell_leaf +
  se_leaf_hash :: string
  se_proof :: "proof_step list"

definition SHARD_ENTRY_KEYS :: "string list" where
  "SHARD_ENTRY_KEYS = [''event_uid'', ''event_revision'', ''geo_resolution'', ''h3_index'', ''cell_band'', ''intensity_value'',
     ''cell_metric'', ''intensity_scale'', ''cells_generation_method'', ''oracle_version'', ''leaf_hash'', ''proof'']"

definition parseBigIntString :: "string \<Rightarrow> js_value \<Rightarrow> js_error + int" where
  "parseBigIntString name v =
     res_bind (expectString name v) (\<lambda>str.
       if \<not> (str \<noteq> [] \<and> list_all is_digit str) \<or> (length str > 1 \<and> starts_with str ''0'')
       then Inl (name @ '' must be a valid non-negative decimal integer string, got '' @ [double_quote] @ str @ [double_quote])
       else Inr (int (read_nat str)))"

definition validateEnumValue :: "string \<Rightarrow> string \<Rightarrow> string list \<Rightarrow> js_error + unit" where
  "validateEnumValue name v vals =
     (if v \<notin> set vals then Inl (name @ '' has unknown value: '' @ [double_quote] @ v @ [double_quote]) else Inr ())"

definition parseProofStep :: "js_value \<Rightarrow> js_error + proof_step" where
  "parseProofStep v =
     res_bind (expectRecord ''proof step'' v) (\<lambda>record'.
     res_bind (expectKeys ''proof step'' record' [''sibling_on_left'', ''sibling_hash'']) (\<lambda>_.
     res_bind (expectBoolean ''sibling_on_left'' (get_field record' ''sibling_on_left'')) (\<lambda>left.
     res_bind (expectPrefixedHex32 ''sibling_hash'' (get_field record' ''sibling_hash'')) (\<lambda>h.
       Inr \<lparr>sibling_on_left = left, sibling_hash = h\<rparr>))))"

definition parseShardEntry :: "js_value \<Rightarrow> js_error + shard_entry" where
  "parseShardEntry v =
     res_bind (expectRecord ''shard entry'' v) (\<lambda>record'.
     res_bind (expectKeys ''shard entry'' record' SHARD_ENTRY_KEYS) (\<lambda>_.
     res_bind (expectPrefixedHex32 ''event_uid'' (get_field record' ''event_uid'')) (\<lambda>uid.
     res_bind (expectPositiveSafeInteger ''event_revision'' (get_field record' ''event_revision'')) (\<lambda>revision.
     res_bind (expectNonNegativeSafeInteger ''geo_resolution'' (get_field record' ''geo_resolution'')) (\<lambda>geo.
     res_bind (parseBigIntString ''h3_index'' (get_field record' ''h3_index'')) (\<lambda>h3.
     res_bind (expectNonNegativeSafeInteger ''cell_band'' (get_field record' ''cell_band'')) (\<lambda>band.
     res_bind (expectNonNegativeSafeInteger ''intensity_value'' (get_field record' ''intensity_value'')) (\<lambda>intensity.
     res_bind (expectString ''cell_metric'' (get_field record' ''cell_metric'')) (\<lambda>metric.
     res_bind (validateEnumValue ''cell_metric'' metric KNOWN_CELL_METRICS) (\<lambda>_.
     res_bind (expectString ''intensity_scale'' (get_field record' ''intensity_scale'')) (\<lambda>scale.
     res_bind (validateEnumValue ''intensity_scale'' scale KNOWN_INTENSITY_SCALES) (\<lambda>_.
     res_bind (expectString ''cells_generation_method'' (get_field record' ''cells_generation_method'')) (\<lambda>gm.
     res_bind (validateEnumValue ''cells_generation_method'' gm KNOWN_CELLS_GENERATION_METHODS) (\<lambda>_.
     res_bind (parseBigIntString ''oracle_version'' (get_field record' ''oracle_version'')) (\<lambda>oracle.
     res_bind (expectPrefixedHex32 ''leaf_hash'' (get_field record' ''leaf_hash'')) (\<lambda>leaf_hash.
     res_bind (expectArray ''proof'' (get_field record' ''proof'')) (\<lambda>rawProof.
     res_bind (res_map parseProofStep rawProof) (\<lambda>steps.
       Inr \<lparr>leaf_event_uid = uid, leaf_event_revision = revision, leaf_h3_index = h3, leaf_geo_resolution = geo,
            leaf_cell_metric = metric, leaf_intensity_value = intensity, leaf_intensity_scale = scale,
            leaf_cell_band = band, leaf_cells_generation_method = gm, leaf_oracle_version = oracle,
            se_leaf_hash = leaf_hash, se_proof = steps\<rparr>))))))))))))))))))"

definition step_json :: "proof_step \<Rightarrow> js_value" where
  "step_json st = JObj [(''sibling_on_left'', JBool (sibling_on_left st)), (''sibling_hash'', JStr (sibling_hash st))]"

definition entry_json :: "shard_entry \<Rightarrow> js_value" where
  "entry_json e = JObj
     [(''event_uid'', JStr (leaf_event_uid e)), (''event_revision'', jint (leaf_event_revision e)),
      (''geo_resolution'', jint (leaf_geo_resolution e)), (''h3_index'', JStr (show_int (leaf_h3_index e))),
      (''cell_band'', jint (leaf_cell_band e)), (''intensity_value'', jint (leaf_intensity_value e)),
      (''cell_metric'', JStr (leaf_cell_metric e)), (''intensity_scale'', JStr (leaf_intensity_scale e)),
      (''cells_generation_method'', JStr (leaf_cells_generation_method e)),
      (''oracle_version'', JStr (show_int (leaf_oracle_version e))), (''leaf_hash'', JStr (se_leaf_hash e)),
      (''proof'', JArr (map step_json (se_proof e)))]"

definition shard_json :: "shard_entry list \<Rightarrow> js_value" where
  "shard_json entries = JObj [(''entries'', JArr (map entry_json entries))]"

definition serializeShardEntries :: "(rat \<Rightarrow> string) \<Rightarrow> shard_entry list \<Rightarrow> string" where
  "serializeShardEntries num entries = json_text num (shard_json entries)"

definition findShardEntry :: "shard_entry list \<Rightarrow> int \<Rightarrow> shard_entry option" where
  "findShardEntry entries h3Index = List.find (\<lambda>e. leaf_h3_index e = h3Index) entries"

definition entry_leaf :: "shard_entry \<Rightarrow> affected_cell_leaf" where
  "entry_leaf e =
     \<lparr>leaf_event_uid = leaf_event_uid e, leaf_event_revision = leaf_event_revision e, leaf_h3_index = leaf_h3_index e,
      leaf_geo_resolution = leaf_geo_resolution e, leaf_cell_metric = leaf_cell_metric e,
      leaf_intensity_value = leaf_intensity_value e, leaf_intensity_scale = leaf_intensity_scale e,
      leaf_cell_band = leaf_cell_band e, leaf_cells_generation_method = leaf_cells_generation_method e,
      leaf_oracle_version = leaf_oracle_version e\<rparr>"

section \<open>The answer\<close>

record proof_response =
  pa_event_uid :: string
  pa_event_revision :: int
  pa_h3_index :: string
  pa_affected_cells_root :: string
  pa_leaf :: affected_cell_leaf
  pa_proof :: "proof_step list"

definition shapeProofResponse :: "shard_entry \<Rightarrow> worker_manifest \<Rightarrow> proof_response" where
  "shapeProofResponse entry manifest =
     \<lparr>pa_event_uid = wm_event_uid manifest, pa_event_revision = wm_event_revision manifest,
      pa_h3_index = show_int (leaf_h3_index entry), pa_affected_cells_root = wm_affected_cells_root manifest,
      pa_leaf = entry_leaf entry, pa_proof = se_proof entry\<rparr>"

definition serializeResponse :: "proof_response \<Rightarrow> js_value" where
  "serializeResponse r = (let l = pa_leaf r in JObj
     [(''event_uid'', JStr (pa_event_uid r)), (''event_revision'', jint (pa_event_revision r)),
      (''h3_index'', JStr (pa_h3_index r)), (''affected_cells_root'', JStr (pa_affected_cells_root r)),
      (''leaf'', JObj
        [(''event_uid'', JStr (leaf_event_uid l)), (''event_revision'', jint (leaf_event_revision l)),
         (''h3_index'', JStr (show_int (leaf_h3_index l))), (''geo_resolution'', jint (leaf_geo_resolution l)),
         (''cell_band'', jint (leaf_cell_band l)), (''intensity_value'', jint (leaf_intensity_value l)),
         (''cell_metric'', JStr (leaf_cell_metric l)), (''intensity_scale'', JStr (leaf_intensity_scale l)),
         (''cells_generation_method'', JStr (leaf_cells_generation_method l)),
         (''oracle_version'', JStr (show_int (leaf_oracle_version l)))]),
      (''proof'', JArr (map step_json (pa_proof r)))])"

section \<open>Keys\<close>

definition manifestR2Key :: "(rat \<Rightarrow> string) \<Rightarrow> string \<Rightarrow> int \<Rightarrow> string" where
  "manifestR2Key num eventUid eventRevision =
     ''affected-proofs/events/'' @ eventUid @ ''/revisions/'' @ num (of_int eventRevision) @ ''/manifest.json''"

definition shardR2Key :: "(rat \<Rightarrow> string) \<Rightarrow> string \<Rightarrow> int \<Rightarrow> string \<Rightarrow> string" where
  "shardR2Key num eventUid eventRevision shardKey =
     ''affected-proofs/events/'' @ eventUid @ ''/revisions/'' @ num (of_int eventRevision) @ ''/shards/'' @ shardKey @ ''.json''"

definition manifestCacheKey :: "(rat \<Rightarrow> string) \<Rightarrow> string \<Rightarrow> int \<Rightarrow> string" where
  "manifestCacheKey num eventUid eventRevision = eventUid @ '':'' @ num (of_int eventRevision)"

section \<open>Comparing tokens\<close>

lemma text_bytes_inject [simp]: "text_bytes s = text_bytes t \<longleftrightarrow> s = t"
  by (auto simp: text_bytes_def dest: bytes_of_string_inject)

lemma text_bytes_simps [simp]:
  "length (text_bytes s) = length s" "text_bytes [] = []" "text_bytes (c # s) = of_char c # text_bytes s"
  "text_bytes s = [] \<longleftrightarrow> s = []"
  by (simp_all add: text_bytes_def)

lemma or_eq_0 [simp]: "(a :: byte) OR b = 0 \<longleftrightarrow> a = 0 \<and> b = 0"
  by (auto simp: bit_eq_iff bit_or_iff)

lemma xor_eq_0: "(a :: byte) XOR b = 0 \<longleftrightarrow> a = b"
  by (auto simp: bit_eq_iff bit_xor_iff)

lemma difference_zero:
  "foldl (\<lambda>diff (x, y). diff OR (x XOR y)) d xys = (0 :: byte) \<longleftrightarrow> d = 0 \<and> (\<forall>(x, y) \<in> set xys. x = y)"
  by (induction xys arbitrary: d) (auto simp: xor_eq_0)

lemma pairs_equal: "length xs = length ys \<Longrightarrow> (\<forall>(x, y) \<in> set (zip xs ys). x = y) \<longleftrightarrow> xs = ys"
  by (induction xs ys rule: list_induct2) auto

lemma constantTimeEqual_eq: "constantTimeEqual a b \<longleftrightarrow> a = b"
proof -
  have "padded n xs = padded n ys \<longleftrightarrow> xs = ys" if "length xs = length ys" for n and xs ys :: bytes
    using that by (simp add: padded_def)
  moreover have "length (padded (max (length a) (length b)) (text_bytes x)) = max (length a) (length b)"
    if "x = a \<or> x = b" for x
    using that by (auto simp: padded_def)
  ultimately show ?thesis
    by (auto simp: constantTimeEqual_def Let_def difference_zero pairs_equal)
qed

lemma verify_token_Inr:
  "verifyRegisterToken headers secret = Inr u \<longleftrightarrow>
   (\<exists>t. t \<noteq> [] \<and> secret = Some t \<and> map_of headers ''x-sonari-affected-proof-register-token'' = Some t)"
  by (auto simp: verifyRegisterToken_def token_accepted_def Let_def constantTimeEqual_eq some_and_def split: option.splits)

section \<open>Decoding\<close>

definition ascii :: "string \<Rightarrow> bool" where
  "ascii s \<longleftrightarrow> (\<forall>c \<in> set s. of_char c < (128 :: nat))"

lemma ascii_simps [simp]:
  "ascii []" "ascii (c # s) \<longleftrightarrow> of_char c < (128 :: nat) \<and> ascii s" "ascii (s @ t) \<longleftrightarrow> ascii s \<and> ascii t"
  by (auto simp: ascii_def)

lemma unat_of_char [simp]: "unat (of_char c :: byte) = of_char c"
proof -
  have "(of_char c :: byte) = of_nat (of_char c)" by (simp only: of_nat_of_char)
  moreover have "(of_char c :: nat) < 256" by simp
  ultimately show ?thesis by (simp only: unat_of_nat) (simp add: take_bit_eq_mod)
qed

lemma utf8_go_ascii: "ascii s \<Longrightarrow> utf8_go [] 0 lo hi (text_bytes s) = text_bytes s"
  by (induction s arbitrary: lo hi) (simp_all add: utf8_lead_of_def Let_def)

lemma utf8_text_ascii: "ascii s \<Longrightarrow> utf8_text (text_bytes s) = s"
proof -
  assume s: "ascii s"
  have "take 3 (text_bytes s) \<noteq> [0xEF, 0xBB, 0xBF]"
  proof (cases s)
    case (Cons c t)
    have "(of_char c :: byte) \<noteq> 0xEF"
    proof
      assume "(of_char c :: byte) = 0xEF"
      then have "unat (of_char c :: byte) = unat (0xEF :: byte)" by (simp only:)
      with s Cons show False by simp
    qed
    with Cons show ?thesis by simp
  qed simp
  moreover have "map (\<lambda>b. char_of (unat b)) (text_bytes s) = s" by (simp add: text_bytes_def o_def)
  ultimately show ?thesis using s by (simp add: utf8_text_def utf8_go_ascii)
qed

section \<open>What is stored is read back\<close>

lemma expectKeys_same: "map fst fs = keys \<Longrightarrow> expectKeys name fs keys = Inr ()"
  by (simp add: expectKeys_Inr)

definition wf_manifest_entry :: "manifest_entry \<Rightarrow> bool" where
  "wf_manifest_entry s \<longleftrightarrow> is_prefixed_hex32 (me_hash s) \<and> 0 \<le> me_cell_count s \<and> me_cell_count s \<le> MAX_SAFE_INTEGER"

definition wf_manifest :: "worker_manifest \<Rightarrow> bool" where
  "wf_manifest m \<longleftrightarrow> 0 < wm_schema_version m \<and> wm_schema_version m \<le> MAX_SAFE_INTEGER
     \<and> is_prefixed_hex32 (wm_event_uid m) \<and> 0 < wm_event_revision m \<and> wm_event_revision m \<le> MAX_SAFE_INTEGER
     \<and> is_prefixed_hex32 (wm_affected_cells_hash m) \<and> is_prefixed_hex32 (wm_affected_cells_root m)
     \<and> 0 \<le> wm_affected_cell_count m \<and> wm_affected_cell_count m \<le> MAX_SAFE_INTEGER
     \<and> 0 \<le> wm_geo_resolution m \<and> wm_geo_resolution m \<le> MAX_SAFE_INTEGER
     \<and> list_all wf_manifest_entry (wm_shards m)"

definition wf_shard_entry :: "shard_entry \<Rightarrow> bool" where
  "wf_shard_entry e \<longleftrightarrow> is_prefixed_hex32 (leaf_event_uid e)
     \<and> 0 < leaf_event_revision e \<and> leaf_event_revision e \<le> MAX_SAFE_INTEGER
     \<and> 0 \<le> leaf_geo_resolution e \<and> leaf_geo_resolution e \<le> MAX_SAFE_INTEGER \<and> 0 \<le> leaf_h3_index e
     \<and> 0 \<le> leaf_cell_band e \<and> leaf_cell_band e \<le> MAX_SAFE_INTEGER
     \<and> 0 \<le> leaf_intensity_value e \<and> leaf_intensity_value e \<le> MAX_SAFE_INTEGER
     \<and> leaf_cell_metric e \<in> set KNOWN_CELL_METRICS \<and> leaf_intensity_scale e \<in> set KNOWN_INTENSITY_SCALES
     \<and> leaf_cells_generation_method e \<in> set KNOWN_CELLS_GENERATION_METHODS \<and> 0 \<le> leaf_oracle_version e
     \<and> is_prefixed_hex32 (se_leaf_hash e) \<and> list_all (\<lambda>st. is_prefixed_hex32 (sibling_hash st)) (se_proof e)"

lemma parse_manifest_entry_json: "wf_manifest_entry s \<Longrightarrow> parseManifestShardEntry (manifest_entry_json s) = Inr s"
  unfolding parseManifestShardEntry_def manifest_entry_json_def res_simps
  by (simp add: wf_manifest_entry_def MANIFEST_ENTRY_KEYS_def get_field_def)

lemma res_map_inverse:
  "list_all P xs \<Longrightarrow> (\<And>x. P x \<Longrightarrow> f (g x) = Inr x) \<Longrightarrow> res_map f (map g xs) = Inr xs"
  by (induction xs) simp_all

lemma parse_manifest_entries:
  "list_all wf_manifest_entry ss \<Longrightarrow> res_map parseManifestShardEntry (map manifest_entry_json ss) = Inr ss"
  by (erule res_map_inverse) (rule parse_manifest_entry_json)

lemma parse_manifest_json: "wf_manifest m \<Longrightarrow> parseProofManifest (manifest_json m) = Inr m"
  unfolding parseProofManifest_def manifest_json_def res_simps
  by (simp add: wf_manifest_def MANIFEST_KEYS_def get_field_def
      parse_manifest_entries)

lemma parse_step_json: "is_prefixed_hex32 (sibling_hash st) \<Longrightarrow> parseProofStep (step_json st) = Inr st"
  unfolding parseProofStep_def step_json_def res_simps by (simp add: get_field_def)

lemma parse_steps:
  "list_all (\<lambda>st. is_prefixed_hex32 (sibling_hash st)) sts \<Longrightarrow> res_map parseProofStep (map step_json sts) = Inr sts"
  by (erule res_map_inverse) (rule parse_step_json)

lemma parse_show_int [simp]: "0 \<le> n \<Longrightarrow> parseBigIntString name (JStr (show_int n)) = Inr n"
proof -
  assume n: "0 \<le> n"
  define digits where "digits = show_nat (nat n)"
  have "is_canonical_decimal digits" "int (read_nat digits) = n"
    using n by (simp_all add: digits_def show_nat_canonical read_show_nat)
  moreover have "show_int n = digits" using n by (simp add: show_int_def digits_def)
  ultimately show ?thesis
    by (cases digits) (auto simp: parseBigIntString_def res_simps is_canonical_decimal_def starts_with_def)
qed

lemma validateEnumValue_Inr [res_simps]: "validateEnumValue name v vals = Inr u \<longleftrightarrow> v \<in> set vals"
  by (simp add: validateEnumValue_def)

lemma parse_entry_json: "wf_shard_entry e \<Longrightarrow> parseShardEntry (entry_json e) = Inr e"
  unfolding parseShardEntry_def entry_json_def res_simps
  by (simp add: wf_shard_entry_def SHARD_ENTRY_KEYS_def get_field_def parse_steps)

lemma parse_entries: "list_all wf_shard_entry es \<Longrightarrow> res_map parseShardEntry (map entry_json es) = Inr es"
  by (erule res_map_inverse) (rule parse_entry_json)

section \<open>Stored documents are ASCII\<close>

fun ascii_value :: "(rat \<Rightarrow> string) \<Rightarrow> js_value \<Rightarrow> bool"
and ascii_fields :: "(rat \<Rightarrow> string) \<Rightarrow> (string \<times> js_value) list \<Rightarrow> bool"
and ascii_items :: "(rat \<Rightarrow> string) \<Rightarrow> js_value list \<Rightarrow> bool" where
  "ascii_value num (JNum q) = ascii (num q)"
| "ascii_value num (JStr s) = ascii s"
| "ascii_value num (JArr vs) = ascii_items num vs"
| "ascii_value num (JObj fs) = ascii_fields num fs"
| "ascii_value num _ = True"
| "ascii_fields num [] = True"
| "ascii_fields num ((k, v) # fs) = (ascii k \<and> ascii_value num v \<and> ascii_fields num fs)"
| "ascii_items num [] = True"
| "ascii_items num (v # vs) = (ascii_value num v \<and> ascii_items num vs)"

lemma ascii_items_map: "ascii_items num (map f xs) \<longleftrightarrow> list_all (\<lambda>x. ascii_value num (f x)) xs"
  by (induction xs) simp_all

lemma ascii_join: "ascii sep \<Longrightarrow> list_all ascii xs \<Longrightarrow> ascii (join_with sep xs)"
  by (induction sep xs rule: join_with.induct) simp_all

lemma ascii_hex_char: "d < 16 \<Longrightarrow> of_char (hex_char d) < (128 :: nat)"
  by (simp add: of_char_hex_char)

lemma ascii_hex2: "ascii (hex2 b)"
proof -
  have "unat b div 16 < 16" using byte_unat_less [of b] by (simp add: div_less_iff_less_mult)
  then show ?thesis by (simp add: hex2_def ascii_hex_char)
qed

lemma ascii_escape: "of_char c < (128 :: nat) \<Longrightarrow> ascii (RunnerShell.json_escape c)"
  by (auto simp: RunnerShell.json_escape_def Let_def ascii_hex2)

lemma ascii_json_string: "ascii s \<Longrightarrow> ascii (RunnerShell.json_string s)"
proof -
  assume "ascii s"
  then have "ascii (concat (map RunnerShell.json_escape s))" by (induction s) (simp_all add: ascii_escape)
  then show ?thesis by (simp add: RunnerShell.json_string_def)
qed

lemma ascii_json_text:
  "ascii_value num v \<Longrightarrow> ascii (json_text num v)"
  "ascii_fields num fs \<Longrightarrow> list_all ascii (json_fields num fs)"
  "ascii_items num vs \<Longrightarrow> list_all ascii (json_items num vs)"
  by (induction num v and num fs and num vs rule: json_text_json_fields_json_items.induct) (auto simp: ascii_join ascii_json_string)

lemma ascii_digits: "list_all is_digit s \<Longrightarrow> ascii s"
  by (induction s) (auto simp: is_digit_def)

lemma ascii_show_int: "ascii (show_int n)"
  using show_nat_digits by (auto simp: show_int_def list_all_iff intro!: ascii_digits)

lemma ascii_hex32: "is_prefixed_hex32 s \<Longrightarrow> ascii s"
proof -
  assume s: "is_prefixed_hex32 s"
  have "ascii t" if "list_all is_lower_hex t" for t
    using that by (induction t) (auto simp: is_lower_hex_def is_digit_def)
  with s have "ascii (drop 2 s)" by (simp add: is_prefixed_hex32_def)
  moreover have "take 2 s = ''0x''" using s by (auto simp: is_prefixed_hex32_def starts_with_def numeral_2_eq_2)
  ultimately have "ascii (take 2 s @ drop 2 s)" by (simp only: ascii_simps) simp
  then show ?thesis by simp
qed

lemma ascii_entry: "wf_shard_entry e \<Longrightarrow> (\<And>n. ascii (num (of_int n))) \<Longrightarrow> ascii_value num (entry_json e)"
  by (auto simp: entry_json_def wf_shard_entry_def ascii_hex32 ascii_show_int KNOWN_CELL_METRICS_def
      KNOWN_INTENSITY_SCALES_def KNOWN_CELLS_GENERATION_METHODS_def ascii_items_map step_json_def list_all_iff)

lemma ascii_shard:
  assumes "list_all wf_shard_entry es" and "\<And>n. ascii (num (of_int n))"
  shows "ascii (serializeShardEntries num es)"
proof -
  have "list_all (\<lambda>e. ascii_value num (entry_json e)) es"
    using assms(1) ascii_entry [where num = num] assms(2) by (auto simp: list_all_iff)
  then show ?thesis by (simp add: serializeShardEntries_def shard_json_def ascii_items_map ascii_json_text(1)
        del: json_text.simps)
qed

section \<open>Small numbers and one cell\<close>

lemma parseInt10_small: "read_nat s < 2 ^ 53 \<Longrightarrow> parseInt10 s = Some (int (read_nat s))"
proof -
  assume s: "read_nat s < 2 ^ 53"
  moreover have "(2 :: nat) ^ 53 \<le> 2 ^ 1024" by (intro power_increasing) simp_all
  ultimately have "\<not> read_nat s \<ge> 2 ^ 1024" by linarith
  with s show ?thesis by (simp add: parseInt10_def round_to_double_def Let_def)
qed

lemma worker_index: "parseH3Index ''607985949711794175'' 7 = Inr \<lparr>decimal = ''607985949711794175'', h3_value = 607985949711794175\<rparr>"
proof -
  have index: "h3_encode 7 0 (replicate 7 0) = 607985949711794175"
    by (simp add: h3_encode_def horner8_def eval_nat_numeral)
  moreover have "h3_cell 7 0 (replicate 7 0)"
    by (simp add: h3_cell_def H3_PENTAGON_BASE_CELLS_def)
  moreover have "show_int 607985949711794175 = ''607985949711794175''"
    using show_read_nat [of "''607985949711794175''"]
    by (simp add: show_int_def is_canonical_decimal_def is_digit_def read_nat_def digit_val_def)
  ultimately show ?thesis by (simp only: parseH3Index_iff) (metis index)
qed

lemma parent_index: "parseH3Index ''594475159402840063'' 4 = Inr \<lparr>decimal = ''594475159402840063'', h3_value = 594475159402840063\<rparr>"
proof -
  have index: "h3_encode 4 0 (replicate 4 0) = 594475159402840063"
    by (simp add: h3_encode_def horner8_def eval_nat_numeral)
  moreover have "h3_cell 4 0 (replicate 4 0)"
    by (simp add: h3_cell_def H3_PENTAGON_BASE_CELLS_def)
  moreover have "show_int 594475159402840063 = ''594475159402840063''"
    using show_read_nat [of "''594475159402840063''"]
    by (simp add: show_int_def is_canonical_decimal_def is_digit_def read_nat_def digit_val_def)
  ultimately show ?thesis by (simp only: parseH3Index_iff) (metis index)
qed

end
