(* ===== verification/WorkerStore.thy ===== *)
theory WorkerStore
  imports WorkerArtifacts
begin

text \<open>
  Where the proof service keeps its proofs, \<open>packages/affected-cells-proof-worker/src\<close>: the R2 bucket and the
  manifests cached in the isolate (\<open>r2.ts\<close>), the blobs of Walrus (\<open>walrus.ts\<close>) and the step that checks a file,
  proves its cells and stores the result (\<open>proof_builder.ts\<close>).

  A run threads the world and the cache of one bucket.  The bucket, \<open>fetch\<close>, \<open>JSON.parse\<close> and SHA-256 are parameters;
  a call of the bucket may throw.  Runs do not overlap, so a cached promise is the manifest it resolves to: one
  that is rejected is deleted before anything else reads it.
\<close>

section \<open>Runs\<close>

type_synonym manifest_cache = "string \<rightharpoonup> worker_manifest"
type_synonym ('s, 'e, 'a) eff = "'s \<Rightarrow> ('e + 'a) \<times> 's"
type_synonym ('w, 'a) run = "('w \<times> manifest_cache, worker_error, 'a) eff"

definition run_return :: "'a \<Rightarrow> ('s, 'e, 'a) eff" where "run_return x = (\<lambda>s. (Inr x, s))"

definition run_throw :: "proof_code \<Rightarrow> string \<Rightarrow> int \<Rightarrow> ('w, 'a) run" where
  "run_throw code message status = (\<lambda>s. (Inl (WorkerError code message status), s))"

definition run_bind :: "('s, 'e, 'a) eff \<Rightarrow> ('a \<Rightarrow> ('s, 'e, 'b) eff) \<Rightarrow> ('s, 'e, 'b) eff" where
  "run_bind m f = (\<lambda>s. case m s of (Inl e, s1) \<Rightarrow> (Inl e, s1) | (Inr x, s1) \<Rightarrow> f x s1)"

definition run_catch :: "('s, 'e, 'a) eff \<Rightarrow> ('e \<Rightarrow> ('s, 'e, 'a) eff) \<Rightarrow> ('s, 'e, 'a) eff" where
  "run_catch m h = (\<lambda>s. case m s of (Inl e, s1) \<Rightarrow> h e s1 | (Inr x, s1) \<Rightarrow> (Inr x, s1))"

definition run_rethrow :: "'e \<Rightarrow> ('s, 'e, 'a) eff" where "run_rethrow e = (\<lambda>s. (Inl e, s))"

text \<open>A call of the world, whose error is not one of the service's own; a check; code that may throw any error.\<close>

definition run_call :: "('w, 'a) io \<Rightarrow> ('w, 'a) run" where
  "run_call m = (\<lambda>(w, c). case m w of (Inl e, w1) \<Rightarrow> (Inl (PlainError e), (w1, c)) | (Inr x, w1) \<Rightarrow> (Inr x, (w1, c)))"

definition run_check :: "'e + 'a \<Rightarrow> ('s, 'e, 'a) eff" where "run_check r = (\<lambda>s. (r, s))"

definition run_plain :: "js_error + 'a \<Rightarrow> ('w, 'a) run" where
  "run_plain r = (\<lambda>s. case r of Inl e \<Rightarrow> (Inl (PlainError e), s) | Inr x \<Rightarrow> (Inr x, s))"

definition run_require :: "bool \<Rightarrow> proof_code \<Rightarrow> string \<Rightarrow> int \<Rightarrow> ('w, unit) run" where
  "run_require b code message status = (if b then run_return () else run_throw code message status)"

fun run_each :: "('a \<Rightarrow> ('w, unit) run) \<Rightarrow> 'a list \<Rightarrow> ('w, unit) run" where
  "run_each f [] = run_return ()"
| "run_each f (x # xs) = run_bind (f x) (\<lambda>_. run_each f xs)"

section \<open>The environment\<close>

record 'w bucket =
  bk_get :: "string \<Rightarrow> ('w, bytes option) io"
  bk_put :: "string \<Rightarrow> string \<Rightarrow> ('w, unit) io"

record 'w worker_env =
  we_register_token :: "string option"
  we_geo_resolution :: "string option"
  we_walrus_url :: "string option"
  we_shards :: "'w bucket"
  we_area_get :: "string \<Rightarrow> ('w, bytes option) io"
  we_create_batch :: "string \<Rightarrow> js_value \<Rightarrow> ('w, string list) io"
  we_get_instance :: "string \<Rightarrow> ('w, string) io"
  we_instance_status :: "string \<Rightarrow> ('w, string) io"
  we_instance_restart :: "string \<Rightarrow> ('w, unit) io"
  we_fetch :: "string \<Rightarrow> ('w, fetch_response) io"
  we_sha :: hash_fn
  we_num :: "rat \<Rightarrow> string"
  we_number :: "string \<Rightarrow> js_value"
  we_json_parse :: "string \<Rightarrow> js_error + js_value"

section \<open>Reading the bucket\<close>

definition readManifest :: "'w worker_env \<Rightarrow> string \<Rightarrow> int \<Rightarrow> ('w, worker_manifest) run" where
  "readManifest env eventUid eventRevision =
     (let key = manifestR2Key (we_num env) eventUid eventRevision in
      run_bind (run_call (bk_get (we_shards env) key)) (\<lambda>object.
      case object of
        None \<Rightarrow> run_throw ManifestMissing (''Proof manifest is missing: '' @ key) 500
      | Some bs \<Rightarrow>
        (case res_bind (we_json_parse env (utf8_text bs)) parseProofManifest of
           Inl _ \<Rightarrow> run_throw ManifestInvalid (''Proof manifest is invalid: '' @ key) 500
         | Inr manifest \<Rightarrow> run_return manifest)))"

definition cache_manifest :: "string \<Rightarrow> worker_manifest \<Rightarrow> ('w, unit) run" where
  "cache_manifest key manifest = (\<lambda>(w, c). (Inr (), (w, c(key \<mapsto> manifest))))"

definition loadProofManifest :: "'w worker_env \<Rightarrow> string \<Rightarrow> int \<Rightarrow> ('w, worker_manifest) run" where
  "loadProofManifest env eventUid eventRevision =
     (let key = manifestCacheKey (we_num env) eventUid eventRevision in
      (\<lambda>(w, c). case c key of
         Some cached \<Rightarrow> (Inr cached, (w, c))
       | None \<Rightarrow>
         run_bind (readManifest env eventUid eventRevision) (\<lambda>manifest.
         run_bind (cache_manifest key manifest) (\<lambda>_. run_return manifest)) (w, c)))"

definition loadProofShard :: "'w worker_env \<Rightarrow> manifest_entry \<Rightarrow> ('w, shard_entry list) run" where
  "loadProofShard env shardEntry =
     run_bind (run_call (bk_get (we_shards env) (me_r2_key shardEntry))) (\<lambda>object.
     case object of
       None \<Rightarrow> run_throw ShardMissing (''Proof shard is missing: '' @ me_r2_key shardEntry) 500
     | Some bs \<Rightarrow>
       (let txt = utf8_text bs; digest = sha256Hex (we_sha env) (text_bytes txt) in
        if digest \<noteq> me_hash shardEntry
        then run_throw ShardIntegrityMismatch
               (''Proof shard sha256 '' @ digest @ '' does not match manifest '' @ me_hash shardEntry) 500
        else case res_bind (we_json_parse env txt) (\<lambda>parsed.
               case field_of parsed ''entries'' of
                 JArr entries \<Rightarrow> res_map parseShardEntry entries
               | _ \<Rightarrow> Inl ''shard must have entries array'') of
               Inl _ \<Rightarrow> run_throw ShardInvalid (''Proof shard is invalid: '' @ me_r2_key shardEntry) 500
             | Inr entries \<Rightarrow> run_return entries))"

section \<open>Writing it\<close>

definition saveProofArtifacts ::
    "'w worker_env \<Rightarrow> worker_manifest \<Rightarrow> (string \<times> string) list \<Rightarrow> ('w, unit) run" where
  "saveProofArtifacts env manifest serializedShards =
     (let uid = wm_event_uid manifest; revision = wm_event_revision manifest in
      run_bind (run_call (bk_put (we_shards env) (manifestR2Key (we_num env) uid revision)
          (json_text (we_num env) (manifest_json manifest)))) (\<lambda>_.
      run_bind (cache_manifest (manifestCacheKey (we_num env) uid revision) manifest) (\<lambda>_.
      run_each (\<lambda>(shardKey, serialized).
          run_call (bk_put (we_shards env) (shardR2Key (we_num env) uid revision shardKey) serialized))
        serializedShards)))"

section \<open>Walrus\<close>

definition WALRUS_PREFIX :: string where "WALRUS_PREFIX = ''walrus://blob/''"

definition parseWalrusBlobUri :: "string \<Rightarrow> worker_error + string" where
  "parseWalrusBlobUri uri =
     (if \<not> starts_with uri WALRUS_PREFIX
      then Inl (WorkerError InvalidRequest
             (''Invalid Walrus URI: expected walrus://blob/<id>, got '' @ [double_quote] @ uri @ [double_quote]) 400)
      else if length (drop (length WALRUS_PREFIX) uri) = 0
      then Inl (WorkerError InvalidRequest ''Invalid Walrus URI: blob ID must not be empty'' 400)
      else Inr (drop (length WALRUS_PREFIX) uri))"

text \<open>\<open>response.arrayBuffer()\<close>: all the chunks, or the error that ends them.\<close>

definition arrayBuffer :: "fetch_response \<Rightarrow> js_error + bytes" where
  "arrayBuffer response = (case fr_body response of
     NoBody bs \<Rightarrow> Inr bs
   | BodyChunks chunks None \<Rightarrow> Inr (concat chunks)
   | BodyChunks chunks (Some e) \<Rightarrow> Inl e)"

definition fetchWalrusBlob :: "'w worker_env \<Rightarrow> string \<Rightarrow> ('w, bytes) run" where
  "fetchWalrusBlob env uri =
     (if coalesce (we_walrus_url env) [] = []
      then run_throw WalrusFetchFailed ''WALRUS_AGGREGATOR_URL is not configured'' 500
      else run_bind (run_check (parseWalrusBlobUri uri)) (\<lambda>blobId.
        run_bind (run_catch
          (run_call (we_fetch env (coalesce (we_walrus_url env) [] @ ''/v1/blobs/'' @ blobId)))
          (\<lambda>cause. run_throw WalrusFetchFailed (case cause of
             PlainError message \<Rightarrow> ''Walrus fetch failed: '' @ message
           | WorkerError _ message _ \<Rightarrow> ''Walrus fetch failed: '' @ message) 502)) (\<lambda>response.
        if \<not> response_ok response
        then run_throw WalrusFetchFailed
          (''Walrus aggregator returned HTTP '' @ show_int (fr_status response) @ '' for blob '' @ blobId) 502
        else run_plain (arrayBuffer response))))"

section \<open>Checking, proving and storing a file\<close>

record build_params =
  bp_eventUid :: string
  bp_eventRevision :: int
  bp_affectedCellsUri :: string
  bp_affectedCellsHash :: string
  bp_affectedCellsRoot :: string
  bp_affectedCellCount :: int
  bp_geoResolution :: int

definition shardEntryFromLeaf :: "affected_cell_leaf \<Rightarrow> string \<Rightarrow> proof_step list \<Rightarrow> shard_entry" where
  "shardEntryFromLeaf leaf leafHash steps =
     \<lparr>leaf_event_uid = leaf_event_uid leaf, leaf_event_revision = leaf_event_revision leaf,
      leaf_h3_index = leaf_h3_index leaf, leaf_geo_resolution = leaf_geo_resolution leaf,
      leaf_cell_metric = leaf_cell_metric leaf, leaf_intensity_value = leaf_intensity_value leaf,
      leaf_intensity_scale = leaf_intensity_scale leaf, leaf_cell_band = leaf_cell_band leaf,
      leaf_cells_generation_method = leaf_cells_generation_method leaf, leaf_oracle_version = leaf_oracle_version leaf,
      se_leaf_hash = leafHash, se_proof = steps\<rparr>"

text \<open>The checks before the tree, in their order.\<close>

definition checked_file :: "'w worker_env \<Rightarrow> build_params \<Rightarrow> bytes \<Rightarrow> worker_error + affected_cells_input" where
  "checked_file env p bs =
     (let computedHash = sha256Hex (we_sha env) bs in
      if computedHash \<noteq> bp_affectedCellsHash p
      then Inl (WorkerError CellsHashMismatch
             (''SHA-256 mismatch: computed='' @ computedHash @ '', expected='' @ bp_affectedCellsHash p) 400)
      else case res_bind (we_json_parse env (utf8_text bs)) parseAffectedCellsFile of
        Inl message \<Rightarrow> Inl (WorkerError CellsInvalid (''affected_cells file is invalid: '' @ message) 400)
      | Inr inp \<Rightarrow>
        if event_uid inp \<noteq> bp_eventUid p
        then Inl (WorkerError CellsInvalid
               (''event_uid mismatch in file: file='' @ event_uid inp @ '', params='' @ bp_eventUid p) 400)
        else if event_revision inp \<noteq> bp_eventRevision p
        then Inl (WorkerError CellsInvalid
               (''event_revision mismatch in file: file='' @ we_num env (of_int (event_revision inp)) @ '', params=''
                @ we_num env (of_int (bp_eventRevision p))) 400)
        else Inr inp)"

text \<open>The leaves of the file, their hashes and the levels above them.\<close>

definition file_tree :: "hash_fn \<Rightarrow> affected_cells_input \<Rightarrow> js_error + (affected_cell_leaf list \<times> string list \<times> string list list)" where
  "file_tree sha inp =
     res_bind (affectedCellLeavesFromInput inp) (\<lambda>leaves.
     res_bind (res_map (affectedCellLeafHash sha) leaves) (\<lambda>leafHashes.
     res_bind (merkleLevelsFromLeafHashes sha leafHashes) (\<lambda>levels. Inr (leaves, leafHashes, levels))))"

definition SINGLE_SHARD_KEY :: string where "SINGLE_SHARD_KEY = ''0''"

definition file_entries :: "affected_cell_leaf list \<Rightarrow> string list \<Rightarrow> string list list \<Rightarrow> worker_error + shard_entry list" where
  "file_entries leaves leafHashes levels =
     res_map (\<lambda>(i, leaf).
       if i < length leafHashes
       then (case proofStepsFromLevels levels (int i) of
          Inl e \<Rightarrow> Inl (PlainError e)
        | Inr steps \<Rightarrow> Inr (shardEntryFromLeaf leaf (leafHashes ! i) steps))
       else Inl (WorkerError InternalError (''Leaf hash not found at index '' @ show_nat i) 500))
       (List.enumerate 0 leaves)"

definition built_manifest :: "'w worker_env \<Rightarrow> build_params \<Rightarrow> (string \<times> shard_entry list) list \<Rightarrow> (string \<times> string) list
    \<Rightarrow> worker_error + worker_manifest" where
  "built_manifest env p shardEntriesMap serializedShards =
     res_bind (res_map (\<lambda>(shardKey, shardEntries).
         case map_of serializedShards shardKey of
           None \<Rightarrow> Inl (WorkerError InternalError (''Serialized shard not found for shard key: '' @ shardKey) 500)
         | Some serialized \<Rightarrow> Inr
            \<lparr>me_shard_key = shardKey, me_r2_key = shardR2Key (we_num env) (bp_eventUid p) (bp_eventRevision p) shardKey,
             me_hash = sha256Hex (we_sha env) (text_bytes serialized), me_cell_count = int (length shardEntries)\<rparr>)
         shardEntriesMap) (\<lambda>shards.
       Inr \<lparr>wm_schema_version = 1, wm_event_uid = bp_eventUid p, wm_event_revision = bp_eventRevision p,
            wm_affected_cells_uri = bp_affectedCellsUri p, wm_affected_cells_hash = bp_affectedCellsHash p,
            wm_affected_cells_root = bp_affectedCellsRoot p, wm_affected_cell_count = bp_affectedCellCount p,
            wm_geo_resolution = bp_geoResolution p, wm_shards = shards\<rparr>)"

definition buildAndSaveProofArtifacts ::
    "'w worker_env \<Rightarrow> build_params \<Rightarrow> bytes \<Rightarrow> ('w, worker_manifest \<times> (string \<times> shard_entry list) list) run" where
  "buildAndSaveProofArtifacts env p bs =
     run_bind (run_check (checked_file env p bs)) (\<lambda>inp.
     run_bind (run_plain (file_tree (we_sha env) inp)) (\<lambda>(leaves, leafHashes, levels).
     case last levels of
       [] \<Rightarrow> run_throw InternalError ''Merkle tree produced an empty root level'' 500
     | computedRoot # _ \<Rightarrow>
       run_bind (run_require (computedRoot = bp_affectedCellsRoot p) CellsRootMismatch
         (''Merkle root mismatch: computed='' @ computedRoot @ '', expected='' @ bp_affectedCellsRoot p) 400) (\<lambda>_.
       run_bind (run_check (file_entries leaves leafHashes levels)) (\<lambda>entries.
       let shardEntriesMap = [(SINGLE_SHARD_KEY, entries)];
           serializedShards = map (\<lambda>(shardKey, shardEntries). (shardKey, serializeShardEntries (we_num env) shardEntries))
             shardEntriesMap in
       run_bind (run_check (built_manifest env p shardEntriesMap serializedShards)) (\<lambda>manifest.
       run_bind (saveProofArtifacts env manifest serializedShards) (\<lambda>_.
         run_return (manifest, shardEntriesMap)))))))"

section \<open>How runs end\<close>

named_theorems run_results \<open>inversions of runs that return\<close>

lemma run_prim_results [run_results]:
  "run_return x s = (r, s') \<longleftrightarrow> r = Inr x \<and> s' = s"
  "run_throw code message status s = (r, s') \<longleftrightarrow> r = Inl (WorkerError code message status) \<and> s' = s"
  "run_rethrow e s = (r, s') \<longleftrightarrow> r = Inl e \<and> s' = s"
  "run_check c s = (r, s') \<longleftrightarrow> c = r \<and> s' = s"
  "run_plain q s = (Inr x, s') \<longleftrightarrow> q = Inr x \<and> s' = s"
  "run_require b code message status s = (Inr u, s') \<longleftrightarrow> b \<and> s' = s"
  by (auto simp: run_return_def run_throw_def run_rethrow_def run_check_def run_plain_def run_require_def split: sum.splits)

lemma run_bind_Inr [run_results]:
  "run_bind m f s = (Inr y, s') \<longleftrightarrow> (\<exists>x s1. m s = (Inr x, s1) \<and> f x s1 = (Inr y, s'))"
  by (auto simp: run_bind_def split: prod.splits sum.splits)

lemma run_call_Inr [run_results]:
  "run_call m s = (Inr x, s') \<longleftrightarrow> m (fst s) = (Inr x, fst s') \<and> snd s' = snd s"
  by (cases s; cases s') (auto simp: run_call_def split: prod.splits sum.splits)

lemma run_bind_cases:
  assumes "run_bind m f s = (r, s')"
  obtains (threw) e where "m s = (Inl e, s')" "r = Inl e"
    | (returned) x s1 where "m s = (Inr x, s1)" "f x s1 = (r, s')"
  using assms by (auto simp: run_bind_def split: prod.splits sum.splits)

lemma run_catch_cases:
  assumes "run_catch m h s = (r, s')"
  obtains (threw) e s1 where "m s = (Inl e, s1)" "h e s1 = (r, s')"
    | (returned) x where "m s = (Inr x, s')" "r = Inr x"
  using assms by (auto simp: run_catch_def split: prod.splits sum.splits)

text \<open>The steps of a run whose outcome is known.\<close>

lemma run_bind_eval: "m s = (Inr x, s1) \<Longrightarrow> run_bind m f s = f x s1"
  by (simp add: run_bind_def)

lemma run_prim_evals [simp]:
  "run_return x s = (Inr x, s)" "run_check (Inr x) s = (Inr x, s)" "run_plain (Inr x) s = (Inr x, s)"
  "run_require True code message status s = (Inr (), s)"
  by (simp_all add: run_return_def run_check_def run_plain_def run_require_def)

section \<open>What a run keeps of the world\<close>

definition run_keeps :: "('w \<Rightarrow> bool) \<Rightarrow> ('w, 'a) run \<Rightarrow> bool" where
  "run_keeps P m \<longleftrightarrow> (\<forall>s r s'. m s = (r, s') \<longrightarrow> P (fst s) \<longrightarrow> P (fst s'))"

named_theorems run_keeps_intros \<open>rules for what a run keeps\<close>

lemma run_keepsD: "run_keeps P m \<Longrightarrow> m s = (r, s') \<Longrightarrow> P (fst s) \<Longrightarrow> P (fst s')"
  unfolding run_keeps_def by blast

lemma run_keeps_prims [run_keeps_intros]:
  "run_keeps P (run_return x)" "run_keeps P (run_throw code message status)" "run_keeps P (run_rethrow e)"
  "run_keeps P (run_check c)" "run_keeps P (run_plain q)" "run_keeps P (run_require b code message status)"
  "run_keeps P (cache_manifest key m)"
  by (auto simp: run_keeps_def run_return_def run_throw_def run_rethrow_def run_check_def run_plain_def run_require_def
      cache_manifest_def split: sum.splits if_splits)

lemma run_keeps_call [run_keeps_intros]: "keeps P m \<Longrightarrow> run_keeps P (run_call m)"
  by (auto simp: run_keeps_def run_call_def dest: keepsD split: prod.splits sum.splits)

lemma run_keeps_bind [run_keeps_intros]: "run_keeps P m \<Longrightarrow> (\<And>x. run_keeps P (f x)) \<Longrightarrow> run_keeps P (run_bind m f)"
  unfolding run_keeps_def [of P "run_bind m f"] by (intro allI impI, erule run_bind_cases) (blast dest: run_keepsD)+

lemma run_keeps_catch [run_keeps_intros]: "run_keeps P m \<Longrightarrow> (\<And>e. run_keeps P (h e)) \<Longrightarrow> run_keeps P (run_catch m h)"
  unfolding run_keeps_def [of P "run_catch m h"] by (intro allI impI, erule run_catch_cases) (blast dest: run_keepsD)+

lemma run_keeps_if [run_keeps_intros]: "run_keeps P m \<Longrightarrow> run_keeps P n \<Longrightarrow> run_keeps P (if b then m else n)"
  by simp

lemma run_keeps_option [run_keeps_intros]:
  "run_keeps P m \<Longrightarrow> (\<And>v. run_keeps P (f v)) \<Longrightarrow> run_keeps P (case x of None \<Rightarrow> m | Some v \<Rightarrow> f v)"
  by (cases x) auto

lemma run_keeps_sum [run_keeps_intros]:
  "(\<And>e. run_keeps P (g e)) \<Longrightarrow> (\<And>v. run_keeps P (f v)) \<Longrightarrow> run_keeps P (case x of Inl e \<Rightarrow> g e | Inr v \<Rightarrow> f v)"
  by (cases x) auto

lemma run_keeps_prod [run_keeps_intros]: "(\<And>a b. run_keeps P (f a b)) \<Longrightarrow> run_keeps P (case x of (a, b) \<Rightarrow> f a b)"
  by (cases x) auto

lemma run_keeps_let [run_keeps_intros]: "run_keeps P (f v) \<Longrightarrow> run_keeps P (let x = v in f x)"
  by simp

section \<open>Errors are not answers\<close>

text \<open>Whatever is thrown has another status than 200.\<close>

definition error_status :: "worker_error \<Rightarrow> int" where
  "error_status e = (case e of WorkerError _ _ status \<Rightarrow> status | PlainError _ \<Rightarrow> 500)"

definition throws_errors :: "('w, 'a) run \<Rightarrow> bool" where
  "throws_errors m \<longleftrightarrow> (\<forall>s e s'. m s = (Inl e, s') \<longrightarrow> error_status e \<noteq> 200)"

named_theorems throws_intros \<open>rules for what a run throws\<close>

lemma throws_errorsD: "throws_errors m \<Longrightarrow> m s = (Inl e, s') \<Longrightarrow> error_status e \<noteq> 200"
  unfolding throws_errors_def by blast

lemma throws_prims [throws_intros]:
  "throws_errors (run_return x)" "status \<noteq> 200 \<Longrightarrow> throws_errors (run_throw code message status)"
  "error_status e \<noteq> 200 \<Longrightarrow> throws_errors (run_rethrow e)" "throws_errors (run_plain q)" "throws_errors (run_call m)"
  "status \<noteq> 200 \<Longrightarrow> throws_errors (run_require b code message status)" "throws_errors (cache_manifest key m')"
  by (auto simp: throws_errors_def error_status_def run_return_def run_throw_def run_rethrow_def run_plain_def run_call_def
      run_require_def cache_manifest_def split: sum.splits prod.splits if_splits)

lemma throws_check [throws_intros]: "(\<And>e. c = Inl e \<Longrightarrow> error_status e \<noteq> 200) \<Longrightarrow> throws_errors (run_check c)"
  by (auto simp: throws_errors_def run_check_def)

lemma throws_bind [throws_intros]:
  "throws_errors m \<Longrightarrow> (\<And>x. throws_errors (f x)) \<Longrightarrow> throws_errors (run_bind m f)"
  unfolding throws_errors_def [of "run_bind m f"] by (intro allI impI, erule run_bind_cases) (blast dest: throws_errorsD)+

lemma throws_catch [throws_intros]: "(\<And>e. error_status e \<noteq> 200 \<Longrightarrow> throws_errors (h e)) \<Longrightarrow> throws_errors m \<Longrightarrow> throws_errors (run_catch m h)"
  unfolding throws_errors_def [of "run_catch m h"] by (intro allI impI, erule run_catch_cases) (blast dest: throws_errorsD)+

lemma throws_if [throws_intros]: "throws_errors m \<Longrightarrow> throws_errors n \<Longrightarrow> throws_errors (if b then m else n)"
  by simp

lemma throws_option [throws_intros]:
  "throws_errors m \<Longrightarrow> (\<And>v. throws_errors (f v)) \<Longrightarrow> throws_errors (case x of None \<Rightarrow> m | Some v \<Rightarrow> f v)"
  by (cases x) auto

lemma throws_sum [throws_intros]:
  "(\<And>e. throws_errors (g e)) \<Longrightarrow> (\<And>v. throws_errors (f v)) \<Longrightarrow> throws_errors (case x of Inl e \<Rightarrow> g e | Inr v \<Rightarrow> f v)"
  by (cases x) auto

lemma throws_prod [throws_intros]: "(\<And>a b. throws_errors (f a b)) \<Longrightarrow> throws_errors (case x of (a, b) \<Rightarrow> f a b)"
  by (cases x) auto

lemma throws_let [throws_intros]: "throws_errors (f v) \<Longrightarrow> throws_errors (let x = v in f x)"
  by simp

end
