(* ===== verification/ProofWorker.thy ===== *)
theory ProofWorker
  imports WorkerStore
begin

text \<open>
  The two requests of the proof service, \<open>packages/affected-cells-proof-worker/src\<close>: registering the file of an event's
  revision (\<open>register.ts\<close>), which also starts the workflow that draws the affected area
  (\<open>affected_area_workflow_trigger.ts\<close>, \<open>affected_area_workflow_input.ts\<close>), the proof of a cell (\<open>http.ts\<close>), and the
  dispatch of a request to them (\<open>index.ts\<close>).

  A request has its parsed address, its headers with lower-case names, and the value or the error of \<open>request.json()\<close>.
\<close>

section \<open>Requests and routes\<close>

record worker_request =
  wq_method :: string
  wq_url :: url
  wq_headers :: "(string \<times> string) list"
  wq_json :: "js_error + js_value"

text \<open>The pattern \<open>^/events/([^/]+)/revisions/([0-9]+)/tail/?$\<close> and its two groups.\<close>

definition match_route :: "string \<Rightarrow> string \<Rightarrow> (string \<times> string) option" where
  "match_route last_part pathname =
     (case split_str pathname ''/'' of
        first # events # uid # revisions # digits # tail # rest \<Rightarrow>
          if first = [] \<and> events = ''events'' \<and> uid \<noteq> [] \<and> revisions = ''revisions'' \<and> digits \<noteq> [] \<and> list_all is_digit digits
             \<and> tail = last_part \<and> (rest = [] \<or> rest = [[]])
          then Some (uid, digits) else None
      | _ \<Rightarrow> None)"

definition path_params :: "string \<Rightarrow> string \<Rightarrow> worker_error + string \<times> int" where
  "path_params last_part pathname =
     (case match_route last_part pathname of
        None \<Rightarrow> Inl (WorkerError RouteNotFound (''Route not found: '' @ pathname) 404)
      | Some (uid, digits) \<Rightarrow>
        (case parseInt10 digits of
           Some n \<Rightarrow> if n < 1 then Inl (WorkerError InvalidRequest (''event_revision must be a positive integer, got '' @ digits) 400)
                     else Inr (uid, n)
         | None \<Rightarrow> Inl (WorkerError InvalidRequest (''event_revision must be a positive integer, got '' @ digits) 400)))"

definition parsePathParams :: "worker_request \<Rightarrow> worker_error + string \<times> int" where
  "parsePathParams req = path_params ''affected-cells'' (url_pathname (wq_url req))"

definition parseRequestParams :: "worker_request \<Rightarrow> worker_error + string \<times> int \<times> string" where
  "parseRequestParams req =
     res_bind (path_params ''proof'' (url_pathname (wq_url req))) (\<lambda>(uid, revision).
       let h3IndexStr = coalesce (map_of (url_params (wq_url req)) ''h3_index'') [] in
       if h3IndexStr = [] then Inl (WorkerError InvalidRequest ''h3_index query parameter is required'' 400)
       else Inr (uid, revision, h3IndexStr))"

section \<open>The body of a registration\<close>

record register_body =
  rb_event_uid :: string
  rb_event_revision :: int
  rb_affected_cells_hash :: string
  rb_affected_cells_root :: string
  rb_affected_cell_count :: int
  rb_geo_resolution :: int
  rb_affected_cells_uri :: string

definition invalid :: "string \<Rightarrow> worker_error + 'a" where
  "invalid message = Inl (WorkerError InvalidRequest message 400)"

definition validatePrefixedHex32 :: "string \<Rightarrow> js_value \<Rightarrow> worker_error + string" where
  "validatePrefixedHex32 name v =
     (case v of
        JStr s \<Rightarrow> if \<not> is_prefixed_hex32 s
                  then invalid (name @ '' must be 0x-prefixed lowercase 64-char hex, got '' @ [double_quote] @ s @ [double_quote])
                  else Inr s
      | _ \<Rightarrow> invalid (name @ '' must be a string''))"

definition js_integer :: "js_value \<Rightarrow> int option" where
  "js_integer v = (case v of JNum q \<Rightarrow> if of_int \<lfloor>q\<rfloor> = q then Some \<lfloor>q\<rfloor> else None | _ \<Rightarrow> None)"

definition validatePositiveInteger :: "(rat \<Rightarrow> string) \<Rightarrow> string \<Rightarrow> js_value \<Rightarrow> worker_error + int" where
  "validatePositiveInteger num name v =
     (case js_integer v of
        Some n \<Rightarrow> if n < 1 then invalid (name @ '' must be a positive integer, got '' @ js_string num v) else Inr n
      | None \<Rightarrow> invalid (name @ '' must be a positive integer, got '' @ js_string num v))"

definition validateNonNegativeInteger :: "(rat \<Rightarrow> string) \<Rightarrow> string \<Rightarrow> js_value \<Rightarrow> worker_error + int" where
  "validateNonNegativeInteger num name v =
     (case js_integer v of
        Some n \<Rightarrow> if n < 0 then invalid (name @ '' must be a non-negative integer, got '' @ js_string num v) else Inr n
      | None \<Rightarrow> invalid (name @ '' must be a non-negative integer, got '' @ js_string num v))"

definition validateWalrusUri :: "string \<Rightarrow> js_value \<Rightarrow> worker_error + string" where
  "validateWalrusUri name v =
     (case v of
        JStr s \<Rightarrow>
          if \<not> starts_with s WALRUS_PREFIX
          then invalid (name @ '' must start with walrus://blob/, got '' @ [double_quote] @ s @ [double_quote])
          else if length (drop (length WALRUS_PREFIX) s) = 0 then invalid (name @ '' blob ID must not be empty'')
          else Inr s
      | _ \<Rightarrow> invalid (name @ '' must be a string''))"

text \<open>\<open>typeof raw !== "object" || raw === null\<close>: an array passes, and then has none of the fields.\<close>

definition is_object :: "js_value \<Rightarrow> bool" where
  "is_object v = (case v of JObj _ \<Rightarrow> True | JArr _ \<Rightarrow> True | _ \<Rightarrow> False)"

definition geo_config :: "'w worker_env \<Rightarrow> js_value" where
  "geo_config env = we_number env (coalesce (we_geo_resolution env) ''7'')"

definition parseRequestBody :: "worker_request \<Rightarrow> 'w worker_env \<Rightarrow> worker_error + register_body" where
  "parseRequestBody req env =
     (case wq_json req of
        Inl _ \<Rightarrow> invalid ''Request body is not valid JSON''
      | Inr raw \<Rightarrow>
        if \<not> is_object raw then invalid ''Request body must be a JSON object''
        else
          res_bind (validatePrefixedHex32 ''event_uid'' (field_of raw ''event_uid'')) (\<lambda>uid.
          res_bind (validatePositiveInteger (we_num env) ''event_revision'' (field_of raw ''event_revision'')) (\<lambda>revision.
          res_bind (validatePrefixedHex32 ''affected_cells_hash'' (field_of raw ''affected_cells_hash'')) (\<lambda>hash.
          res_bind (validatePrefixedHex32 ''affected_cells_root'' (field_of raw ''affected_cells_root'')) (\<lambda>root'.
          res_bind (validatePositiveInteger (we_num env) ''affected_cell_count'' (field_of raw ''affected_cell_count'')) (\<lambda>count'.
          res_bind (validateNonNegativeInteger (we_num env) ''geo_resolution'' (field_of raw ''geo_resolution'')) (\<lambda>geo.
          if jint geo \<noteq> geo_config env
          then invalid (''geo_resolution mismatch: body='' @ we_num env (of_int geo) @ '', config=''
            @ js_string (we_num env) (geo_config env))
          else
          res_bind (validateWalrusUri ''affected_cells_uri'' (field_of raw ''affected_cells_uri'')) (\<lambda>uri.
            Inr \<lparr>rb_event_uid = uid, rb_event_revision = revision, rb_affected_cells_hash = hash,
                 rb_affected_cells_root = root', rb_affected_cell_count = count', rb_geo_resolution = geo,
                 rb_affected_cells_uri = uri\<rparr>))))))))"

section \<open>Starting the workflow\<close>

definition body_json :: "register_body \<Rightarrow> js_value" where
  "body_json b = JObj
     [(''event_uid'', JStr (rb_event_uid b)), (''event_revision'', jint (rb_event_revision b)),
      (''affected_cells_hash'', JStr (rb_affected_cells_hash b)), (''affected_cells_root'', JStr (rb_affected_cells_root b)),
      (''affected_cell_count'', jint (rb_affected_cell_count b)), (''geo_resolution'', jint (rb_geo_resolution b)),
      (''affected_cells_uri'', JStr (rb_affected_cells_uri b))]"

definition expectWalrusBlobUri :: "string \<Rightarrow> js_value \<Rightarrow> js_error + string" where
  "expectWalrusBlobUri name v =
     res_bind (expectString name v) (\<lambda>uri.
       if \<not> (starts_with uri WALRUS_PREFIX \<and> drop (length WALRUS_PREFIX) uri \<noteq> []
             \<and> CHR ''/'' \<notin> set (drop (length WALRUS_PREFIX) uri))
       then Inl (name @ '' must be a walrus://blob/<blob-id> URI'') else Inr uri)"

definition validateAffectedAreaWorkflowInput :: "js_value \<Rightarrow> js_error + register_body" where
  "validateAffectedAreaWorkflowInput v =
     res_bind (expectRecord ''affected-area workflow input'' v) (\<lambda>record'.
     res_bind (expectNonNegativeSafeInteger ''geo_resolution'' (get_field record' ''geo_resolution'')) (\<lambda>geo.
     if geo \<noteq> 7 then Inl (''geo_resolution must be 7, got '' @ show_int geo) else
     res_bind (expectPrefixedHex32 ''event_uid'' (get_field record' ''event_uid'')) (\<lambda>uid.
     res_bind (expectPositiveSafeInteger ''event_revision'' (get_field record' ''event_revision'')) (\<lambda>revision.
     res_bind (expectPrefixedHex32 ''affected_cells_hash'' (get_field record' ''affected_cells_hash'')) (\<lambda>hash.
     res_bind (expectPrefixedHex32 ''affected_cells_root'' (get_field record' ''affected_cells_root'')) (\<lambda>root'.
     res_bind (expectPositiveSafeInteger ''affected_cell_count'' (get_field record' ''affected_cell_count'')) (\<lambda>count'.
     res_bind (expectWalrusBlobUri ''affected_cells_uri'' (get_field record' ''affected_cells_uri'')) (\<lambda>uri.
       Inr \<lparr>rb_event_uid = uid, rb_event_revision = revision, rb_affected_cells_hash = hash,
            rb_affected_cells_root = root', rb_affected_cell_count = count', rb_geo_resolution = 7,
            rb_affected_cells_uri = uri\<rparr>))))))))"

definition affectedAreaObjectPrefix :: "(rat \<Rightarrow> string) \<Rightarrow> string \<Rightarrow> int \<Rightarrow> string" where
  "affectedAreaObjectPrefix num eventUid eventRevision =
     ''affected-area/events/'' @ eventUid @ ''/revisions/'' @ num (of_int eventRevision)"

definition affectedAreaManifestR2Key :: "(rat \<Rightarrow> string) \<Rightarrow> string \<Rightarrow> int \<Rightarrow> string" where
  "affectedAreaManifestR2Key num eventUid eventRevision =
     affectedAreaObjectPrefix num eventUid eventRevision @ ''/affected-area-manifest.json''"

definition affectedAreaWorkflowInstanceId :: "'w worker_env \<Rightarrow> register_body \<Rightarrow> string" where
  "affectedAreaWorkflowInstanceId env b =
     (let digest = take 32 (drop 2 (sha256Hex (we_sha env) (text_bytes
        (''event_uid='' @ rb_event_uid b @ [CHR 0x0A] @ ''event_revision='' @ we_num env (of_int (rb_event_revision b))
         @ [CHR 0x0A] @ ''affected_cells_root='' @ rb_affected_cells_root b)))) in
      ''affected-area-r'' @ we_num env (of_int (rb_event_revision b)) @ ''-'' @ digest)"

datatype start_action = ManifestExists | Created | AlreadyRunning | Restarted

definition affectedAreaManifestExists :: "'w worker_env \<Rightarrow> register_body \<Rightarrow> ('w, bool) run" where
  "affectedAreaManifestExists env b =
     run_bind (run_call (we_area_get env (affectedAreaManifestR2Key (we_num env) (rb_event_uid b) (rb_event_revision b))))
       (\<lambda>object. run_return (object \<noteq> None))"

definition shouldRestart :: "string \<Rightarrow> bool" where
  "shouldRestart status \<longleftrightarrow> status = ''errored'' \<or> status = ''terminated''"

definition startAffectedAreaArtifactWorkflow :: "'w worker_env \<Rightarrow> register_body \<Rightarrow> ('w, string \<times> start_action) run" where
  "startAffectedAreaArtifactWorkflow env b =
     (let workflowId = affectedAreaWorkflowInstanceId env b in
      run_bind (affectedAreaManifestExists env b) (\<lambda>exists.
      if exists then run_return (workflowId, ManifestExists)
      else run_bind (run_call (we_create_batch env workflowId (body_json b))) (\<lambda>created.
      if length created > 0 then run_return (workflowId, Created)
      else run_bind (run_call (we_get_instance env workflowId)) (\<lambda>inst.
      run_bind (run_call (we_instance_status env inst)) (\<lambda>status.
      if shouldRestart status
      then run_bind (run_call (we_instance_restart env inst)) (\<lambda>_. run_return (workflowId, Restarted))
      else run_return (workflowId, AlreadyRunning))))))"

section \<open>Registering\<close>

definition tryLoadExistingManifest :: "'w worker_env \<Rightarrow> string \<Rightarrow> int \<Rightarrow> ('w, worker_manifest option) run" where
  "tryLoadExistingManifest env eventUid eventRevision =
     run_catch (run_bind (loadProofManifest env eventUid eventRevision) (\<lambda>m. run_return (Some m))) (\<lambda>_. run_return None)"

definition metadata_mismatches :: "worker_manifest \<Rightarrow> register_body \<Rightarrow> string list" where
  "metadata_mismatches m b =
     (if wm_affected_cells_hash m = rb_affected_cells_hash b then [] else [''affected_cells_hash''])
     @ (if wm_affected_cells_uri m = rb_affected_cells_uri b then [] else [''affected_cells_uri''])
     @ (if wm_affected_cell_count m = rb_affected_cell_count b then [] else [''affected_cell_count''])
     @ (if wm_geo_resolution m = rb_geo_resolution b then [] else [''geo_resolution''])"

definition assertExistingManifestMetadataMatches :: "worker_manifest \<Rightarrow> register_body \<Rightarrow> worker_error + unit" where
  "assertExistingManifestMetadataMatches m b =
     (if metadata_mismatches m b \<noteq> []
      then Inl (WorkerError CellsRootMismatch
        (''Existing manifest has same root but different metadata: '' @ join_with '', '' (metadata_mismatches m b)) 409)
      else Inr ())"

definition registered_json :: "register_body \<Rightarrow> worker_manifest \<Rightarrow> bool \<Rightarrow> js_value" where
  "registered_json b m stored = JObj
     [(''event_uid'', JStr (rb_event_uid b)), (''event_revision'', jint (rb_event_revision b)),
      (''affected_cells_root'', JStr (rb_affected_cells_root b)), (''shard_count'', jint (int (length (wm_shards m)))),
      (''stored'', JBool stored)]"

definition body_params :: "register_body \<Rightarrow> build_params" where
  "body_params b = \<lparr>bp_eventUid = rb_event_uid b, bp_eventRevision = rb_event_revision b,
     bp_affectedCellsUri = rb_affected_cells_uri b, bp_affectedCellsHash = rb_affected_cells_hash b,
     bp_affectedCellsRoot = rb_affected_cells_root b, bp_affectedCellCount = rb_affected_cell_count b,
     bp_geoResolution = rb_geo_resolution b\<rparr>"

text \<open>The token, the path, the body and their agreement.\<close>

definition accepted_request :: "worker_request \<Rightarrow> 'w worker_env \<Rightarrow> worker_error + register_body" where
  "accepted_request req env =
     res_bind (verifyRegisterToken (wq_headers req) (we_register_token env)) (\<lambda>_.
     res_bind (parsePathParams req) (\<lambda>(pathEventUid, pathEventRevision).
     res_bind (parseRequestBody req env) (\<lambda>body.
     if rb_event_uid body \<noteq> pathEventUid
     then invalid (''event_uid mismatch: path='' @ pathEventUid @ '', body='' @ rb_event_uid body)
     else if rb_event_revision body \<noteq> pathEventRevision
     then invalid (''event_revision mismatch: path='' @ we_num env (of_int pathEventRevision) @ '', body=''
       @ we_num env (of_int (rb_event_revision body)))
     else Inr body)))"

text \<open>What is done when there is a manifest already, and when there is none.\<close>

definition register_again :: "'w worker_env \<Rightarrow> register_body \<Rightarrow> worker_manifest \<Rightarrow> ('w, worker_response) run" where
  "register_again env body existing =
     (if wm_affected_cells_root existing = rb_affected_cells_root body
      then run_bind (run_check (assertExistingManifestMetadataMatches existing body)) (\<lambda>_.
        run_bind (startAffectedAreaArtifactWorkflow env body) (\<lambda>_.
          run_return (jsonResponse (registered_json body existing False) 200)))
      else run_throw CellsRootMismatch ''Existing manifest has different root. Cannot overwrite.'' 409)"

definition register_new :: "'w worker_env \<Rightarrow> register_body \<Rightarrow> ('w, worker_response) run" where
  "register_new env body =
     run_bind (fetchWalrusBlob env (rb_affected_cells_uri body)) (\<lambda>bs.
     run_bind (buildAndSaveProofArtifacts env (body_params body) bs) (\<lambda>(manifest, _).
     run_bind (startAffectedAreaArtifactWorkflow env body) (\<lambda>_.
       run_return (jsonResponse (registered_json body manifest True) 200))))"

definition handleRegisterRequestUnchecked :: "worker_request \<Rightarrow> 'w worker_env \<Rightarrow> ('w, worker_response) run" where
  "handleRegisterRequestUnchecked req env =
     run_bind (run_check (accepted_request req env)) (\<lambda>body.
     run_bind (tryLoadExistingManifest env (rb_event_uid body) (rb_event_revision body)) (\<lambda>existing.
     case existing of
       Some m \<Rightarrow> register_again env body m
     | None \<Rightarrow> register_new env body))"

definition handleRegisterRequest :: "worker_request \<Rightarrow> 'w worker_env \<Rightarrow> ('w, worker_response) run" where
  "handleRegisterRequest req env =
     run_catch (handleRegisterRequestUnchecked req env) (\<lambda>e. run_return (handler_error e))"

section \<open>Serving a proof\<close>

definition parse_requested_index :: "'w worker_env \<Rightarrow> string \<Rightarrow> worker_error + int" where
  "parse_requested_index env h3IndexStr =
     (let config = geo_config env;
          parsed = (case js_integer config of
            Some r \<Rightarrow> parseH3Index h3IndexStr r
          | None \<Rightarrow> Inl (''expected resolution must be between 0 and 15: '' @ js_string (we_num env) config)) in
      case parsed of
        Inl message \<Rightarrow> invalid (''Invalid h3_index: '' @ message)
      | Inr i \<Rightarrow> Inr (h3_value i))"

definition load_served_manifest :: "'w worker_env \<Rightarrow> string \<Rightarrow> int \<Rightarrow> ('w, worker_manifest) run" where
  "load_served_manifest env eventUid eventRevision =
     run_catch (loadProofManifest env eventUid eventRevision) (\<lambda>e. case e of
       WorkerError ManifestMissing _ _ \<Rightarrow> run_throw ManifestMissing
         (''Proof manifest not found for event '' @ eventUid @ '' revision '' @ we_num env (of_int eventRevision)) 404
     | _ \<Rightarrow> run_rethrow e)"

definition manifest_params :: "worker_manifest \<Rightarrow> build_params" where
  "manifest_params m = \<lparr>bp_eventUid = wm_event_uid m, bp_eventRevision = wm_event_revision m,
     bp_affectedCellsUri = wm_affected_cells_uri m, bp_affectedCellsHash = wm_affected_cells_hash m,
     bp_affectedCellsRoot = wm_affected_cells_root m, bp_affectedCellCount = wm_affected_cell_count m,
     bp_geoResolution = wm_geo_resolution m\<rparr>"

definition regenerateFromWalrus :: "'w worker_env \<Rightarrow> worker_manifest \<Rightarrow> int \<Rightarrow> ('w, shard_entry list) run" where
  "regenerateFromWalrus env m targetShardId =
     run_bind (fetchWalrusBlob env (wm_affected_cells_uri m)) (\<lambda>bs.
     run_bind (buildAndSaveProofArtifacts env (manifest_params m) bs) (\<lambda>(_, shardEntriesMap).
       run_return (coalesce (map_of shardEntriesMap (show_int targetShardId)) [])))"

definition loadShardEntries :: "'w worker_env \<Rightarrow> worker_manifest \<Rightarrow> manifest_entry option \<Rightarrow> int \<Rightarrow> ('w, shard_entry list) run" where
  "loadShardEntries env m shardEntry targetShardId =
     (case shardEntry of
        None \<Rightarrow> regenerateFromWalrus env m targetShardId
      | Some entry \<Rightarrow>
        run_catch (loadProofShard env entry) (\<lambda>e. case e of
          WorkerError code _ _ \<Rightarrow>
            if code \<in> {ShardMissing, ShardIntegrityMismatch, ShardInvalid} then regenerateFromWalrus env m targetShardId
            else run_rethrow e
        | PlainError _ \<Rightarrow> run_rethrow e))"

definition verifyEntryIntegrity :: "hash_fn \<Rightarrow> shard_entry \<Rightarrow> string \<Rightarrow> worker_error + unit" where
  "verifyEntryIntegrity sha entry expectedRoot =
     (case affectedCellLeafHash sha (entry_leaf entry) of
        Inl e \<Rightarrow> Inl (PlainError e)
      | Inr recomputedLeafHash \<Rightarrow>
        if recomputedLeafHash \<noteq> se_leaf_hash entry
        then Inl (WorkerError ShardInvalid
               (''leaf_hash mismatch: computed='' @ recomputedLeafHash @ '', stored='' @ se_leaf_hash entry) 500)
        else case replayProof sha (se_leaf_hash entry) (se_proof entry) of
          Inl e \<Rightarrow> Inl (PlainError e)
        | Inr replayedRoot \<Rightarrow>
          if replayedRoot \<noteq> expectedRoot
          then Inl (WorkerError ShardInvalid
                 (''proof replay root mismatch: replayed='' @ replayedRoot @ '', expected='' @ expectedRoot) 500)
          else Inr ())"

definition SHARD_COUNT :: int where "SHARD_COUNT = 1"

definition handleProofRequestUnchecked :: "worker_request \<Rightarrow> 'w worker_env \<Rightarrow> ('w, worker_response) run" where
  "handleProofRequestUnchecked req env =
     run_bind (run_check (parseRequestParams req)) (\<lambda>(eventUid, eventRevision, h3IndexStr).
     run_bind (run_check (parse_requested_index env h3IndexStr)) (\<lambda>h3Index.
     run_bind (load_served_manifest env eventUid eventRevision) (\<lambda>manifest.
     run_bind (run_plain (proofShardId (we_sha env) h3Index SHARD_COUNT)) (\<lambda>shardId.
     let shardEntry = List.find (\<lambda>s. me_shard_key s = show_int shardId) (wm_shards manifest) in
     run_bind (loadShardEntries env manifest shardEntry shardId) (\<lambda>entries.
     case findShardEntry entries h3Index of
       None \<Rightarrow> run_throw CellNotInEvent
         (''h3_index '' @ h3IndexStr @ '' is not in event '' @ eventUid @ '' revision '' @ we_num env (of_int eventRevision)) 404
     | Some entry \<Rightarrow>
       run_bind (run_check (verifyEntryIntegrity (we_sha env) entry (wm_affected_cells_root manifest))) (\<lambda>_.
         run_return (jsonResponse (serializeResponse (shapeProofResponse entry manifest)) 200)))))))"

definition handleProofRequest :: "worker_request \<Rightarrow> 'w worker_env \<Rightarrow> ('w, worker_response) run" where
  "handleProofRequest req env =
     run_catch (handleProofRequestUnchecked req env) (\<lambda>e. run_return (handler_error e))"

section \<open>Dispatch\<close>

definition dispatchRequest :: "worker_request \<Rightarrow> 'w worker_env \<Rightarrow> ('w, worker_response) run" where
  "dispatchRequest req env =
     (let pathname = url_pathname (wq_url req) in
      if match_route ''affected-cells'' pathname \<noteq> None
      then if wq_method req = ''POST'' then handleRegisterRequest req env
           else run_throw MethodNotAllowed (''Method '' @ wq_method req @ '' is not allowed. Use POST.'') 405
      else if match_route ''proof'' pathname \<noteq> None
      then if wq_method req = ''GET'' then handleProofRequest req env
           else run_throw MethodNotAllowed (''Method '' @ wq_method req @ '' is not allowed. Use GET.'') 405
      else run_throw RouteNotFound (''Not found: '' @ pathname) 404)"

definition worker_fetch :: "worker_request \<Rightarrow> 'w worker_env \<Rightarrow> ('w, worker_response) run" where
  "worker_fetch req env =
     run_catch (dispatchRequest req env) (\<lambda>e. run_return (toAffectedCellsProofError e))"

end
