(* ===== verification/ProofWorkerProps.thy ===== *)
theory ProofWorkerProps
  imports ProofWorker
begin

text \<open>
  What the proof service guarantees.  The first section says what a build that returns has checked and what the
  entries it stores are; the second that nothing but a build writes to the bucket, and that whatever is thrown has
  an error status.  The properties follow: an answer is a proof that replays, a write is preceded by every check, a
  registered root is not replaced, and the cells of a registered file are served.
\<close>

section \<open>The tree of a file\<close>

lemma leaves_Inr: "wf_input inp \<Longrightarrow> affectedCellLeavesFromInput inp = Inr (map (leaf_of_cell inp) (affected_cells inp))"
  by (simp add: affectedCellLeavesFromInput_def Let_def sortCells_id check_distinct_Inr wf_input_def)

lemma res_map_leaves:
  assumes "wf_input inp" and "set cs \<subseteq> set (affected_cells inp)"
  shows "res_map (affectedCellLeafHash sha) (map (leaf_of_cell inp) cs) = Inr hs \<longleftrightarrow>
    (\<forall>c \<in> set cs. event_revision inp \<le> U32_MAX \<and> cell_key c \<le> U64_MAX) \<and> hs = map (cell_hash sha inp) cs"
  using assms(2) by (induction cs arbitrary: hs) (auto simp: res_simps leafHash_cell [OF assms(1)])

lemma file_tree_Inr:
  assumes "wf_input inp"
  shows "file_tree sha inp = Inr (leaves, hashes, levels) \<longleftrightarrow> encodable inp
    \<and> leaves = map (leaf_of_cell inp) (affected_cells inp) \<and> hashes = map (cell_hash sha inp) (affected_cells inp)
    \<and> levels = levels_of sha hashes"
proof -
  have "affected_cells inp \<noteq> []" using assms by (simp add: wf_input_def)
  then show ?thesis
    using res_map_leaves [OF assms, of "affected_cells inp" sha hashes]
    by (auto simp: file_tree_def res_simps leaves_Inr [OF assms] encodable_def list_all_iff neq_Nil_conv)
qed

text \<open>The entry of a cell.\<close>

definition entry_of :: "hash_fn \<Rightarrow> affected_cells_input \<Rightarrow> nat \<Rightarrow> shard_entry" where
  "entry_of sha inp i = shardEntryFromLeaf (leaf_of_cell inp (affected_cells inp ! i))
     (cell_hash sha inp (affected_cells inp ! i))
     (proof_steps_loop (levels_of sha (map (cell_hash sha inp) (affected_cells inp))) i)"

definition entries_of :: "hash_fn \<Rightarrow> affected_cells_input \<Rightarrow> shard_entry list" where
  "entries_of sha inp = map (entry_of sha inp) [0..<length (affected_cells inp)]"

lemma file_entries_Inr:
  assumes "affected_cells inp \<noteq> []"
  shows "file_entries (map (leaf_of_cell inp) (affected_cells inp)) (map (cell_hash sha inp) (affected_cells inp))
     (levels_of sha (map (cell_hash sha inp) (affected_cells inp))) = Inr (entries_of sha inp)"
proof -
  let ?cs = "affected_cells inp"
  have enum: "List.enumerate 0 (map (leaf_of_cell inp) ?cs) = map (\<lambda>i. (i, leaf_of_cell inp (?cs ! i))) [0..<length ?cs]"
    by (rule nth_equalityI) (simp_all add: nth_enumerate_eq)
  show ?thesis
    unfolding file_entries_def enum entries_of_def
    by (subst res_map_Inr_map [where g = "\<lambda>(i, _). entry_of sha inp i"])
      (auto simp: proofStepsFromLevels_eq entry_of_def assms)
qed

text \<open>The manifest of a file.\<close>

definition manifest_of :: "'w worker_env \<Rightarrow> build_params \<Rightarrow> affected_cells_input \<Rightarrow> worker_manifest" where
  "manifest_of env p inp =
     \<lparr>wm_schema_version = 1, wm_event_uid = bp_eventUid p, wm_event_revision = bp_eventRevision p,
      wm_affected_cells_uri = bp_affectedCellsUri p, wm_affected_cells_hash = bp_affectedCellsHash p,
      wm_affected_cells_root = bp_affectedCellsRoot p, wm_affected_cell_count = bp_affectedCellCount p,
      wm_geo_resolution = bp_geoResolution p,
      wm_shards = [\<lparr>me_shard_key = SINGLE_SHARD_KEY,
        me_r2_key = shardR2Key (we_num env) (bp_eventUid p) (bp_eventRevision p) SINGLE_SHARD_KEY,
        me_hash = sha256Hex (we_sha env) (text_bytes (serializeShardEntries (we_num env) (entries_of (we_sha env) inp))),
        me_cell_count = int (length (entries_of (we_sha env) inp))\<rparr>]\<rparr>"

text \<open>What has been checked of a file when its proofs are stored.\<close>

definition file_checked :: "'w worker_env \<Rightarrow> build_params \<Rightarrow> bytes \<Rightarrow> affected_cells_input \<Rightarrow> bool" where
  "file_checked env p bs inp \<longleftrightarrow> sha256Hex (we_sha env) bs = bp_affectedCellsHash p
     \<and> res_bind (we_json_parse env (utf8_text bs)) parseAffectedCellsFile = Inr inp
     \<and> event_uid inp = bp_eventUid p \<and> event_revision inp = bp_eventRevision p
     \<and> affectedCellsRoot (we_sha env) inp = Inr (bp_affectedCellsRoot p)"

lemma checked_file_Inr:
  "checked_file env p bs = Inr inp \<longleftrightarrow> sha256Hex (we_sha env) bs = bp_affectedCellsHash p
     \<and> res_bind (we_json_parse env (utf8_text bs)) parseAffectedCellsFile = Inr inp
     \<and> event_uid inp = bp_eventUid p \<and> event_revision inp = bp_eventRevision p"
  by (auto simp: checked_file_def Let_def split: sum.splits)

lemma file_checked_wf: "file_checked env p bs inp \<Longrightarrow> wf_input inp \<and> encodable inp"
  by (auto simp: file_checked_def res_simps parseAffectedCellsFile_Inr affectedCellsRoot_Inr)

lemma root_of_levels:
  assumes "hs \<noteq> []" and "last (levels_of sha hs) = r # rest"
  shows "merkleRootFromLeafHashes sha hs = Inr r"
  using assms by (simp add: merkleRootFromLeafHashes_def)

lemma built_manifest_single:
  "built_manifest env p [(SINGLE_SHARD_KEY, es)] [(SINGLE_SHARD_KEY, serialized)] = Inr m \<longleftrightarrow>
   m = \<lparr>wm_schema_version = 1, wm_event_uid = bp_eventUid p, wm_event_revision = bp_eventRevision p,
      wm_affected_cells_uri = bp_affectedCellsUri p, wm_affected_cells_hash = bp_affectedCellsHash p,
      wm_affected_cells_root = bp_affectedCellsRoot p, wm_affected_cell_count = bp_affectedCellCount p,
      wm_geo_resolution = bp_geoResolution p,
      wm_shards = [\<lparr>me_shard_key = SINGLE_SHARD_KEY,
        me_r2_key = shardR2Key (we_num env) (bp_eventUid p) (bp_eventRevision p) SINGLE_SHARD_KEY,
        me_hash = sha256Hex (we_sha env) (text_bytes serialized), me_cell_count = int (length es)\<rparr>]\<rparr>"
  by (auto simp: built_manifest_def)

lemma build_of_checked:
  assumes "file_checked env p bs inp"
  shows "buildAndSaveProofArtifacts env p bs s =
    run_bind (saveProofArtifacts env (manifest_of env p inp)
         [(SINGLE_SHARD_KEY, serializeShardEntries (we_num env) (entries_of (we_sha env) inp))])
        (\<lambda>_. run_return (manifest_of env p inp, [(SINGLE_SHARD_KEY, entries_of (we_sha env) inp)])) s"
proof -
  let ?hs = "map (cell_hash (we_sha env) inp) (affected_cells inp)"
  have wf: "wf_input inp" and enc: "encodable inp" using file_checked_wf [OF assms] by auto
  then have ne: "affected_cells inp \<noteq> []" by (simp add: wf_input_def)
  have tree: "file_tree (we_sha env) inp
      = Inr (map (leaf_of_cell inp) (affected_cells inp), ?hs, levels_of (we_sha env) ?hs)"
    using enc by (simp add: file_tree_Inr [OF wf])
  obtain computed rest where top: "last (levels_of (we_sha env) ?hs) = computed # rest"
    using last_levels_of [of ?hs "we_sha env"] ne by (cases "last (levels_of (we_sha env) ?hs)") auto
  have "computed = bp_affectedCellsRoot p"
    using root_of_levels [OF _ top] ne assms by (auto simp: file_checked_def affectedCellsRoot_Inr [OF wf])
  moreover have "checked_file env p bs = Inr inp" using assms by (simp add: checked_file_Inr file_checked_def)
  moreover have "built_manifest env p [(SINGLE_SHARD_KEY, entries_of (we_sha env) inp)]
      [(SINGLE_SHARD_KEY, serializeShardEntries (we_num env) (entries_of (we_sha env) inp))] = Inr (manifest_of env p inp)"
    by (simp add: built_manifest_single manifest_of_def)
  ultimately show ?thesis
    using tree top by (simp add: buildAndSaveProofArtifacts_def run_bind_eval Let_def file_entries_Inr [OF ne])
qed

text \<open>A build stores only once everything is checked; until then it leaves everything as it was.\<close>

lemma build_cases:
  assumes "buildAndSaveProofArtifacts env p bs s = (r, s')"
  obtains (refused) e where "r = Inl e" "s' = s"
  | (stored) inp where "file_checked env p bs inp"
      "run_bind (saveProofArtifacts env (manifest_of env p inp)
         [(SINGLE_SHARD_KEY, serializeShardEntries (we_num env) (entries_of (we_sha env) inp))])
        (\<lambda>_. run_return (manifest_of env p inp, [(SINGLE_SHARD_KEY, entries_of (we_sha env) inp)])) s = (r, s')"
proof (cases "checked_file env p bs")
  case (Inl e)
  then have "(\<exists>e. r = Inl e) \<and> s' = s"
    using assms by (auto simp: buildAndSaveProofArtifacts_def run_bind_def run_check_def)
  then show ?thesis using refused by blast
next
  case (Inr inp)
  note checked = this [unfolded checked_file_Inr]
  then have wf: "wf_input inp" by (auto simp: res_simps parseAffectedCellsFile_Inr)
  then have ne: "affected_cells inp \<noteq> []" by (simp add: wf_input_def)
  show ?thesis
  proof (cases "file_tree (we_sha env) inp")
    case (Inl e)
    with \<open>checked_file env p bs = Inr inp\<close> have "(\<exists>e. r = Inl e) \<and> s' = s"
      using assms by (auto simp: buildAndSaveProofArtifacts_def run_bind_def run_check_def run_plain_def)
    then show ?thesis using refused by blast
  next
    let ?hs = "map (cell_hash (we_sha env) inp) (affected_cells inp)"
    case (Inr t)
    then have tree: "encodable inp" "file_tree (we_sha env) inp
        = Inr (map (leaf_of_cell inp) (affected_cells inp), ?hs, levels_of (we_sha env) ?hs)"
      using file_tree_Inr [OF wf, of "we_sha env"] by (metis prod_cases3)+
    obtain computed rest where top: "last (levels_of (we_sha env) ?hs) = computed # rest"
      using last_levels_of [of ?hs "we_sha env"] ne by (cases "last (levels_of (we_sha env) ?hs)") auto
    have rt: "affectedCellsRoot (we_sha env) inp = Inr computed"
      using root_of_levels [OF _ top] ne tree(1) by (simp add: affectedCellsRoot_Inr [OF wf])
    show ?thesis
    proof (cases "computed = bp_affectedCellsRoot p")
      case True
      with checked rt have ok: "file_checked env p bs inp" by (simp add: file_checked_def)
      from assms show ?thesis unfolding build_of_checked [OF ok] by (rule stored [OF ok])
    next
      case False
      with \<open>checked_file env p bs = Inr inp\<close> tree(2) top have "(\<exists>e. r = Inl e) \<and> s' = s"
        using assms
        by (auto simp: buildAndSaveProofArtifacts_def run_bind_def run_check_def run_plain_def run_require_def run_throw_def)
      then show ?thesis using refused by blast
    qed
  qed
qed

section \<open>Only a build writes\<close>

lemma loadProofManifest_cases:
  assumes "loadProofManifest env uid revision s = (r, s')"
  obtains (cached) m where "snd s (manifestCacheKey (we_num env) uid revision) = Some m" "r = Inr m" "s' = s"
  | (read) "snd s (manifestCacheKey (we_num env) uid revision) = None"
      "run_bind (readManifest env uid revision) (\<lambda>m.
         run_bind (cache_manifest (manifestCacheKey (we_num env) uid revision) m) (\<lambda>_. run_return m)) s = (r, s')"
  using assms by (cases s) (auto simp: loadProofManifest_def Let_def split: option.splits)

text \<open>The calls of the world other than a write to the bucket.\<close>

definition reads_keep :: "('w \<Rightarrow> bool) \<Rightarrow> 'w worker_env \<Rightarrow> bool" where
  "reads_keep P env \<longleftrightarrow> (\<forall>k. keeps P (bk_get (we_shards env) k)) \<and> (\<forall>k. keeps P (we_area_get env k))
     \<and> (\<forall>k v. keeps P (we_create_batch env k v)) \<and> (\<forall>k. keeps P (we_get_instance env k))
     \<and> (\<forall>k. keeps P (we_instance_status env k)) \<and> (\<forall>k. keeps P (we_instance_restart env k))
     \<and> (\<forall>u. keeps P (we_fetch env u))"

lemma keeps_manifest: "reads_keep P env \<Longrightarrow> run_keeps P (loadProofManifest env uid revision)"
proof -
  assume "reads_keep P env"
  then have read: "run_keeps P (run_bind (readManifest env uid revision) (\<lambda>m.
      run_bind (cache_manifest (manifestCacheKey (we_num env) uid revision) m) (\<lambda>_. run_return m)))"
    unfolding readManifest_def Let_def reads_keep_def by (intro run_keeps_intros) blast+
  show ?thesis
    unfolding run_keeps_def
    by (intro allI impI, erule loadProofManifest_cases) (simp, blast dest: run_keepsD [OF read])
qed

lemma keeps_shard: "reads_keep P env \<Longrightarrow> run_keeps P (loadProofShard env entry)"
  unfolding loadProofShard_def Let_def reads_keep_def by (intro run_keeps_intros) blast+

lemma keeps_walrus: "reads_keep P env \<Longrightarrow> run_keeps P (fetchWalrusBlob env uri)"
  unfolding fetchWalrusBlob_def reads_keep_def by (intro run_keeps_intros) blast+

lemma keeps_workflow: "reads_keep P env \<Longrightarrow> run_keeps P (startAffectedAreaArtifactWorkflow env b)"
  unfolding startAffectedAreaArtifactWorkflow_def affectedAreaManifestExists_def Let_def reads_keep_def
  by (intro run_keeps_intros) blast+

lemma keeps_existing: "reads_keep P env \<Longrightarrow> run_keeps P (tryLoadExistingManifest env uid revision)"
  unfolding tryLoadExistingManifest_def by (intro run_keeps_intros keeps_manifest)

lemma keeps_again: "reads_keep P env \<Longrightarrow> run_keeps P (register_again env b m)"
  unfolding register_again_def by (intro run_keeps_intros keeps_workflow)

section \<open>What is thrown is an error\<close>

lemma res_check_status:
  "verifyRegisterToken headers secret = Inl e \<Longrightarrow> error_status e \<noteq> 200"
  "parseWalrusBlobUri uri = Inl e \<Longrightarrow> error_status e \<noteq> 200"
  "path_params tail pathname = Inl e \<Longrightarrow> error_status e \<noteq> 200"
  "invalid message = Inl e \<Longrightarrow> error_status e \<noteq> 200"
  "assertExistingManifestMetadataMatches m b = Inl e \<Longrightarrow> error_status e \<noteq> 200"
  "verifyEntryIntegrity sha entry rt = Inl e \<Longrightarrow> error_status e \<noteq> 200"
  "parse_requested_index env txt = Inl e \<Longrightarrow> error_status e \<noteq> 200"
  "checked_file env p bs = Inl e \<Longrightarrow> error_status e \<noteq> 200"
  by (auto simp: error_status_def verifyRegisterToken_def parseWalrusBlobUri_def path_params_def invalid_def
      assertExistingManifestMetadataMatches_def verifyEntryIntegrity_def parse_requested_index_def checked_file_def Let_def
      split: if_splits option.splits sum.splits prod.splits)

lemma params_status: "parseRequestParams req = Inl e \<Longrightarrow> error_status e \<noteq> 200"
  by (auto simp: parseRequestParams_def res_bind_Inl_iff Let_def error_status_def dest: res_check_status split: if_splits prod.splits)

lemma throws_manifest: "throws_errors (loadProofManifest env uid revision)"
proof -
  have read: "throws_errors (run_bind (readManifest env uid revision) (\<lambda>m.
      run_bind (cache_manifest (manifestCacheKey (we_num env) uid revision) m) (\<lambda>_. run_return m)))"
    unfolding readManifest_def Let_def by (intro throws_intros) simp_all
  show ?thesis
    unfolding throws_errors_def
    by (intro allI impI, erule loadProofManifest_cases) (simp, blast dest: throws_errorsD [OF read])
qed

lemma throws_shard: "throws_errors (loadProofShard env entry)"
  unfolding loadProofShard_def Let_def by (intro throws_intros) simp_all

lemma throws_walrus: "throws_errors (fetchWalrusBlob env uri)"
  unfolding fetchWalrusBlob_def by (intro throws_intros) (simp_all add: res_check_status)

lemma throws_each [throws_intros]: "(\<And>x. throws_errors (f x)) \<Longrightarrow> throws_errors (run_each f xs)"
  by (induction xs) (auto intro: throws_intros)

lemma throws_save: "throws_errors (saveProofArtifacts env m shards)"
  unfolding saveProofArtifacts_def Let_def by (intro throws_intros)

lemma res_map_Inl: "res_map f xs = Inl e \<Longrightarrow> \<exists>x \<in> set xs. f x = Inl e"
  by (induction xs) (auto simp: res_bind_Inl_iff)

lemma entries_status: "file_entries leaves hashes levels = Inl e \<Longrightarrow> error_status e \<noteq> 200"
  by (auto simp: file_entries_def error_status_def dest!: res_map_Inl split: if_splits sum.splits)

lemma manifest_status: "built_manifest env p es ss = Inl e \<Longrightarrow> error_status e \<noteq> 200"
  by (auto simp: built_manifest_def error_status_def res_bind_Inl_iff dest!: res_map_Inl split: option.splits)

lemma throws_list [throws_intros]:
  "throws_errors m \<Longrightarrow> (\<And>y ys. throws_errors (f y ys)) \<Longrightarrow> throws_errors (case xs of [] \<Rightarrow> m | y # ys \<Rightarrow> f y ys)"
  by (cases xs) auto

lemma throws_build: "throws_errors (buildAndSaveProofArtifacts env p bs)"
  unfolding buildAndSaveProofArtifacts_def Let_def
  by (intro throws_intros throws_save) (simp_all add: res_check_status entries_status manifest_status)

lemma throws_regenerate: "throws_errors (regenerateFromWalrus env m shard)"
  unfolding regenerateFromWalrus_def by (intro throws_intros throws_walrus throws_build)

lemma throws_entries: "throws_errors (loadShardEntries env m entry shard)"
  unfolding loadShardEntries_def
  by (intro throws_intros throws_regenerate throws_shard)
    (auto split: worker_error.splits intro!: throws_intros throws_regenerate)

lemma throws_served: "throws_errors (load_served_manifest env uid revision)"
  unfolding load_served_manifest_def
  by (intro throws_intros throws_manifest) (auto split: worker_error.splits proof_code.splits intro!: throws_intros)

lemma throws_answer: "throws_errors (handleProofRequestUnchecked req env)"
  unfolding handleProofRequestUnchecked_def Let_def
  by (intro throws_intros throws_served throws_entries)
    (auto simp: res_check_status dest: params_status)

section \<open>An answer and where it comes from\<close>

lemma find_Some: "List.find P xs = Some x \<Longrightarrow> P x \<and> x \<in> set xs"
  by (induction xs) (auto split: if_splits)

lemma found_index: "findShardEntry es h = Some e \<Longrightarrow> leaf_h3_index e = h"
  by (auto simp: findShardEntry_def dest: find_Some)

lemma integrity_Inr:
  "verifyEntryIntegrity sha entry rt = Inr u \<longleftrightarrow> affectedCellLeafHash sha (entry_leaf entry) = Inr (se_leaf_hash entry)
     \<and> replayProof sha (se_leaf_hash entry) (se_proof entry) = Inr rt"
  by (auto simp: verifyEntryIntegrity_def split: sum.splits)

lemma answer_cases:
  assumes "handleProofRequestUnchecked req env s = (Inr resp, s')"
  obtains uid revision asked h m s1 entry where "parseRequestParams req = Inr (uid, revision, asked)"
    "parse_requested_index env asked = Inr h" "load_served_manifest env uid revision s = (Inr m, s1)"
    "leaf_h3_index entry = h" "affectedCellLeafHash (we_sha env) (entry_leaf entry) = Inr (se_leaf_hash entry)"
    "replayProof (we_sha env) (se_leaf_hash entry) (se_proof entry) = Inr (wm_affected_cells_root m)"
    "resp = jsonResponse (serializeResponse (shapeProofResponse entry m)) 200"
proof -
  obtain uid revision asked h m s1 entries s2 where steps: "parseRequestParams req = Inr (uid, revision, asked)"
      "parse_requested_index env asked = Inr h" "load_served_manifest env uid revision s = (Inr m, s1)"
    and last_step: "(case findShardEntry entries h of
        None \<Rightarrow> run_throw CellNotInEvent (''h3_index '' @ asked @ '' is not in event '' @ uid @ '' revision ''
          @ we_num env (of_int revision)) 404
      | Some entry \<Rightarrow> run_bind (run_check (verifyEntryIntegrity (we_sha env) entry (wm_affected_cells_root m))) (\<lambda>_.
          run_return (jsonResponse (serializeResponse (shapeProofResponse entry m)) 200))) s2 = (Inr resp, s')"
    using assms unfolding handleProofRequestUnchecked_def Let_def run_bind_Inr run_prim_results
    by (auto simp: run_bind_Inr run_prim_results)
  then obtain entry where "findShardEntry entries h = Some entry"
    by (cases "findShardEntry entries h") (auto simp: run_results)
  with last_step found_index [OF this] show ?thesis
    by (intro that [OF steps, of entry]) (auto simp: run_results integrity_Inr)
qed

lemma routes_disjoint: "match_route ''proof'' pathname \<noteq> None \<Longrightarrow> match_route ''affected-cells'' pathname = None"
  by (auto simp: match_route_def split: list.splits if_splits)

lemma status_of_error: "ws_status (handler_error e) = error_status e"
  by (cases e) (simp_all add: handler_error_def errorResponse_def jsonResponse_def error_status_def)

text \<open>The two handlers and everything else.\<close>

definition answer_of :: "worker_error + worker_response \<Rightarrow> worker_error + worker_response" where
  "answer_of q = (case q of Inl e \<Rightarrow> Inr (handler_error e) | Inr resp \<Rightarrow> Inr resp)"

lemma handlers_eval:
  "handleRegisterRequest req env s = apfst answer_of (handleRegisterRequestUnchecked req env s)"
  "handleProofRequest req env s = apfst answer_of (handleProofRequestUnchecked req env s)"
  by (auto simp: handleRegisterRequest_def handleProofRequest_def run_catch_def run_return_def answer_of_def
      split: prod.split sum.split)

lemma fetch_eval:
  "dispatchRequest req env s = (q, s') \<Longrightarrow> worker_fetch req env s
     = (case q of Inl e \<Rightarrow> Inr (toAffectedCellsProofError e) | Inr resp \<Rightarrow> Inr resp, s')"
  by (auto simp: worker_fetch_def run_catch_def run_return_def split: sum.split)

lemma fetch_refuses:
  "dispatchRequest req env = run_throw code message status \<Longrightarrow> worker_fetch req env s = (Inr (errorResponse code message status), s)"
  using fetch_eval [of req env s "Inl (WorkerError code message status)" s]
  by (simp add: run_throw_def toAffectedCellsProofError_def)

lemma fetch_handles:
  "dispatchRequest req env s = apfst answer_of (q, s') \<Longrightarrow> worker_fetch req env s = (answer_of q, s')"
  using fetch_eval [of req env s "answer_of q" s'] by (cases q) (simp_all add: answer_of_def)

lemma dispatch_cases:
  assumes "worker_fetch req env s = (r, s')"
  obtains (answered) resp where "wq_method req = ''GET''" "handleProofRequestUnchecked req env s = (Inr resp, s')" "r = Inr resp"
  | (unanswered) e where "wq_method req = ''GET''" "handleProofRequestUnchecked req env s = (Inl e, s')"
      "r = Inr (handler_error e)"
  | (registered) q where "wq_method req = ''POST''" "handleRegisterRequestUnchecked req env s = (q, s')"
      "r = answer_of q"
  | (refused) code message status where "status \<noteq> 200" "r = Inr (errorResponse code message status)" "s' = s"
proof -
  have refuse: thesis if "worker_fetch req env s = (Inr (errorResponse code message status), s)" "worker_fetch req env s = (r, s')"
      "status \<noteq> 200" for code message status
  proof -
    from that have "r = Inr (errorResponse code message status)" "s' = s" by simp_all
    then show ?thesis by (rule refused [OF that(3)])
  qed
  show thesis
  proof (cases "match_route ''affected-cells'' (url_pathname (wq_url req)) = None")
    case True
    note affected = this
    show ?thesis
    proof (cases "match_route ''proof'' (url_pathname (wq_url req)) \<noteq> None \<and> wq_method req = ''GET''")
      case True
      obtain q s1 where q: "handleProofRequestUnchecked req env s = (q, s1)" by (cases "handleProofRequestUnchecked req env s")
      with True affected have "dispatchRequest req env s = apfst answer_of (q, s1)"
        by (simp add: dispatchRequest_def Let_def handlers_eval)
      with assms fetch_handles have "r = answer_of q" "s' = s1" by fastforce+
      then show ?thesis using answered unanswered q True by (cases q) (auto simp: answer_of_def)
    next
      case False
      then have "dispatchRequest req env = run_throw MethodNotAllowed (''Method '' @ wq_method req @ '' is not allowed. Use GET.'') 405
        \<or> dispatchRequest req env = run_throw RouteNotFound (''Not found: '' @ url_pathname (wq_url req)) 404"
        using affected by (cases "match_route ''proof'' (url_pathname (wq_url req))") (simp_all add: dispatchRequest_def Let_def)
      then show ?thesis
      proof
        assume "dispatchRequest req env = run_throw MethodNotAllowed (''Method '' @ wq_method req @ '' is not allowed. Use GET.'') 405"
        from fetch_refuses [OF this, of s] assms show ?thesis by (elim refuse) simp_all
      next
        assume "dispatchRequest req env = run_throw RouteNotFound (''Not found: '' @ url_pathname (wq_url req)) 404"
        from fetch_refuses [OF this, of s] assms show ?thesis by (elim refuse) simp_all
      qed
    qed
  next
    case False
    note affected = this
    show ?thesis
    proof (cases "wq_method req = ''POST''")
      case True
      obtain q s1 where q: "handleRegisterRequestUnchecked req env s = (q, s1)"
        by (cases "handleRegisterRequestUnchecked req env s")
      with True affected have "dispatchRequest req env s = apfst answer_of (q, s1)"
        by (simp add: dispatchRequest_def Let_def handlers_eval)
      with assms fetch_handles have "r = answer_of q" "s' = s1" by fastforce+
      then show ?thesis using registered q True by simp
    next
      case False
      with affected have "dispatchRequest req env = run_throw MethodNotAllowed (''Method '' @ wq_method req @ '' is not allowed. Use POST.'') 405"
        by (simp add: dispatchRequest_def Let_def)
      from fetch_refuses [OF this, of s] assms show ?thesis by (elim refuse) simp_all
    qed
  qed
qed

lemma build_writes:
  assumes "buildAndSaveProofArtifacts env p bs s = (r, s')" and "P (fst s)" and "\<not> P (fst s')"
  shows "\<exists>inp. file_checked env p bs inp"
  using assms by (auto elim!: build_cases)

lemma regenerate_writes:
  assumes "reads_keep P env" and "regenerateFromWalrus env m shard s = (r, s')" and "P (fst s)" and "\<not> P (fst s')"
  shows "\<exists>bs inp. file_checked env (manifest_params m) bs inp"
proof -
  note walrus = run_keepsD [OF keeps_walrus [OF assms(1)]]
  from assms(2) show ?thesis
    unfolding regenerateFromWalrus_def
  proof (cases rule: run_bind_cases)
    case (returned bs s1)
    from returned(2) have "\<exists>q. buildAndSaveProofArtifacts env (manifest_params m) bs s1 = (q, s')"
      by (cases rule: run_bind_cases) (auto simp: run_results split: prod.splits)
    with build_writes walrus [OF returned(1) assms(3)] assms(4) show ?thesis by metis
  qed (use walrus assms(3,4) in blast)
qed

lemma entries_writes:
  assumes "reads_keep P env" and "loadShardEntries env m entry shard s = (r, s')" and "P (fst s)" and "\<not> P (fst s')"
  shows "\<exists>bs inp. file_checked env (manifest_params m) bs inp"
proof (cases entry)
  case None
  with assms regenerate_writes show ?thesis by (simp add: loadShardEntries_def) blast
next
  case (Some e)
  note shard = run_keepsD [OF keeps_shard [OF assms(1)]]
  from assms(2) show ?thesis
    unfolding loadShardEntries_def Some option.case
  proof (cases rule: run_catch_cases)
    case (threw err s1)
    with shard [OF threw(1) assms(3)] assms(1,4) regenerate_writes [of P env m shard s1 r s'] show ?thesis
      by (auto simp: run_results split: worker_error.splits if_splits)
  qed (use shard assms(3,4) in blast)
qed

lemma keeps_served: "reads_keep P env \<Longrightarrow> run_keeps P (load_served_manifest env uid revision)"
  unfolding load_served_manifest_def
  by (intro run_keeps_intros keeps_manifest) (auto split: worker_error.splits proof_code.splits intro: run_keeps_intros)

lemma check_eq: "run_check c s = (r, s') \<Longrightarrow> c = r \<and> s' = s"
  by (simp add: run_check_def)

lemma answer_writes:
  assumes keep: "reads_keep P env" and run: "handleProofRequestUnchecked req env s = (r, s')"
    and P: "P (fst s)" and changed: "\<not> P (fst s')"
  shows "\<exists>bs inp uid revision asked m s1. parseRequestParams req = Inr (uid, revision, asked)
    \<and> load_served_manifest env uid revision s = (Inr m, s1) \<and> file_checked env (manifest_params m) bs inp"
  using run unfolding handleProofRequestUnchecked_def
proof (cases rule: run_bind_cases)
  case (returned params s0)
  then obtain uid revision asked where params: "parseRequestParams req = Inr (uid, revision, asked)" "s0 = s"
      "params = (uid, revision, asked)"
    by (cases params) (auto dest: check_eq)
  from returned(2) [unfolded params(2,3) prod.case] show ?thesis
  proof (cases rule: run_bind_cases)
    case (returned h s2)
    then have s2: "s2 = s" by (auto dest: check_eq)
    from returned(2) [unfolded s2] show ?thesis
    proof (cases rule: run_bind_cases)
      case (returned m s3)
      have P3: "P (fst s3)" using run_keepsD [OF keeps_served [OF keep] returned(1) P] .
      from returned(2) have "\<exists>entry shard q s4. loadShardEntries env m entry shard s3 = (q, s4) \<and> \<not> P (fst s4)"
      proof (cases rule: run_bind_cases)
        case (returned shard s4)
        then have s4: "s4 = s3" by (auto simp: run_plain_def split: sum.splits)
        from returned(2) [unfolded s4 Let_def] show ?thesis
        proof (cases rule: run_bind_cases)
          case (returned entries s5)
          from returned(2) have "s' = s5"
            by (cases "findShardEntry entries h")
              (auto simp: run_prim_results elim!: run_bind_cases)
          with returned(1) changed show ?thesis by blast
        qed (use changed in blast)
      qed (use P3 changed in \<open>auto simp: run_plain_def split: sum.splits\<close>)
      with entries_writes [OF keep _ P3] returned(1) params(1) show ?thesis by blast
    qed (use run_keepsD [OF keeps_served [OF keep]] P changed in blast)
  qed (use P changed in \<open>auto dest: check_eq\<close>)
qed (use P changed in \<open>auto dest: check_eq\<close>)

lemma register_writes:
  assumes keep: "reads_keep P env" and run: "handleRegisterRequestUnchecked req env s = (r, s')"
    and P: "P (fst s)" and changed: "\<not> P (fst s')"
  shows "\<exists>bs inp t body s1. t \<noteq> [] \<and> we_register_token env = Some t
    \<and> map_of (wq_headers req) ''x-sonari-affected-proof-register-token'' = Some t
    \<and> accepted_request req env = Inr body
    \<and> tryLoadExistingManifest env (rb_event_uid body) (rb_event_revision body) s = (Inr None, s1)
    \<and> file_checked env (body_params body) bs inp"
  using run unfolding handleRegisterRequestUnchecked_def
proof (cases rule: run_bind_cases)
  case (returned body s0)
  then have body: "accepted_request req env = Inr body" "s0 = s" by (auto dest: check_eq)
  then obtain t where t: "t \<noteq> []" "we_register_token env = Some t"
      "map_of (wq_headers req) ''x-sonari-affected-proof-register-token'' = Some t"
    by (auto simp: accepted_request_def res_simps verify_token_Inr)
  from returned(2) [unfolded body(2)] show ?thesis
  proof (cases rule: run_bind_cases)
    case (returned existing s1)
    have P1: "P (fst s1)" using run_keepsD [OF keeps_existing [OF keep] returned(1) P] .
    show ?thesis
    proof (cases existing)
      case None
      with returned(2) have "register_new env body s1 = (r, s')" by simp
      then have "\<exists>bs inp. file_checked env (body_params body) bs inp"
        unfolding register_new_def
      proof (cases rule: run_bind_cases)
        case (returned bs s2)
        have P2: "P (fst s2)" using run_keepsD [OF keeps_walrus [OF keep] returned(1) P1] .
        from returned(2) show ?thesis
        proof (cases rule: run_bind_cases)
          case (threw e)
          with build_writes [where P = P, OF threw(1) P2 changed] show ?thesis by blast
        next
          case (returned built s3)
          have "\<not> P (fst s3)"
          proof
            assume "P (fst s3)"
            moreover have "run_keeps P (case built of (manifest, u) \<Rightarrow>
                run_bind (startAffectedAreaArtifactWorkflow env body) (\<lambda>_.
                  run_return (jsonResponse (registered_json body manifest True) 200)))"
              by (intro run_keeps_intros keeps_workflow [OF keep])
            ultimately show False using returned(2) changed unfolding run_keeps_def by blast
          qed
          with build_writes [where P = P, OF returned(1) P2] show ?thesis by blast
        qed
      qed (use run_keepsD [OF keeps_walrus [OF keep]] P1 changed in blast)
      with returned(1) body t None show ?thesis by blast
    next
      case (Some m)
      with returned(2) run_keepsD [OF keeps_again [OF keep]] P1 changed show ?thesis by auto
    qed
  qed (use run_keepsD [OF keeps_existing [OF keep]] P changed in blast)
qed (use P changed in \<open>auto dest: check_eq\<close>)

text \<open>A registration that finds a manifest.\<close>

lemma register_finds:
  assumes "wq_method req = ''POST''" and "accepted_request req env = Inr body"
    and "tryLoadExistingManifest env (rb_event_uid body) (rb_event_revision body) s = (Inr (Some m), s1)"
  shows "worker_fetch req env s = apfst answer_of (register_again env body m s1)"
proof -
  obtain q s2 where q: "register_again env body m s1 = (q, s2)" by (cases "register_again env body m s1")
  have "handleRegisterRequestUnchecked req env s = (q, s2)"
    by (simp add: handleRegisterRequestUnchecked_def assms(2) assms(3) run_bind_eval q)
  moreover have "match_route ''affected-cells'' (url_pathname (wq_url req)) \<noteq> None"
    using assms(2) by (auto simp: accepted_request_def parsePathParams_def path_params_def res_simps split: option.splits)
  ultimately show ?thesis
    using assms(1) q fetch_handles [of req env s q s2] by (simp add: dispatchRequest_def Let_def handlers_eval)
qed

end
