(* ===== verification/WorkerService.thy ===== *)
theory WorkerService
  imports ProofWorkerProps
begin

text \<open>
  The proof service over a bucket that keeps what is put into it.  The locale states what the service relies on of
  its bucket, the client lemmas register a file and serve its cells, and the interpretation is a bucket that is a map
  from keys to bytes.  The properties of the service close the theory.
\<close>

section \<open>A bucket that keeps its objects\<close>

locale proof_bucket =
  fixes env :: "'w worker_env" and objs :: "'w \<Rightarrow> string \<Rightarrow> bytes option"
  assumes get_returns: "\<exists>w1. bk_get (we_shards env) k w = (Inr (objs w k), w1) \<and> objs w1 = objs w"
    and put_stores: "\<exists>w1. bk_put (we_shards env) k v w = (Inr (), w1) \<and> objs w1 = (objs w)(k \<mapsto> text_bytes v)"
    and workflow_starts: "\<exists>x w1. startAffectedAreaArtifactWorkflow env b (w, c) = (Inr x, (w1, c)) \<and> objs w1 = objs w"

context proof_bucket
begin

lemma call_get: "\<exists>w1. run_call (bk_get (we_shards env) k) (w, c) = (Inr (objs w k), (w1, c)) \<and> objs w1 = objs w"
  using get_returns [of k w] by (auto simp: run_call_def)

lemma call_put: "\<exists>w1. run_call (bk_put (we_shards env) k v) (w, c) = (Inr (), (w1, c)) \<and> objs w1 = (objs w)(k \<mapsto> text_bytes v)"
  using put_stores [of k v w] by (auto simp: run_call_def)

lemma saves:
  "\<exists>w1. saveProofArtifacts env m [(k, t)] (w, c)
      = (Inr (), (w1, c(manifestCacheKey (we_num env) (wm_event_uid m) (wm_event_revision m) \<mapsto> m)))
    \<and> objs w1 = (objs w)(manifestR2Key (we_num env) (wm_event_uid m) (wm_event_revision m)
          \<mapsto> text_bytes (json_text (we_num env) (manifest_json m)),
        shardR2Key (we_num env) (wm_event_uid m) (wm_event_revision m) k \<mapsto> text_bytes t)"
proof -
  let ?mk = "manifestR2Key (we_num env) (wm_event_uid m) (wm_event_revision m)"
  let ?sk = "shardR2Key (we_num env) (wm_event_uid m) (wm_event_revision m) k"
  let ?c = "c(manifestCacheKey (we_num env) (wm_event_uid m) (wm_event_revision m) \<mapsto> m)"
  obtain w1 where w1: "run_call (bk_put (we_shards env) ?mk (json_text (we_num env) (manifest_json m))) (w, c) = (Inr (), (w1, c))"
      "objs w1 = (objs w)(?mk \<mapsto> text_bytes (json_text (we_num env) (manifest_json m)))"
    using call_put by blast
  obtain w2 where w2: "run_call (bk_put (we_shards env) ?sk t) (w1, ?c) = (Inr (), (w2, ?c))"
      "objs w2 = (objs w1)(?sk \<mapsto> text_bytes t)"
    using call_put by blast
  show ?thesis
    using w1 w2 by (auto simp: saveProofArtifacts_def Let_def run_bind_def cache_manifest_def run_return_def)
qed

lemma existing_none:
  assumes "c (manifestCacheKey (we_num env) uid revision) = None" and "objs w (manifestR2Key (we_num env) uid revision) = None"
  shows "\<exists>w1. tryLoadExistingManifest env uid revision (w, c) = (Inr None, (w1, c)) \<and> objs w1 = objs w"
  using call_get [of "manifestR2Key (we_num env) uid revision" w c] assms
  by (auto simp: tryLoadExistingManifest_def loadProofManifest_def readManifest_def Let_def run_catch_def run_bind_def
      run_throw_def run_return_def)

end

text \<open>The blob of an address, whenever it is fetched.\<close>

definition blob_available :: "'w worker_env \<Rightarrow> ('w \<Rightarrow> string \<Rightarrow> bytes option) \<Rightarrow> string \<Rightarrow> bytes \<Rightarrow> bool" where
  "blob_available env objs uri bs \<longleftrightarrow>
     (\<forall>w c. \<exists>w1. fetchWalrusBlob env uri (w, c) = (Inr bs, (w1, c)) \<and> objs w1 = objs w)"

text \<open>A bucket and a cache that hold the proofs of a file.\<close>

definition holds_proofs :: "'w worker_env \<Rightarrow> ('w \<Rightarrow> string \<Rightarrow> bytes option) \<Rightarrow> build_params \<Rightarrow> affected_cells_input
    \<Rightarrow> 'w \<times> manifest_cache \<Rightarrow> bool" where
  "holds_proofs env objs p inp s \<longleftrightarrow>
     objs (fst s) (shardR2Key (we_num env) (bp_eventUid p) (bp_eventRevision p) SINGLE_SHARD_KEY)
       = Some (text_bytes (serializeShardEntries (we_num env) (entries_of (we_sha env) inp)))
     \<and> snd s (manifestCacheKey (we_num env) (bp_eventUid p) (bp_eventRevision p)) = Some (manifest_of env p inp)"

context proof_bucket
begin

lemma registers:
  assumes accepted: "accepted_request req env = Inr body" and posted: "wq_method req = ''POST''"
    and fresh: "c (manifestCacheKey (we_num env) (rb_event_uid body) (rb_event_revision body)) = None"
      "objs w (manifestR2Key (we_num env) (rb_event_uid body) (rb_event_revision body)) = None"
    and blob: "blob_available env objs (rb_affected_cells_uri body) bs"
    and checked: "file_checked env (body_params body) bs inp"
  shows "\<exists>s'. worker_fetch req env (w, c)
      = (Inr (jsonResponse (registered_json body (manifest_of env (body_params body) inp) True) 200), s')
    \<and> holds_proofs env objs (body_params body) inp s'"
proof -
  let ?m = "manifest_of env (body_params body) inp"
  let ?t = "serializeShardEntries (we_num env) (entries_of (we_sha env) inp)"
  obtain w1 where w1: "tryLoadExistingManifest env (rb_event_uid body) (rb_event_revision body) (w, c) = (Inr None, (w1, c))"
    using existing_none [where c = c and w = w, OF fresh] by blast
  obtain w2 where w2: "fetchWalrusBlob env (rb_affected_cells_uri body) (w1, c) = (Inr bs, (w2, c))"
    using blob by (auto simp: blob_available_def)
  obtain w3 c3 where w3: "saveProofArtifacts env ?m [(SINGLE_SHARD_KEY, ?t)] (w2, c) = (Inr (), (w3, c3))"
    and held: "holds_proofs env objs (body_params body) inp (w3, c3)"
    using saves [of ?m SINGLE_SHARD_KEY ?t w2 c] by (auto simp: holds_proofs_def manifest_of_def)
  obtain x w4 where w4: "startAffectedAreaArtifactWorkflow env body (w3, c3) = (Inr x, (w4, c3))" "objs w4 = objs w3"
    using workflow_starts by blast
  have "handleRegisterRequestUnchecked req env (w, c)
      = (Inr (jsonResponse (registered_json body ?m True) 200), (w4, c3))"
    by (simp add: handleRegisterRequestUnchecked_def accepted run_bind_eval w1 register_new_def w2 build_of_checked [OF checked]
        w3 w4)
  moreover have "match_route ''affected-cells'' (url_pathname (wq_url req)) \<noteq> None"
    using accepted by (auto simp: accepted_request_def parsePathParams_def path_params_def res_simps split: option.splits)
  ultimately have "worker_fetch req env (w, c) = (Inr (jsonResponse (registered_json body ?m True) 200), (w4, c3))"
    using posted fetch_handles [of req env "(w, c)" "Inr (jsonResponse (registered_json body ?m True) 200)" "(w4, c3)"]
    by (simp add: dispatchRequest_def Let_def handlers_eval answer_of_def)
  with held w4(2) show ?thesis by (auto simp: holds_proofs_def)
qed

end

section \<open>The entries of a file\<close>

lemma entry_of_simps [simp]:
  "leaf_h3_index (entry_of sha inp i) = cell_key (affected_cells inp ! i)"
  "entry_leaf (entry_of sha inp i) = leaf_of_cell inp (affected_cells inp ! i)"
  "se_leaf_hash (entry_of sha inp i) = cell_hash sha inp (affected_cells inp ! i)"
  "se_proof (entry_of sha inp i) = proof_steps_loop (levels_of sha (map (cell_hash sha inp) (affected_cells inp))) i"
  by (simp_all add: entry_of_def shardEntryFromLeaf_def entry_leaf_def leaf_of_cell_def)

lemma siblings_hex32:
  "list_all hex32_list ls \<Longrightarrow> list_all (\<lambda>st. is_prefixed_hex32 (sibling_hash st)) (proof_steps_loop ls i)"
  by (induction ls i rule: proof_steps_loop.induct) (auto simp: Let_def hex32_list_def)

lemma entry_wf:
  assumes sha: "sha256_ok sha" and wf: "wf_input inp" and i: "i < length (affected_cells inp)"
  shows "wf_shard_entry (entry_of sha inp i)"
proof -
  let ?hs = "map (cell_hash sha inp) (affected_cells inp)"
  have "wf_cell (affected_cells inp ! i)" using wf i by (simp add: wf_input_def list_all_length)
  moreover have "list_all (\<lambda>st. is_prefixed_hex32 (sibling_hash st)) (proof_steps_loop (levels_of sha ?hs) i)"
    using levels_of_hex32 [OF sha cell_hash_hex32 [OF sha]] by (intro siblings_hex32) (auto simp: list_all_iff)
  ultimately show ?thesis
    using wf sha
    by (simp add: wf_shard_entry_def entry_of_def shardEntryFromLeaf_def leaf_of_cell_def wf_input_def wf_cell_def
        MAX_SAFE_INTEGER_def cell_key_def cell_hash_def)
qed

lemma entries_wf: "sha256_ok sha \<Longrightarrow> wf_input inp \<Longrightarrow> list_all wf_shard_entry (entries_of sha inp)"
  by (auto simp: entries_of_def list_all_iff intro!: entry_wf)

lemma entry_integrity:
  assumes "sha256_ok sha" and "wf_input inp" and "affectedCellsRoot sha inp = Inr rt" and i: "i < length (affected_cells inp)"
  shows "verifyEntryIntegrity sha (entry_of sha inp i) rt = Inr ()"
proof -
  have enc: "encodable inp" using assms(2,3) by (simp add: affectedCellsRoot_Inr)
  from cell_proof_replays [OF assms(1,2) enc i] assms(2,3) i
  have "replayProof sha (cell_hash sha inp (affected_cells inp ! i))
      (proof_steps_loop (levels_of sha (map (cell_hash sha inp) (affected_cells inp))) i) = Inr rt"
    by (auto simp: affectedCellProofSteps_Inr)
  moreover have "affectedCellLeafHash sha (leaf_of_cell inp (affected_cells inp ! i))
      = Inr (cell_hash sha inp (affected_cells inp ! i))"
    using enc i by (simp add: leafHash_cell [OF assms(2)] encodable_def list_all_length)
  ultimately show ?thesis by (simp add: integrity_Inr)
qed

lemma find_distinct: "distinct (map f xs) \<Longrightarrow> x \<in> set xs \<Longrightarrow> List.find (\<lambda>y. f y = f x) xs = Some x"
  by (induction xs) auto

lemma entry_found:
  assumes wf: "wf_input inp" and i: "i < length (affected_cells inp)"
  shows "findShardEntry (entries_of sha inp) (cell_key (affected_cells inp ! i)) = Some (entry_of sha inp i)"
proof -
  have "map leaf_h3_index (entries_of sha inp) = map cell_key (affected_cells inp)"
    by (rule nth_equalityI) (simp_all add: entries_of_def)
  moreover have "distinct (map cell_key (affected_cells inp))" using wf by (simp add: wf_input_def strict_sorted_iff)
  ultimately have "distinct (map leaf_h3_index (entries_of sha inp))" by (simp only:)
  moreover have "entry_of sha inp i \<in> set (entries_of sha inp)" using i by (simp add: entries_of_def)
  ultimately show ?thesis
    using find_distinct [of leaf_h3_index "entries_of sha inp" "entry_of sha inp i"] by (simp add: findShardEntry_def)
qed

lemma only_shard:
  assumes "sha256_ok sha" and "0 \<le> h" and "h \<le> U64_MAX"
  shows "proofShardId sha h SHARD_COUNT = Inr 0"
proof -
  obtain i where "proofShardId sha h 1 = Inr i" "0 \<le> i" "i < 1" by (rule proofShardId_total [OF assms, of 1]) simp
  then show ?thesis by (simp add: SHARD_COUNT_def)
qed

context proof_bucket
begin

lemma shard_read:
  assumes "objs w (me_r2_key entry) = Some (text_bytes (serializeShardEntries (we_num env) es))"
    and "me_hash entry = sha256Hex (we_sha env) (text_bytes (serializeShardEntries (we_num env) es))"
    and "list_all wf_shard_entry es" and "\<And>n. ascii (we_num env (of_int n))"
    and "we_json_parse env (serializeShardEntries (we_num env) es) = Inr (shard_json es)"
  shows "\<exists>w1. loadProofShard env entry (w, c) = (Inr es, (w1, c)) \<and> objs w1 = objs w"
  using call_get [of "me_r2_key entry" w c] assms utf8_text_ascii [OF ascii_shard [where num = "we_num env", OF assms(3,4)]]
  by (auto simp: loadProofShard_def run_bind_def Let_def run_return_def shard_json_def field_of_def get_field_def parse_entries)

lemma serves:
  assumes sha: "sha256_ok (we_sha env)" and digits: "\<And>n. ascii (we_num env (of_int n))"
    and readable: "we_json_parse env (serializeShardEntries (we_num env) (entries_of (we_sha env) inp))
      = Inr (shard_json (entries_of (we_sha env) inp))"
    and checked: "file_checked env p bs inp" and held: "holds_proofs env objs p inp (w, c)"
    and i: "i < length (affected_cells inp)"
    and req: "wq_method req = ''GET''" "parseRequestParams req = Inr (bp_eventUid p, bp_eventRevision p, asked)"
      "parse_requested_index env asked = Inr (cell_key (affected_cells inp ! i))"
  shows "\<exists>w1. worker_fetch req env (w, c)
      = (Inr (jsonResponse (serializeResponse (shapeProofResponse (entry_of (we_sha env) inp i) (manifest_of env p inp))) 200), (w1, c))
    \<and> objs w1 = objs w"
proof -
  let ?m = "manifest_of env p inp" and ?es = "entries_of (we_sha env) inp"
  let ?resp = "jsonResponse (serializeResponse (shapeProofResponse (entry_of (we_sha env) inp i) ?m)) 200"
  have wf: "wf_input inp" and enc: "encodable inp" using file_checked_wf [OF checked] by auto
  have manifest: "load_served_manifest env (bp_eventUid p) (bp_eventRevision p) (w, c) = (Inr ?m, (w, c))"
    using held by (simp add: load_served_manifest_def run_catch_def loadProofManifest_def holds_proofs_def Let_def)
  have shard: "proofShardId (we_sha env) (cell_key (affected_cells inp ! i)) SHARD_COUNT = Inr 0"
    using enc i by (intro only_shard [OF sha]) (simp_all add: cell_key_def encodable_def list_all_length)
  obtain w1 where w1: "loadShardEntries env ?m
      (List.find (\<lambda>s. me_shard_key s = show_int 0) (wm_shards ?m)) 0 (w, c) = (Inr ?es, (w1, c))" "objs w1 = objs w"
  proof -
    have "show_int 0 = SINGLE_SHARD_KEY" by code_simp
    moreover obtain w1 where "loadProofShard env (hd (wm_shards ?m)) (w, c) = (Inr ?es, (w1, c))" "objs w1 = objs w"
      using shard_read [where entry = "hd (wm_shards ?m)" and es = ?es and w = w and c = c] held entries_wf [OF sha wf] digits readable
      by (auto simp: manifest_of_def holds_proofs_def)
    ultimately show ?thesis
      using that [of w1] by (simp add: manifest_of_def loadShardEntries_def run_catch_def)
  qed
  have "verifyEntryIntegrity (we_sha env) (entry_of (we_sha env) inp i) (wm_affected_cells_root ?m) = Inr ()"
    using entry_integrity [OF sha wf _ i] checked by (simp add: file_checked_def manifest_of_def)
  then have "handleProofRequestUnchecked req env (w, c) = (Inr ?resp, (w1, c))"
    by (simp add: handleProofRequestUnchecked_def req run_bind_eval manifest shard Let_def w1 entry_found [OF wf i])
  moreover have "match_route ''proof'' (url_pathname (wq_url req)) \<noteq> None"
    using req(2) by (auto simp: parseRequestParams_def path_params_def res_simps split: option.splits)
  ultimately have "worker_fetch req env (w, c) = (Inr ?resp, (w1, c))"
    using req(1) routes_disjoint fetch_handles [of req env "(w, c)" "Inr ?resp" "(w1, c)"]
    by (simp add: dispatchRequest_def Let_def handlers_eval answer_of_def)
  with w1(2) show ?thesis by blast
qed

end

section \<open>A bucket that is a map\<close>

definition map_bucket :: "(string \<rightharpoonup> bytes) bucket" where
  "map_bucket = \<lparr>bk_get = (\<lambda>k w. (Inr (w k), w)), bk_put = (\<lambda>k v w. (Inr (), w(k \<mapsto> text_bytes v)))\<rparr>"

definition over_map :: "(string \<rightharpoonup> bytes) worker_env \<Rightarrow> (string \<rightharpoonup> bytes) worker_env" where
  "over_map env = env\<lparr>we_shards := map_bucket, we_area_get := (\<lambda>k w. (Inr None, w)),
     we_create_batch := (\<lambda>id v w. (Inr [id], w))\<rparr>"

interpretation mapped: proof_bucket "over_map env" "\<lambda>w. w" for env :: "(string \<rightharpoonup> bytes) worker_env"
  by unfold_locales
    (auto simp: over_map_def map_bucket_def startAffectedAreaArtifactWorkflow_def affectedAreaManifestExists_def Let_def
      run_bind_def run_call_def run_return_def)

section \<open>A file of one cell\<close>

definition worker_input :: affected_cells_input where
  "worker_input = sample_input\<lparr>affected_cells :=
     [\<lparr>h3_index = ''607985949711794175'', intensity_value = 650, cell_band = 1\<rparr>]\<rparr>"

definition worker_json :: js_value where
  "worker_json = JObj
     [(''event_uid'', JStr sample_uid), (''event_revision'', JNum 1), (''oracle_version'', JNum 2),
      (''geo_resolution'', JNum 7),
      (''cells_generation_method'', JStr ''shakemap_gridxml_h3_grid_point_p90_v1''),
      (''cell_metric'', JStr ''USGS_MMI''), (''cell_aggregation'', JStr ''GRID_POINT_P90''),
      (''intensity_scale'', JStr ''MMI_X100''),
      (''affected_cells'', JArr
        [JObj [(''h3_index'', JStr ''607985949711794175''), (''intensity_value'', JNum 650), (''cell_band'', JNum 1)]])]"

lemma worker_wf: "wf_input worker_input"
  using sample_wf by (simp add: wf_input_def worker_input_def sample_input_def wf_cell_def is_canonical_decimal_def is_digit_def)

lemma worker_parse: "parseAffectedCellsFile worker_json = Inr worker_input"
proof -
  have "denotes_file worker_json worker_input"
    by (simp add: denotes_file_def worker_json_def worker_input_def sample_input_def get_field_def denotes_cell_def
        REQUIRED_TOP_LEVEL_KEYS_def REQUIRED_CELL_KEYS_def insert_commute)
  with worker_wf show ?thesis by (simp add: parseAffectedCellsFile_Inr)
qed

lemma worker_cell: "cell_key (affected_cells worker_input ! 0) = 607985949711794175"
  by (simp add: worker_input_def cell_key_def read_nat_def digit_val_def)

lemma worker_encodable: "encodable worker_input"
  using worker_cell by (simp add: encodable_def worker_input_def sample_input_def U32_MAX_def U64_MAX_def)

lemma worker_cells: "affected_cells worker_input = [\<lparr>h3_index = ''607985949711794175'', intensity_value = 650, cell_band = 1\<rparr>]"
  by (simp add: worker_input_def)

definition worker_root :: string where
  "worker_root = cell_hash checksum32 worker_input (affected_cells worker_input ! 0)"

lemma worker_root_ok: "affectedCellsRoot checksum32 worker_input = Inr worker_root"
  using worker_encodable
  by (simp add: affectedCellsRoot_Inr [OF worker_wf] worker_cells merkleRoot_eq worker_root_def)

definition worker_body :: register_body where
  "worker_body = \<lparr>rb_event_uid = sample_uid, rb_event_revision = 1, rb_affected_cells_hash = sha256Hex checksum32 [],
     rb_affected_cells_root = worker_root, rb_affected_cell_count = 1, rb_geo_resolution = 7,
     rb_affected_cells_uri = ''walrus://blob/x''\<rparr>"

definition demo_worker :: "(string \<rightharpoonup> bytes) worker_env" where
  "demo_worker = over_map \<lparr>we_register_token = Some ''t'', we_geo_resolution = None, we_walrus_url = Some ''w'',
     we_shards = map_bucket, we_area_get = (\<lambda>k w. (Inr None, w)), we_create_batch = (\<lambda>id v w. (Inr [id], w)),
     we_get_instance = (\<lambda>id w. (Inr id, w)), we_instance_status = (\<lambda>id w. (Inr [], w)),
     we_instance_restart = (\<lambda>id w. (Inr (), w)),
     we_fetch = (\<lambda>u w. (Inr \<lparr>fr_status = 200, fr_body = NoBody [], fr_json = Inl []\<rparr>, w)),
     we_sha = checksum32, we_num = (\<lambda>q. show_int \<lfloor>q\<rfloor>), we_number = (\<lambda>s. jint 7),
     we_json_parse = (\<lambda>s. if s = [] then Inr worker_json else Inr (shard_json (entries_of checksum32 worker_input)))\<rparr>"

definition demo_url :: "string \<Rightarrow> url" where
  "demo_url tail = \<lparr>url_protocol = ''https:'', url_hostname = ''h'', url_port = [], url_username = [], url_password = [],
     url_pathname = ''/events/'' @ sample_uid @ ''/revisions/1/'' @ tail, url_search = [],
     url_params = [(''h3_index'', ''607985949711794175'')]\<rparr>"

definition demo_register :: "register_body \<Rightarrow> worker_request" where
  "demo_register body = \<lparr>wq_method = ''POST'', wq_url = demo_url ''affected-cells'',
     wq_headers = [(''x-sonari-affected-proof-register-token'', ''t'')], wq_json = Inr (body_json body)\<rparr>"

definition demo_get :: worker_request where
  "demo_get = \<lparr>wq_method = ''GET'', wq_url = demo_url ''proof'', wq_headers = [], wq_json = Inl []\<rparr>"

lemma demo_worker_simps [simp]:
  "we_sha demo_worker = checksum32" "we_num demo_worker q = show_int \<lfloor>q\<rfloor>" "we_register_token demo_worker = Some ''t''"
  "geo_config demo_worker = jint 7"
  by (simp_all add: demo_worker_def over_map_def geo_config_def)

lemma demo_routes:
  "match_route ''affected-cells'' (url_pathname (demo_url ''affected-cells'')) = Some (sample_uid, ''1'')"
  "match_route ''proof'' (url_pathname (demo_url ''proof'')) = Some (sample_uid, ''1'')"
  by code_simp+

lemma worker_hashes [simp]:
  "is_prefixed_hex32 worker_root" "is_prefixed_hex32 (sha256Hex checksum32 bs)" "is_prefixed_hex32 sample_uid"
  using cell_hash_hex32 [OF sha256_ok_checksum32, of worker_input "[affected_cells worker_input ! 0]"] sample_wf sha256_ok_checksum32
  by (simp_all add: worker_root_def hex32_list_def sha256Hex_def sha256_ok_def wf_input_def sample_input_def)

lemma demo_accepted:
  assumes "rb_event_uid b = sample_uid" "rb_event_revision b = 1" "is_prefixed_hex32 (rb_affected_cells_hash b)"
    "is_prefixed_hex32 (rb_affected_cells_root b)" "rb_affected_cell_count b = 1" "rb_geo_resolution b = 7"
    "rb_affected_cells_uri b = ''walrus://blob/x''"
  shows "accepted_request (demo_register b) demo_worker = Inr b"
proof -
  have "verifyRegisterToken (wq_headers (demo_register b)) (we_register_token demo_worker) = Inr ()"
    by (simp add: verify_token_Inr demo_register_def)
  moreover have "parsePathParams (demo_register b) = Inr (sample_uid, 1)"
    by (simp add: parsePathParams_def path_params_def demo_register_def demo_routes parseInt10_small read_nat_def digit_val_def)
  moreover have "parseRequestBody (demo_register b) demo_worker = Inr b"
    using assms
    by (cases b) (simp add: parseRequestBody_def demo_register_def body_json_def is_object_def field_of_def get_field_def
        validatePrefixedHex32_def validatePositiveInteger_def validateNonNegativeInteger_def js_integer_def
        validateWalrusUri_def WALRUS_PREFIX_def starts_with_def)
  ultimately show ?thesis using assms(1,2) by (simp add: accepted_request_def)
qed

lemma worker_accepted: "accepted_request (demo_register worker_body) demo_worker = Inr worker_body"
  by (rule demo_accepted) (simp_all add: worker_body_def)

lemma worker_blob: "blob_available demo_worker (\<lambda>w. w) ''walrus://blob/x'' []"
  by (simp add: blob_available_def fetchWalrusBlob_def demo_worker_def over_map_def run_bind_def run_check_def run_catch_def
      run_call_def parseWalrusBlobUri_def WALRUS_PREFIX_def starts_with_def response_ok_def arrayBuffer_def)

lemma worker_checked: "file_checked demo_worker (body_params worker_body) [] worker_input"
proof -
  have "we_json_parse demo_worker (utf8_text []) = Inr worker_json"
    by (simp add: demo_worker_def over_map_def utf8_text_def)
  moreover have "event_uid worker_input = sample_uid" "event_revision worker_input = 1"
    by (simp_all add: worker_input_def sample_input_def)
  ultimately show ?thesis
    by (simp add: file_checked_def body_params_def worker_body_def worker_parse worker_root_ok)
qed

lemma worker_text:
  "ascii (we_num demo_worker (of_int n))"
  "we_json_parse demo_worker (serializeShardEntries (we_num demo_worker) (entries_of (we_sha demo_worker) worker_input))
    = Inr (shard_json (entries_of (we_sha demo_worker) worker_input))"
  by (simp_all add: ascii_show_int) (simp add: demo_worker_def over_map_def serializeShardEntries_def shard_json_def)

lemma worker_get:
  "parseRequestParams demo_get = Inr (bp_eventUid (body_params worker_body), bp_eventRevision (body_params worker_body), ''607985949711794175'')"
  by (simp add: parseRequestParams_def path_params_def demo_get_def demo_routes parseInt10_small read_nat_def digit_val_def
      body_params_def worker_body_def) (simp add: demo_url_def)

lemma worker_requested: "parse_requested_index demo_worker ''607985949711794175'' = Inr (cell_key (affected_cells worker_input ! 0))"
  by (simp add: parse_requested_index_def js_integer_def worker_index worker_cell)

text \<open>The demonstration: a registration, then the proof of the cell.\<close>

lemma demo_registers:
  "\<exists>s'. worker_fetch (demo_register worker_body) demo_worker (Map.empty, Map.empty)
      = (Inr (jsonResponse (registered_json worker_body (manifest_of demo_worker (body_params worker_body) worker_input) True) 200), s')
    \<and> holds_proofs demo_worker (\<lambda>w. w) (body_params worker_body) worker_input s'"
proof -
  obtain env where env: "demo_worker = over_map env" by (simp add: demo_worker_def)
  have "wq_method (demo_register worker_body) = ''POST''" by (simp add: demo_register_def)
  moreover have "blob_available demo_worker (\<lambda>w. w) (rb_affected_cells_uri worker_body) []"
    using worker_blob by (simp add: worker_body_def)
  ultimately show ?thesis
    using mapped.registers [where env = env, folded env, OF worker_accepted] worker_checked by simp
qed

lemma demo_serves:
  assumes "holds_proofs demo_worker (\<lambda>w. w) (body_params worker_body) worker_input (w, c)"
  shows "\<exists>w1. worker_fetch demo_get demo_worker (w, c)
      = (Inr (jsonResponse (serializeResponse (shapeProofResponse (entry_of checksum32 worker_input 0)
          (manifest_of demo_worker (body_params worker_body) worker_input))) 200), (w1, c))"
proof -
  obtain env where env: "demo_worker = over_map env" by (simp add: demo_worker_def)
  have "wq_method demo_get = ''GET''" "0 < length (affected_cells worker_input)" by (simp_all add: demo_get_def worker_cells)
  with mapped.serves [where env = env, folded env, OF _ worker_text worker_checked assms _ _ worker_get worker_requested]
  show ?thesis using sha256_ok_checksum32 by auto
qed

section \<open>Properties\<close>

text \<open>C6. Every proof that is served verifies: an answer 200 to a GET request is for the cell that was asked for, its leaf
  hashes to a hash from which its steps replay to the root of the manifest of the event and revision in the path, and
  that root, leaf and proof are what the body says.\<close>

theorem served_proof_verifies:
  assumes "worker_fetch req env s = (Inr resp, s')" and "wq_method req = ''GET''" and "ws_status resp = 200"
  shows "\<exists>uid revision asked m s1 entry.
    parseRequestParams req = Inr (uid, revision, asked)
    \<and> load_served_manifest env uid revision s = (Inr m, s1)
    \<and> parse_requested_index env asked = Inr (leaf_h3_index entry)
    \<and> affectedCellLeafHash (we_sha env) (entry_leaf entry) = Inr (se_leaf_hash entry)
    \<and> replayProof (we_sha env) (se_leaf_hash entry) (se_proof entry) = Inr (wm_affected_cells_root m)
    \<and> ws_body resp = serializeResponse (shapeProofResponse entry m)"
  using assms(1)
proof (cases rule: dispatch_cases)
  case (answered resp')
  from answered(2) show ?thesis
  proof (cases rule: answer_cases)
    case (1 uid revision asked h m s1 entry)
    with answered(3) show ?thesis by (intro exI conjI) (auto simp: jsonResponse_def)
  qed
next
  case (unanswered e)
  with throws_errorsD [OF throws_answer unanswered(2)] assms(3) show ?thesis by (simp add: status_of_error)
next
  case (refused code message status)
  with assms(3) show ?thesis by (simp add: errorResponse_def jsonResponse_def)
qed (use assms(2) in simp)

theorem served_proof_verifies_witness:
  "\<exists>s resp s'. worker_fetch demo_get demo_worker s = (Inr resp, s') \<and> ws_status resp = 200
    \<and> (\<exists>uid revision asked m s1 entry.
      parseRequestParams demo_get = Inr (uid, revision, asked)
      \<and> load_served_manifest demo_worker uid revision s = (Inr m, s1)
      \<and> parse_requested_index demo_worker asked = Inr (leaf_h3_index entry)
      \<and> affectedCellLeafHash (we_sha demo_worker) (entry_leaf entry) = Inr (se_leaf_hash entry)
      \<and> replayProof (we_sha demo_worker) (se_leaf_hash entry) (se_proof entry) = Inr (wm_affected_cells_root m)
      \<and> ws_body resp = serializeResponse (shapeProofResponse entry m))"
proof -
  obtain w c where "holds_proofs demo_worker (\<lambda>w. w) (body_params worker_body) worker_input (w, c)"
    using demo_registers by auto
  from demo_serves [OF this] obtain resp w1 where run: "worker_fetch demo_get demo_worker (w, c) = (Inr resp, (w1, c))"
    and status: "ws_status resp = 200" by (auto simp: jsonResponse_def)
  have "wq_method demo_get = ''GET''" by (simp add: demo_get_def)
  from served_proof_verifies [OF run this status] run status show ?thesis by blast
qed

text \<open>C8. Nothing is stored unchecked: whatever the request, if a condition on the world that every call but a write to the
  bucket keeps is lost, then a file was fetched whose bytes hash to the declared hash, that parses, is of the declared
  event and revision and has the declared root; and either the request was a registration that carried the configured
  token and agreed with its path, and no manifest was found before, or a proof was asked for and the declarations are
  those of the manifest already stored.\<close>

theorem writes_are_checked:
  assumes keep: "reads_keep P env" and "P (fst s)" and run: "worker_fetch req env s = (r, s')" and "\<not> P (fst s')"
  shows "\<exists>p bs inp. file_checked env p bs inp \<and>
    ((wq_method req = ''POST'' \<and> (\<exists>t body s1. t \<noteq> [] \<and> we_register_token env = Some t
        \<and> map_of (wq_headers req) ''x-sonari-affected-proof-register-token'' = Some t
        \<and> accepted_request req env = Inr body \<and> p = body_params body
        \<and> tryLoadExistingManifest env (rb_event_uid body) (rb_event_revision body) s = (Inr None, s1)))
     \<or> (wq_method req = ''GET'' \<and> (\<exists>uid revision asked m s1. parseRequestParams req = Inr (uid, revision, asked)
        \<and> load_served_manifest env uid revision s = (Inr m, s1) \<and> p = manifest_params m)))"
proof -
  have get: ?thesis if "wq_method req = ''GET''" "handleProofRequestUnchecked req env s = (q, s')" for q
    using answer_writes [OF keep that(2) assms(2,4)] that(1) by blast
  from run show ?thesis
  proof (cases rule: dispatch_cases)
    case (registered q)
    with register_writes [OF keep registered(2) assms(2,4)] show ?thesis by blast
  qed (use get assms(2,4) in auto)
qed

lemma demo_reads_keep: "reads_keep P demo_worker"
  by (auto simp: reads_keep_def keeps_def demo_worker_def over_map_def map_bucket_def)

theorem writes_are_checked_witness:
  "\<exists>s r s'. worker_fetch (demo_register worker_body) demo_worker s = (r, s') \<and> fst s = Map.empty \<and> fst s' \<noteq> Map.empty
    \<and> (\<exists>p bs inp. file_checked demo_worker p bs inp \<and>
      ((wq_method (demo_register worker_body) = ''POST'' \<and> (\<exists>t body s1. t \<noteq> [] \<and> we_register_token demo_worker = Some t
          \<and> map_of (wq_headers (demo_register worker_body)) ''x-sonari-affected-proof-register-token'' = Some t
          \<and> accepted_request (demo_register worker_body) demo_worker = Inr body \<and> p = body_params body
          \<and> tryLoadExistingManifest demo_worker (rb_event_uid body) (rb_event_revision body) s = (Inr None, s1)))
       \<or> (wq_method (demo_register worker_body) = ''GET'' \<and> (\<exists>uid revision asked m s1.
          parseRequestParams (demo_register worker_body) = Inr (uid, revision, asked)
          \<and> load_served_manifest demo_worker uid revision s = (Inr m, s1) \<and> p = manifest_params m))))"
proof -
  obtain r s' where run: "worker_fetch (demo_register worker_body) demo_worker (Map.empty, Map.empty) = (r, s')"
    and held: "holds_proofs demo_worker (\<lambda>w. w) (body_params worker_body) worker_input s'"
    using demo_registers by blast
  then have changed: "\<not> fst s' = Map.empty" by (auto simp: holds_proofs_def)
  have empty: "fst (Map.empty, Map.empty) = Map.empty" by simp
  note writes_are_checked [where P = "\<lambda>w. w = Map.empty", OF demo_reads_keep empty run changed]
  with run empty changed show ?thesis by blast
qed

text \<open>C9. A registered root is not replaced: when a manifest of the event and revision is found, a registration that passes
  its checks answers 409 and changes nothing more if the root differs or any other declaration does, and otherwise only
  starts the workflow and answers that nothing was stored.\<close>

theorem registered_root_kept:
  assumes "wq_method req = ''POST''" and "accepted_request req env = Inr body"
    and "tryLoadExistingManifest env (rb_event_uid body) (rb_event_revision body) s = (Inr (Some m), s1)"
  shows "if wm_affected_cells_root m \<noteq> rb_affected_cells_root body
    then worker_fetch req env s
      = (Inr (errorResponse CellsRootMismatch ''Existing manifest has different root. Cannot overwrite.'' 409), s1)
    else if wm_affected_cells_hash m \<noteq> rb_affected_cells_hash body \<or> wm_affected_cells_uri m \<noteq> rb_affected_cells_uri body
      \<or> wm_affected_cell_count m \<noteq> rb_affected_cell_count body \<or> wm_geo_resolution m \<noteq> rb_geo_resolution body
    then \<exists>message. worker_fetch req env s = (Inr (errorResponse CellsRootMismatch message 409), s1)
    else worker_fetch req env s = (case startAffectedAreaArtifactWorkflow env body s1 of
        (Inl e, s') \<Rightarrow> (Inr (handler_error e), s')
      | (Inr _, s') \<Rightarrow> (Inr (jsonResponse (registered_json body m False) 200), s'))"
proof -
  have "worker_fetch req env s = apfst answer_of (register_again env body m s1)"
    using register_finds [OF assms] .
  then show ?thesis
    by (auto simp: register_again_def run_bind_def run_check_def run_throw_def run_return_def answer_of_def handler_error_def
        assertExistingManifestMetadataMatches_def metadata_mismatches_def split: prod.splits sum.splits)
qed


lemma demo_bucket: "proof_bucket demo_worker (\<lambda>w. w)"
  unfolding demo_worker_def by (rule mapped.proof_bucket_axioms)


definition other_body :: register_body where
  "other_body = worker_body\<lparr>rb_affected_cells_root := sample_uid\<rparr>"

theorem registered_root_kept_witness:
  "\<exists>s s1. worker_fetch (demo_register other_body) demo_worker s
      = (Inr (errorResponse CellsRootMismatch ''Existing manifest has different root. Cannot overwrite.'' 409), s1)"
proof -
  let ?m = "manifest_of demo_worker (body_params worker_body) worker_input\<lparr>wm_affected_cells_root := worker_root @ worker_root\<rparr>"
  let ?c = "[manifestCacheKey (we_num demo_worker) sample_uid 1 \<mapsto> ?m]"
  have post: "wq_method (demo_register other_body) = ''POST''" by (simp add: demo_register_def)
  have accepted: "accepted_request (demo_register other_body) demo_worker = Inr other_body"
    by (rule demo_accepted) (simp_all add: other_body_def worker_body_def)
  have found: "tryLoadExistingManifest demo_worker (rb_event_uid other_body) (rb_event_revision other_body) (Map.empty, ?c)
      = (Inr (Some ?m), (Map.empty, ?c))"
    by (simp add: tryLoadExistingManifest_def loadProofManifest_def Let_def run_catch_def run_bind_def run_return_def
        other_body_def worker_body_def)
  have "length (worker_root @ worker_root) \<noteq> length sample_uid"
    using worker_hashes(1,3) by (simp add: is_prefixed_hex32_def del: worker_hashes)
  then have "worker_root @ worker_root \<noteq> sample_uid" by metis
  then have "wm_affected_cells_root ?m \<noteq> rb_affected_cells_root other_body" by (simp add: other_body_def)
  with registered_root_kept [OF post accepted found] show ?thesis by auto
qed

end
