(* ===== verification/Identity.thy ===== *)
theory Identity
  imports RunnerShell
begin

text \<open>
  Identity verification: the signed result of \<open>nautilus/verifiers/membership/shared/src/index.ts\<close>, its BCS bytes and the
  duplicate keys of a person, and the World ID signal of \<open>packages/proof-core/src/world-id-signal.ts\<close> and
  \<open>identity-statement-hash.ts\<close>.

  SHA-256 and Keccak-256 are the parameters \<open>sha\<close> and \<open>keccak\<close>.
\<close>

section \<open>The result\<close>

datatype identity_provider = Kyc | WorldId

definition IDENTITY_RESULT_INTENT :: string where
  "IDENTITY_RESULT_INTENT = ''SONARI_IDENTITY_VERIFICATION_V1''"

definition IDENTITY_RESULT_FIELD_ORDER :: "string list" where
  "IDENTITY_RESULT_FIELD_ORDER =
     [''intent'', ''verifier_family'', ''verifier_version'', ''registry_id'', ''membership_id'', ''owner'',
      ''provider'', ''verified'', ''duplicate_key_hash'', ''evidence_hash'', ''issued_at_ms'', ''expires_at_ms'',
      ''terms_version'', ''signed_statement_hash'']"

definition IDENTITY_PROVIDER_BCS :: "identity_provider \<Rightarrow> byte" where
  "IDENTITY_PROVIDER_BCS p = (case p of Kyc \<Rightarrow> 1 | WorldId \<Rightarrow> 2)"

record identity_result =
  ir_intent :: string
  ir_verifier_family :: string
  ir_verifier_version :: int
  ir_registry_id :: string
  ir_membership_id :: string
  ir_owner :: string
  ir_provider :: identity_provider
  ir_verified :: bool
  ir_duplicate_key_hash :: string
  ir_evidence_hash :: string
  ir_issued_at_ms :: int
  ir_expires_at_ms :: int
  ir_terms_version :: int
  ir_signed_statement_hash :: string

section \<open>Reading it\<close>

definition parseIdentityResultIntent :: "js_value \<Rightarrow> js_error + string" where
  "parseIdentityResultIntent v =
     (if v \<noteq> JStr IDENTITY_RESULT_INTENT then Inl (''intent must be '' @ IDENTITY_RESULT_INTENT)
      else Inr IDENTITY_RESULT_INTENT)"

definition parseVerifierFamily :: "js_value \<Rightarrow> js_error + string" where
  "parseVerifierFamily v =
     (if v \<noteq> JStr ''identity'' then Inl ''verifier_family must be identity'' else Inr ''identity'')"

definition parseIdentityProvider :: "js_value \<Rightarrow> js_error + identity_provider" where
  "parseIdentityProvider v =
     (if v = JStr ''kyc'' then Inr Kyc else if v = JStr ''world_id'' then Inr WorldId
      else Inl ''provider must be kyc or world_id'')"

definition parseBoolean :: "js_value \<Rightarrow> string \<Rightarrow> js_error + bool" where
  "parseBoolean v name = (case v of JBool b \<Rightarrow> Inr b | _ \<Rightarrow> Inl (name @ '' must be a boolean''))"

definition parseU64 :: "js_value \<Rightarrow> string \<Rightarrow> js_error + int" where
  "parseU64 v name =
     (case v of
        JNum q \<Rightarrow> if \<not> isSafeInteger q \<or> q < 0 then Inl (name @ '' must be a safe unsigned integer'')
                  else Inr \<lfloor>q\<rfloor>
      | _ \<Rightarrow> Inl (name @ '' must be a safe unsigned integer''))"

definition parseHexString :: "js_value \<Rightarrow> string \<Rightarrow> js_error + string" where
  "parseHexString v name =
     (case v of JStr s \<Rightarrow> Inr s | _ \<Rightarrow> Inl (name @ '' must be a 0x-prefixed hex string''))"

definition parseBytes32 :: "string \<Rightarrow> string \<Rightarrow> js_error + bytes" where
  "parseBytes32 value name =
     (if \<not> hash32_text value then Inl (name @ '' must be a 32-byte 0x-prefixed hex string'')
      else let hex = drop 2 value in
        Inr (map (\<lambda>i. store_u8 (parseInt16 (substr hex (2 * i) (2 * i + 2)))) [0..<32]))"

definition parseIdentityVerificationResult :: "js_value \<Rightarrow> js_error + identity_result" where
  "parseIdentityVerificationResult input =
     (case input of
        JObj fs \<Rightarrow>
          (case find (\<lambda>k. k \<notin> set IDENTITY_RESULT_FIELD_ORDER) (map fst fs) of
             Some k \<Rightarrow> Inl (''Unexpected identity result field: '' @ k)
           | None \<Rightarrow>
               res_bind (parseIdentityResultIntent (get_field fs ''intent'')) (\<lambda>intent.
               res_bind (parseVerifierFamily (get_field fs ''verifier_family'')) (\<lambda>family.
               res_bind (parseU64 (get_field fs ''verifier_version'') ''verifier_version'') (\<lambda>version.
               res_bind (parseHexString (get_field fs ''registry_id'') ''registry_id'') (\<lambda>registry.
               res_bind (parseHexString (get_field fs ''membership_id'') ''membership_id'') (\<lambda>membership.
               res_bind (parseHexString (get_field fs ''owner'') ''owner'') (\<lambda>owner.
               res_bind (parseIdentityProvider (get_field fs ''provider'')) (\<lambda>provider.
               res_bind (parseBoolean (get_field fs ''verified'') ''verified'') (\<lambda>verified.
               res_bind (parseHexString (get_field fs ''duplicate_key_hash'') ''duplicate_key_hash'') (\<lambda>duplicate.
               res_bind (parseHexString (get_field fs ''evidence_hash'') ''evidence_hash'') (\<lambda>evidence.
               res_bind (parseU64 (get_field fs ''issued_at_ms'') ''issued_at_ms'') (\<lambda>issued.
               res_bind (parseU64 (get_field fs ''expires_at_ms'') ''expires_at_ms'') (\<lambda>expires.
               res_bind (parseU64 (get_field fs ''terms_version'') ''terms_version'') (\<lambda>terms.
               res_bind (parseHexString (get_field fs ''signed_statement_hash'') ''signed_statement_hash'') (\<lambda>statement.
               res_bind (parseBytes32 registry ''registry_id'') (\<lambda>_.
               res_bind (parseBytes32 membership ''membership_id'') (\<lambda>_.
               res_bind (parseBytes32 owner ''owner'') (\<lambda>_.
               res_bind (parseBytes32 duplicate ''duplicate_key_hash'') (\<lambda>_.
               res_bind (parseBytes32 evidence ''evidence_hash'') (\<lambda>_.
               res_bind (parseBytes32 statement ''signed_statement_hash'') (\<lambda>_.
                 Inr \<lparr>ir_intent = intent, ir_verifier_family = family, ir_verifier_version = version,
                      ir_registry_id = registry, ir_membership_id = membership, ir_owner = owner,
                      ir_provider = provider, ir_verified = verified, ir_duplicate_key_hash = duplicate,
                      ir_evidence_hash = evidence, ir_issued_at_ms = issued, ir_expires_at_ms = expires,
                      ir_terms_version = terms, ir_signed_statement_hash = statement\<rparr>)))))))))))))))))))))
      | _ \<Rightarrow> Inl ''Identity verification result must be an object'')"

section \<open>Its bytes\<close>

text \<open>The UTF-8 bytes of the code points of a string.\<close>

definition utf8_point :: "int \<Rightarrow> bytes" where
  "utf8_point c =
     (if c \<le> 0x7f then [word_of_int c]
      else if c \<le> 0x7ff then [word_of_int (0xc0 OR drop_bit 6 c), word_of_int (0x80 OR (c AND 0x3f))]
      else if c \<le> 0xffff
      then [word_of_int (0xe0 OR drop_bit 12 c), word_of_int (0x80 OR (drop_bit 6 c AND 0x3f)),
            word_of_int (0x80 OR (c AND 0x3f))]
      else [word_of_int (0xf0 OR drop_bit 18 c), word_of_int (0x80 OR (drop_bit 12 c AND 0x3f)),
            word_of_int (0x80 OR (drop_bit 6 c AND 0x3f)), word_of_int (0x80 OR (c AND 0x3f))])"

definition utf8Bytes :: "int list \<Rightarrow> bytes" where
  "utf8Bytes points = concat (map utf8_point points)"

text \<open>The code points of ASCII text; both texts the encoder is called on are ASCII literals.\<close>

definition code_points :: "string \<Rightarrow> int list" where
  "code_points s = map of_char s"

function encodeUleb128 :: "nat \<Rightarrow> bytes" where
  "encodeUleb128 value =
     (let low = value AND 0x7f; remaining = drop_bit 7 value in
      if remaining \<noteq> 0 then word_of_nat (low OR 0x80) # encodeUleb128 remaining else [word_of_nat low])"
  by pat_completeness auto
termination by (relation "measure id") (auto simp: drop_bit_eq_div)

declare encodeUleb128.simps [simp del]

definition encodeBytes :: "bytes \<Rightarrow> bytes" where
  "encodeBytes bs = encodeUleb128 (length bs) @ bs"

definition encodeU64 :: "int \<Rightarrow> bytes" where
  "encodeU64 value = map (\<lambda>i. word_of_int (drop_bit (8 * i) value AND 0xff)) [0..<8]"

definition encodeIdentityVerificationResultBcsHex :: "js_value \<Rightarrow> js_error + string" where
  "encodeIdentityVerificationResultBcsHex input =
     res_bind (parseIdentityVerificationResult input) (\<lambda>r.
     res_bind (parseBytes32 (ir_registry_id r) ''registry_id'') (\<lambda>registry.
     res_bind (parseBytes32 (ir_membership_id r) ''membership_id'') (\<lambda>membership.
     res_bind (parseBytes32 (ir_owner r) ''owner'') (\<lambda>owner.
     res_bind (parseBytes32 (ir_duplicate_key_hash r) ''duplicate_key_hash'') (\<lambda>duplicate.
     res_bind (parseBytes32 (ir_evidence_hash r) ''evidence_hash'') (\<lambda>evidence.
     res_bind (parseBytes32 (ir_signed_statement_hash r) ''signed_statement_hash'') (\<lambda>statement.
       Inr (bytesToPrefixedHex
         (encodeBytes (utf8Bytes (code_points (ir_intent r)))
          @ encodeBytes (utf8Bytes (code_points (ir_verifier_family r)))
          @ encodeU64 (ir_verifier_version r) @ registry @ membership @ owner
          @ [IDENTITY_PROVIDER_BCS (ir_provider r)] @ [if ir_verified r then 1 else 0]
          @ duplicate @ evidence @ encodeU64 (ir_issued_at_ms r) @ encodeU64 (ir_expires_at_ms r)
          @ encodeU64 (ir_terms_version r) @ statement)))))))))"

section \<open>Duplicate keys\<close>

record kyc_key_input =
  kk_provider_id :: string
  kk_provider_user_unique_id :: string

record world_id_key_input =
  wk_rp_id :: string
  wk_action :: string
  wk_nullifier :: string

definition nul :: char where "nul = CHR 0x00"

definition hex_number :: "string \<Rightarrow> nat" where
  "hex_number s = foldl (\<lambda>a c. 16 * a + hex_val c) 0 s"

definition canonicalWorldIdNullifier :: "string \<Rightarrow> js_error + string" where
  "canonicalWorldIdNullifier n =
     (if n = [] \<or> nul \<in> set n
      then Inl ''World ID nullifier must be a non-empty decimal or 0x-prefixed hex string without NUL''
      else if (starts_with n ''0x'' \<or> starts_with n ''0X'') \<and> drop 2 n \<noteq> [] \<and> list_all is_hex (drop 2 n)
      then Inr (show_nat (hex_number (drop 2 n)))
      else if list_all is_digit n then Inr (show_nat (read_nat n))
      else Inl ''World ID nullifier must be a decimal or 0x-prefixed hex string'')"

definition joinDuplicateKeyParts :: "string list \<Rightarrow> js_error + string" where
  "joinDuplicateKeyParts parts =
     (if list_ex (\<lambda>p. p = [] \<or> nul \<in> set p) parts
      then Inl ''duplicate key input parts must be non-empty strings without NUL''
      else Inr (join_with [nul] parts))"

definition sha256_text_hex :: "hash_fn \<Rightarrow> string \<Rightarrow> string" where
  "sha256_text_hex sha input = bytesToPrefixedHex (sha (map of_char input))"

definition computeKycDuplicateKeyHash :: "hash_fn \<Rightarrow> kyc_key_input \<Rightarrow> js_error + string" where
  "computeKycDuplicateKeyHash sha i =
     res_bind (joinDuplicateKeyParts [''sonari:kyc:v1'', kk_provider_id i, kk_provider_user_unique_id i]) (\<lambda>t.
       Inr (sha256_text_hex sha t))"

definition computeWorldIdDuplicateKeyHash :: "hash_fn \<Rightarrow> world_id_key_input \<Rightarrow> js_error + string" where
  "computeWorldIdDuplicateKeyHash sha i =
     res_bind (canonicalWorldIdNullifier (wk_nullifier i)) (\<lambda>nullifier.
     res_bind (joinDuplicateKeyParts [''sonari:world_id:v2'', wk_rp_id i, wk_action i, nullifier]) (\<lambda>t.
       Inr (sha256_text_hex sha t)))"

section \<open>The World ID signal\<close>

definition WORLD_ID_SIGNAL_HASH_PREFIX :: string where
  "WORLD_ID_SIGNAL_HASH_PREFIX = ''sonari:world_id_signal:v1''"

definition IDENTITY_DUPLICATE_ACCOUNT_STATEMENT :: string where
  "IDENTITY_DUPLICATE_ACCOUNT_STATEMENT = ''I attest that I do not hold another active Sonari Membership SBT.''"

definition hashToFieldBytes :: "hash_fn \<Rightarrow> bytes \<Rightarrow> string" where
  "hashToFieldBytes keccak bs = bytesToPrefixedHex (0 # take 31 (keccak bs))"

definition stripHexPrefix :: "string \<Rightarrow> string option" where
  "stripHexPrefix s = (if starts_with s ''0x'' \<or> starts_with s ''0X'' then Some (drop 2 s) else None)"

definition canonicalHex32Lower :: "string \<Rightarrow> string \<Rightarrow> js_error + string" where
  "canonicalHex32Lower value name =
     (case stripHexPrefix value of
        None \<Rightarrow> Inl (name @ '' must be a 0x-prefixed 32-byte hex string'')
      | Some hex \<Rightarrow>
          if \<not> (length hex = 64 \<and> list_all is_hex hex)
          then Inl (name @ '' must be a 0x-prefixed 32-byte hex string'') else Inr (''0x'' @ map to_lower hex))"

definition worldIdSignalString :: "string \<Rightarrow> string \<Rightarrow> string \<Rightarrow> js_error + string" where
  "worldIdSignalString owner membershipId statement =
     res_bind (canonicalHex32Lower owner ''owner'') (\<lambda>o1.
     res_bind (canonicalHex32Lower membershipId ''membership_id'') (\<lambda>m1.
     res_bind (canonicalHex32Lower statement ''signed_statement_hash'') (\<lambda>s1.
       Inr (join_with [nul] [WORLD_ID_SIGNAL_HASH_PREFIX, o1, m1, s1]))))"

definition computeWorldIdSignalHash :: "hash_fn \<Rightarrow> string \<Rightarrow> string \<Rightarrow> string \<Rightarrow> js_error + string" where
  "computeWorldIdSignalHash keccak owner membershipId statement =
     res_bind (worldIdSignalString owner membershipId statement) (\<lambda>t.
       Inr (hashToFieldBytes keccak (map of_char t)))"

definition computeIdentityStatementHash :: "hash_fn \<Rightarrow> rat \<Rightarrow> js_error + string" where
  "computeIdentityStatementHash keccak termsVersion =
     (if \<not> isSafeInteger termsVersion \<or> termsVersion < 0
      then Inl ''termsVersion must be a non-negative safe integer''
      else Inr (hashToFieldBytes keccak (map of_char
        (join_with [nul] [IDENTITY_DUPLICATE_ACCOUNT_STATEMENT, ''terms_version:'' @ show_int \<lfloor>termsVersion\<rfloor>]))))"

section \<open>The bytes as one formula\<close>

lemma uleb128_bits: "encodeUleb128 n = uleb128 n"
proof (induction n rule: encodeUleb128.induct)
  case (1 n)
  have m: "(127 :: nat) = mask 7" by (simp add: mask_eq_exp_minus_1)
  have low: "n AND 0x7f = n mod 128" unfolding m by (simp flip: take_bit_eq_mask add: take_bit_eq_mod)
  have or: "(word_of_nat (k OR 0x80) :: byte) = word_of_nat k OR 0x80" for k
    by (simp add: of_nat_or_eq)
  show ?case
    using 1 [OF refl refl] by (simp add: encodeUleb128.simps [of n] uleb128.simps [of n] Let_def low or drop_bit_eq_div)
qed

lemma encodeU64_le: "encodeU64 v = le_bytes 8 v"
proof -
  have "(word_of_int (drop_bit k v AND 0xff) :: byte) = word_of_int (v div 2 ^ k)" for k
    by (rule bit_eqI) (auto simp: bit_simps bit_byte_mask simp flip: drop_bit_eq_div)
  then show ?thesis by (simp add: encodeU64_def le_bytes_def mult.commute)
qed

lemma encode_texts:
  "encodeBytes (utf8Bytes (code_points IDENTITY_RESULT_INTENT)) = utf8Vector IDENTITY_RESULT_INTENT"
  "encodeBytes (utf8Bytes (code_points ''identity'')) = utf8Vector ''identity''"
  by (simp_all add: encodeBytes_def uleb128_bits utf8Vector_def utf8Bytes_def code_points_def utf8_point_def
      IDENTITY_RESULT_INTENT_def)

lemma hex_val_lower: "is_hex c \<Longrightarrow> hex_val (to_lower c) = hex_val c"
  by (auto simp: hex_val_def to_lower_def is_hex_def is_upper_az_def is_digit_def of_char_of)

lemma parseBytes32_Inr [res_simps]:
  "parseBytes32 s name = Inr bs \<longleftrightarrow> hash32_text s \<and> bs = hexToBytes (''0x'' @ normalizeHexBytes s)"
proof -
  have "substr (drop 2 s) (2 * i) (2 * i + 2) = [s ! (2 * i + 2), s ! (2 * i + 3)]"
    "substr (''0x'' @ normalizeHexBytes s) (2 + i * 2) (4 + i * 2) = [to_lower (s ! (2 * i + 2)), to_lower (s ! (2 * i + 3))]"
    "is_hex (s ! (2 * i + 2))" "is_hex (s ! (2 * i + 3))"
    if s: "hash32_text s" and i: "i < 32" for i
  proof -
    let ?t = "drop 2 s"
    from s have t: "length ?t = 64" "list_all is_hex ?t" and n: "normalizeHexBytes s = map to_lower ?t"
      by (simp_all add: hash32_text_def normalizeHexBytes_def strip0x_def)
    have nth: "?t ! (2 * i) = s ! (2 * i + 2)" "?t ! (2 * i + 1) = s ! (2 * i + 3)"
      using s i by (simp_all add: hash32_text_def add.commute numeral_3_eq_3)
    show "substr ?t (2 * i) (2 * i + 2) = [s ! (2 * i + 2), s ! (2 * i + 3)]"
      using take2_drop [of "2 * i" ?t] t i nth by (simp add: substr_def)
    show "substr (''0x'' @ normalizeHexBytes s) (2 + i * 2) (4 + i * 2) = [to_lower (s ! (2 * i + 2)), to_lower (s ! (2 * i + 3))]"
      using take2_drop [of "2 * i" "map to_lower ?t"] t i nth
      by (simp add: substr_def n mult.commute)
    show "is_hex (s ! (2 * i + 2))" "is_hex (s ! (2 * i + 3))"
      using t i nth by (metis list_all_length nth mult_2 add_less_mono numeral_Bit0, simp add: list_all_length flip: nth)
  qed
  then show ?thesis
    by (auto simp: parseBytes32_def hexToBytes_def Let_def parseInt16_pair hex_val_lower is_hex_lower to_lower_hex)
qed

definition identity_bytes :: "identity_result \<Rightarrow> bytes" where
  "identity_bytes r =
     utf8Vector (ir_intent r) @ utf8Vector (ir_verifier_family r) @ le_bytes 8 (ir_verifier_version r)
     @ hexToBytes (''0x'' @ normalizeHexBytes (ir_registry_id r))
     @ hexToBytes (''0x'' @ normalizeHexBytes (ir_membership_id r))
     @ hexToBytes (''0x'' @ normalizeHexBytes (ir_owner r))
     @ [IDENTITY_PROVIDER_BCS (ir_provider r)] @ [if ir_verified r then 1 else 0]
     @ hexToBytes (''0x'' @ normalizeHexBytes (ir_duplicate_key_hash r))
     @ hexToBytes (''0x'' @ normalizeHexBytes (ir_evidence_hash r))
     @ le_bytes 8 (ir_issued_at_ms r) @ le_bytes 8 (ir_expires_at_ms r) @ le_bytes 8 (ir_terms_version r)
     @ hexToBytes (''0x'' @ normalizeHexBytes (ir_signed_statement_hash r))"

definition safe_u64 :: "int \<Rightarrow> bool" where
  "safe_u64 n \<longleftrightarrow> 0 \<le> n \<and> n \<le> MAX_SAFE_INTEGER"

definition identity_fits :: "identity_result \<Rightarrow> bool" where
  "identity_fits r \<longleftrightarrow> ir_intent r = IDENTITY_RESULT_INTENT \<and> ir_verifier_family r = ''identity''
     \<and> safe_u64 (ir_verifier_version r) \<and> safe_u64 (ir_issued_at_ms r) \<and> safe_u64 (ir_expires_at_ms r)
     \<and> safe_u64 (ir_terms_version r)
     \<and> hash32_text (ir_registry_id r) \<and> hash32_text (ir_membership_id r) \<and> hash32_text (ir_owner r)
     \<and> hash32_text (ir_duplicate_key_hash r) \<and> hash32_text (ir_evidence_hash r)
     \<and> hash32_text (ir_signed_statement_hash r)"

text \<open>The object a result is read from, up to the order of its fields.\<close>

definition provider_text :: "identity_provider \<Rightarrow> string" where
  "provider_text p = (case p of Kyc \<Rightarrow> ''kyc'' | WorldId \<Rightarrow> ''world_id'')"

definition identity_json :: "identity_result \<Rightarrow> json_record" where
  "identity_json r =
     [(''intent'', JStr (ir_intent r)), (''verifier_family'', JStr (ir_verifier_family r)),
      (''verifier_version'', jint (ir_verifier_version r)), (''registry_id'', JStr (ir_registry_id r)),
      (''membership_id'', JStr (ir_membership_id r)), (''owner'', JStr (ir_owner r)),
      (''provider'', JStr (provider_text (ir_provider r))), (''verified'', JBool (ir_verified r)),
      (''duplicate_key_hash'', JStr (ir_duplicate_key_hash r)), (''evidence_hash'', JStr (ir_evidence_hash r)),
      (''issued_at_ms'', jint (ir_issued_at_ms r)), (''expires_at_ms'', jint (ir_expires_at_ms r)),
      (''terms_version'', jint (ir_terms_version r)), (''signed_statement_hash'', JStr (ir_signed_statement_hash r))]"

lemma parseU64_Inr [res_simps]: "parseU64 v name = Inr n \<longleftrightarrow> safe_u64 n \<and> v = jint n"
  by (auto simp: parseU64_def safe_u64_def isSafeInteger_def split: js_value.splits)

lemma parse_values_Inr [res_simps]:
  "parseIdentityResultIntent v = Inr s \<longleftrightarrow> v = JStr IDENTITY_RESULT_INTENT \<and> s = IDENTITY_RESULT_INTENT"
  "parseVerifierFamily v = Inr s \<longleftrightarrow> v = JStr ''identity'' \<and> s = ''identity''"
  "parseIdentityProvider v = Inr p \<longleftrightarrow> v = JStr (provider_text p)"
  "parseBoolean v name = Inr b \<longleftrightarrow> v = JBool b"
  "parseHexString v name = Inr s \<longleftrightarrow> v = JStr s"
  by (auto simp: parseIdentityResultIntent_def parseVerifierFamily_def parseIdentityProvider_def parseBoolean_def
      parseHexString_def provider_text_def split: js_value.splits identity_provider.splits)

text \<open>A value is read exactly when it is such an object and its result is in range.\<close>

definition denotes_identity :: "js_value \<Rightarrow> identity_result \<Rightarrow> bool" where
  "denotes_identity v r \<longleftrightarrow> identity_fits r
     \<and> (\<exists>fs. v = JObj fs \<and> set (map fst fs) \<subseteq> set IDENTITY_RESULT_FIELD_ORDER
          \<and> (\<forall>(k, x) \<in> set (identity_json r). get_field fs k = x))"

lemma parse_identity_exact: "parseIdentityVerificationResult v = Inr r \<longleftrightarrow> denotes_identity v r"
proof (cases v)
  case (JObj fs)
  show ?thesis
  proof (cases "find (\<lambda>k. k \<notin> set IDENTITY_RESULT_FIELD_ORDER) (map fst fs)")
    case None
    then have "set (map fst fs) \<subseteq> set IDENTITY_RESULT_FIELD_ORDER"
      unfolding find_None_iff by blast
    then show ?thesis
      by (cases r) (auto simp: parseIdentityVerificationResult_def JObj None res_simps denotes_identity_def
          identity_json_def identity_fits_def)
  next
    case (Some k)
    then have "\<not> set (map fst fs) \<subseteq> set IDENTITY_RESULT_FIELD_ORDER"
      unfolding find_Some_iff by (metis nth_mem subsetD)
    then show ?thesis by (auto simp: parseIdentityVerificationResult_def JObj Some denotes_identity_def)
  qed
qed (simp_all add: parseIdentityVerificationResult_def denotes_identity_def)

lemma encode_identity_exact:
  "encodeIdentityVerificationResultBcsHex v = Inr h \<longleftrightarrow>
     (\<exists>r. denotes_identity v r \<and> h = bytesToPrefixedHex (identity_bytes r))"
proof -
  have "encodeBytes (utf8Bytes (code_points (ir_intent r))) = utf8Vector (ir_intent r)
      \<and> encodeBytes (utf8Bytes (code_points (ir_verifier_family r))) = utf8Vector (ir_verifier_family r)
      \<and> hash32_text (ir_registry_id r) \<and> hash32_text (ir_membership_id r) \<and> hash32_text (ir_owner r)
      \<and> hash32_text (ir_duplicate_key_hash r) \<and> hash32_text (ir_evidence_hash r)
      \<and> hash32_text (ir_signed_statement_hash r)" if "denotes_identity v r" for r
    using that by (auto simp: denotes_identity_def identity_fits_def encode_texts)
  then show ?thesis
    unfolding encodeIdentityVerificationResultBcsHex_def
    by (auto simp: res_simps parse_identity_exact encodeU64_le identity_bytes_def)
qed

text \<open>A result with its hexadecimal texts in lower case.\<close>

definition lower_identity :: "identity_result \<Rightarrow> identity_result" where
  "lower_identity r = r\<lparr>ir_registry_id := normalizeHexBytes (ir_registry_id r),
     ir_membership_id := normalizeHexBytes (ir_membership_id r), ir_owner := normalizeHexBytes (ir_owner r),
     ir_duplicate_key_hash := normalizeHexBytes (ir_duplicate_key_hash r),
     ir_evidence_hash := normalizeHexBytes (ir_evidence_hash r),
     ir_signed_statement_hash := normalizeHexBytes (ir_signed_statement_hash r)\<rparr>"

lemma safe_u64_le_bytes: "safe_u64 a \<Longrightarrow> safe_u64 b \<Longrightarrow> le_bytes 8 a = le_bytes 8 b \<longleftrightarrow> a = b"
  by (rule le_bytes_inject) (simp_all add: safe_u64_def MAX_SAFE_INTEGER_def)

lemma provider_inject: "IDENTITY_PROVIDER_BCS p = IDENTITY_PROVIDER_BCS q \<longleftrightarrow> p = q"
  by (cases p; cases q) (simp_all add: IDENTITY_PROVIDER_BCS_def)

lemma identity_bytes_inject:
  assumes fit: "identity_fits r" "identity_fits q" and eq: "identity_bytes r = identity_bytes q"
  shows "lower_identity r = lower_identity q"
proof -
  have b: "(if x then 1 else 0 :: byte) = (if y then 1 else 0) \<longleftrightarrow> x = y" for x y by simp
  have "le_bytes 8 (ir_verifier_version r) = le_bytes 8 (ir_verifier_version q)"
    "hexToBytes (''0x'' @ normalizeHexBytes (ir_registry_id r)) = hexToBytes (''0x'' @ normalizeHexBytes (ir_registry_id q))"
    "hexToBytes (''0x'' @ normalizeHexBytes (ir_membership_id r)) = hexToBytes (''0x'' @ normalizeHexBytes (ir_membership_id q))"
    "hexToBytes (''0x'' @ normalizeHexBytes (ir_owner r)) = hexToBytes (''0x'' @ normalizeHexBytes (ir_owner q))"
    "IDENTITY_PROVIDER_BCS (ir_provider r) = IDENTITY_PROVIDER_BCS (ir_provider q)"
    "(if ir_verified r then 1 else 0 :: byte) = (if ir_verified q then 1 else 0)"
    "hexToBytes (''0x'' @ normalizeHexBytes (ir_duplicate_key_hash r)) = hexToBytes (''0x'' @ normalizeHexBytes (ir_duplicate_key_hash q))"
    "hexToBytes (''0x'' @ normalizeHexBytes (ir_evidence_hash r)) = hexToBytes (''0x'' @ normalizeHexBytes (ir_evidence_hash q))"
    "le_bytes 8 (ir_issued_at_ms r) = le_bytes 8 (ir_issued_at_ms q)"
    "le_bytes 8 (ir_expires_at_ms r) = le_bytes 8 (ir_expires_at_ms q)"
    "le_bytes 8 (ir_terms_version r) = le_bytes 8 (ir_terms_version q)"
    "hexToBytes (''0x'' @ normalizeHexBytes (ir_signed_statement_hash r))
       = hexToBytes (''0x'' @ normalizeHexBytes (ir_signed_statement_hash q))"
    using eq by (simp_all add: identity_bytes_def del: if_split)
  with fit show ?thesis
    unfolding identity_fits_def
    by (simp only: b provider_inject safe_u64_le_bytes hash_bytes_inject lower_identity_def) simp
qed

section \<open>Joined texts\<close>

lemma split_at_nul:
  "nul \<notin> set x \<Longrightarrow> nul \<notin> set y \<Longrightarrow> x @ nul # r = y @ nul # t \<longleftrightarrow> x = y \<and> r = t"
  by (induction x arbitrary: y) (case_tac y; auto)+

lemma join_nul_inject:
  assumes "list_all (\<lambda>p. nul \<notin> set p) xs" and "list_all (\<lambda>p. nul \<notin> set p) ys" and "length xs = length ys"
  shows "join_with [nul] xs = join_with [nul] ys \<longleftrightarrow> xs = ys"
  using assms(3,1,2)
proof (induction xs ys rule: list_induct2)
  case (Cons x xs y ys)
  then show ?case by (cases xs; cases ys) (auto simp: split_at_nul)
qed simp

text \<open>The number a nullifier writes, in either notation.\<close>

definition nullifier_number :: "string \<Rightarrow> nat" where
  "nullifier_number n = (if starts_with n ''0x'' \<or> starts_with n ''0X'' then hex_number (drop 2 n) else read_nat n)"

definition nullifier_text :: "string \<Rightarrow> bool" where
  "nullifier_text n \<longleftrightarrow>
     (starts_with n ''0x'' \<or> starts_with n ''0X'') \<and> drop 2 n \<noteq> [] \<and> list_all is_hex (drop 2 n)
     \<or> n \<noteq> [] \<and> list_all is_digit n"

lemma starts_with_two: "starts_with n [a, b] \<Longrightarrow> n = a # b # drop 2 n"
  by (metis append_Cons append_Nil append_take_drop_id length_Cons list.size(3) numeral_2_eq_2 starts_with_def)

lemma hex_notation:
  assumes "starts_with n ''0x'' \<or> starts_with n ''0X''"
  shows "\<not> list_all is_digit n" and "list_all is_hex (drop 2 n) \<Longrightarrow> nul \<notin> set n"
proof -
  from assms obtain c where n: "n = CHR ''0'' # c # drop 2 n" and c: "c = CHR ''x'' \<or> c = CHR ''X''"
    using starts_with_two by blast
  have "\<not> is_digit c" "c \<noteq> nul" using c by (auto simp: is_digit_def nul_def)
  then show "\<not> list_all is_digit n" by (subst n) simp
  assume hex: "list_all is_hex (drop 2 n)"
  have "\<not> is_hex nul" by (simp add: is_hex_def is_digit_def nul_def)
  with hex have "nul \<notin> set (drop 2 n)" by (auto simp: list_all_iff)
  with \<open>c \<noteq> nul\<close> show "nul \<notin> set n" by (subst n) (simp add: nul_def)
qed

lemma digits_no_nul: "list_all is_digit n \<Longrightarrow> nul \<notin> set n"
  by (auto simp: list_all_iff is_digit_def nul_def)

lemma canonical_nullifier_Inr [res_simps]:
  "canonicalWorldIdNullifier n = Inr t \<longleftrightarrow> nullifier_text n \<and> t = show_nat (nullifier_number n)"
proof (cases "starts_with n ''0x'' \<or> starts_with n ''0X''")
  case True
  then have "n \<noteq> []" by (auto simp: starts_with_def)
  with True hex_notation [OF True] show ?thesis
    by (simp only: canonicalWorldIdNullifier_def nullifier_text_def nullifier_number_def) auto
next
  case False
  then show ?thesis
    using digits_no_nul [of n]
    by (simp only: canonicalWorldIdNullifier_def nullifier_text_def nullifier_number_def) auto
qed

definition world_id_key_parts :: "world_id_key_input \<Rightarrow> string list" where
  "world_id_key_parts i =
     [''sonari:world_id:v2'', wk_rp_id i, wk_action i, show_nat (nullifier_number (wk_nullifier i))]"

lemma show_nat_no_nul: "nul \<notin> set (show_nat n)"
  using show_nat_digits [of n] by (auto simp: is_digit_def nul_def)

lemma world_id_hash_Inr [res_simps]:
  "computeWorldIdDuplicateKeyHash sha i = Inr h \<longleftrightarrow>
     nullifier_text (wk_nullifier i) \<and> wk_rp_id i \<noteq> [] \<and> nul \<notin> set (wk_rp_id i) \<and> wk_action i \<noteq> [] \<and> nul \<notin> set (wk_action i)
     \<and> h = sha256_text_hex sha (join_with [nul] (world_id_key_parts i))"
  unfolding computeWorldIdDuplicateKeyHash_def world_id_key_parts_def joinDuplicateKeyParts_def
  by (auto simp: res_simps show_nat_no_nul) (simp_all add: nul_def)

lemma map_of_char_inject: "(map of_char s :: bytes) = map of_char t \<longleftrightarrow> s = t"
  by (rule inj_map_eq_map) (auto intro: injI byte_of_char_inject)

lemma sha256_text_hex_eq:
  "sha256_text_hex sha s = sha256_text_hex sha t \<longleftrightarrow>
     s = t \<or> collision sha [map of_char s] [map of_char t]"
  by (auto simp: sha256_text_hex_def collision_def bytesToPrefixedHex_def map_of_char_inject)

lemma world_id_parts_no_nul:
  "nul \<notin> set (wk_rp_id i) \<Longrightarrow> nul \<notin> set (wk_action i) \<Longrightarrow> list_all (\<lambda>p. nul \<notin> set p) (world_id_key_parts i)"
  by (simp add: world_id_key_parts_def show_nat_no_nul) (simp add: nul_def)

text \<open>The key of a KYC provider is never that of World ID, but for a collision.\<close>

lemma kyc_key_apart:
  assumes "computeKycDuplicateKeyHash sha i = Inr h" and "computeWorldIdDuplicateKeyHash sha j = Inr h"
  shows "\<exists>x y. x \<noteq> y \<and> sha x = sha y"
proof -
  let ?k = "join_with [nul] [''sonari:kyc:v1'', kk_provider_id i, kk_provider_user_unique_id i]"
  let ?w = "join_with [nul] (world_id_key_parts j)"
  have "sha256_text_hex sha ?k = sha256_text_hex sha ?w"
    using assms by (auto simp: res_simps computeKycDuplicateKeyHash_def joinDuplicateKeyParts_def split: if_splits)
  moreover have "?k \<noteq> ?w" by (simp add: world_id_key_parts_def)
  ultimately show ?thesis unfolding sha256_text_hex_eq collision_def by auto
qed

section \<open>The signal\<close>

lemma canonicalHex32Lower_Inr [res_simps]:
  "canonicalHex32Lower v name = Inr t \<longleftrightarrow>
     (\<exists>hex. stripHexPrefix v = Some hex \<and> length hex = 64 \<and> list_all is_hex hex \<and> t = ''0x'' @ map to_lower hex)"
  by (auto simp: canonicalHex32Lower_def split: option.splits)

lemma lower_hex_no_nul: "list_all is_hex hex \<Longrightarrow> nul \<notin> set (''0x'' @ map to_lower hex)"
proof -
  have "to_lower c \<noteq> nul" if "is_hex c" for c
    using to_lower_hex [OF that] by (auto simp: is_lower_hex_def is_digit_def nul_def)
  then show "list_all is_hex hex \<Longrightarrow> nul \<notin> set (''0x'' @ map to_lower hex)"
    by (fastforce simp: list_all_iff nul_def)
qed

lemma signal_string_Inr:
  "worldIdSignalString a b c = Inr t \<longleftrightarrow>
     (\<exists>x y z. canonicalHex32Lower a ''owner'' = Inr x \<and> canonicalHex32Lower b ''membership_id'' = Inr y
        \<and> canonicalHex32Lower c ''signed_statement_hash'' = Inr z
        \<and> t = join_with [nul] [WORLD_ID_SIGNAL_HASH_PREFIX, x, y, z])"
  by (auto simp: worldIdSignalString_def res_bind_Inr_iff)

lemma signal_string_inject:
  assumes "worldIdSignalString a b c = Inr t" and "worldIdSignalString a' b' c' = Inr t"
  shows "canonicalHex32Lower a n = canonicalHex32Lower a' n \<and> canonicalHex32Lower b n = canonicalHex32Lower b' n
    \<and> canonicalHex32Lower c n = canonicalHex32Lower c' n"
proof -
  have same: "canonicalHex32Lower v n = Inr x" if "canonicalHex32Lower v m = Inr x" for v m x
    using that by (auto simp: canonicalHex32Lower_def split: option.splits if_splits)
  from assms obtain x y z x' y' z' where
    l: "canonicalHex32Lower a ''owner'' = Inr x" "canonicalHex32Lower b ''membership_id'' = Inr y"
      "canonicalHex32Lower c ''signed_statement_hash'' = Inr z" and
    r: "canonicalHex32Lower a' ''owner'' = Inr x'" "canonicalHex32Lower b' ''membership_id'' = Inr y'"
      "canonicalHex32Lower c' ''signed_statement_hash'' = Inr z'" and
    eq: "join_with [nul] [WORLD_ID_SIGNAL_HASH_PREFIX, x, y, z] = join_with [nul] [WORLD_ID_SIGNAL_HASH_PREFIX, x', y', z']"
    by (auto simp: signal_string_Inr)
  have no_nul: "nul \<notin> set w" if "canonicalHex32Lower v m = Inr w" for v m w
    using that lower_hex_no_nul unfolding canonicalHex32Lower_Inr by blast
  have "nul \<notin> set WORLD_ID_SIGNAL_HASH_PREFIX" by (simp add: WORLD_ID_SIGNAL_HASH_PREFIX_def nul_def)
  then have "list_all (\<lambda>p. nul \<notin> set p) [WORLD_ID_SIGNAL_HASH_PREFIX, x, y, z]"
    "list_all (\<lambda>p. nul \<notin> set p) [WORLD_ID_SIGNAL_HASH_PREFIX, x', y', z']"
    using no_nul [OF l(1)] no_nul [OF l(2)] no_nul [OF l(3)] no_nul [OF r(1)] no_nul [OF r(2)] no_nul [OF r(3)]
    by simp_all
  from join_nul_inject [OF this] eq have "x = x'" "y = y'" "z = z'" by auto
  with same [OF l(1)] same [OF l(2)] same [OF l(3)] same [OF r(1)] same [OF r(2)] same [OF r(3)]
  show ?thesis by simp
qed

lemma signal_hash_binding:
  assumes "computeWorldIdSignalHash keccak a b c = Inr h" and "computeWorldIdSignalHash keccak a' b' c' = Inr h"
  shows "canonicalHex32Lower a n = canonicalHex32Lower a' n \<and> canonicalHex32Lower b n = canonicalHex32Lower b' n
      \<and> canonicalHex32Lower c n = canonicalHex32Lower c' n
    \<or> (\<exists>s t. worldIdSignalString a b c = Inr s \<and> worldIdSignalString a' b' c' = Inr t \<and> s \<noteq> t
        \<and> take 31 (keccak (map of_char s)) = take 31 (keccak (map of_char t)))"
proof -
  from assms obtain s t where st: "worldIdSignalString a b c = Inr s" "worldIdSignalString a' b' c' = Inr t"
    and eq: "take 31 (keccak (map of_char s)) = take 31 (keccak (map of_char t))"
    by (auto simp: computeWorldIdSignalHash_def res_bind_Inr_iff hashToFieldBytes_def bytesToPrefixedHex_def)
  show ?thesis
  proof (cases "s = t")
    case True
    with st signal_string_inject show ?thesis by blast
  qed (use st eq in blast)
qed

section \<open>Properties\<close>

text \<open>C12. The signed bytes of an identity verification determine it: two values that are encoded to the same text are
  results with the same fields, up to the letter case of their hexadecimal texts, and every encoded value is a
  result with the fixed intent and family and with its numbers and hashes in range.\<close>

theorem identity_result_binding:
  assumes "encodeIdentityVerificationResultBcsHex a = Inr h" and "encodeIdentityVerificationResultBcsHex b = Inr h"
  shows "\<exists>r q. denotes_identity a r \<and> denotes_identity b q \<and> lower_identity r = lower_identity q"
proof -
  from assms obtain r q where rq: "denotes_identity a r" "denotes_identity b q"
    and "bytesToPrefixedHex (identity_bytes r) = bytesToPrefixedHex (identity_bytes q)"
    unfolding encode_identity_exact by metis
  then have "identity_bytes r = identity_bytes q" by (simp add: bytesToPrefixedHex_def)
  with rq identity_bytes_inject [of r q] show ?thesis by (auto simp: denotes_identity_def)
qed

definition sample_hex :: string where
  "sample_hex = ''0x'' @ replicate 64 CHR ''a''"

definition sample_identity :: identity_result where
  "sample_identity = \<lparr>ir_intent = IDENTITY_RESULT_INTENT, ir_verifier_family = ''identity'', ir_verifier_version = 1,
     ir_registry_id = sample_hex, ir_membership_id = sample_hex, ir_owner = sample_hex, ir_provider = WorldId,
     ir_verified = True, ir_duplicate_key_hash = sample_hex, ir_evidence_hash = sample_hex,
     ir_issued_at_ms = 1700000000000, ir_expires_at_ms = 1731536000000, ir_terms_version = 1,
     ir_signed_statement_hash = sample_hex\<rparr>"

lemma sample_identity_denoted: "denotes_identity (JObj (identity_json sample_identity)) sample_identity"
  by (simp add: denotes_identity_def identity_fits_def sample_identity_def safe_u64_def MAX_SAFE_INTEGER_def hash32_text_def
      sample_hex_def starts_with_def identity_json_def IDENTITY_RESULT_FIELD_ORDER_def get_field_def is_hex_def list_all_iff)

theorem identity_result_binding_witness:
  "\<exists>h. encodeIdentityVerificationResultBcsHex (JObj (identity_json sample_identity)) = Inr h
    \<and> (\<exists>r q. denotes_identity (JObj (identity_json sample_identity)) r \<and> denotes_identity (JObj (identity_json sample_identity)) q
        \<and> lower_identity r = lower_identity q)"
proof -
  have h: "encodeIdentityVerificationResultBcsHex (JObj (identity_json sample_identity))
      = Inr (bytesToPrefixedHex (identity_bytes sample_identity))"
    using sample_identity_denoted encode_identity_exact by blast
  from identity_result_binding [OF h h] h show ?thesis by blast
qed

definition same_person :: "world_id_key_input \<Rightarrow> world_id_key_input \<Rightarrow> bool" where
  "same_person a b \<longleftrightarrow> wk_rp_id a = wk_rp_id b \<and> wk_action a = wk_action b
     \<and> nullifier_number (wk_nullifier a) = nullifier_number (wk_nullifier b)"

definition world_id_key_bytes :: "world_id_key_input \<Rightarrow> bytes" where
  "world_id_key_bytes i = map of_char (join_with [nul] (world_id_key_parts i))"

text \<open>C13. A World ID person has one duplicate key: two inputs have the same key exactly when they name the same app,
  action and nullifier number, in whichever notation the nullifier is written, or their key texts collide under
  SHA-256.\<close>

theorem duplicate_key_exact:
  assumes "computeWorldIdDuplicateKeyHash sha a = Inr h" and "computeWorldIdDuplicateKeyHash sha b = Inr k"
  shows "h = k \<longleftrightarrow> same_person a b \<or> collision sha [world_id_key_bytes a] [world_id_key_bytes b]"
proof -
  have "world_id_key_parts a = world_id_key_parts b \<longleftrightarrow> same_person a b"
    by (simp add: world_id_key_parts_def same_person_def)
  moreover have "join_with [nul] (world_id_key_parts a) = join_with [nul] (world_id_key_parts b)
      \<longleftrightarrow> world_id_key_parts a = world_id_key_parts b"
    using assms by (intro join_nul_inject world_id_parts_no_nul) (auto simp: res_simps world_id_key_parts_def)
  ultimately show ?thesis
    using assms by (simp add: res_simps sha256_text_hex_eq world_id_key_bytes_def)
qed

definition sample_decimal_key :: world_id_key_input where
  "sample_decimal_key = \<lparr>wk_rp_id = ''app_1'', wk_action = ''verify'', wk_nullifier = ''255''\<rparr>"

definition sample_hex_key :: world_id_key_input where
  "sample_hex_key = \<lparr>wk_rp_id = ''app_1'', wk_action = ''verify'', wk_nullifier = ''0x00fF''\<rparr>"

lemma sample_keys_hash:
  "\<exists>h. computeWorldIdDuplicateKeyHash checksum32 sample_decimal_key = Inr h"
  "\<exists>h. computeWorldIdDuplicateKeyHash checksum32 sample_hex_key = Inr h"
  by (simp_all add: res_simps sample_decimal_key_def sample_hex_key_def nullifier_text_def starts_with_def is_digit_def
      is_hex_def nul_def)

theorem duplicate_key_exact_witness:
  "\<exists>h k. computeWorldIdDuplicateKeyHash checksum32 sample_decimal_key = Inr h
    \<and> computeWorldIdDuplicateKeyHash checksum32 sample_hex_key = Inr k
    \<and> (h = k \<longleftrightarrow> same_person sample_decimal_key sample_hex_key
        \<or> collision checksum32 [world_id_key_bytes sample_decimal_key] [world_id_key_bytes sample_hex_key])
    \<and> same_person sample_decimal_key sample_hex_key"
proof -
  have "same_person sample_decimal_key sample_hex_key"
    by (simp add: same_person_def sample_decimal_key_def sample_hex_key_def nullifier_number_def starts_with_def
        hex_number_def read_nat_def hex_val_def digit_val_def is_digit_def)
  with sample_keys_hash duplicate_key_exact show ?thesis by metis
qed

end
