(* ===== verification/ResidenceTiles.thy ===== *)
theory ResidenceTiles
  imports WorkerArtifacts
begin

text \<open>
  The map tiles of the residence allowlist, \<open>packages/proof-core/src/residence-tiles.ts\<close>: a tile lists the allowed cells
  below one parent cell, the tile manifest lists the tiles.

  The fields of a parsed tile or manifest whose value is fixed by the schema are left out of its record.
\<close>

section \<open>Schemas\<close>

definition RESIDENCE_TILE_SCHEMA :: string where "RESIDENCE_TILE_SCHEMA = ''sonari.residence.tile.v1''"
definition RESIDENCE_TILE_MANIFEST_SCHEMA :: string where
  "RESIDENCE_TILE_MANIFEST_SCHEMA = ''sonari.residence.tile_manifest.v1''"
definition RESIDENCE_TILE_SCHEMA_VERSION :: int where "RESIDENCE_TILE_SCHEMA_VERSION = 1"
definition RESIDENCE_TILE_MANIFEST_SCHEMA_VERSION :: int where "RESIDENCE_TILE_MANIFEST_SCHEMA_VERSION = 1"
definition RESIDENCE_TILE_PARENT_RESOLUTION :: int where "RESIDENCE_TILE_PARENT_RESOLUTION = 4"

record residence_tile =
  rt_allowlist_version :: int
  rt_geo_resolution :: int
  rt_merkle_root :: string
  rt_parent_h3_index :: string
  rt_cells :: "string list"

record tile_inventory_entry =
  ti_parent_h3_index :: string
  ti_object_key :: string
  ti_cell_count :: int
  ti_sha256 :: string
  ti_byte_size :: int

record tile_manifest =
  tm_allowlist_version :: int
  tm_geo_resolution :: int
  tm_merkle_root :: string
  tm_object_key_rule :: string
  tm_tile_count :: int
  tm_total_cell_count :: int
  tm_tiles :: "tile_inventory_entry list"

record tile_expectation =
  tx_allowlistVersion :: "int option"
  tx_geoResolution :: "int option"
  tx_merkleRoot :: "string option"

definition expect_some :: "('a \<Rightarrow> string) \<Rightarrow> string \<Rightarrow> 'a option \<Rightarrow> 'a \<Rightarrow> js_error + unit" where
  "expect_some shw name expected act =
     (case expected of None \<Rightarrow> Inr () | Some e \<Rightarrow> assertMatches shw name act e)"

definition applyExpectation :: "string \<Rightarrow> tile_expectation \<Rightarrow> int \<Rightarrow> int \<Rightarrow> string \<Rightarrow> js_error + unit" where
  "applyExpectation name expected allowlistVersion geoResolution merkleRoot =
     res_bind (expect_some show_int (name @ '' allowlist_version'') (tx_allowlistVersion expected) allowlistVersion) (\<lambda>_.
     res_bind (expect_some show_int (name @ '' geo_resolution'') (tx_geoResolution expected) geoResolution) (\<lambda>_.
       expect_some id (name @ '' merkle_root'') (tx_merkleRoot expected) merkleRoot))"

section \<open>Tiles\<close>

definition TILE_FIELDS :: "string list" where
  "TILE_FIELDS = [''schema'', ''schema_version'', ''allowlist_version'', ''geo_resolution'', ''tile_parent_resolution'',
     ''merkle_root'', ''parent_h3_index'', ''cells'']"

text \<open>The loop over the cells: \<open>previous\<close> is \<open>null\<close> before the first one.\<close>

fun tile_cells_loop :: "int \<Rightarrow> nat \<Rightarrow> int option \<Rightarrow> js_value list \<Rightarrow> js_error + string list" where
  "tile_cells_loop geo index previous [] = Inr []"
| "tile_cells_loop geo index previous (rawCell # rest) =
     res_bind (expectString (''residence tile cells['' @ show_nat index @ '']'') rawCell) (\<lambda>cell.
     res_bind (parseH3Index cell geo) (\<lambda>parsed.
     if some_and (\<lambda>p. h3_value parsed \<le> p) previous
     then Inl (''residence tile cells must be strictly ascending and unique: '' @ cell)
     else res_bind (tile_cells_loop geo (index + 1) (Some (h3_value parsed)) rest) (\<lambda>cells. Inr (cell # cells))))"

definition parseResidenceTile :: "js_value \<Rightarrow> tile_expectation \<Rightarrow> js_error + residence_tile" where
  "parseResidenceTile value expected =
     res_bind (expectRecord ''residence tile'' value) (\<lambda>fs.
     res_bind (expectKeys ''residence tile'' fs TILE_FIELDS) (\<lambda>_.
     res_bind (expectLiteralStr ''residence tile schema'' (get_field fs ''schema'') RESIDENCE_TILE_SCHEMA) (\<lambda>_.
     res_bind (expectLiteralInt ''residence tile schema_version'' (get_field fs ''schema_version'')
       RESIDENCE_TILE_SCHEMA_VERSION) (\<lambda>_.
     res_bind (expectPositiveSafeInteger ''residence tile allowlist_version'' (get_field fs ''allowlist_version'')) (\<lambda>allowlist.
     res_bind (expectPositiveSafeInteger ''residence tile geo_resolution'' (get_field fs ''geo_resolution'')) (\<lambda>geo.
     res_bind (expectLiteralInt ''residence tile tile_parent_resolution'' (get_field fs ''tile_parent_resolution'')
       RESIDENCE_TILE_PARENT_RESOLUTION) (\<lambda>_.
     res_bind (expectPrefixedHex32 ''residence tile merkle_root'' (get_field fs ''merkle_root'')) (\<lambda>merkleRoot.
     res_bind (expectString ''residence tile parent_h3_index'' (get_field fs ''parent_h3_index'')) (\<lambda>parent.
     res_bind (parseH3Index parent RESIDENCE_TILE_PARENT_RESOLUTION) (\<lambda>_.
     res_bind (expectArray ''residence tile cells'' (get_field fs ''cells'')) (\<lambda>rawCells.
     res_bind (tile_cells_loop geo 0 None rawCells) (\<lambda>cells.
     res_bind (applyExpectation ''residence tile'' expected allowlist geo merkleRoot) (\<lambda>_.
       Inr \<lparr>rt_allowlist_version = allowlist, rt_geo_resolution = geo, rt_merkle_root = merkleRoot,
            rt_parent_h3_index = parent, rt_cells = cells\<rparr>)))))))))))))"

section \<open>The manifest\<close>

definition MANIFEST_FIELDS :: "string list" where
  "MANIFEST_FIELDS = [''schema'', ''schema_version'', ''allowlist_version'', ''geo_resolution'', ''tile_parent_resolution'',
     ''merkle_root'', ''object_key_rule'', ''tile_count'', ''total_cell_count'', ''tiles'']"

definition INVENTORY_FIELDS :: "string list" where
  "INVENTORY_FIELDS = [''parent_h3_index'', ''object_key'', ''cell_count'', ''sha256'', ''byte_size'']"

text \<open>The sum of two non-negative integers that are doubles; it is far below the largest double.\<close>

definition js_add :: "int \<Rightarrow> int \<Rightarrow> int" where
  "js_add a b = int (round_to_double (nat (a + b)))"

definition parse_tile_entry :: "string \<Rightarrow> int option \<Rightarrow> js_value \<Rightarrow> js_error + tile_inventory_entry \<times> int" where
  "parse_tile_entry name previousParent rawEntry =
     res_bind (expectRecord name rawEntry) (\<lambda>fs.
     res_bind (expectKeys name fs INVENTORY_FIELDS) (\<lambda>_.
     res_bind (expectString (name @ ''.parent_h3_index'') (get_field fs ''parent_h3_index'')) (\<lambda>parent.
     res_bind (parseH3Index parent RESIDENCE_TILE_PARENT_RESOLUTION) (\<lambda>parsedParent.
     if some_and (\<lambda>p. h3_value parsedParent \<le> p) previousParent
     then Inl (name @ ''.parent_h3_index must be strictly ascending and unique'')
     else res_bind (expectString (name @ ''.object_key'') (get_field fs ''object_key'')) (\<lambda>objectKey.
     res_bind (expectPositiveSafeInteger (name @ ''.cell_count'') (get_field fs ''cell_count'')) (\<lambda>cellCount.
     res_bind (expectPrefixedHex32 (name @ ''.sha256'') (get_field fs ''sha256'')) (\<lambda>sha256.
     res_bind (expectPositiveSafeInteger (name @ ''.byte_size'') (get_field fs ''byte_size'')) (\<lambda>byteSize.
       Inr (\<lparr>ti_parent_h3_index = parent, ti_object_key = objectKey, ti_cell_count = cellCount, ti_sha256 = sha256,
             ti_byte_size = byteSize\<rparr>, h3_value parsedParent)))))))))"

fun tiles_loop :: "nat \<Rightarrow> int option \<Rightarrow> int \<Rightarrow> js_value list \<Rightarrow> js_error + tile_inventory_entry list \<times> int" where
  "tiles_loop index previousParent cellSum [] = Inr ([], cellSum)"
| "tiles_loop index previousParent cellSum (rawEntry # rest) =
     res_bind (parse_tile_entry (''residence tile manifest tiles['' @ show_nat index @ '']'') previousParent rawEntry) (\<lambda>(t, parent).
     res_bind (tiles_loop (index + 1) (Some parent) (js_add cellSum (ti_cell_count t)) rest) (\<lambda>(ts, total).
       Inr (t # ts, total)))"

definition parseResidenceTileManifest :: "js_value \<Rightarrow> tile_expectation \<Rightarrow> js_error + tile_manifest" where
  "parseResidenceTileManifest value expected =
     res_bind (expectRecord ''residence tile manifest'' value) (\<lambda>fs.
     res_bind (expectKeys ''residence tile manifest'' fs MANIFEST_FIELDS) (\<lambda>_.
     res_bind (expectLiteralStr ''residence tile manifest schema'' (get_field fs ''schema'') RESIDENCE_TILE_MANIFEST_SCHEMA) (\<lambda>_.
     res_bind (expectLiteralInt ''residence tile manifest schema_version'' (get_field fs ''schema_version'')
       RESIDENCE_TILE_MANIFEST_SCHEMA_VERSION) (\<lambda>_.
     res_bind (expectPositiveSafeInteger ''residence tile manifest allowlist_version'' (get_field fs ''allowlist_version'')) (\<lambda>allowlist.
     res_bind (expectPositiveSafeInteger ''residence tile manifest geo_resolution'' (get_field fs ''geo_resolution'')) (\<lambda>geo.
     res_bind (expectLiteralInt ''residence tile manifest tile_parent_resolution'' (get_field fs ''tile_parent_resolution'')
       RESIDENCE_TILE_PARENT_RESOLUTION) (\<lambda>_.
     res_bind (expectPrefixedHex32 ''residence tile manifest merkle_root'' (get_field fs ''merkle_root'')) (\<lambda>merkleRoot.
     res_bind (expectString ''residence tile manifest object_key_rule'' (get_field fs ''object_key_rule'')) (\<lambda>objectKeyRule.
     res_bind (expectNonNegativeSafeInteger ''residence tile manifest tile_count'' (get_field fs ''tile_count'')) (\<lambda>tileCount.
     res_bind (expectNonNegativeSafeInteger ''residence tile manifest total_cell_count'' (get_field fs ''total_cell_count'')) (\<lambda>total.
     res_bind (expectArray ''residence tile manifest tiles'' (get_field fs ''tiles'')) (\<lambda>rawTiles.
     res_bind (tiles_loop 0 None 0 rawTiles) (\<lambda>(tiles, cellSum).
     res_bind (assertMatches show_int ''residence tile manifest tile_count'' tileCount (int (length tiles))) (\<lambda>_.
     res_bind (assertMatches show_int ''residence tile manifest total_cell_count'' total cellSum) (\<lambda>_.
     res_bind (applyExpectation ''residence tile manifest'' expected allowlist geo merkleRoot) (\<lambda>_.
       Inr \<lparr>tm_allowlist_version = allowlist, tm_geo_resolution = geo, tm_merkle_root = merkleRoot,
            tm_object_key_rule = objectKeyRule, tm_tile_count = tileCount, tm_total_cell_count = total,
            tm_tiles = tiles\<rparr>))))))))))))))))"

section \<open>What a parsed tile holds\<close>

text \<open>The cells of a resolution in strictly ascending order of their indices.\<close>

definition ascending_cells :: "int \<Rightarrow> string list \<Rightarrow> bool" where
  "ascending_cells geo cells \<longleftrightarrow> sorted_wrt (<) (map read_nat cells)
     \<and> (\<forall>c\<in>set cells. \<exists>i. parseH3Index c geo = Inr i)"

lemma parseH3Index_value: "parseH3Index s r = Inr i \<Longrightarrow> h3_value i = int (read_nat s) \<and> decimal i = s"
  by (auto simp: parseH3Index_def Let_def res_simps split: if_splits)

lemma tile_cells_Inr:
  "tile_cells_loop geo k previous raw = Inr cells \<longleftrightarrow> raw = map JStr cells \<and> ascending_cells geo cells
     \<and> none_or (\<lambda>p. list_all (\<lambda>c. p < int (read_nat c)) cells) previous"
proof (induction geo k previous raw arbitrary: cells rule: tile_cells_loop.induct)
  case (1 geo k previous)
  then show ?case by (auto simp: ascending_cells_def none_or_def split: option.split)
next
  case (2 geo k previous rawCell rest)
  show ?case
  proof (cases rawCell)
    case (JStr cell)
    show ?thesis
    proof (cases "parseH3Index cell geo")
      case (Inr i)
      note v = parseH3Index_value [OF Inr]
      have IH: "tile_cells_loop geo (Suc k) (Some (int (read_nat cell))) rest = Inr cs \<longleftrightarrow> rest = map JStr cs
          \<and> ascending_cells geo cs \<and> list_all (\<lambda>c. int (read_nat cell) < int (read_nat c)) cs"
        if "\<not> some_and (\<lambda>p. int (read_nat cell) \<le> p) previous" for cs
        using 2 [of cell i cs] that v by (simp add: JStr Inr expectString_def)
      show ?thesis
      proof (cases "some_and (\<lambda>p. int (read_nat cell) \<le> p) previous")
        case True
        then show ?thesis
          by (cases previous) (auto simp: JStr Inr v expectString_def map_eq_Cons_conv Cons_eq_map_conv)
      next
        case False
        have prev: "none_or (\<lambda>p. list_all (\<lambda>c. p < int (read_nat c)) (cell # cs)) previous"
          if "list_all (\<lambda>c. int (read_nat cell) < int (read_nat c)) cs" for cs
          using that False by (cases previous) (auto simp: list_all_iff)
        show ?thesis
          using False prev
          by (auto simp: JStr Inr v expectString_def IH res_simps ascending_cells_def Cons_eq_map_conv list_all_iff)
      qed
    qed (auto simp: JStr expectString_def ascending_cells_def Cons_eq_map_conv)
  qed (auto simp: expectString_def Cons_eq_map_conv)
qed

definition wf_tile :: "residence_tile \<Rightarrow> bool" where
  "wf_tile t \<longleftrightarrow> 0 < rt_allowlist_version t \<and> 0 < rt_geo_resolution t \<and> is_prefixed_hex32 (rt_merkle_root t)
     \<and> (\<exists>i. parseH3Index (rt_parent_h3_index t) RESIDENCE_TILE_PARENT_RESOLUTION = Inr i)
     \<and> ascending_cells (rt_geo_resolution t) (rt_cells t)"

lemma expect_some_Inr [res_simps]: "expect_some shw name x a = Inr u \<longleftrightarrow> none_or (\<lambda>e. a = e) x"
  by (cases x) (auto simp: expect_some_def res_simps)

definition meets :: "tile_expectation \<Rightarrow> int \<Rightarrow> int \<Rightarrow> string \<Rightarrow> bool" where
  "meets x allowlist geo merkleRoot \<longleftrightarrow> none_or (\<lambda>e. allowlist = e) (tx_allowlistVersion x)
     \<and> none_or (\<lambda>e. geo = e) (tx_geoResolution x) \<and> none_or (\<lambda>e. merkleRoot = e) (tx_merkleRoot x)"

lemma applyExpectation_Inr [res_simps]: "applyExpectation name x a g m = Inr u \<longleftrightarrow> meets x a g m"
  by (auto simp: applyExpectation_def meets_def res_simps)

lemma parse_tile_Inr:
  "parseResidenceTile v x = Inr t \<Longrightarrow> wf_tile t \<and> meets x (rt_allowlist_version t) (rt_geo_resolution t) (rt_merkle_root t)"
  by (auto simp: parseResidenceTile_def res_simps wf_tile_def tile_cells_Inr)

end
