(* ===== verification/ResidenceProofs.thy ===== *)
theory ResidenceProofs
  imports ResidenceTiles
begin

text \<open>
  The proofs of the residence allowlist, \<open>packages/residence-proof-worker/src/proof_shards.ts\<close>: the manifest and the
  shards that are read, the leaf of a cell, and the check that a proof belongs to its cell and replays to the root.

  The fields of a manifest or shard whose value is fixed by the schema are left out of its record.  A step of a proof
  is read as in the service of affected cells, \<open>parseProofStep\<close>.
\<close>

section \<open>Types\<close>

definition PROOF_MANIFEST_SCHEMA :: string where "PROOF_MANIFEST_SCHEMA = ''sonari.residence.proof_manifest.v1''"
definition PROOF_SHARD_SCHEMA :: string where "PROOF_SHARD_SCHEMA = ''sonari.residence.proof_shard.v1''"
definition PROOF_SCHEMA_VERSION :: int where "PROOF_SCHEMA_VERSION = 1"
definition PROOF_SHARD_OBJECT_KEY_RULE :: string where
  "PROOF_SHARD_OBJECT_KEY_RULE =
     ''residence-cells/v{allowlist_version}/res{geo_resolution}/proofs/shards/{shard_id:05}.json.gz''"

record inventory_entry =
  ie_shard_id :: int
  ie_object_key :: string
  ie_proof_count :: int
  ie_sha256 :: string
  ie_byte_size :: int

record residence_manifest =
  rm_allowlist_version :: int
  rm_geo_resolution :: int
  rm_merkle_root :: string
  rm_shard_count :: int
  rm_total_proof_count :: int
  rm_shards :: "inventory_entry list"

record residence_entry =
  re_h3_index :: string
  re_leaf_hash :: string
  re_proof :: "proof_step list"

record residence_shard =
  rs_allowlist_version :: int
  rs_geo_resolution :: int
  rs_merkle_root :: string
  rs_shard_id :: int
  rs_shard_count :: int
  rs_proofs :: "residence_entry list"

record validated_entry =
  ve_h3Index :: parsed_h3_index
  ve_leafHash :: string
  ve_merkleRoot :: string
  ve_proof :: "proof_step list"

record residence_response =
  rr_h3_index :: string
  rr_allowlist_version :: int
  rr_geo_resolution :: int
  rr_merkle_root :: string
  rr_proof :: "proof_step list"

text \<open>The \<open>expected\<close> of a shard and of an entry.\<close>

record shard_expectation =
  sx_allowlistVersion :: int
  sx_geoResolution :: int
  sx_merkleRoot :: string
  sx_shardId :: int
  sx_shardCount :: int

section \<open>Leaves and keys\<close>

definition leafHash :: "hash_fn \<Rightarrow> int \<Rightarrow> int \<Rightarrow> int \<Rightarrow> js_error + string" where
  "leafHash sha h3Index geoResolution allowlistVersion =
     res_bind (u64LittleEndianBytes h3Index) (\<lambda>h3.
     res_bind (u64LittleEndianBytes allowlistVersion) (\<lambda>allowlist.
       Inr (hashLeafBytes sha (h3 @ [word_of_int geoResolution] @ allowlist))))"

definition assertNonNegativeSafeInteger :: "string \<Rightarrow> int \<Rightarrow> js_error + unit" where
  "assertNonNegativeSafeInteger name n =
     (if \<not> isSafeInteger (of_int n) \<or> n < 0 then Inl (name @ '' must be a non-negative safe integer'') else Inr ())"

definition padStart5 :: "string \<Rightarrow> string" where
  "padStart5 s = replicate (5 - length s) CHR ''0'' @ s"

definition expectedProofShardObjectKey :: "int \<Rightarrow> int \<Rightarrow> int \<Rightarrow> js_error + string" where
  "expectedProofShardObjectKey allowlistVersion geoResolution shardId =
     res_bind (assertNonNegativeSafeInteger ''allowlist_version'' allowlistVersion) (\<lambda>_.
     res_bind (assertNonNegativeSafeInteger ''geo_resolution'' geoResolution) (\<lambda>_.
     res_bind (assertNonNegativeSafeInteger ''shard_id'' shardId) (\<lambda>_.
       Inr (''residence-cells/v'' @ show_int allowlistVersion @ ''/res'' @ show_int geoResolution @ ''/proofs/shards/''
         @ padStart5 (show_int shardId) @ ''.json.gz''))))"

section \<open>The manifest\<close>

definition parseInventoryEntry :: "js_value \<Rightarrow> js_error + inventory_entry" where
  "parseInventoryEntry value =
     res_bind (expectRecord ''proof shard inventory entry'' value) (\<lambda>fs.
     res_bind (expectKeys ''proof shard inventory entry'' fs
       [''shard_id'', ''object_key'', ''proof_count'', ''sha256'', ''byte_size'']) (\<lambda>_.
     res_bind (expectNonNegativeSafeInteger ''shard_id'' (get_field fs ''shard_id'')) (\<lambda>shard_id.
     res_bind (expectString ''object_key'' (get_field fs ''object_key'')) (\<lambda>object_key.
     res_bind (expectNonNegativeSafeInteger ''proof_count'' (get_field fs ''proof_count'')) (\<lambda>proof_count.
     res_bind (expectPrefixedHex32 ''sha256'' (get_field fs ''sha256'')) (\<lambda>sha256.
     res_bind (expectNonNegativeSafeInteger ''byte_size'' (get_field fs ''byte_size'')) (\<lambda>byte_size.
       Inr \<lparr>ie_shard_id = shard_id, ie_object_key = object_key, ie_proof_count = proof_count, ie_sha256 = sha256,
            ie_byte_size = byte_size\<rparr>)))))))"

text \<open>A parsed entry as the object it is.\<close>

definition inventory_json :: "inventory_entry \<Rightarrow> js_value" where
  "inventory_json e = JObj
     [(''shard_id'', jint (ie_shard_id e)), (''object_key'', JStr (ie_object_key e)),
      (''proof_count'', jint (ie_proof_count e)), (''sha256'', JStr (ie_sha256 e)), (''byte_size'', jint (ie_byte_size e))]"

definition validateProofShardInventoryEntry :: "js_value \<Rightarrow> int \<Rightarrow> int \<Rightarrow> int \<Rightarrow> js_error + inventory_entry" where
  "validateProofShardInventoryEntry entry allowlistVersion geoResolution shardCount =
     res_bind (parseInventoryEntry entry) (\<lambda>parsed.
     if ie_shard_id parsed \<ge> shardCount
     then Inl (''proof manifest shard_id '' @ show_int (ie_shard_id parsed) @ '' is outside shard_count '' @ show_int shardCount)
     else res_bind (expectedProofShardObjectKey allowlistVersion geoResolution (ie_shard_id parsed)) (\<lambda>expectedObjectKey.
       if ie_object_key parsed \<noteq> expectedObjectKey
       then Inl (''proof manifest shard_id '' @ show_int (ie_shard_id parsed) @ '' object_key '' @ ie_object_key parsed
         @ '' does not match '' @ expectedObjectKey)
       else Inr parsed))"

text \<open>The mapping over the inventory; it carries \<open>seen\<close> and the sum of the counts.\<close>

fun inventory_loop ::
    "int \<Rightarrow> int \<Rightarrow> int \<Rightarrow> js_value list \<Rightarrow> int set \<Rightarrow> int \<Rightarrow> js_error + inventory_entry list \<times> int set \<times> int" where
  "inventory_loop allowlist geo shardCount [] seen proofCountSum = Inr ([], seen, proofCountSum)"
| "inventory_loop allowlist geo shardCount (entry # rest) seen proofCountSum =
     res_bind (parseInventoryEntry entry) (\<lambda>parsed.
     res_bind (validateProofShardInventoryEntry (inventory_json parsed) allowlist geo shardCount) (\<lambda>_.
     if ie_shard_id parsed \<in> seen
     then Inl (''duplicate shard inventory entry for shard_id '' @ show_int (ie_shard_id parsed))
     else res_bind (inventory_loop allowlist geo shardCount rest (insert (ie_shard_id parsed) seen)
         (js_add proofCountSum (ie_proof_count parsed))) (\<lambda>(es, seen', total).
       Inr (parsed # es, seen', total))))"

text \<open>The loop \<open>for (let shardId = 0; shardId < shardCount; shardId += 1)\<close>; it is reached when the inventory has
  \<open>shardCount\<close> entries.\<close>

definition first_missing :: "int set \<Rightarrow> nat \<Rightarrow> int option" where
  "first_missing seen shardCount = List.find (\<lambda>i. i \<notin> seen) (map int [0..<shardCount])"

definition RESIDENCE_MANIFEST_KEYS :: "string list" where
  "RESIDENCE_MANIFEST_KEYS = [''schema'', ''schema_version'', ''allowlist_version'', ''geo_resolution'', ''merkle_root'',
     ''shard_count'', ''total_proof_count'', ''object_key_rule'', ''shards'']"

definition parseProofShardManifest :: "js_value \<Rightarrow> js_error + residence_manifest" where
  "parseProofShardManifest value =
     res_bind (expectRecord ''proof manifest'' value) (\<lambda>fs.
     res_bind (expectKeys ''proof manifest'' fs RESIDENCE_MANIFEST_KEYS) (\<lambda>_.
     res_bind (expectLiteralStr ''schema'' (get_field fs ''schema'') PROOF_MANIFEST_SCHEMA) (\<lambda>_.
     res_bind (expectLiteralInt ''schema_version'' (get_field fs ''schema_version'') PROOF_SCHEMA_VERSION) (\<lambda>_.
     res_bind (expectNonNegativeSafeInteger ''allowlist_version'' (get_field fs ''allowlist_version'')) (\<lambda>allowlist.
     res_bind (expectNonNegativeSafeInteger ''geo_resolution'' (get_field fs ''geo_resolution'')) (\<lambda>geo.
     res_bind (expectPrefixedHex32 ''merkle_root'' (get_field fs ''merkle_root'')) (\<lambda>merkleRoot.
     res_bind (expectPositiveSafeInteger ''shard_count'' (get_field fs ''shard_count'')) (\<lambda>shardCount.
     res_bind (expectNonNegativeSafeInteger ''total_proof_count'' (get_field fs ''total_proof_count'')) (\<lambda>totalProofCount.
     res_bind (expectLiteralStr ''object_key_rule'' (get_field fs ''object_key_rule'') PROOF_SHARD_OBJECT_KEY_RULE) (\<lambda>_.
     res_bind (expectArray ''shards'' (get_field fs ''shards'')) (\<lambda>rawShards.
     if int (length rawShards) \<noteq> shardCount
     then Inl (''proof manifest inventory length must be '' @ show_int shardCount)
     else res_bind (inventory_loop allowlist geo shardCount rawShards {} 0) (\<lambda>(es, seen, proofCountSum).
     case first_missing seen (nat shardCount) of
       Some shardId \<Rightarrow> Inl (''missing shard inventory entry for shard_id '' @ show_int shardId)
     | None \<Rightarrow>
       if proofCountSum \<noteq> totalProofCount
       then Inl (''proof manifest total_proof_count '' @ show_int totalProofCount @ '' does not match inventory ''
         @ show_int proofCountSum)
       else Inr \<lparr>rm_allowlist_version = allowlist, rm_geo_resolution = geo, rm_merkle_root = merkleRoot,
              rm_shard_count = shardCount, rm_total_proof_count = totalProofCount,
              rm_shards = sort_key ie_shard_id es\<rparr>))))))))))))"

section \<open>Shards\<close>

definition parseProofShardEntry :: "js_value \<Rightarrow> js_error + residence_entry" where
  "parseProofShardEntry value =
     res_bind (expectRecord ''proof shard entry'' value) (\<lambda>fs.
     res_bind (expectKeys ''proof shard entry'' fs [''h3_index'', ''leaf_hash'', ''proof'']) (\<lambda>_.
     res_bind (expectString ''h3_index'' (get_field fs ''h3_index'')) (\<lambda>h3_index.
     res_bind (expectPrefixedHex32 ''leaf_hash'' (get_field fs ''leaf_hash'')) (\<lambda>leaf_hash.
     res_bind (expectArray ''proof'' (get_field fs ''proof'')) (\<lambda>rawProof.
     res_bind (res_map parseProofStep rawProof) (\<lambda>steps.
       Inr \<lparr>re_h3_index = h3_index, re_leaf_hash = leaf_hash, re_proof = steps\<rparr>))))))"

definition residence_entry_json :: "residence_entry \<Rightarrow> js_value" where
  "residence_entry_json e = JObj
     [(''h3_index'', JStr (re_h3_index e)), (''leaf_hash'', JStr (re_leaf_hash e)),
      (''proof'', JArr (map step_json (re_proof e)))]"

definition SHARD_KEYS :: "string list" where
  "SHARD_KEYS = [''schema'', ''schema_version'', ''allowlist_version'', ''geo_resolution'', ''merkle_root'', ''shard_id'',
     ''shard_count'', ''proofs'']"

definition parseProofShard :: "js_value \<Rightarrow> shard_expectation \<Rightarrow> js_error + residence_shard" where
  "parseProofShard value expected =
     res_bind (expectRecord ''proof shard'' value) (\<lambda>fs.
     res_bind (expectKeys ''proof shard'' fs SHARD_KEYS) (\<lambda>_.
     res_bind (expectLiteralStr ''schema'' (get_field fs ''schema'') PROOF_SHARD_SCHEMA) (\<lambda>_.
     res_bind (expectLiteralInt ''schema_version'' (get_field fs ''schema_version'') PROOF_SCHEMA_VERSION) (\<lambda>_.
     res_bind (expectNonNegativeSafeInteger ''allowlist_version'' (get_field fs ''allowlist_version'')) (\<lambda>allowlist.
     res_bind (expectNonNegativeSafeInteger ''geo_resolution'' (get_field fs ''geo_resolution'')) (\<lambda>geo.
     res_bind (expectPrefixedHex32 ''merkle_root'' (get_field fs ''merkle_root'')) (\<lambda>merkleRoot.
     res_bind (expectNonNegativeSafeInteger ''shard_id'' (get_field fs ''shard_id'')) (\<lambda>shardId.
     res_bind (expectPositiveSafeInteger ''shard_count'' (get_field fs ''shard_count'')) (\<lambda>shardCount.
     res_bind (expectArray ''proofs'' (get_field fs ''proofs'')) (\<lambda>rawProofs.
     res_bind (res_map parseProofShardEntry rawProofs) (\<lambda>proofs.
     res_bind (assertMatches show_int ''allowlist_version'' allowlist (sx_allowlistVersion expected)) (\<lambda>_.
     res_bind (assertMatches show_int ''geo_resolution'' geo (sx_geoResolution expected)) (\<lambda>_.
     res_bind (expectPrefixedHex32 ''merkleRoot'' (JStr (sx_merkleRoot expected))) (\<lambda>expectedRoot.
     res_bind (assertMatches id ''merkle_root'' merkleRoot expectedRoot) (\<lambda>_.
     res_bind (assertMatches show_int ''shard_id'' shardId (sx_shardId expected)) (\<lambda>_.
     res_bind (assertMatches show_int ''shard_count'' shardCount (sx_shardCount expected)) (\<lambda>_.
       Inr \<lparr>rs_allowlist_version = allowlist, rs_geo_resolution = geo, rs_merkle_root = merkleRoot,
            rs_shard_id = shardId, rs_shard_count = shardCount, rs_proofs = proofs\<rparr>)))))))))))))))))"

definition findProofEntry :: "residence_shard \<Rightarrow> parsed_h3_index \<Rightarrow> residence_entry option" where
  "findProofEntry shard h3Index = List.find (\<lambda>e. re_h3_index e = decimal h3Index) (rs_proofs shard)"

section \<open>Checking an entry\<close>

definition validateProofEntry :: "hash_fn \<Rightarrow> js_value \<Rightarrow> shard_expectation \<Rightarrow> js_error + validated_entry" where
  "validateProofEntry sha entry expected =
     res_bind (parseProofShardEntry entry) (\<lambda>parsed.
     res_bind (parseH3Index (re_h3_index parsed) (sx_geoResolution expected)) (\<lambda>h3Index.
     res_bind (proofShardId sha (h3_value h3Index) (sx_shardCount expected)) (\<lambda>computedShardId.
     if computedShardId \<noteq> sx_shardId expected
     then Inl (''h3_index '' @ re_h3_index parsed @ '' belongs to shard_id '' @ show_int computedShardId @ '', not ''
       @ show_int (sx_shardId expected))
     else res_bind (leafHash sha (h3_value h3Index) (sx_geoResolution expected) (sx_allowlistVersion expected)) (\<lambda>computedLeafHash.
     if re_leaf_hash parsed \<noteq> computedLeafHash
     then Inl (''h3_index '' @ re_h3_index parsed @ '' leaf_hash '' @ re_leaf_hash parsed @ '' does not match computed ''
       @ computedLeafHash)
     else res_bind (expectPrefixedHex32 ''merkleRoot'' (JStr (sx_merkleRoot expected))) (\<lambda>expectedMerkleRoot.
     res_bind (replayProof sha (re_leaf_hash parsed) (re_proof parsed)) (\<lambda>replayedRoot.
     if replayedRoot \<noteq> expectedMerkleRoot
     then Inl (''h3_index '' @ re_h3_index parsed @ '' proof root '' @ replayedRoot @ '' does not match manifest ''
       @ expectedMerkleRoot)
     else Inr \<lparr>ve_h3Index = h3Index, ve_leafHash = re_leaf_hash parsed, ve_merkleRoot = expectedMerkleRoot,
            ve_proof = re_proof parsed\<rparr>))))))"

definition shapeResidenceResponse :: "validated_entry \<Rightarrow> int \<Rightarrow> int \<Rightarrow> residence_response" where
  "shapeResidenceResponse entry allowlistVersion geoResolution =
     \<lparr>rr_h3_index = decimal (ve_h3Index entry), rr_allowlist_version = allowlistVersion,
      rr_geo_resolution = geoResolution, rr_merkle_root = ve_merkleRoot entry, rr_proof = ve_proof entry\<rparr>"

section \<open>What the parsers establish\<close>

definition wf_inventory :: "inventory_entry \<Rightarrow> bool" where
  "wf_inventory e \<longleftrightarrow> 0 \<le> ie_shard_id e \<and> ie_shard_id e \<le> MAX_SAFE_INTEGER \<and> 0 \<le> ie_proof_count e
     \<and> ie_proof_count e \<le> MAX_SAFE_INTEGER \<and> is_prefixed_hex32 (ie_sha256 e) \<and> 0 \<le> ie_byte_size e
     \<and> ie_byte_size e \<le> MAX_SAFE_INTEGER"

lemma parseInventoryEntry_wf: "parseInventoryEntry v = Inr e \<Longrightarrow> wf_inventory e"
  unfolding parseInventoryEntry_def res_simps wf_inventory_def by fastforce

lemma parseInventoryEntry_json: "wf_inventory e \<Longrightarrow> parseInventoryEntry (inventory_json e) = Inr e"
  unfolding parseInventoryEntry_def inventory_json_def res_simps
  by (simp add: wf_inventory_def get_field_def)

definition inventory_ok :: "int \<Rightarrow> int \<Rightarrow> int \<Rightarrow> inventory_entry \<Rightarrow> bool" where
  "inventory_ok allowlist geo shardCount e \<longleftrightarrow> 0 \<le> ie_shard_id e \<and> ie_shard_id e < shardCount
     \<and> expectedProofShardObjectKey allowlist geo (ie_shard_id e) = Inr (ie_object_key e)
     \<and> is_prefixed_hex32 (ie_sha256 e)"

lemma validate_inventory_ok:
  assumes "parseInventoryEntry v = Inr e" and "validateProofShardInventoryEntry (inventory_json e) a g n = Inr e'"
  shows "inventory_ok a g n e"
proof -
  note wf = parseInventoryEntry_wf [OF assms(1)]
  from assms(2) have "\<not> n \<le> ie_shard_id e \<and> expectedProofShardObjectKey a g (ie_shard_id e) = Inr (ie_object_key e)"
    unfolding validateProofShardInventoryEntry_def parseInventoryEntry_json [OF wf] by (auto simp: res_simps split: if_splits)
  with wf show ?thesis by (simp add: inventory_ok_def wf_inventory_def)
qed

lemma inventory_loop_Inr:
  "inventory_loop a g n raw seen acc = Inr (es, seen', acc') \<Longrightarrow>
     list_all (inventory_ok a g n) es \<and> distinct (map ie_shard_id es) \<and> seen' = seen \<union> ie_shard_id ` set es
     \<and> seen \<inter> ie_shard_id ` set es = {} \<and> length es = length raw
     \<and> acc' = foldl js_add acc (map ie_proof_count es)"
proof (induction raw arbitrary: seen acc es)
  case (Cons v raw)
  from Cons.prems obtain e e' es1 where v: "parseInventoryEntry v = Inr e"
      "validateProofShardInventoryEntry (inventory_json e) a g n = Inr e'" "ie_shard_id e \<notin> seen" and es: "es = e # es1" and
      rest: "inventory_loop a g n raw (insert (ie_shard_id e) seen) (js_add acc (ie_proof_count e)) = Inr (es1, seen', acc')"
    by (auto simp: res_simps split: if_splits)
  with Cons.IH [OF rest] validate_inventory_ok [OF v(1,2)] show ?case by auto
qed simp

text \<open>A parsed manifest has one entry per shard, in the order of their ids, each under the key of its id.\<close>

definition wf_residence_manifest :: "residence_manifest \<Rightarrow> bool" where
  "wf_residence_manifest m \<longleftrightarrow>
     0 \<le> rm_allowlist_version m \<and> rm_allowlist_version m \<le> MAX_SAFE_INTEGER \<and> is_prefixed_hex32 (rm_merkle_root m)
     \<and> map ie_shard_id (rm_shards m) = map int [0..<nat (rm_shard_count m)]
     \<and> list_all (inventory_ok (rm_allowlist_version m) (rm_geo_resolution m) (rm_shard_count m)) (rm_shards m)
     \<and> 0 < rm_shard_count m"

lemma sorted_ids:
  assumes "distinct (map f es)" and "length es = n" and "\<And>e. e \<in> set es \<Longrightarrow> 0 \<le> f e \<and> f e < int n"
  shows "map f (sort_key f es) = map int [0..<n]"
proof -
  have "f ` set es \<subseteq> int ` {0..<n}"
  proof
    fix x assume "x \<in> f ` set es"
    with assms(3) show "x \<in> int ` {0..<n}" by (force intro!: image_eqI [of _ int "nat x"])
  qed
  moreover have "card (f ` set es) = n" using distinct_card [OF assms(1)] assms(2) by simp
  ultimately have "f ` set es = int ` {0..<n}"
    by (intro card_subset_eq) (simp_all add: card_image)
  then have "set (map f (sort_key f es)) = set (map int [0..<n])" by simp
  moreover have "sorted (map f (sort_key f es))" by simp
  moreover have "distinct (map f (sort_key f es))"
    using assms(1) by (simp add: distinct_map)
  moreover have "sorted (map int [0..<n])" "distinct (map int [0..<n])"
    by (simp_all add: sorted_map distinct_map strict_sorted_imp_sorted)
  ultimately show ?thesis by (intro sorted_distinct_set_unique)
qed

lemma parse_residence_manifest:
  assumes "parseProofShardManifest v = Inr m"
  shows "wf_residence_manifest m"
proof -
  from assms obtain raw es seen acc where loop:
      "inventory_loop (rm_allowlist_version m) (rm_geo_resolution m) (rm_shard_count m) raw {} 0 = Inr (es, seen, acc)"
      and len: "int (length raw) = rm_shard_count m" and es: "rm_shards m = sort_key ie_shard_id es"
      and m: "0 \<le> rm_allowlist_version m" "rm_allowlist_version m \<le> MAX_SAFE_INTEGER" "is_prefixed_hex32 (rm_merkle_root m)"
        "0 < rm_shard_count m"
    by (auto simp: parseProofShardManifest_def res_simps split: option.splits if_splits)
  note l = inventory_loop_Inr [OF loop]
  have "map ie_shard_id (sort_key ie_shard_id es) = map int [0..<nat (rm_shard_count m)]"
    using l len by (intro sorted_ids) (auto simp: list_all_iff inventory_ok_def)
  with l m es show ?thesis by (simp add: wf_residence_manifest_def list_all_iff)
qed

lemma parseProofStep_hash: "parseProofStep v = Inr st \<Longrightarrow> is_prefixed_hex32 (sibling_hash st)"
  unfolding parseProofStep_def res_simps by fastforce

lemma residence_entry_wf:
  assumes "parseProofShardEntry v = Inr e"
  shows "is_prefixed_hex32 (re_leaf_hash e) \<and> list_all (\<lambda>st. is_prefixed_hex32 (sibling_hash st)) (re_proof e)"
proof -
  from assms obtain raw where "res_map parseProofStep raw = Inr (re_proof e)" "is_prefixed_hex32 (re_leaf_hash e)"
    unfolding parseProofShardEntry_def res_simps by fastforce
  then show ?thesis
    by (auto simp: res_map_Inr_list_all2 list_all_length list_all2_conv_all_nth dest: parseProofStep_hash)
qed

lemma residence_entry_again:
  assumes "parseProofShardEntry v = Inr e"
  shows "parseProofShardEntry (residence_entry_json e) = Inr e"
  using residence_entry_wf [OF assms] parse_steps [of "re_proof e"]
  unfolding parseProofShardEntry_def residence_entry_json_def res_simps
  by (simp add: get_field_def)

text \<open>A validated entry is of its cell, and its proof leads from the cell's leaf to the root.\<close>

lemma validateProofEntry_Inr:
  assumes "validateProofEntry sha v x = Inr e"
  shows "parseH3Index (decimal (ve_h3Index e)) (sx_geoResolution x) = Inr (ve_h3Index e)"
    and "ve_merkleRoot e = sx_merkleRoot x"
    and "leafHash sha (h3_value (ve_h3Index e)) (sx_geoResolution x) (sx_allowlistVersion x) = Inr (ve_leafHash e)"
    and "replayProof sha (ve_leafHash e) (ve_proof e) = Inr (sx_merkleRoot x)"
    and "\<exists>p. parseProofShardEntry v = Inr p \<and> re_h3_index p = decimal (ve_h3Index e)"
proof -
  from assms obtain p i where p: "parseProofShardEntry v = Inr p" and i: "parseH3Index (re_h3_index p) (sx_geoResolution x) = Inr i"
    and leaf: "leafHash sha (h3_value i) (sx_geoResolution x) (sx_allowlistVersion x) = Inr (re_leaf_hash p)"
    and replay: "replayProof sha (re_leaf_hash p) (re_proof p) = Inr (sx_merkleRoot x)"
    and e: "e = \<lparr>ve_h3Index = i, ve_leafHash = re_leaf_hash p, ve_merkleRoot = sx_merkleRoot x, ve_proof = re_proof p\<rparr>"
    unfolding validateProofEntry_def by (auto simp: res_bind_Inr_iff expectPrefixedHex32_Inr split: if_splits)
  have d: "decimal i = re_h3_index p" using parseH3Index_value [OF i] by simp
  show "parseH3Index (decimal (ve_h3Index e)) (sx_geoResolution x) = Inr (ve_h3Index e)" using i d e by simp
  show "ve_merkleRoot e = sx_merkleRoot x" using e by simp
  show "leafHash sha (h3_value (ve_h3Index e)) (sx_geoResolution x) (sx_allowlistVersion x) = Inr (ve_leafHash e)"
    using leaf e by simp
  show "replayProof sha (ve_leafHash e) (ve_proof e) = Inr (sx_merkleRoot x)" using replay e by simp
  show "\<exists>p. parseProofShardEntry v = Inr p \<and> re_h3_index p = decimal (ve_h3Index e)" using p d e by auto
qed

end
