(* ===== verification/ResidenceService.thy ===== *)
theory ResidenceService
  imports ResidenceProofs WorkerStore Identity
begin

text \<open>
  The service that proves that a cell is in the residence allowlist, \<open>packages/residence-proof-worker/src\<close>: its errors
  (\<open>errors.ts\<close>), the bucket and the manifests cached in the isolate (\<open>r2.ts\<close>), the map tiles (\<open>tiles.ts\<close>) and
  the requests (\<open>http.ts\<close>).

  A run threads the world and the two caches of one bucket.  The bucket, the edge cache, \<open>JSON.parse\<close>, \<open>Number\<close> of a text,
  the gzip decoder and SHA-256 are parameters.  Runs do not overlap, so a cached promise is the manifest it resolves
  to: one that is rejected is deleted before anything else reads it.  A response has its headers in the order
  they are spread in; its body is what \<open>JSON.stringify\<close> is called on, and \<open>null\<close> where it has none.
\<close>

section \<open>Errors\<close>

datatype residence_error = ResidenceProofError string string int | OtherResidenceError js_error

definition CORS_HEADERS :: "(string \<times> string) list" where
  "CORS_HEADERS =
     [(''access-control-allow-origin'', ''*''), (''access-control-allow-methods'', ''GET, OPTIONS''),
      (''access-control-allow-headers'', ''*'')]"

definition residenceJsonResponse :: "js_value \<Rightarrow> int \<Rightarrow> worker_response" where
  "residenceJsonResponse body status =
     \<lparr>ws_status = status, ws_headers = (''content-type'', ''application/json; charset=utf-8'') # CORS_HEADERS,
      ws_body = body\<rparr>"

definition residenceErrorResponse :: "string \<Rightarrow> string \<Rightarrow> int \<Rightarrow> worker_response" where
  "residenceErrorResponse code message status =
     residenceJsonResponse (JObj [(''error'', JObj [(''code'', JStr code), (''message'', JStr message)])]) status"

definition toResidenceProofError :: "residence_error \<Rightarrow> worker_response" where
  "toResidenceProofError e = (case e of
     ResidenceProofError code message status \<Rightarrow> residenceErrorResponse code message status
   | OtherResidenceError _ \<Rightarrow> residenceErrorResponse ''proof_invalid'' ''Residence proof request failed'' 500)"

section \<open>Runs\<close>

record 'w residence_state =
  sw_world :: 'w
  sw_manifests :: "string \<rightharpoonup> residence_manifest"
  sw_tile_manifests :: "string \<rightharpoonup> tile_manifest"

type_synonym ('w, 'a) serving = "('w residence_state, residence_error, 'a) eff"

definition serve_throw :: "string \<Rightarrow> string \<Rightarrow> int \<Rightarrow> ('w, 'a) serving" where
  "serve_throw code message status = run_check (Inl (ResidenceProofError code message status))"

definition serve_plain :: "js_error + 'a \<Rightarrow> ('w, 'a) serving" where
  "serve_plain r = run_check (case r of Inl e \<Rightarrow> Inl (OtherResidenceError e) | Inr x \<Rightarrow> Inr x)"

definition serve_call :: "('w, 'a) io \<Rightarrow> ('w, 'a) serving" where
  "serve_call m = (\<lambda>s. case m (sw_world s) of
     (Inl e, w) \<Rightarrow> (Inl (OtherResidenceError e), s\<lparr>sw_world := w\<rparr>)
   | (Inr x, w) \<Rightarrow> (Inr x, s\<lparr>sw_world := w\<rparr>))"

text \<open>A promise that is not waited for: it runs, and its outcome is dropped.\<close>

definition serve_detached :: "('w, unit) io \<Rightarrow> ('w, unit) serving" where
  "serve_detached m = (\<lambda>s. (Inr (), s\<lparr>sw_world := snd (m (sw_world s))\<rparr>))"

record residence_request =
  rq_method :: string
  rq_url :: url

record 'w edge_cache =
  ec_match :: "residence_request \<Rightarrow> ('w, worker_response option) io"
  ec_put :: "residence_request \<Rightarrow> worker_response \<Rightarrow> ('w, unit) io"

text \<open>\<open>rz_ctx\<close>: whether an execution context is passed.\<close>

record 'w residence_env =
  rz_get :: "string \<Rightarrow> ('w, bytes option) io"
  rz_allowlist_version :: js_value
  rz_geo_resolution :: js_value
  rz_cache :: "'w edge_cache option"
  rz_ctx :: bool
  rz_sha :: hash_fn
  rz_number :: "string \<Rightarrow> js_value"
  rz_json_parse :: "string \<Rightarrow> js_error + js_value"
  rz_gunzip :: "bytes \<Rightarrow> string option"

record residence_config =
  cf_allowlistVersion :: int
  cf_geoResolution :: int

section \<open>The bucket\<close>

definition version_path :: "int \<Rightarrow> int \<Rightarrow> string" where
  "version_path allowlistVersion geoResolution =
     ''residence-cells/v'' @ show_int allowlistVersion @ ''/res'' @ show_int geoResolution"

definition proofManifestObjectKey :: "residence_config \<Rightarrow> string" where
  "proofManifestObjectKey c = version_path (cf_allowlistVersion c) (cf_geoResolution c) @ ''/proofs/proof_manifest.json''"

definition tileManifestObjectKey :: "residence_config \<Rightarrow> string" where
  "tileManifestObjectKey c = version_path (cf_allowlistVersion c) (cf_geoResolution c) @ ''/tiles/tile_manifest.json''"

definition tileObjectKey :: "int \<Rightarrow> int \<Rightarrow> string \<Rightarrow> string" where
  "tileObjectKey allowlistVersion geoResolution parentHex =
     version_path allowlistVersion geoResolution @ ''/tiles/res4/'' @ parentHex @ ''.json''"

definition cache_key :: "residence_config \<Rightarrow> string" where
  "cache_key c = show_int (cf_allowlistVersion c) @ '':'' @ show_int (cf_geoResolution c)"

definition parseProofManifestJson :: "'w residence_env \<Rightarrow> string \<Rightarrow> residence_error + residence_manifest" where
  "parseProofManifestJson env json =
     (case res_bind (rz_json_parse env json) parseProofShardManifest of
        Inl _ \<Rightarrow> Inl (ResidenceProofError ''proof_manifest_invalid'' ''Proof manifest is invalid'' 500)
      | Inr m \<Rightarrow> Inr m)"

definition read_residence_manifest :: "'w residence_env \<Rightarrow> residence_config \<Rightarrow> ('w, residence_manifest) serving" where
  "read_residence_manifest env c =
     (let key = proofManifestObjectKey c in
      run_bind (serve_call (rz_get env key)) (\<lambda>object.
      case object of
        None \<Rightarrow> serve_throw ''proof_manifest_missing'' (''Proof manifest is missing: '' @ key) 500
      | Some bs \<Rightarrow>
        run_bind (run_check (parseProofManifestJson env (utf8_text bs))) (\<lambda>manifest.
        if rm_allowlist_version manifest \<noteq> cf_allowlistVersion c
        then serve_throw ''proof_manifest_invalid''
          (''Proof manifest allowlist_version '' @ show_int (rm_allowlist_version manifest)
            @ '' does not match Worker config '' @ show_int (cf_allowlistVersion c)) 500
        else if rm_geo_resolution manifest \<noteq> cf_geoResolution c
        then serve_throw ''proof_manifest_invalid''
          (''Proof manifest geo_resolution '' @ show_int (rm_geo_resolution manifest)
            @ '' does not match Worker config '' @ show_int (cf_geoResolution c)) 500
        else run_return manifest)))"

definition load_residence_manifest :: "'w residence_env \<Rightarrow> residence_config \<Rightarrow> ('w, residence_manifest) serving" where
  "load_residence_manifest env c = (\<lambda>s.
     case sw_manifests s (cache_key c) of
       Some cached \<Rightarrow> (Inr cached, s)
     | None \<Rightarrow>
       run_bind (read_residence_manifest env c) (\<lambda>manifest s1.
         (Inr manifest, s1\<lparr>sw_manifests := (sw_manifests s1)(cache_key c \<mapsto> manifest)\<rparr>)) s)"

definition readTileManifest :: "'w residence_env \<Rightarrow> residence_config \<Rightarrow> ('w, tile_manifest) serving" where
  "readTileManifest env c =
     (let key = tileManifestObjectKey c in
      run_bind (serve_call (rz_get env key)) (\<lambda>object.
      case object of
        None \<Rightarrow> serve_throw ''tile_manifest_missing'' (''Tile manifest is missing: '' @ key) 500
      | Some bs \<Rightarrow>
        (case res_bind (rz_json_parse env (utf8_text bs)) (\<lambda>v. parseResidenceTileManifest v
            \<lparr>tx_allowlistVersion = Some (cf_allowlistVersion c), tx_geoResolution = Some (cf_geoResolution c),
             tx_merkleRoot = None\<rparr>) of
           Inl _ \<Rightarrow> serve_throw ''tile_manifest_invalid'' ''Tile manifest is invalid'' 500
         | Inr manifest \<Rightarrow> run_return manifest)))"

definition loadTileManifest :: "'w residence_env \<Rightarrow> residence_config \<Rightarrow> ('w, tile_manifest) serving" where
  "loadTileManifest env c = (\<lambda>s.
     case sw_tile_manifests s (cache_key c) of
       Some cached \<Rightarrow> (Inr cached, s)
     | None \<Rightarrow>
       run_bind (readTileManifest env c) (\<lambda>manifest s1.
         (Inr manifest, s1\<lparr>sw_tile_manifests := (sw_tile_manifests s1)(cache_key c \<mapsto> manifest)\<rparr>)) s)"

definition shard_of :: "residence_manifest \<Rightarrow> int \<Rightarrow> shard_expectation" where
  "shard_of m shardId =
     \<lparr>sx_allowlistVersion = rm_allowlist_version m, sx_geoResolution = rm_geo_resolution m,
      sx_merkleRoot = rm_merkle_root m, sx_shardId = shardId, sx_shardCount = rm_shard_count m\<rparr>"

definition parseProofShardJson ::
    "'w residence_env \<Rightarrow> string \<Rightarrow> inventory_entry \<Rightarrow> residence_manifest \<Rightarrow> residence_error + residence_shard" where
  "parseProofShardJson env json inventory manifest =
     (case res_bind (rz_json_parse env json) (\<lambda>v. parseProofShard v (shard_of manifest (ie_shard_id inventory))) of
        Inl _ \<Rightarrow> Inl (ResidenceProofError ''proof_shard_invalid'' ''Proof shard is invalid'' 500)
      | Inr shard \<Rightarrow> Inr shard)"

definition load_residence_shard ::
    "'w residence_env \<Rightarrow> inventory_entry \<Rightarrow> residence_manifest \<Rightarrow> ('w, residence_shard) serving" where
  "load_residence_shard env inventory manifest =
     run_bind (serve_call (rz_get env (ie_object_key inventory))) (\<lambda>object.
     case object of
       None \<Rightarrow> serve_throw ''proof_shard_missing'' (''Proof shard is missing: '' @ ie_object_key inventory) 500
     | Some bs \<Rightarrow>
       if int (length bs) \<noteq> ie_byte_size inventory
       then serve_throw ''proof_shard_integrity_mismatch''
         (''Proof shard byte_size '' @ show_int (int (length bs)) @ '' does not match manifest ''
           @ show_int (ie_byte_size inventory)) 500
       else let digest = sha256Hex (rz_sha env) bs in
       if digest \<noteq> ie_sha256 inventory
       then serve_throw ''proof_shard_integrity_mismatch''
         (''Proof shard sha256 '' @ digest @ '' does not match manifest '' @ ie_sha256 inventory) 500
       else case rz_gunzip env bs of
         None \<Rightarrow> serve_throw ''proof_shard_invalid'' ''Proof shard gzip is invalid'' 500
       | Some json \<Rightarrow>
         run_bind (run_check (parseProofShardJson env json inventory manifest)) (\<lambda>shard.
         if int (length (rs_proofs shard)) \<noteq> ie_proof_count inventory
         then serve_throw ''proof_shard_invalid''
           (''Proof shard proof_count '' @ show_int (int (length (rs_proofs shard))) @ '' does not match manifest ''
             @ show_int (ie_proof_count inventory)) 500
         else run_return shard))"

section \<open>Tiles\<close>

definition TILE_META_PATH :: string where "TILE_META_PATH = ''/api/residence-tiles/meta''"
definition META_CACHE_CONTROL :: string where "META_CACHE_CONTROL = ''public, max-age=300''"
definition TILE_CACHE_CONTROL :: string where "TILE_CACHE_CONTROL = ''public, max-age=31536000, immutable''"

text \<open>The pattern \<open>/api/residence-tiles/v(\d+)/res(\d+)/([0-9a-f]+).json\<close>, anchored at both ends, and its groups.\<close>

definition after :: "string \<Rightarrow> string \<Rightarrow> string option" where
  "after p s = (if starts_with s p then Some (drop (length p) s) else None)"

definition one_or_more :: "(char \<Rightarrow> bool) \<Rightarrow> string \<Rightarrow> (string \<times> string) option" where
  "one_or_more P s = (if takeWhile P s = [] then None else Some (takeWhile P s, dropWhile P s))"

definition match_tile_path :: "string \<Rightarrow> (string \<times> string \<times> string) option" where
  "match_tile_path pathname =
     Option.bind (after ''/api/residence-tiles/v'' pathname) (\<lambda>s1.
     Option.bind (one_or_more is_digit s1) (\<lambda>(version, s2).
     Option.bind (after ''/res'' s2) (\<lambda>s3.
     Option.bind (one_or_more is_digit s3) (\<lambda>(resolution, s4).
     Option.bind (after ''/'' s4) (\<lambda>s5.
     Option.bind (one_or_more is_lower_hex s5) (\<lambda>(parentHex, s6).
       if s6 = ''.json'' then Some (version, resolution, parentHex) else None))))))"

definition isResidenceTilePath :: "string \<Rightarrow> bool" where
  "isResidenceTilePath pathname \<longleftrightarrow> pathname = TILE_META_PATH \<or> match_tile_path pathname \<noteq> None"

record tile_path =
  tp_allowlistVersion :: int
  tp_geoResolution :: int
  tp_parentHex :: string

definition safe_digits :: "string \<Rightarrow> int option" where
  "safe_digits s = (case parseInt10 s of Some n \<Rightarrow> if isSafeInteger (of_int n) then Some n else None | None \<Rightarrow> None)"

definition parseTilePath :: "string \<Rightarrow> tile_path option" where
  "parseTilePath pathname =
     Option.bind (match_tile_path pathname) (\<lambda>(version, resolution, parentHex).
       case (safe_digits version, safe_digits resolution) of
         (Some v, Some r) \<Rightarrow> Some \<lparr>tp_allowlistVersion = v, tp_geoResolution = r, tp_parentHex = parentHex\<rparr>
       | _ \<Rightarrow> None)"

definition tileJsonResponse :: "js_value \<Rightarrow> int \<Rightarrow> string \<Rightarrow> worker_response" where
  "tileJsonResponse body status cacheControl =
     \<lparr>ws_status = status,
      ws_headers = [(''content-type'', ''application/json; charset=utf-8''), (''cache-control'', cacheControl)] @ CORS_HEADERS,
      ws_body = body\<rparr>"

definition preflight :: worker_response where
  "preflight = \<lparr>ws_status = 204, ws_headers = CORS_HEADERS @ [(''access-control-max-age'', ''86400'')], ws_body = JNull\<rparr>"

definition tile_json :: "residence_tile \<Rightarrow> js_value" where
  "tile_json t = JObj
     [(''schema'', JStr RESIDENCE_TILE_SCHEMA), (''schema_version'', jint RESIDENCE_TILE_SCHEMA_VERSION),
      (''allowlist_version'', jint (rt_allowlist_version t)), (''geo_resolution'', jint (rt_geo_resolution t)),
      (''tile_parent_resolution'', jint RESIDENCE_TILE_PARENT_RESOLUTION), (''merkle_root'', JStr (rt_merkle_root t)),
      (''parent_h3_index'', JStr (rt_parent_h3_index t)), (''cells'', JArr (map JStr (rt_cells t)))]"

definition tile_meta_json :: "tile_manifest \<Rightarrow> js_value" where
  "tile_meta_json m = JObj
     [(''schema'', JStr RESIDENCE_TILE_MANIFEST_SCHEMA), (''schema_version'', jint RESIDENCE_TILE_MANIFEST_SCHEMA_VERSION),
      (''allowlist_version'', jint (tm_allowlist_version m)), (''geo_resolution'', jint (tm_geo_resolution m)),
      (''tile_parent_resolution'', jint RESIDENCE_TILE_PARENT_RESOLUTION), (''merkle_root'', JStr (tm_merkle_root m)),
      (''object_key_rule'', JStr (tm_object_key_rule m)), (''tile_count'', jint (tm_tile_count m)),
      (''total_cell_count'', jint (tm_total_cell_count m))]"

definition parseTileBytes :: "'w residence_env \<Rightarrow> bytes \<Rightarrow> residence_config \<Rightarrow> tile_path \<Rightarrow> residence_error + residence_tile" where
  "parseTileBytes env bs c parsed =
     (case rz_json_parse env (utf8_text bs) of
        Inl _ \<Rightarrow> Inl (ResidenceProofError ''tile_invalid'' ''Tile JSON is invalid'' 500)
      | Inr value \<Rightarrow>
        (case parseResidenceTile value
            \<lparr>tx_allowlistVersion = Some (cf_allowlistVersion c), tx_geoResolution = Some (cf_geoResolution c),
             tx_merkleRoot = None\<rparr> of
           Inl _ \<Rightarrow> Inl (ResidenceProofError ''tile_invalid'' ''Tile is invalid'' 500)
         | Inr tile \<Rightarrow>
           let expectedParent = show_nat (hex_number (tp_parentHex parsed)) in
           if rt_parent_h3_index tile \<noteq> expectedParent
           then Inl (ResidenceProofError ''tile_invalid''
             (''Tile parent_h3_index '' @ rt_parent_h3_index tile @ '' does not match requested '' @ expectedParent) 500)
           else Inr tile))"

definition handleTileMeta :: "'w residence_env \<Rightarrow> residence_config \<Rightarrow> ('w, worker_response) serving" where
  "handleTileMeta env c =
     run_bind (loadTileManifest env c) (\<lambda>m. run_return (tileJsonResponse (tile_meta_json m) 200 META_CACHE_CONTROL))"

definition match_cache :: "'w residence_env \<Rightarrow> residence_request \<Rightarrow> ('w, worker_response option) serving" where
  "match_cache env req = (case rz_cache env of None \<Rightarrow> run_return None | Some ec \<Rightarrow> serve_call (ec_match ec req))"

definition put_cache :: "'w residence_env \<Rightarrow> residence_request \<Rightarrow> worker_response \<Rightarrow> ('w, unit) serving" where
  "put_cache env req resp =
     (case rz_cache env of
        Some ec \<Rightarrow> if rz_ctx env then serve_detached (ec_put ec req resp) else run_return ()
      | None \<Rightarrow> run_return ())"

definition handleTile ::
    "residence_request \<Rightarrow> 'w residence_env \<Rightarrow> residence_config \<Rightarrow> tile_path \<Rightarrow> ('w, worker_response) serving" where
  "handleTile req env c parsed =
     (if tp_allowlistVersion parsed \<noteq> cf_allowlistVersion c \<or> tp_geoResolution parsed \<noteq> cf_geoResolution c
      then serve_throw ''tile_version_mismatch''
        (''Tile version v'' @ show_int (tp_allowlistVersion parsed) @ ''/res'' @ show_int (tp_geoResolution parsed)
          @ '' does not match Worker config v'' @ show_int (cf_allowlistVersion c) @ ''/res'' @ show_int (cf_geoResolution c)) 409
      else run_bind (match_cache env req) (\<lambda>hit.
      case hit of
        Some resp \<Rightarrow> run_return resp
      | None \<Rightarrow>
        let key = tileObjectKey (cf_allowlistVersion c) (cf_geoResolution c) (tp_parentHex parsed) in
        run_bind (serve_call (rz_get env key)) (\<lambda>object.
        case object of
          None \<Rightarrow> serve_throw ''tile_not_found'' (''Tile is not in the allowlist: '' @ key) 404
        | Some bs \<Rightarrow>
          run_bind (run_check (parseTileBytes env bs c parsed)) (\<lambda>tile.
          let resp = tileJsonResponse (tile_json tile) 200 TILE_CACHE_CONTROL in
          run_bind (put_cache env req resp) (\<lambda>_. run_return resp)))))"

definition handleResidenceTileRequest ::
    "residence_request \<Rightarrow> 'w residence_env \<Rightarrow> residence_config \<Rightarrow> ('w, worker_response) serving" where
  "handleResidenceTileRequest req env c =
     (if rq_method req = ''OPTIONS'' then run_return preflight
      else if rq_method req \<noteq> ''GET'' then serve_throw ''method_not_allowed'' ''Only GET is supported'' 405
      else if url_pathname (rq_url req) = TILE_META_PATH then handleTileMeta env c
      else case parseTilePath (url_pathname (rq_url req)) of
        None \<Rightarrow> serve_throw ''not_found'' ''Not found'' 404
      | Some parsed \<Rightarrow> handleTile req env c parsed)"

section \<open>Requests\<close>

definition parseConfigInteger :: "'w residence_env \<Rightarrow> string \<Rightarrow> js_value \<Rightarrow> residence_error + int" where
  "parseConfigInteger env name v =
     (let parsed = (case v of JStr s \<Rightarrow> rz_number env s | _ \<Rightarrow> v) in
      case parsed of
        JNum q \<Rightarrow> if \<not> isSafeInteger q \<or> q < 0
          then Inl (ResidenceProofError ''proof_manifest_invalid'' (name @ '' must be a non-negative integer'') 500)
          else Inr \<lfloor>q\<rfloor>
      | _ \<Rightarrow> Inl (ResidenceProofError ''proof_manifest_invalid'' (name @ '' must be a non-negative integer'') 500))"

definition readConfig :: "'w residence_env \<Rightarrow> residence_error + residence_config" where
  "readConfig env =
     res_bind (parseConfigInteger env ''ALLOWLIST_VERSION'' (rz_allowlist_version env)) (\<lambda>allowlist.
     res_bind (parseConfigInteger env ''GEO_RESOLUTION'' (rz_geo_resolution env)) (\<lambda>geo.
       Inr \<lparr>cf_allowlistVersion = allowlist, cf_geoResolution = geo\<rparr>))"

definition parseRequestH3Index :: "string \<Rightarrow> int \<Rightarrow> residence_error + parsed_h3_index" where
  "parseRequestH3Index value expectedResolution =
     (case parseH3Index value expectedResolution of
        Inl message \<Rightarrow> Inl (ResidenceProofError ''invalid_h3_index'' message 400)
      | Inr i \<Rightarrow> Inr i)"

definition response_json :: "residence_response \<Rightarrow> js_value" where
  "response_json r = JObj
     [(''h3_index'', JStr (rr_h3_index r)), (''allowlist_version'', jint (rr_allowlist_version r)),
      (''geo_resolution'', jint (rr_geo_resolution r)), (''merkle_root'', JStr (rr_merkle_root r)),
      (''proof'', JArr (map step_json (rr_proof r)))]"

definition serve_cell :: "'w residence_env \<Rightarrow> residence_config \<Rightarrow> parsed_h3_index \<Rightarrow> ('w, worker_response) serving" where
  "serve_cell env config h3Index =
     run_bind (load_residence_manifest env config) (\<lambda>manifest.
     run_bind (serve_plain (proofShardId (rz_sha env) (h3_value h3Index) (rm_shard_count manifest))) (\<lambda>shardId.
     case List.find (\<lambda>e. ie_shard_id e = shardId) (rm_shards manifest) of
       None \<Rightarrow> serve_throw ''proof_manifest_invalid'' ''Proof shard inventory is missing'' 500
     | Some inventory \<Rightarrow>
       run_bind (load_residence_shard env inventory manifest) (\<lambda>shard.
       case findProofEntry shard h3Index of
         None \<Rightarrow> serve_throw ''residence_cell_not_allowed'' ''Residence cell is not in the allowlist'' 404
       | Some entry \<Rightarrow>
         run_bind (serve_plain (validateProofEntry (rz_sha env) (residence_entry_json entry) (shard_of manifest shardId))) (\<lambda>validated.
           run_return (residenceJsonResponse (response_json (shapeResidenceResponse validated
             (rm_allowlist_version manifest) (rm_geo_resolution manifest))) 200)))))"

definition handleResidenceProofRequestUnchecked :: "residence_request \<Rightarrow> 'w residence_env \<Rightarrow> ('w, worker_response) serving" where
  "handleResidenceProofRequestUnchecked req env =
     (let pathname = url_pathname (rq_url req) in
      if isResidenceTilePath pathname
      then run_bind (run_check (readConfig env)) (\<lambda>config. handleResidenceTileRequest req env config)
      else if pathname \<noteq> ''/api/residence-proof'' then serve_throw ''not_found'' ''Not found'' 404
      else if rq_method req = ''OPTIONS'' then run_return preflight
      else if rq_method req \<noteq> ''GET'' then serve_throw ''method_not_allowed'' ''Only GET is supported'' 405
      else run_bind (run_check (readConfig env)) (\<lambda>config.
      case map_of (url_params (rq_url req)) ''h3_index'' of
        None \<Rightarrow> serve_throw ''invalid_h3_index'' ''h3_index is required'' 400
      | Some h3IndexParam \<Rightarrow>
        run_bind (run_check (parseRequestH3Index h3IndexParam (cf_geoResolution config))) (\<lambda>h3Index.
          serve_cell env config h3Index)))"

definition handleResidenceProofRequest :: "residence_request \<Rightarrow> 'w residence_env \<Rightarrow> ('w, worker_response) serving" where
  "handleResidenceProofRequest req env =
     run_catch (handleResidenceProofRequestUnchecked req env) (\<lambda>e. run_return (toResidenceProofError e))"

end
