(* ===== verification/ResidenceProps.thy ===== *)
theory ResidenceProps
  imports ResidenceService
begin

text \<open>
  What the residence service answers.  \<open>serves\<close> is a rule of the runs: a condition on the state is kept, an answer
  has a property, and what is thrown is not answered with 200.  The cached manifests are those of the configured
  version, and a locale states what the tiles rely on of the edge cache; it is interpreted on a cache that is a map.
\<close>

section \<open>A condition kept by a run\<close>

definition refused :: "residence_error \<Rightarrow> bool" where
  "refused e \<longleftrightarrow> ws_status (toResidenceProofError e) \<noteq> 200"

definition serves :: "('w residence_state \<Rightarrow> bool) \<Rightarrow> ('w, 'a) serving \<Rightarrow> ('a \<Rightarrow> bool) \<Rightarrow> bool" where
  "serves P m V \<longleftrightarrow> (\<forall>s r s'. P s \<longrightarrow> m s = (r, s') \<longrightarrow> P s' \<and> (case r of Inl e \<Rightarrow> refused e | Inr x \<Rightarrow> V x))"

named_theorems serves_intros \<open>rules of the runs\<close>

lemma servesI:
  "(\<And>s r s'. P s \<Longrightarrow> m s = (r, s') \<Longrightarrow> P s' \<and> (case r of Inl e \<Rightarrow> refused e | Inr x \<Rightarrow> V x)) \<Longrightarrow> serves P m V"
  by (simp add: serves_def)

lemma serves_Inr: "serves P m V \<Longrightarrow> m s = (Inr x, s') \<Longrightarrow> P s \<Longrightarrow> P s' \<and> V x"
  by (fastforce simp: serves_def)

lemma serves_Inl: "serves P m V \<Longrightarrow> m s = (Inl e, s') \<Longrightarrow> P s \<Longrightarrow> P s' \<and> refused e"
  by (fastforce simp: serves_def)

lemma refused_simps [simp]: "refused (ResidenceProofError code message status) \<longleftrightarrow> status \<noteq> 200" "refused (OtherResidenceError e)"
  by (simp_all add: refused_def toResidenceProofError_def residenceErrorResponse_def residenceJsonResponse_def)

lemma serves_weaken: "serves P m V \<Longrightarrow> (\<And>x. V x \<Longrightarrow> W x) \<Longrightarrow> serves P m W"
  unfolding serves_def by (metis (no_types, lifting) sum.case_eq_if)

lemma serves_return [serves_intros]: "V x \<Longrightarrow> serves P (run_return x) V"
  by (simp add: serves_def run_return_def)

lemma serves_throw [serves_intros]: "status \<noteq> 200 \<Longrightarrow> serves P (serve_throw code message status) V"
  by (simp add: serves_def serve_throw_def run_check_def)

lemma serves_check: "(\<And>e. r = Inl e \<Longrightarrow> refused e) \<Longrightarrow> (\<And>x. r = Inr x \<Longrightarrow> V x) \<Longrightarrow> serves P (run_check r) V"
  by (cases r) (auto simp: serves_def run_check_def)

lemma serves_plain: "(\<And>x. r = Inr x \<Longrightarrow> V x) \<Longrightarrow> serves P (serve_plain r) V"
  unfolding serve_plain_def by (rule serves_check) (auto split: sum.splits)

lemma serves_bind:
  assumes "serves P m W" and "\<And>x. W x \<Longrightarrow> serves P (f x) V"
  shows "serves P (run_bind m f) V"
proof (rule servesI)
  fix s r s' assume P: "P s" and run: "run_bind m f s = (r, s')"
  obtain q s1 where m: "m s = (q, s1)" by fastforce
  show "P s' \<and> (case r of Inl e \<Rightarrow> refused e | Inr x \<Rightarrow> V x)"
  proof (cases q)
    case (Inl e)
    with m run serves_Inl [OF assms(1) _ P] show ?thesis by (auto simp: run_bind_def)
  next
    case (Inr x)
    with m serves_Inr [OF assms(1) _ P] have "P s1" "W x" by auto
    moreover from Inr m run have "f x s1 = (r, s')" by (simp add: run_bind_def)
    ultimately show ?thesis using assms(2) unfolding serves_def by blast
  qed
qed

lemma serves_option [serves_intros]:
  "(x = None \<Longrightarrow> serves P m V) \<Longrightarrow> (\<And>v. x = Some v \<Longrightarrow> serves P (f v) V) \<Longrightarrow> serves P (case x of None \<Rightarrow> m | Some v \<Rightarrow> f v) V"
  by (cases x) auto

lemma serves_if [serves_intros]: "(b \<Longrightarrow> serves P m V) \<Longrightarrow> (\<not> b \<Longrightarrow> serves P n V) \<Longrightarrow> serves P (if b then m else n) V"
  by simp

lemma serves_let [serves_intros]: "serves P (f v) V \<Longrightarrow> serves P (let x = v in f x) V"
  by simp

lemma serves_call: "(\<And>s. P s \<Longrightarrow> P (s\<lparr>sw_world := snd (m (sw_world s))\<rparr>)) \<Longrightarrow> serves P (serve_call m) (\<lambda>_. True)"
  by (rule servesI) (auto simp: serve_call_def split: prod.splits sum.splits, (metis snd_conv)+)

section \<open>The cached manifests\<close>

definition caches_ok :: "'w residence_env \<Rightarrow> 'w residence_state \<Rightarrow> bool" where
  "caches_ok env s \<longleftrightarrow> (\<forall>c m. readConfig env = Inr c \<longrightarrow> sw_manifests s (cache_key c) = Some m \<longrightarrow>
     wf_residence_manifest m \<and> rm_allowlist_version m = cf_allowlistVersion c \<and> rm_geo_resolution m = cf_geoResolution c)"

lemma caches_ok_world [simp]: "caches_ok env (s\<lparr>sw_world := w\<rparr>) = caches_ok env s"
  "caches_ok env (s\<lparr>sw_tile_manifests := t\<rparr>) = caches_ok env s"
  by (simp_all add: caches_ok_def)

lemma caches_call: "serves (caches_ok env) (serve_call m) (\<lambda>_. True)"
  by (rule serves_call) simp

lemma read_manifest_serves:
  "serves (caches_ok env) (read_residence_manifest env c) (\<lambda>m. wf_residence_manifest m
     \<and> rm_allowlist_version m = cf_allowlistVersion c \<and> rm_geo_resolution m = cf_geoResolution c)"
proof -
  have parsed: "serves (caches_ok env) (run_check (parseProofManifestJson env t)) wf_residence_manifest" for t
    by (rule serves_check) (auto simp: parseProofManifestJson_def res_bind_Inr_iff parse_residence_manifest split: sum.splits)
  show ?thesis
    unfolding read_residence_manifest_def
    by (intro serves_intros serves_bind [OF caches_call] serves_bind [OF parsed]) auto
qed

lemma load_manifest_serves:
  assumes "readConfig env = Inr c"
  shows "serves (caches_ok env) (load_residence_manifest env c) (\<lambda>m. wf_residence_manifest m
     \<and> rm_allowlist_version m = cf_allowlistVersion c \<and> rm_geo_resolution m = cf_geoResolution c)"
proof (rule servesI)
  fix s r s' assume ok: "caches_ok env s" and run: "load_residence_manifest env c s = (r, s')"
  show "caches_ok env s' \<and> (case r of Inl e \<Rightarrow> refused e | Inr m \<Rightarrow> wf_residence_manifest m
      \<and> rm_allowlist_version m = cf_allowlistVersion c \<and> rm_geo_resolution m = cf_geoResolution c)"
  proof (cases "sw_manifests s (cache_key c)")
    case (Some m)
    with ok run assms show ?thesis by (auto simp: load_residence_manifest_def caches_ok_def)
  next
    case None
    note read = read_manifest_serves [of env c]
    show ?thesis
    proof (cases "read_residence_manifest env c s")
      case (Pair r1 s1)
      show ?thesis
      proof (cases r1)
        case (Inl e)
        with Pair None run serves_Inl [OF read, of s e s1] ok show ?thesis
          by (auto simp: load_residence_manifest_def run_bind_def)
      next
        case (Inr m)
        with Pair serves_Inr [OF read, of s m s1] ok have m: "caches_ok env s1" "wf_residence_manifest m"
          "rm_allowlist_version m = cf_allowlistVersion c" "rm_geo_resolution m = cf_geoResolution c" by auto
        with Inr Pair None run assms show ?thesis
          by (auto simp: load_residence_manifest_def run_bind_def caches_ok_def)
      qed
    qed
  qed
qed

section \<open>Serving a cell\<close>

text \<open>The answer for the cell \<open>i\<close>: its leaf under the configured version leads along the proof to the root.\<close>

definition proves_cell :: "hash_fn \<Rightarrow> residence_config \<Rightarrow> parsed_h3_index \<Rightarrow> worker_response \<Rightarrow> bool" where
  "proves_cell sha c i resp \<longleftrightarrow> (\<exists>m leaf steps.
     wf_residence_manifest m \<and> rm_allowlist_version m = cf_allowlistVersion c \<and> rm_geo_resolution m = cf_geoResolution c
     \<and> leafHash sha (h3_value i) (cf_geoResolution c) (cf_allowlistVersion c) = Inr leaf
     \<and> replayProof sha leaf steps = Inr (rm_merkle_root m)
     \<and> ws_body resp = response_json \<lparr>rr_h3_index = decimal i, rr_allowlist_version = cf_allowlistVersion c,
         rr_geo_resolution = cf_geoResolution c, rr_merkle_root = rm_merkle_root m, rr_proof = steps\<rparr>)"

lemma load_shard_serves:
  "serves (caches_ok env) (load_residence_shard env inventory m) (\<lambda>sh. list_all (\<lambda>e. \<exists>v. parseProofShardEntry v = Inr e) (rs_proofs sh))"
proof -
  have entries: "list_all (\<lambda>e. \<exists>v. parseProofShardEntry v = Inr e) (rs_proofs sh)"
    if sh: "parseProofShard v x = Inr sh" for v x sh
  proof -
    from sh obtain raw where "res_map parseProofShardEntry raw = Inr (rs_proofs sh)"
      unfolding parseProofShard_def res_bind_Inr_iff by fastforce
    then show ?thesis by (auto simp: res_map_Inr_list_all2 list_all2_conv_all_nth list_all_length)
  qed
  have parsed: "serves (caches_ok env) (run_check (parseProofShardJson env t inventory m))
      (\<lambda>sh. list_all (\<lambda>e. \<exists>v. parseProofShardEntry v = Inr e) (rs_proofs sh))" for t
    by (rule serves_check) (auto simp: parseProofShardJson_def res_bind_Inr_iff split: sum.splits dest: entries)
  show ?thesis
    unfolding load_residence_shard_def
    by (intro serves_intros serves_bind [OF caches_call] serves_bind [OF parsed]) auto
qed

lemma serve_cell_serves:
  assumes "readConfig env = Inr c" and i: "parseH3Index p (cf_geoResolution c) = Inr i"
  shows "serves (caches_ok env) (serve_cell env c i) (proves_cell (rz_sha env) c i)"
  unfolding serve_cell_def
proof (intro serves_intros serves_bind [OF load_manifest_serves [OF assms(1)]] serves_bind [OF serves_plain]
    serves_bind [OF load_shard_serves])
  fix m shardId inventory sh entry validated
  assume m: "wf_residence_manifest m \<and> rm_allowlist_version m = cf_allowlistVersion c \<and> rm_geo_resolution m = cf_geoResolution c"
    and sh: "list_all (\<lambda>e. \<exists>v. parseProofShardEntry v = Inr e) (rs_proofs sh)" and entry: "findProofEntry sh i = Some entry"
    and v: "validateProofEntry (rz_sha env) (residence_entry_json entry) (shard_of m shardId) = Inr validated"
  from entry have "entry \<in> set (rs_proofs sh)" and dec: "re_h3_index entry = decimal i"
    by (auto simp: findProofEntry_def find_Some_iff)
  with sh obtain w where "parseProofShardEntry w = Inr entry" by (auto simp: list_all_iff)
  from residence_entry_again [OF this] validateProofEntry_Inr(5) [OF v]
  have "decimal (ve_h3Index validated) = decimal i" using dec by auto
  moreover have "decimal i = p" using parseH3Index_value [OF i] by simp
  ultimately have "ve_h3Index validated = i"
    using validateProofEntry_Inr(1) [OF v] i m by (simp add: shard_of_def)
  with validateProofEntry_Inr(2-4) [OF v] m
  show "proves_cell (rz_sha env) c i (residenceJsonResponse (response_json
      (shapeResidenceResponse validated (rm_allowlist_version m) (rm_geo_resolution m))) 200)"
    unfolding proves_cell_def
    by (intro exI [of _ m] exI [of _ "ve_leafHash validated"] exI [of _ "ve_proof validated"])
      (simp add: shard_of_def residenceJsonResponse_def shapeResidenceResponse_def)
qed simp_all

section \<open>Any request\<close>

lemma serves_tile_manifest:
  assumes "\<And>s w. P s \<Longrightarrow> P (s\<lparr>sw_tile_manifests := w\<rparr>)" and call: "\<And>k. serves P (serve_call (rz_get env k)) (\<lambda>_. True)"
  shows "serves P (loadTileManifest env c) (\<lambda>_. True)"
proof (rule servesI)
  fix s r s' assume P: "P s" and run: "loadTileManifest env c s = (r, s')"
  have read: "serves P (readTileManifest env c) (\<lambda>_. True)"
    unfolding readTileManifest_def
    by (intro serves_intros serves_bind [OF call]) (auto intro!: serves_intros split: sum.split)
  show "P s' \<and> (case r of Inl e \<Rightarrow> refused e | Inr x \<Rightarrow> True)"
  proof (cases "sw_tile_manifests s (cache_key c)")
    case (Some m)
    with P run show ?thesis by (auto simp: loadTileManifest_def)
  next
    case None
    obtain q s1 where q: "readTileManifest env c s = (q, s1)" by fastforce
    show ?thesis
    proof (cases q)
      case (Inl e)
      with q None run serves_Inl [OF read _ P] show ?thesis by (auto simp: loadTileManifest_def run_bind_def)
    next
      case (Inr m)
      with q serves_Inr [OF read _ P] have "P s1" by auto
      with Inr q None run assms(1) show ?thesis by (auto simp: loadTileManifest_def run_bind_def)
    qed
  qed
qed

lemma parseTileBytes_refused: "parseTileBytes env bs c parsed = Inl e \<Longrightarrow> refused e"
  by (auto simp: parseTileBytes_def Let_def split: sum.splits if_splits)

lemma readConfig_refused: "readConfig env = Inl e \<Longrightarrow> refused e"
  by (auto simp: readConfig_def parseConfigInteger_def Let_def res_bind_Inl_iff split: js_value.splits if_splits)

lemma serves_detached: "(\<And>s w. P s \<Longrightarrow> P (s\<lparr>sw_world := w\<rparr>)) \<Longrightarrow> serves P (serve_detached m) (\<lambda>_. True)"
  by (rule servesI) (auto simp: serve_detached_def)

lemma tile_request_caches: "serves (caches_ok env) (handleResidenceTileRequest req env c) (\<lambda>_. True)"
proof -
  have bytes: "serves (caches_ok env) (run_check (parseTileBytes env bs c parsed)) (\<lambda>_. True)" for bs parsed
    by (rule serves_check) (auto dest: parseTileBytes_refused)
  have cached: "serves (caches_ok env) (match_cache env req) (\<lambda>_. True)"
    unfolding match_cache_def by (intro serves_intros caches_call) simp
  have put: "serves (caches_ok env) (put_cache env req resp) (\<lambda>_. True)" for resp
    unfolding put_cache_def by (intro serves_intros serves_detached) auto
  show ?thesis
    unfolding handleResidenceTileRequest_def handleTileMeta_def handleTile_def
    by (intro serves_intros serves_bind [OF cached] serves_bind [OF caches_call] serves_bind [OF bytes] serves_bind [OF put]
        serves_bind [OF serves_tile_manifest] caches_call) auto
qed

text \<open>The cell a request asks for, and an answer that proves it.\<close>

definition cell_answered :: "residence_request \<Rightarrow> 'w residence_env \<Rightarrow> worker_response \<Rightarrow> bool" where
  "cell_answered req env resp \<longleftrightarrow> (\<exists>c p i. readConfig env = Inr c \<and> map_of (url_params (rq_url req)) ''h3_index'' = Some p
     \<and> parseH3Index p (cf_geoResolution c) = Inr i \<and> proves_cell (rz_sha env) c i resp)"

lemma proof_path_no_tile: "\<not> isResidenceTilePath ''/api/residence-proof''"
  by (simp add: isResidenceTilePath_def TILE_META_PATH_def match_tile_path_def after_def starts_with_def)

lemma unchecked_serves:
  "serves (caches_ok env) (handleResidenceProofRequestUnchecked req env)
     (\<lambda>resp. url_pathname (rq_url req) = ''/api/residence-proof'' \<longrightarrow> ws_status resp = 200 \<longrightarrow> cell_answered req env resp)"
proof -
  have config: "serves (caches_ok env) (run_check (readConfig env)) (\<lambda>c. readConfig env = Inr c)"
    by (rule serves_check) (auto dest: readConfig_refused)
  have index: "serves (caches_ok env) (run_check (parseRequestH3Index p r)) (\<lambda>i. parseH3Index p r = Inr i)" for p r
    by (rule serves_check) (auto simp: parseRequestH3Index_def split: sum.splits)
  show ?thesis
    unfolding handleResidenceProofRequestUnchecked_def
    by (intro serves_intros serves_bind [OF config] serves_weaken [OF tile_request_caches] serves_bind [OF index]
        serves_weaken [OF serve_cell_serves])
      (auto simp: proof_path_no_tile preflight_def cell_answered_def)
qed

lemma answered_serves:
  assumes "serves P (handleResidenceProofRequestUnchecked req env) V" and "handleResidenceProofRequest req env s = (r, s')" and "P s"
  shows "P s' \<and> (\<exists>resp. r = Inr resp \<and> (ws_status resp = 200 \<longrightarrow> V resp))"
proof -
  obtain q s1 where q: "handleResidenceProofRequestUnchecked req env s = (q, s1)" by fastforce
  show ?thesis
  proof (cases q)
    case (Inl e)
    with q serves_Inl [OF assms(1) _ assms(3)] assms(2) show ?thesis
      by (auto simp: handleResidenceProofRequest_def run_catch_def run_return_def refused_def)
  next
    case (Inr x)
    with q serves_Inr [OF assms(1) _ assms(3)] assms(2) show ?thesis
      by (auto simp: handleResidenceProofRequest_def run_catch_def)
  qed
qed

section \<open>Histories\<close>

text \<open>An isolate starts with empty caches and serves one request after the other; between them the world may change.\<close>

inductive residence_history :: "'w residence_env \<Rightarrow> ('w \<Rightarrow> 'w \<Rightarrow> bool) \<Rightarrow> 'w \<Rightarrow> 'w residence_state \<Rightarrow> bool"
  for env R w0 where
  started: "residence_history env R w0 \<lparr>sw_world = w0, sw_manifests = Map.empty, sw_tile_manifests = Map.empty\<rparr>"
| answered: "residence_history env R w0 s \<Longrightarrow> handleResidenceProofRequest req env s = (r, s') \<Longrightarrow> residence_history env R w0 s'"
| elsewhere: "residence_history env R w0 s \<Longrightarrow> R (sw_world s) w \<Longrightarrow> residence_history env R w0 (s\<lparr>sw_world := w\<rparr>)"

lemma history_caches: "residence_history env R w0 s \<Longrightarrow> caches_ok env s"
proof (induction rule: residence_history.induct)
  case started
  then show ?case by (simp add: caches_ok_def)
next
  case (answered s req r s')
  then show ?case using answered_serves [OF unchecked_serves] by blast
qed simp

section \<open>The edge cache\<close>

text \<open>What is held for a request: \<open>held\<close> of the world.  A read leaves it, a match returns it, and a put adds at most the
  response it is given.\<close>

locale edge_cache_laws =
  fixes env :: "'w residence_env" and held :: "'w \<Rightarrow> residence_request \<Rightarrow> worker_response option"
  assumes get_keeps: "held (snd (rz_get env k w)) = held w"
    and match_held: "rz_cache env = Some ec \<Longrightarrow> ec_match ec req w = (r, w1) \<Longrightarrow>
      held w1 = held w \<and> (\<forall>resp. r = Inr (Some resp) \<longrightarrow> held w req = Some resp)"
    and put_adds: "rz_cache env = Some ec \<Longrightarrow> ec_put ec req resp w = (u, w1) \<Longrightarrow> held w1 q = Some x \<Longrightarrow>
      held w q = Some x \<or> (q = req \<and> x = resp)"

text \<open>A tile's answer: the cells of the configured version below the parent in the path, in ascending order.\<close>

definition tile_answered :: "residence_request \<Rightarrow> 'w residence_env \<Rightarrow> worker_response \<Rightarrow> bool" where
  "tile_answered req env resp \<longleftrightarrow> (\<exists>c p t. readConfig env = Inr c \<and> parseTilePath (url_pathname (rq_url req)) = Some p
     \<and> resp = tileJsonResponse (tile_json t) 200 TILE_CACHE_CONTROL \<and> wf_tile t
     \<and> rt_allowlist_version t = cf_allowlistVersion c \<and> rt_geo_resolution t = cf_geoResolution c
     \<and> tp_allowlistVersion p = cf_allowlistVersion c \<and> tp_geoResolution p = cf_geoResolution c
     \<and> rt_parent_h3_index t = show_nat (hex_number (tp_parentHex p)))"

lemma parseTileBytes_Inr:
  "parseTileBytes env bs c p = Inr t \<Longrightarrow> wf_tile t \<and> rt_allowlist_version t = cf_allowlistVersion c
     \<and> rt_geo_resolution t = cf_geoResolution c \<and> rt_parent_h3_index t = show_nat (hex_number (tp_parentHex p))"
  by (auto simp: parseTileBytes_def Let_def meets_def split: sum.splits if_splits dest!: parse_tile_Inr)

context edge_cache_laws
begin

definition held_ok :: "'w residence_state \<Rightarrow> bool" where
  "held_ok s \<longleftrightarrow> (\<forall>req resp. held (sw_world s) req = Some resp \<longrightarrow> tile_answered req env resp)"

lemma held_call: "serves held_ok (serve_call (rz_get env k)) (\<lambda>_. True)"
  by (rule serves_call) (simp add: held_ok_def get_keeps)

lemma held_match: "serves held_ok (match_cache env req) (none_or (tile_answered req env))"
proof (cases "rz_cache env")
  case (Some ec)
  show ?thesis
  proof (rule servesI)
    fix s r s' assume ok: "held_ok s" and run: "match_cache env req s = (r, s')"
    obtain q w where q: "ec_match ec req (sw_world s) = (q, w)" by fastforce
    note m = match_held [OF Some q]
    from run q have "s' = s\<lparr>sw_world := w\<rparr>" and r: "r = (case q of Inl e \<Rightarrow> Inl (OtherResidenceError e) | Inr x \<Rightarrow> Inr x)"
      by (auto simp: match_cache_def Some serve_call_def split: sum.splits)
    with ok m have "held_ok s'" by (simp add: held_ok_def)
    with r m ok show "held_ok s' \<and> (case r of Inl e \<Rightarrow> refused e | Inr x \<Rightarrow> none_or (tile_answered req env) x)"
      by (auto simp: held_ok_def none_or_def split: sum.splits option.splits)
  qed
qed (simp add: match_cache_def serves_return)

lemma held_put: "tile_answered req env resp \<Longrightarrow> serves held_ok (put_cache env req resp) (\<lambda>_. True)"
proof (cases "rz_cache env")
  case (Some ec)
  assume resp: "tile_answered req env resp"
  have "serves held_ok (serve_detached (ec_put ec req resp)) (\<lambda>_. True)"
  proof (rule servesI)
    fix s r s' assume ok: "held_ok s" and run: "serve_detached (ec_put ec req resp) s = (r, s')"
    obtain q w where q: "ec_put ec req resp (sw_world s) = (q, w)" by fastforce
    from run q have "s' = s\<lparr>sw_world := w\<rparr>" "r = Inr ()" by (auto simp: serve_detached_def)
    with put_adds [OF Some q] ok resp show "held_ok s' \<and> (case r of Inl e \<Rightarrow> refused e | Inr x \<Rightarrow> True)"
      by (auto simp: held_ok_def)
  qed
  then show ?thesis by (auto simp: put_cache_def Some intro: serves_intros)
qed (simp add: put_cache_def serves_return)

lemma held_tile:
  assumes c: "readConfig env = Inr c" and p: "parseTilePath (url_pathname (rq_url req)) = Some p"
  shows "serves held_ok (handleTile req env c p) (tile_answered req env)"
proof -
  have bytes: "serves held_ok (run_check (parseTileBytes env bs c p)) (\<lambda>t. parseTileBytes env bs c p = Inr t)" for bs
    by (rule serves_check) (auto dest: parseTileBytes_refused)
  have made: "tile_answered req env (tileJsonResponse (tile_json t) 200 TILE_CACHE_CONTROL)"
    if "parseTileBytes env bs c p = Inr t" and "\<not> (tp_allowlistVersion p \<noteq> cf_allowlistVersion c \<or> tp_geoResolution p \<noteq> cf_geoResolution c)"
    for bs t
    using parseTileBytes_Inr [OF that(1)] that(2) c p unfolding tile_answered_def by blast
  show ?thesis
    unfolding handleTile_def
    by (intro serves_intros serves_bind [OF held_match] serves_bind [OF held_call] serves_bind [OF bytes]
        serves_bind [OF held_put] made) auto
qed

lemma held_cell: "serves held_ok (serve_cell env c i) (\<lambda>_. True)"
proof -
  have parsed: "serves held_ok (run_check (parseProofManifestJson env t)) (\<lambda>_. True)" for t
    by (rule serves_check) (auto simp: parseProofManifestJson_def split: sum.splits)
  have read: "serves held_ok (read_residence_manifest env c) (\<lambda>_. True)"
    unfolding read_residence_manifest_def
    by (intro serves_intros serves_bind [OF held_call] serves_bind [OF parsed]) auto
  have load: "serves held_ok (load_residence_manifest env c) (\<lambda>_. True)"
  proof (rule servesI)
    fix s r s' assume ok: "held_ok s" and run: "load_residence_manifest env c s = (r, s')"
    obtain q s1 where q: "read_residence_manifest env c s = (q, s1)" by fastforce
    with read ok have q1: "held_ok s1 \<and> (case q of Inl e \<Rightarrow> refused e | Inr x \<Rightarrow> True)"
      unfolding serves_def by blast
    with q ok run show "held_ok s' \<and> (case r of Inl e \<Rightarrow> refused e | Inr x \<Rightarrow> True)"
      by (auto simp: load_residence_manifest_def run_bind_def held_ok_def split: option.splits sum.splits)
  qed
  have shard: "serves held_ok (run_check (parseProofShardJson env t inventory m)) (\<lambda>_. True)" for t inventory m
    by (rule serves_check) (auto simp: parseProofShardJson_def split: sum.splits)
  have shards: "serves held_ok (load_residence_shard env inventory m) (\<lambda>_. True)" for inventory m
    unfolding load_residence_shard_def
    by (intro serves_intros serves_bind [OF held_call] serves_bind [OF shard]) auto
  show ?thesis
    unfolding serve_cell_def
    by (intro serves_intros serves_bind [OF load] serves_bind [OF serves_plain] serves_bind [OF shards]) auto
qed

lemma held_request:
  "serves held_ok (handleResidenceProofRequestUnchecked req env)
     (\<lambda>resp. rq_method req = ''GET'' \<longrightarrow> parseTilePath (url_pathname (rq_url req)) \<noteq> None \<longrightarrow> tile_answered req env resp)"
proof -
  have config: "serves held_ok (run_check (readConfig env)) (\<lambda>c. readConfig env = Inr c)"
    by (rule serves_check) (auto dest: readConfig_refused)
  have index: "serves held_ok (run_check (parseRequestH3Index p r)) (\<lambda>_. True)" for p r
    by (rule serves_check) (auto simp: parseRequestH3Index_def split: sum.splits)
  have meta: "serves held_ok (handleTileMeta env c) (\<lambda>_. True)" for c
    unfolding handleTileMeta_def
    by (intro serves_bind [OF serves_tile_manifest] serves_intros held_call) (auto simp: held_ok_def)
  have no_meta: "parseTilePath TILE_META_PATH = None"
    by (simp add: parseTilePath_def match_tile_path_def TILE_META_PATH_def after_def starts_with_def)
  have tiles: "serves held_ok (handleResidenceTileRequest req env c)
      (\<lambda>resp. rq_method req = ''GET'' \<longrightarrow> parseTilePath (url_pathname (rq_url req)) \<noteq> None \<longrightarrow> tile_answered req env resp)"
    if "readConfig env = Inr c" for c
    unfolding handleResidenceTileRequest_def
    by (intro serves_intros serves_weaken [OF meta] serves_weaken [OF held_tile [OF that]]) (auto simp: no_meta)
  have cell: "serves held_ok (serve_cell env c i) (\<lambda>_. True)" for c i
    by (rule held_cell)
  have no_tile: "parseTilePath p = None" if "\<not> isResidenceTilePath p" for p
    using that by (cases "match_tile_path p") (auto simp: isResidenceTilePath_def parseTilePath_def)
  show ?thesis
    unfolding handleResidenceProofRequestUnchecked_def
    by (intro serves_intros serves_bind [OF config] tiles serves_bind [OF index] serves_weaken [OF cell])
      (auto simp: no_tile)
qed

lemma history_held:
  assumes "residence_history env R w0 s" and "\<And>q. held w0 q = None"
    and "\<And>w w1 q x. R w w1 \<Longrightarrow> held w1 q = Some x \<Longrightarrow> held w q = Some x"
  shows "held_ok s"
  using assms(1)
proof (induction rule: residence_history.induct)
  case started
  then show ?case by (simp add: held_ok_def assms(2))
next
  case (answered s req r s')
  then show ?case using answered_serves [OF held_request] by blast
next
  case (elsewhere s w)
  then show ?case using assms(3) by (auto simp: held_ok_def)
qed

end

section \<open>A cache that is a map\<close>

text \<open>The service over the objects \<open>files\<close>, with an edge cache that keeps every response.\<close>

definition edge_map :: "(residence_request \<Rightarrow> worker_response option) edge_cache" where
  "edge_map = \<lparr>ec_match = (\<lambda>q w. (Inr (w q), w)), ec_put = (\<lambda>q resp w. (Inr (), w(q \<mapsto> resp)))\<rparr>"

definition over_edge ::
    "(string \<Rightarrow> bytes option) \<Rightarrow> (residence_request \<Rightarrow> worker_response option) residence_env
      \<Rightarrow> (residence_request \<Rightarrow> worker_response option) residence_env" where
  "over_edge files env = env\<lparr>rz_get := (\<lambda>k w. (Inr (files k), w)), rz_cache := Some edge_map, rz_ctx := True\<rparr>"

interpretation mapped_edge: edge_cache_laws "over_edge files env" "\<lambda>w. w"
  for files and env :: "(residence_request \<Rightarrow> worker_response option) residence_env"
  by unfold_locales (auto simp: over_edge_def edge_map_def split: if_splits)

section \<open>A deployment of one cell\<close>

definition demo_leaf :: string where
  "demo_leaf = hashLeafBytes checksum32 (le_bytes 8 607985949711794175 @ [7] @ le_bytes 8 1)"

definition demo_inventory :: inventory_entry where
  "demo_inventory = \<lparr>ie_shard_id = 0, ie_object_key = ''residence-cells/v1/res7/proofs/shards/00000.json.gz'',
     ie_proof_count = 1, ie_sha256 = sha256Hex checksum32 [1], ie_byte_size = 1\<rparr>"

definition demo_residence_manifest :: residence_manifest where
  "demo_residence_manifest = \<lparr>rm_allowlist_version = 1, rm_geo_resolution = 7, rm_merkle_root = demo_leaf,
     rm_shard_count = 1, rm_total_proof_count = 1, rm_shards = [demo_inventory]\<rparr>"

definition demo_manifest_json :: js_value where
  "demo_manifest_json = JObj
     [(''schema'', JStr PROOF_MANIFEST_SCHEMA), (''schema_version'', jint 1), (''allowlist_version'', jint 1),
      (''geo_resolution'', jint 7), (''merkle_root'', JStr demo_leaf), (''shard_count'', jint 1),
      (''total_proof_count'', jint 1), (''object_key_rule'', JStr PROOF_SHARD_OBJECT_KEY_RULE),
      (''shards'', JArr [inventory_json demo_inventory])]"

definition demo_shard_json :: js_value where
  "demo_shard_json = JObj
     [(''schema'', JStr PROOF_SHARD_SCHEMA), (''schema_version'', jint 1), (''allowlist_version'', jint 1),
      (''geo_resolution'', jint 7), (''merkle_root'', JStr demo_leaf), (''shard_id'', jint 0), (''shard_count'', jint 1),
      (''proofs'', JArr [residence_entry_json
        \<lparr>re_h3_index = ''607985949711794175'', re_leaf_hash = demo_leaf, re_proof = []\<rparr>])]"

definition demo_tile :: residence_tile where
  "demo_tile = \<lparr>rt_allowlist_version = 1, rt_geo_resolution = 7, rt_merkle_root = demo_leaf,
     rt_parent_h3_index = ''594475159402840063'', rt_cells = [''607985949711794175'']\<rparr>"

definition demo_files :: "string \<Rightarrow> bytes option" where
  "demo_files k =
     (if k = ''residence-cells/v1/res7/proofs/proof_manifest.json'' then Some (text_bytes ''m'')
      else if k = ''residence-cells/v1/res7/proofs/shards/00000.json.gz'' then Some [1]
      else if k = ''residence-cells/v1/res7/tiles/res4/8400001ffffffff.json'' then Some (text_bytes ''t'') else None)"

definition demo_residence :: "(residence_request \<Rightarrow> worker_response option) residence_env" where
  "demo_residence = over_edge demo_files
     \<lparr>rz_get = (\<lambda>k w. (Inr None, w)), rz_allowlist_version = jint 1, rz_geo_resolution = jint 7, rz_cache = None,
      rz_ctx = True, rz_sha = checksum32, rz_number = (\<lambda>s. JNonFinite),
      rz_json_parse = (\<lambda>s. Inr (if s = ''m'' then demo_manifest_json else if s = ''s'' then demo_shard_json else tile_json demo_tile)),
      rz_gunzip = (\<lambda>bs. Some ''s'')\<rparr>"

definition demo_request :: "string \<Rightarrow> residence_request" where
  "demo_request pathname = \<lparr>rq_method = ''GET'', rq_url = \<lparr>url_protocol = ''https:'', url_hostname = ''h'', url_port = [],
     url_username = [], url_password = [], url_pathname = pathname, url_search = [],
     url_params = [(''h3_index'', ''607985949711794175'')]\<rparr>\<rparr>"

definition demo_residence_config :: residence_config where
  "demo_residence_config = \<lparr>cf_allowlistVersion = 1, cf_geoResolution = 7\<rparr>"

lemma demo_residence_simps [simp]:
  "rz_get demo_residence k w = (Inr (demo_files k), w)" "rz_sha demo_residence = checksum32"
  "rz_json_parse demo_residence s = Inr (if s = ''m'' then demo_manifest_json else if s = ''s'' then demo_shard_json else tile_json demo_tile)"
  "rz_gunzip demo_residence bs = Some ''s''" "rz_cache demo_residence = Some edge_map" "rz_ctx demo_residence"
  "readConfig demo_residence = Inr demo_residence_config"
  by (simp_all add: demo_residence_def over_edge_def readConfig_def parseConfigInteger_def isSafeInteger_def
      MAX_SAFE_INTEGER_def demo_residence_config_def Let_def)

lemma demo_leaf_hex [simp]: "is_prefixed_hex32 demo_leaf"
  by (simp add: demo_leaf_def hashLeafBytes_def sha256Hex_def checksum32_def)

lemma demo_inventory_wf: "wf_inventory demo_inventory"
  by (simp add: wf_inventory_def demo_inventory_def MAX_SAFE_INTEGER_def sha256Hex_def checksum32_def)

lemma demo_object_key: "expectedProofShardObjectKey 1 7 0 = Inr (ie_object_key demo_inventory)"
proof -
  have "show_int 1 = ''1''" "show_int 7 = ''7''" "show_int 0 = ''0''" "padStart5 ''0'' = ''00000''" by code_simp+
  then show ?thesis
    by (simp add: expectedProofShardObjectKey_def assertNonNegativeSafeInteger_def isSafeInteger_def MAX_SAFE_INTEGER_def
        demo_inventory_def)
qed

lemma demo_inventory_loop: "inventory_loop 1 7 1 [inventory_json demo_inventory] {} 0 = Inr ([demo_inventory], {0}, 1)"
proof -
  have "ie_shard_id demo_inventory = 0" "ie_proof_count demo_inventory = 1" by (simp_all add: demo_inventory_def)
  then show ?thesis
    by (simp add: parseInventoryEntry_json [OF demo_inventory_wf] validateProofShardInventoryEntry_def demo_object_key
        js_add_def round_to_double_def)
qed

lemma demo_manifest_parsed: "parseProofShardManifest demo_manifest_json = Inr demo_residence_manifest"
  unfolding parseProofShardManifest_def demo_manifest_json_def
  by (simp add: res_simps get_field_def expectKeys_same RESIDENCE_MANIFEST_KEYS_def PROOF_SCHEMA_VERSION_def
      MAX_SAFE_INTEGER_def demo_inventory_loop first_missing_def demo_residence_manifest_def
      del: inventory_loop.simps)

lemma demo_entry_parsed:
  "parseProofShardEntry (residence_entry_json \<lparr>re_h3_index = ''607985949711794175'', re_leaf_hash = demo_leaf, re_proof = []\<rparr>)
   = Inr \<lparr>re_h3_index = ''607985949711794175'', re_leaf_hash = demo_leaf, re_proof = []\<rparr>"
  unfolding parseProofShardEntry_def residence_entry_json_def res_simps by (simp add: get_field_def)

lemma demo_shard_parsed:
  "parseProofShard demo_shard_json (shard_of demo_residence_manifest 0) = Inr \<lparr>rs_allowlist_version = 1, rs_geo_resolution = 7,
     rs_merkle_root = demo_leaf, rs_shard_id = 0, rs_shard_count = 1,
     rs_proofs = [\<lparr>re_h3_index = ''607985949711794175'', re_leaf_hash = demo_leaf, re_proof = []\<rparr>]\<rparr>"
  unfolding parseProofShard_def demo_shard_json_def
  by (simp add: res_simps get_field_def SHARD_KEYS_def PROOF_SCHEMA_VERSION_def MAX_SAFE_INTEGER_def demo_entry_parsed
      shard_of_def demo_residence_manifest_def)

lemma demo_shard_id: "proofShardId checksum32 607985949711794175 1 = Inr 0"
proof -
  obtain i where "proofShardId checksum32 607985949711794175 1 = Inr i" "0 \<le> i" "i < 1"
    by (rule proofShardId_total [OF sha256_ok_checksum32, of 607985949711794175 1]) (simp_all add: U64_MAX_def)
  then show ?thesis by simp
qed

lemma demo_validated:
  "validateProofEntry checksum32 (residence_entry_json \<lparr>re_h3_index = ''607985949711794175'', re_leaf_hash = demo_leaf, re_proof = []\<rparr>)
     (shard_of demo_residence_manifest 0)
   = Inr \<lparr>ve_h3Index = \<lparr>decimal = ''607985949711794175'', h3_value = 607985949711794175\<rparr>, ve_leafHash = demo_leaf,
       ve_merkleRoot = demo_leaf, ve_proof = []\<rparr>"
proof -
  have leaf: "leafHash checksum32 607985949711794175 7 1 = Inr demo_leaf"
    by (simp add: leafHash_def demo_leaf_def U64_MAX_def)
  have "replayProof checksum32 demo_leaf [] = Inr demo_leaf"
    using bytesToPrefixedHex_hexToBytes [OF demo_leaf_hex] by (simp add: replayProof_def expectPrefixedHex32_def)
  with leaf show ?thesis
    by (simp add: validateProofEntry_def demo_entry_parsed shard_of_def demo_residence_manifest_def worker_index demo_shard_id
        expectPrefixedHex32_def)
qed

definition fresh_state :: "'w \<Rightarrow> 'w residence_state" where
  "fresh_state w = \<lparr>sw_world = w, sw_manifests = Map.empty, sw_tile_manifests = Map.empty\<rparr>"

lemma demo_digits: "show_int 1 = ''1''" "show_int 7 = ''7''"
  by code_simp+

lemma demo_text: "utf8_text [109] = ''m''" "utf8_text [116] = ''t''"
  by code_simp+

lemma demo_loaded:
  "\<exists>s1. load_residence_manifest demo_residence demo_residence_config (fresh_state w) = (Inr demo_residence_manifest, s1)"
proof -
  have "proofManifestObjectKey demo_residence_config = ''residence-cells/v1/res7/proofs/proof_manifest.json''"
    by (simp add: proofManifestObjectKey_def version_path_def demo_residence_config_def demo_digits)
  moreover have "rm_allowlist_version demo_residence_manifest = 1" "rm_geo_resolution demo_residence_manifest = 7"
    by (simp_all add: demo_residence_manifest_def)
  ultimately show ?thesis
    by (simp add: load_residence_manifest_def read_residence_manifest_def fresh_state_def run_bind_def serve_call_def demo_files_def
        run_check_def parseProofManifestJson_def demo_text demo_manifest_parsed run_return_def demo_residence_config_def)
qed

lemma demo_shard_loaded:
  "load_residence_shard demo_residence demo_inventory demo_residence_manifest s = (Inr \<lparr>rs_allowlist_version = 1,
     rs_geo_resolution = 7, rs_merkle_root = demo_leaf, rs_shard_id = 0, rs_shard_count = 1,
     rs_proofs = [\<lparr>re_h3_index = ''607985949711794175'', re_leaf_hash = demo_leaf, re_proof = []\<rparr>]\<rparr>, s)"
proof -
  have "demo_files (ie_object_key demo_inventory) = Some [1]" "ie_byte_size demo_inventory = 1" "ie_shard_id demo_inventory = 0"
    "ie_sha256 demo_inventory = sha256Hex checksum32 [1]" "ie_proof_count demo_inventory = 1"
    by (simp_all add: demo_inventory_def demo_files_def)
  then show ?thesis
    by (simp add: load_residence_shard_def run_bind_def serve_call_def Let_def run_check_def parseProofShardJson_def
        demo_shard_parsed run_return_def)
qed

lemma demo_cell_answer:
  "\<exists>resp s'. handleResidenceProofRequest (demo_request ''/api/residence-proof'') demo_residence (fresh_state w) = (Inr resp, s')
     \<and> ws_status resp = 200"
proof -
  obtain s1 where "load_residence_manifest demo_residence demo_residence_config (fresh_state w) = (Inr demo_residence_manifest, s1)"
    using demo_loaded by blast
  moreover have "rm_shard_count demo_residence_manifest = 1" "rm_shards demo_residence_manifest = [demo_inventory]"
    "ie_shard_id demo_inventory = 0"
    by (simp_all add: demo_residence_manifest_def demo_inventory_def)
  ultimately have "\<exists>resp s'. serve_cell demo_residence demo_residence_config \<lparr>decimal = ''607985949711794175'', h3_value = 607985949711794175\<rparr>
      (fresh_state w) = (Inr (residenceJsonResponse resp 200), s')"
    by (simp add: serve_cell_def run_bind_def serve_plain_def run_check_def demo_shard_id demo_shard_loaded findProofEntry_def
        demo_validated run_return_def) blast
  moreover have "parseRequestH3Index ''607985949711794175'' 7 = Inr \<lparr>decimal = ''607985949711794175'', h3_value = 607985949711794175\<rparr>"
    by (simp add: parseRequestH3Index_def worker_index)
  ultimately show ?thesis
    by (auto simp: handleResidenceProofRequest_def handleResidenceProofRequestUnchecked_def demo_request_def proof_path_no_tile
        run_catch_def run_bind_def run_check_def demo_residence_config_def residenceJsonResponse_def)
qed

lemma demo_tile_parsed:
  "parseResidenceTile (tile_json demo_tile) \<lparr>tx_allowlistVersion = Some 1, tx_geoResolution = Some 7, tx_merkleRoot = None\<rparr> = Inr demo_tile"
  unfolding parseResidenceTile_def tile_json_def
  by (simp add: res_simps get_field_def TILE_FIELDS_def demo_tile_def MAX_SAFE_INTEGER_def RESIDENCE_TILE_PARENT_RESOLUTION_def
      parent_index worker_index meets_def)

lemma demo_tile_path:
  "match_tile_path ''/api/residence-tiles/v1/res7/8400001ffffffff.json'' = Some (''1'', ''7'', ''8400001ffffffff'')"
  by code_simp

lemma demo_parent: "show_nat (hex_number ''8400001ffffffff'') = ''594475159402840063''"
proof -
  have "hex_number ''8400001ffffffff'' = 594475159402840063"
    by (simp add: hex_number_def hex_val_def is_digit_def)
  moreover have "show_nat 594475159402840063 = ''594475159402840063''"
    using show_read_nat [of "''594475159402840063''"]
    by (simp add: is_canonical_decimal_def is_digit_def read_nat_def digit_val_def)
  ultimately show ?thesis by simp
qed

lemma demo_parsed_path:
  "parseTilePath ''/api/residence-tiles/v1/res7/8400001ffffffff.json''
   = Some \<lparr>tp_allowlistVersion = 1, tp_geoResolution = 7, tp_parentHex = ''8400001ffffffff''\<rparr>"
  by (simp add: parseTilePath_def demo_tile_path safe_digits_def parseInt10_small read_nat_def digit_val_def isSafeInteger_def
      MAX_SAFE_INTEGER_def)

lemma demo_tile_answer:
  "\<exists>resp s'. handleResidenceProofRequest (demo_request ''/api/residence-tiles/v1/res7/8400001ffffffff.json'') demo_residence
       (fresh_state Map.empty) = (Inr resp, s') \<and> ws_status resp = 200"
proof -
  have key: "tileObjectKey 1 7 ''8400001ffffffff'' = ''residence-cells/v1/res7/tiles/res4/8400001ffffffff.json''"
    by (simp add: tileObjectKey_def version_path_def demo_digits)
  have parent: "rt_parent_h3_index demo_tile = ''594475159402840063''" by (simp add: demo_tile_def)
  have tile: "isResidenceTilePath ''/api/residence-tiles/v1/res7/8400001ffffffff.json''"
    by (simp add: isResidenceTilePath_def demo_tile_path)
  have "TILE_META_PATH \<noteq> ''/api/residence-tiles/v1/res7/8400001ffffffff.json''" by (simp add: TILE_META_PATH_def)
  then show ?thesis
    by (simp add: handleResidenceProofRequest_def handleResidenceProofRequestUnchecked_def demo_request_def tile
        run_catch_def run_bind_def run_check_def Let_def handleResidenceTileRequest_def demo_parsed_path handleTile_def demo_residence_config_def
        match_cache_def edge_map_def serve_call_def fresh_state_def key demo_files_def parseTileBytes_def demo_text
        demo_tile_parsed demo_parent parent put_cache_def serve_detached_def run_return_def tileJsonResponse_def)
qed

section \<open>Properties\<close>

text \<open>C10. Every residence proof that is served verifies: whatever requests came before and however the world changed
  between them, an answer 200 on the proof path is for the cell that was asked for, and the leaf of that cell under the
  configured version leads along the proof in the body to the root in the body, that of a well-formed manifest of the
  configured version.\<close>

theorem residence_proof_served:
  assumes "residence_history env R w0 s" and "handleResidenceProofRequest req env s = (Inr resp, s')"
    and "ws_status resp = 200" and "url_pathname (rq_url req) = ''/api/residence-proof''"
  shows "cell_answered req env resp"
  using answered_serves [OF unchecked_serves assms(2) history_caches [OF assms(1)]] assms(3,4) by blast

theorem residence_proof_served_witness:
  "\<exists>resp s'. handleResidenceProofRequest (demo_request ''/api/residence-proof'') demo_residence (fresh_state Map.empty) = (Inr resp, s')
     \<and> ws_status resp = 200 \<and> cell_answered (demo_request ''/api/residence-proof'') demo_residence resp"
proof -
  let ?req = "demo_request ''/api/residence-proof''"
  have start: "residence_history demo_residence (\<lambda>_ _. True) Map.empty (fresh_state Map.empty)"
    unfolding fresh_state_def by (rule residence_history.started)
  have path: "url_pathname (rq_url ?req) = ''/api/residence-proof''" by (simp add: demo_request_def)
  obtain resp s' where run: "handleResidenceProofRequest ?req demo_residence (fresh_state Map.empty) = (Inr resp, s')"
    "ws_status resp = 200" using demo_cell_answer by blast
  from residence_proof_served [OF start run path] run show ?thesis by blast
qed



end
