(* ===== verification/Spec2Isabelle.thy ===== *)
theory Spec2Isabelle
  imports Prelude Bytes Schema Merkle H3 AffectedCells ProofManifest OraclePayload EventRow
    Effects RepoInterface MemRepo MemRepoProps Scheduler SchedulerProps
    DynamoRepo TableService DynamoContract TableDb DynamoProps DynamoRefines
    RunnerShell RunnerContracts TeeResult Relayer SourceArchive SourceArchiveProps SourceFetch EnclaveRegistration Census CensusReader CensusAdapter
    ProofRegistrar RunnerConfig RunnerControl RunnerControlProps OnchainRevision Usgs HttpAdapters
    WorkerArtifacts WorkerStore ProofWorker ProofWorkerProps WorkerService
    Identity ResidenceTiles ResidenceProofs ResidenceService ResidenceProps
begin

text \<open>
  Sonari pays disaster relief on a chain of contracts.  Enclaves sign what happened and who somebody is; the
  TypeScript modelled here decides which earthquake is verified when, runs the enclave, checks and archives what it
  answers, submits it to the chain, and serves the inclusion proofs a claim needs.  Paths below are under \<open>src/\<close>.

  \<^bold>\<open>How the parts work together.\<close>  A watcher (\<open>nautilus/verifiers/earthquake/watcher\<close>) screens the USGS feed into rows of a
  table.  Its scheduler picks a due row, takes the runner lock and starts an execution of the runner workflow.  The
  workflow's actions start a machine, send the enclave a command, read its signed result, archive its sources, submit it
  through the relayer (\<open>earthquake/relayer\<close>), register its affected cells with the proof service
  (\<open>packages/affected-cells-proof-worker\<close>) and run the floor census; each outcome is written to the row, fenced by the
  number of the attempt.  The proof service stores Merkle proofs in a bucket and serves them; the residence service
  (\<open>packages/residence-proof-worker\<close>) does the same for the allowlist of residence cells.  \<open>packages/proof-core\<close> holds what
  they share, and \<open>membership/shared\<close> the signed result of an identity verification.

  \<^bold>\<open>Conventions.\<close>  A JSON value is a \<open>js_value\<close>: an object is the list of its properties, a number a rational, and NaN and the
  infinities one value.  A text is its UTF-8 bytes.  A thrown error is the left value of a sum and carries its message,
  and where callers look at it its code; every throw and early return of the source is a branch.  A call with effects is a
  function of the state it works on (\<open>Effects\<close>); what was written before an error stays written.  Integers that wrap or
  are stored in a width are words or taken modulo the width, sums of doubles are rounded as doubles.  The cloud and
  chain clients, \<open>fetch\<close>, \<open>JSON.parse\<close>, \<open>URL\<close>, hashes, signers and the text of a number that is not an integer are parameters;
  a property names what it relies on of them.  Calls of one process do not overlap: concurrency is that of processes, and
  enters as the stale reads, lost answers and foreign writes of the table service and as arbitrary changes of the world.

  \<^bold>\<open>The theories.\<close>

  \<^item> \<open>Prelude\<close>, \<open>Effects\<close>: results, optional values, strings, listings; computations over a state with the rules
    \<open>keeps\<close>, \<open>triple\<close> and \<open>rets\<close>.
  \<^item> \<open>Bytes\<close>, \<open>Schema\<close>, \<open>Merkle\<close>, \<open>H3\<close>, \<open>AffectedCells\<close>, \<open>ProofManifest\<close>: \<open>packages/proof-core/src\<close>, one theory per file or pair
    of files.  The lemmas give each encoder its bytes as one formula and its inverse, replay every proof that is made, and
    characterise the parsers.
  \<^item> \<open>OraclePayload\<close>: \<open>earthquake/shared/src/index.ts\<close>, the payload, its BCS bytes and the input validators.
  \<^item> \<open>EventRow\<close>, \<open>RepoInterface\<close>, \<open>MemRepo\<close>, \<open>DynamoRepo\<close>: \<open>watcher/src/state.ts\<close>, a row and its updates, the repository as a record
    of methods, and its two implementations.  \<open>RepoInterface\<close> states the contract as a locale; \<open>MemRepoProps\<close> and
    \<open>DynamoContract\<close> show that both keep it.
  \<^item> \<open>TableService\<close>: what the repository relies on of its table, as a locale over the rows, the lock and every version a stale
    read may return.  \<open>TableDb\<close> interprets it on a table that is a list of items and returns its scans in pages.
    \<open>DynamoProps\<close> derives the properties of every history of calls, \<open>DynamoRefines\<close> that on a strongly consistent table
    each method does what the in-memory one does.
  \<^item> \<open>Scheduler\<close>, \<open>SchedulerProps\<close>, \<open>OnchainRevision\<close>, \<open>Usgs\<close>: \<open>watcher/src/index.ts\<close>, \<open>onchain_revision.ts\<close>, \<open>lambda.ts\<close> (the reader)
    and \<open>usgs.ts\<close>.
  \<^item> \<open>RunnerShell\<close>, \<open>RunnerContracts\<close>: \<open>verifiers/common/contracts/src\<close>, quoting of shell words, commands and leases.
  \<^item> \<open>TeeResult\<close>, \<open>SourceArchive\<close>, \<open>SourceArchiveProps\<close>, \<open>SourceFetch\<close>, \<open>EnclaveRegistration\<close>, \<open>ProofRegistrar\<close>, \<open>RunnerConfig\<close>, \<open>RunnerControl\<close>,
    \<open>RunnerControlProps\<close>: \<open>watcher/src/runner_workflow.ts\<close> and \<open>affected_cells_proof_registrar.ts\<close>, from the reading of a
    result to the handler of every action.  A locale states the fence of an attempt over a repository; it is
    interpreted on the memory repository and is a sublocale of the table service.
  \<^item> \<open>Relayer\<close>, \<open>HttpAdapters\<close>: \<open>earthquake/relayer/src/index.ts\<close>, \<open>watcher/src/relayer_preview.ts\<close> and \<open>trigger_tee.ts\<close>.
  \<^item> \<open>Census\<close>, \<open>CensusReader\<close>, \<open>CensusAdapter\<close>: \<open>watcher/src/census.ts\<close>, counting, reading the chain, submitting.
  \<^item> \<open>WorkerArtifacts\<close>, \<open>WorkerStore\<close>, \<open>ProofWorker\<close>, \<open>ProofWorkerProps\<close>, \<open>WorkerService\<close>: the proof service.  A locale states a
    bucket that keeps what is put into it, and the service registers a file and serves its cells over it; it is
    interpreted on a bucket that is a map.
  \<^item> \<open>Identity\<close>: \<open>membership/shared/src/index.ts\<close>, \<open>world-id-signal.ts\<close> and \<open>identity-statement-hash.ts\<close> of \<open>proof-core\<close>.
  \<^item> \<open>ResidenceTiles\<close>, \<open>ResidenceProofs\<close>, \<open>ResidenceService\<close>, \<open>ResidenceProps\<close>: \<open>residence-tiles.ts\<close> of \<open>proof-core\<close> and the residence
    service.  A locale states what its tiles rely on of the edge cache, and is interpreted on a cache that is a map.

  \<^bold>\<open>What the lemmas show.\<close>  Exclusion and fencing: at most one runner workflow at a time, a superseded attempt changes
  nothing, an action that succeeded is not repeated.  Evidence: nothing is submitted, archived, registered, counted or
  served that was not checked against what was signed.  Encodings: what is signed or hashed determines what it
  means, or two inputs collide under the hash.  Parsers: what they accept, exactly.  Progress: a due event is started,
  a registered cell is served, a scan ends.  Refinement: the table repository does what the in-memory one specifies.

  \<^bold>\<open>Bounds.\<close>  A scan takes fuel for its pages; one more page than the table has items is enough (\<open>dynamo_scan_complete\<close>).
  The reading of revisions takes the number of pages it may ask for, and \<open>revision_pages_enough\<close> says when it is enough.
  The code itself polls a census command at most 60 times and the bootstrap command 5 times; the model recurses on what is
  left of these.  The service of affected cells uses one shard, as its constant says.  \<open>parseInt\<close> and \<open>Number\<close> of decimal text round to a double.

  \<^bold>\<open>Not modelled.\<close>  The source archiver's Lambda and the construction of Lambda handlers over SDK clients; the servers and
  command lines of the runners, which are process control; the membership runner, beyond the result it signs and the
  contracts it shares; the drawing of affected areas, geometry on floating-point coordinates by third-party code; the
  mock adapters, the web client and the scripts; the Move contracts and the Rust enclaves, which are in other
  languages.  Lone surrogates of JavaScript strings have no UTF-8 text and are outside the model.
\<close>

end
